(* ===== verification/Prelude.thy ===== *)
theory Prelude
  imports Main "HOL-Library.Char_ord" "HOL-Library.List_Lexorder" "HOL-Library.Multiset"
begin

section \<open>Shared vocabulary: JavaScript strings, comparators, keyed rows\<close>

text \<open>
  The library functions of the language that the modelled code uses, and the lemmas the
  component theories share. A JavaScript string is a \<^typ>\<open>string\<close> (a list of 8-bit
  characters): code units below 128 are the characters themselves, and text beyond ASCII
  is its UTF-8 encoding, so a length counts bytes there and not UTF-16 code units.
  \<open>js_str\<close> collects the rewrite rules on strings, \<open>comparators\<close> the facts about the
  comparator functions handed to \<open>Array.prototype.sort\<close>.
\<close>

named_theorems js_str \<open>rewrite rules on the string operations\<close>
named_theorems comparators \<open>totality and transitivity of sort comparators\<close>

subsection \<open>Splitting and joining\<close>

fun split_on :: "char \<Rightarrow> string \<Rightarrow> string list" where
  "split_on c [] = [[]]"
| "split_on c (x # xs) =
     (if x = c then [] # split_on c xs
      else (case split_on c xs of [] \<Rightarrow> [[x]] | s # ss \<Rightarrow> (x # s) # ss))"

fun join :: "string \<Rightarrow> string list \<Rightarrow> string" where
  "join sep [] = []"
| "join sep [s] = s"
| "join sep (s # t # ss) = s @ sep @ join sep (t # ss)"

abbreviation slash :: char where "slash \<equiv> CHR ''/''"
abbreviation split_path :: "string \<Rightarrow> string list" where "split_path \<equiv> split_on slash"
abbreviation join_path :: "string list \<Rightarrow> string" where "join_path \<equiv> join ''/''"

lemma split_on_not_Nil [simp]: "split_on c s \<noteq> []"
  by (cases s) (auto split: list.split)

lemma join_Cons [js_str]: "ss \<noteq> [] \<Longrightarrow> join sep (s # ss) = s @ sep @ join sep ss"
  by (cases ss) auto

lemma join_split_on [simp]: "join [c] (split_on c s) = s"
proof (induction s)
  case (Cons x s)
  then show ?case
    by (cases "split_on c s"; cases "tl (split_on c s)") (auto simp: join_Cons)
qed simp

lemma split_on_no_sep: "t \<in> set (split_on c s) \<Longrightarrow> c \<notin> set t"
proof (induction s arbitrary: t)
  case (Cons x s)
  show ?case
  proof (cases "split_on c s")
    case Nil
    then show ?thesis by simp
  next
    case (Cons u us)
    with Cons.prems Cons.IH show ?thesis
      by (auto split: if_splits)
  qed
qed simp

lemma split_on_append_sep:
  "c \<notin> set t \<Longrightarrow> split_on c (t @ c # s) = t # split_on c s"
  by (induction t) auto

lemma split_on_single: "c \<notin> set t \<Longrightarrow> split_on c t = [t]"
  by (induction t) auto

lemma split_join: "\<lbrakk>ss \<noteq> []; \<forall>t\<in>set ss. c \<notin> set t\<rbrakk> \<Longrightarrow> split_on c (join [c] ss) = ss"
proof (induction ss)
  case (Cons t ss)
  then show ?case
    by (cases "ss = []") (simp_all add: split_on_single split_on_append_sep join_Cons)
qed simp

lemma split_on_append:
  "split_on c (s @ c # t) = split_on c s @ split_on c t"
proof (induction s)
  case (Cons x s)
  then show ?case by (cases "split_on c s") auto
qed simp

lemma split_on_inject: "split_on c s = split_on c t \<longleftrightarrow> s = t"
  by (metis join_split_on)

lemma length_split_pos [simp]: "0 < length (split_on c s)"
  by (cases "split_on c s") auto

subsection \<open>Prefixes, trimming, case folding, searching\<close>

definition starts_with :: "string \<Rightarrow> string \<Rightarrow> bool" where
  "starts_with p s \<longleftrightarrow> take (length p) s = p"

definition ends_with :: "string \<Rightarrow> string \<Rightarrow> bool" where
  "ends_with p s \<longleftrightarrow> starts_with (rev p) (rev s)"

lemma starts_with_iff: "starts_with p s \<longleftrightarrow> (\<exists>t. s = p @ t)"
  unfolding starts_with_def by (metis append_eq_conv_conj append_take_drop_id)

lemma starts_with_append [simp, js_str]: "starts_with p (p @ s)"
  by (simp add: starts_with_def)

lemma starts_with_Nil [simp, js_str]: "starts_with [] s"
  by (simp add: starts_with_def)

lemma starts_with_Cons [js_str]:
  "starts_with (a # p) s \<longleftrightarrow> (case s of [] \<Rightarrow> False | b # t \<Rightarrow> a = b \<and> starts_with p t)"
  by (cases s) (auto simp: starts_with_def)

text \<open>The ASCII part of what \<open>String.prototype.trim\<close> and \<open>\\s\<close> cover.\<close>

definition is_ws :: "char \<Rightarrow> bool" where
  "is_ws c \<longleftrightarrow> c \<in> {CHR '' '', CHR 0x09, CHR 0x0A, CHR 0x0B, CHR 0x0C, CHR 0x0D}"

definition trim :: "string \<Rightarrow> string" where
  "trim s = rev (dropWhile is_ws (rev (dropWhile is_ws s)))"

definition lower_char :: "char \<Rightarrow> char" where
  "lower_char c = (let n = of_char c :: nat in if 65 \<le> n \<and> n \<le> 90 then char_of (n + 32) else c)"

definition upper_char :: "char \<Rightarrow> char" where
  "upper_char c = (let n = of_char c :: nat in if 97 \<le> n \<and> n \<le> 122 then char_of (n - 32) else c)"

definition to_lower :: "string \<Rightarrow> string" where "to_lower = map lower_char"
definition to_upper :: "string \<Rightarrow> string" where "to_upper = map upper_char"

lemma to_lower_append [simp, js_str]: "to_lower (s @ t) = to_lower s @ to_lower t"
  and to_lower_Cons [simp, js_str]: "to_lower (c # t) = lower_char c # to_lower t"
  and to_lower_Nil [simp, js_str]: "to_lower [] = []"
  and length_to_lower [simp, js_str]: "length (to_lower s) = length s"
  by (simp_all add: to_lower_def)

lemma lower_char_idem [simp, js_str]: "lower_char (lower_char c) = lower_char c"
proof (cases "65 \<le> (of_char c :: nat) \<and> (of_char c :: nat) \<le> 90")
  case True
  then have "lower_char c = char_of ((of_char c :: nat) + 32)"
    by (simp add: lower_char_def Let_def)
  moreover have "(of_char (char_of ((of_char c :: nat) + 32) :: char) :: nat) = of_char c + 32"
    using True by (simp add: of_char_of)
  ultimately show ?thesis using True by (simp add: lower_char_def Let_def)
next
  case False
  then have "lower_char c = c" by (auto simp: lower_char_def Let_def)
  then show ?thesis by simp
qed

lemma to_lower_idem [simp, js_str]: "to_lower (to_lower s) = to_lower s"
  by (simp add: to_lower_def)

text \<open>\<open>indexOf\<close> from a position, for one character, and \<open>slice\<close>.\<close>

definition index_of :: "char \<Rightarrow> string \<Rightarrow> nat \<Rightarrow> nat option" where
  "index_of c s from =
     (let k = from + length (takeWhile (\<lambda>x. x \<noteq> c) (drop from s))
      in if k < length s then Some k else None)"

definition slice :: "nat \<Rightarrow> nat \<Rightarrow> string \<Rightarrow> string" where
  "slice i j s = take (j - i) (drop i s)"

definition char_at :: "string \<Rightarrow> nat \<Rightarrow> char option" where
  "char_at s i = (if i < length s then Some (s ! i) else None)"

lemma index_of_Some:
  assumes "index_of c s from = Some k"
  shows "from \<le> k" and "k < length s" and "s ! k = c"
    and "\<And>j. \<lbrakk>from \<le> j; j < k\<rbrakk> \<Longrightarrow> s ! j \<noteq> c"
proof -
  let ?t = "takeWhile (\<lambda>x. x \<noteq> c) (drop from s)"
  have k: "k = from + length ?t" and lt: "k < length s"
    using assms by (auto simp: index_of_def Let_def split: if_splits)
  show "from \<le> k" and "k < length s" using k lt by auto
  have "length ?t < length (drop from s)" using k lt by auto
  from nth_length_takeWhile [OF this] have "drop from s ! length ?t = c" by simp
  then show "s ! k = c" using k lt by simp
  fix j assume "from \<le> j" "j < k"
  then have j: "j - from < length ?t" using k by linarith
  then have "?t ! (j - from) \<in> set ?t" by simp
  then have "?t ! (j - from) \<noteq> c" by (auto dest: set_takeWhileD)
  moreover have "?t ! (j - from) = drop from s ! (j - from)" using j by (rule takeWhile_nth)
  moreover have "drop from s ! (j - from) = s ! j"
    using \<open>from \<le> j\<close> \<open>j < k\<close> lt by simp
  ultimately show "s ! j \<noteq> c" by simp
qed

text \<open>\<open>lastIndexOf\<close> of a character, as a split of the string around its last occurrence.\<close>

definition last_index_of :: "char \<Rightarrow> string \<Rightarrow> nat option" where
  "last_index_of c s =
     (let t = takeWhile (\<lambda>x. x \<noteq> c) (rev s)
      in if length t < length s then Some (length s - 1 - length t) else None)"

text \<open>Decimal numerals, as \<open>String(n)\<close> prints and \<open>Number(digits)\<close> reads them.\<close>

definition digit_char :: "nat \<Rightarrow> char" where
  "digit_char d = char_of (48 + d)"

fun show_nat :: "nat \<Rightarrow> string" where
  "show_nat n = (if n < 10 then [digit_char n] else show_nat (n div 10) @ [digit_char (n mod 10)])"

declare show_nat.simps [simp del]

definition show_int :: "int \<Rightarrow> string" where
  "show_int i = (if i < 0 then CHR ''-'' # show_nat (nat (- i)) else show_nat (nat i))"

text \<open>The same numerals computed on \<open>int\<close>, for evaluation.\<close>

function show_digits :: "int \<Rightarrow> string" where
  "show_digits i = (if i < 10 then [digit_char (nat i)] else show_digits (i div 10) @ [digit_char (nat (i mod 10))])"
  by pat_completeness auto
termination
  by (relation "measure nat") auto

declare show_digits.simps [simp del]

lemma show_digits_nat: "show_digits (int n) = show_nat n"
proof (induction n rule: show_nat.induct)
  case (1 n)
  have "int n div 10 = int (n div 10)" "nat (int n mod 10) = n mod 10" by (simp_all add: zdiv_int nat_mod_distrib)
  with 1 show ?case by (subst show_nat.simps, subst show_digits.simps) auto
qed

lemma show_int_digits [code]: "show_int i = (if i < 0 then CHR ''-'' # show_digits (- i) else show_digits i)"
proof -
  have "show_digits j = show_nat (nat j)" if "0 \<le> j" for j
    using show_digits_nat [of "nat j"] that by simp
  then show ?thesis by (simp add: show_int_def)
qed

definition is_digit :: "char \<Rightarrow> bool" where
  "is_digit c \<longleftrightarrow> 48 \<le> (of_char c :: nat) \<and> (of_char c :: nat) \<le> 57"

definition digit_val :: "char \<Rightarrow> nat" where
  "digit_val c = of_char c - 48"

definition read_nat :: "string \<Rightarrow> nat" where
  "read_nat s = foldl (\<lambda>n c. 10 * n + digit_val c) 0 s"

lemma digit_char_val: "d < 10 \<Longrightarrow> is_digit (digit_char d) \<and> digit_val (digit_char d) = d"
  by (simp add: digit_char_def is_digit_def digit_val_def of_char_of)

lemma read_show_nat [simp]: "read_nat (show_nat n) = n"
proof (induction n rule: show_nat.induct)
  case (1 n)
  then show ?case
    by (subst show_nat.simps) (auto simp: read_nat_def digit_char_val)
qed

lemma show_nat_inject: "show_nat m = show_nat n \<longleftrightarrow> m = n"
  by (metis read_show_nat)

lemma show_nat_digits: "c \<in> set (show_nat n) \<Longrightarrow> is_digit c"
proof (induction n rule: show_nat.induct)
  case (1 n)
  show ?case
  proof (cases "n < 10")
    case True
    then have "show_nat n = [digit_char n]" by (subst show_nat.simps) simp
    with "1.prems" True show ?thesis by (simp add: digit_char_val)
  next
    case False
    then have "show_nat n = show_nat (n div 10) @ [digit_char (n mod 10)]"
      by (subst show_nat.simps) simp
    with "1.prems" "1.IH" [OF False] show ?thesis
      by (auto simp: digit_char_val)
  qed
qed

lemma show_nat_not_Nil [simp]: "show_nat n \<noteq> []"
  by (subst show_nat.simps) simp

subsection \<open>Sets and maps with insertion order\<close>

text \<open>A JavaScript \<open>Set\<close> iterates in the order of first insertion.\<close>

definition dedup :: "'a list \<Rightarrow> 'a list" where
  "dedup xs = rev (remdups (rev xs))"

lemma set_dedup [simp]: "set (dedup xs) = set xs"
  and distinct_dedup [simp]: "distinct (dedup xs)"
  by (simp_all add: dedup_def)

text \<open>Keep the first of the rows that share a key.\<close>

fun first_by :: "('a \<Rightarrow> 'k) \<Rightarrow> 'a list \<Rightarrow> 'a list" where
  "first_by f [] = []"
| "first_by f (x # xs) = x # filter (\<lambda>y. f y \<noteq> f x) (first_by f xs)"

lemma set_first_by_subset: "set (first_by f xs) \<subseteq> set xs"
  by (induction xs) auto

lemma key_set_first_by [simp]: "f ` set (first_by f xs) = f ` set xs"
proof (induction xs)
  case (Cons x xs)
  have "f ` {y \<in> A. f y \<noteq> k} = f ` A - {k}" for A k by auto
  with Cons show ?case by simp
qed simp

lemma distinct_first_by: "distinct (map f (first_by f xs))"
proof (induction xs)
  case (Cons x xs)
  then show ?case
    by (auto simp: distinct_map intro: inj_on_subset)
qed simp

lemma find_first_by: "find (\<lambda>y. f y = k) (first_by f xs) = find (\<lambda>y. f y = k) xs"
proof (induction xs)
  case (Cons x xs)
  have "find (\<lambda>y. f y = k) (filter (\<lambda>y. f y \<noteq> f x) ys) = find (\<lambda>y. f y = k) ys"
    if "f x \<noteq> k" for ys
    using that by (induction ys) auto
  with Cons show ?case by simp
qed simp

lemma find_key_Some: "find (\<lambda>y. f y = k) xs = Some y \<Longrightarrow> y \<in> set xs \<and> f y = k"
  by (induction xs) (auto split: if_splits)

lemma find_key_None: "find (\<lambda>y. f y = k) xs = None \<longleftrightarrow> k \<notin> f ` set xs"
  by (induction xs) auto

subsection \<open>Sorting with a comparator\<close>

text \<open>
  \<open>Array.prototype.sort(cmp)\<close> is a stable sort; an insertion sort is the executable
  reference for it. For a comparator that is total and transitive the result does not
  depend on the algorithm.
\<close>

fun ins_by :: "('a \<Rightarrow> 'a \<Rightarrow> int) \<Rightarrow> 'a \<Rightarrow> 'a list \<Rightarrow> 'a list" where
  "ins_by cmp x [] = [x]"
| "ins_by cmp x (y # ys) = (if cmp x y \<le> 0 then x # y # ys else y # ins_by cmp x ys)"

fun sort_by :: "('a \<Rightarrow> 'a \<Rightarrow> int) \<Rightarrow> 'a list \<Rightarrow> 'a list" where
  "sort_by cmp [] = []"
| "sort_by cmp (x # xs) = ins_by cmp x (sort_by cmp xs)"

lemma mset_ins_by [simp]: "mset (ins_by cmp x xs) = add_mset x (mset xs)"
  by (induction xs) auto

lemma mset_sort_by [simp]: "mset (sort_by cmp xs) = mset xs"
  by (induction xs) auto

lemma set_sort_by [simp]: "set (sort_by cmp xs) = set xs"
  using mset_sort_by by (metis set_mset_mset)

lemma length_sort_by [simp]: "length (sort_by cmp xs) = length xs"
  using mset_sort_by by (metis size_mset)

lemma distinct_sort_by [simp]: "distinct (sort_by cmp xs) = distinct xs"
  using mset_sort_by by (metis mset_eq_imp_distinct_iff)

locale comparator =
  fixes cmp :: "'a \<Rightarrow> 'a \<Rightarrow> int"
  assumes cmp_total: "cmp x y \<le> 0 \<or> cmp y x \<le> 0"
    and cmp_trans: "\<lbrakk>cmp x y \<le> 0; cmp y z \<le> 0\<rbrakk> \<Longrightarrow> cmp x z \<le> 0"
begin

lemma set_ins_by: "set (ins_by cmp x xs) = insert x (set xs)"
  by (metis mset_ins_by set_mset_mset set_mset_add_mset_insert)

lemma sorted_ins_by:
  "sorted_wrt (\<lambda>a b. cmp a b \<le> 0) xs \<Longrightarrow> sorted_wrt (\<lambda>a b. cmp a b \<le> 0) (ins_by cmp x xs)"
proof (induction xs)
  case (Cons y ys)
  show ?case
  proof (cases "cmp x y \<le> 0")
    case True
    with Cons.prems cmp_trans show ?thesis by auto
  next
    case False
    with cmp_total have "cmp y x \<le> 0" by blast
    with False Cons show ?thesis by (auto simp: set_ins_by)
  qed
qed simp

lemma sorted_sort_by: "sorted_wrt (\<lambda>a b. cmp a b \<le> 0) (sort_by cmp xs)"
  by (induction xs) (auto intro: sorted_ins_by)

end

locale strict_comparator = comparator +
  assumes cmp_antisym: "\<lbrakk>cmp x y \<le> 0; cmp y x \<le> 0\<rbrakk> \<Longrightarrow> x = y"
begin

lemma sorted_unique:
  "\<lbrakk>sorted_wrt (\<lambda>a b. cmp a b \<le> 0) xs; sorted_wrt (\<lambda>a b. cmp a b \<le> 0) ys; mset xs = mset ys\<rbrakk>
   \<Longrightarrow> xs = ys"
proof (induction xs arbitrary: ys)
  case (Cons x xs)
  from Cons.prems(3) obtain y ys' where ys: "ys = y # ys'" by (cases ys) auto
  have "x \<in> set ys" "y \<in> set (x # xs)"
    using Cons.prems(3) ys by (metis list.set_intros(1) set_mset_mset)+
  with Cons.prems(1,2) ys cmp_antisym have "x = y"
    by auto
  with Cons ys show ?case by simp
qed simp

text \<open>The result depends only on which elements are there, not on their order.\<close>

lemma sort_by_perm: "mset xs = mset ys \<Longrightarrow> sort_by cmp xs = sort_by cmp ys"
  by (rule sorted_unique) (simp_all add: sorted_sort_by)

end

text \<open>Code-unit comparison of strings, the result written as the sign the code returns.\<close>

definition cmp_string :: "string \<Rightarrow> string \<Rightarrow> int" where
  "cmp_string a b = (if a = b then 0 else if a < b then - 1 else 1)"

lemma cmp_string_le [comparators]: "cmp_string a b \<le> 0 \<longleftrightarrow> a \<le> b"
  by (auto simp: cmp_string_def)

subsection \<open>Keyed rows: a table with a primary key\<close>

text \<open>
  A table is the list of its rows in insertion order. \<open>upsert\<close> is
  \<open>INSERT ... ON CONFLICT(key) DO UPDATE\<close>: \<open>f\<close> merges the new row into the stored one.
\<close>

fun upsert :: "('r \<Rightarrow> 'k) \<Rightarrow> ('r \<Rightarrow> 'r \<Rightarrow> 'r) \<Rightarrow> 'r \<Rightarrow> 'r list \<Rightarrow> 'r list" where
  "upsert key f new [] = [new]"
| "upsert key f new (r # rs) =
     (if key r = key new then f r new # rs else r # upsert key f new rs)"

definition lookup_row :: "('r \<Rightarrow> 'k) \<Rightarrow> 'k \<Rightarrow> 'r list \<Rightarrow> 'r option" where
  "lookup_row key k rs = find (\<lambda>r. key r = k) rs"

locale keyed_table =
  fixes key :: "'r \<Rightarrow> 'k" and merge :: "'r \<Rightarrow> 'r \<Rightarrow> 'r"
  assumes merge_key: "key r = key new \<Longrightarrow> key (merge r new) = key new"
begin

lemma upsert_keys: "key ` set (upsert key merge new rs) = insert (key new) (key ` set rs)"
  by (induction rs) (auto simp: merge_key)

lemma upsert_distinct: "distinct (map key rs) \<Longrightarrow> distinct (map key (upsert key merge new rs))"
proof (induction rs)
  case (Cons r rs)
  have "key ` set (upsert key merge new rs) = insert (key new) (key ` set rs)"
    by (rule upsert_keys)
  with Cons show ?case by (auto simp: merge_key)
qed simp

lemma lookup_upsert_same:
  "lookup_row key (key new) (upsert key merge new rs) =
     (case lookup_row key (key new) rs of None \<Rightarrow> Some new | Some r \<Rightarrow> Some (merge r new))"
  by (induction rs) (auto simp: lookup_row_def merge_key)

lemma lookup_upsert_other:
  "k \<noteq> key new \<Longrightarrow> lookup_row key k (upsert key merge new rs) = lookup_row key k rs"
  by (induction rs) (auto simp: lookup_row_def merge_key)

lemma filter_upsert_other:
  "(\<And>r. key r = key new \<Longrightarrow> \<not> P r) \<Longrightarrow> filter P (upsert key merge new rs) = filter P rs"
  by (induction rs) (auto simp: merge_key)

lemma distinct_filter: "distinct (map key rs) \<Longrightarrow> distinct (map key (filter P rs))"
  by (rule distinct_map_filter)

end

end
