(* ===== verification/Replica_Evidence.thy ===== *)
theory Replica_Evidence
  imports Prelude
begin

section \<open>Replication: the observed shapes and the comparisons on them\<close>

text \<open>
  Models \<open>packages/backend-services/src/replication/types.ts\<close> and \<open>evidence.ts\<close>: what one
  side of a replication observed of a path, what both sides looked like when they last
  agreed, and the conservative comparisons the planner rests on.
\<close>

subsection \<open>Shapes\<close>

datatype replication_mode = Copy_only | Sync | Keep_both | Pull_only

datatype winner = Local | Remote

record plan_side =
  ps_path :: string
  ps_isCollection :: bool
  ps_etag :: "string option"
  ps_mtime :: "int option"
  ps_size :: "nat option"
  ps_contentType :: "string option"

record plan_base =
  pb_path :: string
  pb_isCollection :: bool
  pb_localEtag :: "string option"
  pb_localMtime :: "int option"
  pb_localSize :: "nat option"
  pb_remoteEtag :: "string option"
  pb_remoteMtime :: "int option"
  pb_remoteSize :: "nat option"
  pb_contentType :: "string option"

text \<open>The four fields \<open>sideChanged\<close> compares, on either of its arguments.\<close>

record validators =
  v_etag :: "string option"
  v_mtime :: "int option"
  v_size :: "nat option"
  v_isCollection :: bool

definition side_validators :: "plan_side \<Rightarrow> validators" where
  "side_validators s = \<lparr>v_etag = ps_etag s, v_mtime = ps_mtime s, v_size = ps_size s,
     v_isCollection = ps_isCollection s\<rparr>"

definition base_local :: "plan_base \<Rightarrow> validators" where
  "base_local b = \<lparr>v_etag = pb_localEtag b, v_mtime = pb_localMtime b, v_size = pb_localSize b,
     v_isCollection = pb_isCollection b\<rparr>"

definition base_remote :: "plan_base \<Rightarrow> validators" where
  "base_remote b = \<lparr>v_etag = pb_remoteEtag b, v_mtime = pb_remoteMtime b,
     v_size = pb_remoteSize b, v_isCollection = pb_isCollection b\<rparr>"

subsection \<open>Comparisons\<close>

definition compareByPath :: "string \<Rightarrow> string \<Rightarrow> int" where
  "compareByPath a b = (if a = b then 0 else if a < b then - 1 else 1)"

definition sideChanged :: "validators \<Rightarrow> validators \<Rightarrow> bool" where
  "sideChanged current base =
     (if v_isCollection current \<noteq> v_isCollection base then True
      else if v_etag current \<noteq> None \<and> v_etag base \<noteq> None
        then v_etag current \<noteq> v_etag base \<or> v_size current \<noteq> v_size base
      else if v_mtime current \<noteq> None \<and> v_mtime base \<noteq> None
        then v_mtime current \<noteq> v_mtime base \<or> v_size current \<noteq> v_size base
      else v_size current = None \<or> v_size base = None \<or> v_size current \<noteq> v_size base)"

definition sameSizeAndTime :: "plan_side \<Rightarrow> plan_side \<Rightarrow> bool" where
  "sameSizeAndTime a b \<longleftrightarrow>
     ps_size a \<noteq> None \<and> ps_size b \<noteq> None \<and> ps_mtime a \<noteq> None \<and> ps_mtime b \<noteq> None
     \<and> ps_size a = ps_size b \<and> ps_mtime a = ps_mtime b"

definition provablyIdentical :: "plan_side \<Rightarrow> plan_side \<Rightarrow> bool" where
  "provablyIdentical a b =
     (if ps_isCollection a \<noteq> ps_isCollection b then False
      else if ps_isCollection a then True
      else if ps_etag a = None \<or> ps_etag b = None then sameSizeAndTime a b
      else ps_etag a = ps_etag b \<and> ps_size a = ps_size b)"

definition couldBeIdentical :: "plan_side \<Rightarrow> plan_side \<Rightarrow> bool" where
  "couldBeIdentical a b =
     (if ps_isCollection a \<noteq> ps_isCollection b then False
      else if ps_isCollection a then True
      else ps_size a \<noteq> None \<and> ps_size b \<noteq> None \<and> ps_size a = ps_size b)"

definition conflictWinner :: "plan_side \<Rightarrow> plan_side \<Rightarrow> replication_mode \<Rightarrow> winner option" where
  "conflictWinner l r mode =
     (if mode = Copy_only then Some Local
      else if mode = Pull_only then Some Remote
      else if mode = Keep_both \<or> ps_mtime l = None \<or> ps_mtime r = None \<or> ps_mtime l = ps_mtime r
        then None
      else if the (ps_mtime l) > the (ps_mtime r) then Some Local else Some Remote)"

subsection \<open>Naming a conflict copy\<close>

definition max_conflict_stem_length :: nat where "max_conflict_stem_length = 180"

definition parent_prefix :: "string \<Rightarrow> string" where
  "parent_prefix p = (case last_index_of slash p of None \<Rightarrow> [] | Some k \<Rightarrow> take (Suc k) p)"

definition last_name :: "string \<Rightarrow> string" where
  "last_name p = (case last_index_of slash p of None \<Rightarrow> p | Some k \<Rightarrow> drop (Suc k) p)"

definition conflict_base :: "string \<Rightarrow> int \<Rightarrow> string" where
  "conflict_base p nowSeconds =
     (let name = last_name p;
          stem = (if length name > max_conflict_stem_length then take max_conflict_stem_length name else name)
      in parent_prefix p @ stem @ ''.conflict-'' @ show_int nowSeconds)"

text \<open>The \<open>for\<close> loop over the suffixes 2 to 999, from \<open>k\<close> on.\<close>

function next_free :: "string \<Rightarrow> string list \<Rightarrow> nat \<Rightarrow> string option" where
  "next_free base taken k =
     (if k < 1000 then
        (let candidate = base @ ''-'' @ show_nat k
         in if candidate \<notin> set taken then Some candidate else next_free base taken (Suc k))
      else None)"
  by pat_completeness auto
termination
  by (relation "measure (\<lambda>(b, t, k). 1000 - k)") auto

declare next_free.simps [simp del]

text \<open>\<open>rnd\<close> is the string \<open>CryptoUtil.randomBase64Url(4)\<close> would return for this path.\<close>

definition conflictPathFor :: "(string \<Rightarrow> string) \<Rightarrow> string \<Rightarrow> string list \<Rightarrow> int \<Rightarrow> string" where
  "conflictPathFor rnd p taken nowSeconds =
     (let base = conflict_base p nowSeconds
      in if base \<notin> set taken then base
         else (case next_free base taken 2 of Some c \<Rightarrow> c | None \<Rightarrow> base @ ''-'' @ rnd p))"

subsection \<open>Properties of the comparisons\<close>

interpretation path_order: strict_comparator compareByPath
  by unfold_locales (auto simp: compareByPath_def split: if_splits)

lemma sideChanged_refl:
  "sideChanged v v \<longleftrightarrow> v_etag v = None \<and> v_mtime v = None \<and> v_size v = None"
  by (auto simp: sideChanged_def)

text \<open>
  An answer of "unchanged" rests on evidence: the kinds and the sizes agree, and so does a
  validator both sides carry, unless neither validator is shared and the size is known.
\<close>

lemma unchanged_evidence:
  assumes "\<not> sideChanged c b"
  shows "v_isCollection c = v_isCollection b" and "v_size c = v_size b"
    and "v_etag c \<noteq> None \<and> v_etag b \<noteq> None \<Longrightarrow> v_etag c = v_etag b"
    and "v_etag c = None \<or> v_etag b = None \<Longrightarrow>
           (v_mtime c \<noteq> None \<and> v_mtime c = v_mtime b) \<or>
           ((v_mtime c = None \<or> v_mtime b = None) \<and> v_size c \<noteq> None)"
  using assms by (auto simp: sideChanged_def split: if_splits)

lemma provablyIdentical_sym: "provablyIdentical a b = provablyIdentical b a"
  by (auto simp: provablyIdentical_def sameSizeAndTime_def)

lemma provablyIdentical_could:
  "\<lbrakk>provablyIdentical a b; ps_size a \<noteq> None\<rbrakk> \<Longrightarrow> couldBeIdentical a b"
  by (auto simp: provablyIdentical_def sameSizeAndTime_def couldBeIdentical_def split: if_splits)

lemma conflictWinner_mode [simp]:
  "conflictWinner l r Copy_only = Some Local"
  "conflictWinner l r Pull_only = Some Remote"
  "conflictWinner l r Keep_both = None"
  by (simp_all add: conflictWinner_def)

text \<open>Swapping the sides swaps the winner: the tiebreak favours neither side.\<close>

fun other_side :: "winner \<Rightarrow> winner" where
  "other_side Local = Remote"
| "other_side Remote = Local"

lemma conflictWinner_swap:
  "mode \<in> {Sync, Keep_both} \<Longrightarrow>
   conflictWinner r l mode = map_option other_side (conflictWinner l r mode)"
  by (auto simp: conflictWinner_def)

subsection \<open>Freshness of conflict names\<close>

lemma next_free_Some: "next_free base taken k = Some c \<Longrightarrow> c \<notin> set taken"
proof (induction base taken k rule: next_free.induct)
  case (1 base taken k)
  then show ?case
    by (subst (asm) (2) next_free.simps) (auto simp: Let_def split: if_splits)
qed

lemma next_free_None_iff:
  "next_free base taken k = None \<longleftrightarrow> (\<forall>j. k \<le> j \<and> j < 1000 \<longrightarrow> base @ ''-'' @ show_nat j \<in> set taken)"
proof (induction base taken k rule: next_free.induct)
  case (1 base taken k)
  show ?case
  proof (cases "k < 1000 \<and> base @ ''-'' @ show_nat k \<in> set taken")
    case True
    then have "next_free base taken k = next_free base taken (Suc k)"
      by (subst next_free.simps) (simp add: Let_def)
    with "1" True show ?thesis
      by (auto simp: Suc_le_eq) (metis le_neq_implies_less)
  next
    case False
    then show ?thesis
      by (subst next_free.simps) (auto simp: Let_def)
  qed
qed

text \<open>
  The loop misses only when all 998 suffixed names are taken, so fewer than 998 taken names
  with the base as a prefix always leave one free, and the random fallback is not reached.
\<close>

lemma next_free_small:
  assumes "length (filter (starts_with base) taken) < 998"
  shows "next_free base taken 2 \<noteq> None"
proof
  assume "next_free base taken 2 = None"
  then have sub: "(\<lambda>j. base @ ''-'' @ show_nat j) ` {2..<1000} \<subseteq> set (filter (starts_with base) taken)"
    by (auto simp: next_free_None_iff)
  have "inj_on (\<lambda>j. base @ ''-'' @ show_nat j) {2..<1000}"
    by (auto simp: inj_on_def show_nat_inject)
  then have "card ((\<lambda>j. base @ ''-'' @ show_nat j) ` {2..<1000}) = 998"
    by (simp add: card_image)
  moreover have "card ((\<lambda>j. base @ ''-'' @ show_nat j) ` {2..<1000})
      \<le> card (set (filter (starts_with base) taken))"
    using sub by (intro card_mono) auto
  moreover have "card (set (filter (starts_with base) taken)) \<le> length (filter (starts_with base) taken)"
    by (rule card_length)
  ultimately show False using assms by linarith
qed

lemma conflictPathFor_fresh:
  assumes "length (filter (starts_with (conflict_base p s)) taken) < 998"
  shows "conflictPathFor rnd p taken s \<notin> set taken"
  using next_free_small [OF assms]
  by (auto simp: conflictPathFor_def Let_def dest: next_free_Some split: option.split)

text \<open>Names that look like a conflict copy: they hold \<open>.conflict-\<close> somewhere.\<close>

definition conflict_like :: "string \<Rightarrow> bool" where
  "conflict_like s \<longleftrightarrow> list_ex (\<lambda>k. starts_with ''.conflict-'' (drop k s)) [0..<length s]"

lemma conflict_like_append: "conflict_like (s @ ''.conflict-'' @ t)"
proof -
  have "starts_with ''.conflict-'' (drop (length s) (s @ ''.conflict-'' @ t))"
    by (simp add: js_str)
  then show ?thesis
    unfolding conflict_like_def list_ex_iff by (intro bexI [of _ "length s"]) auto
qed

lemma conflict_like_base: "starts_with (conflict_base p s) t \<Longrightarrow> conflict_like t"
  by (auto simp: starts_with_iff conflict_base_def Let_def)
    (metis (no_types) append.assoc append_Cons append_Nil conflict_like_append)+

lemma parent_prefix_last_name: "parent_prefix p @ last_name p = p"
  by (auto simp: parent_prefix_def last_name_def split: option.split)

text \<open>A conflict copy is a sibling: same parent directory as the path it preserves.\<close>

lemma conflictPathFor_parent: "starts_with (parent_prefix p) (conflictPathFor rnd p taken s)"
proof -
  have base: "\<exists>t. conflict_base p s = parent_prefix p @ t"
    by (auto simp: conflict_base_def Let_def)
  moreover have "\<exists>t. c = base @ t" if "next_free base taken k = Some c" for base k c
    using that
  proof (induction base taken k rule: next_free.induct)
    case (1 base taken k)
    then show ?case
      by (subst (asm) (2) next_free.simps) (auto simp: Let_def split: if_splits)
  qed
  ultimately show ?thesis
    unfolding conflictPathFor_def Let_def
    by (auto split: option.split simp: starts_with_iff) (metis append.assoc)
qed

end
