(* ===== verification/Replica_Plan.thy ===== *)
theory Replica_Plan
  imports Replica_Evidence
begin

section \<open>Replication: the three-way sync decision\<close>

text \<open>
  Models \<open>packages/backend-services/src/replication/buildReplicationPlan.ts\<close>. The body of
  the loop over the sorted paths is \<open>decide\<close>, one definition per section of the source's
  loop; a \<^emph>\<open>verdict\<close> is what one iteration emits, with the conflict row it pushes. The
  loop itself is the fold \<open>plan_loop\<close>, and \<open>buildReplicationPlan\<close> orders its result.
\<close>

subsection \<open>Decisions, plans and inputs\<close>

datatype decision =
    Push (d_path: string) (d_contentType: "string option")
  | Pull (d_path: string) (d_contentType: "string option")
  | Delete_remote (d_path: string)
  | Delete_local (d_path: string)
  | Keep_both_copy (d_path: string) winner (d_conflictPath: string)
  | Pull_and_preserve (d_path: string) (d_conflictPath: string) (d_contentType: "string option")
  | Compare_content (d_path: string) winner
  | Agree (d_path: string) bool (d_contentType: "string option")
  | Forget (d_path: string)

datatype conflict_kind = Conflict | Deletion

record conflict_row =
  c_path :: string
  c_winner :: winner
  c_kind :: conflict_kind
  c_conflictPath :: "string option"

record plan_input =
  bi_mode :: replication_mode
  bi_local :: "plan_side list"
  bi_remote :: "plan_side list"
  bi_base :: "plan_base list"
  bi_trustAbsences :: bool
  bi_hashOnAmbiguous :: "bool option"
  bi_mirrorDeletions :: "bool option"
  bi_now :: "int option"

record ordered =
  o_decision :: decision
  o_isCollection :: bool
  o_depth :: nat
  o_order :: nat

record plan =
  p_decisions :: "decision list"
  p_deferredPaths :: "string list"
  p_conflicts :: "conflict_row list"
  p_absencesDeferred :: bool

definition indexByPath :: "('r \<Rightarrow> string) \<Rightarrow> 'r list \<Rightarrow> 'r list" where
  "indexByPath pathOf rows = first_by pathOf (filter (\<lambda>r. pathOf r \<noteq> []) rows)"

definition local_of :: "plan_input \<Rightarrow> string \<Rightarrow> plan_side option" where
  "local_of inp p = lookup_row ps_path p (indexByPath ps_path (bi_local inp))"

definition remote_of :: "plan_input \<Rightarrow> string \<Rightarrow> plan_side option" where
  "remote_of inp p = lookup_row ps_path p (indexByPath ps_path (bi_remote inp))"

definition base_of :: "plan_input \<Rightarrow> string \<Rightarrow> plan_base option" where
  "base_of inp p = lookup_row pb_path p (indexByPath pb_path (bi_base inp))"

definition now_seconds :: "plan_input \<Rightarrow> int" where
  "now_seconds inp = (case bi_now inp of None \<Rightarrow> 0 | Some n \<Rightarrow> n) div 1000"

abbreviation pullOnly :: "plan_input \<Rightarrow> bool" where "pullOnly inp \<equiv> bi_mode inp = Pull_only"
abbreviation copyOnly :: "plan_input \<Rightarrow> bool" where "copyOnly inp \<equiv> bi_mode inp = Copy_only"
abbreviation mirrorDeletions :: "plan_input \<Rightarrow> bool" where
  "mirrorDeletions inp \<equiv> bi_mirrorDeletions inp = Some True"

definition all_paths :: "plan_input \<Rightarrow> string list" where
  "all_paths inp = dedup (map ps_path (indexByPath ps_path (bi_local inp))
      @ map ps_path (indexByPath ps_path (bi_remote inp))
      @ map pb_path (indexByPath pb_path (bi_base inp)))"

lemma all_paths_iff:
  "p \<in> set (all_paths inp) \<longleftrightarrow>
     local_of inp p \<noteq> None \<or> remote_of inp p \<noteq> None \<or> base_of inp p \<noteq> None"
  by (simp add: all_paths_def local_of_def remote_of_def base_of_def lookup_row_def find_key_None
      del: not_None_eq)

subsection \<open>One iteration of the loop\<close>

text \<open>
  \<open>Skip\<close> is a bare \<open>continue\<close>, \<open>Defer\<close> pushes to \<open>deferredPaths\<close>, and \<open>Emit d c k\<close> emits
  the decision \<open>d\<close> with the collection flag \<open>c\<close> and pushes the conflict row \<open>k\<close> if there
  is one. A conflict path is always added to \<open>taken\<close> where it is generated.
\<close>

datatype verdict = Skip | Defer | Emit decision bool "conflict_row option"

definition conflict_at :: "string \<Rightarrow> winner \<Rightarrow> conflict_kind \<Rightarrow> string option \<Rightarrow> conflict_row option" where
  "conflict_at p w k cp = Some \<lparr>c_path = p, c_winner = w, c_kind = k, c_conflictPath = cp\<rparr>"

text \<open>Absent from both sides.\<close>

definition decide_gone :: "plan_input \<Rightarrow> string \<Rightarrow> plan_base option \<Rightarrow> verdict" where
  "decide_gone inp p b =
     (case b of None \<Rightarrow> Skip
      | Some _ \<Rightarrow> if \<not> bi_trustAbsences inp then Defer else Emit (Forget p) False None)"

text \<open>Present on exactly one side, never seen before.\<close>

definition decide_new_local :: "plan_input \<Rightarrow> string \<Rightarrow> plan_side \<Rightarrow> verdict" where
  "decide_new_local inp p l =
     (if pullOnly inp then
        (if mirrorDeletions inp \<and> bi_trustAbsences inp
         then Emit (Delete_local p) False (conflict_at p Remote Deletion None)
         else Skip)
      else Emit (Push p (ps_contentType l)) (ps_isCollection l) None)"

definition decide_new_remote :: "plan_input \<Rightarrow> string \<Rightarrow> plan_side \<Rightarrow> verdict" where
  "decide_new_remote inp p r =
     (if copyOnly inp then Skip else Emit (Pull p (ps_contentType r)) (ps_isCollection r) None)"

text \<open>Both sides created the path independently.\<close>

definition decide_new_both ::
    "(string \<Rightarrow> string) \<Rightarrow> plan_input \<Rightarrow> string list \<Rightarrow> string \<Rightarrow> plan_side \<Rightarrow> plan_side \<Rightarrow> verdict" where
  "decide_new_both rnd inp taken p l r =
     (let winner = conflictWinner l r (bi_mode inp);
          conflictPath = conflictPathFor rnd p taken (now_seconds inp)
      in if provablyIdentical l r
           then Emit (Agree p (ps_isCollection l) (ps_contentType l)) (ps_isCollection l) None
         else if \<not> pullOnly inp \<and> \<not> copyOnly inp \<and> bi_hashOnAmbiguous inp = Some True
             \<and> couldBeIdentical l r
           then Emit (Compare_content p Local) (ps_isCollection l) None
         else if winner = None
           then Emit (Keep_both_copy p Local conflictPath) (ps_isCollection l \<or> ps_isCollection r)
                  (conflict_at p Local Conflict (Some conflictPath))
         else if winner = Some Remote \<and> pullOnly inp
           then Emit (Pull_and_preserve p conflictPath (ps_contentType l))
                  (ps_isCollection l \<or> ps_isCollection r)
                  (conflict_at p Remote Conflict (Some conflictPath))
         else if winner = Some Local
           then Emit (Push p (ps_contentType l)) (ps_isCollection l) (conflict_at p Local Conflict None)
         else Emit (Pull p (ps_contentType r)) (ps_isCollection r) (conflict_at p Remote Conflict None))"

text \<open>Seen before, present on exactly one side: a deletion.\<close>

definition decide_one_sided ::
    "plan_input \<Rightarrow> string \<Rightarrow> plan_side option \<Rightarrow> plan_side option \<Rightarrow> verdict" where
  "decide_one_sided inp p l r =
     (if \<not> bi_trustAbsences inp then Defer
      else if pullOnly inp then
        (case l of
           None \<Rightarrow> Emit (Pull p (case r of None \<Rightarrow> None | Some r' \<Rightarrow> ps_contentType r'))
                     (case r of None \<Rightarrow> False | Some r' \<Rightarrow> ps_isCollection r') None
         | Some _ \<Rightarrow> if \<not> mirrorDeletions inp then Skip
             else Emit (Delete_local p) False (conflict_at p Remote Deletion None))
      else (case l of
           None \<Rightarrow> Emit (Delete_remote p) False (conflict_at p Remote Deletion None)
         | Some l' \<Rightarrow>
             if copyOnly inp \<and> r = None
             then Emit (Push p (ps_contentType l')) (ps_isCollection l') None
             else Emit (Delete_local p) False (conflict_at p Local Deletion None)))"

text \<open>Seen before, present on both sides: the three-way comparison.\<close>

definition decide_both_changed ::
    "(string \<Rightarrow> string) \<Rightarrow> plan_input \<Rightarrow> string list \<Rightarrow> string \<Rightarrow> plan_side \<Rightarrow> plan_side \<Rightarrow> verdict" where
  "decide_both_changed rnd inp taken p l r =
     (let conflictPath = conflictPathFor rnd p taken (now_seconds inp)
      in if provablyIdentical l r
           then Emit (Agree p (ps_isCollection l) (ps_contentType l)) (ps_isCollection l) None
         else (case conflictWinner l r (bi_mode inp) of
           None \<Rightarrow> Emit (Keep_both_copy p Local conflictPath) (ps_isCollection l)
                     (conflict_at p Local Conflict (Some conflictPath))
         | Some w \<Rightarrow>
             if w = Remote \<and> pullOnly inp
               then Emit (Pull_and_preserve p conflictPath (ps_contentType l)) (ps_isCollection l)
                      (conflict_at p w Conflict (Some conflictPath))
             else if bi_hashOnAmbiguous inp = Some True \<and> couldBeIdentical l r \<and> \<not> copyOnly inp
               then Emit (Compare_content p w) (ps_isCollection l) None
             else if w = Local
               then Emit (Push p (ps_contentType l)) (ps_isCollection l) (conflict_at p w Conflict None)
             else Emit (Pull p (ps_contentType r)) (ps_isCollection r) (conflict_at p w Conflict None)))"

definition decide_three_way ::
    "(string \<Rightarrow> string) \<Rightarrow> plan_input \<Rightarrow> string list \<Rightarrow> string \<Rightarrow> plan_side \<Rightarrow> plan_side \<Rightarrow> plan_base \<Rightarrow> verdict" where
  "decide_three_way rnd inp taken p l r b =
     (let localChanged = sideChanged (side_validators l) (base_local b);
          remoteChanged = sideChanged (side_validators r) (base_remote b);
          conflictPath = conflictPathFor rnd p taken (now_seconds inp)
      in if \<not> localChanged \<and> \<not> remoteChanged
           then Emit (Agree p (ps_isCollection l)
                  (case pb_contentType b of None \<Rightarrow> ps_contentType l | Some ct \<Rightarrow> Some ct))
                  (ps_isCollection l) None
         else if localChanged \<and> \<not> remoteChanged
           then (if pullOnly inp
                 then Emit (Pull_and_preserve p conflictPath (ps_contentType l)) (ps_isCollection l)
                        (conflict_at p Remote Conflict (Some conflictPath))
                 else Emit (Push p (ps_contentType l)) (ps_isCollection l) None)
         else if \<not> localChanged \<and> remoteChanged
           then (if copyOnly inp
                 then Emit (Push p (ps_contentType l)) (ps_isCollection l) None
                 else Emit (Pull p (ps_contentType r)) (ps_isCollection r) None)
         else decide_both_changed rnd inp taken p l r)"

definition decide :: "(string \<Rightarrow> string) \<Rightarrow> plan_input \<Rightarrow> string list \<Rightarrow> string \<Rightarrow> verdict" where
  "decide rnd inp taken p =
     (case (local_of inp p, remote_of inp p, base_of inp p) of
        (None, None, b) \<Rightarrow> decide_gone inp p b
      | (Some l, None, None) \<Rightarrow> decide_new_local inp p l
      | (None, Some r, None) \<Rightarrow> decide_new_remote inp p r
      | (Some l, Some r, None) \<Rightarrow> decide_new_both rnd inp taken p l r
      | (Some l, Some r, Some b) \<Rightarrow> decide_three_way rnd inp taken p l r b
      | (l, r, Some _) \<Rightarrow> decide_one_sided inp p l r)"

subsection \<open>The loop and the ordering\<close>

record plan_acc =
  a_taken :: "string list"
  a_deferred :: "string list"
  a_conflicts :: "conflict_row list"
  a_pending :: "ordered list"

definition emit :: "decision \<Rightarrow> bool \<Rightarrow> ordered list \<Rightarrow> ordered list" where
  "emit d coll pending = pending @ [\<lparr>o_decision = d, o_isCollection = coll,
     o_depth = length (split_path (d_path d)), o_order = length pending\<rparr>]"

definition taken_after :: "conflict_row option \<Rightarrow> string list \<Rightarrow> string list" where
  "taken_after k taken =
     (case k of Some row \<Rightarrow> (case c_conflictPath row of Some c \<Rightarrow> taken @ [c] | None \<Rightarrow> taken)
      | None \<Rightarrow> taken)"

definition plan_step :: "(string \<Rightarrow> string) \<Rightarrow> plan_input \<Rightarrow> plan_acc \<Rightarrow> string \<Rightarrow> plan_acc" where
  "plan_step rnd inp acc p =
     (case decide rnd inp (a_taken acc) p of
        Skip \<Rightarrow> acc
      | Defer \<Rightarrow> acc\<lparr>a_deferred := a_deferred acc @ [p]\<rparr>
      | Emit d coll k \<Rightarrow>
          acc\<lparr>a_taken := taken_after k (a_taken acc),
              a_conflicts := a_conflicts acc @ (case k of None \<Rightarrow> [] | Some row \<Rightarrow> [row]),
              a_pending := emit d coll (a_pending acc)\<rparr>)"

definition plan_loop :: "(string \<Rightarrow> string) \<Rightarrow> plan_input \<Rightarrow> plan_acc" where
  "plan_loop rnd inp =
     foldl (plan_step rnd inp)
       \<lparr>a_taken = all_paths inp, a_deferred = [], a_conflicts = [], a_pending = []\<rparr>
       (sort_by compareByPath (all_paths inp))"

definition cmp_pending :: "ordered \<Rightarrow> ordered \<Rightarrow> int" where
  "cmp_pending a b =
     (if o_isCollection a = o_isCollection b
      then (let d = int (o_depth a) - int (o_depth b)
            in if d \<noteq> 0 then d else int (o_order a) - int (o_order b))
      else if o_isCollection a then - 1 else 1)"

definition cmp_deletions :: "ordered \<Rightarrow> ordered \<Rightarrow> int" where
  "cmp_deletions a b =
     (let d = int (o_depth b) - int (o_depth a)
      in if d \<noteq> 0 then d else int (o_order a) - int (o_order b))"

definition is_deletion :: "decision \<Rightarrow> bool" where
  "is_deletion d \<longleftrightarrow> (case d of Delete_local _ \<Rightarrow> True | Delete_remote _ \<Rightarrow> True | _ \<Rightarrow> False)"

definition order_pending :: "ordered list \<Rightarrow> decision list" where
  "order_pending pending0 =
     (let pending = sort_by cmp_pending pending0;
          deletions = sort_by cmp_deletions (filter (\<lambda>e. is_deletion (o_decision e)) pending);
          rest = filter (\<lambda>e. \<not> is_deletion (o_decision e)) pending
      in map o_decision (rest @ deletions))"

definition buildReplicationPlan :: "(string \<Rightarrow> string) \<Rightarrow> plan_input \<Rightarrow> plan" where
  "buildReplicationPlan rnd inp =
     (let acc = plan_loop rnd inp
      in \<lparr>p_decisions = order_pending (a_pending acc),
          p_deferredPaths = a_deferred acc,
          p_conflicts = a_conflicts acc,
          p_absencesDeferred = (a_deferred acc \<noteq> [])\<rparr>)"

subsection \<open>The loop as a list of verdicts\<close>

text \<open>
  The fold threads only the list of taken names from one iteration to the next. \<open>verdicts\<close>
  makes that explicit: what each path was answered, in loop order.
\<close>

fun verdicts ::
    "(string \<Rightarrow> string) \<Rightarrow> plan_input \<Rightarrow> string list \<Rightarrow> string list \<Rightarrow> (string \<times> verdict) list" where
  "verdicts rnd inp taken [] = []"
| "verdicts rnd inp taken (p # ps) =
     (let v = decide rnd inp taken p
      in (p, v) # verdicts rnd inp
           (case v of Emit d c k \<Rightarrow> taken_after k taken | _ \<Rightarrow> taken) ps)"

fun emitted :: "(string \<times> verdict) list \<Rightarrow> decision list" where
  "emitted [] = []"
| "emitted ((p, Emit d c k) # vs) = d # emitted vs"
| "emitted ((p, v) # vs) = emitted vs"

fun audited :: "(string \<times> verdict) list \<Rightarrow> conflict_row list" where
  "audited [] = []"
| "audited ((p, Emit d c (Some row)) # vs) = row # audited vs"
| "audited ((p, v) # vs) = audited vs"

definition loop_verdicts :: "(string \<Rightarrow> string) \<Rightarrow> plan_input \<Rightarrow> (string \<times> verdict) list" where
  "loop_verdicts rnd inp =
     verdicts rnd inp (all_paths inp) (sort_by compareByPath (all_paths inp))"

lemma emitted_iff: "d \<in> set (emitted vs) \<longleftrightarrow> (\<exists>p c k. (p, Emit d c k) \<in> set vs)"
  by (induction vs rule: emitted.induct) auto

lemma audited_iff: "row \<in> set (audited vs) \<longleftrightarrow> (\<exists>p d c. (p, Emit d c (Some row)) \<in> set vs)"
  by (induction vs rule: audited.induct) auto

lemma map_fst_verdicts [simp]: "map fst (verdicts rnd inp taken ps) = ps"
  by (induction ps arbitrary: taken) (auto simp: Let_def)

lemma verdict_of_path: "(p, v) \<in> set (verdicts rnd inp taken ps) \<Longrightarrow> p \<in> set ps"
  by (metis fst_conv image_eqI list.set_map map_fst_verdicts)

lemma verdicts_decide:
  "(p, v) \<in> set (verdicts rnd inp taken ps) \<Longrightarrow> \<exists>taken'. v = decide rnd inp taken' p"
  by (induction ps arbitrary: taken) (auto simp: Let_def)

lemma plan_step_fields:
  "a_deferred (plan_step rnd inp acc p) =
     a_deferred acc @ (case decide rnd inp (a_taken acc) p of Defer \<Rightarrow> [p] | _ \<Rightarrow> [])"
  "a_taken (plan_step rnd inp acc p) =
     (case decide rnd inp (a_taken acc) p of Emit d c k \<Rightarrow> taken_after k (a_taken acc)
      | _ \<Rightarrow> a_taken acc)"
  "a_conflicts (plan_step rnd inp acc p) =
     a_conflicts acc @ audited [(p, decide rnd inp (a_taken acc) p)]"
  "map o_decision (a_pending (plan_step rnd inp acc p)) =
     map o_decision (a_pending acc) @ emitted [(p, decide rnd inp (a_taken acc) p)]"
  by (simp_all add: plan_step_def emit_def split: verdict.split option.split)

lemma emitted_Cons: "emitted (v # vs) = emitted [v] @ emitted vs"
  by (cases v; cases "snd v") auto

lemma audited_Cons: "audited (v # vs) = audited [v] @ audited vs"
proof (cases "snd v")
  case (Emit d c k)
  then show ?thesis by (cases v; cases k) auto
qed (cases v; auto)+

lemma foldl_plan_step:
  "a_deferred (foldl (plan_step rnd inp) acc ps) =
     a_deferred acc @ map fst (filter (\<lambda>v. snd v = Defer) (verdicts rnd inp (a_taken acc) ps))
   \<and> a_conflicts (foldl (plan_step rnd inp) acc ps) =
     a_conflicts acc @ audited (verdicts rnd inp (a_taken acc) ps)
   \<and> map o_decision (a_pending (foldl (plan_step rnd inp) acc ps)) =
     map o_decision (a_pending acc) @ emitted (verdicts rnd inp (a_taken acc) ps)"
proof (induction ps arbitrary: acc)
  case (Cons p ps)
  have t: "verdicts rnd inp (a_taken acc) (p # ps) =
      (p, decide rnd inp (a_taken acc) p) # verdicts rnd inp (a_taken (plan_step rnd inp acc p)) ps"
    by (simp add: plan_step_fields Let_def)
  from Cons [of "plan_step rnd inp acc p"] show ?case
    unfolding t foldl_Cons
    by (subst emitted_Cons, subst audited_Cons)
      (simp add: plan_step_fields split: verdict.split)
qed simp

lemma plan_loop_verdicts:
  "a_deferred (plan_loop rnd inp) = map fst (filter (\<lambda>v. snd v = Defer) (loop_verdicts rnd inp))"
  "a_conflicts (plan_loop rnd inp) = audited (loop_verdicts rnd inp)"
  "map o_decision (a_pending (plan_loop rnd inp)) = emitted (loop_verdicts rnd inp)"
  by (simp_all add: plan_loop_def loop_verdicts_def foldl_plan_step)

lemma mset_order_pending: "mset (order_pending pending) = mset (map o_decision pending)"
proof -
  have "filter_mset P (mset xs) + filter_mset (\<lambda>x. \<not> P x) (mset xs) = mset xs"
    for P and xs :: "ordered list"
    by (metis multiset_partition)
  then show ?thesis
    by (simp add: order_pending_def Let_def add.commute flip: image_mset_union)
qed

lemma mset_plan_decisions:
  "mset (p_decisions (buildReplicationPlan rnd inp)) = mset (emitted (loop_verdicts rnd inp))"
  by (simp add: buildReplicationPlan_def Let_def mset_order_pending flip: plan_loop_verdicts(3))

lemma set_plan_decisions:
  "set (p_decisions (buildReplicationPlan rnd inp)) = set (emitted (loop_verdicts rnd inp))"
  using mset_plan_decisions by (metis set_mset_mset)

lemma plan_deferred:
  "p \<in> set (p_deferredPaths (buildReplicationPlan rnd inp)) \<longleftrightarrow> (p, Defer) \<in> set (loop_verdicts rnd inp)"
  by (force simp: buildReplicationPlan_def Let_def plan_loop_verdicts)

lemma plan_conflicts:
  "p_conflicts (buildReplicationPlan rnd inp) = audited (loop_verdicts rnd inp)"
  by (simp add: buildReplicationPlan_def Let_def plan_loop_verdicts)

lemma loop_verdict_decide:
  "(p, v) \<in> set (loop_verdicts rnd inp) \<Longrightarrow> p \<in> set (all_paths inp) \<and> (\<exists>taken. v = decide rnd inp taken p)"
  unfolding loop_verdicts_def by (auto dest: verdict_of_path verdicts_decide)

lemma distinct_loop_paths: "distinct (map fst (loop_verdicts rnd inp))"
  by (simp add: loop_verdicts_def all_paths_def)

lemma loop_path_verdict:
  assumes "p \<in> set (all_paths inp)"
  obtains v where "(p, v) \<in> set (loop_verdicts rnd inp)"
proof -
  have "set (map fst (loop_verdicts rnd inp)) = set (all_paths inp)"
    by (simp add: loop_verdicts_def del: set_map)
  with assms have "p \<in> fst ` set (loop_verdicts rnd inp)" by simp
  then obtain v where "(p, v) \<in> set (loop_verdicts rnd inp)" by force
  then show thesis by (rule that)
qed

text \<open>The branch of \<open>decide\<close> a path takes.\<close>

lemmas decide_defs = decide_def decide_gone_def decide_new_local_def decide_new_remote_def
  decide_new_both_def decide_one_sided_def decide_three_way_def decide_both_changed_def

lemma decide_path: "decide rnd inp taken p = Emit d c k \<Longrightarrow> d_path d = p"
  by (auto simp: decide_defs Let_def split: option.splits if_splits)

lemma decision_origin:
  assumes "d \<in> set (p_decisions (buildReplicationPlan rnd inp))"
  obtains taken c k where "decide rnd inp taken (d_path d) = Emit d c k"
    and "d_path d \<in> set (all_paths inp)"
    and "(d_path d, Emit d c k) \<in> set (loop_verdicts rnd inp)"
proof -
  from assms obtain p c k where v: "(p, Emit d c k) \<in> set (loop_verdicts rnd inp)"
    by (auto simp: set_plan_decisions emitted_iff)
  then obtain taken where "decide rnd inp taken p = Emit d c k" "p \<in> set (all_paths inp)"
    using loop_verdict_decide by metis
  with v decide_path that show thesis by metis
qed

end
