(* ===== verification/Replica_Safety.thy ===== *)
theory Replica_Safety
  imports Replica_Plan
begin

section \<open>Replication: what a plan may and may not contain\<close>

text \<open>
  The safety properties of the planner of \<open>Replica_Plan\<close>: which decisions each mode can
  emit, what an absence has to be backed by before it deletes anything, how the decisions
  are ordered, and that names of conflict copies are fresh.
\<close>

subsection \<open>The modes\<close>

lemma decide_pull_only:
  assumes "decide rnd inp taken p = Emit d c k" and "bi_mode inp = Pull_only"
  shows "case d of Push _ _ \<Rightarrow> False | Delete_remote _ \<Rightarrow> False | Keep_both_copy _ _ _ \<Rightarrow> False
     | Compare_content _ _ \<Rightarrow> False
     | Delete_local _ \<Rightarrow> bi_mirrorDeletions inp = Some True \<and> bi_trustAbsences inp
     | _ \<Rightarrow> True"
  using assms by (auto simp: decide_defs Let_def split: option.splits if_splits)

lemma decide_copy_only:
  assumes "decide rnd inp taken p = Emit d c k" and "bi_mode inp = Copy_only"
  shows "case d of Push _ _ \<Rightarrow> True | Delete_remote _ \<Rightarrow> True | Agree _ _ _ \<Rightarrow> True
     | Forget _ \<Rightarrow> True | _ \<Rightarrow> False"
  using assms by (auto simp: decide_defs Let_def split: option.splits if_splits)

text \<open>
  In \<open>pull-only\<close> mode a plan never writes to the remote: it holds no push, no remote
  deletion, no \<open>keep-both\<close> copy (which would write the remote's conflict slot) and no content
  comparison (which may end in a push); it deletes locally only when \<open>mirrorDeletions\<close> is set
  and absences are trusted.
\<close>

theorem pull_only_plan_never_writes_remote:
  assumes "bi_mode inp = Pull_only" and "d \<in> set (p_decisions (buildReplicationPlan rnd inp))"
  shows "case d of Push _ _ \<Rightarrow> False | Delete_remote _ \<Rightarrow> False | Keep_both_copy _ _ _ \<Rightarrow> False
     | Compare_content _ _ \<Rightarrow> False
     | Delete_local _ \<Rightarrow> bi_mirrorDeletions inp = Some True \<and> bi_trustAbsences inp
     | _ \<Rightarrow> True"
  using assms by (elim decision_origin) (rule decide_pull_only)

text \<open>
  In \<open>copy-only\<close> mode a plan never writes to the local side: it consists of pushes, remote
  deletions and bookkeeping only.
\<close>

theorem copy_only_plan_never_writes_local:
  assumes "bi_mode inp = Copy_only" and "d \<in> set (p_decisions (buildReplicationPlan rnd inp))"
  shows "case d of Push _ _ \<Rightarrow> True | Delete_remote _ \<Rightarrow> True | Agree _ _ _ \<Rightarrow> True
     | Forget _ \<Rightarrow> True | _ \<Rightarrow> False"
  using assms by (elim decision_origin) (rule decide_copy_only)

subsection \<open>Absences\<close>

lemma decide_untrusted:
  assumes "\<not> bi_trustAbsences inp" and "base_of inp p \<noteq> None"
    and "local_of inp p = None \<or> remote_of inp p = None"
  shows "decide rnd inp taken p = Defer"
  using assms by (auto simp: decide_defs split: option.splits)

lemma decide_destructive:
  assumes "decide rnd inp taken p = Emit d c k" and "is_deletion d \<or> d = Forget p"
  shows "bi_trustAbsences inp"
  using assms
  by (auto simp: decide_defs Let_def is_deletion_def split: option.splits if_splits)

text \<open>
  C33. An absence that cannot be trusted decides nothing: without \<open>trustAbsences\<close> the plan has
  no deletion and no \<open>forget\<close>, and every path of the recorded base that is missing from a
  side is deferred and receives no decision at all, so its base row survives.
\<close>

theorem untrusted_absence_decides_nothing:
  assumes "\<not> bi_trustAbsences inp"
  shows "(\<forall>d\<in>set (p_decisions (buildReplicationPlan rnd inp)). \<not> is_deletion d \<and> d \<noteq> Forget (d_path d))
    \<and> (\<forall>p\<in>set (all_paths inp).
          base_of inp p \<noteq> None \<and> (local_of inp p = None \<or> remote_of inp p = None) \<longrightarrow>
          p \<in> set (p_deferredPaths (buildReplicationPlan rnd inp))
          \<and> p \<notin> d_path ` set (p_decisions (buildReplicationPlan rnd inp)))"
proof (intro conjI ballI impI)
  fix d assume "d \<in> set (p_decisions (buildReplicationPlan rnd inp))"
  with assms show "\<not> is_deletion d" "d \<noteq> Forget (d_path d)"
    by (auto elim!: decision_origin dest: decide_destructive)
next
  fix p assume p: "p \<in> set (all_paths inp)"
    and gone: "base_of inp p \<noteq> None \<and> (local_of inp p = None \<or> remote_of inp p = None)"
  have all_deferred: "decide rnd inp taken p = Defer" for taken
    using assms gone by (intro decide_untrusted) auto
  from p obtain v where v: "(p, v) \<in> set (loop_verdicts rnd inp)" by (rule loop_path_verdict)
  with all_deferred have "v = Defer" by (metis loop_verdict_decide)
  with v show "p \<in> set (p_deferredPaths (buildReplicationPlan rnd inp))"
    by (simp add: plan_deferred)
  show "p \<notin> d_path ` set (p_decisions (buildReplicationPlan rnd inp))"
    using all_deferred by (auto elim!: decision_origin)
qed

lemma decide_delete_remote:
  assumes "decide rnd inp taken p = Emit (Delete_remote q) c k"
  shows "bi_trustAbsences inp \<and> local_of inp p = None \<and> remote_of inp p \<noteq> None
    \<and> base_of inp p \<noteq> None \<and> bi_mode inp \<noteq> Pull_only
    \<and> k = conflict_at p Remote Deletion None"
  using assms by (auto simp: decide_defs Let_def split: option.splits if_splits)

lemma decide_delete_local:
  assumes "decide rnd inp taken p = Emit (Delete_local q) c k"
  shows "bi_trustAbsences inp \<and> remote_of inp p = None \<and> local_of inp p \<noteq> None
    \<and> (bi_mode inp = Pull_only \<and> bi_mirrorDeletions inp = Some True
       \<or> bi_mode inp \<in> {Sync, Keep_both} \<and> base_of inp p \<noteq> None)
    \<and> (k = conflict_at p Local Deletion None \<or> k = conflict_at p Remote Deletion None)"
  using assms
  by (auto simp: decide_defs Let_def split: option.splits if_splits)
    (metis replication_mode.exhaust)+

text \<open>
  C1. Every deletion is justified and audited: a deletion is applied to the side that still
  holds the path and never to the side that lost it, only on a trusted absence, only where
  the base (or, in an exact pull-only mirror, the owner's opt-in) allows it, and a
  \<open>deletion\<close> conflict row names the path.
\<close>

theorem deletion_is_justified_and_audited:
  assumes "d \<in> set (p_decisions (buildReplicationPlan rnd inp))" and "is_deletion d"
  shows "bi_trustAbsences inp
    \<and> (d = Delete_remote (d_path d) \<longrightarrow>
         local_of inp (d_path d) = None \<and> remote_of inp (d_path d) \<noteq> None
         \<and> base_of inp (d_path d) \<noteq> None \<and> bi_mode inp \<noteq> Pull_only)
    \<and> (d = Delete_local (d_path d) \<longrightarrow>
         remote_of inp (d_path d) = None \<and> local_of inp (d_path d) \<noteq> None
         \<and> (bi_mode inp = Pull_only \<and> bi_mirrorDeletions inp = Some True
            \<or> bi_mode inp \<in> {Sync, Keep_both} \<and> base_of inp (d_path d) \<noteq> None))
    \<and> (\<exists>row\<in>set (p_conflicts (buildReplicationPlan rnd inp)).
          c_path row = d_path d \<and> c_kind row = Deletion \<and> c_conflictPath row = None)"
proof -
  from assms(1) obtain taken c k where dec: "decide rnd inp taken (d_path d) = Emit d c k"
    and v: "(d_path d, Emit d c k) \<in> set (loop_verdicts rnd inp)"
    by (rule decision_origin)
  have audit: "\<exists>row\<in>set (p_conflicts (buildReplicationPlan rnd inp)).
      c_path row = d_path d \<and> c_kind row = Deletion \<and> c_conflictPath row = None"
    if "k = conflict_at (d_path d) w Deletion None" for w
    using v that by (force simp: plan_conflicts audited_iff conflict_at_def)
  from assms(2) consider (rem) q where "d = Delete_remote q" | (loc) q where "d = Delete_local q"
    by (auto simp: is_deletion_def split: decision.splits)
  then show ?thesis
  proof cases
    case rem
    with dec have "bi_trustAbsences inp \<and> local_of inp q = None \<and> remote_of inp q \<noteq> None
        \<and> base_of inp q \<noteq> None \<and> bi_mode inp \<noteq> Pull_only \<and> k = conflict_at q Remote Deletion None"
      using decide_delete_remote [of rnd inp taken q q c k] by simp
    with rem audit show ?thesis by auto
  next
    case loc
    with dec have "bi_trustAbsences inp \<and> remote_of inp q = None \<and> local_of inp q \<noteq> None
        \<and> (bi_mode inp = Pull_only \<and> bi_mirrorDeletions inp = Some True
           \<or> bi_mode inp \<in> {Sync, Keep_both} \<and> base_of inp q \<noteq> None)
        \<and> (k = conflict_at q Local Deletion None \<or> k = conflict_at q Remote Deletion None)"
      using decide_delete_local [of rnd inp taken q q c k] by simp
    with loc audit show ?thesis by auto
  qed
qed

subsection \<open>Every path is accounted for once\<close>

lemma emitted_paths:
  "emitted vs = map (\<lambda>v. case snd v of Emit d c k \<Rightarrow> d)
     (filter (\<lambda>v. snd v \<noteq> Skip \<and> snd v \<noteq> Defer) vs)"
  by (induction vs rule: emitted.induct) auto

lemma distinct_emitted:
  assumes "distinct (map fst vs)" and "\<forall>p d c k. (p, Emit d c k) \<in> set vs \<longrightarrow> d_path d = p"
  shows "distinct (map d_path (emitted vs))"
  using assms
proof (induction vs rule: emitted.induct)
  case (2 p d c k vs)
  then have "d_path d = p" by auto
  moreover have "p \<notin> d_path ` set (emitted vs)"
    using 2 by (force simp: emitted_iff)
  moreover have "distinct (map d_path (emitted vs))"
    using 2 by (auto intro!: "2.IH")
  ultimately show ?case by simp
qed auto

lemma distinct_decision_paths:
  "distinct (map d_path (p_decisions (buildReplicationPlan rnd inp)))"
proof -
  have "distinct (map d_path (emitted (loop_verdicts rnd inp)))"
    by (rule distinct_emitted [OF distinct_loop_paths])
      (use loop_verdict_decide decide_path in metis)
  moreover have "mset (map d_path (p_decisions (buildReplicationPlan rnd inp))) =
      mset (map d_path (emitted (loop_verdicts rnd inp)))"
    by (simp only: mset_map mset_plan_decisions)
  ultimately show ?thesis by (metis mset_eq_imp_distinct_iff)
qed

lemma decide_Skip:
  "decide rnd inp taken p = Skip \<Longrightarrow> p \<in> set (all_paths inp) \<Longrightarrow>
     remote_of inp p = None \<and> local_of inp p \<noteq> None \<and> bi_mode inp = Pull_only
       \<and> \<not> (bi_mirrorDeletions inp = Some True \<and> bi_trustAbsences inp)
   \<or> local_of inp p = None \<and> remote_of inp p \<noteq> None \<and> base_of inp p = None \<and> bi_mode inp = Copy_only"
  by (auto simp: decide_defs Let_def all_paths_iff split: option.splits if_splits)

text \<open>
  C32. The plan accounts for every observed path exactly once: no path is decided twice or both
  decided and deferred, only observed paths are decided or deferred, and a path that is
  neither is one of the two the modes ignore: a local-only path of a pull-only target that is
  not mirrored, or a remote-only path of a copy-only target.
\<close>

theorem plan_accounts_for_every_path:
  "distinct (map d_path (p_decisions (buildReplicationPlan rnd inp)))
   \<and> d_path ` set (p_decisions (buildReplicationPlan rnd inp)) \<union>
       set (p_deferredPaths (buildReplicationPlan rnd inp)) \<subseteq> set (all_paths inp)
   \<and> d_path ` set (p_decisions (buildReplicationPlan rnd inp)) \<inter>
       set (p_deferredPaths (buildReplicationPlan rnd inp)) = {}
   \<and> {p \<in> set (all_paths inp). p \<notin> d_path ` set (p_decisions (buildReplicationPlan rnd inp))
         \<and> p \<notin> set (p_deferredPaths (buildReplicationPlan rnd inp))} \<subseteq>
       {p. remote_of inp p = None \<and> local_of inp p \<noteq> None \<and> bi_mode inp = Pull_only
             \<and> \<not> (bi_mirrorDeletions inp = Some True \<and> bi_trustAbsences inp)
         \<or> local_of inp p = None \<and> remote_of inp p \<noteq> None \<and> base_of inp p = None
             \<and> bi_mode inp = Copy_only}"
proof (intro conjI subsetI)
  let ?D = "set (p_decisions (buildReplicationPlan rnd inp))"
  let ?F = "set (p_deferredPaths (buildReplicationPlan rnd inp))"
  show "distinct (map d_path (p_decisions (buildReplicationPlan rnd inp)))"
    by (rule distinct_decision_paths)
  show "p \<in> set (all_paths inp)" if "p \<in> d_path ` ?D \<union> ?F" for p
    using that by (auto simp: plan_deferred elim: decision_origin dest: loop_verdict_decide)
  have "(p, Defer) \<notin> set (loop_verdicts rnd inp)" if "(p, Emit d c k) \<in> set (loop_verdicts rnd inp)"
    for p d c k
    using that distinct_loop_paths [of rnd inp] by (auto dest: eq_key_imp_eq_value)
  then show "d_path ` ?D \<inter> ?F = {}"
    by (auto simp: plan_deferred elim!: decision_origin)
  fix p assume "p \<in> {p \<in> set (all_paths inp). p \<notin> d_path ` ?D \<and> p \<notin> ?F}"
  then have p: "p \<in> set (all_paths inp)" "p \<notin> d_path ` ?D" "p \<notin> ?F" by auto
  from p(1) obtain v where v: "(p, v) \<in> set (loop_verdicts rnd inp)" by (rule loop_path_verdict)
  then obtain taken where v': "v = decide rnd inp taken p" by (blast dest: loop_verdict_decide)
  have "v \<noteq> Emit d c k" for d c k
    using v v' p(2) by (force simp: set_plan_decisions emitted_iff dest: decide_path)
  moreover have "v \<noteq> Defer" using v p(3) by (auto simp: plan_deferred)
  ultimately have "v = Skip" by (cases v) auto
  with v' have "decide rnd inp taken p = Skip" by simp
  from decide_Skip [OF this p(1)] show "p \<in> {p. remote_of inp p = None \<and> local_of inp p \<noteq> None
      \<and> bi_mode inp = Pull_only \<and> \<not> (bi_mirrorDeletions inp = Some True \<and> bi_trustAbsences inp)
      \<or> local_of inp p = None \<and> remote_of inp p \<noteq> None \<and> base_of inp p = None
        \<and> bi_mode inp = Copy_only}"
    by simp
qed

subsection \<open>The order of the decisions\<close>

interpretation pending_order: comparator cmp_pending
  by unfold_locales (auto simp: cmp_pending_def Let_def split: if_splits)

interpretation deletion_order: comparator cmp_deletions
  by unfold_locales (auto simp: cmp_deletions_def Let_def split: if_splits)

definition below :: "string \<Rightarrow> string \<Rightarrow> bool" where
  "below a b \<longleftrightarrow> starts_with (a @ ''/'') b"

lemma below_depth: "below a b \<Longrightarrow> length (split_path a) < length (split_path b)"
  by (auto simp: below_def starts_with_iff split_on_append)

text \<open>Decisions that create the collection at their path on the receiving side.\<close>

definition creates_collection :: "plan_input \<Rightarrow> decision \<Rightarrow> bool" where
  "creates_collection inp d =
     (case d of
        Push p _ \<Rightarrow> (case local_of inp p of Some l \<Rightarrow> ps_isCollection l | None \<Rightarrow> False)
      | Pull p _ \<Rightarrow> (case remote_of inp p of Some r \<Rightarrow> ps_isCollection r | None \<Rightarrow> False)
      | _ \<Rightarrow> False)"

lemma decide_creates:
  "decide rnd inp taken p = Emit d c k \<Longrightarrow> creates_collection inp d \<Longrightarrow> c"
  by (auto simp: decide_defs Let_def creates_collection_def split: option.splits if_splits)

definition pending_ok :: "(string \<Rightarrow> string) \<Rightarrow> plan_input \<Rightarrow> ordered \<Rightarrow> bool" where
  "pending_ok rnd inp e \<longleftrightarrow>
     o_depth e = length (split_path (d_path (o_decision e)))
     \<and> (creates_collection inp (o_decision e) \<longrightarrow> o_isCollection e)"

lemma foldl_pending_ok:
  "\<forall>e\<in>set (a_pending acc). pending_ok rnd inp e \<Longrightarrow>
   \<forall>e\<in>set (a_pending (foldl (plan_step rnd inp) acc ps)). pending_ok rnd inp e"
proof (induction ps arbitrary: acc)
  case (Cons p ps)
  have "\<forall>e\<in>set (a_pending (plan_step rnd inp acc p)). pending_ok rnd inp e"
    using Cons.prems decide_creates
    by (auto simp: plan_step_def emit_def pending_ok_def split: verdict.split)
  from Cons.IH [OF this] show ?case by simp
qed simp

lemma plan_pending_ok: "e \<in> set (a_pending (plan_loop rnd inp)) \<Longrightarrow> pending_ok rnd inp e"
proof -
  assume "e \<in> set (a_pending (plan_loop rnd inp))"
  moreover have "\<forall>e\<in>set (a_pending (plan_loop rnd inp)). pending_ok rnd inp e"
    unfolding plan_loop_def by (rule foldl_pending_ok) simp
  ultimately show "pending_ok rnd inp e" by blast
qed

definition well_ordered :: "plan_input \<Rightarrow> decision \<Rightarrow> decision \<Rightarrow> bool" where
  "well_ordered inp x y \<longleftrightarrow>
     \<not> (creates_collection inp y \<and> below (d_path y) (d_path x))
     \<and> \<not> (is_deletion x \<and> below (d_path x) (d_path y))
     \<and> (is_deletion x \<longrightarrow> is_deletion y)"

lemma creates_not_deletion: "creates_collection inp d \<Longrightarrow> \<not> is_deletion d"
  by (auto simp: creates_collection_def is_deletion_def split: decision.splits)

text \<open>
  The decisions are ordered so that they can be carried out one after another: nothing
  beneath a collection comes before the decision that creates the collection, every
  deletion comes after all transfers, and a deleted collection comes after everything
  beneath it.
\<close>

theorem plan_is_well_ordered:
  "sorted_wrt (well_ordered inp) (p_decisions (buildReplicationPlan rnd inp))"
proof -
  let ?s = "sort_by cmp_pending (a_pending (plan_loop rnd inp))"
  let ?D = "sort_by cmp_deletions (filter (\<lambda>e. is_deletion (o_decision e)) ?s)"
  let ?R = "filter (\<lambda>e. \<not> is_deletion (o_decision e)) ?s"
  have ok: "pending_ok rnd inp e" if "e \<in> set ?s" for e
    using that plan_pending_ok by simp
  have R: "sorted_wrt (\<lambda>x y. well_ordered inp (o_decision x) (o_decision y)) ?R"
  proof (rule sorted_wrt_mono_rel [OF _ sorted_wrt_filter [OF pending_order.sorted_sort_by]])
    fix x y assume xy: "x \<in> set ?R" "y \<in> set ?R" "cmp_pending x y \<le> 0"
    then have "pending_ok rnd inp x" "pending_ok rnd inp y" using ok by auto
    with xy show "well_ordered inp (o_decision x) (o_decision y)"
      by (auto simp: well_ordered_def pending_ok_def cmp_pending_def Let_def
          dest!: below_depth split: if_splits)
  qed
  have D: "sorted_wrt (\<lambda>x y. well_ordered inp (o_decision x) (o_decision y)) ?D"
  proof (rule sorted_wrt_mono_rel [OF _ deletion_order.sorted_sort_by])
    fix x y assume xy: "x \<in> set ?D" "y \<in> set ?D" "cmp_deletions x y \<le> 0"
    then have "pending_ok rnd inp x" "pending_ok rnd inp y" using ok by auto
    with xy show "well_ordered inp (o_decision x) (o_decision y)"
      by (auto simp: well_ordered_def pending_ok_def cmp_deletions_def Let_def
          dest!: below_depth creates_not_deletion split: if_splits)
  qed
  have "well_ordered inp (o_decision x) (o_decision y)" if "x \<in> set ?R" "y \<in> set ?D" for x y
    using that creates_not_deletion by (auto simp: well_ordered_def)
  with R D have "sorted_wrt (\<lambda>x y. well_ordered inp (o_decision x) (o_decision y)) (?R @ ?D)"
    by (simp add: sorted_wrt_append)
  then show ?thesis
    by (simp add: buildReplicationPlan_def order_pending_def Let_def sorted_wrt_map
        flip: map_append)
qed

subsection \<open>Conflict copies have fresh names\<close>

text \<open>The conflict paths the loop generates, in order.\<close>

fun copies :: "conflict_row list \<Rightarrow> string list" where
  "copies [] = []"
| "copies (row # rows) = (case c_conflictPath row of Some c \<Rightarrow> [c] | None \<Rightarrow> []) @ copies rows"

lemma decide_conflict_path:
  assumes "decide rnd inp taken p = Emit d c (Some row)"
  shows "c_path row = p \<and> c_conflictPath row \<in> {None, Some (conflictPathFor rnd p taken (now_seconds inp))}"
  using assms by (auto simp: decide_defs Let_def conflict_at_def split: option.splits if_splits)

lemma verdict_copies_fresh:
  assumes "length (filter conflict_like taken) + length (audited (verdicts rnd inp taken ps)) \<le> 998"
  shows "distinct (copies (audited (verdicts rnd inp taken ps)))
    \<and> set (copies (audited (verdicts rnd inp taken ps))) \<inter> set taken = {}"
  using assms
proof (induction ps arbitrary: taken)
  case (Cons p ps)
  show ?case
  proof (cases "\<exists>d c row cp. decide rnd inp taken p = Emit d c (Some row) \<and> c_conflictPath row = Some cp")
    case True
    then obtain d c row cp where d: "decide rnd inp taken p = Emit d c (Some row)"
      and cp: "c_conflictPath row = Some cp" by blast
    from decide_conflict_path [OF d] cp have cp_eq: "cp = conflictPathFor rnd p taken (now_seconds inp)"
      by simp
    have "filter (starts_with (conflict_base p (now_seconds inp))) taken =
        filter (starts_with (conflict_base p (now_seconds inp))) (filter conflict_like taken)"
      by (auto simp: filter_eq_iff filter_filter intro!: filter_cong dest: conflict_like_base)
    then have "length (filter (starts_with (conflict_base p (now_seconds inp))) taken)
        \<le> length (filter conflict_like taken)"
      by (metis length_filter_le)
    also have "\<dots> < 998" using Cons.prems d by (simp add: Let_def)
    finally have fresh: "cp \<notin> set taken"
      unfolding cp_eq by (rule conflictPathFor_fresh)
    have t: "taken_after (Some row) taken = taken @ [cp]" by (simp add: taken_after_def cp)
    have "distinct (copies (audited (verdicts rnd inp (taken @ [cp]) ps)))
        \<and> set (copies (audited (verdicts rnd inp (taken @ [cp]) ps))) \<inter> set (taken @ [cp]) = {}"
      using Cons.prems d t by (intro Cons.IH) (auto simp: Let_def)
    with d t cp fresh show ?thesis by (auto simp: Let_def)
  next
    case False
    then have c: "copies (audited (verdicts rnd inp taken (p # ps))) = copies (audited (verdicts rnd inp taken ps))"
      and a: "length (audited (verdicts rnd inp taken ps)) \<le> length (audited (verdicts rnd inp taken (p # ps)))"
      by (auto simp: Let_def taken_after_def split: verdict.splits option.splits)
    show ?thesis unfolding c using Cons.prems a by (intro Cons.IH) linarith
  qed
qed simp

text \<open>
  A conflict copy never lands on something that exists: the names generated for conflict
  copies are pairwise distinct and differ from every path observed on either side or recorded
  in the base, as long as the observed names that look like conflict copies and the
  conflicts of the pass together number at most 998 (the suffixes the code tries).
\<close>

theorem conflict_copies_are_fresh:
  assumes "length (filter conflict_like (all_paths inp))
      + length (p_conflicts (buildReplicationPlan rnd inp)) \<le> 998"
  shows "distinct (copies (p_conflicts (buildReplicationPlan rnd inp)))
    \<and> set (copies (p_conflicts (buildReplicationPlan rnd inp))) \<inter> set (all_paths inp) = {}"
  using assms unfolding plan_conflicts loop_verdicts_def by (rule verdict_copies_fresh)

subsection \<open>A settled target stays quiet\<close>

text \<open>The observation a recorded base row was taken from, and evidence to compare it by.\<close>

definition recorded_from :: "plan_base \<Rightarrow> plan_side \<Rightarrow> plan_side \<Rightarrow> bool" where
  "recorded_from b l r \<longleftrightarrow>
     base_local b = side_validators l \<and> base_remote b = side_validators r"

definition has_evidence :: "plan_side \<Rightarrow> bool" where
  "has_evidence s \<longleftrightarrow> ps_etag s \<noteq> None \<or> ps_mtime s \<noteq> None \<or> ps_size s \<noteq> None"

text \<open>
  Replication converges: when every path is on both sides, both still look as they did
  when the base was recorded and each carries some validator, the plan transfers nothing,
  deletes nothing, records no conflict and defers nothing; it only refreshes the agreement.
\<close>

theorem settled_target_is_quiet:
  assumes "\<forall>p\<in>set (all_paths inp). \<exists>l r b. local_of inp p = Some l \<and> remote_of inp p = Some r
      \<and> base_of inp p = Some b \<and> recorded_from b l r \<and> has_evidence l \<and> has_evidence r"
  shows "(\<forall>d\<in>set (p_decisions (buildReplicationPlan rnd inp)). \<exists>c ct. d = Agree (d_path d) c ct)
    \<and> d_path ` set (p_decisions (buildReplicationPlan rnd inp)) = set (all_paths inp)
    \<and> p_conflicts (buildReplicationPlan rnd inp) = []
    \<and> p_deferredPaths (buildReplicationPlan rnd inp) = []"
proof -
  have agree: "\<exists>c ct c'. v = Emit (Agree p c ct) c' None" if "(p, v) \<in> set (loop_verdicts rnd inp)" for p v
  proof -
    from that obtain taken where v: "v = decide rnd inp taken p" and p: "p \<in> set (all_paths inp)"
      by (blast dest: loop_verdict_decide)
    from assms p obtain l r b where sides: "local_of inp p = Some l" "remote_of inp p = Some r"
      "base_of inp p = Some b" and rec: "recorded_from b l r"
      and ev: "has_evidence l" "has_evidence r" by blast
    have "\<not> sideChanged (side_validators l) (base_local b)"
      and "\<not> sideChanged (side_validators r) (base_remote b)"
      using rec ev unfolding recorded_from_def
      by (auto simp: sideChanged_refl has_evidence_def side_validators_def)
    then have "decide rnd inp taken p = Emit (Agree p (ps_isCollection l)
        (case pb_contentType b of None \<Rightarrow> ps_contentType l | Some ct \<Rightarrow> Some ct)) (ps_isCollection l) None"
      by (simp add: decide_def sides decide_three_way_def Let_def)
    then show ?thesis unfolding v by blast
  qed
  have "row \<notin> set (audited (loop_verdicts rnd inp))" for row
    using agree by (fastforce simp: audited_iff)
  then have "audited (loop_verdicts rnd inp) = []"
    by (cases "audited (loop_verdicts rnd inp)") auto
  moreover have "map fst (filter (\<lambda>v. snd v = Defer) (loop_verdicts rnd inp)) = []"
    using agree by (force simp: filter_empty_conv)
  moreover have "\<forall>d\<in>set (p_decisions (buildReplicationPlan rnd inp)). \<exists>c ct. d = Agree (d_path d) c ct"
    using agree by (force simp: set_plan_decisions emitted_iff)
  moreover have "d_path ` set (p_decisions (buildReplicationPlan rnd inp)) = set (all_paths inp)"
  proof
    show "d_path ` set (p_decisions (buildReplicationPlan rnd inp)) \<subseteq> set (all_paths inp)"
      by (auto elim: decision_origin)
    show "set (all_paths inp) \<subseteq> d_path ` set (p_decisions (buildReplicationPlan rnd inp))"
    proof
      fix p assume "p \<in> set (all_paths inp)"
      then obtain v where v: "(p, v) \<in> set (loop_verdicts rnd inp)" by (rule loop_path_verdict)
      with agree obtain c ct c' where "v = Emit (Agree p c ct) c' None" by blast
      with v show "p \<in> d_path ` set (p_decisions (buildReplicationPlan rnd inp))"
        by (force simp: set_plan_decisions emitted_iff)
    qed
  qed
  ultimately show ?thesis
    by (simp add: plan_conflicts buildReplicationPlan_def Let_def plan_loop_verdicts)
qed

subsection \<open>Concrete inputs\<close>

text \<open>A side observing the listed paths, each with the given entity tag.\<close>

definition sample_sides :: "(string \<times> string) list \<Rightarrow> plan_side list" where
  "sample_sides rows = map (\<lambda>(p, e). \<lparr>ps_path = p, ps_isCollection = False, ps_etag = Some e,
     ps_mtime = None, ps_size = Some 3, ps_contentType = None\<rparr>) rows"

definition sample_base :: "(string \<times> string \<times> string) list \<Rightarrow> plan_base list" where
  "sample_base rows = map (\<lambda>(p, l, r). \<lparr>pb_path = p, pb_isCollection = False, pb_localEtag = Some l,
     pb_localMtime = None, pb_localSize = Some 3, pb_remoteEtag = Some r, pb_remoteMtime = None,
     pb_remoteSize = Some 3, pb_contentType = None\<rparr>) rows"

text \<open>\<open>a\<close> changed on both sides, \<open>b\<close> was deleted remotely, \<open>c\<close> is new remotely.\<close>

definition sample_input :: "replication_mode \<Rightarrow> bool \<Rightarrow> plan_input" where
  "sample_input mode trust = \<lparr>bi_mode = mode,
     bi_local = sample_sides [(''a'', ''l2''), (''b'', ''l1'')],
     bi_remote = sample_sides [(''a'', ''r2''), (''c'', ''r1'')],
     bi_base = sample_base [(''a'', ''l1'', ''r1''), (''b'', ''l1'', ''r1'')],
     bi_trustAbsences = trust, bi_hashOnAmbiguous = None, bi_mirrorDeletions = Some True,
     bi_now = Some 7000\<rparr>"

definition settled_input :: plan_input where
  "settled_input = \<lparr>bi_mode = Sync, bi_local = sample_sides [(''a'', ''l1'')],
     bi_remote = sample_sides [(''a'', ''r1'')], bi_base = sample_base [(''a'', ''l1'', ''r1'')],
     bi_trustAbsences = True, bi_hashOnAmbiguous = None, bi_mirrorDeletions = None, bi_now = None\<rparr>"

lemma sample_pull_only_plan:
  "p_decisions (buildReplicationPlan (\<lambda>p. ''r'') (sample_input Pull_only True)) =
     [Pull_and_preserve ''a'' ''a.conflict-7'' None, Pull ''c'' None, Delete_local ''b'']"
  by code_simp

lemma sample_copy_only_plan:
  "p_decisions (buildReplicationPlan (\<lambda>p. ''r'') (sample_input Copy_only True)) =
     [Push ''a'' None, Push ''b'' None]"
  by code_simp

theorem pull_only_plan_never_writes_remote_witness:
  "bi_mirrorDeletions (sample_input Pull_only True) = Some True
    \<and> bi_trustAbsences (sample_input Pull_only True)"
  using pull_only_plan_never_writes_remote [of "sample_input Pull_only True" "Delete_local ''b''" "\<lambda>p. ''r''"]
  by (simp add: sample_pull_only_plan) (simp add: sample_input_def)

theorem copy_only_plan_never_writes_local_witness:
  "case Push ''a'' None of Push _ _ \<Rightarrow> True | Delete_remote _ \<Rightarrow> True | Agree _ _ _ \<Rightarrow> True
     | Forget _ \<Rightarrow> True | _ \<Rightarrow> False"
  by (rule copy_only_plan_never_writes_local [of "sample_input Copy_only True" _ "\<lambda>p. ''r''"])
    (simp add: sample_input_def, simp add: sample_copy_only_plan)

theorem untrusted_absence_decides_nothing_witness:
  "''b'' \<in> set (p_deferredPaths (buildReplicationPlan (\<lambda>p. ''r'') (sample_input Sync False)))"
proof -
  have "\<not> bi_trustAbsences (sample_input Sync False)" by (simp add: sample_input_def)
  moreover have "''b'' \<in> set (all_paths (sample_input Sync False))
      \<and> base_of (sample_input Sync False) ''b'' \<noteq> None \<and> remote_of (sample_input Sync False) ''b'' = None"
    by code_simp
  ultimately show ?thesis using untrusted_absence_decides_nothing by blast
qed

theorem deletion_is_justified_and_audited_witness:
  "\<exists>row\<in>set (p_conflicts (buildReplicationPlan (\<lambda>p. ''r'') (sample_input Pull_only True))).
     c_path row = ''b'' \<and> c_kind row = Deletion \<and> c_conflictPath row = None"
  using deletion_is_justified_and_audited [of "Delete_local ''b''" "\<lambda>p. ''r''" "sample_input Pull_only True"]
  by (simp add: sample_pull_only_plan is_deletion_def)

theorem conflict_copies_are_fresh_witness:
  "''a.conflict-7'' \<notin> set (all_paths (sample_input Keep_both True))"
proof -
  have "length (filter conflict_like (all_paths (sample_input Keep_both True)))
      + length (p_conflicts (buildReplicationPlan (\<lambda>p. ''r'') (sample_input Keep_both True))) \<le> 998"
    by code_simp
  moreover have "''a.conflict-7'' \<in> set (copies (p_conflicts (buildReplicationPlan (\<lambda>p. ''r'') (sample_input Keep_both True))))"
    by code_simp
  ultimately show ?thesis using conflict_copies_are_fresh by blast
qed

theorem settled_target_is_quiet_witness:
  "p_conflicts (buildReplicationPlan (\<lambda>p. ''r'') settled_input) = []"
proof -
  have paths: "all_paths settled_input = [''a'']" by code_simp
  have "local_of settled_input ''a'' = Some (hd (bi_local settled_input))
      \<and> remote_of settled_input ''a'' = Some (hd (bi_remote settled_input))
      \<and> base_of settled_input ''a'' = Some (hd (bi_base settled_input))"
    by code_simp
  moreover have "recorded_from (hd (bi_base settled_input)) (hd (bi_local settled_input)) (hd (bi_remote settled_input))
      \<and> has_evidence (hd (bi_local settled_input)) \<and> has_evidence (hd (bi_remote settled_input))"
    by code_simp
  ultimately show ?thesis
    by (intro conjunct1 [OF conjunct2 [OF conjunct2 [OF settled_target_is_quiet]]])
      (simp add: paths)
qed

end
