(* ===== verification/Dav_Path.thy ===== *)
theory Dav_Path
  imports Prelude
begin

section \<open>WebDAV paths: escaping, hrefs, base prefixes, inner paths\<close>

text \<open>
  Models \<open>packages/webdav/src/path.ts\<close>, \<open>apps/background/src/dav/DavContext.ts\<close> and
  \<open>packages/shared/src/constants/davHref.ts\<close>. \<open>encodeURIComponent\<close> and
  \<open>decodeURIComponent\<close> are modelled on the UTF-8 bytes of a string, \<open>None\<close> standing for
  the \<open>URIError\<close> a malformed escape throws. \<open>new URL(reference, base)\<close> is a parameter.
\<close>

subsection \<open>Percent encoding\<close>

abbreviation code :: "char \<Rightarrow> nat" where "code c \<equiv> of_char c"

definition is_alnum :: "char \<Rightarrow> bool" where
  "is_alnum c \<longleftrightarrow> is_digit c \<or> (65 \<le> code c \<and> code c \<le> 90) \<or> (97 \<le> code c \<and> code c \<le> 122)"

definition is_unreserved :: "char \<Rightarrow> bool" where
  "is_unreserved c \<longleftrightarrow> is_alnum c \<or> c \<in> set ''-_.!~*()'' \<or> c = CHR 0x27"

definition hex_digit :: "nat \<Rightarrow> char" where
  "hex_digit n = (if n < 10 then char_of (48 + n) else char_of (55 + n))"

definition hex_value :: "char \<Rightarrow> nat option" where
  "hex_value c =
     (if 48 \<le> code c \<and> code c \<le> 57 then Some (code c - 48)
      else if 65 \<le> code c \<and> code c \<le> 70 then Some (code c - 55)
      else if 97 \<le> code c \<and> code c \<le> 102 then Some (code c - 87) else None)"

definition encode_char :: "char \<Rightarrow> string" where
  "encode_char c =
     (if is_unreserved c then [c]
      else [CHR ''%'', hex_digit (code c div 16), hex_digit (code c mod 16)])"

definition encodeURIComponent :: "string \<Rightarrow> string" where
  "encodeURIComponent s = concat (map encode_char s)"

text \<open>The bytes of a string with escapes resolved, each with whether it was escaped.\<close>

fun unescape :: "string \<Rightarrow> (nat \<times> bool) list option" where
  "unescape [] = Some []"
| "unescape (c # s) =
     (if c = CHR ''%'' then
        (case s of
           h # l # t \<Rightarrow>
             (case (hex_value h, hex_value l) of
                (Some a, Some b) \<Rightarrow> map_option ((#) (16 * a + b, True)) (unescape t)
              | _ \<Rightarrow> None)
         | _ \<Rightarrow> None)
      else map_option ((#) (code c, False)) (unescape s))"

text \<open>The ranges of the continuation bytes that a lead byte asks for.\<close>

definition utf8_lead :: "nat \<Rightarrow> (nat \<times> nat) list option" where
  "utf8_lead b =
     (let k = (0x80, 0xBF) in
      if 0xC2 \<le> b \<and> b \<le> 0xDF then Some [k]
      else if b = 0xE0 then Some [(0xA0, 0xBF), k]
      else if b = 0xED then Some [(0x80, 0x9F), k]
      else if 0xE1 \<le> b \<and> b \<le> 0xEF then Some [k, k]
      else if b = 0xF0 then Some [(0x90, 0xBF), k, k]
      else if 0xF1 \<le> b \<and> b \<le> 0xF3 then Some [k, k, k]
      else if b = 0xF4 then Some [(0x80, 0x8F), k, k]
      else None)"

text \<open>Every run of escapes that starts above 127 has to be a UTF-8 sequence.\<close>

fun utf8_ok :: "(nat \<times> nat) list \<Rightarrow> (nat \<times> bool) list \<Rightarrow> bool" where
  "utf8_ok [] [] = True"
| "utf8_ok (r # rs) [] = False"
| "utf8_ok [] ((b, esc) # t) =
     (if \<not> esc \<or> b < 128 then utf8_ok [] t
      else (case utf8_lead b of None \<Rightarrow> False | Some rs \<Rightarrow> utf8_ok rs t))"
| "utf8_ok ((lo, hi) # rs) ((b, esc) # t) = (esc \<and> lo \<le> b \<and> b \<le> hi \<and> utf8_ok rs t)"

definition decodeURIComponent :: "string \<Rightarrow> string option" where
  "decodeURIComponent s =
     (case unescape s of None \<Rightarrow> None
      | Some t \<Rightarrow> if utf8_ok [] t then Some (map (\<lambda>(b, _). char_of b) t) else None)"

definition well_formed :: "string \<Rightarrow> bool" where
  "well_formed s \<longleftrightarrow> utf8_ok [] (map (\<lambda>c. (code c, True)) s)"

subsection \<open>\<open>path.ts\<close>\<close>

definition escape_char :: "char \<Rightarrow> string" where
  "escape_char c =
     (if c = CHR ''&'' then ''&amp;'' else if c = CHR ''<'' then ''&lt;''
      else if c = CHR ''>'' then ''&gt;'' else if c = CHR 0x22 then ''&quot;''
      else if c = CHR 0x27 then ''&apos;'' else [c])"

text \<open>\<open>&\<close> is replaced first, so the later replacements never see what an earlier one wrote
  as a character to replace: the chain is one pass over the characters.\<close>

definition escapeXml :: "string \<Rightarrow> string" where
  "escapeXml value = concat (map escape_char value)"

definition stripSlashes :: "string \<Rightarrow> string" where
  "stripSlashes value = rev (dropWhile ((=) slash) (rev (dropWhile ((=) slash) value)))"

definition encodeHrefPath :: "string \<Rightarrow> string" where
  "encodeHrefPath href =
     (if href = ''/'' then ''/''
      else (case split_path href of
              [] \<Rightarrow> []
            | segment # rest \<Rightarrow> join_path (segment # map encodeURIComponent rest)))"

definition getResourceHref :: "string \<Rightarrow> bool \<Rightarrow> string \<Rightarrow> string" where
  "getResourceHref key isCollection base =
     (let prefix = stripSlashes base
      in if key = [] then (if prefix = [] then ''/'' else ''/'' @ prefix @ ''/'')
         else let suffix = key @ (if isCollection then ''/'' else [])
              in encodeHrefPath (if prefix = [] then ''/'' @ suffix else ''/'' @ prefix @ ''/'' @ suffix))"

definition strip_one_slash :: "string \<Rightarrow> string" where
  "strip_one_slash s = (if ends_with ''/'' s then butlast s else s)"

definition decode_or_raw :: "string \<Rightarrow> string" where
  "decode_or_raw segment = (case decodeURIComponent segment of Some s \<Rightarrow> s | None \<Rightarrow> segment)"

definition decodeResourcePath :: "string \<Rightarrow> string" where
  "decodeResourcePath pathname =
     (let resourcePath = strip_one_slash (drop 1 pathname)
      in if resourcePath = [] then [] else join_path (map decode_or_raw (split_path resourcePath)))"

definition getParentPath :: "string \<Rightarrow> string" where
  "getParentPath resourcePath = join_path (butlast (split_path (strip_one_slash resourcePath)))"

text \<open>\<open>parse_url reference base\<close> stands for \<open>new URL(reference, base)\<close>: origin and pathname.\<close>

type_synonym url_parser = "string \<Rightarrow> string option \<Rightarrow> (string \<times> string) option"

definition parseDestinationPath :: "url_parser \<Rightarrow> string \<Rightarrow> string \<Rightarrow> string option" where
  "parseDestinationPath parse_url destinationHeader requestUrl =
     (case (parse_url destinationHeader (Some requestUrl), parse_url requestUrl None) of
        (Some (origin, pathname), Some (requestOrigin, _)) \<Rightarrow>
          if origin = requestOrigin then Some (decodeResourcePath pathname) else None
      | _ \<Rightarrow> None)"

definition isSameOrDescendantPath :: "string \<Rightarrow> string \<Rightarrow> bool" where
  "isSameOrDescendantPath resourcePath destinationPath =
     (if destinationPath = resourcePath then True
      else if resourcePath = [] then destinationPath \<noteq> []
      else starts_with (resourcePath @ ''/'') destinationPath)"

definition normalizeVolumeKey :: "string \<Rightarrow> string \<Rightarrow> string" where
  "normalizeVolumeKey owner name = to_lower owner @ ''/'' @ to_lower name"

record volume_path =
  vp_owner :: string
  vp_volume :: string
  vp_innerPath :: string

definition splitVolumePath :: "string \<Rightarrow> volume_path option" where
  "splitVolumePath pathname =
     (let trimmed = stripSlashes pathname
      in if trimmed = [] then None
         else (case map decode_or_raw (split_path trimmed) of
                 owner # volume # rest \<Rightarrow>
                   if owner = [] \<or> volume = [] then None
                   else Some \<lparr>vp_owner = owner, vp_volume = volume, vp_innerPath = join_path rest\<rparr>
               | _ \<Rightarrow> None))"

subsection \<open>\<open>davHref.ts\<close> and \<open>DavContext.ts\<close>\<close>

datatype href_prefix_mode = Base_mode | Root_mode

definition toDavHrefPrefixMode :: "string \<Rightarrow> href_prefix_mode option" where
  "toDavHrefPrefixMode value =
     (if value = ''base'' then Some Base_mode else if value = ''root'' then Some Root_mode else None)"

definition readDavHrefPrefixMode :: "string option \<Rightarrow> href_prefix_mode" where
  "readDavHrefPrefixMode value =
     (case value of None \<Rightarrow> Base_mode
      | Some v \<Rightarrow> (case toDavHrefPrefixMode v of Some m \<Rightarrow> m | None \<Rightarrow> Base_mode))"

record dav_bases =
  pathBase :: string
  hrefBase :: string

definition max_path_depth :: nat where "max_path_depth = 256"

definition fsPathOf :: "string \<Rightarrow> string" where
  "fsPathOf innerPath = (if innerPath = [] then ''/'' else ''/'' @ innerPath)"

definition hrefOf :: "string \<Rightarrow> string \<Rightarrow> bool \<Rightarrow> string" where
  "hrefOf base innerPath isCollection =
     (let prefix = strip_one_slash base
      in if innerPath = [] then prefix @ ''/''
         else prefix @ ''/'' @ join_path (map encodeURIComponent (split_path innerPath))
                @ (if isCollection then ''/'' else []))"

definition resolveDavBases :: "string \<Rightarrow> string option \<Rightarrow> dav_bases" where
  "resolveDavBases base hrefPrefixMode =
     \<lparr>pathBase = base,
      hrefBase = (if readDavHrefPrefixMode hrefPrefixMode = Root_mode then [] else base)\<rparr>"

definition isValidInnerPath :: "string \<Rightarrow> bool" where
  "isValidInnerPath innerPath \<longleftrightarrow>
     innerPath = [] \<or>
     (length (split_path innerPath) \<le> max_path_depth
      \<and> list_all (\<lambda>s. s \<noteq> [] \<and> s \<noteq> ''.'' \<and> s \<noteq> ''..'') (split_path innerPath))"

fun decode_all :: "string list \<Rightarrow> string list option" where
  "decode_all [] = Some []"
| "decode_all (s # ss) =
     (case decodeURIComponent s of None \<Rightarrow> None | Some t \<Rightarrow> map_option ((#) t) (decode_all ss))"

definition decodeSegments :: "string \<Rightarrow> string" where
  "decodeSegments p =
     (case decode_all (split_path p) of Some ss \<Rightarrow> join_path ss | None \<Rightarrow> p)"

text \<open>\<open>header\<close> is \<open>X-Dav-Path\<close>; \<open>pathname\<close> that of the request's URL.\<close>

definition resolveInnerPath :: "string option \<Rightarrow> string \<Rightarrow> string \<Rightarrow> string option" where
  "resolveInnerPath header pathname base =
     (case header of
        Some h \<Rightarrow> Some (decodeSegments (stripSlashes h))
      | None \<Rightarrow>
          if base \<noteq> [] \<and> starts_with base pathname
          then Some (decodeSegments (stripSlashes (drop (length base) pathname)))
          else let parts = split_path (stripSlashes pathname)
               in if length parts > 2 then Some (decodeSegments (join_path (drop 2 parts))) else None)"

definition stripBase :: "string \<Rightarrow> string \<Rightarrow> string option" where
  "stripBase full base =
     (let baseTrim = stripSlashes base;
          fullLower = to_lower full;
          baseLower = to_lower baseTrim
      in if fullLower = baseLower then Some []
         else if baseTrim = [] then Some full
         else if starts_with (baseLower @ ''/'') fullLower then Some (drop (length baseTrim + 1) full)
         else (case split_path full of
                 a # b # rest \<Rightarrow>
                   if to_lower (a @ ''/'' @ b) = baseLower then Some (join_path rest) else None
               | _ \<Rightarrow> None))"

subsection \<open>Percent encoding is undone by decoding\<close>

lemma code_less [simp]: "code c < 256"
  using of_char_mod_256 [of c, where 'a = nat] by (metis mod_less_divisor zero_less_numeral)

lemma code_inject: "code c = code d \<longleftrightarrow> c = d"
  by simp

lemma hex_value_digit: "n < 16 \<Longrightarrow> hex_value (hex_digit n) = Some n"
  by (auto simp: hex_value_def hex_digit_def of_char_of)

lemma unreserved_ascii: "is_unreserved c \<Longrightarrow> code c < 128"
  by (auto simp: is_unreserved_def is_alnum_def is_digit_def)

lemma percent_reserved [simp]: "\<not> is_unreserved CHR ''%''"
  by (simp add: is_unreserved_def is_alnum_def is_digit_def)

lemma slash_reserved [simp]: "\<not> is_unreserved slash"
  by (simp add: is_unreserved_def is_alnum_def is_digit_def)

lemma unescape_encode_char:
  "unescape (encode_char c @ s) = map_option ((#) (code c, \<not> is_unreserved c)) (unescape s)"
proof (cases "is_unreserved c")
  case True
  then have "c \<noteq> CHR ''%''" by auto
  with True show ?thesis by (simp add: encode_char_def)
next
  case False
  have "16 * (code c div 16) + code c mod 16 = code c" by simp
  moreover have "code c div 16 < 16" using code_less [of c] by linarith
  ultimately show ?thesis
    using False by (simp add: encode_char_def hex_value_digit del: code_less)
qed

lemma unescape_encode:
  "unescape (encodeURIComponent s) = Some (map (\<lambda>c. (code c, \<not> is_unreserved c)) s)"
  by (induction s) (simp_all add: encodeURIComponent_def unescape_encode_char)

lemma utf8_lead_ranges: "utf8_lead b = Some rs \<Longrightarrow> \<forall>(lo, hi)\<in>set rs. 128 \<le> lo"
  by (auto simp: utf8_lead_def Let_def split: if_splits)

lemma utf8_ok_flags:
  "\<forall>(lo, hi)\<in>set rs. 128 \<le> lo \<Longrightarrow>
   utf8_ok rs (map (\<lambda>c. (code c, \<not> is_unreserved c)) s) = utf8_ok rs (map (\<lambda>c. (code c, True)) s)"
proof (induction s arbitrary: rs)
  case Nil
  then show ?case by simp
next
  case (Cons c s)
  show ?case
  proof (cases rs)
    case Nil
    with Cons show ?thesis
      by (auto split: option.splits dest: utf8_lead_ranges unreserved_ascii)
  next
    case (Cons r rs')
    with Cons.prems Cons.IH [of rs'] show ?thesis
      by (cases r) (auto dest: unreserved_ascii)
  qed
qed

lemma decode_encode:
  "decodeURIComponent (encodeURIComponent s) = (if well_formed s then Some s else None)"
proof -
  have "map (\<lambda>(b, _). char_of b) (map (\<lambda>c. (code c, \<not> is_unreserved c)) s) = s"
    by (simp add: comp_def)
  then show ?thesis
    by (simp add: decodeURIComponent_def unescape_encode utf8_ok_flags well_formed_def)
qed

lemma encode_no_slash: "slash \<notin> set (encodeURIComponent s)"
proof -
  have "hex_digit n \<noteq> slash" if "n < 16" for n
    using that by (auto simp: hex_digit_def dest: arg_cong [of _ _ "of_char :: char \<Rightarrow> nat"])
  moreover have "code c div 16 < 16" for c using code_less [of c] by linarith
  ultimately have "slash \<notin> set (encode_char c)" for c
    by (auto simp: encode_char_def dest: sym)
  then show ?thesis by (auto simp: encodeURIComponent_def)
qed

lemma encode_Nil_iff [simp]: "encodeURIComponent s = [] \<longleftrightarrow> s = []"
  by (cases s) (auto simp: encodeURIComponent_def encode_char_def)

lemma utf8_ok_slash:
  "\<forall>(lo, hi)\<in>set rs. 128 \<le> lo \<Longrightarrow>
   utf8_ok rs (xs @ (47, True) # ys) \<longleftrightarrow> utf8_ok rs xs \<and> utf8_ok [] ys"
proof (induction xs arbitrary: rs)
  case Nil
  then show ?case by (cases rs) auto
next
  case (Cons x xs)
  obtain b esc where x: "x = (b, esc)" by (cases x)
  show ?case
  proof (cases rs)
    case Nil
    have "\<forall>(lo, hi)\<in>set rs'. 128 \<le> lo" if "utf8_lead b = Some rs'" for rs'
      using that by (rule utf8_lead_ranges)
    with Nil Cons.IH [of "[]"] Cons.IH show ?thesis
      by (auto simp: x split: option.split)
  next
    case (Cons r rs')
    with Cons.prems Cons.IH [of rs'] show ?thesis by (cases r) (auto simp: x)
  qed
qed

lemma well_formed_slash: "well_formed (s @ slash # t) \<longleftrightarrow> well_formed s \<and> well_formed t"
  by (simp add: well_formed_def utf8_ok_slash)

lemma well_formed_join:
  "ss \<noteq> [] \<Longrightarrow> well_formed (join_path ss) \<longleftrightarrow> list_all well_formed ss"
proof (induction ss)
  case (Cons s ss)
  then show ?case by (cases "ss = []") (simp_all add: join_Cons well_formed_slash)
qed simp

lemma well_formed_segments: "well_formed p \<longleftrightarrow> list_all well_formed (split_path p)"
  using well_formed_join [of "split_path p"] by simp

subsection \<open>Segments\<close>

lemma strip_one_slash_slash [simp]: "strip_one_slash (s @ ''/'') = s"
  by (simp add: strip_one_slash_def ends_with_def js_str)

lemma ends_with_slash: "ends_with ''/'' s \<longleftrightarrow> s \<noteq> [] \<and> last s = slash"
  by (cases s rule: rev_cases) (auto simp: ends_with_def starts_with_def)

lemma last_join:
  "\<lbrakk>ss \<noteq> []; last ss \<noteq> []\<rbrakk> \<Longrightarrow> join_path ss \<noteq> [] \<and> last (join_path ss) = last (last ss)"
  by (induction ss) (auto simp: join_Cons)

lemma hd_join: "\<lbrakk>ss \<noteq> []; hd ss \<noteq> []\<rbrakk> \<Longrightarrow> hd (join_path ss) = hd (hd ss)"
  by (cases ss; cases "tl ss") (auto simp: join_Cons hd_append)

lemma stripSlashes_idle:
  assumes "s \<noteq> []" and "hd s \<noteq> slash" and "last s \<noteq> slash"
  shows "stripSlashes (replicate k slash @ s @ replicate m slash) = s"
proof -
  have lead: "dropWhile ((=) slash) (replicate n slash @ t) = dropWhile ((=) slash) t" for n t
    by (induction n) auto
  have head: "dropWhile ((=) slash) (s @ t) = s @ t" for t
    using assms by (cases s) auto
  have tail: "dropWhile ((=) slash) (rev s) = rev s"
    using assms by (cases s rule: rev_cases) auto
  show ?thesis
    by (simp add: stripSlashes_def lead head tail)
qed

lemma stripSlashes_nothing [simp]: "stripSlashes (replicate k slash) = []"
proof -
  have "dropWhile ((=) slash) (replicate k slash) = []" by (induction k) auto
  then show ?thesis by (simp add: stripSlashes_def)
qed

text \<open>The segments of a non-root inner path, and what validity says of them.\<close>

definition valid_segment :: "string \<Rightarrow> bool" where
  "valid_segment s \<longleftrightarrow> s \<noteq> [] \<and> s \<noteq> ''.'' \<and> s \<noteq> ''..'' \<and> slash \<notin> set s"

lemma valid_path_segments:
  "\<lbrakk>isValidInnerPath p; p \<noteq> []; s \<in> set (split_path p)\<rbrakk> \<Longrightarrow> valid_segment s"
  by (auto simp: isValidInnerPath_def valid_segment_def list_all_iff dest: split_on_no_sep)

lemma valid_path_of_segments:
  assumes "ss \<noteq> []" and "\<forall>s\<in>set ss. valid_segment s" and "length ss \<le> max_path_depth"
  shows "isValidInnerPath (join_path ss)"
  using assms by (simp add: isValidInnerPath_def split_join list_all_iff valid_segment_def)

lemma decode_all_encode:
  "list_all well_formed ss \<Longrightarrow> decode_all (map encodeURIComponent ss) = Some ss"
  by (induction ss) (simp_all add: decode_encode)

lemma decodeSegments_encode:
  assumes "well_formed p"
  shows "decodeSegments (join_path (map encodeURIComponent (split_path p))) = p"
proof -
  have "split_path (join_path (map encodeURIComponent (split_path p))) = map encodeURIComponent (split_path p)"
    by (rule split_join) (auto simp: encode_no_slash)
  moreover have "decode_all (map encodeURIComponent (split_path p)) = Some (split_path p)"
    using assms by (intro decode_all_encode) (simp add: well_formed_segments)
  ultimately show ?thesis by (simp add: decodeSegments_def)
qed

lemma strip_encoded_path:
  assumes "isValidInnerPath p" and "p \<noteq> []"
  shows "stripSlashes (replicate k slash @ join_path (map encodeURIComponent (split_path p)) @ replicate m slash)
    = join_path (map encodeURIComponent (split_path p))"
proof (rule stripSlashes_idle)
  let ?ss = "map encodeURIComponent (split_path p)"
  have ne: "?ss \<noteq> []" by simp
  have "valid_segment (last (split_path p))" "valid_segment (hd (split_path p))"
    using assms valid_path_segments by simp_all
  then have ends: "last ?ss \<noteq> []" "hd ?ss \<noteq> []"
    by (simp_all add: last_map hd_map valid_segment_def)
  from last_join [OF ne ends(1)] show "join_path ?ss \<noteq> []" by simp
  have "last (last ?ss) \<in> set (last ?ss)" "hd (hd ?ss) \<in> set (hd ?ss)"
    using ends by simp_all
  moreover have "slash \<notin> set (last ?ss)" "slash \<notin> set (hd ?ss)"
    by (simp_all add: last_map hd_map encode_no_slash)
  ultimately show "last (join_path ?ss) \<noteq> slash" "hd (join_path ?ss) \<noteq> slash"
    using last_join [OF ne ends(1)] hd_join [OF ne ends(2)] by auto
qed

text \<open>
  C37. Hrefs lead back to the resource they name: a request for the href the server prints for
  a valid inner path (percent-encoded, prefixed with the volume's base, a slash appended for
  a collection) is resolved to that same inner path.
\<close>

theorem href_resolves_back:
  assumes "isValidInnerPath p" and "well_formed p" and "base \<noteq> []"
  shows "resolveInnerPath None (hrefOf base p isCollection) base = Some p"
proof -
  let ?enc = "join_path (map encodeURIComponent (split_path p))"
  let ?tail = "replicate (if isCollection then 1 else 0) slash"
  have href: "hrefOf base p isCollection =
      strip_one_slash base @ ''/'' @ (if p = [] then [] else ?enc @ ?tail)"
    by (simp add: hrefOf_def Let_def)
  obtain k where k: "strip_one_slash base @ ''/'' = base @ replicate k slash"
  proof (cases "ends_with ''/'' base")
    case True
    then have "strip_one_slash base @ ''/'' = base @ replicate 0 slash"
      using append_butlast_last_id [of base] by (simp add: strip_one_slash_def ends_with_slash)
    then show thesis by (rule that)
  next
    case False
    then have "strip_one_slash base @ ''/'' = base @ replicate 1 slash"
      by (simp add: strip_one_slash_def)
    then show thesis by (rule that)
  qed
  have href': "hrefOf base p isCollection =
      base @ replicate k slash @ (if p = [] then [] else ?enc @ ?tail)"
    using href k by (metis append.assoc)
  have "decodeSegments (stripSlashes (replicate k slash @ (if p = [] then [] else ?enc @ ?tail))) = p"
  proof (cases "p = []")
    case True
    then show ?thesis by (simp add: decodeSegments_def decodeURIComponent_def)
  next
    case False
    then have "stripSlashes (replicate k slash @ (if p = [] then [] else ?enc @ ?tail)) = ?enc"
      using strip_encoded_path [OF assms(1) False] by simp
    with assms(2) show ?thesis by (simp only: decodeSegments_encode)
  qed
  with assms(3) href' show ?thesis
    by (simp add: resolveInnerPath_def del: replicate.simps)
qed

theorem href_resolves_back_witness:
  "resolveInnerPath None ''/alice/photos/my%20dir/'' ''/alice/photos'' = Some ''my dir''"
proof -
  have "hrefOf ''/alice/photos'' ''my dir'' True = ''/alice/photos/my%20dir/''" by code_simp
  moreover have "isValidInnerPath ''my dir''" "well_formed ''my dir''" by code_simp+
  ultimately show ?thesis using href_resolves_back [of "''my dir''" "''/alice/photos''" True] by simp
qed

subsection \<open>Destinations\<close>

text \<open>
  A destination stays inside the volume: whatever \<open>stripBase\<close> returns as a volume-relative
  path, the destination it was given is the volume's base, spelled in any case, followed by
  that path.
\<close>

theorem destination_stays_in_volume:
  assumes "stripBase full base = Some p" and "stripSlashes base \<noteq> []"
  shows "\<exists>prefix. to_lower prefix = to_lower (stripSlashes base)
    \<and> (full = prefix \<and> p = [] \<or> full = prefix @ ''/'' @ p)"
proof -
  let ?b = "stripSlashes base"
  consider (root) "to_lower full = to_lower ?b" "p = []"
    | (under) "starts_with (to_lower ?b @ ''/'') (to_lower full)" "p = drop (length ?b + 1) full"
    | (parts) a b rest where "split_path full = a # b # rest" "to_lower (a @ ''/'' @ b) = to_lower ?b"
        "p = join_path rest" "to_lower full \<noteq> to_lower ?b"
    using assms by (auto simp: stripBase_def Let_def split: if_splits list.splits)
  then show ?thesis
  proof cases
    case root
    then show ?thesis by blast
  next
    case under
    then obtain t where t: "to_lower full = to_lower ?b @ ''/'' @ t"
      by (auto simp: starts_with_iff)
    then have len: "length ?b < length full"
      by (metis add_Suc_right length_append length_to_lower less_add_Suc1 list.size(4) append_Cons append_Nil)
    have lower_drop: "to_lower (take n s) = take n (to_lower s)" for n s
      by (simp add: to_lower_def take_map)
    have "lower_char (full ! length ?b) = slash"
      using t len by (metis length_to_lower nth_append_length nth_map to_lower_def append_Cons append_Nil)
    moreover have "lower_char c = slash \<longleftrightarrow> c = slash" for c
      by (auto simp: lower_char_def Let_def dest: arg_cong [of _ _ "of_char :: char \<Rightarrow> nat"])
    ultimately have "full = take (length ?b) full @ ''/'' @ drop (length ?b + 1) full"
      using len by (metis Cons_eq_appendI append_Nil id_take_nth_drop Suc_eq_plus1)
    moreover have "to_lower (take (length ?b) full) = to_lower ?b"
      using t by (simp add: lower_drop)
    ultimately show ?thesis using under(2) by blast
  next
    case parts
    then have "full = join_path (a # b # rest)" by (metis join_split_on)
    then have "full = (a @ ''/'' @ b) \<or> full = (a @ ''/'' @ b) @ ''/'' @ p"
      using parts(3) by (cases rest) auto
    with parts show ?thesis by metis
  qed
qed

theorem destination_stays_in_volume_witness:
  "\<exists>prefix. to_lower prefix = ''alice/photos'' \<and> (''Alice/Photos/a/b'' = prefix \<and> ''a/b'' = []
     \<or> ''Alice/Photos/a/b'' = prefix @ ''/'' @ ''a/b'')"
proof -
  have "stripBase ''Alice/Photos/a/b'' ''/alice/photos'' = Some ''a/b''"
    and "stripSlashes ''/alice/photos'' = ''alice/photos''" and "to_lower ''alice/photos'' = ''alice/photos''"
    by code_simp+
  then show ?thesis using destination_stays_in_volume [of "''Alice/Photos/a/b''" "''/alice/photos''" "''a/b''"]
    by simp
qed

subsection \<open>Ancestry by segments\<close>

lemma starts_with_dir_segments:
  "starts_with (s @ ''/'') t \<longleftrightarrow> (\<exists>rest. rest \<noteq> [] \<and> split_path t = split_path s @ rest)"
proof
  assume "starts_with (s @ ''/'') t"
  then obtain u where "t = s @ slash # u" by (auto simp: starts_with_iff)
  then show "\<exists>rest. rest \<noteq> [] \<and> split_path t = split_path s @ rest"
    by (auto simp: split_on_append)
next
  assume "\<exists>rest. rest \<noteq> [] \<and> split_path t = split_path s @ rest"
  then obtain rest where r: "rest \<noteq> []" "split_path t = split_path s @ rest" by blast
  have "\<forall>x\<in>set rest. slash \<notin> set x"
    using r(2) split_on_no_sep by (metis Un_iff set_append)
  with r have "split_path t = split_path (s @ slash # join_path rest)"
    by (simp add: split_on_append split_join)
  then have "t = s @ slash # join_path rest" by (simp only: split_on_inject)
  then show "starts_with (s @ ''/'') t" by (auto simp: starts_with_iff)
qed

lemma same_or_descendant_segments:
  "isSameOrDescendantPath r d \<longleftrightarrow> r = [] \<or> (\<exists>rest. split_path d = split_path r @ rest)"
  unfolding isSameOrDescendantPath_def starts_with_dir_segments
  by (metis append_Nil2 split_on_inject list.distinct(1) neq_Nil_conv append.assoc)

lemma same_or_descendant_trans:
  assumes "isSameOrDescendantPath a b" and "isSameOrDescendantPath b c"
  shows "isSameOrDescendantPath a c"
proof (cases "b = [] \<or> a = []")
  case True
  have "a = []" if "split_path [] = split_path a @ rest" for rest
    using that by (cases "split_path a") (auto simp flip: split_on_inject [of slash a])
  with True assms have "a = []" by (auto simp: same_or_descendant_segments)
  then show ?thesis by (simp add: same_or_descendant_segments)
next
  case False
  with assms obtain r1 r2 where "split_path b = split_path a @ r1" "split_path c = split_path b @ r2"
    by (auto simp: same_or_descendant_segments)
  then have "split_path c = split_path a @ r1 @ r2" by simp
  then show ?thesis unfolding same_or_descendant_segments by blast
qed

lemma valid_no_trailing_slash:
  assumes "isValidInnerPath p"
  shows "strip_one_slash p = p"
proof (cases "p = []")
  case False
  then have "valid_segment (last (split_path p))"
    using assms valid_path_segments by simp
  then have "last (split_path p) \<noteq> []" "slash \<notin> set (last (split_path p))"
    by (simp_all add: valid_segment_def)
  then have "last p \<noteq> slash"
    using last_join [of "split_path p"] by (metis join_split_on last_in_set split_on_not_Nil)
  then show ?thesis by (simp add: strip_one_slash_def ends_with_slash)
qed (simp add: strip_one_slash_def ends_with_slash)

text \<open>The parent of a valid path is valid, one segment shorter, and the path lies below it.\<close>

lemma getParentPath_segments:
  "isValidInnerPath p \<Longrightarrow> getParentPath p = join_path (butlast (split_path p))"
  by (simp add: getParentPath_def valid_no_trailing_slash)

lemma parent_valid:
  assumes "isValidInnerPath p"
  shows "isValidInnerPath (getParentPath p)"
proof (cases "butlast (split_path p) = [] \<or> p = []")
  case True
  then show ?thesis
    using assms by (auto simp: getParentPath_segments isValidInnerPath_def)
next
  case False
  then have "\<forall>s\<in>set (butlast (split_path p)). valid_segment s"
    using assms valid_path_segments by (metis in_set_butlastD)
  moreover have "length (butlast (split_path p)) \<le> max_path_depth"
    using assms False by (auto simp: isValidInnerPath_def)
  ultimately show ?thesis
    using False assms by (auto simp: getParentPath_segments intro: valid_path_of_segments)
qed

lemma parent_above:
  assumes "isValidInnerPath p" and "p \<noteq> []"
  shows "isSameOrDescendantPath (getParentPath p) p"
proof (cases "butlast (split_path p) = []")
  case True
  then show ?thesis by (simp add: getParentPath_segments assms(1) same_or_descendant_segments)
next
  case False
  have "\<forall>s\<in>set (butlast (split_path p)). slash \<notin> set s"
    by (meson in_set_butlastD split_on_no_sep)
  with False have "split_path (getParentPath p) = butlast (split_path p)"
    by (simp add: getParentPath_segments assms(1) split_join)
  then have "split_path p = split_path (getParentPath p) @ [last (split_path p)]" by simp
  then show ?thesis by (auto simp: same_or_descendant_segments)
qed

subsection \<open>XML escaping\<close>

text \<open>A reader of character data: resolves the five entities the writer produces.\<close>

fun read_text :: "string \<Rightarrow> string" where
  "read_text [] = []"
| "read_text (c # s) =
     (if c \<noteq> CHR ''&'' then c # read_text s
      else if starts_with ''amp;'' s then CHR ''&'' # read_text (drop 4 s)
      else if starts_with ''lt;'' s then CHR ''<'' # read_text (drop 3 s)
      else if starts_with ''gt;'' s then CHR ''>'' # read_text (drop 3 s)
      else if starts_with ''quot;'' s then CHR 0x22 # read_text (drop 5 s)
      else if starts_with ''apos;'' s then CHR 0x27 # read_text (drop 5 s)
      else c # read_text s)"

lemma read_escape_char: "read_text (escape_char c @ s) = c # read_text s"
  by (auto simp: escape_char_def js_str)

text \<open>
  Escaped text cannot break out of the document it is put into: it holds no \<open><\<close>, no
  \<open>>\<close> and no quote, and reading the entities back yields the original text.
\<close>

theorem escaped_text_is_inert:
  "set (escapeXml s) \<inter> {CHR ''<'', CHR ''>'', CHR 0x22, CHR 0x27} = {}
   \<and> read_text (escapeXml s) = s"
proof
  have "set (escape_char c) \<inter> {CHR ''<'', CHR ''>'', CHR 0x22, CHR 0x27} = {}" for c
    by (auto simp: escape_char_def)
  then show "set (escapeXml s) \<inter> {CHR ''<'', CHR ''>'', CHR 0x22, CHR 0x27} = {}"
    by (auto simp: escapeXml_def)
  show "read_text (escapeXml s) = s"
    by (induction s) (simp_all add: escapeXml_def read_escape_char)
qed

end
