(* ===== verification/Http.thy ===== *)
theory Http
  imports Dav_Path Complex_Main
begin

section \<open>Requests, responses, numbers in headers, capped bodies, entity tags\<close>

text \<open>
  What the handlers see of a request and what they answer, and the pure header helpers of
  \<open>packages/webdav/src/body.ts\<close>, \<open>constants.ts\<close> and \<open>etag.ts\<close>. A body is the list of the
  chunks its stream delivers. \<open>Number\<close> of a header value is modelled as the language defines
  it: on a string of digits with the rounding to 53 bits written out, elsewhere as an exact
  rational (the rounding of a fraction is not modelled); \<open>None\<close> stands for \<open>NaN\<close> and the infinities.
\<close>

record request =
  r_method :: string
  r_url :: string
  r_pathname :: string
  r_header :: "string \<Rightarrow> string option"
  r_body :: "string list option"

record response =
  rs_status :: nat
  rs_headers :: "(string \<times> string) list"
  rs_body :: string

definition respond :: "nat \<Rightarrow> string \<Rightarrow> response" where
  "respond status body = \<lparr>rs_status = status, rs_headers = [], rs_body = body\<rparr>"

definition respond_with :: "nat \<Rightarrow> (string \<times> string) list \<Rightarrow> string \<Rightarrow> response" where
  "respond_with status headers body = \<lparr>rs_status = status, rs_headers = headers, rs_body = body\<rparr>"

lemma respond_simps [simp]:
  "rs_status (respond st b) = st" "rs_headers (respond st b) = []" "rs_body (respond st b) = b"
  "rs_status (respond_with st h b) = st" "rs_headers (respond_with st h b) = h"
  "rs_body (respond_with st h b) = b"
  by (simp_all add: respond_def respond_with_def)

text \<open>\<open>Headers.get\<close>, on names in any case.\<close>

definition response_header :: "string \<Rightarrow> response \<Rightarrow> string option" where
  "response_header k res = map_option snd (find (\<lambda>h. to_lower (fst h) = to_lower k) (rs_headers res))"

text \<open>\<open>Headers.set\<close>: replace the value, or append the header.\<close>

definition set_header :: "string \<Rightarrow> string \<Rightarrow> (string \<times> string) list \<Rightarrow> (string \<times> string) list" where
  "set_header k v hs = filter (\<lambda>h. to_lower (fst h) \<noteq> to_lower k) hs @ [(k, v)]"

subsection \<open>Numbers\<close>

definition max_safe_integer :: nat where "max_safe_integer = 2 ^ 53 - 1"

text \<open>A natural number as a double: nearest, ties to the even mantissa.\<close>

fun js_shift :: "nat \<Rightarrow> nat \<Rightarrow> nat" where
  "js_shift fuel n = (case fuel of 0 \<Rightarrow> 0 | Suc f \<Rightarrow> if n < 2 ^ 53 then 0 else Suc (js_shift f (n div 2)))"

declare js_shift.simps [simp del]

definition js_round :: "nat \<Rightarrow> nat" where
  "js_round n =
     (let e = js_shift 1024 n;
          q = n div 2 ^ e;
          r = n mod 2 ^ e;
          up = e \<noteq> 0 \<and> (2 * r > 2 ^ e \<or> (2 * r = 2 ^ e \<and> odd q))
      in if up then (q + 1) * 2 ^ e else q * 2 ^ e)"

text \<open>\<open>Number(digits)\<close>; \<open>None\<close> is \<open>Infinity\<close>, or \<open>NaN\<close> for a string with another character.\<close>

definition js_digits :: "string \<Rightarrow> nat option" where
  "js_digits s =
     (if list_all is_digit s
      then (let n = read_nat s in if n \<ge> 2 ^ 1024 - 2 ^ 970 then None else Some (js_round n))
      else None)"

lemma js_shift_small: "n < 2 ^ 53 \<Longrightarrow> js_shift fuel n = 0"
  by (cases fuel) (simp_all add: js_shift.simps)

lemma js_round_small [simp]: "n < 2 ^ 53 \<Longrightarrow> js_round n = n"
  by (simp add: js_round_def js_shift_small)

lemma js_digits_small:
  "\<lbrakk>list_all is_digit s; read_nat s < 2 ^ 53\<rbrakk> \<Longrightarrow> js_digits s = Some (read_nat s)"
  by (auto simp: js_digits_def Let_def)

definition is_safe_nat :: "nat \<Rightarrow> bool" where "is_safe_nat n \<longleftrightarrow> n \<le> max_safe_integer"

text \<open>\<open>Number(text)\<close> for any text, the value exact.\<close>

definition digits_in :: "nat \<Rightarrow> string \<Rightarrow> nat option" where
  "digits_in radix s =
     (if s = [] then None
      else foldl (\<lambda>acc c. case (acc, hex_value c) of
             (Some n, Some v) \<Rightarrow> if v < radix then Some (radix * n + v) else None
           | _ \<Rightarrow> None) (Some 0) s)"

definition signed :: "string \<Rightarrow> int \<times> string" where
  "signed s = (case s of c # t \<Rightarrow> if c = CHR ''-'' then (- 1, t) else if c = CHR ''+'' then (1, t) else (1, s)
               | [] \<Rightarrow> (1, []))"

definition js_exponent :: "string \<Rightarrow> int option" where
  "js_exponent s = (let (sg, ds) = signed s
     in if ds \<noteq> [] \<and> list_all is_digit ds then Some (sg * int (read_nat ds)) else None)"

definition ten_to :: "int \<Rightarrow> rat" where
  "ten_to e = (if e \<ge> 0 then 10 ^ nat e else 1 / 10 ^ nat (- e))"

definition js_decimal :: "string \<Rightarrow> rat option" where
  "js_decimal s =
     (let whole = takeWhile is_digit s; r1 = dropWhile is_digit s;
          has_dot = (r1 \<noteq> [] \<and> hd r1 = CHR ''.'');
          frac = (if has_dot then takeWhile is_digit (tl r1) else []);
          r2 = (if has_dot then dropWhile is_digit (tl r1) else r1);
          mant = rat_of_nat (read_nat (whole @ frac)) * ten_to (- int (length frac))
      in if whole = [] \<and> frac = [] then None
         else if r2 = [] then Some mant
         else if lower_char (hd r2) = CHR ''e''
           then map_option (\<lambda>e. mant * ten_to e) (js_exponent (tl r2))
         else None)"

definition js_number :: "string \<Rightarrow> rat option" where
  "js_number text =
     (let s = trim text; lead = to_lower (take 2 s)
      in if s = [] then Some 0
         else if lead = ''0x'' then map_option rat_of_nat (digits_in 16 (drop 2 s))
         else if lead = ''0o'' then map_option rat_of_nat (digits_in 8 (drop 2 s))
         else if lead = ''0b'' then map_option rat_of_nat (digits_in 2 (drop 2 s))
         else (let (sg, body) = signed s
               in case js_decimal body of None \<Rightarrow> None
                  | Some v \<Rightarrow> if v \<ge> 2 ^ 1024 - 2 ^ 970 then None else Some (of_int sg * v)))"

subsection \<open>Capped bodies (\<open>body.ts\<close>)\<close>

definition max_xml_body_bytes :: int where "max_xml_body_bytes = 64 * 1024"

definition exceedsDeclaredLength :: "request \<Rightarrow> int \<Rightarrow> bool" where
  "exceedsDeclaredLength req maxBytes =
     (case r_header req ''Content-Length'' of None \<Rightarrow> False
      | Some raw \<Rightarrow> (case js_number raw of None \<Rightarrow> False | Some declared \<Rightarrow> declared > of_int maxBytes))"

text \<open>The reading loop: \<open>None\<close> is \<open>too-large\<close>, the reader cancelled.\<close>

fun read_chunks :: "int \<Rightarrow> int \<Rightarrow> string list \<Rightarrow> string list \<Rightarrow> string option" where
  "read_chunks maxBytes sofar chunks [] = Some (concat chunks)"
| "read_chunks maxBytes sofar chunks (value # rest) =
     (if sofar + int (length value) > maxBytes then None
      else read_chunks maxBytes (sofar + int (length value)) (chunks @ [value]) rest)"

definition readCappedBody :: "request \<Rightarrow> int \<Rightarrow> string option" where
  "readCappedBody req maxBytes =
     (if exceedsDeclaredLength req maxBytes then None
      else (case r_body req of None \<Rightarrow> Some [] | Some body \<Rightarrow> read_chunks maxBytes 0 [] body))"

lemma read_chunks_spec:
  "sofar = int (length (concat chunks)) \<Longrightarrow>
   read_chunks maxBytes sofar chunks body =
     (if int (length (concat chunks)) \<le> maxBytes \<or> body \<noteq> [] then
        (if int (length (concat (chunks @ body))) \<le> maxBytes then Some (concat (chunks @ body)) else None)
      else Some (concat chunks))"
proof (induction maxBytes sofar chunks body rule: read_chunks.induct)
  case (2 maxBytes sofar chunks v rest)
  show ?case
  proof (cases "sofar + int (length v) > maxBytes")
    case True
    with 2 show ?thesis by simp
  next
    case False
    with "2.IH" [OF False] "2.prems" show ?thesis by simp
  qed
qed simp

text \<open>
  A body is read whole or refused: \<open>readCappedBody\<close> yields exactly the bytes of the stream
  when they fit and the declared length does not exceed the cap, and never hands on more
  than the cap.
\<close>

theorem capped_body_is_whole_or_refused:
  "readCappedBody req (int cap) =
     (let bytes = (case r_body req of None \<Rightarrow> [] | Some chunks \<Rightarrow> concat chunks)
      in if exceedsDeclaredLength req (int cap) \<or> length bytes > cap then None else Some bytes)"
  by (simp add: readCappedBody_def read_chunks_spec split: option.split)

subsection \<open>Entity tags (\<open>etag.ts\<close>)\<close>

definition drop_weak :: "string \<Rightarrow> string" where
  "drop_weak s = (if starts_with ''W/'' s then drop 2 s else s)"

definition weakEtagValue :: "string \<Rightarrow> string" where
  "weakEtagValue value = drop_weak (trim value)"

definition etagBody :: "string option \<Rightarrow> string option" where
  "etagBody raw =
     (case raw of None \<Rightarrow> None
      | Some r \<Rightarrow>
          (let trimmed = trim r
           in if trimmed = [] then None
              else let weak = (to_lower (take 2 trimmed) = ''w/'');
                       body = (if weak then drop 2 trimmed else trimmed);
                       quoted = (starts_with [CHR 0x22] body \<and> ends_with [CHR 0x22] body \<and> length body \<ge> 2);
                       value = trim (if quoted then butlast (tl body) else body)
                   in if value = [] then None
                      else if weak then Some (''W/'' @ value) else Some value))"

subsection \<open>Methods and CORS (\<open>constants.ts\<close>)\<close>

definition supportMethods :: "string list" where
  "supportMethods = [''OPTIONS'', ''PROPFIND'', ''PROPPATCH'', ''MKCOL'', ''GET'', ''HEAD'', ''PUT'', ''DELETE'',
     ''COPY'', ''MOVE'', ''LOCK'', ''UNLOCK'']"

definition requiresWrite :: "string \<Rightarrow> bool" where
  "requiresWrite method \<longleftrightarrow> method \<notin> set [''GET'', ''HEAD'', ''OPTIONS'', ''PROPFIND'']"

definition allowsBody :: "string \<Rightarrow> bool" where
  "allowsBody method \<longleftrightarrow> method \<notin> set [''GET'', ''HEAD'', ''OPTIONS'']"

definition allowedOrigins :: "url_parser \<Rightarrow> string option \<Rightarrow> string list" where
  "allowedOrigins parse_url siteUrl =
     (case siteUrl of None \<Rightarrow> []
      | Some u \<Rightarrow> if u = [] then [] else (case parse_url u None of Some (origin, _) \<Rightarrow> [origin] | None \<Rightarrow> []))"

definition delete_header :: "string \<Rightarrow> (string \<times> string) list \<Rightarrow> (string \<times> string) list" where
  "delete_header k hs = filter (\<lambda>h. to_lower (fst h) \<noteq> to_lower k) hs"

definition applyCors :: "url_parser \<Rightarrow> response \<Rightarrow> request \<Rightarrow> string option \<Rightarrow> response" where
  "applyCors parse_url res req siteUrl =
     (let h0 = rs_headers res;
          h1 = (case r_header req ''Origin'' of
                  None \<Rightarrow> delete_header ''Access-Control-Allow-Origin'' h0
                | Some origin \<Rightarrow>
                    if origin \<in> set (allowedOrigins parse_url siteUrl)
                    then set_header ''Vary'' ''Origin'' (set_header ''Access-Control-Allow-Origin'' origin h0)
                    else delete_header ''Access-Control-Allow-Origin'' h0);
          h2 = set_header ''Access-Control-Allow-Methods'' (join '', '' supportMethods) h1;
          h3 = set_header ''Access-Control-Allow-Headers''
                 (join '', '' [''authorization'', ''content-type'', ''depth'', ''overwrite'', ''destination'',
                   ''range'', ''if'', ''lock-token'', ''timeout'']) h2;
          h4 = set_header ''Access-Control-Expose-Headers''
                 (join '', '' [''content-type'', ''content-length'', ''dav'', ''etag'', ''last-modified'',
                   ''location'', ''date'', ''content-range'', ''lock-token'']) h3;
          h5 = set_header ''Access-Control-Allow-Credentials'' ''false'' h4;
          h6 = set_header ''Access-Control-Max-Age'' ''86400'' h5
      in res\<lparr>rs_headers := h6\<rparr>)"

definition createdResponse :: "string \<Rightarrow> string \<Rightarrow> (string \<times> string) list \<Rightarrow> response" where
  "createdResponse resourceHref body headers =
     respond_with 201 (set_header ''Location'' resourceHref headers) body"

definition xml_decl :: string where
  "xml_decl = ''<?xml version='' @ [CHR 0x22] @ ''1.0'' @ [CHR 0x22] @ '' encoding='' @ [CHR 0x22] @ ''utf-8'' @
     [CHR 0x22] @ ''?>'' @ [CHR 0x0A]"

definition davErrorResponse :: "nat \<Rightarrow> string option \<Rightarrow> (string \<times> string) list \<Rightarrow> response" where
  "davErrorResponse status condition headers =
     (let open_tag = ''<D:error xmlns:D='' @ [CHR 0x22] @ ''DAV:'' @ [CHR 0x22];
          body = (case condition of
                    Some c \<Rightarrow> if c = [] then xml_decl @ open_tag @ ''/>''
                              else xml_decl @ open_tag @ ''><D:'' @ c @ ''/></D:error>''
                  | None \<Rightarrow> xml_decl @ open_tag @ ''/>'')
      in respond_with status (set_header ''Content-Type'' ''application/xml; charset=utf-8'' headers) body)"

text \<open>
  A foreign site never gets read access: the answer carries \<open>Access-Control-Allow-Origin\<close>
  only when the request's \<open>Origin\<close> is the configured site's, then with exactly that origin,
  and never allows credentials.
\<close>

theorem cors_allows_only_the_site:
  "{v. (''Access-Control-Allow-Origin'', v) \<in> set (rs_headers (applyCors parse_url res req siteUrl))} =
     (case r_header req ''Origin'' of None \<Rightarrow> {}
      | Some origin \<Rightarrow> if origin \<in> set (allowedOrigins parse_url siteUrl) then {origin} else {})
   \<and> {v. (''Access-Control-Allow-Credentials'', v) \<in> set (rs_headers (applyCors parse_url res req siteUrl))} = {''false''}"
proof -
  have names: "to_lower ''Access-Control-Allow-Origin'' = ''access-control-allow-origin''"
    "to_lower ''Access-Control-Allow-Credentials'' = ''access-control-allow-credentials''"
    "to_lower ''Access-Control-Allow-Methods'' = ''access-control-allow-methods''"
    "to_lower ''Access-Control-Allow-Headers'' = ''access-control-allow-headers''"
    "to_lower ''Access-Control-Expose-Headers'' = ''access-control-expose-headers''"
    "to_lower ''Access-Control-Max-Age'' = ''access-control-max-age''" "to_lower ''Vary'' = ''vary''"
    by code_simp+
  have set_iff: "(a, x) \<in> set (set_header k v hs) \<longleftrightarrow>
      (a = k \<and> x = v) \<or> (to_lower a \<noteq> to_lower k \<and> (a, x) \<in> set hs)" for a x k v hs
    by (auto simp: set_header_def)
  have del_iff: "(a, x) \<in> set (delete_header k hs) \<longleftrightarrow> to_lower a \<noteq> to_lower k \<and> (a, x) \<in> set hs" for a x k hs
    by (auto simp: delete_header_def)
  show ?thesis
    unfolding applyCors_def Let_def
    by (simp add: set_iff del_iff names del: to_lower_Cons split: option.split)
qed

end
