(* ===== verification/Range_Paging.thy ===== *)
theory Range_Paging
  imports Http
begin

section \<open>Byte ranges and pages\<close>

text \<open>
  Models \<open>apps/background/src/dav/RangeParser.ts\<close>, \<open>packages/dav-store/src/listing.ts\<close> and
  \<open>apps/background/src/dav/PropfindPaging.ts\<close>: the arithmetic of a \<open>Range\<close> request, with
  \<open>Number(digits)\<close> as a double, and the clamping of a requested page.
\<close>

subsection \<open>\<open>Range\<close>\<close>

record parsed_range =
  pr_offset :: nat
  pr_length :: "nat option"
  pr_contentRange :: "string option"
  pr_status :: nat

definition full_body :: parsed_range where
  "full_body = \<lparr>pr_offset = 0, pr_length = None, pr_contentRange = None, pr_status = 200\<rparr>"

definition unsatisfiable :: "nat \<Rightarrow> parsed_range" where
  "unsatisfiable sz = \<lparr>pr_offset = 0, pr_length = None,
     pr_contentRange = Some (''bytes */'' @ show_nat sz), pr_status = 416\<rparr>"

text \<open>The two groups of \<open>/^\s*bytes=(\d*)-(\d*)\s*$/i\<close>.\<close>

definition range_match :: "string \<Rightarrow> (string \<times> string) option" where
  "range_match header =
     (let s = dropWhile is_ws header;
          r = drop 6 s;
          startText = takeWhile is_digit r;
          r1 = dropWhile is_digit r
      in if to_lower (take 6 s) = ''bytes='' \<and> r1 \<noteq> [] \<and> hd r1 = CHR ''-''
         then let endText = takeWhile is_digit (tl r1)
              in if list_all is_ws (dropWhile is_digit (tl r1)) then Some (startText, endText) else None
         else None)"

definition partial_content :: "nat \<Rightarrow> nat \<Rightarrow> nat \<Rightarrow> parsed_range" where
  "partial_content offset len sz = \<lparr>pr_offset = offset, pr_length = Some len,
     pr_contentRange = Some (''bytes '' @ show_nat offset @ ''-'' @ show_nat (offset + len - 1) @ ''/'' @ show_nat sz),
     pr_status = 206\<rparr>"

text \<open>\<open>Number(endText) - offset + 1\<close> in doubles: the operands and the result are integers, the
  result is rounded like any other; \<open>None\<close> is an infinity.\<close>

definition js_round_int :: "int \<Rightarrow> int" where
  "js_round_int i = (if i < 0 then - int (js_round (nat (- i))) else int (js_round (nat i)))"

definition range_length :: "nat option \<Rightarrow> nat \<Rightarrow> int option" where
  "range_length end_value offset =
     map_option (\<lambda>e. js_round_int (js_round_int (int e - int offset) + 1)) end_value"

definition is_safe_int :: "int \<Rightarrow> bool" where
  "is_safe_int i \<longleftrightarrow> \<bar>i\<bar> \<le> int max_safe_integer"

definition suffix_range :: "string \<Rightarrow> nat \<Rightarrow> parsed_range" where
  "suffix_range endText sz =
     (case js_digits endText of
        None \<Rightarrow> unsatisfiable sz
      | Some suffix \<Rightarrow>
          if \<not> is_safe_nat suffix \<or> suffix = 0 then unsatisfiable sz
          else let offset = sz - suffix in partial_content offset (sz - offset) sz)"

definition bounded_range :: "string \<Rightarrow> string \<Rightarrow> nat \<Rightarrow> parsed_range" where
  "bounded_range startText endText sz =
     (case js_digits startText of
        None \<Rightarrow> full_body
      | Some offset \<Rightarrow>
          if \<not> is_safe_nat offset then full_body
          else if offset \<ge> sz then unsatisfiable sz
          else (case (if endText = [] then Some (int (sz - offset))
                      else range_length (js_digits endText) offset) of
                  None \<Rightarrow> full_body
                | Some len \<Rightarrow>
                    if \<not> is_safe_int len then full_body
                    else if endText \<noteq> [] \<and> (case js_digits endText of None \<Rightarrow> False | Some e \<Rightarrow> e < offset)
                      then unsatisfiable sz
                    else if len \<le> 0 then unsatisfiable sz
                    else partial_content offset (min (nat len) (sz - offset)) sz))"

definition parseRangeHeader :: "string option \<Rightarrow> nat \<Rightarrow> parsed_range" where
  "parseRangeHeader rangeHeader sz =
     (case rangeHeader of None \<Rightarrow> full_body
      | Some h \<Rightarrow>
          if h = [] then full_body
          else if \<not> is_safe_nat sz \<or> sz = 0 then full_body
          else (case range_match h of None \<Rightarrow> full_body
                | Some (startText, endText) \<Rightarrow>
                    if CHR '','' \<in> set h then full_body
                    else if startText = [] then
                      (if endText = [] then full_body else suffix_range endText sz)
                    else bounded_range startText endText sz))"

text \<open>
  A partial response is a part: whenever a \<open>Range\<close> header is answered with 206, the
  slice is non-empty, lies within the file and is what \<open>Content-Range\<close> announces; otherwise
  the whole file (200) or nothing (416) is served, and 416 only for a non-empty file.
\<close>

theorem range_within_file:
  "(pr_status (parseRangeHeader h sz) = 206
      \<and> (\<exists>len. pr_length (parseRangeHeader h sz) = Some len \<and> 0 < len
           \<and> pr_offset (parseRangeHeader h sz) + len \<le> sz
           \<and> parseRangeHeader h sz = partial_content (pr_offset (parseRangeHeader h sz)) len sz))
   \<or> parseRangeHeader h sz = full_body
   \<or> (parseRangeHeader h sz = unsatisfiable sz \<and> 0 < sz)"
proof -
  define good where "good f \<longleftrightarrow> f = full_body \<or> (f = unsatisfiable sz \<and> 0 < sz)
      \<or> (\<exists>off len. 0 < len \<and> off + len \<le> sz \<and> f = partial_content off len sz)" for f
  have [simp]: "good full_body" "0 < sz \<Longrightarrow> good (unsatisfiable sz)"
    by (simp_all add: good_def)
  have part: "good (partial_content off len sz)" if "0 < len" "off + len \<le> sz" for off len
    using that unfolding good_def by blast
  have suffix: "good (suffix_range e sz)" if "0 < sz" for e
    using that by (auto simp: suffix_range_def Let_def intro!: part split: option.split)
  have bounded: "good (bounded_range s e sz)" if "0 < sz" for s e
    using that unfolding bounded_range_def
    by (auto intro!: part simp del: min_less_iff_conj split: option.split)
  have "good (parseRangeHeader h sz)"
    unfolding parseRangeHeader_def using suffix bounded by (auto split: option.split prod.split)
  then show ?thesis by (auto simp: good_def partial_content_def)
qed

subsection \<open>Pages (\<open>listing.ts\<close>)\<close>

definition default_page_size :: nat where "default_page_size = 100"
definition max_page_size :: nat where "max_page_size = 250"

text \<open>\<open>Math.trunc\<close>. The argument of the clamps is what \<open>Number(requested)\<close> gave: \<open>None\<close> for
  a value that is not finite, which \<open>Number(null) = 0\<close> is not.\<close>

definition trunc :: "rat \<Rightarrow> int" where
  "trunc q = (if q < 0 then - \<lfloor>- q\<rfloor> else \<lfloor>q\<rfloor>)"

definition clampPageSize :: "rat option \<Rightarrow> nat" where
  "clampPageSize raw =
     (case raw of None \<Rightarrow> default_page_size
      | Some r \<Rightarrow> (let truncated = trunc r
          in if truncated \<le> 0 then default_page_size else nat (min truncated (int max_page_size))))"

definition clampPageNumber :: "rat option \<Rightarrow> nat" where
  "clampPageNumber raw = (case raw of None \<Rightarrow> 1 | Some r \<Rightarrow> nat (max (trunc r) 1))"

definition pageCountFor :: "nat \<Rightarrow> nat \<Rightarrow> nat" where
  "pageCountFor n pageSize =
     (if n = 0 then 1 else max 1 ((n + max 1 pageSize - 1) div max 1 pageSize))"

definition clampPageToCollection :: "nat \<Rightarrow> nat \<Rightarrow> nat \<Rightarrow> nat" where
  "clampPageToCollection page n pageSize = (if n = 0 then 1 else min page (pageCountFor n pageSize))"

definition offsetForPage :: "nat \<Rightarrow> nat \<Rightarrow> nat" where
  "offsetForPage page pageSize = (page - 1) * max 1 pageSize"

subsection \<open>Paging of \<open>PROPFIND\<close>\<close>

record dav_paging =
  pg_page :: nat
  pg_limit :: nat
  pg_offset :: nat
  pg_total :: nat

definition readPagingHeaders :: "request \<Rightarrow> (string option \<times> string option) option" where
  "readPagingHeaders req =
     (let rawPage = r_header req ''X-Dav-Page''; rawLimit = r_header req ''X-Dav-Page-Limit''
      in if rawPage = None \<and> rawLimit = None then None else Some (rawPage, rawLimit))"

text \<open>\<open>Number(null)\<close> is \<open>0\<close>.\<close>

definition header_number :: "string option \<Rightarrow> rat option" where
  "header_number v = (case v of None \<Rightarrow> Some 0 | Some s \<Rightarrow> js_number s)"

definition resolvePaging :: "string option \<times> string option \<Rightarrow> nat \<Rightarrow> dav_paging" where
  "resolvePaging requested n =
     (let limit = clampPageSize (header_number (snd requested));
          page = clampPageToCollection (clampPageNumber (header_number (fst requested))) n limit
      in \<lparr>pg_page = page, pg_limit = limit, pg_offset = offsetForPage page limit, pg_total = n\<rparr>)"

definition pagingHeaders :: "dav_paging \<Rightarrow> (string \<times> string) list" where
  "pagingHeaders paging =
     [(''X-Dav-Page-Count'', show_nat (pg_total paging)), (''X-Dav-Page'', show_nat (pg_page paging)),
      (''X-Dav-Page-Limit'', show_nat (pg_limit paging))]"

lemma clampPageSize_bounds: "1 \<le> clampPageSize r \<and> clampPageSize r \<le> max_page_size"
  by (auto simp: clampPageSize_def default_page_size_def max_page_size_def Let_def split: option.split)

lemma pageCountFor_covers:
  assumes "0 < n" and "1 \<le> l"
  shows "(pageCountFor n l - 1) * l < n \<and> n \<le> pageCountFor n l * l"
proof -
  have eq: "pageCountFor n l = (n - 1) div l + 1"
  proof -
    have "(n + l - 1) div l = (n - 1) div l + 1"
      using assms by (metis Nat.add_diff_assoc2 Suc_leI div_add_self2 One_nat_def less_numeral_extra(3) not_one_le_zero)
    then show ?thesis using assms by (simp add: pageCountFor_def)
  qed
  define q where "q = (n - 1) div l"
  define r where "r = (n - 1) mod l"
  have "q * l + r = n - 1" "r < l" using assms by (simp_all add: q_def r_def)
  then have "q * l < n" "n \<le> (q + 1) * l" using assms(1) by auto
  then show ?thesis unfolding eq q_def by simp
qed

text \<open>
  A page request never shows a full folder as empty: whatever the two paging headers hold,
  the page size is between 1 and 250, the page served exists, and its offset lies within the
  collection (at 0 for an empty one).
\<close>

theorem page_is_inside_collection:
  "1 \<le> pg_limit (resolvePaging requested n) \<and> pg_limit (resolvePaging requested n) \<le> 250
   \<and> 1 \<le> pg_page (resolvePaging requested n)
   \<and> pg_page (resolvePaging requested n) \<le> pageCountFor n (pg_limit (resolvePaging requested n))
   \<and> (if n = 0 then pg_offset (resolvePaging requested n) = 0 else pg_offset (resolvePaging requested n) < n)"
proof -
  define l where "l = clampPageSize (header_number (snd requested))"
  define q where "q = clampPageNumber (header_number (fst requested))"
  have l: "1 \<le> l" "l \<le> 250"
    using clampPageSize_bounds [of "header_number (snd requested)"] by (simp_all add: l_def max_page_size_def)
  have q: "1 \<le> q" by (auto simp: q_def clampPageNumber_def split: option.split)
  have pc: "1 \<le> pageCountFor n l" by (simp add: pageCountFor_def)
  have p: "1 \<le> clampPageToCollection q n l" "clampPageToCollection q n l \<le> pageCountFor n l"
    using q pc by (auto simp: clampPageToCollection_def)
  have "offsetForPage (clampPageToCollection q n l) l < n" if "0 < n"
  proof -
    have "(clampPageToCollection q n l - 1) * l \<le> (pageCountFor n l - 1) * l"
      using p(2) by (intro mult_right_mono) auto
    moreover have "(pageCountFor n l - 1) * l < n" using pageCountFor_covers [OF that l(1)] by simp
    ultimately have "(clampPageToCollection q n l - 1) * l < n" by (rule le_less_trans)
    moreover have "max 1 l = l" using l(1) by simp
    ultimately show ?thesis by (simp only: offsetForPage_def)
  qed
  moreover have "offsetForPage (clampPageToCollection q 0 l) l = 0"
    by (simp add: clampPageToCollection_def offsetForPage_def)
  ultimately show ?thesis
    using l p by (simp add: resolvePaging_def Let_def flip: l_def q_def)
qed

text \<open>
  Walking the pages lists every entry once: concatenating the pages 1 to
  \<open>pageCountFor\<close> of a listing, each cut at its offset and limit, is the whole listing.
\<close>

theorem pages_partition_the_listing:
  assumes "1 \<le> l"
  shows "concat (map (\<lambda>p. take l (drop (offsetForPage p l) xs)) [1..<pageCountFor (length xs) l + 1]) = xs"
proof -
  have pages: "concat (map (\<lambda>p. take l (drop (offsetForPage p l) xs)) [1..<k + 1]) = take (k * l) xs" for k
  proof (induction k)
    case (Suc k)
    have "offsetForPage (Suc k) l = k * l" using assms by (simp add: offsetForPage_def max_def)
    moreover have "take (Suc k * l) xs = take (k * l) xs @ take l (drop (k * l) xs)"
      by (metis add.commute mult_Suc take_add)
    ultimately show ?case using Suc by simp
  qed simp
  show ?thesis
  proof (cases "xs = []")
    case False
    then have "length xs \<le> pageCountFor (length xs) l * l"
      using pageCountFor_covers [of "length xs" l] assms by simp
    with pages [of "pageCountFor (length xs) l"] show ?thesis by simp
  qed simp
qed

theorem pages_partition_the_listing_witness:
  "take 2 (drop (offsetForPage 1 2) ''abc'') @ take 2 (drop (offsetForPage 2 2) ''abc'') = ''abc''"
proof -
  have "[1..<pageCountFor (length ''abc'') 2 + 1] = [1, 2]" by code_simp
  then show ?thesis using pages_partition_the_listing [of 2 "''abc''"] by (simp del: upt_Suc)
qed

end
