(* ===== verification/Dav_Conditions.thy ===== *)
theory Dav_Conditions
  imports Http
begin

section \<open>Lock tokens, the \<open>If\<close> header, timeouts, conditional requests\<close>

text \<open>
  Models \<open>packages/webdav/src/locks.ts\<close> and \<open>apps/background/src/dav/DavConditionalGuard.ts\<close>.
  The cursor of \<open>parseIfHeader\<close> is represented by the rest of the header from it on, so
  \<open>indexOf\<close> is a \<^const>\<open>dropWhile\<close>. \<open>Date.now()\<close> is the argument \<open>now\<close>; \<open>Date.parse\<close> is
  the parameter \<open>date_parse\<close>, \<open>None\<close> for an unparseable date.
\<close>

subsection \<open>Lock details\<close>

datatype lock_scope = Exclusive | Shared
datatype lock_depth = Depth_0 | Depth_infinity

record lock_details =
  l_token :: string
  l_owner :: "string option"
  l_scope :: lock_scope
  l_depth :: lock_depth
  l_timeout :: string
  l_expiresAt :: int
  l_root :: string

definition default_lock_timeout :: int where "default_lock_timeout = 3600"
definition max_lock_timeout :: int where "max_lock_timeout = 365 * 24 * 60 * 60"

definition determineLockDepth :: "bool \<Rightarrow> lock_depth option \<Rightarrow> lock_depth" where
  "determineLockDepth resourceIsCollection depthHeader =
     (if resourceIsCollection then (case depthHeader of Some d \<Rightarrow> d | None \<Rightarrow> Depth_infinity)
      else if depthHeader = Some Depth_infinity then Depth_infinity else Depth_0)"

definition strip_token_prefix :: "string \<Rightarrow> string" where
  "strip_token_prefix s =
     (if starts_with ''urn:uuid:'' s then drop 9 s
      else if starts_with ''opaquelocktoken:'' s then drop 16 s else s)"

definition normalizeLockToken :: "string \<Rightarrow> string" where
  "normalizeLockToken lockToken =
     (let s = trim lockToken;
          s1 = (if starts_with ''<'' s then tl s else s);
          s2 = (if ends_with ''>'' s1 then butlast s1 else s1)
      in strip_token_prefix s2)"

definition normalizeLockDetails :: "int \<Rightarrow> lock_details \<Rightarrow> lock_details option" where
  "normalizeLockDetails now d =
     (let expiresAt = (if l_expiresAt d \<le> 0 then now + default_lock_timeout * 1000 else l_expiresAt d)
      in if expiresAt \<le> now then None else Some (d\<lparr>l_expiresAt := expiresAt\<rparr>))"

definition scope_name :: "lock_scope \<Rightarrow> string" where
  "scope_name s = (case s of Exclusive \<Rightarrow> ''exclusive'' | Shared \<Rightarrow> ''shared'')"

definition depth_name :: "lock_depth \<Rightarrow> string" where
  "depth_name d = (case d of Depth_0 \<Rightarrow> ''0'' | Depth_infinity \<Rightarrow> ''infinity'')"

definition getSupportedLock :: string where
  "getSupportedLock =
     ''<lockentry><lockscope><exclusive /></lockscope><locktype><write /></locktype></lockentry>'' @
     ''<lockentry><lockscope><shared /></lockscope><locktype><write /></locktype></lockentry>''"

definition getLockDiscovery :: "lock_details list \<Rightarrow> string" where
  "getLockDiscovery ds = concat (map (\<lambda>d.
     ''<activelock><locktype><write /></locktype><lockscope><'' @ scope_name (l_scope d) @
     '' /></lockscope><depth>'' @ depth_name (l_depth d) @ ''</depth>'' @
     (case l_owner d of None \<Rightarrow> [] | Some w \<Rightarrow> if w = [] then [] else ''<owner>'' @ escapeXml w @ ''</owner>'') @
     ''<timeout>'' @ escapeXml (l_timeout d) @ ''</timeout><locktoken><href>urn:uuid:'' @
     escapeXml (l_token d) @ ''</href></locktoken><lockroot><href>'' @ escapeXml (l_root d) @
     ''</href></lockroot></activelock>'') ds)"

subsection \<open>\<open>Timeout\<close>\<close>

definition second_digits :: "string \<Rightarrow> string option" where
  "second_digits item =
     (let ds = drop 7 item
      in if to_lower (take 7 item) = ''second-'' \<and> ds \<noteq> [] \<and> list_all is_digit ds then Some ds else None)"

definition default_timeout :: "int \<Rightarrow> string \<times> int" where
  "default_timeout now = (''Second-'' @ show_int default_lock_timeout, now + default_lock_timeout * 1000)"

fun parse_timeout_items :: "int \<Rightarrow> string list \<Rightarrow> string \<times> int" where
  "parse_timeout_items now [] = default_timeout now"
| "parse_timeout_items now (raw # rest) =
     (let item = trim raw
      in if to_lower item = ''infinite'' then (''Infinite'', now + max_lock_timeout * 1000)
         else (case Option.bind (second_digits item) js_digits of
                 None \<Rightarrow> parse_timeout_items now rest
               | Some seconds \<Rightarrow>
                   if seconds > 0
                   then let clamped = min (int seconds) max_lock_timeout
                        in (''Second-'' @ show_int clamped, now + clamped * 1000)
                   else parse_timeout_items now rest))"

definition parseTimeout :: "int \<Rightarrow> string option \<Rightarrow> string \<times> int" where
  "parseTimeout now timeoutHeader =
     (case timeoutHeader of None \<Rightarrow> default_timeout now
      | Some h \<Rightarrow> parse_timeout_items now (split_on CHR '','' h))"

subsection \<open>The \<open>If\<close> header\<close>

datatype if_condition =
    Token string bool
  | Etag string bool
  | No_lock bool
  | Unknown

definition isNegationAt :: "string \<Rightarrow> bool" where
  "isNegationAt s \<longleftrightarrow> to_lower (take 3 s) = ''not''"

definition whitespace_at :: "string \<Rightarrow> nat \<Rightarrow> bool" where
  "whitespace_at s i = (case char_at s i of None \<Rightarrow> False | Some c \<Rightarrow> is_ws c)"

lemma length_dropWhile_tail: "dropWhile P s = x # t \<Longrightarrow> length t < length s"
  by (metis Suc_le_lessD length_Cons length_dropWhile_le)

lemma length_after_close:
  assumes "dropWhile P s = x # body" and "y # t = (if neg then dropWhile is_ws (drop 3 (dropWhile is_ws body))
      else dropWhile is_ws body)"
  shows "length (dropWhile Q t) - Suc 0 < length s"
proof -
  have "length (y # t) \<le> length body"
    unfolding assms(2)
    using length_dropWhile_le [of is_ws body]
      length_dropWhile_le [of is_ws "drop 3 (dropWhile is_ws body)"]
    by (auto simp del: length_dropWhile_le)
  moreover have "length (dropWhile Q t) \<le> length t"
    by (rule length_dropWhile_le)
  ultimately show ?thesis using length_dropWhile_tail [OF assms(1)] by simp
qed

text \<open>The loop; the flag of the result is \<open>unparseable\<close>.\<close>

function parse_if_loop :: "string \<Rightarrow> if_condition list \<times> bool" where
  "parse_if_loop s =
     (case dropWhile (\<lambda>c. c \<noteq> CHR ''('') s of
        [] \<Rightarrow> ([], False)
      | paren # body \<Rightarrow>
          (let r1 = dropWhile is_ws body;
               neg = isNegationAt r1 \<and> whitespace_at r1 3;
               r2 = (if neg then dropWhile is_ws (drop 3 r1) else r1)
           in (case r2 of
                 [] \<Rightarrow> (let (cs, bad) = parse_if_loop body in (cs, True))
               | opener # t \<Rightarrow>
                   if opener = CHR ''<'' then
                     (if CHR ''>'' \<notin> set t then ([], True)
                      else let value = takeWhile (\<lambda>c. c \<noteq> CHR ''>'') t;
                               (cs, bad) = parse_if_loop (tl (dropWhile (\<lambda>c. c \<noteq> CHR ''>'') t))
                           in ((if to_lower value = ''dav:no-lock'' then No_lock neg else Token value neg) # cs, bad))
                   else if opener = CHR ''['' then
                     (if CHR '']'' \<notin> set t then ([], True)
                      else let value = takeWhile (\<lambda>c. c \<noteq> CHR '']'') t;
                               (cs, bad) = parse_if_loop (tl (dropWhile (\<lambda>c. c \<noteq> CHR '']'') t))
                           in (Etag (trim value) neg # cs, bad))
                   else (let (cs, bad) = parse_if_loop body in (cs, True)))))"
  by pat_completeness auto

termination
  by (relation "measure length") (auto dest: length_dropWhile_tail length_after_close)

declare parse_if_loop.simps [simp del]

definition parseIfHeader :: "string option \<Rightarrow> if_condition list" where
  "parseIfHeader ifHeader =
     (case ifHeader of None \<Rightarrow> []
      | Some h \<Rightarrow> if h = [] then []
          else (let (conditions, unparseable) = parse_if_loop h
                in conditions @ (if unparseable then [Unknown] else [])))"

definition hasAlwaysFalseIfCondition :: "request \<Rightarrow> bool" where
  "hasAlwaysFalseIfCondition req =
     (case r_header req ''If'' of None \<Rightarrow> False
      | Some raw \<Rightarrow> if raw = [] then False
          else (let conditions = parseIfHeader (Some raw) in conditions = [] \<or> Unknown \<in> set conditions))"

definition getIfHeaderEtags :: "request \<Rightarrow> (string \<times> bool) list" where
  "getIfHeaderEtags req =
     concat (map (\<lambda>c. case c of Etag e neg \<Rightarrow> [(e, neg)] | _ \<Rightarrow> []) (parseIfHeader (r_header req ''If'')))"

definition if_tokens :: "if_condition list \<Rightarrow> string list" where
  "if_tokens cs = concat (map (\<lambda>c. case c of Token v _ \<Rightarrow> [normalizeLockToken v] | _ \<Rightarrow> []) cs)"

definition getRequestLockTokens :: "request \<Rightarrow> string list" where
  "getRequestLockTokens req =
     (let direct = (case r_header req ''Lock-Token'' of None \<Rightarrow> []
                    | Some d \<Rightarrow> if d = [] then [] else [normalizeLockToken d]);
          tokens = direct @ if_tokens (parseIfHeader (r_header req ''If''))
      in dedup (filter (\<lambda>t. t \<noteq> [] \<and> \<not> starts_with ''dav:'' (to_lower t)) tokens))"

subsection \<open>Conditional requests\<close>

record current_state =
  cs_etag :: "string option"
  cs_mtime :: "int option"

definition preconditionFailed :: "string \<Rightarrow> response" where
  "preconditionFailed h = respond 412 (''Precondition Failed: '' @ h)"

definition matchesEtagList :: "string \<Rightarrow> string \<Rightarrow> bool" where
  "matchesEtagList headerValue etag \<longleftrightarrow>
     weakEtagValue etag \<in> set (map weakEtagValue (split_on CHR '','' headerValue))"

definition not_modified :: "string option \<Rightarrow> response" where
  "not_modified etag =
     respond_with 304 (case etag of None \<Rightarrow> [] | Some e \<Rightarrow> if e = [] then [] else [(''ETag'', e)]) []"

definition check_if_match :: "request \<Rightarrow> current_state \<Rightarrow> response option" where
  "check_if_match req state =
     (case r_header req ''If-Match'' of None \<Rightarrow> None
      | Some h \<Rightarrow>
          (if trim h = ''*''
           then (if cs_etag state = None then Some (preconditionFailed ''If-Match'') else None)
           else (case cs_etag state of
                   None \<Rightarrow> Some (preconditionFailed ''If-Match'')
                 | Some e \<Rightarrow> if matchesEtagList h e then None else Some (preconditionFailed ''If-Match''))))"

definition check_unmodified :: "(string \<Rightarrow> int option) \<Rightarrow> request \<Rightarrow> current_state \<Rightarrow> response option" where
  "check_unmodified date_parse req state =
     (case (r_header req ''If-Match'', r_header req ''If-Unmodified-Since'', cs_mtime state) of
        (None, Some h, Some mtime) \<Rightarrow>
          (case date_parse h of None \<Rightarrow> None
           | Some since \<Rightarrow> if mtime div 1000 * 1000 > since
               then Some (preconditionFailed ''If-Unmodified-Since'') else None)
      | _ \<Rightarrow> None)"

definition check_none_match :: "request \<Rightarrow> current_state \<Rightarrow> bool \<Rightarrow> response option" where
  "check_none_match req state forRead =
     (case r_header req ''If-None-Match'' of None \<Rightarrow> None
      | Some h \<Rightarrow>
          (let wildcard = (trim h = ''*'');
               matched = (\<not> wildcard \<and> (case cs_etag state of None \<Rightarrow> False | Some e \<Rightarrow> matchesEtagList h e))
           in if wildcard \<or> matched
              then Some (if forRead then not_modified (cs_etag state) else preconditionFailed ''If-None-Match'')
              else None))"

definition check_if_etags :: "request \<Rightarrow> current_state \<Rightarrow> response option" where
  "check_if_etags req state =
     (let ifEtags = getIfHeaderEtags req;
          hit = (\<lambda>e. case cs_etag state of None \<Rightarrow> False | Some cur \<Rightarrow> matchesEtagList e cur)
      in if ifEtags \<noteq> [] \<and> \<not> list_ex (\<lambda>(e, neg). if neg then \<not> hit e else hit e) ifEtags
         then Some (preconditionFailed ''If'') else None)"

definition check_modified :: "(string \<Rightarrow> int option) \<Rightarrow> request \<Rightarrow> current_state \<Rightarrow> bool \<Rightarrow> response option" where
  "check_modified date_parse req state forRead =
     (case (r_header req ''If-None-Match'', if forRead then r_header req ''If-Modified-Since'' else None, cs_mtime state) of
        (None, Some h, Some mtime) \<Rightarrow>
          (case date_parse h of None \<Rightarrow> None
           | Some since \<Rightarrow> if mtime div 1000 * 1000 \<le> since then Some (not_modified (cs_etag state)) else None)
      | _ \<Rightarrow> None)"

text \<open>The first answer, in the order of the evaluation.\<close>

fun first_answer :: "response option list \<Rightarrow> response option" where
  "first_answer [] = None"
| "first_answer (None # rest) = first_answer rest"
| "first_answer (Some r # rest) = Some r"

definition check_conditions ::
    "(string \<Rightarrow> int option) \<Rightarrow> request \<Rightarrow> current_state \<Rightarrow> bool \<Rightarrow> response option" where
  "check_conditions date_parse req state forRead =
     first_answer [check_if_match req state, check_unmodified date_parse req state,
       check_none_match req state forRead, check_if_etags req state,
       check_modified date_parse req state forRead]"

subsection \<open>Reading back a printed \<open>If\<close> header\<close>

text \<open>The canonical spelling of a condition, and the conditions that have one.\<close>

definition print_condition :: "if_condition \<Rightarrow> string" where
  "print_condition c =
     (case c of
        Token v neg \<Rightarrow> ''('' @ (if neg then ''Not '' else []) @ ''<'' @ v @ ''>)''
      | Etag v neg \<Rightarrow> ''('' @ (if neg then ''Not '' else []) @ ''['' @ v @ '']'' @ '')''
      | No_lock neg \<Rightarrow> ''('' @ (if neg then ''Not '' else []) @ ''<DAV:no-lock>)''
      | Unknown \<Rightarrow> ''()'')"

definition printable :: "if_condition \<Rightarrow> bool" where
  "printable c \<longleftrightarrow>
     (case c of
        Token v neg \<Rightarrow> CHR ''>'' \<notin> set v \<and> to_lower v \<noteq> ''dav:no-lock''
      | Etag v neg \<Rightarrow> CHR '']'' \<notin> set v \<and> trim v = v
      | No_lock neg \<Rightarrow> True
      | Unknown \<Rightarrow> False)"

lemma parse_skip: "c \<noteq> CHR ''('' \<Longrightarrow> parse_if_loop (c # s) = parse_if_loop s"
  by (subst (1 2) parse_if_loop.simps) simp

lemma takeWhile_until [simp]: "x \<notin> set v \<Longrightarrow> takeWhile (\<lambda>c. c \<noteq> x) (v @ x # t) = v"
  and dropWhile_until [simp]: "x \<notin> set v \<Longrightarrow> dropWhile (\<lambda>c. c \<noteq> x) (v @ x # t) = x # t"
  by (induction v) auto

lemma negation_prefix:
  "isNegationAt (''Not '' @ s)" "whitespace_at (''Not '' @ s) 3"
  "opener \<in> {CHR ''<'', CHR ''[''} \<Longrightarrow> \<not> isNegationAt (opener # s)"
proof -
  have low: "map lower_char ''Not'' = ''not''" "lower_char CHR ''<'' = CHR ''<''" "lower_char CHR ''['' = CHR ''[''"
    by code_simp+
  then show "isNegationAt (''Not '' @ s)"
    by (simp add: isNegationAt_def to_lower_def numeral_3_eq_3)
  show "whitespace_at (''Not '' @ s) 3"
    by (simp add: whitespace_at_def char_at_def is_ws_def numeral_3_eq_3)
  show "opener \<in> {CHR ''<'', CHR ''[''} \<Longrightarrow> \<not> isNegationAt (opener # s)"
    using low by (auto simp: isNegationAt_def numeral_3_eq_3)
qed

lemma parse_group:
  assumes "opener \<in> {CHR ''<'', CHR ''[''}"
  shows "parse_if_loop (''('' @ (if neg then ''Not '' else []) @ opener # t) =
    (if opener = CHR ''<'' then
       (if CHR ''>'' \<notin> set t then ([], True)
        else let value = takeWhile (\<lambda>c. c \<noteq> CHR ''>'') t;
                 (cs, bad) = parse_if_loop (tl (dropWhile (\<lambda>c. c \<noteq> CHR ''>'') t))
             in ((if to_lower value = ''dav:no-lock'' then No_lock neg else Token value neg) # cs, bad))
     else (if CHR '']'' \<notin> set t then ([], True)
        else let value = takeWhile (\<lambda>c. c \<noteq> CHR '']'') t;
                 (cs, bad) = parse_if_loop (tl (dropWhile (\<lambda>c. c \<noteq> CHR '']'') t))
             in (Etag (trim value) neg # cs, bad)))"
proof -
  let ?body = "(if neg then ''Not '' else []) @ opener # t"
  have ws: "dropWhile is_ws (CHR '' '' # opener # t) = opener # t" "dropWhile is_ws (opener # t) = opener # t"
    using assms by (auto simp: is_ws_def)
  have r1: "dropWhile is_ws ?body = ?body"
    using ws by (simp add: is_ws_def)
  have neg: "(isNegationAt ?body \<and> whitespace_at ?body 3) = neg"
    using assms negation_prefix(1,2) [of "opener # t"] negation_prefix(3) [of opener t]
    by (cases neg) simp_all
  have r2: "(if neg then dropWhile is_ws (drop 3 ?body) else ?body) = opener # t"
    using ws by simp
  show ?thesis
    using assms
    by (subst parse_if_loop.simps) (simp only: append_Cons append_Nil dropWhile.simps simp_thms if_False
        list.case Let_def r1 neg r2, auto)
qed

lemma parse_printed:
  assumes "printable c"
  shows "parse_if_loop (print_condition c @ s) = (c # fst (parse_if_loop s), snd (parse_if_loop s))"
proof -
  have lt: "CHR ''<'' \<in> {CHR ''<'', CHR ''[''}" and br: "CHR ''['' \<in> {CHR ''<'', CHR ''[''}" by simp_all
  have tail: "parse_if_loop (CHR '')'' # s) = parse_if_loop s" by (simp add: parse_skip)
  show ?thesis
  proof (cases c)
    case (Token v neg)
    have "print_condition c @ s = ''('' @ (if neg then ''Not '' else []) @ CHR ''<'' # (v @ CHR ''>'' # CHR '')'' # s)"
      by (simp add: Token print_condition_def)
    then show ?thesis
      unfolding parse_group [OF lt] using Token assms
      by (simp only: parse_group [OF lt]) (simp add: printable_def tail split: prod.split)
  next
    case (Etag v neg)
    have "print_condition c @ s = ''('' @ (if neg then ''Not '' else []) @ CHR ''['' # (v @ CHR '']'' # CHR '')'' # s)"
      by (simp add: Etag print_condition_def)
    then show ?thesis
      using Etag assms
      by (simp only: parse_group [OF br]) (simp add: printable_def tail split: prod.split)
  next
    case (No_lock neg)
    have "print_condition c @ s = ''('' @ (if neg then ''Not '' else []) @ CHR ''<'' # (''DAV:no-lock'' @ CHR ''>'' # CHR '')'' # s)"
      by (simp add: No_lock print_condition_def)
    moreover have "to_lower ''DAV:no-lock'' = ''dav:no-lock''" "CHR ''>'' \<notin> set ''DAV:no-lock''" by code_simp+
    ultimately show ?thesis
      using takeWhile_until [of "CHR ''>''" "''DAV:no-lock''" "CHR '')'' # s"]
        dropWhile_until [of "CHR ''>''" "''DAV:no-lock''" "CHR '')'' # s"]
      by (simp only: parse_group [OF lt])
        (simp add: No_lock tail split: prod.split del: to_lower_Cons append_Cons takeWhile.simps dropWhile.simps)
  next
    case Unknown
    with assms show ?thesis by (simp add: printable_def)
  qed
qed

lemma print_condition_not_Nil [simp]: "print_condition c \<noteq> []"
  by (auto simp: print_condition_def split: if_condition.split)

text \<open>
  The \<open>If\<close> header means what it spells: any list of lock-token, entity-tag and no-lock
  conditions, negated or not, printed in the grammar of RFC 4918, is read back as exactly
  these conditions, with nothing marked unparseable.
\<close>

theorem if_header_reads_back:
  assumes "list_all printable cs"
  shows "parseIfHeader (Some (concat (map print_condition cs))) = cs"
proof -
  have "parse_if_loop (concat (map print_condition cs)) = (cs, False)"
    using assms by (induction cs) (simp_all add: parse_printed, simp add: parse_if_loop.simps)
  then show ?thesis
    by (cases cs) (simp_all add: parseIfHeader_def)
qed

theorem if_header_reads_back_witness:
  "parseIfHeader (Some ''(Not <urn:uuid:1>)([e1])'') = [Token ''urn:uuid:1'' True, Etag ''e1'' False]"
proof -
  have "list_all printable [Token ''urn:uuid:1'' True, Etag ''e1'' False]" by code_simp
  moreover have "concat (map print_condition [Token ''urn:uuid:1'' True, Etag ''e1'' False]) =
      ''(Not <urn:uuid:1>)([e1])''"
    by code_simp
  ultimately show ?thesis
    using if_header_reads_back [of "[Token ''urn:uuid:1'' True, Etag ''e1'' False]"] by simp
qed

subsection \<open>Timeouts are bounded\<close>

text \<open>
  A granted lock lives, and not for ever: whatever the \<open>Timeout\<close> header says, the expiry
  computed for the lock is at least a second ahead and at most a year.
\<close>

theorem timeout_is_bounded:
  "now + 1000 \<le> snd (parseTimeout now header)
   \<and> snd (parseTimeout now header) \<le> now + 365 * 24 * 60 * 60 * 1000"
proof -
  have "now + 1000 \<le> snd (parse_timeout_items now items)
      \<and> snd (parse_timeout_items now items) \<le> now + max_lock_timeout * 1000" for items
  proof (induction items)
    case Nil
    show ?case by (simp add: default_timeout_def default_lock_timeout_def max_lock_timeout_def)
  next
    case (Cons raw rest)
    show ?case
    proof (cases "to_lower (trim raw) = ''infinite''")
      case True
      then show ?thesis by (simp add: max_lock_timeout_def)
    next
      case False
      then show ?thesis
        using Cons by (auto simp: max_lock_timeout_def Let_def split: option.splits)
    qed
  qed
  then show ?thesis
    by (simp add: parseTimeout_def default_timeout_def default_lock_timeout_def max_lock_timeout_def
        split: option.split)
qed

subsection \<open>Conditional requests\<close>

text \<open>
  No lost update: a request whose \<open>If-Match\<close> names entity tags, none of which weakly equals
  the resource's current one (or which meets no resource at all), is refused with 412,
  whatever the other conditional headers say.
\<close>

theorem stale_if_match_is_refused:
  assumes "r_header req ''If-Match'' = Some h" and "trim h \<noteq> ''*''"
    and "case cs_etag state of None \<Rightarrow> True | Some e \<Rightarrow> \<not> matchesEtagList h e"
  shows "check_conditions date_parse req state forRead = Some (preconditionFailed ''If-Match'')"
  using assms by (simp add: check_conditions_def check_if_match_def split: option.splits)

definition header_request :: "string \<Rightarrow> (string \<times> string) list \<Rightarrow> request" where
  "header_request m hs = \<lparr>r_method = m, r_url = ''/'', r_pathname = ''/'', r_header = map_of hs, r_body = None\<rparr>"

theorem stale_if_match_is_refused_witness:
  "check_conditions (\<lambda>_. None) (header_request ''PUT'' [(''If-Match'', ''v1, v2'')])
     \<lparr>cs_etag = Some ''v3'', cs_mtime = None\<rparr> False = Some (preconditionFailed ''If-Match'')"
proof (rule stale_if_match_is_refused)
  show "r_header (header_request ''PUT'' [(''If-Match'', ''v1, v2'')]) ''If-Match'' = Some ''v1, v2''"
    by (simp add: header_request_def)
  show "trim ''v1, v2'' \<noteq> ''*''" by code_simp
  have "\<not> matchesEtagList ''v1, v2'' ''v3''" by code_simp
  then show "case cs_etag \<lparr>cs_etag = Some ''v3'', cs_mtime = None\<rparr> of None \<Rightarrow> True
      | Some e \<Rightarrow> \<not> matchesEtagList ''v1, v2'' e"
    by simp
qed

text \<open>
  A create-only write never succeeds: \<open>If-None-Match: *\<close> on a write is answered with a
  refusal for every state of the resource, also when it does not exist and the condition of
  RFC 9110 holds.
\<close>

theorem create_only_write_is_always_refused:
  assumes "r_header req ''If-None-Match'' = Some h" and "trim h = ''*''"
  shows "\<exists>r. check_conditions date_parse req state False = Some r \<and> rs_status r = 412"
proof -
  have none: "check_none_match req state False = Some (preconditionFailed ''If-None-Match'')"
    using assms by (simp add: check_none_match_def)
  have m: "rs_status r = 412" if "check_if_match req state = Some r" for r
    using that by (auto simp: check_if_match_def preconditionFailed_def split: option.splits if_splits)
  have u: "rs_status r = 412" if "check_unmodified date_parse req state = Some r" for r
    using that by (auto simp: check_unmodified_def preconditionFailed_def split: option.splits if_splits)
  consider r where "check_if_match req state = Some r"
    | r where "check_if_match req state = None" "check_unmodified date_parse req state = Some r"
    | "check_if_match req state = None" "check_unmodified date_parse req state = None"
    by (cases "check_if_match req state"; cases "check_unmodified date_parse req state") blast+
  then show ?thesis
    by cases (use m u none in \<open>simp_all add: check_conditions_def preconditionFailed_def\<close>)
qed

theorem create_only_write_is_always_refused_witness:
  "\<exists>r. check_conditions (\<lambda>_. None) (header_request ''PUT'' [(''If-None-Match'', ''*'')])
     \<lparr>cs_etag = None, cs_mtime = None\<rparr> False = Some r \<and> rs_status r = 412"
proof (rule create_only_write_is_always_refused)
  show "r_header (header_request ''PUT'' [(''If-None-Match'', ''*'')]) ''If-None-Match'' = Some ''*''"
    by (simp add: header_request_def)
  show "trim ''*'' = ''*''" by code_simp
qed

end
