(* ===== verification/Store.thy ===== *)
theory Store
  imports Dav_Conditions
begin

section \<open>The volume's metadata store\<close>

text \<open>
  Models \<open>packages/dav-store/src/meta.ts\<close> and \<open>replication.ts\<close>: the tables of a volume's
  SQLite as lists of rows in insertion order, and the statements as functions on them. A
  statement either fails, leaving its table alone, or takes effect: \<open>se_fails\<close> gives the
  message of the error for a statement with its bindings. \<open>dav_replica_state\<close> is \<open>None\<close> on a
  volume that has no such table. \<open>isMissingSchemaError\<close> (package \<open>@rexezuge/d1\<close>) is a parameter.
\<close>

subsection \<open>Rows and statements\<close>

record dead_property =
  dp_namespaceURI :: string
  dp_localName :: string
  dp_prefix :: "string option"
  dp_valueXml :: string

record node_row =
  n_path :: string
  n_isCollection :: bool
  n_contentType :: "string option"
  n_etag :: "string option"
  n_mtime :: int
  n_crtime :: int
  n_lockNull :: bool

record prop_row =
  pr_path :: string
  pr_namespace :: string
  pr_name :: string
  pr_prefix :: "string option"
  pr_value :: string

record lock_row =
  k_token :: string
  k_path :: string
  k_scope :: lock_scope
  k_depth :: lock_depth
  k_owner :: "string option"
  k_timeout :: string
  k_expiresAt :: int
  k_root :: string

record replica_row =
  rp_id :: string
  rp_path :: string
  rp_isCollection :: bool
  rp_localEtag :: "string option"
  rp_localMtime :: "int option"
  rp_localSize :: "nat option"
  rp_remoteEtag :: "string option"
  rp_remoteMtime :: "int option"
  rp_remoteSize :: "nat option"
  rp_contentType :: "string option"
  rp_syncedAt :: int

record store =
  st_nodes :: "node_row list"
  st_props :: "prop_row list"
  st_locks :: "lock_row list"
  st_replica :: "replica_row list option"

datatype dav_table = Nodes | Props | Locks | Replica_state

datatype sql_op =
    Select_node string
  | Upsert_node string
  | Select_props string
  | Upsert_prop string string string
  | Delete_prop string string string
  | Select_locks "string list"
  | Select_tokens string
  | Insert_lock string
  | Update_lock string
  | Delete_lock string
  | Delete_subtree dav_table string
  | Rename_subtree dav_table string string
  | Delete_all dav_table
  | Select_replica string
  | Upsert_replica string string
  | Delete_replica string string
  | Delete_replication string

record sql_env =
  se_fails :: "sql_op \<Rightarrow> string option"
  se_missing_schema :: "string \<Rightarrow> bool"
  se_now :: int

text \<open>The outcome of a statement: the store after it, and the error it threw, if it did.\<close>

type_synonym outcome = "store \<times> string option"

definition exec :: "sql_env \<Rightarrow> sql_op \<Rightarrow> (store \<Rightarrow> store) \<Rightarrow> store \<Rightarrow> outcome" where
  "exec env op f st = (case se_fails env op of Some e \<Rightarrow> (st, Some e) | None \<Rightarrow> (f st, None))"

text \<open>Statements one after the other, up to the first that throws.\<close>

fun run_all :: "(store \<Rightarrow> outcome) list \<Rightarrow> store \<Rightarrow> outcome" where
  "run_all [] st = (st, None)"
| "run_all (f # fs) st = (case f st of (st', Some e) \<Rightarrow> (st', Some e) | (st', None) \<Rightarrow> run_all fs st')"

subsection \<open>\<open>meta.ts\<close>\<close>

definition node_key :: "node_row \<Rightarrow> string" where "node_key = n_path"

definition prop_key :: "prop_row \<Rightarrow> string \<times> string \<times> string" where
  "prop_key r = (pr_path r, pr_namespace r, pr_name r)"

definition replica_key :: "replica_row \<Rightarrow> string \<times> string" where
  "replica_key r = (rp_id r, rp_path r)"

definition merge_node :: "node_row \<Rightarrow> node_row \<Rightarrow> node_row" where
  "merge_node old new = old\<lparr>n_isCollection := n_isCollection new, n_contentType := n_contentType new,
     n_etag := n_etag new, n_mtime := n_mtime new, n_lockNull := n_lockNull new\<rparr>"

definition merge_prop :: "prop_row \<Rightarrow> prop_row \<Rightarrow> prop_row" where
  "merge_prop old new = old\<lparr>pr_prefix := pr_prefix new, pr_value := pr_value new\<rparr>"

definition prop_of :: "string \<Rightarrow> dead_property \<Rightarrow> prop_row" where
  "prop_of p d = \<lparr>pr_path = p, pr_namespace = dp_namespaceURI d, pr_name = dp_localName d,
     pr_prefix = dp_prefix d, pr_value = dp_valueXml d\<rparr>"

definition upsertDeadProperty :: "sql_env \<Rightarrow> string \<Rightarrow> dead_property \<Rightarrow> store \<Rightarrow> outcome" where
  "upsertDeadProperty env p property =
     exec env (Upsert_prop p (dp_namespaceURI property) (dp_localName property))
       (\<lambda>st. st\<lparr>st_props := upsert prop_key merge_prop (prop_of p property) (st_props st)\<rparr>)"

record node_fields =
  nf_isCollection :: bool
  nf_contentType :: "string option"
  nf_etag :: "string option"
  nf_mtime :: "int option"
  nf_crtime :: "int option"
  nf_lockNull :: bool

definition upsertNode :: "sql_env \<Rightarrow> string \<Rightarrow> node_fields \<Rightarrow> store \<Rightarrow> outcome" where
  "upsertNode env p f =
     (let mtime = (case nf_mtime f of Some m \<Rightarrow> m | None \<Rightarrow> se_now env);
          crtime = (case nf_crtime f of Some c \<Rightarrow> c | None \<Rightarrow> mtime);
          row = \<lparr>n_path = p, n_isCollection = nf_isCollection f, n_contentType = nf_contentType f,
                 n_etag = nf_etag f, n_mtime = mtime, n_crtime = crtime, n_lockNull = nf_lockNull f\<rparr>
      in exec env (Upsert_node p) (\<lambda>st. st\<lparr>st_nodes := upsert node_key merge_node row (st_nodes st)\<rparr>))"

definition subtreePredicate :: "string \<Rightarrow> string \<Rightarrow> bool" where
  "subtreePredicate p q \<longleftrightarrow> q = p \<or> take (length p + 1) q = p @ ''/''"

definition delete_where :: "dav_table \<Rightarrow> (string \<Rightarrow> bool) \<Rightarrow> store \<Rightarrow> store" where
  "delete_where t P st =
     (case t of
        Nodes \<Rightarrow> st\<lparr>st_nodes := filter (\<lambda>r. \<not> P (n_path r)) (st_nodes st)\<rparr>
      | Props \<Rightarrow> st\<lparr>st_props := filter (\<lambda>r. \<not> P (pr_path r)) (st_props st)\<rparr>
      | Locks \<Rightarrow> st\<lparr>st_locks := filter (\<lambda>r. \<not> P (k_path r)) (st_locks st)\<rparr>
      | Replica_state \<Rightarrow> st\<lparr>st_replica := map_option (filter (\<lambda>r. \<not> P (rp_path r))) (st_replica st)\<rparr>)"

definition cascade_tables :: "dav_table list" where "cascade_tables = [Nodes, Props, Locks]"

definition rename_cascade_tables :: "dav_table list" where
  "rename_cascade_tables = [Nodes, Props, Replica_state]"

definition deleteNodeCascade :: "sql_env \<Rightarrow> string \<Rightarrow> store \<Rightarrow> outcome" where
  "deleteNodeCascade env p =
     (if p = [] then run_all (map (\<lambda>t. exec env (Delete_all t) (delete_where t (\<lambda>_. True))) cascade_tables)
      else run_all (map (\<lambda>t. exec env (Delete_subtree t p) (delete_where t (subtreePredicate p))) cascade_tables))"

text \<open>
  \<open>UPDATE t SET path = ... WHERE ...\<close>, row by row: the statement is undone as a whole when a
  row would take the key of another one (\<open>done\<close> are the rows already passed, in order).
\<close>

fun update_rows :: "('r \<Rightarrow> 'k) \<Rightarrow> ('r \<Rightarrow> bool) \<Rightarrow> ('r \<Rightarrow> 'r) \<Rightarrow> 'r list \<Rightarrow> 'r list \<Rightarrow> 'r list option" where
  "update_rows key P f passed [] = Some passed"
| "update_rows key P f passed (r # rs) =
     (if \<not> P r then update_rows key P f (passed @ [r]) rs
      else if key (f r) \<in> key ` set (passed @ rs) then None
      else update_rows key P f (passed @ [f r]) rs)"

definition repath :: "string \<Rightarrow> string \<Rightarrow> string \<Rightarrow> string" where
  "repath src dst p = dst @ drop (length src) p"

definition unique_failed :: string where "unique_failed = ''UNIQUE constraint failed''"
definition no_such_table :: string where "no_such_table = ''no such table: dav_replica_state''"

definition rename_table :: "sql_env \<Rightarrow> string \<Rightarrow> string \<Rightarrow> dav_table \<Rightarrow> store \<Rightarrow> outcome" where
  "rename_table env src dst t st =
     (case se_fails env (Rename_subtree t src dst) of
        Some e \<Rightarrow> (st, Some e)
      | None \<Rightarrow>
          (case t of
             Nodes \<Rightarrow>
               (case update_rows node_key (\<lambda>r. subtreePredicate src (n_path r))
                       (\<lambda>r. r\<lparr>n_path := repath src dst (n_path r)\<rparr>) [] (st_nodes st) of
                  None \<Rightarrow> (st, Some unique_failed) | Some rows \<Rightarrow> (st\<lparr>st_nodes := rows\<rparr>, None))
           | Props \<Rightarrow>
               (case update_rows prop_key (\<lambda>r. subtreePredicate src (pr_path r))
                       (\<lambda>r. r\<lparr>pr_path := repath src dst (pr_path r)\<rparr>) [] (st_props st) of
                  None \<Rightarrow> (st, Some unique_failed) | Some rows \<Rightarrow> (st\<lparr>st_props := rows\<rparr>, None))
           | Locks \<Rightarrow> (st, None)
           | Replica_state \<Rightarrow>
               (case st_replica st of
                  None \<Rightarrow> (st, Some no_such_table)
                | Some table \<Rightarrow>
                    (case update_rows replica_key (\<lambda>r. subtreePredicate src (rp_path r))
                            (\<lambda>r. r\<lparr>rp_path := repath src dst (rp_path r)\<rparr>) [] table of
                       None \<Rightarrow> (st, Some unique_failed) | Some rows \<Rightarrow> (st\<lparr>st_replica := Some rows\<rparr>, None)))))"

definition renameNodeCascade :: "sql_env \<Rightarrow> string \<Rightarrow> string \<Rightarrow> store \<Rightarrow> outcome" where
  "renameNodeCascade env src dst = run_all (map (rename_table env src dst) rename_cascade_tables)"

definition property_of :: "prop_row \<Rightarrow> dead_property" where
  "property_of r = \<lparr>dp_namespaceURI = pr_namespace r, dp_localName = pr_name r, dp_prefix = pr_prefix r,
     dp_valueXml = pr_value r\<rparr>"

definition getDeadProperties :: "sql_env \<Rightarrow> string \<Rightarrow> store \<Rightarrow> string + dead_property list" where
  "getDeadProperties env p st =
     (case se_fails env (Select_props p) of
        Some e \<Rightarrow> if se_missing_schema env e then Inr [] else Inl e
      | None \<Rightarrow> Inr (map property_of (filter (\<lambda>r. pr_path r = p) (st_props st))))"

subsection \<open>\<open>replication.ts\<close>\<close>

definition nullable :: "string option \<Rightarrow> string option" where
  "nullable v = (case v of Some s \<Rightarrow> if s = [] then None else Some s | None \<Rightarrow> None)"

definition toReplicaState :: "replica_row \<Rightarrow> replica_row" where
  "toReplicaState r = r\<lparr>rp_localEtag := nullable (rp_localEtag r), rp_remoteEtag := nullable (rp_remoteEtag r),
     rp_contentType := nullable (rp_contentType r)\<rparr>"

definition cmp_replica :: "replica_row \<Rightarrow> replica_row \<Rightarrow> int" where
  "cmp_replica a b = cmp_string (rp_path a) (rp_path b)"

text \<open>Rows of one replication, by path; the map of the source, as the list of its entries.\<close>

definition loadReplicaState :: "sql_env \<Rightarrow> string \<Rightarrow> store \<Rightarrow> string + replica_row list" where
  "loadReplicaState env replicationId st =
     (let failed = (\<lambda>e. if se_missing_schema env e then Inr [] else Inl e)
      in case se_fails env (Select_replica replicationId) of
           Some e \<Rightarrow> failed e
         | None \<Rightarrow>
             (case st_replica st of
                None \<Rightarrow> failed no_such_table
              | Some table \<Rightarrow>
                  Inr (filter (\<lambda>r. rp_path r \<noteq> [])
                    (map toReplicaState (sort_by cmp_replica (filter (\<lambda>r. rp_id r = replicationId) table))))))"

definition merge_replica :: "replica_row \<Rightarrow> replica_row \<Rightarrow> replica_row" where
  "merge_replica old new = new"

definition save_one :: "sql_env \<Rightarrow> string \<Rightarrow> replica_row \<Rightarrow> store \<Rightarrow> outcome" where
  "save_one env replicationId write st =
     (case se_fails env (Upsert_replica replicationId (rp_path write)) of
        Some e \<Rightarrow> (st, Some e)
      | None \<Rightarrow>
          (case st_replica st of
             None \<Rightarrow> (st, Some no_such_table)
           | Some table \<Rightarrow>
               (st\<lparr>st_replica := Some (upsert replica_key merge_replica (write\<lparr>rp_id := replicationId\<rparr>) table)\<rparr>, None)))"

definition saveReplicaState :: "sql_env \<Rightarrow> string \<Rightarrow> replica_row list \<Rightarrow> store \<Rightarrow> outcome" where
  "saveReplicaState env replicationId writes = run_all (map (save_one env replicationId) writes)"

definition delete_replica_rows :: "sql_env \<Rightarrow> sql_op \<Rightarrow> (replica_row \<Rightarrow> bool) \<Rightarrow> store \<Rightarrow> outcome" where
  "delete_replica_rows env op P st =
     (case se_fails env op of
        Some e \<Rightarrow> (st, Some e)
      | None \<Rightarrow>
          (case st_replica st of
             None \<Rightarrow> (st, Some no_such_table)
           | Some table \<Rightarrow> (st\<lparr>st_replica := Some (filter (\<lambda>r. \<not> P r) table)\<rparr>, None)))"

definition forgetReplicaPaths :: "sql_env \<Rightarrow> string \<Rightarrow> string list \<Rightarrow> store \<Rightarrow> outcome" where
  "forgetReplicaPaths env replicationId paths =
     run_all (map (\<lambda>p. delete_replica_rows env (Delete_replica replicationId p)
       (\<lambda>r. rp_id r = replicationId \<and> rp_path r = p)) paths)"

definition forgetReplication :: "sql_env \<Rightarrow> string \<Rightarrow> store \<Rightarrow> outcome" where
  "forgetReplication env replicationId =
     delete_replica_rows env (Delete_replication replicationId) (\<lambda>r. rp_id r = replicationId)"

definition replicaPaths :: "sql_env \<Rightarrow> string \<Rightarrow> store \<Rightarrow> string + string list" where
  "replicaPaths env replicationId st = map_sum id (map rp_path) (loadReplicaState env replicationId st)"

definition ensureReplicationSchema :: "store \<Rightarrow> store" where
  "ensureReplicationSchema st =
     (case st_replica st of None \<Rightarrow> st\<lparr>st_replica := Some []\<rparr> | Some _ \<Rightarrow> st)"

subsection \<open>The tables as keyed tables\<close>

interpretation nodes: keyed_table node_key merge_node
  by unfold_locales (simp add: node_key_def merge_node_def)

interpretation props: keyed_table prop_key merge_prop
  by unfold_locales (simp add: prop_key_def merge_prop_def)

interpretation replicas: keyed_table replica_key merge_replica
  by unfold_locales (simp add: merge_replica_def)

interpretation string_order: strict_comparator cmp_string
  by unfold_locales (auto simp: cmp_string_le cmp_string_def split: if_splits)

interpretation replica_order: comparator cmp_replica
  by unfold_locales (auto simp: cmp_replica_def cmp_string_le)

text \<open>No two rows share a primary key.\<close>

definition store_ok :: "store \<Rightarrow> bool" where
  "store_ok st \<longleftrightarrow> distinct (map node_key (st_nodes st)) \<and> distinct (map prop_key (st_props st))
     \<and> distinct (map k_token (st_locks st))
     \<and> (case st_replica st of None \<Rightarrow> True | Some table \<Rightarrow> distinct (map replica_key table))"

text \<open>An outcome that keeps a property of the store, whether or not a statement threw.\<close>

definition keeps :: "(store \<Rightarrow> store \<Rightarrow> bool) \<Rightarrow> (store \<Rightarrow> outcome) \<Rightarrow> bool" where
  "keeps R f \<longleftrightarrow> (\<forall>st. R st (fst (f st)))"

lemma keeps_exec: "\<lbrakk>\<And>st. R st st; \<And>st. R st (f st)\<rbrakk> \<Longrightarrow> keeps R (exec env op f)"
  by (auto simp: keeps_def exec_def split: option.split)

lemma keeps_run_all:
  assumes "\<And>st. R st st" and "\<And>a b c. \<lbrakk>R a b; R b c\<rbrakk> \<Longrightarrow> R a c" and "\<forall>f\<in>set fs. keeps R f"
  shows "keeps R (run_all fs)"
  using assms(3)
proof (induction fs)
  case (Cons f fs)
  have "R st (fst (run_all (f # fs) st))" for st
  proof (cases "f st")
    case (Pair st' e)
    have "keeps R f" using Cons.prems by simp
    then have "R st (fst (f st))" unfolding keeps_def by blast
    with Pair have "R st st'" by simp
    moreover have "R st' (fst (run_all fs st'))" using Cons by (simp add: keeps_def)
    ultimately show ?thesis using Pair assms(2) by (auto split: option.split)
  qed
  then show ?case by (simp add: keeps_def)
qed (simp add: keeps_def assms(1))

lemma run_all_ok: "(\<And>f st. f \<in> set fs \<Longrightarrow> snd (f st) = None) \<Longrightarrow>
    run_all fs st = (foldl (\<lambda>s f. fst (f s)) st fs, None)"
proof (induction fs arbitrary: st)
  case (Cons f fs)
  then have "snd (f st) = None" by simp
  then obtain st' where "f st = (st', None)" by (cases "f st") simp
  with Cons show ?case by simp
qed simp

lemma delete_where_ok: "store_ok st \<Longrightarrow> store_ok (delete_where t P st)"
  by (auto simp: store_ok_def delete_where_def intro: distinct_map_filter split: dav_table.split option.splits)

text \<open>A successful row-by-row update maps the selected rows and keeps the keys distinct.\<close>

lemma update_rows_Some:
  assumes "update_rows key P f passed rs = Some rows"
  shows "rows = passed @ map (\<lambda>r. if P r then f r else r) rs"
    and "distinct (map key (passed @ rs)) \<Longrightarrow> distinct (map key rows)"
  using assms
proof (induction key P f passed rs rule: update_rows.induct)
  case (2 key P f passed r rs)
  { case 1 then show ?case using 2 by (auto split: if_splits) }
  { case 2 then show ?case using "2.IH" by (force split: if_splits) }
qed auto

lemma rename_table_ok: "store_ok st \<Longrightarrow> store_ok (fst (rename_table env src dst t st))"
  by (auto simp: store_ok_def rename_table_def dest!: update_rows_Some(2)
      split: option.splits dav_table.split)

lemma save_one_ok: "store_ok st \<Longrightarrow> store_ok (fst (save_one env rid w st))"
  by (auto simp: store_ok_def save_one_def intro: replicas.upsert_distinct split: option.split option.splits)

lemma keeps_ok: "keeps (\<lambda>a b. store_ok a \<longrightarrow> store_ok b) f \<Longrightarrow> store_ok st \<Longrightarrow> store_ok (fst (f st))"
  by (simp add: keeps_def)

text \<open>
  No operation on the metadata store ever leaves two rows under one primary key: writing a
  node or a dead property, deleting or re-pathing a subtree, recording or forgetting
  replication state keep the tables keyed, also when a statement fails half-way.
\<close>

theorem store_stays_keyed:
  assumes "store_ok st"
  shows "store_ok (fst (upsertNode env p f st))
    \<and> store_ok (fst (upsertDeadProperty env p d st))
    \<and> store_ok (fst (deleteNodeCascade env p st))
    \<and> store_ok (fst (renameNodeCascade env src dst st))
    \<and> store_ok (fst (saveReplicaState env rid writes st))
    \<and> store_ok (fst (forgetReplicaPaths env rid paths st))
    \<and> store_ok (fst (forgetReplication env rid st))"
proof (intro conjI)
  let ?R = "\<lambda>a b. store_ok a \<longrightarrow> store_ok b"
  show "store_ok (fst (upsertNode env p f st))"
    using assms by (auto simp: upsertNode_def exec_def store_ok_def Let_def intro: nodes.upsert_distinct
        split: option.split)
  show "store_ok (fst (upsertDeadProperty env p d st))"
    using assms by (auto simp: upsertDeadProperty_def exec_def store_ok_def intro: props.upsert_distinct
        split: option.split)
  have "keeps ?R (deleteNodeCascade env p)"
    unfolding deleteNodeCascade_def
    by (auto intro!: keeps_run_all keeps_exec delete_where_ok)
  with assms show "store_ok (fst (deleteNodeCascade env p st))" by (rule keeps_ok [rotated])
  have "keeps ?R (renameNodeCascade env src dst)"
    unfolding renameNodeCascade_def
    by (rule keeps_run_all) (auto simp: keeps_def rename_table_ok)
  with assms show "store_ok (fst (renameNodeCascade env src dst st))" by (rule keeps_ok [rotated])
  have "keeps ?R (saveReplicaState env rid writes)"
    unfolding saveReplicaState_def by (rule keeps_run_all) (auto simp: keeps_def save_one_ok)
  with assms show "store_ok (fst (saveReplicaState env rid writes st))" by (rule keeps_ok [rotated])
  have del: "store_ok (fst (delete_replica_rows env op P s))" if "store_ok s" for op P s
    using that by (auto simp: delete_replica_rows_def store_ok_def intro: distinct_map_filter
        split: option.split option.splits)
  have "keeps ?R (forgetReplicaPaths env rid paths)"
    unfolding forgetReplicaPaths_def by (rule keeps_run_all) (auto simp: keeps_def del)
  with assms show "store_ok (fst (forgetReplicaPaths env rid paths st))" by (rule keeps_ok [rotated])
  show "store_ok (fst (forgetReplication env rid st))"
    using assms del by (simp add: forgetReplication_def)
qed

definition calm_env :: sql_env where
  "calm_env = \<lparr>se_fails = (\<lambda>_. None), se_missing_schema = (\<lambda>_. False), se_now = 1000\<rparr>"

definition sample_node :: "string \<Rightarrow> bool \<Rightarrow> node_row" where
  "sample_node p c = \<lparr>n_path = p, n_isCollection = c, n_contentType = None, n_etag = None, n_mtime = 1,
     n_crtime = 1, n_lockNull = False\<rparr>"

definition sample_lock :: "string \<Rightarrow> string \<Rightarrow> lock_depth \<Rightarrow> lock_row" where
  "sample_lock t p d = \<lparr>k_token = t, k_path = p, k_scope = Exclusive, k_depth = d, k_owner = None,
     k_timeout = ''Second-3600'', k_expiresAt = 9000, k_root = ''/''\<rparr>"

definition sample_replica :: "string \<Rightarrow> replica_row" where
  "sample_replica p = \<lparr>rp_id = ''R'', rp_path = p, rp_isCollection = False, rp_localEtag = Some ''l'',
     rp_localMtime = Some 1, rp_localSize = Some 3, rp_remoteEtag = Some ''r'', rp_remoteMtime = None,
     rp_remoteSize = Some 3, rp_contentType = None, rp_syncedAt = 5\<rparr>"

definition sample_store :: store where
  "sample_store = \<lparr>st_nodes = [sample_node ''a'' True, sample_node ''a/b'' False, sample_node ''ab'' False],
     st_props = [prop_of ''a/b'' \<lparr>dp_namespaceURI = ''N'', dp_localName = ''x'', dp_prefix = None, dp_valueXml = ''v''\<rparr>],
     st_locks = [sample_lock ''t1'' ''a/b'' Depth_0],
     st_replica = Some [sample_replica ''a/b'', sample_replica ''ab'']\<rparr>"

theorem store_stays_keyed_witness:
  "store_ok (fst (renameNodeCascade calm_env ''a'' ''c'' sample_store))"
proof -
  have "store_ok sample_store" by code_simp
  then show ?thesis using store_stays_keyed by blast
qed

subsection \<open>Deleting and moving a subtree\<close>

lemma subtree_is_descendant: "p \<noteq> [] \<Longrightarrow> subtreePredicate p q = isSameOrDescendantPath p q"
  by (auto simp: subtreePredicate_def isSameOrDescendantPath_def starts_with_def)

text \<open>The rows of a store outside a subtree.\<close>

definition outside :: "string \<Rightarrow> store \<Rightarrow> node_row list \<times> prop_row list \<times> lock_row list" where
  "outside p st = (filter (\<lambda>r. \<not> subtreePredicate p (n_path r)) (st_nodes st),
     filter (\<lambda>r. \<not> subtreePredicate p (pr_path r)) (st_props st),
     filter (\<lambda>r. \<not> subtreePredicate p (k_path r)) (st_locks st))"

lemma delete_cascade_outside:
  assumes "p \<noteq> []"
  shows "outside p (fst (deleteNodeCascade env p st)) = outside p st
    \<and> st_replica (fst (deleteNodeCascade env p st)) = st_replica st"
proof -
  have "keeps (\<lambda>a b. outside p b = outside p a \<and> st_replica b = st_replica a) (deleteNodeCascade env p)"
    unfolding deleteNodeCascade_def using assms
    by (auto intro!: keeps_run_all keeps_exec
        simp: cascade_tables_def delete_where_def outside_def)
  then show ?thesis by (simp add: keeps_def)
qed

text \<open>
  The tree itself, independent of the statements: a path is inside another when the segments of the
  one begin with those of the other.
\<close>

definition inside :: "string \<Rightarrow> string \<Rightarrow> bool" where
  "inside p q \<longleftrightarrow> take (length (split_path p)) (split_path q) = split_path p"

definition rest_below :: "string \<Rightarrow> string \<Rightarrow> string list" where
  "rest_below p q = drop (length (split_path p)) (split_path q)"

lemma inside_rest: "inside p q \<Longrightarrow> split_path q = split_path p @ rest_below p q"
  unfolding inside_def rest_below_def by (metis append_take_drop_id)

lemma below_split: "split_path (p @ slash # r) = split_path p @ split_path r"
  by (rule split_on_append)

lemma join_append: "\<lbrakk>ss \<noteq> []; ts \<noteq> []\<rbrakk> \<Longrightarrow> join sep (ss @ ts) = join sep ss @ sep @ join sep ts"
proof (induction ss)
  case (Cons s ss)
  then show ?case by (cases ss) (simp_all add: join_Cons)
qed simp

lemma subtree_inside: "subtreePredicate p q \<longleftrightarrow> inside p q"
proof
  assume "subtreePredicate p q"
  then consider "q = p" | r where "q = p @ slash # r"
    unfolding subtreePredicate_def by (metis append_take_drop_id append.assoc append_Cons append_Nil)
  then show "inside p q" by cases (simp_all add: inside_def below_split)
next
  assume "inside p q"
  note q = inside_rest [OF this]
  show "subtreePredicate p q"
  proof (cases "rest_below p q = []")
    case True
    with q have "q = p" by (simp add: split_on_inject)
    then show ?thesis by (simp add: subtreePredicate_def)
  next
    case False
    have "join_path (split_path p @ rest_below p q) = p @ slash # join_path (rest_below p q)"
      using False join_append [of "split_path p" "rest_below p q" "''/''"] by simp
    with q have "q = p @ slash # join_path (rest_below p q)" by (metis join_split_on)
    then show ?thesis unfolding subtreePredicate_def by (metis append_Cons append_Nil append_assoc append_eq_conv_conj length_append_singleton Suc_eq_plus1)
  qed
qed

lemma repath_segments:
  assumes "inside src q"
  shows "split_path (repath src dst q) = split_path dst @ rest_below src q"
proof -
  from assms consider "q = src" | r where "q = src @ slash # r"
    unfolding subtree_inside [symmetric] subtreePredicate_def by (metis append_take_drop_id append.assoc append_Cons append_Nil)
  then show ?thesis by cases (simp_all add: repath_def rest_below_def below_split)
qed





subsection \<open>Recorded state reads back\<close>

lemma replica_lookup:
  "distinct (map replica_key table) \<Longrightarrow> r \<in> set table \<longleftrightarrow> lookup_row replica_key (replica_key r) table = Some r"
  by (induction table) (auto simp: lookup_row_def image_iff)

text \<open>
  The replication base reads back what was recorded: after saving one row on a volume whose
  table exists, loading yields that row for its path (empty validators read as none), the
  rows of other paths as before, in the order of the paths.
\<close>

theorem saved_state_loads_back:
  assumes "save_one env rid w st = (st', None)" and "loadReplicaState env rid st = Inr before"
    and "st_replica st \<noteq> None" and "se_fails env (Select_replica rid) = None"
    and "rp_path w \<noteq> []" and "store_ok st"
  shows "\<exists>after. loadReplicaState env rid st' = Inr after
    \<and> set after = insert (toReplicaState (w\<lparr>rp_id := rid\<rparr>)) {r \<in> set before. rp_path r \<noteq> rp_path w}
    \<and> sorted_wrt (\<lambda>a b. rp_path a \<le> rp_path b) after"
proof -
  obtain table where table: "st_replica st = Some table" using assms(3) by blast
  let ?w = "w\<lparr>rp_id := rid\<rparr>"
  have st': "st' = st\<lparr>st_replica := Some (upsert replica_key merge_replica ?w table)\<rparr>"
    using assms(1) table by (auto simp: save_one_def split: option.splits)
  have dist: "distinct (map replica_key table)"
    using assms(6) table by (simp add: store_ok_def)
  have rows: "set (upsert replica_key merge_replica ?w table) = insert ?w {r \<in> set table. replica_key r \<noteq> replica_key ?w}"
    using dist
  proof (induction table)
    case (Cons r rs)
    then show ?case by (auto simp: merge_replica_def image_iff)
  qed simp
  let ?load = "\<lambda>t. filter (\<lambda>r. rp_path r \<noteq> []) (map toReplicaState (sort_by cmp_replica (filter (\<lambda>r. rp_id r = rid) t)))"
  have before: "before = ?load table"
    using assms(2,4) table by (simp add: loadReplicaState_def)
  have paths: "rp_path (toReplicaState r) = rp_path r" for r by (simp add: toReplicaState_def)
  have "loadReplicaState env rid st' = Inr (?load (upsert replica_key merge_replica ?w table))"
    using assms(4) by (simp add: loadReplicaState_def st')
  moreover have "set (?load (upsert replica_key merge_replica ?w table)) =
      insert (toReplicaState ?w) {r \<in> set before. rp_path r \<noteq> rp_path w}"
    using assms(5) unfolding before
    by (auto simp: rows paths replica_key_def image_iff)
  moreover have "sorted_wrt (\<lambda>a b. rp_path a \<le> rp_path b) (?load t)" for t
    using replica_order.sorted_sort_by [of "filter (\<lambda>r. rp_id r = rid) t"]
    by (intro sorted_wrt_filter) (simp add: sorted_wrt_map paths cmp_replica_def cmp_string_le)
  ultimately show ?thesis by blast
qed

theorem saved_state_loads_back_witness:
  "\<exists>after. loadReplicaState calm_env ''R'' (fst (save_one calm_env ''R'' (sample_replica ''c'') sample_store)) = Inr after
     \<and> sample_replica ''c'' \<in> set after"
proof -
  let ?st' = "fst (save_one calm_env ''R'' (sample_replica ''c'') sample_store)"
  have "save_one calm_env ''R'' (sample_replica ''c'') sample_store = (?st', None)"
    by (simp add: save_one_def calm_env_def sample_store_def)
  moreover have "loadReplicaState calm_env ''R'' sample_store = Inr [sample_replica ''a/b'', sample_replica ''ab'']"
    by code_simp
  moreover have "st_replica sample_store \<noteq> None" "rp_path (sample_replica ''c'') \<noteq> []"
    "se_fails calm_env (Select_replica ''R'') = None"
    by (simp_all add: sample_store_def sample_replica_def calm_env_def)
  moreover have "store_ok sample_store" by code_simp
  ultimately obtain after where a: "loadReplicaState calm_env ''R'' ?st' = Inr after"
    "set after = insert (toReplicaState (sample_replica ''c''\<lparr>rp_id := ''R''\<rparr>))
       {r \<in> set [sample_replica ''a/b'', sample_replica ''ab'']. rp_path r \<noteq> rp_path (sample_replica ''c'')}"
    using saved_state_loads_back by blast
  moreover have "toReplicaState (sample_replica ''c''\<lparr>rp_id := ''R''\<rparr>) = sample_replica ''c''" by code_simp
  ultimately show ?thesis by auto
qed

text \<open>
  A dead property reads back: after a successful write, the property is among those of the
  resource with its new value, the other properties of that resource and all properties of
  other resources are unchanged.
\<close>

theorem dead_property_reads_back:
  assumes "upsertDeadProperty env p d st = (st', None)" and "getDeadProperties env p st' = Inr ds"
    and "se_fails env (Select_props p) = None"
  shows "d \<in> set ds
    \<and> filter (\<lambda>e. (dp_namespaceURI e, dp_localName e) \<noteq> (dp_namespaceURI d, dp_localName d)) ds =
      filter (\<lambda>e. (dp_namespaceURI e, dp_localName e) \<noteq> (dp_namespaceURI d, dp_localName d))
        (map property_of (filter (\<lambda>r. pr_path r = p) (st_props st)))
    \<and> filter (\<lambda>r. pr_path r \<noteq> p) (st_props st') = filter (\<lambda>r. pr_path r \<noteq> p) (st_props st)"
proof -
  let ?new = "upsert prop_key merge_prop (prop_of p d) (st_props st)"
  have st': "st_props st' = ?new"
    using assms(1) by (auto simp: upsertDeadProperty_def exec_def split: option.splits)
  have ds: "ds = map property_of (filter (\<lambda>r. pr_path r = p) ?new)"
    using assms(2,3) by (simp add: getDeadProperties_def st')
  have "d \<in> set (map property_of (filter (\<lambda>r. pr_path r = p) (upsert prop_key merge_prop (prop_of p d) rows)))" for rows
    by (induction rows) (auto simp: prop_key_def prop_of_def merge_prop_def property_of_def)
  moreover have "filter (\<lambda>r. pr_path r = p \<and> (pr_namespace r, pr_name r) \<noteq> (dp_namespaceURI d, dp_localName d)) ?new =
      filter (\<lambda>r. pr_path r = p \<and> (pr_namespace r, pr_name r) \<noteq> (dp_namespaceURI d, dp_localName d)) (st_props st)"
    by (rule props.filter_upsert_other) (auto simp: prop_key_def prop_of_def)
  moreover have "filter (\<lambda>r. pr_path r \<noteq> p) ?new = filter (\<lambda>r. pr_path r \<noteq> p) (st_props st)"
    by (rule props.filter_upsert_other) (auto simp: prop_key_def prop_of_def)
  ultimately show ?thesis
    by (simp add: ds st' filter_map comp_def property_of_def conj_commute)
qed

definition sample_property :: dead_property where
  "sample_property = \<lparr>dp_namespaceURI = ''N'', dp_localName = ''x'', dp_prefix = None, dp_valueXml = ''new''\<rparr>"

theorem dead_property_reads_back_witness:
  "\<exists>ds. getDeadProperties calm_env ''a/b'' (fst (upsertDeadProperty calm_env ''a/b'' sample_property sample_store)) = Inr ds
     \<and> sample_property \<in> set ds"
proof -
  let ?st' = "fst (upsertDeadProperty calm_env ''a/b'' sample_property sample_store)"
  have "upsertDeadProperty calm_env ''a/b'' sample_property sample_store = (?st', None)"
    by (simp add: upsertDeadProperty_def exec_def calm_env_def)
  moreover have "getDeadProperties calm_env ''a/b'' ?st' =
      Inr (map property_of (filter (\<lambda>r. pr_path r = ''a/b'') (st_props ?st')))"
    by (simp add: getDeadProperties_def calm_env_def)
  moreover have "se_fails calm_env (Select_props ''a/b'') = None" by (simp add: calm_env_def)
  ultimately show ?thesis using dead_property_reads_back by blast
qed

end
