(* ===== verification/Xml.thy ===== *)
theory Xml
  imports Store
begin

section \<open>XML bodies: rendering, request parsing, multistatus parsing\<close>

text \<open>
  Models \<open>packages/webdav/src/xml.ts\<close> and \<open>multistatus.ts\<close>. The DOM parser and serializer are
  the package \<open>@xmldom/xmldom\<close>: \<open>parse_dom\<close> yields the root element of a document the parser
  reported no error for, \<open>serialize\<close> the text of a node. \<open>node\<close> is what the code reads of a DOM
  node. \<open>new URL\<close> and \<open>Date.parse\<close> are parameters too.
\<close>

subsection \<open>Documents\<close>

datatype dom =
    Element (el_namespace: "string option") (el_prefix: "string option") (el_localName: "string option")
      (el_children: "dom list")
  | Text string
  | Other_node

fun is_element :: "dom \<Rightarrow> bool" where
  "is_element (Element _ _ _ _) = True"
| "is_element _ = False"

record xml_lib =
  parse_dom :: "string \<Rightarrow> dom option"
  serialize :: "dom \<Rightarrow> string"

fun child_nodes :: "dom \<Rightarrow> dom list" where
  "child_nodes (Element _ _ _ cs) = cs"
| "child_nodes _ = []"

fun local_name :: "dom \<Rightarrow> string" where
  "local_name (Element _ _ (Some n) _) = to_lower n"
| "local_name _ = []"

definition getChildElements :: "dom \<Rightarrow> dom list" where
  "getChildElements e = filter is_element (child_nodes e)"

definition serializeNodeChildren :: "xml_lib \<Rightarrow> dom \<Rightarrow> string" where
  "serializeNodeChildren lib e = concat (map (serialize lib) (child_nodes e))"

subsection \<open>Rendering\<close>

definition dav_namespace :: string where "dav_namespace = ''DAV:''"

definition quote :: "string \<Rightarrow> string" where "quote s = [CHR 0x22] @ s @ [CHR 0x22]"

abbreviation newline :: string where "newline \<equiv> [CHR 0x0A]"

definition renderDavProperty :: "string \<Rightarrow> string \<Rightarrow> string" where
  "renderDavProperty propName value =
     (let content = (if propName \<in> {''resourcetype'', ''supportedlock'', ''lockdiscovery''} then value
                     else escapeXml value)
      in ''<'' @ propName @ ''>'' @ content @ ''</'' @ propName @ ''>'')"

record failure =
  fl_href :: string
  fl_status :: string
  fl_description :: "string option"

definition renderMultiStatusFailures :: "failure list \<Rightarrow> string" where
  "renderMultiStatusFailures failures =
     (let responses = concat (map (\<lambda>f.
          let reason = (case fl_description f of Some d \<Rightarrow> if d = [] then [] else newline @ escapeXml d | None \<Rightarrow> [])
          in newline @ ''<response>'' @ newline @ ''<href>'' @ escapeXml (fl_href f) @ ''</href>'' @ newline @
             ''<status>'' @ escapeXml (fl_status f) @ ''</status>'' @ reason @ newline @ ''</response>'') failures)
      in xml_decl @ ''<D:multistatus xmlns:D='' @ quote ''DAV:'' @ ''>'' @ responses @ newline @
         ''</D:multistatus>'' @ newline)"

definition present :: "string option \<Rightarrow> bool" where
  "present s \<longleftrightarrow> (case s of None \<Rightarrow> False | Some t \<Rightarrow> t \<noteq> [])"

definition qualifyProperty :: "dead_property \<Rightarrow> string \<times> string" where
  "qualifyProperty p =
     (let name = (if present (dp_prefix p) then the (dp_prefix p) @ '':'' @ dp_localName p else dp_localName p);
          declaration =
            (if dp_namespaceURI p = [] then '' xmlns='' @ quote []
             else if present (dp_prefix p)
               then '' xmlns:'' @ the (dp_prefix p) @ ''='' @ quote (escapeXml (dp_namespaceURI p))
             else '' xmlns='' @ quote (escapeXml (dp_namespaceURI p)))
      in (name, declaration))"

definition renderPropertyElement :: "dead_property \<Rightarrow> string" where
  "renderPropertyElement p = (let (name, declaration) = qualifyProperty p
     in ''<'' @ name @ declaration @ ''>'' @ dp_valueXml p @ ''</'' @ name @ ''>'')"

definition renderEmptyPropertyElement :: "dead_property \<Rightarrow> string" where
  "renderEmptyPropertyElement p = (let (name, declaration) = qualifyProperty p
     in ''<'' @ name @ declaration @ '' />'')"

definition renderPropstat :: "string \<Rightarrow> string list \<Rightarrow> string" where
  "renderPropstat status properties =
     (if properties = [] then []
      else newline @ ''<propstat>'' @ newline @ ''<prop>'' @ newline @ join newline properties @ newline @
        ''</prop>'' @ newline @ ''<status>'' @ status @ ''</status>'' @ newline @ ''</propstat>'')"

subsection \<open>Requests\<close>

definition name_start :: "char \<Rightarrow> bool" where
  "name_start c \<longleftrightarrow> (is_alnum c \<and> \<not> is_digit c) \<or> c = CHR ''_''"

definition word_char :: "char \<Rightarrow> bool" where "word_char c \<longleftrightarrow> is_alnum c \<or> c = CHR ''_''"

definition isValidXmlTagName :: "string \<Rightarrow> bool" where
  "isValidXmlTagName s \<longleftrightarrow> (case s of [] \<Rightarrow> False
     | c # t \<Rightarrow> name_start c \<and> list_all (\<lambda>x. word_char x \<or> x \<in> {CHR ''.'', CHR '':'', CHR ''-''}) t)"

definition isValidXmlPrefix :: "string \<Rightarrow> bool" where
  "isValidXmlPrefix s \<longleftrightarrow> (case s of [] \<Rightarrow> False
     | c # t \<Rightarrow> name_start c \<and> list_all (\<lambda>x. word_char x \<or> x \<in> {CHR ''.'', CHR ''-''}) t)"

fun getElementProperty :: "xml_lib \<Rightarrow> dom \<Rightarrow> dead_property option" where
  "getElementProperty lib (Element ns pre name cs) =
     (if present pre \<and> \<not> present ns then None
      else (case name of None \<Rightarrow> None
            | Some n \<Rightarrow>
                if \<not> isValidXmlTagName n then None
                else if (case pre of None \<Rightarrow> False | Some p \<Rightarrow> \<not> isValidXmlPrefix p) then None
                else Some \<lparr>dp_namespaceURI = (case ns of None \<Rightarrow> [] | Some u \<Rightarrow> u), dp_localName = n,
                  dp_prefix = pre, dp_valueXml = serializeNodeChildren lib (Element ns pre name cs)\<rparr>))"
| "getElementProperty lib _ = None"

datatype propfind_request = Allprop | Propname | Prop "dead_property list"

fun all_some :: "'a option list \<Rightarrow> 'a list option" where
  "all_some [] = Some []"
| "all_some (None # xs) = None"
| "all_some (Some x # xs) = map_option ((#) x) (all_some xs)"

definition child_named :: "string \<Rightarrow> dom \<Rightarrow> dom option" where
  "child_named name e = find (\<lambda>c. local_name c = name) (getChildElements e)"

definition parsePropfindRequest :: "xml_lib \<Rightarrow> string \<Rightarrow> propfind_request option" where
  "parsePropfindRequest lib body =
     (if trim body = [] then Some Allprop
      else (case parse_dom lib body of None \<Rightarrow> None
            | Some rt \<Rightarrow>
                if local_name rt \<noteq> ''propfind'' then None
                else if child_named ''propname'' rt \<noteq> None then Some Propname
                else (case child_named ''prop'' rt of
                        Some pr \<Rightarrow> map_option Prop (all_some (map (getElementProperty lib) (getChildElements pr)))
                      | None \<Rightarrow> if child_named ''allprop'' rt \<noteq> None then Some Allprop else None)))"

datatype patch_action = Set_prop | Remove_prop

fun patch_operations :: "xml_lib \<Rightarrow> dom list \<Rightarrow> (patch_action \<times> dead_property) list option" where
  "patch_operations lib [] = Some []"
| "patch_operations lib (e # es) =
     (if local_name e \<notin> {''set'', ''remove''} then patch_operations lib es
      else (case child_named ''prop'' e of
              None \<Rightarrow> patch_operations lib es
            | Some pr \<Rightarrow>
                (case all_some (map (getElementProperty lib) (getChildElements pr)) of
                   None \<Rightarrow> None
                 | Some ps \<Rightarrow>
                     map_option ((@) (map (Pair (if local_name e = ''set'' then Set_prop else Remove_prop)) ps))
                       (patch_operations lib es))))"

definition parseProppatchRequest :: "xml_lib \<Rightarrow> string \<Rightarrow> (patch_action \<times> dead_property) list option" where
  "parseProppatchRequest lib body =
     (case parse_dom lib body of None \<Rightarrow> None
      | Some rt \<Rightarrow> if local_name rt \<noteq> ''propertyupdate'' then None else patch_operations lib (getChildElements rt))"

text \<open>\<open>indexOf\<close> of a substring.\<close>

fun find_sub :: "string \<Rightarrow> string \<Rightarrow> nat option" where
  "find_sub sub s =
     (if starts_with sub s then Some 0
      else (case s of [] \<Rightarrow> None | c # t \<Rightarrow> map_option Suc (find_sub sub t)))"

declare find_sub.simps [simp del]

text \<open>The scan of \<open>extractLockOwner\<close> on the rest of the body from the cursor on.\<close>

function owner_scan :: "string \<Rightarrow> string option" where
  "owner_scan body =
     (if body = [] then None
      else (case find_sub ''<owner'' (to_lower body) of
              None \<Rightarrow> None
            | Some start \<Rightarrow>
                let after = drop (start + 6) body
                in if after \<noteq> [] \<and> (hd after = CHR ''>'' \<or> is_ws (hd after)) then
                     (if CHR ''>'' \<notin> set after then None
                      else let content = tl (dropWhile (\<lambda>c. c \<noteq> CHR ''>'') after)
                           in (case find_sub ''</owner>'' (to_lower content) of
                                 None \<Rightarrow> None
                               | Some close \<Rightarrow>
                                   let trimmed = trim (take close content)
                                   in if trimmed = [] then None else Some trimmed))
                   else owner_scan (drop (start + 1) body)))"
  by pat_completeness auto
termination
  by (relation "measure length") auto

declare owner_scan.simps [simp del]

definition extractLockOwner :: "string \<Rightarrow> string option" where
  "extractLockOwner body = owner_scan body"

subsection \<open>Multistatus responses\<close>

record remote_resource =
  rr_href :: string
  rr_pathname :: string
  rr_isCollection :: bool
  rr_etag :: "string option"
  rr_lastModified :: "int option"
  rr_size :: "nat option"
  rr_contentType :: "string option"
  rr_propsComplete :: bool

text \<open>\<open>/\s(\d{3})\b/\<close>: the first white space with three digits after it that end a word.\<close>

fun status_code :: "string \<Rightarrow> nat option" where
  "status_code [] = None"
| "status_code (c # s) =
     (let ds = take 3 s; rest = drop 3 s
      in if is_ws c \<and> length ds = 3 \<and> list_all is_digit ds \<and> (rest = [] \<or> \<not> word_char (hd rest))
         then Some (read_nat ds) else status_code s)"

definition isSuccessStatus :: "string \<Rightarrow> bool" where
  "isSuccessStatus text =
     (let trimmed = trim text
      in if trimmed = [] then True
         else (case status_code trimmed of None \<Rightarrow> False | Some k \<Rightarrow> 200 \<le> k \<and> k < 300))"

definition textOf :: "dom \<Rightarrow> string" where
  "textOf e = trim (concat (map (\<lambda>c. case c of Text t \<Rightarrow> t | _ \<Rightarrow> []) (child_nodes e)))"

definition childText :: "dom \<Rightarrow> string \<Rightarrow> string option" where
  "childText e name = map_option textOf (child_named name e)"

definition hasChildElement :: "dom \<Rightarrow> string \<Rightarrow> bool" where
  "hasChildElement e name \<longleftrightarrow> child_named name e \<noteq> None"

definition parseSize :: "string \<Rightarrow> nat option" where
  "parseSize raw =
     (let trimmed = trim raw
      in if trimmed = [] then None
         else (case js_digits trimmed of None \<Rightarrow> None | Some n \<Rightarrow> if is_safe_nat n then Some n else None))"

definition decodePathname :: "string \<Rightarrow> string" where
  "decodePathname pathname = join_path (map decode_or_raw (split_path pathname))"

record parsed_props =
  pp_isCollection :: bool
  pp_sawResourcetype :: bool
  pp_etag :: "string option"
  pp_lastModified :: "int option"
  pp_size :: "nat option"
  pp_contentType :: "string option"
  pp_propsComplete :: bool

definition no_props :: parsed_props where
  "no_props = \<lparr>pp_isCollection = False, pp_sawResourcetype = False, pp_etag = None, pp_lastModified = None,
     pp_size = None, pp_contentType = None, pp_propsComplete = False\<rparr>"

definition read_property :: "(string \<Rightarrow> int option) \<Rightarrow> parsed_props \<Rightarrow> dom \<Rightarrow> parsed_props" where
  "read_property date_parse into property =
     (let name = local_name property; text = textOf property
      in if name = ''resourcetype''
           then into\<lparr>pp_sawResourcetype := True, pp_isCollection := hasChildElement property ''collection''\<rparr>
         else if name = ''getetag'' then into\<lparr>pp_etag := etagBody (Some text)\<rparr>
         else if name = ''getlastmodified'' then into\<lparr>pp_lastModified := date_parse (trim text)\<rparr>
         else if name = ''getcontentlength'' then into\<lparr>pp_size := parseSize text\<rparr>
         else if name = ''getcontenttype'' then into\<lparr>pp_contentType := (if text = [] then None else Some text)\<rparr>
         else into)"

definition read_propstat :: "(string \<Rightarrow> int option) \<Rightarrow> parsed_props \<Rightarrow> dom \<Rightarrow> parsed_props" where
  "read_propstat date_parse into propstat =
     (if local_name propstat \<noteq> ''propstat''
         \<or> \<not> isSuccessStatus (case childText propstat ''status'' of Some s \<Rightarrow> s | None \<Rightarrow> [])
      then into
      else (case child_named ''prop'' propstat of
              None \<Rightarrow> into
            | Some pr \<Rightarrow> foldl (read_property date_parse) (into\<lparr>pp_propsComplete := True\<rparr>) (getChildElements pr)))"

definition readProps :: "(string \<Rightarrow> int option) \<Rightarrow> dom \<Rightarrow> parsed_props" where
  "readProps date_parse response = foldl (read_propstat date_parse) no_props (getChildElements response)"

definition readResource :: "url_parser \<Rightarrow> (string \<Rightarrow> int option) \<Rightarrow> string \<Rightarrow> dom \<Rightarrow> remote_resource option" where
  "readResource parse_url date_parse baseUrl response =
     (case childText response ''href'' of None \<Rightarrow> None
      | Some href \<Rightarrow>
          if href = [] then None
          else (case parse_url href (Some baseUrl) of None \<Rightarrow> None
                | Some (origin, pathname) \<Rightarrow>
                    (let props = readProps date_parse response
                     in Some \<lparr>rr_href = href, rr_pathname = decodePathname pathname,
                          rr_isCollection = (pp_sawResourcetype props \<and> pp_isCollection props),
                          rr_etag = pp_etag props, rr_lastModified = pp_lastModified props, rr_size = pp_size props,
                          rr_contentType = pp_contentType props, rr_propsComplete = pp_propsComplete props\<rparr>)))"

definition parseMultiStatus ::
    "xml_lib \<Rightarrow> url_parser \<Rightarrow> (string \<Rightarrow> int option) \<Rightarrow> string \<Rightarrow> string \<Rightarrow> remote_resource list option" where
  "parseMultiStatus lib parse_url date_parse body baseUrl =
     (case parse_dom lib body of None \<Rightarrow> None
      | Some rt \<Rightarrow>
          if local_name rt \<noteq> ''multistatus'' then None
          else Some (List.map_filter (readResource parse_url date_parse baseUrl)
                 (filter (\<lambda>r. local_name r = ''response'') (getChildElements rt))))"

end
