(* ===== verification/Lock_Guard.thy ===== *)
theory Lock_Guard
  imports Store
begin

section \<open>The lock guard\<close>

text \<open>
  Models \<open>apps/background/src/dav/DavLockGuard.ts\<close> and \<open>lockRows.ts\<close>: the ancestors whose
  locks reach a resource, and the precondition every mutating method asks before it writes.
  \<open>Inl\<close> is a failed lookup, which the guard lets through to the error boundary.
\<close>

subsection \<open>Ancestors\<close>

fun ancestors_from :: "nat \<Rightarrow> string \<Rightarrow> string list" where
  "ancestors_from k cur =
     cur # (if cur = [] then []
            else (case k of 0 \<Rightarrow> [] | Suc k' \<Rightarrow> ancestors_from k' (getParentPath cur)))"

declare ancestors_from.simps [simp del]

definition ancestorsOf :: "string \<Rightarrow> string list" where
  "ancestorsOf innerPath = ancestors_from max_path_depth innerPath"

subsection \<open>Lookups\<close>

definition lockDetailsFromRow :: "int \<Rightarrow> lock_row \<Rightarrow> string \<Rightarrow> lock_details option" where
  "lockDetailsFromRow now row rootHref =
     normalizeLockDetails now \<lparr>l_token = k_token row, l_owner = k_owner row, l_scope = k_scope row,
       l_depth = k_depth row, l_timeout = k_timeout row, l_expiresAt = k_expiresAt row, l_root = rootHref\<rparr>"

definition locksAffecting :: "sql_env \<Rightarrow> string \<Rightarrow> store \<Rightarrow> string + lock_row list" where
  "locksAffecting env innerPath st =
     (case se_fails env (Select_locks (ancestorsOf innerPath)) of
        Some e \<Rightarrow> Inl e
      | None \<Rightarrow> Inr (filter (\<lambda>r. k_path r \<in> set (ancestorsOf innerPath) \<and> k_expiresAt r > se_now env) (st_locks st)))"

definition request_tokens :: "request \<Rightarrow> string set" where
  "request_tokens req = set (map normalizeLockToken (getRequestLockTokens req))"

definition blocks :: "request \<Rightarrow> string \<Rightarrow> bool \<Rightarrow> lock_row \<Rightarrow> bool" where
  "blocks req innerPath ignoreSharedOnTarget lock =
     (if k_depth lock \<noteq> Depth_infinity \<and> k_path lock \<noteq> innerPath then False
      else let sharedOnTarget = k_path lock = innerPath \<and> ignoreSharedOnTarget \<and> k_scope lock = Shared
           in \<not> sharedOnTarget \<and> normalizeLockToken (k_token lock) \<notin> request_tokens req)"

definition assertLock :: "sql_env \<Rightarrow> request \<Rightarrow> string \<Rightarrow> bool \<Rightarrow> store \<Rightarrow> string + response option" where
  "assertLock env req innerPath ignoreSharedOnTarget st =
     (if hasAlwaysFalseIfCondition req then Inr (Some (respond 412 ''Precondition Failed''))
      else (case locksAffecting env innerPath st of
              Inl e \<Rightarrow> Inl e
            | Inr rows \<Rightarrow>
                Inr (if filter (blocks req innerPath ignoreSharedOnTarget) rows \<noteq> []
                     then Some (respond 423 ''Locked'') else None)))"

definition activeTokensForPath ::
    "sql_env \<Rightarrow> string \<Rightarrow> string list \<Rightarrow> store \<Rightarrow> string + (string \<times> lock_scope) list" where
  "activeTokensForPath env innerPath tokens st =
     map_sum id (\<lambda>rows. filter (\<lambda>(t, s). t \<noteq> [] \<and> normalizeLockToken t \<notin> set (map normalizeLockToken tokens))
         (map (\<lambda>r. (k_token r, k_scope r)) (filter (\<lambda>r. k_path r = innerPath) rows)))
       (locksAffecting env innerPath st)"

subsection \<open>What the ancestors are\<close>

lemma parent_split:
  assumes "isValidInnerPath p" and "butlast (split_path p) \<noteq> []"
  shows "split_path (getParentPath p) = butlast (split_path p)"
proof -
  have "\<forall>s\<in>set (butlast (split_path p)). slash \<notin> set s"
    by (meson in_set_butlastD split_on_no_sep)
  with assms show ?thesis by (simp add: getParentPath_segments split_join)
qed

lemma descendant_of_root: "isSameOrDescendantPath q [] \<longleftrightarrow> q = []"
  by (auto simp: isSameOrDescendantPath_def starts_with_def)

lemma descendant_via_parent:
  assumes "isValidInnerPath p" and "p \<noteq> []"
  shows "isSameOrDescendantPath q p \<longleftrightarrow> q = p \<or> isSameOrDescendantPath q (getParentPath p)"
proof
  assume "isSameOrDescendantPath q p"
  then consider "q = []" | rest where "split_path p = split_path q @ rest"
    by (auto simp: same_or_descendant_segments)
  then show "q = p \<or> isSameOrDescendantPath q (getParentPath p)"
  proof cases
    case 1
    then show ?thesis by (simp add: same_or_descendant_segments)
  next
    case (2 rest)
    show ?thesis
    proof (cases "rest = []")
      case True
      with 2 show ?thesis by (simp add: split_on_inject)
    next
      case False
      with 2 have b: "butlast (split_path p) = split_path q @ butlast rest"
        by (simp add: butlast_append)
      then have "split_path (getParentPath p) = split_path q @ butlast rest"
        using parent_split [OF assms(1)] by simp
      then show ?thesis by (auto simp: same_or_descendant_segments)
    qed
  qed
next
  assume "q = p \<or> isSameOrDescendantPath q (getParentPath p)"
  with parent_above [OF assms] show "isSameOrDescendantPath q p"
    by (auto intro: same_or_descendant_trans simp: isSameOrDescendantPath_def [of p p])
qed

lemma parent_depth:
  assumes "isValidInnerPath p" and "p \<noteq> []"
  shows "getParentPath p = [] \<or> length (split_path (getParentPath p)) < length (split_path p)"
proof (cases "butlast (split_path p) = []")
  case True
  then show ?thesis by (simp add: getParentPath_segments assms(1))
next
  case False
  then show ?thesis using parent_split [OF assms(1)] by simp
qed

lemma ancestors_from_set:
  assumes "isValidInnerPath p" and "p = [] \<or> length (split_path p) \<le> k"
  shows "set (ancestors_from k p) = {q. isSameOrDescendantPath q p}"
  using assms
proof (induction k arbitrary: p)
  case 0
  then show ?case by (subst ancestors_from.simps) (auto simp: descendant_of_root)
next
  case (Suc k)
  show ?case
  proof (cases "p = []")
    case True
    then show ?thesis by (subst ancestors_from.simps) (auto simp: descendant_of_root)
  next
    case False
    have "getParentPath p = [] \<or> length (split_path (getParentPath p)) \<le> k"
      using parent_depth [OF Suc.prems(1) False] Suc.prems(2) False by auto
    then have "set (ancestors_from k (getParentPath p)) = {q. isSameOrDescendantPath q (getParentPath p)}"
      using Suc.IH parent_valid [OF Suc.prems(1)] by blast
    then show ?thesis
      using False descendant_via_parent [OF Suc.prems(1) False]
      by (subst ancestors_from.simps) auto
  qed
qed

text \<open>The cap of the walk never cuts it short, at no depth that a valid path may have.\<close>

lemma ancestorsOf_set:
  "isValidInnerPath p \<Longrightarrow> set (ancestorsOf p) = {q. isSameOrDescendantPath q p}"
  unfolding ancestorsOf_def by (rule ancestors_from_set) (auto simp: isValidInnerPath_def)

lemma length_ancestors: "length (ancestorsOf p) \<le> 257"
proof -
  have "length (ancestors_from k q) \<le> Suc k" for k q
    by (induction k arbitrary: q) (subst ancestors_from.simps, simp)+
  from this [of 256 p] show ?thesis unfolding ancestorsOf_def max_path_depth_def by simp
qed

subsection \<open>What the guard decides\<close>

text \<open>A lock covers a resource if it is held on it, or with infinite depth on an ancestor.\<close>

definition covers :: "int \<Rightarrow> lock_row \<Rightarrow> string \<Rightarrow> bool" where
  "covers now lock p \<longleftrightarrow> now < k_expiresAt lock
     \<and> (k_path lock = p \<or> k_depth lock = Depth_infinity \<and> isSameOrDescendantPath (k_path lock) p)"

lemma covers_ancestor:
  "isValidInnerPath p \<Longrightarrow> covers now lock p \<longleftrightarrow>
     k_path lock \<in> set (ancestorsOf p) \<and> now < k_expiresAt lock
     \<and> (k_depth lock = Depth_infinity \<or> k_path lock = p)"
  by (auto simp: covers_def ancestorsOf_set isSameOrDescendantPath_def)

text \<open>
  C34. The lock guard lets a write pass exactly when the client holds every lock that covers the
  resource: the guard answers nothing if and only if the \<open>If\<close> header was readable and each
  live lock on the resource, or of infinite depth on any of its ancestors up to the volume
  root, has its token presented (or is a shared lock on the very resource, where the caller
  asked to ignore those). A failed lookup is an error, never a pass.
\<close>

theorem lock_guard_is_exact:
  assumes "isValidInnerPath p"
  shows "assertLock env req p ignoreShared st = Inr None \<longleftrightarrow>
    \<not> hasAlwaysFalseIfCondition req \<and> se_fails env (Select_locks (ancestorsOf p)) = None
    \<and> (\<forall>lock\<in>set (st_locks st). covers (se_now env) lock p \<longrightarrow>
         normalizeLockToken (k_token lock) \<in> request_tokens req
         \<or> (ignoreShared \<and> k_path lock = p \<and> k_scope lock = Shared))"
proof -
  have "(k_path lock \<in> set (ancestorsOf p) \<and> se_now env < k_expiresAt lock \<and> blocks req p ignoreShared lock) \<longleftrightarrow>
      covers (se_now env) lock p \<and> normalizeLockToken (k_token lock) \<notin> request_tokens req
      \<and> \<not> (ignoreShared \<and> k_path lock = p \<and> k_scope lock = Shared)" for lock
    unfolding covers_ancestor [OF assms] by (auto simp: blocks_def Let_def)
  then show ?thesis
    by (auto simp: assertLock_def locksAffecting_def filter_empty_conv split: option.split)
qed

theorem lock_guard_is_exact_witness:
  "assertLock calm_env (header_request ''PUT'' [(''If'', ''(<urn:uuid:t1>)'')]) ''a/b'' False sample_store = Inr None"
proof -
  have "isValidInnerPath ''a/b''" by code_simp
  moreover have "\<not> hasAlwaysFalseIfCondition (header_request ''PUT'' [(''If'', ''(<urn:uuid:t1>)'')])" by code_simp
  moreover have "normalizeLockToken ''t1'' \<in> request_tokens (header_request ''PUT'' [(''If'', ''(<urn:uuid:t1>)'')])"
    by code_simp
  moreover have "st_locks sample_store = [sample_lock ''t1'' ''a/b'' Depth_0]"
    by (simp add: sample_store_def)
  moreover have "k_token (sample_lock ''t1'' ''a/b'' Depth_0) = ''t1''" by (simp add: sample_lock_def)
  moreover have "se_fails calm_env (Select_locks (ancestorsOf ''a/b'')) = None" by (simp add: calm_env_def)
  ultimately show ?thesis by (simp add: lock_guard_is_exact)
qed

end
