(* ===== verification/Repository.thy ===== *)
theory Repository
  imports Lock_Guard
begin

section \<open>The volume: filesystem, metadata, and the repository over both\<close>

text \<open>
  Models \<open>apps/background/src/dav/davReadPolicy.ts\<close>, \<open>DavRepository.ts\<close> and
  \<open>VolumeTransfer.ts\<close>. The filesystem is the package \<open>dofs\<close>, which is not part of the
  repository: it is the parameter \<open>dofs\<close>, a record of the calls the code makes, over a state
  of any type. A call that throws returns \<open>Inl\<close> (or a \<open>Some\<close> beside the state it left) with the
  error's message and \<open>code\<close>. No law of \<open>dofs\<close> is built into a definition.
\<close>

subsection \<open>The filesystem interface\<close>

record fs_error =
  fe_message :: string
  fe_code :: "string option"

record fs_stat =
  fs_isDirectory :: bool
  fs_size :: "nat option"
  fs_mtime :: "int option"

record 'fs dofs =
  fs_statOf :: "'fs \<Rightarrow> string \<Rightarrow> fs_error + fs_stat"
  fs_listDir :: "'fs \<Rightarrow> string \<Rightarrow> bool \<Rightarrow> fs_error + string list"
  fs_listDirPage :: "'fs \<Rightarrow> string \<Rightarrow> nat \<Rightarrow> nat \<Rightarrow> fs_error + (string \<times> bool) list"
  fs_countChildren :: "'fs \<Rightarrow> string \<Rightarrow> fs_error + nat"
  fs_read :: "'fs \<Rightarrow> string \<Rightarrow> (nat \<times> nat) option \<Rightarrow> fs_error + string"
  fs_readFile :: "'fs \<Rightarrow> string \<Rightarrow> fs_error + string"
  fs_writeFile :: "'fs \<Rightarrow> string \<Rightarrow> string \<Rightarrow> 'fs \<times> fs_error option"
  fs_mkdir :: "'fs \<Rightarrow> string \<Rightarrow> bool \<Rightarrow> 'fs \<times> fs_error option"
  fs_rmdir :: "'fs \<Rightarrow> string \<Rightarrow> bool \<Rightarrow> 'fs \<times> fs_error option"
  fs_unlink :: "'fs \<Rightarrow> string \<Rightarrow> 'fs \<times> fs_error option"
  fs_rename :: "'fs \<Rightarrow> string \<Rightarrow> string \<Rightarrow> 'fs \<times> fs_error option"

record 'fs volume =
  vol_fs :: 'fs
  vol_store :: store

subsection \<open>\<open>davReadPolicy.ts\<close>\<close>

datatype read_failure = Degrade | Throw

record stat_result =
  si_exists :: bool
  si_isDirectory :: bool
  si_size :: nat
  si_mtime :: int

definition missing_stat :: stat_result where
  "missing_stat = \<lparr>si_exists = False, si_isDirectory = False, si_size = 0, si_mtime = 0\<rparr>"

definition contains_sub :: "string \<Rightarrow> string \<Rightarrow> bool" where
  "contains_sub s sub \<longleftrightarrow> list_ex (\<lambda>k. starts_with sub (drop k s)) [0..<Suc (length s)]"

definition isMissingPath :: "fs_error \<Rightarrow> bool" where
  "isMissingPath e \<longleftrightarrow> contains_sub (fe_message e) ''ENOENT'' \<or> contains_sub (to_lower (fe_message e)) ''no such file''"

text \<open>A read that failed: absence is an answer, anything else follows the policy.\<close>

definition answer_failure :: "read_failure \<Rightarrow> 'a \<Rightarrow> fs_error \<Rightarrow> string + 'a" where
  "answer_failure onFailure nothing e =
     (if isMissingPath e then Inr nothing
      else if onFailure = Throw then Inl (fe_message e) else Inr nothing)"

definition rp_stat :: "'fs dofs \<Rightarrow> int \<Rightarrow> 'fs \<Rightarrow> string \<Rightarrow> read_failure \<Rightarrow> string + stat_result" where
  "rp_stat dofs now fs innerPath onFailure =
     (case fs_statOf dofs fs (fsPathOf innerPath) of
        Inr st \<Rightarrow> Inr \<lparr>si_exists = True, si_isDirectory = fs_isDirectory st,
          si_size = (case fs_size st of Some n \<Rightarrow> n | None \<Rightarrow> 0),
          si_mtime = (case fs_mtime st of Some m \<Rightarrow> m | None \<Rightarrow> now)\<rparr>
      | Inl e \<Rightarrow> answer_failure onFailure missing_stat e)"

definition rp_list :: "'fs dofs \<Rightarrow> 'fs \<Rightarrow> string \<Rightarrow> bool \<Rightarrow> read_failure \<Rightarrow> string + string list" where
  "rp_list dofs fs innerPath rec onFailure =
     (case fs_listDir dofs fs (fsPathOf innerPath) rec of
        Inr names \<Rightarrow> Inr (filter (\<lambda>name. name \<noteq> ''.'' \<and> name \<noteq> ''..'') names)
      | Inl e \<Rightarrow> answer_failure onFailure [] e)"

definition rp_listPage ::
    "'fs dofs \<Rightarrow> 'fs \<Rightarrow> string \<Rightarrow> nat \<Rightarrow> nat \<Rightarrow> read_failure \<Rightarrow> string + (string \<times> bool) list" where
  "rp_listPage dofs fs innerPath offset limit onFailure =
     (case fs_listDirPage dofs fs (fsPathOf innerPath) offset limit of
        Inr page \<Rightarrow> Inr page | Inl e \<Rightarrow> answer_failure onFailure [] e)"

definition rp_countChildren :: "'fs dofs \<Rightarrow> 'fs \<Rightarrow> string \<Rightarrow> read_failure \<Rightarrow> string + nat" where
  "rp_countChildren dofs fs innerPath onFailure =
     (case fs_countChildren dofs fs (fsPathOf innerPath) of
        Inr n \<Rightarrow> Inr n | Inl e \<Rightarrow> answer_failure onFailure 0 e)"

text \<open>The value of a read that cannot throw.\<close>

definition degraded :: "'a \<Rightarrow> string + 'a \<Rightarrow> 'a" where
  "degraded nothing r = (case r of Inr a \<Rightarrow> a | Inl _ \<Rightarrow> nothing)"

subsection \<open>\<open>DavRepository.ts\<close>: reads\<close>

record node_meta =
  m_contentType :: "string option"
  m_etag :: "string option"
  m_mtime :: "int option"
  m_crtime :: "int option"

definition no_meta :: node_meta where
  "no_meta = \<lparr>m_contentType = None, m_etag = None, m_mtime = None, m_crtime = None\<rparr>"

record node_info =
  i_key :: string
  i_isCollection :: bool
  i_size :: nat
  i_etag :: "string option"
  i_mtime :: int
  i_crtime :: int
  i_contentType :: "string option"
  i_displayname :: "string option"
  i_locks :: "lock_details list"
  i_deadProperties :: "dead_property list"

definition statInner :: "'fs dofs \<Rightarrow> sql_env \<Rightarrow> 'fs volume \<Rightarrow> string \<Rightarrow> stat_result" where
  "statInner dofs env v innerPath =
     degraded missing_stat (rp_stat dofs (se_now env) (vol_fs v) innerPath Degrade)"

definition requireStatInner :: "'fs dofs \<Rightarrow> sql_env \<Rightarrow> 'fs volume \<Rightarrow> string \<Rightarrow> string + stat_result" where
  "requireStatInner dofs env v innerPath = rp_stat dofs (se_now env) (vol_fs v) innerPath Throw"

definition readMeta :: "sql_env \<Rightarrow> 'fs volume \<Rightarrow> string \<Rightarrow> node_meta" where
  "readMeta env v innerPath =
     (case se_fails env (Select_node innerPath) of
        Some _ \<Rightarrow> no_meta
      | None \<Rightarrow>
          (case lookup_row n_path innerPath (st_nodes (vol_store v)) of
             None \<Rightarrow> no_meta
           | Some row \<Rightarrow> \<lparr>m_contentType = n_contentType row, m_etag = n_etag row,
               m_mtime = Some (n_mtime row), m_crtime = Some (n_crtime row)\<rparr>))"

definition applicableLocks :: "sql_env \<Rightarrow> 'fs volume \<Rightarrow> string \<Rightarrow> string \<Rightarrow> string + lock_details list" where
  "applicableLocks env v innerPath hrefbase =
     map_sum id (\<lambda>rows. concat (map (\<lambda>row.
         if k_token row = [] then []
         else if k_path row \<noteq> innerPath \<and> k_depth row \<noteq> Depth_infinity then []
         else (case lockDetailsFromRow (se_now env) row (hrefOf hrefbase (k_path row) True) of
                 Some d \<Rightarrow> [d] | None \<Rightarrow> [])) rows))
       (locksAffecting env innerPath (vol_store v))"

fun show_hex :: "nat \<Rightarrow> string" where
  "show_hex n = (let d = (if n mod 16 < 10 then char_of (48 + n mod 16) else char_of (87 + n mod 16))
     in if n < 16 then [d] else show_hex (n div 16) @ [d])"

declare show_hex.simps [simp del]

definition show_hex_int :: "int \<Rightarrow> string" where
  "show_hex_int i = (if i < 0 then CHR ''-'' # show_hex (nat (- i)) else show_hex (nat i))"

definition mint_etag :: "nat \<Rightarrow> int \<Rightarrow> string" where
  "mint_etag bytes mtime = CHR 0x22 # show_hex bytes @ ''-'' @ show_hex_int mtime @ [CHR 0x22]"

definition nodeInfo :: "'fs dofs \<Rightarrow> sql_env \<Rightarrow> 'fs volume \<Rightarrow> string \<Rightarrow> string \<Rightarrow> string + node_info option" where
  "nodeInfo dofs env v innerPath hrefbase =
     (let st = statInner dofs env v innerPath
      in if \<not> si_exists st then Inr None
         else let meta = readMeta env v innerPath;
                  mtime = (case m_mtime meta of Some m \<Rightarrow> m | None \<Rightarrow> si_mtime st);
                  crtime = (case m_crtime meta of Some c \<Rightarrow> c | None \<Rightarrow> mtime)
              in (case applicableLocks env v innerPath hrefbase of
                    Inl e \<Rightarrow> Inl e
                  | Inr locks \<Rightarrow>
                      map_sum id (\<lambda>dead. Some
                        \<lparr>i_key = innerPath, i_isCollection = si_isDirectory st, i_size = si_size st,
                         i_etag = Some (case m_etag meta of Some e \<Rightarrow> e | None \<Rightarrow> mint_etag (si_size st) mtime),
                         i_mtime = mtime, i_crtime = crtime, i_contentType = m_contentType meta,
                         i_displayname = (if innerPath = [] then None else Some (last (split_path innerPath))),
                         i_locks = locks, i_deadProperties = dead\<rparr>)
                        (getDeadProperties env innerPath (vol_store v))))"

definition rootNode :: "sql_env \<Rightarrow> node_info" where
  "rootNode env = \<lparr>i_key = [], i_isCollection = True, i_size = 0, i_etag = None, i_mtime = se_now env,
     i_crtime = se_now env, i_contentType = None, i_displayname = None, i_locks = [], i_deadProperties = []\<rparr>"

definition listChildren :: "'fs dofs \<Rightarrow> 'fs volume \<Rightarrow> string \<Rightarrow> string list" where
  "listChildren dofs v innerPath = degraded [] (rp_list dofs (vol_fs v) innerPath False Degrade)"

definition listRecursive :: "'fs dofs \<Rightarrow> 'fs volume \<Rightarrow> string \<Rightarrow> string list" where
  "listRecursive dofs v innerPath = degraded [] (rp_list dofs (vol_fs v) innerPath True Degrade)"

definition requireChildren :: "'fs dofs \<Rightarrow> 'fs volume \<Rightarrow> string \<Rightarrow> string + string list" where
  "requireChildren dofs v innerPath = rp_list dofs (vol_fs v) innerPath False Throw"

definition requireRecursive :: "'fs dofs \<Rightarrow> 'fs volume \<Rightarrow> string \<Rightarrow> string + string list" where
  "requireRecursive dofs v innerPath = rp_list dofs (vol_fs v) innerPath True Throw"

definition listChildPage :: "'fs dofs \<Rightarrow> 'fs volume \<Rightarrow> string \<Rightarrow> nat \<Rightarrow> nat \<Rightarrow> (string \<times> bool) list" where
  "listChildPage dofs v innerPath offset limit =
     degraded [] (rp_listPage dofs (vol_fs v) innerPath offset limit Degrade)"

definition countChildren :: "'fs dofs \<Rightarrow> 'fs volume \<Rightarrow> string \<Rightarrow> nat" where
  "countChildren dofs v innerPath = degraded 0 (rp_countChildren dofs (vol_fs v) innerPath Degrade)"

definition childInner :: "string \<Rightarrow> string \<Rightarrow> string" where
  "childInner parent name =
     (if starts_with ''/'' name then tl name
      else if parent = [] then name else parent @ ''/'' @ name)"

definition isLockNull :: "sql_env \<Rightarrow> 'fs volume \<Rightarrow> string \<Rightarrow> bool" where
  "isLockNull env v innerPath =
     (case se_fails env (Select_node innerPath) of
        Some _ \<Rightarrow> False
      | None \<Rightarrow> (case lookup_row n_path innerPath (st_nodes (vol_store v)) of
                   None \<Rightarrow> False | Some row \<Rightarrow> n_lockNull row))"

subsection \<open>\<open>DavRepository.ts\<close>: best-effort writes\<close>

definition on_store :: "(store \<Rightarrow> outcome) \<Rightarrow> 'fs volume \<Rightarrow> 'fs volume" where
  "on_store f v = v\<lparr>vol_store := fst (f (vol_store v))\<rparr>"

definition upsertFileNode ::
    "sql_env \<Rightarrow> string \<Rightarrow> string \<Rightarrow> string \<Rightarrow> int option \<Rightarrow> 'fs volume \<Rightarrow> 'fs volume" where
  "upsertFileNode env innerPath contentType etag crtime =
     on_store (upsertNode env innerPath \<lparr>nf_isCollection = False, nf_contentType = Some contentType,
       nf_etag = Some etag, nf_mtime = Some (se_now env), nf_crtime = crtime, nf_lockNull = False\<rparr>)"

definition upsertCollectionNode :: "sql_env \<Rightarrow> string \<Rightarrow> 'fs volume \<Rightarrow> 'fs volume" where
  "upsertCollectionNode env innerPath =
     on_store (upsertNode env innerPath \<lparr>nf_isCollection = True, nf_contentType = None, nf_etag = None,
       nf_mtime = Some (se_now env), nf_crtime = Some (se_now env), nf_lockNull = False\<rparr>)"

definition copyMeta :: "sql_env \<Rightarrow> string \<Rightarrow> string \<Rightarrow> bool \<Rightarrow> 'fs volume \<Rightarrow> 'fs volume" where
  "copyMeta env src dst isCollection v =
     (case se_fails env (Select_node src) of
        Some _ \<Rightarrow> v
      | None \<Rightarrow>
          (let row = lookup_row n_path src (st_nodes (vol_store v));
               fields = \<lparr>nf_isCollection = isCollection, nf_contentType = Option.bind row n_contentType,
                 nf_etag = Option.bind row n_etag, nf_mtime = Some (se_now env), nf_crtime = Some (se_now env),
                 nf_lockNull = False\<rparr>;
               copy_props = (\<lambda>st. case se_fails env (Select_props src) of
                   Some e \<Rightarrow> (st, Some e)
                 | None \<Rightarrow> run_all (map (\<lambda>r. upsertDeadProperty env dst (property_of r))
                     (filter (\<lambda>r. pr_path r = src) (st_props st))) st)
           in on_store (run_all [upsertNode env dst fields, copy_props]) v))"

definition deleteCascade :: "sql_env \<Rightarrow> string \<Rightarrow> 'fs volume \<Rightarrow> 'fs volume" where
  "deleteCascade env innerPath = on_store (deleteNodeCascade env innerPath)"

definition renameCascade :: "sql_env \<Rightarrow> string \<Rightarrow> string \<Rightarrow> 'fs volume \<Rightarrow> 'fs volume" where
  "renameCascade env src dst = on_store (renameNodeCascade env src dst)"

text \<open>A filesystem call on the volume: the volume after it and the error it threw.\<close>

definition on_fs :: "('fs \<Rightarrow> 'fs \<times> fs_error option) \<Rightarrow> 'fs volume \<Rightarrow> 'fs volume \<times> fs_error option" where
  "on_fs f v = (case f (vol_fs v) of (fs', e) \<Rightarrow> (v\<lparr>vol_fs := fs'\<rparr>, e))"

subsection \<open>\<open>VolumeTransfer.ts\<close>\<close>

record volume_entry =
  ve_path :: string
  ve_isCollection :: bool
  ve_contentType :: "string option"
  ve_etag :: "string option"
  ve_data :: "string option"
  ve_props :: "dead_property list"

definition listEntries :: "'fs dofs \<Rightarrow> sql_env \<Rightarrow> 'fs volume \<Rightarrow> volume_entry list" where
  "listEntries dofs env v =
     concat (map (\<lambda>name.
       let innerPath = childInner [] name; st = statInner dofs env v innerPath; meta = readMeta env v innerPath
       in if \<not> isValidInnerPath innerPath \<or> \<not> si_exists st then []
          else [\<lparr>ve_path = innerPath, ve_isCollection = si_isDirectory st, ve_contentType = m_contentType meta,
                 ve_etag = m_etag meta, ve_data = None,
                 ve_props = degraded [] (getDeadProperties env innerPath (vol_store v))\<rparr>])
       (listRecursive dofs v []))"

text \<open>\<open>encode64\<close> and \<open>decode64\<close> are \<open>bytesToBase64\<close> and \<open>base64ToBytes\<close> of \<open>@rexezuge/shared\<close>.\<close>

definition transfer_readFile ::
    "'fs dofs \<Rightarrow> sql_env \<Rightarrow> (string \<Rightarrow> string) \<Rightarrow> 'fs volume \<Rightarrow> string \<Rightarrow> (string \<times> string option) option" where
  "transfer_readFile dofs env encode64 v p =
     (if p = [] \<or> \<not> isValidInnerPath p then None
      else let st = statInner dofs env v p
           in if \<not> si_exists st \<or> si_isDirectory st then None
              else (case fs_read dofs (vol_fs v) (fsPathOf p) None of
                      Inl _ \<Rightarrow> None
                    | Inr bytes \<Rightarrow> Some (encode64 bytes, m_contentType (readMeta env v p))))"

text \<open>The metadata rows of the ancestors, nearest the root first: the segments' prefixes.\<close>

fun upsert_ancestors :: "sql_env \<Rightarrow> string list \<Rightarrow> string list \<Rightarrow> 'fs volume \<Rightarrow> 'fs volume" where
  "upsert_ancestors env passed [] v = v"
| "upsert_ancestors env passed (s # ss) v =
     upsert_ancestors env (passed @ [s]) ss (upsertCollectionNode env (join_path (passed @ [s])) v)"

definition make_parents :: "'fs dofs \<Rightarrow> sql_env \<Rightarrow> string \<Rightarrow> 'fs volume \<Rightarrow> 'fs volume" where
  "make_parents dofs env parent v =
     (if parent = [] then v
      else upsert_ancestors env [] (split_path parent)
             (fst (on_fs (\<lambda>fs. fs_mkdir dofs fs (fsPathOf parent) True) v)))"

definition write_props :: "sql_env \<Rightarrow> string \<Rightarrow> dead_property list \<Rightarrow> 'fs volume \<Rightarrow> 'fs volume" where
  "write_props env p ds v = foldl (\<lambda>v d. on_store (upsertDeadProperty env p d) v) v ds"

definition writeEntry ::
    "'fs dofs \<Rightarrow> sql_env \<Rightarrow> (string \<Rightarrow> string option) \<Rightarrow> volume_entry \<Rightarrow> 'fs volume \<Rightarrow> 'fs volume \<times> string option" where
  "writeEntry dofs env decode64 entry v =
     (let p = ve_path entry
      in if \<not> isValidInnerPath p \<or> p = [] then (v, Some ''writeVolumeEntry: invalid volume entry path'')
         else let v1 = make_parents dofs env (getParentPath p) v
              in if ve_isCollection entry
                 then (write_props env p (ve_props entry)
                         (upsertCollectionNode env p (fst (on_fs (\<lambda>fs. fs_mkdir dofs fs (fsPathOf p) False) v1))), None)
                 else (case (case ve_data entry of None \<Rightarrow> Some [] | Some d \<Rightarrow> if d = [] then Some [] else decode64 d) of
                         None \<Rightarrow> (v1, Some ''invalid base64'')
                       | Some bytes \<Rightarrow>
                           (case on_fs (\<lambda>fs. fs_writeFile dofs fs (fsPathOf p) bytes) v1 of
                              (v2, Some e) \<Rightarrow> (v2, Some (fe_message e))
                            | (v2, None) \<Rightarrow>
                                (write_props env p (ve_props entry)
                                   (upsertFileNode env p
                                      (case ve_contentType entry of Some c \<Rightarrow> c | None \<Rightarrow> ''application/octet-stream'')
                                      (case ve_etag entry of Some e \<Rightarrow> e | None \<Rightarrow> mint_etag (length bytes) (se_now env))
                                      None v2), None))))"

definition writeEmptyFile :: "'fs dofs \<Rightarrow> sql_env \<Rightarrow> string \<Rightarrow> 'fs volume \<Rightarrow> 'fs volume \<times> bool" where
  "writeEmptyFile dofs env innerPath v =
     (case on_fs (\<lambda>fs. fs_writeFile dofs fs (fsPathOf innerPath) []) v of
        (v1, Some _) \<Rightarrow> (v1, False)
      | (v1, None) \<Rightarrow>
          (on_store (upsertNode env innerPath \<lparr>nf_isCollection = False, nf_contentType = None, nf_etag = None,
             nf_mtime = Some (se_now env), nf_crtime = Some (se_now env), nf_lockNull = True\<rparr>) v1, True))"

end
