(* ===== verification/Write_Methods.thy ===== *)
theory Write_Methods
  imports Repository
begin

section \<open>PUT, DELETE and MKCOL\<close>

text \<open>
  Models \<open>apps/background/src/dav/methods/WriteMethods.ts\<close>. A handler yields its answer, or
  \<open>Inl\<close> when it throws (the error boundary of the worker then answers 500), beside the volume
  it leaves. \<open>maxFileBytes\<close> is the configured cap, \<open>date_parse\<close> the language's \<open>Date.parse\<close>.
\<close>

type_synonym 'fs handled = "(string + response) \<times> 'fs volume"

definition reply :: "nat \<Rightarrow> string \<Rightarrow> 'fs volume \<Rightarrow> 'fs handled" where
  "reply status body v = (Inr (respond status body), v)"

text \<open>Go on with \<open>k\<close> unless the lock guard answers or throws.\<close>

definition unless_locked :: "string + response option \<Rightarrow> 'fs volume \<Rightarrow> 'fs handled \<Rightarrow> 'fs handled" where
  "unless_locked check v k =
     (case check of Inl e \<Rightarrow> (Inl e, v) | Inr (Some r) \<Rightarrow> (Inr r, v) | Inr None \<Rightarrow> k)"

text \<open>The loop over the descendants: is one of them locked by another client?\<close>

fun descendant_locked :: "sql_env \<Rightarrow> string list \<Rightarrow> string \<Rightarrow> store \<Rightarrow> string list \<Rightarrow> string + bool" where
  "descendant_locked env tokens parent st [] = Inr False"
| "descendant_locked env tokens parent st (name # names) =
     (case activeTokensForPath env (childInner parent name) tokens st of
        Inl e \<Rightarrow> Inl e
      | Inr active \<Rightarrow> if active \<noteq> [] then Inr True else descendant_locked env tokens parent st names)"

definition handlePut ::
    "'fs dofs \<Rightarrow> sql_env \<Rightarrow> (string \<Rightarrow> int option) \<Rightarrow> int \<Rightarrow> request \<Rightarrow> string \<Rightarrow> 'fs volume \<Rightarrow> 'fs handled" where
  "handlePut dofs env date_parse maxFileBytes req innerPath v =
     (if innerPath = [] \<or> ends_with ''/'' (r_pathname req) then reply 405 ''Method Not Allowed'' v
      else unless_locked (assertLock env req innerPath False (vol_store v)) v
        (let parent = getParentPath innerPath;
             existing = statInner dofs env v innerPath;
             previous = readMeta env v innerPath
         in if parent \<noteq> [] \<and> \<not> si_isDirectory (statInner dofs env v parent) then reply 409 ''Conflict'' v
            else if si_exists existing \<and> si_isDirectory existing then reply 405 ''Method Not Allowed'' v
            else (case check_conditions date_parse req
                       \<lparr>cs_etag = m_etag previous, cs_mtime = m_mtime previous\<rparr> False of
                    Some r \<Rightarrow> (Inr r, v)
                  | None \<Rightarrow>
                      (case readCappedBody req maxFileBytes of
                         None \<Rightarrow> reply 413 ''Payload Too Large'' v
                       | Some bytes \<Rightarrow>
                           (case on_fs (\<lambda>fs. fs_writeFile dofs fs (fsPathOf innerPath) bytes) v of
                              (v1, Some _) \<Rightarrow> reply 507 ''Insufficient Storage'' v1
                            | (v1, None) \<Rightarrow>
                                let contentType = (case r_header req ''Content-Type'' of Some c \<Rightarrow> c
                                                   | None \<Rightarrow> ''application/octet-stream'');
                                    crtime = (case m_crtime previous of Some c \<Rightarrow> c | None \<Rightarrow> se_now env);
                                    v2 = upsertFileNode env innerPath contentType
                                           (mint_etag (length bytes) (se_now env)) (Some crtime) v1
                                in if si_exists existing then reply 204 [] v2 else reply 201 [] v2)))))"

definition handleDelete :: "'fs dofs \<Rightarrow> sql_env \<Rightarrow> request \<Rightarrow> string \<Rightarrow> 'fs volume \<Rightarrow> 'fs handled" where
  "handleDelete dofs env req innerPath v =
     (let st = statInner dofs env v innerPath
      in if innerPath = [] then reply 403 ''Forbidden'' v
         else if \<not> si_exists st then reply 404 ''Not Found'' v
         else unless_locked (assertLock env req innerPath False (vol_store v)) v
           (if si_isDirectory st then
              (case requireRecursive dofs v innerPath of
                 Inl _ \<Rightarrow> reply 500 ''Internal Server Error'' v
               | Inr descendants \<Rightarrow>
                   (case descendant_locked env (getRequestLockTokens req) innerPath (vol_store v) descendants of
                      Inl e \<Rightarrow> (Inl e, v)
                    | Inr True \<Rightarrow> reply 423 ''Locked'' v
                    | Inr False \<Rightarrow>
                        (case on_fs (\<lambda>fs. fs_rmdir dofs fs (fsPathOf innerPath) True) v of
                           (v1, Some _) \<Rightarrow> reply 500 ''Internal Server Error'' v1
                         | (v1, None) \<Rightarrow> reply 204 [] (deleteCascade env innerPath v1))))
            else
              (case on_fs (\<lambda>fs. fs_unlink dofs fs (fsPathOf innerPath)) v of
                 (v1, Some _) \<Rightarrow> reply 404 ''Not Found'' v1
               | (v1, None) \<Rightarrow> reply 204 [] (deleteCascade env innerPath v1))))"

definition handleMkcol :: "'fs dofs \<Rightarrow> sql_env \<Rightarrow> request \<Rightarrow> string \<Rightarrow> 'fs volume \<Rightarrow> 'fs handled" where
  "handleMkcol dofs env req innerPath v =
     (case readCappedBody req max_xml_body_bytes of
        None \<Rightarrow> reply 413 ''Payload Too Large'' v
      | Some bytes \<Rightarrow>
          if length bytes > 0 then reply 415 ''Unsupported Media Type'' v
          else if innerPath = [] then reply 405 ''Method Not Allowed'' v
          else unless_locked (assertLock env req innerPath False (vol_store v)) v
            (let parent = getParentPath innerPath
             in if si_exists (statInner dofs env v innerPath) then reply 405 ''Method Not Allowed'' v
                else if parent \<noteq> [] \<and> \<not> si_isDirectory (statInner dofs env v parent) then reply 409 ''Conflict'' v
                else (case on_fs (\<lambda>fs. fs_mkdir dofs fs (fsPathOf innerPath) False) v of
                        (v1, Some _) \<Rightarrow> reply 409 ''Conflict'' v1
                      | (v1, None) \<Rightarrow> reply 201 [] (upsertCollectionNode env innerPath v1))))"

end
