(* ===== verification/Prop_Methods.thy ===== *)
theory Prop_Methods
  imports Xml Write_Methods Range_Paging
begin

section \<open>Properties: PROPFIND and PROPPATCH\<close>

text \<open>
  Models \<open>packages/webdav/src/props.ts\<close> and
  \<open>apps/background/src/dav/methods/PropMethods.ts\<close>. \<open>Date.prototype.toUTCString\<close> is \<open>utc_string\<close>,
  by the civil calendar from days; logging is not modelled.
\<close>

subsection \<open>Dates\<close>

definition pad :: "nat \<Rightarrow> nat \<Rightarrow> string" where
  "pad width n = (let s = show_nat n in replicate (width - length s) CHR ''0'' @ s)"

definition civil_from_days :: "int \<Rightarrow> int \<times> nat \<times> nat" where
  "civil_from_days days =
     (let z = days + 719468; era = z div 146097; doe = z mod 146097;
          yoe = (doe - doe div 1460 + doe div 36524 - doe div 146096) div 365;
          doy = doe - (365 * yoe + yoe div 4 - yoe div 100);
          mp = (5 * doy + 2) div 153;
          d = doy - (153 * mp + 2) div 5 + 1;
          m = (if mp < 10 then mp + 3 else mp - 9)
      in (yoe + era * 400 + (if m \<le> 2 then 1 else 0), nat m, nat d))"

definition utc_string :: "int \<Rightarrow> string" where
  "utc_string ms =
     (if \<bar>ms\<bar> > 8640000000000000 then ''Invalid Date''
      else let days = ms div 86400000; s = nat (ms mod 86400000 div 1000); (y, m, d) = civil_from_days days
           in [''Sun'', ''Mon'', ''Tue'', ''Wed'', ''Thu'', ''Fri'', ''Sat''] ! nat ((days + 4) mod 7) @ '', '' @
              pad 2 d @ '' '' @
              [''Jan'', ''Feb'', ''Mar'', ''Apr'', ''May'', ''Jun'', ''Jul'', ''Aug'', ''Sep'', ''Oct'', ''Nov'', ''Dec''] ! (m - 1) @
              '' '' @ (if y < 0 then ''-'' @ pad 6 (nat (- y)) else pad 4 (nat y)) @ '' '' @
              pad 2 (s div 3600) @ '':'' @ pad 2 (s div 60 mod 60) @ '':'' @ pad 2 (s mod 60) @ '' GMT'')"

subsection \<open>\<open>props.ts\<close>\<close>

definition lock_protected_names :: "string list" where
  "lock_protected_names = [''lock_token'', ''lock_owner'', ''lock_scope'', ''lock_depth'', ''lock_timeout'',
     ''lock_expires_at'', ''lock_root'', ''lock_records'', ''supportedlock'', ''lockdiscovery'']"

definition isProtectedProperty :: "dead_property \<Rightarrow> bool" where
  "isProtectedProperty p \<longleftrightarrow> dp_localName p \<in> set lock_protected_names
     \<or> dp_namespaceURI p = dav_namespace
       \<and> dp_localName p \<in> set [''supportedlock'', ''lockdiscovery'', ''resourcetype'']"

text \<open>The entries of the object, \<open>None\<close> for \<open>undefined\<close>, in the order of its fields.\<close>

definition toLiveProperties :: "sql_env \<Rightarrow> node_info option \<Rightarrow> string \<Rightarrow> (string \<times> string option) list" where
  "toLiveProperties env node base =
     (case node of
        None \<Rightarrow>
          [(''creationdate'', Some (utc_string (se_now env))), (''displayname'', None), (''getcontentlength'', Some ''0''),
           (''getcontenttype'', None), (''getetag'', None), (''getlastmodified'', Some (utc_string (se_now env))),
           (''resourcetype'', Some ''<collection />''), (''supportedlock'', Some getSupportedLock),
           (''lockdiscovery'', Some [])]
      | Some n \<Rightarrow>
          (let file = (\<lambda>v. if i_isCollection n then None else v)
           in [(''creationdate'', Some (utc_string (i_crtime n))), (''displayname'', i_displayname n),
               (''getcontentlength'', file (Some (show_nat (i_size n)))), (''getcontenttype'', file (i_contentType n)),
               (''getetag'', file (i_etag n)), (''getlastmodified'', Some (utc_string (i_mtime n))),
               (''resourcetype'', Some (if i_isCollection n then ''<collection />'' else [])),
               (''supportedlock'', Some getSupportedLock),
               (''lockdiscovery'', Some (if i_locks n = [] then []
                  else getLockDiscovery (map (\<lambda>l. l\<lparr>l_root := getResourceHref (i_key n) (i_isCollection n) base\<rparr>)
                         (i_locks n))))]))"

definition getLivePropertyValue :: "sql_env \<Rightarrow> node_info option \<Rightarrow> dead_property \<Rightarrow> string \<Rightarrow> string option" where
  "getLivePropertyValue env node property base =
     (if dp_namespaceURI property \<noteq> dav_namespace then None
      else Option.bind (map_of (toLiveProperties env node base) (dp_localName property)) id)"

definition node_dead :: "node_info option \<Rightarrow> dead_property list" where
  "node_dead node = (case node of None \<Rightarrow> [] | Some n \<Rightarrow> i_deadProperties n)"

text \<open>The properties of a named request: found ones rendered, the others listed as missing.\<close>

definition find_property :: "sql_env \<Rightarrow> node_info option \<Rightarrow> string \<Rightarrow> dead_property \<Rightarrow> string option" where
  "find_property env node base property =
     (case getLivePropertyValue env node property base of
        Some v \<Rightarrow> Some (renderDavProperty (dp_localName property) v)
      | None \<Rightarrow>
          map_option renderPropertyElement
            (find (\<lambda>d. dp_namespaceURI d = dp_namespaceURI property \<and> dp_localName d = dp_localName property)
              (node_dead node)))"

definition live_entries :: "(string \<Rightarrow> string) \<Rightarrow> (string \<times> string option) list \<Rightarrow> string list" where
  "live_entries f live = concat (map (\<lambda>(k, v). case v of None \<Rightarrow> [] | Some x \<Rightarrow> [renderDavProperty k (f x)]) live)"

definition empty_element :: "dead_property \<Rightarrow> string" where
  "empty_element p = renderEmptyPropertyElement (p\<lparr>dp_valueXml := []\<rparr>)"

definition generatePropfindResponse ::
    "sql_env \<Rightarrow> node_info option \<Rightarrow> propfind_request \<Rightarrow> string \<Rightarrow> string" where
  "generatePropfindResponse env node mode base =
     (let href = (case node of None \<Rightarrow> getResourceHref [] True base
                  | Some n \<Rightarrow> getResourceHref (i_key n) (i_isCollection n) base);
          ok = (case mode of
                  Allprop \<Rightarrow> live_entries id (toLiveProperties env node base) @ map renderPropertyElement (node_dead node)
                | Propname \<Rightarrow> live_entries (\<lambda>_. []) (toLiveProperties env node []) @ map empty_element (node_dead node)
                | Prop requested \<Rightarrow> List.map_filter (find_property env node base) requested);
          missing = (case mode of
                  Prop requested \<Rightarrow> map empty_element (filter (\<lambda>p. find_property env node base p = None) requested)
                | _ \<Rightarrow> [])
      in newline @ ''<response>'' @ newline @ ''<href>'' @ escapeXml href @ ''</href>'' @
         renderPropstat ''HTTP/1.1 200 OK'' ok @ renderPropstat ''HTTP/1.1 404 Not Found'' missing @
         newline @ ''</response>'')"

subsection \<open>PROPFIND\<close>

text \<open>The responses for the listed names, skipping those \<open>seen\<close> already and those gone.\<close>

fun child_responses ::
    "'fs dofs \<Rightarrow> sql_env \<Rightarrow> 'fs volume \<Rightarrow> propfind_request \<Rightarrow> string \<Rightarrow> string list \<Rightarrow> string list \<Rightarrow> string + string" where
  "child_responses dofs env v mode base seen [] = Inr []"
| "child_responses dofs env v mode base seen (child # rest) =
     (if child \<in> set seen then child_responses dofs env v mode base seen rest
      else (case nodeInfo dofs env v child base of
              Inl e \<Rightarrow> Inl e
            | Inr node \<Rightarrow>
                map_sum id (\<lambda>page. (case node of None \<Rightarrow> [] | Some n \<Rightarrow> generatePropfindResponse env (Some n) mode base) @ page)
                  (child_responses dofs env v mode base seen rest)))"

definition members_page ::
    "'fs dofs \<Rightarrow> sql_env \<Rightarrow> 'fs volume \<Rightarrow> propfind_request \<Rightarrow> string \<Rightarrow> string \<Rightarrow> string \<Rightarrow> dav_paging option \<Rightarrow> string + string" where
  "members_page dofs env v mode base innerPath depth paging =
     (if depth = ''0'' then Inr []
      else let direct = map (childInner innerPath)
                 (case paging of None \<Rightarrow> listChildren dofs v innerPath
                  | Some pg \<Rightarrow> map fst (listChildPage dofs v innerPath (pg_offset pg) (pg_limit pg)))
           in (case child_responses dofs env v mode base [] direct of
                 Inl e \<Rightarrow> Inl e
               | Inr page \<Rightarrow>
                   if depth = ''infinity''
                   then map_sum id (\<lambda>deep. page @ deep)
                          (child_responses dofs env v mode base direct (map (childInner innerPath) (listRecursive dofs v innerPath)))
                   else Inr page))"

definition xml_type :: "string \<times> string" where
  "xml_type = (''Content-Type'', ''application/xml; charset=utf-8'')"

definition handlePropfind ::
    "'fs dofs \<Rightarrow> sql_env \<Rightarrow> xml_lib \<Rightarrow> request \<Rightarrow> string \<Rightarrow> dav_bases \<Rightarrow> 'fs volume \<Rightarrow> 'fs handled" where
  "handlePropfind dofs env lib req innerPath bases v =
     (case readCappedBody req max_xml_body_bytes of
        None \<Rightarrow> reply 413 ''Payload Too Large'' v
      | Some xml \<Rightarrow>
          (case parsePropfindRequest lib xml of
             None \<Rightarrow> reply 400 ''Bad Request'' v
           | Some mode \<Rightarrow>
               (case (if innerPath = [] then Inr (Some (rootNode env)) else nodeInfo dofs env v innerPath (hrefBase bases)) of
                  Inl e \<Rightarrow> (Inl e, v)
                | Inr None \<Rightarrow> reply 404 ''Not Found'' v
                | Inr (Some node) \<Rightarrow>
                    (let start = xml_decl @ ''<multistatus xmlns='' @ quote ''DAV:'' @ ''>'' @
                           generatePropfindResponse env (Some node) mode (hrefBase bases);
                         finish = newline @ ''</multistatus>'' @ newline;
                         depth = (case r_header req ''Depth'' of Some d \<Rightarrow> d | None \<Rightarrow> ''infinity'')
                     in if \<not> i_isCollection node then (Inr (respond_with 207 [xml_type] (start @ finish)), v)
                        else if depth \<notin> {''0'', ''1'', ''infinity''} then reply 400 ''Bad Request'' v
                        else let paging = (case readPagingHeaders req of
                                   Some requested \<Rightarrow> if depth = ''1'' then Some (resolvePaging requested (countChildren dofs v innerPath)) else None
                                 | None \<Rightarrow> None)
                             in (case members_page dofs env v mode (hrefBase bases) innerPath depth paging of
                                   Inl e \<Rightarrow> (Inl e, v)
                                 | Inr members \<Rightarrow>
                                     (Inr (respond_with 207
                                        (xml_type # (case paging of None \<Rightarrow> [] | Some pg \<Rightarrow> pagingHeaders pg))
                                        (start @ members @ finish)), v))))))"

subsection \<open>PROPPATCH\<close>

text \<open>Writing the properties one by one: the store, and those written and those refused.\<close>

fun apply_each ::
    "(dead_property \<Rightarrow> store \<Rightarrow> outcome) \<Rightarrow> dead_property list \<Rightarrow> store \<Rightarrow> store \<times> dead_property list \<times> dead_property list" where
  "apply_each f [] st = (st, [], [])"
| "apply_each f (p # ps) st =
     (case f p st of
        (st1, e) \<Rightarrow>
          (let (st2, applied, errored) = apply_each f ps st1
           in case e of None \<Rightarrow> (st2, p # applied, errored) | Some _ \<Rightarrow> (st2, applied, p # errored)))"

definition deleteDeadProperty :: "sql_env \<Rightarrow> string \<Rightarrow> dead_property \<Rightarrow> store \<Rightarrow> outcome" where
  "deleteDeadProperty env p property =
     exec env (Delete_prop p (dp_namespaceURI property) (dp_localName property))
       (\<lambda>st. st\<lparr>st_props := filter (\<lambda>r. prop_key r \<noteq> (p, dp_namespaceURI property, dp_localName property)) (st_props st)\<rparr>)"

definition prop_targets :: "patch_action \<Rightarrow> bool \<Rightarrow> (patch_action \<times> dead_property) list \<Rightarrow> dead_property list" where
  "prop_targets action prot ops =
     map snd (filter (\<lambda>(a, p). a = action \<and> isProtectedProperty p = prot) ops)"

definition success_status :: string where "success_status = ''HTTP/1.1 200 OK''"
definition forbidden_status :: string where "forbidden_status = ''HTTP/1.1 403 Forbidden''"
definition dependency_status :: string where "dependency_status = ''HTTP/1.1 424 Failed Dependency''"

record patch_outcome =
  po_store :: store
  po_applied :: "dead_property list"
  po_forbidden :: "dead_property list"
  po_dependent :: "dead_property list"

definition apply_patch :: "sql_env \<Rightarrow> string \<Rightarrow> (patch_action \<times> dead_property) list \<Rightarrow> store \<Rightarrow> patch_outcome" where
  "apply_patch env innerPath ops st =
     (let okSets = prop_targets Set_prop False ops; okRemoves = prop_targets Remove_prop False ops;
          failed = prop_targets Set_prop True ops @ prop_targets Remove_prop True ops
      in if failed \<noteq> []
         then \<lparr>po_store = st, po_applied = [], po_forbidden = failed, po_dependent = okSets @ okRemoves\<rparr>
         else let (st1, appliedSets, erroredSets) = apply_each (upsertDeadProperty env innerPath) okSets st;
                  (st2, appliedRemoves, erroredRemoves) = apply_each (deleteDeadProperty env innerPath) okRemoves st1
              in \<lparr>po_store = st2, po_applied = appliedSets @ appliedRemoves, po_forbidden = [],
                  po_dependent = erroredSets @ erroredRemoves\<rparr>)"

definition handleProppatch ::
    "'fs dofs \<Rightarrow> sql_env \<Rightarrow> xml_lib \<Rightarrow> request \<Rightarrow> string \<Rightarrow> dav_bases \<Rightarrow> 'fs volume \<Rightarrow> 'fs handled" where
  "handleProppatch dofs env lib req innerPath bases v =
     unless_locked (assertLock env req innerPath False (vol_store v)) v
       (case (if innerPath = [] then Inr (Some (rootNode env)) else nodeInfo dofs env v innerPath (hrefBase bases)) of
          Inl e \<Rightarrow> (Inl e, v)
        | Inr None \<Rightarrow> reply 404 ''Not Found'' v
        | Inr (Some node) \<Rightarrow>
            (case readCappedBody req max_xml_body_bytes of
               None \<Rightarrow> reply 413 ''Payload Too Large'' v
             | Some xml \<Rightarrow>
                 (case parseProppatchRequest lib xml of
                    None \<Rightarrow> reply 400 ''Bad Request'' v
                  | Some ops \<Rightarrow>
                      (let po = apply_patch env innerPath ops (vol_store v);
                           body = xml_decl @ ''<multistatus xmlns='' @ quote ''DAV:'' @ ''>'' @ newline @ ''<response>'' @ newline @
                             ''<href>'' @ escapeXml (hrefOf (hrefBase bases) innerPath (i_isCollection node)) @ ''</href>'' @
                             renderPropstat success_status (map empty_element (po_applied po)) @
                             renderPropstat forbidden_status (map empty_element (po_forbidden po)) @
                             renderPropstat dependency_status (map empty_element (po_dependent po)) @
                             newline @ ''</response>'' @ newline @ ''</multistatus>''
                       in (Inr (respond_with 207 [xml_type] body), v\<lparr>vol_store := po_store po\<rparr>)))))"

end
