(* ===== verification/Copy_Move_Methods.thy ===== *)
theory Copy_Move_Methods
  imports Write_Methods Xml
begin

section \<open>COPY and MOVE\<close>

text \<open>
  Models \<open>apps/background/src/dav/methods/CopyMoveMethods.ts\<close>. Replacing an existing
  destination is a DELETE of it by the worker (\<open>deleteDestination\<close> in \<open>DavVolumeWorker.ts\<close>),
  which carries the lock headers of the request along.
\<close>

definition forwardLockHeaders :: "request \<Rightarrow> string \<Rightarrow> string option" where
  "forwardLockHeaders req k =
     (if k \<in> {''If'', ''Lock-Token''} \<and> present (r_header req k) then r_header req k else None)"

definition overwrite_request :: "request \<Rightarrow> request" where
  "overwrite_request req = \<lparr>r_method = ''DELETE'', r_url = r_url req, r_pathname = r_pathname req,
     r_header = forwardLockHeaders req, r_body = None\<rparr>"

definition isOverwriteAllowed :: "request \<Rightarrow> bool" where
  "isOverwriteAllowed req =
     (case r_header req ''Overwrite'' of None \<Rightarrow> True | Some raw \<Rightarrow> to_upper (trim raw) = ''T'')"

definition resolveDestination :: "url_parser \<Rightarrow> request \<Rightarrow> string \<Rightarrow> string \<Rightarrow> string option" where
  "resolveDestination parse_url req pathbase srcInner =
     (case r_header req ''Destination'' of None \<Rightarrow> None
      | Some destHeader \<Rightarrow>
          if destHeader = [] then None
          else (case parseDestinationPath parse_url destHeader (r_url req) of None \<Rightarrow> None
                | Some destFull \<Rightarrow>
                    (case stripBase destFull pathbase of None \<Rightarrow> None
                     | Some destInner \<Rightarrow>
                         if \<not> isValidInnerPath destInner then None
                         else if length (split_path destInner) > max_path_depth then None
                         else if isSameOrDescendantPath srcInner destInner then None else Some destInner)))"

text \<open>\<open>deleteDestination\<close>: \<open>Inr None\<close> when the DELETE succeeded, else its answer.\<close>

definition deleteDestination ::
    "'fs dofs \<Rightarrow> sql_env \<Rightarrow> request \<Rightarrow> string \<Rightarrow> 'fs volume \<Rightarrow> (string + response option) \<times> 'fs volume" where
  "deleteDestination dofs env req destInner v =
     (case handleDelete dofs env (overwrite_request req) destInner v of
        (Inl e, v1) \<Rightarrow> (Inl e, v1)
      | (Inr r, v1) \<Rightarrow> (Inr (if 200 \<le> rs_status r \<and> rs_status r < 300 then None else Some r), v1))"

text \<open>Remove the destination if there is one, then go on with the volume that leaves.\<close>

definition after_removal ::
    "'fs dofs \<Rightarrow> sql_env \<Rightarrow> request \<Rightarrow> string \<Rightarrow> bool \<Rightarrow> 'fs volume \<Rightarrow> ('fs volume \<Rightarrow> 'fs handled) \<Rightarrow> 'fs handled" where
  "after_removal dofs env req destInner destExists v k =
     (if \<not> destExists then k v
      else (case deleteDestination dofs env req destInner v of
              (Inl e, v1) \<Rightarrow> (Inl e, v1)
            | (Inr (Some r), v1) \<Rightarrow> (Inr r, v1)
            | (Inr None, v1) \<Rightarrow> k v1))"

definition copy_failure :: "string \<Rightarrow> string \<Rightarrow> fs_error \<Rightarrow> failure" where
  "copy_failure hrefbase dstChild e = \<lparr>fl_href = hrefOf hrefbase dstChild False,
     fl_status = ''HTTP/1.1 507 Insufficient Storage'', fl_description = Some (fe_message e)\<rparr>"

text \<open>Read one file and write it at the destination; the error of either call.\<close>

definition copy_bytes :: "'fs dofs \<Rightarrow> string \<Rightarrow> string \<Rightarrow> 'fs volume \<Rightarrow> 'fs volume \<times> fs_error option" where
  "copy_bytes dofs src dst v =
     (case fs_read dofs (vol_fs v) (fsPathOf src) None of
        Inl e \<Rightarrow> (v, Some e)
      | Inr bytes \<Rightarrow> on_fs (\<lambda>fs. fs_writeFile dofs fs (fsPathOf dst) bytes) v)"

text \<open>The loop over the members of a copied collection: the volume and the failures, in order.\<close>

fun copy_members ::
    "'fs dofs \<Rightarrow> sql_env \<Rightarrow> string \<Rightarrow> string \<Rightarrow> string \<Rightarrow> string list \<Rightarrow> 'fs volume \<Rightarrow> 'fs volume \<times> failure list" where
  "copy_members dofs env hrefbase src dst [] v = (v, [])"
| "copy_members dofs env hrefbase src dst (name # names) v =
     (let srcChild = childInner src name;
          dstChild = dst @ ''/'' @ drop (length src + 1) srcChild;
          childStat = statInner dofs env v srcChild
      in if si_isDirectory childStat
         then copy_members dofs env hrefbase src dst names
                (copyMeta env srcChild dstChild True
                  (fst (on_fs (\<lambda>fs. fs_mkdir dofs fs (fsPathOf dstChild) False) v)))
         else (case copy_bytes dofs srcChild dstChild v of
                 (v1, Some e) \<Rightarrow>
                   (let (v2, failures) = copy_members dofs env hrefbase src dst names v1
                    in (v2, copy_failure hrefbase dstChild e # failures))
               | (v1, None) \<Rightarrow>
                   copy_members dofs env hrefbase src dst names (copyMeta env srcChild dstChild False v1)))"

definition copied :: "bool \<Rightarrow> string \<Rightarrow> 'fs volume \<Rightarrow> 'fs handled" where
  "copied destExists href v = (if destExists then reply 204 [] v else (Inr (createdResponse href [] []), v))"

definition copy_collection ::
    "'fs dofs \<Rightarrow> sql_env \<Rightarrow> dav_bases \<Rightarrow> string \<Rightarrow> string \<Rightarrow> bool \<Rightarrow> string \<Rightarrow> 'fs volume \<Rightarrow> 'fs handled" where
  "copy_collection dofs env bases innerPath destInner destExists depth v =
     (case on_fs (\<lambda>fs. fs_mkdir dofs fs (fsPathOf destInner) False) v of
        (v1, e) \<Rightarrow>
          if e \<noteq> None \<and> \<not> destExists then reply 409 ''Conflict'' v1
          else let v2 = copyMeta env innerPath destInner True v1;
                   (v3, failures) = (if depth = ''infinity''
                     then copy_members dofs env (hrefBase bases) innerPath destInner (listRecursive dofs v2 innerPath) v2
                     else (v2, []))
               in if failures \<noteq> []
                  then (Inr (respond_with 207 [(''Content-Type'', ''application/xml; charset=utf-8'')]
                         (renderMultiStatusFailures failures)), v3)
                  else copied destExists (hrefOf (hrefBase bases) destInner True) v3)"

definition copy_file ::
    "'fs dofs \<Rightarrow> sql_env \<Rightarrow> dav_bases \<Rightarrow> string \<Rightarrow> string \<Rightarrow> bool \<Rightarrow> 'fs volume \<Rightarrow> 'fs handled" where
  "copy_file dofs env bases innerPath destInner destExists v =
     (case copy_bytes dofs innerPath destInner v of
        (v1, Some e) \<Rightarrow>
          if fe_code e = Some ''ENOSPC'' then reply 507 ''Insufficient Storage'' v1 else reply 404 ''Not Found'' v1
      | (v1, None) \<Rightarrow> copied destExists (hrefOf (hrefBase bases) destInner False) (copyMeta env innerPath destInner False v1))"

definition handleCopy ::
    "'fs dofs \<Rightarrow> sql_env \<Rightarrow> url_parser \<Rightarrow> request \<Rightarrow> string \<Rightarrow> dav_bases \<Rightarrow> 'fs volume \<Rightarrow> 'fs handled" where
  "handleCopy dofs env parse_url req innerPath bases v =
     (case resolveDestination parse_url req (pathBase bases) innerPath of
        None \<Rightarrow> reply 400 ''Bad Request'' v
      | Some destInner \<Rightarrow>
          unless_locked (assertLock env req destInner False (vol_store v)) v
            (let srcStat = statInner dofs env v innerPath;
                 destParent = getParentPath destInner;
                 destExists = si_exists (statInner dofs env v destInner);
                 depth = (case r_header req ''Depth'' of Some d \<Rightarrow> d | None \<Rightarrow> ''infinity'')
             in if \<not> si_exists srcStat then reply 404 ''Not Found'' v
                else if destParent \<noteq> [] \<and> \<not> si_isDirectory (statInner dofs env v destParent) then reply 409 ''Conflict'' v
                else if \<not> isOverwriteAllowed req \<and> destExists then reply 412 ''Precondition Failed'' v
                else if si_isDirectory srcStat then
                  (if depth \<noteq> ''0'' \<and> depth \<noteq> ''infinity'' then reply 400 ''Bad Request'' v
                   else after_removal dofs env req destInner destExists v
                          (copy_collection dofs env bases innerPath destInner destExists depth))
                else after_removal dofs env req destInner destExists v
                       (copy_file dofs env bases innerPath destInner destExists)))"

definition move_resource ::
    "'fs dofs \<Rightarrow> sql_env \<Rightarrow> dav_bases \<Rightarrow> string \<Rightarrow> string \<Rightarrow> bool \<Rightarrow> bool \<Rightarrow> 'fs volume \<Rightarrow> 'fs handled" where
  "move_resource dofs env bases innerPath destInner destExists isDirectory v =
     (case on_fs (\<lambda>fs. fs_rename dofs fs (fsPathOf innerPath) (fsPathOf destInner)) v of
        (v1, Some _) \<Rightarrow> reply 500 ''Internal Server Error'' v1
      | (v1, None) \<Rightarrow>
          copied destExists (hrefOf (hrefBase bases) destInner isDirectory) (renameCascade env innerPath destInner v1))"

text \<open>The lock check over the source's descendants: \<open>Inr None\<close> when none is locked.\<close>

definition descendants_free ::
    "'fs dofs \<Rightarrow> sql_env \<Rightarrow> request \<Rightarrow> string \<Rightarrow> 'fs volume \<Rightarrow> string + response option" where
  "descendants_free dofs env req innerPath v =
     (case requireRecursive dofs v innerPath of
        Inl _ \<Rightarrow> Inr (Some (respond 500 ''Internal Server Error''))
      | Inr descendants \<Rightarrow>
          map_sum id (\<lambda>locked. if locked then Some (respond 423 ''Locked'') else None)
            (descendant_locked env (getRequestLockTokens req) innerPath (vol_store v) descendants))"

definition handleMove ::
    "'fs dofs \<Rightarrow> sql_env \<Rightarrow> url_parser \<Rightarrow> request \<Rightarrow> string \<Rightarrow> dav_bases \<Rightarrow> 'fs volume \<Rightarrow> 'fs handled" where
  "handleMove dofs env parse_url req innerPath bases v =
     (case resolveDestination parse_url req (pathBase bases) innerPath of
        None \<Rightarrow> reply 400 ''Bad Request'' v
      | Some destInner \<Rightarrow>
          unless_locked (assertLock env req innerPath False (vol_store v)) v
          (unless_locked (assertLock env req destInner False (vol_store v)) v
            (let srcStat = statInner dofs env v innerPath;
                 destParent = getParentPath destInner;
                 destExists = si_exists (statInner dofs env v destInner);
                 depthRefused = (case r_header req ''Depth'' of None \<Rightarrow> False | Some d \<Rightarrow> to_lower (trim d) \<noteq> ''infinity'')
             in if \<not> si_exists srcStat then reply 404 ''Not Found'' v
                else if depthRefused then reply 400 ''Bad Request'' v
                else unless_locked (if si_isDirectory srcStat then descendants_free dofs env req innerPath v else Inr None) v
                  (if destParent \<noteq> [] \<and> \<not> si_isDirectory (statInner dofs env v destParent) then reply 409 ''Conflict'' v
                   else if \<not> isOverwriteAllowed req \<and> destExists then reply 412 ''Precondition Failed'' v
                   else after_removal dofs env req destInner destExists v
                          (move_resource dofs env bases innerPath destInner destExists (si_isDirectory srcStat))))))"

end
