(* ===== verification/Lock_Methods.thy ===== *)
theory Lock_Methods
  imports Write_Methods Xml
begin

section \<open>LOCK and UNLOCK\<close>

text \<open>
  Models \<open>apps/background/src/dav/methods/lockPhases.ts\<close> and \<open>LockMethods.ts\<close>, one definition
  per phase in the order of the source. The token \<open>crypto.randomUUID()\<close> draws is the argument
  \<open>uuid\<close>.
\<close>

text \<open>\<open>/<tag\b/i\<close> for a tag that starts with \<open><\<close>.\<close>

fun has_word :: "string \<Rightarrow> string \<Rightarrow> bool" where
  "has_word tag s =
     ((starts_with tag s \<and> (case drop (length tag) s of [] \<Rightarrow> True | c # _ \<Rightarrow> \<not> word_char c))
      \<or> (case s of [] \<Rightarrow> False | c # t \<Rightarrow> has_word tag t))"

declare has_word.simps [simp del]

record lock_request =
  lq_depthHeader :: "lock_depth option"
  lq_body :: string
  lq_scope :: lock_scope
  lq_owner :: "string option"
  lq_tokens :: "string list"
  lq_timeout :: string
  lq_expiresAt :: int

definition parse_depth :: "string option \<Rightarrow> lock_depth option option" where
  "parse_depth raw =
     (case raw of None \<Rightarrow> Some None
      | Some d \<Rightarrow> if d = ''0'' then Some (Some Depth_0)
          else if d = ''infinity'' then Some (Some Depth_infinity) else None)"

definition parseLockRequest :: "sql_env \<Rightarrow> request \<Rightarrow> response + lock_request" where
  "parseLockRequest env req =
     (case parse_depth (r_header req ''Depth'') of
        None \<Rightarrow> Inl (respond 400 ''Bad Request'')
      | Some depthHeader \<Rightarrow>
          (let (timeout, expiresAt) = parseTimeout (se_now env) (r_header req ''Timeout'')
           in case readCappedBody req max_xml_body_bytes of
                None \<Rightarrow> Inl (respond 413 ''Payload Too Large'')
              | Some body \<Rightarrow>
                  if body \<noteq> [] \<and> \<not> has_word ''<write'' (to_lower body) then Inl (respond 400 ''Bad Request'')
                  else Inr \<lparr>lq_depthHeader = depthHeader, lq_body = body,
                    lq_scope = (if has_word ''<shared'' (to_lower body) then Shared else Exclusive),
                    lq_owner = extractLockOwner body, lq_tokens = getRequestLockTokens req,
                    lq_timeout = timeout, lq_expiresAt = expiresAt\<rparr>))"

definition live_at :: "sql_env \<Rightarrow> string \<Rightarrow> store \<Rightarrow> lock_row list" where
  "live_at env p st = filter (\<lambda>r. k_path r = p \<and> k_expiresAt r > se_now env) (st_locks st)"

definition readLocks :: "sql_env \<Rightarrow> string \<Rightarrow> store \<Rightarrow> lock_details list" where
  "readLocks env innerPath st =
     (case se_fails env (Select_locks [innerPath]) of
        Some _ \<Rightarrow> []
      | None \<Rightarrow> List.map_filter (\<lambda>r. lockDetailsFromRow (se_now env) r (k_root r)) (live_at env innerPath st))"

fun find_refreshable :: "sql_env \<Rightarrow> string \<Rightarrow> string list \<Rightarrow> store \<Rightarrow> string list \<Rightarrow> (string \<times> lock_details) option" where
  "find_refreshable env innerPath tokens st [] = None"
| "find_refreshable env innerPath tokens st (cur # rest) =
     (case se_fails env (Select_locks [cur]) of
        Some _ \<Rightarrow> None
      | None \<Rightarrow>
          (case find (\<lambda>r. k_token r \<in> set tokens \<and> (cur = innerPath \<or> k_depth r = Depth_infinity)) (live_at env cur st) of
             None \<Rightarrow> find_refreshable env innerPath tokens st rest
           | Some row \<Rightarrow>
               (case lockDetailsFromRow (se_now env) row (k_root row) of
                  Some details \<Rightarrow> Some (cur, details)
                | None \<Rightarrow> find_refreshable env innerPath tokens st rest)))"

definition findRefreshableLock :: "sql_env \<Rightarrow> string \<Rightarrow> string list \<Rightarrow> store \<Rightarrow> (string \<times> lock_details) option" where
  "findRefreshableLock env innerPath tokens st =
     find_refreshable env innerPath tokens st (ancestorsOf innerPath)"

fun descendant_conflict ::
    "sql_env \<Rightarrow> string list \<Rightarrow> lock_scope \<Rightarrow> string \<Rightarrow> store \<Rightarrow> string list \<Rightarrow> string + bool" where
  "descendant_conflict env tokens scope parent st [] = Inr False"
| "descendant_conflict env tokens scope parent st (name # names) =
     (case activeTokensForPath env (childInner parent name) tokens st of
        Inl e \<Rightarrow> Inl e
      | Inr active \<Rightarrow>
          if filter (\<lambda>(t, s). scope = Exclusive \<or> s = Exclusive) active \<noteq> [] then Inr True
          else descendant_conflict env tokens scope parent st names)"

definition checkDescendantConflicts ::
    "'fs dofs \<Rightarrow> sql_env \<Rightarrow> request \<Rightarrow> string \<Rightarrow> lock_depth option \<Rightarrow> lock_scope \<Rightarrow> 'fs volume \<Rightarrow> string + response option" where
  "checkDescendantConflicts dofs env req innerPath depthHeader scope v =
     (if depthHeader \<noteq> Some Depth_infinity \<or> \<not> si_isDirectory (statInner dofs env v innerPath) then Inr None
      else (case requireRecursive dofs v innerPath of
              Inl _ \<Rightarrow> Inr (Some (respond 500 ''Internal Server Error''))
            | Inr descendants \<Rightarrow>
                map_sum id (\<lambda>conflict. if conflict then Some (respond 423 ''Locked'') else None)
                  (descendant_conflict env (getRequestLockTokens req) scope innerPath (vol_store v) descendants)))"

text \<open>The refusal, if any, and the volume in which the resource exists otherwise.\<close>

definition ensureLockableResource ::
    "'fs dofs \<Rightarrow> sql_env \<Rightarrow> request \<Rightarrow> string \<Rightarrow> bool \<Rightarrow> 'fs volume \<Rightarrow> response option \<times> 'fs volume" where
  "ensureLockableResource dofs env req innerPath isRefresh v =
     (let parent = getParentPath innerPath
      in if si_exists (statInner dofs env v innerPath) then (None, v)
         else if isRefresh then (Some (respond 400 ''Bad Request''), v)
         else if parent \<noteq> [] \<and> \<not> si_isDirectory (statInner dofs env v parent) then (Some (respond 409 ''Conflict''), v)
         else if ends_with ''/'' (r_pathname req) then (Some (respond 409 ''Conflict''), v)
         else (case writeEmptyFile dofs env innerPath v of
                 (v1, ok) \<Rightarrow> (if ok then None else Some (respond 409 ''Conflict''), v1)))"

definition undoCreation :: "'fs dofs \<Rightarrow> sql_env \<Rightarrow> string \<Rightarrow> 'fs volume \<Rightarrow> 'fs volume" where
  "undoCreation dofs env innerPath v =
     (case on_fs (\<lambda>fs. fs_unlink dofs fs (fsPathOf innerPath)) v of
        (v1, Some _) \<Rightarrow> v1 | (v1, None) \<Rightarrow> deleteCascade env innerPath v1)"

definition resolveDepth :: "lock_details option \<Rightarrow> bool \<Rightarrow> lock_depth option \<Rightarrow> lock_depth" where
  "resolveDepth existing targetIsCollection depthHeader =
     (case existing of Some l \<Rightarrow> l_depth l | None \<Rightarrow> determineLockDepth targetIsCollection depthHeader)"

definition checkScopeConflict :: "sql_env \<Rightarrow> string \<Rightarrow> lock_scope \<Rightarrow> lock_details option \<Rightarrow> store \<Rightarrow> bool" where
  "checkScopeConflict env activePath scope existing st =
     (if existing \<noteq> None then False
      else if scope = Exclusive then readLocks env activePath st \<noteq> []
      else list_ex (\<lambda>l. l_scope l = Exclusive) (readLocks env activePath st))"

definition row_of_lock :: "string \<Rightarrow> lock_details \<Rightarrow> lock_row" where
  "row_of_lock p d = \<lparr>k_token = l_token d, k_path = p, k_scope = l_scope d, k_depth = l_depth d,
     k_owner = l_owner d, k_timeout = l_timeout d, k_expiresAt = l_expiresAt d, k_root = l_root d\<rparr>"

text \<open>The UPDATE of a refresh (by token) or the INSERT of a new lock (its token is the key).\<close>

definition writeLock :: "sql_env \<Rightarrow> bool \<Rightarrow> string \<Rightarrow> lock_details \<Rightarrow> store \<Rightarrow> outcome" where
  "writeLock env refreshed activePath d st =
     (if refreshed
      then exec env (Update_lock (l_token d))
             (\<lambda>st. st\<lparr>st_locks := map (\<lambda>r. if k_token r = l_token d then row_of_lock (k_path r) d else r) (st_locks st)\<rparr>) st
      else if l_token d \<in> k_token ` set (st_locks st) then (st, Some unique_failed)
      else exec env (Insert_lock (l_token d))
             (\<lambda>st. st\<lparr>st_locks := st_locks st @ [row_of_lock activePath d]\<rparr>) st)"

definition lockResponse :: "lock_details \<Rightarrow> bool \<Rightarrow> response" where
  "lockResponse d refreshed =
     respond_with (if refreshed then 200 else 201)
       [(''Content-Type'', ''application/xml; charset=utf-8''), (''Lock-Token'', ''<urn:uuid:'' @ l_token d @ ''>'')]
       (xml_decl @ ''<prop xmlns='' @ quote ''DAV:'' @ ''><lockdiscovery>'' @ getLockDiscovery [d] @
        ''</lockdiscovery></prop>'')"

text \<open>The lock this request creates, or the one it refreshes with its new lease.\<close>

definition granted_details ::
    "string \<Rightarrow> dav_bases \<Rightarrow> lock_request \<Rightarrow> lock_details option \<Rightarrow> string \<Rightarrow> bool \<Rightarrow> lock_details" where
  "granted_details uuid bases lq existing activePath isCollection =
     \<lparr>l_token = (case existing of Some l \<Rightarrow> l_token l | None \<Rightarrow> uuid),
      l_owner = (case lq_owner lq of Some w \<Rightarrow> Some w | None \<Rightarrow> Option.bind existing l_owner),
      l_scope = (case existing of Some l \<Rightarrow> l_scope l | None \<Rightarrow> lq_scope lq),
      l_depth = resolveDepth existing isCollection (lq_depthHeader lq),
      l_timeout = lq_timeout lq, l_expiresAt = lq_expiresAt lq,
      l_root = hrefOf (hrefBase bases) activePath isCollection\<rparr>"

text \<open>The end of \<open>handleLock\<close>: the conflict rules at the lock's path, and the write.\<close>

definition take_lock ::
    "'fs dofs \<Rightarrow> sql_env \<Rightarrow> string \<Rightarrow> string \<Rightarrow> dav_bases \<Rightarrow> lock_request \<Rightarrow> (string \<times> lock_details) option \<Rightarrow> bool \<Rightarrow>
     'fs volume \<Rightarrow> 'fs handled" where
  "take_lock dofs env uuid innerPath bases lq found presentAtEntry v =
     (let existing = map_option snd found;
          activePath = (case found of Some (p, _) \<Rightarrow> p | None \<Rightarrow> innerPath);
          isCollection = si_isDirectory (statInner dofs env v activePath)
      in if checkScopeConflict env activePath (lq_scope lq) existing (vol_store v) then reply 423 ''Locked'' v
         else if lq_depthHeader lq = Some Depth_infinity \<and> \<not> isCollection then
           reply 400 ''Bad Request'' (if presentAtEntry then v else undoCreation dofs env innerPath v)
         else let d = granted_details uuid bases lq existing activePath isCollection
              in (case writeLock env (existing \<noteq> None) activePath d (vol_store v) of
                    (st, Some _) \<Rightarrow> reply 500 ''Internal Server Error'' (v\<lparr>vol_store := st\<rparr>)
                  | (st, None) \<Rightarrow> (Inr (lockResponse d (existing \<noteq> None)), v\<lparr>vol_store := st\<rparr>)))"

definition handleLock ::
    "'fs dofs \<Rightarrow> sql_env \<Rightarrow> string \<Rightarrow> request \<Rightarrow> string \<Rightarrow> dav_bases \<Rightarrow> 'fs volume \<Rightarrow> 'fs handled" where
  "handleLock dofs env uuid req innerPath bases v =
     (case parseLockRequest env req of
        Inl r \<Rightarrow> (Inr r, v)
      | Inr lq \<Rightarrow>
          unless_locked (assertLock env req innerPath (lq_body lq \<noteq> [] \<and> lq_scope lq = Shared) (vol_store v)) v
          (unless_locked (checkDescendantConflicts dofs env req innerPath (lq_depthHeader lq) (lq_scope lq) v) v
            (let presentAtEntry = si_exists (statInner dofs env v innerPath);
                 found = (if lq_body lq = [] \<and> presentAtEntry
                          then findRefreshableLock env innerPath (lq_tokens lq) (vol_store v) else None)
             in (case ensureLockableResource dofs env req innerPath (lq_body lq = []) v of
                   (Some r, v1) \<Rightarrow> (Inr r, v1)
                 | (None, v1) \<Rightarrow> take_lock dofs env uuid innerPath bases lq found presentAtEntry v1))))"

definition handleUnlock :: "'fs dofs \<Rightarrow> sql_env \<Rightarrow> request \<Rightarrow> string \<Rightarrow> 'fs volume \<Rightarrow> 'fs handled" where
  "handleUnlock dofs env req innerPath v =
     (let st = statInner dofs env v innerPath
      in if innerPath \<noteq> [] \<and> \<not> si_exists st then reply 404 ''Not Found'' v
         else if \<not> present (r_header req ''Lock-Token'') then reply 400 ''Bad Request'' v
         else let normalized = normalizeLockToken (the (r_header req ''Lock-Token''));
                  candidates = map k_token (filter (\<lambda>r. k_path r = innerPath) (st_locks (vol_store v)));
                  target = find (\<lambda>t. t \<noteq> [] \<and> (t = normalized \<or> normalizeLockToken t = normalized)) candidates
              in if se_fails env (Select_tokens innerPath) \<noteq> None then reply 409 ''Conflict'' v
                 else (case target of
                         None \<Rightarrow> reply 409 ''Conflict'' v
                       | Some t \<Rightarrow>
                           (case exec env (Delete_lock t)
                                   (\<lambda>s. s\<lparr>st_locks := filter (\<lambda>r. k_token r \<noteq> t) (st_locks s)\<rparr>) (vol_store v) of
                              (s, Some _) \<Rightarrow> reply 409 ''Conflict'' v
                            | (s, None) \<Rightarrow>
                                let v1 = v\<lparr>vol_store := s\<rparr>
                                in reply 204 []
                                     (if innerPath \<noteq> [] \<and> \<not> si_isDirectory st \<and> si_size st = 0
                                         \<and> readLocks env innerPath (vol_store v1) = [] \<and> isLockNull env v1 innerPath
                                      then undoCreation dofs env innerPath v1 else v1))))"

end
