(* ===== verification/Volume_Worker.thy ===== *)
theory Volume_Worker
  imports Prop_Methods Copy_Move_Methods Lock_Methods
begin

section \<open>GET and HEAD, and the worker that dispatches a request\<close>

text \<open>
  Models \<open>apps/background/src/dav/methods/ReadMethods.ts\<close> and the request path of
  \<open>apps/background/src/DavVolumeWorker.ts\<close>: the error boundary, the resolution of the inner
  path, the choice of the handler. What the worker takes from outside the repository and from
  its configuration is the record \<open>platform\<close>.
\<close>

record 'fs platform =
  pf_dofs :: "'fs dofs"
  pf_sql :: sql_env
  pf_xml :: xml_lib
  pf_url :: url_parser
  pf_date :: "string \<Rightarrow> int option"
  pf_uuid :: string
  pf_maxFileBytes :: int

subsection \<open>\<open>ReadMethods.ts\<close>\<close>

definition page_style :: string where
  "page_style = ''*{box-sizing:border-box}body{padding:10px;font-family:system-ui,sans-serif}'' @
     ''a{display:inline-block;width:100%;color:#000;text-decoration:none;padding:5px 10px;border-radius:5px}'' @
     ''a:hover{background:#0ea5e9;color:#fff}''"

definition renderCollectionHtml :: "string \<Rightarrow> string \<Rightarrow> (string \<times> string \<times> bool) list \<Rightarrow> string" where
  "renderCollectionHtml base innerPath children =
     (let items = (if innerPath \<noteq> [] then ''<a href='' @ quote ''../'' @ ''>..</a><br>'' else []) @
            concat (map (\<lambda>(name, child, isDirectory).
              ''<a href='' @ quote (escapeXml (hrefOf base child isDirectory)) @ ''>'' @ escapeXml name @
              (if isDirectory then ''/'' else []) @ ''</a><br>'') children)
      in ''<!DOCTYPE html><html lang='' @ quote ''en'' @ ''><head><meta charset='' @ quote ''UTF-8'' @
         ''><meta name='' @ quote ''viewport'' @ '' content='' @ quote ''width=device-width,initial-scale=1.0'' @
         ''><title>Durable-DAV</title><style>'' @ page_style @ ''</style></head><body><h1>Durable-DAV '' @
         escapeXml base @ ''/'' @ escapeXml innerPath @ ''</h1><div>'' @ items @ ''</div></body></html>'')"

definition html_type :: "string \<times> string" where
  "html_type = (''Content-Type'', ''text/html; charset=utf-8'')"

definition read_headers :: "node_meta \<Rightarrow> nat \<Rightarrow> string option \<Rightarrow> (string \<times> string) list" where
  "read_headers meta contentLength contentRange =
     [(''Content-Type'', (case m_contentType meta of Some c \<Rightarrow> c | None \<Rightarrow> ''application/octet-stream'')),
      (''Content-Length'', show_nat contentLength), (''Accept-Ranges'', ''bytes'')] @
     (if present (m_etag meta) then [(''ETag'', the (m_etag meta))] else []) @
     (case m_mtime meta of None \<Rightarrow> [] | Some t \<Rightarrow> if t = 0 then [] else [(''Last-Modified'', utc_string t)]) @
     (if present contentRange then [(''Content-Range'', the contentRange)] else [])"

definition serve_file ::
    "'fs dofs \<Rightarrow> sql_env \<Rightarrow> (string \<Rightarrow> int option) \<Rightarrow> request \<Rightarrow> string \<Rightarrow> bool \<Rightarrow> stat_result \<Rightarrow> 'fs volume \<Rightarrow> 'fs handled" where
  "serve_file dofs env date_parse req innerPath headOnly st v =
     (let meta = readMeta env v innerPath;
          mtime = (case m_mtime meta of Some m \<Rightarrow> m | None \<Rightarrow> si_mtime st)
      in case check_conditions date_parse req \<lparr>cs_etag = m_etag meta, cs_mtime = Some mtime\<rparr> True of
           Some r \<Rightarrow> (Inr r, v)
         | None \<Rightarrow>
             (let range = parseRangeHeader (r_header req ''Range'') (si_size st)
              in if pr_status range = 416
                 then (Inr (respond_with 416
                        [(''Content-Range'', (case pr_contentRange range of Some c \<Rightarrow> c
                            | None \<Rightarrow> ''bytes */'' @ show_nat (si_size st))), (''Accept-Ranges'', ''bytes'')] []), v)
                 else (case (case pr_length range of
                               None \<Rightarrow> map_sum id (\<lambda>b. (b, si_size st)) (fs_readFile dofs (vol_fs v) (fsPathOf innerPath))
                             | Some len \<Rightarrow> map_sum id (\<lambda>b. (b, length b))
                                 (fs_read dofs (vol_fs v) (fsPathOf innerPath) (Some (pr_offset range, len)))) of
                         Inl _ \<Rightarrow> reply 404 ''Not Found'' v
                       | Inr (body, contentLength) \<Rightarrow>
                           (Inr (respond_with (pr_status range) (read_headers meta contentLength (pr_contentRange range))
                              (if headOnly then [] else body)), v))))"

definition handleGet ::
    "'fs dofs \<Rightarrow> sql_env \<Rightarrow> (string \<Rightarrow> int option) \<Rightarrow> request \<Rightarrow> string \<Rightarrow> dav_bases \<Rightarrow> bool \<Rightarrow> 'fs volume \<Rightarrow> 'fs handled" where
  "handleGet dofs env date_parse req innerPath bases headOnly v =
     (let st = statInner dofs env v innerPath
      in if ends_with ''/'' (r_pathname req) \<or> innerPath = [] \<or> si_isDirectory st then
           (if innerPath \<noteq> [] \<and> (\<not> si_exists st \<or> \<not> si_isDirectory st) then reply 404 ''Not Found'' v
            else if headOnly then (Inr (respond_with 200 [html_type] []), v)
            else let children = map (\<lambda>name. let child = childInner innerPath name
                                     in (name, child, si_isDirectory (statInner dofs env v child)))
                       (listChildren dofs v innerPath)
                 in (Inr (respond_with 200 [html_type] (renderCollectionHtml (pathBase bases) innerPath children)), v))
         else if \<not> si_exists st then reply 404 ''Not Found'' v
         else serve_file dofs env date_parse req innerPath headOnly st v)"

subsection \<open>\<open>DavVolumeWorker.ts\<close>\<close>

definition allow_headers :: "(string \<times> string) list" where
  "allow_headers = [(''Allow'', join '', '' supportMethods), (''DAV'', ''1, 2'')]"

definition options_response :: response where
  "options_response = respond_with 200 (allow_headers @ [(''MS-Author-Via'', ''DAV''), (''Content-Length'', ''0'')]) []"

definition method_not_allowed :: response where
  "method_not_allowed = respond_with 405 allow_headers ''Method Not Allowed''"

definition run_method :: "'fs platform \<Rightarrow> request \<Rightarrow> string \<Rightarrow> dav_bases \<Rightarrow> 'fs volume \<Rightarrow> 'fs handled" where
  "run_method pf req innerPath bases v =
     (let m = r_method req; dofs = pf_dofs pf; env = pf_sql pf
      in if m = ''OPTIONS'' then (Inr options_response, v)
         else if m = ''HEAD'' then handleGet dofs env (pf_date pf) req innerPath bases True v
         else if m = ''GET'' then handleGet dofs env (pf_date pf) req innerPath bases False v
         else if m = ''PUT'' then handlePut dofs env (pf_date pf) (pf_maxFileBytes pf) req innerPath v
         else if m = ''DELETE'' then handleDelete dofs env req innerPath v
         else if m = ''MKCOL'' then handleMkcol dofs env req innerPath v
         else if m = ''PROPFIND'' then handlePropfind dofs env (pf_xml pf) req innerPath bases v
         else if m = ''PROPPATCH'' then handleProppatch dofs env (pf_xml pf) req innerPath bases v
         else if m = ''COPY'' then handleCopy dofs env (pf_url pf) req innerPath bases v
         else if m = ''MOVE'' then handleMove dofs env (pf_url pf) req innerPath bases v
         else if m = ''LOCK'' then handleLock dofs env (pf_uuid pf) req innerPath bases v
         else if m = ''UNLOCK'' then handleUnlock dofs env req innerPath v
         else (Inr method_not_allowed, v))"

definition dispatch :: "'fs platform \<Rightarrow> request \<Rightarrow> 'fs volume \<Rightarrow> 'fs handled" where
  "dispatch pf req v =
     (let pathbase = (case r_header req ''X-Dav-Base'' of Some b \<Rightarrow> b | None \<Rightarrow> []);
          bases = resolveDavBases pathbase (r_header req ''X-Dav-Href-Prefix-Mode'')
      in case resolveInnerPath (r_header req ''X-Dav-Path'') (r_pathname req) pathbase of
           None \<Rightarrow> reply 400 ''Bad Request'' v
         | Some innerPath \<Rightarrow>
             if \<not> isValidInnerPath innerPath then reply 400 ''Bad Request'' v
             else run_method pf req innerPath bases v)"

definition server_error :: response where
  "server_error = respond_with 500 (allow_headers @ [(''Content-Type'', ''text/plain; charset=utf-8'')])
     ''Internal Server Error''"

definition fetch :: "'fs platform \<Rightarrow> request \<Rightarrow> 'fs volume \<Rightarrow> response \<times> 'fs volume" where
  "fetch pf req v =
     (case dispatch pf req v of (Inl _, v') \<Rightarrow> (server_error, v') | (Inr r, v') \<Rightarrow> (r, v'))"

text \<open>\<open>deleteVolume\<close>: the statements after the first that throws are skipped.\<close>

definition deleteVolume :: "'fs dofs \<Rightarrow> sql_env \<Rightarrow> 'fs volume \<Rightarrow> 'fs volume" where
  "deleteVolume dofs env v =
     on_store (run_all (map (\<lambda>t st.
         if t = Replica_state \<and> st_replica st = None then (st, Some no_such_table)
         else exec env (Delete_all t) (delete_where t (\<lambda>_. True)) st) [Nodes, Props, Locks, Replica_state]))
       (fst (on_fs (\<lambda>fs. fs_rmdir dofs fs ''/'' True) v))"

end
