(* ===== verification/Memory_Fs.thy ===== *)
theory Memory_Fs
  imports Repository
begin

section \<open>A filesystem in memory\<close>

text \<open>
  A concrete \<open>dofs\<close> for the examples: the entries of a tree with their absolute paths, \<open>None\<close>
  for a directory and the bytes for a file, up to a quota. \<open>listDir\<close> returns names relative
  to the directory, as \<open>test/helpers/dav-fakes.ts\<close> does, and a call that fails changes nothing.
  The development's properties do not depend on it: it shows that their hypotheses can hold.
\<close>

type_synonym mem_fs = "(string \<times> string option) list"

definition mem_error :: "string \<Rightarrow> fs_error" where
  "mem_error c = \<lparr>fe_message = c, fe_code = Some c\<rparr>"

definition mem_find :: "mem_fs \<Rightarrow> string \<Rightarrow> string option option" where
  "mem_find fs p = (if p = ''/'' then Some None else map_of fs p)"

definition mem_prefix :: "string \<Rightarrow> string" where
  "mem_prefix p = (if p = ''/'' then p else p @ ''/'')"

definition mem_below :: "mem_fs \<Rightarrow> string \<Rightarrow> bool \<Rightarrow> string list" where
  "mem_below fs p rec =
     filter (\<lambda>n. rec \<or> slash \<notin> set n)
       (map (\<lambda>e. drop (length (mem_prefix p)) (fst e)) (filter (\<lambda>e. starts_with (mem_prefix p) (fst e)) fs))"

definition mem_listDir :: "mem_fs \<Rightarrow> string \<Rightarrow> bool \<Rightarrow> fs_error + string list" where
  "mem_listDir fs p rec =
     (case mem_find fs p of Some None \<Rightarrow> Inr (mem_below fs p rec) | Some (Some _) \<Rightarrow> Inl (mem_error ''ENOTDIR'')
      | None \<Rightarrow> Inl (mem_error ''ENOENT''))"

definition mem_parent :: "string \<Rightarrow> string" where
  "mem_parent p = (let q = getParentPath (tl p) in fsPathOf q)"

definition mem_within :: "string \<Rightarrow> string \<Rightarrow> bool" where
  "mem_within p q \<longleftrightarrow> q = p \<or> starts_with (mem_prefix p) q"

definition mem_quota :: nat where "mem_quota = 16"

definition mem_used :: "mem_fs \<Rightarrow> nat" where
  "mem_used fs = sum_list (map (\<lambda>e. case snd e of None \<Rightarrow> 0 | Some b \<Rightarrow> length b) fs)"

definition mem_write :: "mem_fs \<Rightarrow> string \<Rightarrow> string \<Rightarrow> mem_fs \<times> fs_error option" where
  "mem_write fs p bytes =
     (let rest = filter (\<lambda>e. fst e \<noteq> p) fs
      in if mem_find fs (mem_parent p) \<noteq> Some None \<or> mem_find fs p = Some None then (fs, Some (mem_error ''ENOENT''))
         else if mem_used rest + length bytes > mem_quota then (fs, Some (mem_error ''ENOSPC''))
         else (rest @ [(p, Some bytes)], None))"

definition mem_mkdir :: "mem_fs \<Rightarrow> string \<Rightarrow> bool \<Rightarrow> mem_fs \<times> fs_error option" where
  "mem_mkdir fs p rec =
     (if mem_find fs p \<noteq> None then (fs, Some (mem_error ''EEXIST''))
      else if mem_find fs (mem_parent p) \<noteq> Some None then (fs, Some (mem_error ''ENOENT''))
      else (fs @ [(p, None)], None))"

definition mem_rmdir :: "mem_fs \<Rightarrow> string \<Rightarrow> bool \<Rightarrow> mem_fs \<times> fs_error option" where
  "mem_rmdir fs p rec =
     (if mem_find fs p \<noteq> Some None then (fs, Some (mem_error ''ENOENT''))
      else if \<not> rec \<and> mem_below fs p False \<noteq> [] then (fs, Some (mem_error ''ENOTEMPTY''))
      else (filter (\<lambda>e. \<not> mem_within p (fst e)) fs, None))"

definition mem_unlink :: "mem_fs \<Rightarrow> string \<Rightarrow> mem_fs \<times> fs_error option" where
  "mem_unlink fs p =
     (case mem_find fs p of Some (Some _) \<Rightarrow> (filter (\<lambda>e. fst e \<noteq> p) fs, None)
      | _ \<Rightarrow> (fs, Some (mem_error ''ENOENT'')))"

definition mem_rename :: "mem_fs \<Rightarrow> string \<Rightarrow> string \<Rightarrow> mem_fs \<times> fs_error option" where
  "mem_rename fs p q =
     (if mem_find fs p = None \<or> mem_find fs q \<noteq> None \<or> mem_find fs (mem_parent q) \<noteq> Some None
      then (fs, Some (mem_error ''ENOENT''))
      else (map (\<lambda>e. if mem_within p (fst e) then (q @ drop (length p) (fst e), snd e) else e) fs, None))"

definition mem_bytes :: "mem_fs \<Rightarrow> string \<Rightarrow> fs_error + string" where
  "mem_bytes fs p = (case mem_find fs p of Some (Some b) \<Rightarrow> Inr b | _ \<Rightarrow> Inl (mem_error ''ENOENT''))"

definition mem_dofs :: "mem_fs dofs" where
  "mem_dofs = \<lparr>
     fs_statOf = (\<lambda>fs p. case mem_find fs p of None \<Rightarrow> Inl (mem_error ''ENOENT'')
        | Some None \<Rightarrow> Inr \<lparr>fs_isDirectory = True, fs_size = None, fs_mtime = None\<rparr>
        | Some (Some b) \<Rightarrow> Inr \<lparr>fs_isDirectory = False, fs_size = Some (length b), fs_mtime = Some 1\<rparr>),
     fs_listDir = mem_listDir,
     fs_listDirPage = (\<lambda>fs p offset limit.
        map_sum id (\<lambda>ns. map (\<lambda>n. (n, False)) (take limit (drop offset ns))) (mem_listDir fs p False)),
     fs_countChildren = (\<lambda>fs p. map_sum id length (mem_listDir fs p False)),
     fs_read = (\<lambda>fs p range. map_sum id (\<lambda>b. case range of None \<Rightarrow> b | Some (off, len) \<Rightarrow> take len (drop off b))
        (mem_bytes fs p)),
     fs_readFile = mem_bytes,
     fs_writeFile = mem_write,
     fs_mkdir = mem_mkdir,
     fs_rmdir = mem_rmdir,
     fs_unlink = mem_unlink,
     fs_rename = mem_rename\<rparr>"

text \<open>A call that throws leaves the filesystem as it was.\<close>

definition clean_failures :: "'fs dofs \<Rightarrow> bool" where
  "clean_failures dofs \<longleftrightarrow>
     (\<forall>fs p b fs' e. fs_writeFile dofs fs p b = (fs', Some e) \<longrightarrow> fs' = fs)
     \<and> (\<forall>fs p r fs' e. fs_mkdir dofs fs p r = (fs', Some e) \<longrightarrow> fs' = fs)
     \<and> (\<forall>fs p r fs' e. fs_rmdir dofs fs p r = (fs', Some e) \<longrightarrow> fs' = fs)
     \<and> (\<forall>fs p fs' e. fs_unlink dofs fs p = (fs', Some e) \<longrightarrow> fs' = fs)
     \<and> (\<forall>fs p q fs' e. fs_rename dofs fs p q = (fs', Some e) \<longrightarrow> fs' = fs)"

lemma mem_clean: "clean_failures mem_dofs"
  by (auto simp: clean_failures_def mem_dofs_def mem_write_def mem_mkdir_def mem_rmdir_def
      mem_unlink_def mem_rename_def Let_def split: if_splits option.splits)

lemma on_fs_clean:
  assumes "on_fs f v = (v', Some e)" and "\<forall>fs fs' e. f fs = (fs', Some e) \<longrightarrow> fs' = fs"
  shows "v' = v"
proof (cases "f (vol_fs v)")
  case (Pair fs' e')
  with assms(1) have "v' = v\<lparr>vol_fs := fs'\<rparr>" and "e' = Some e" by (simp_all add: on_fs_def)
  moreover from this Pair assms(2) have "fs' = vol_fs v" by blast
  ultimately show ?thesis by simp
qed

lemma clean_failuresD:
  assumes "clean_failures dofs"
  shows "on_fs (\<lambda>fs. fs_writeFile dofs fs p b) v = (v', Some e) \<Longrightarrow> v' = v"
    and "on_fs (\<lambda>fs. fs_mkdir dofs fs p r) v = (v', Some e) \<Longrightarrow> v' = v"
    and "on_fs (\<lambda>fs. fs_rmdir dofs fs p r) v = (v', Some e) \<Longrightarrow> v' = v"
    and "on_fs (\<lambda>fs. fs_unlink dofs fs p) v = (v', Some e) \<Longrightarrow> v' = v"
    and "on_fs (\<lambda>fs. fs_rename dofs fs p q) v = (v', Some e) \<Longrightarrow> v' = v"
  by (erule on_fs_clean, use assms in \<open>simp add: clean_failures_def\<close>)+

text \<open>The tree \<open>/a/b\<close>, \<open>/ab\<close> beside the metadata of \<open>sample_store\<close>.\<close>

definition sample_volume :: "mem_fs volume" where
  "sample_volume = \<lparr>vol_fs = [(''/a'', None), (''/a/b'', Some ''one''), (''/ab'', Some ''two'')],
     vol_store = sample_store\<rparr>"

text \<open>
  The documented behaviour of \<open>dofs\<close> for a write that succeeds: reading the file yields the
  bytes, and it stats as a file of their length.
\<close>

definition reads_back :: "'fs dofs \<Rightarrow> string \<Rightarrow> bool" where
  "reads_back dofs p \<longleftrightarrow>
     (\<forall>fs b fs'. fs_writeFile dofs fs p b = (fs', None) \<longrightarrow>
        fs_readFile dofs fs' p = Inr b
        \<and> (\<exists>m. fs_statOf dofs fs' p = Inr \<lparr>fs_isDirectory = False, fs_size = Some (length b), fs_mtime = m\<rparr>))"

lemma mem_reads_back: "p \<noteq> ''/'' \<Longrightarrow> reads_back mem_dofs p"
proof -
  assume p: "p \<noteq> ''/''"
  have "map_of (filter (\<lambda>e. fst e \<noteq> p) fs @ [(p, x)]) p = Some x" for fs :: mem_fs and x
    by (induction fs) auto
  with p show ?thesis
    by (auto simp: reads_back_def mem_dofs_def mem_write_def mem_bytes_def mem_find_def Let_def
        split: if_splits)
qed

end
