(* ===== verification/Method_Safety.thy ===== *)
theory Method_Safety
  imports Volume_Worker Memory_Fs
begin

section \<open>What the handlers may change\<close>

text \<open>
  Properties of the request path of the volume worker: which methods leave the volume alone,
  that a refusal leaves it alone, what a successful DELETE or PUT has established. The
  hypothesis \<open>clean_failures\<close> is the documented behaviour of \<open>dofs\<close> that a call which throws
  has changed nothing.
\<close>

lemmas handler_splits = option.splits sum.splits prod.splits if_splits

lemma reply_simps [simp]: "snd (reply status body v) = v" "fst (reply status body v) = Inr (respond status body)"
  by (simp_all add: reply_def)

text \<open>Case analysis along the shape of a handler, without unfolding what its branches compute.\<close>

definition leaves :: "'fs volume \<Rightarrow> 'fs handled \<Rightarrow> bool" where
  "leaves v h \<longleftrightarrow> snd h = v"

lemma leaves_cases:
  "\<lbrakk>x = None \<Longrightarrow> leaves v a; \<And>y. x = Some y \<Longrightarrow> leaves v (f y)\<rbrakk> \<Longrightarrow> leaves v (case x of None \<Rightarrow> a | Some y \<Rightarrow> f y)"
  "\<lbrakk>\<And>y. s = Inl y \<Longrightarrow> leaves v (g y); \<And>z. s = Inr z \<Longrightarrow> leaves v (h z)\<rbrakk> \<Longrightarrow> leaves v (case s of Inl y \<Rightarrow> g y | Inr z \<Rightarrow> h z)"
  "\<lbrakk>b \<Longrightarrow> leaves v c; \<not> b \<Longrightarrow> leaves v d\<rbrakk> \<Longrightarrow> leaves v (if b then c else d)"
  "(\<And>t. t = u \<Longrightarrow> leaves v (k t)) \<Longrightarrow> leaves v (Let u k)"
  "(\<And>m n. p = (m, n) \<Longrightarrow> leaves v (q m n)) \<Longrightarrow> leaves v (case p of (m, n) \<Rightarrow> q m n)"
  "leaves v (r, v)" "leaves v (reply status body v)"
  by (auto simp: leaves_def split: option.split sum.split prod.split)

lemma handleGet_reads: "leaves v (handleGet dofs env date_parse req p bases headOnly v)"
  unfolding handleGet_def serve_file_def by (intro leaves_cases)

lemma handlePropfind_reads: "leaves v (handlePropfind dofs env lib req p bases v)"
  unfolding handlePropfind_def by (intro leaves_cases)

lemma fetch_reads_keep:
  assumes "\<not> requiresWrite (r_method req)"
  shows "snd (fetch pf req v) = v"
proof -
  from assms consider "r_method req = ''GET''" | "r_method req = ''HEAD''" | "r_method req = ''OPTIONS''"
    | "r_method req = ''PROPFIND''"
    by (auto simp: requiresWrite_def)
  then have "leaves v (run_method pf req p bases v)" for p bases
    by cases (simp_all add: run_method_def Let_def handleGet_reads handlePropfind_reads leaves_cases(6))
  then have "leaves v (dispatch pf req v)"
    unfolding dispatch_def by (intro leaves_cases)
  then show ?thesis by (auto simp: leaves_def fetch_def split: sum.split prod.split)
qed

text \<open>
  Reading changes nothing: a request whose method does not require write access according
  to \<open>requiresWrite\<close> (the test by which the front door admits read-only credentials) leaves
  the filesystem and the metadata of the volume exactly as they were.
\<close>

theorem read_methods_change_nothing:
  assumes "\<not> requiresWrite (r_method req)"
  shows "snd (fetch pf req v) = v"
  using assms by (rule fetch_reads_keep)

definition sample_xml :: xml_lib where
  "sample_xml = \<lparr>parse_dom = (\<lambda>_. None), serialize = (\<lambda>_. [])\<rparr>"

definition sample_url :: url_parser where
  "sample_url ref base = Some (''https://host'', ref)"

definition sample_platform :: "mem_fs platform" where
  "sample_platform = \<lparr>pf_dofs = mem_dofs, pf_sql = calm_env, pf_xml = sample_xml, pf_url = sample_url,
     pf_date = (\<lambda>_. None), pf_uuid = ''u1'', pf_maxFileBytes = 8\<rparr>"

definition dav_request :: "string \<Rightarrow> string \<Rightarrow> (string \<times> string) list \<Rightarrow> string list option \<Rightarrow> request" where
  "dav_request m p hs body = \<lparr>r_method = m, r_url = ''https://host/o/v/'' @ p, r_pathname = ''/o/v/'' @ p,
     r_header = map_of ((''X-Dav-Base'', ''/o/v'') # hs), r_body = body\<rparr>"

theorem read_methods_change_nothing_witness:
  "snd (fetch sample_platform (dav_request ''PROPFIND'' ''a'' [] None) sample_volume) = sample_volume"
  by (rule read_methods_change_nothing) (simp add: dav_request_def requiresWrite_def)

subsection \<open>Refusals\<close>

text \<open>What a handler leaves when its answer is not a success.\<close>

definition success :: "string + response \<Rightarrow> bool" where
  "success r \<longleftrightarrow> (case r of Inl _ \<Rightarrow> False | Inr res \<Rightarrow> 200 \<le> rs_status res \<and> rs_status res < 300)"

definition refuses_cleanly :: "'fs volume \<Rightarrow> 'fs handled \<Rightarrow> bool" where
  "refuses_cleanly v h \<longleftrightarrow> success (fst h) \<or> snd h = v"

lemma refuses_cases:
  "\<lbrakk>x = None \<Longrightarrow> refuses_cleanly v a; \<And>y. x = Some y \<Longrightarrow> refuses_cleanly v (f y)\<rbrakk> \<Longrightarrow>
   refuses_cleanly v (case x of None \<Rightarrow> a | Some y \<Rightarrow> f y)"
  "\<lbrakk>\<And>y. s = Inl y \<Longrightarrow> refuses_cleanly v (g y); \<And>z. s = Inr z \<Longrightarrow> refuses_cleanly v (h z)\<rbrakk> \<Longrightarrow>
   refuses_cleanly v (case s of Inl y \<Rightarrow> g y | Inr z \<Rightarrow> h z)"
  "\<lbrakk>b \<Longrightarrow> refuses_cleanly v c; \<not> b \<Longrightarrow> refuses_cleanly v d\<rbrakk> \<Longrightarrow> refuses_cleanly v (if b then c else d)"
  "(\<And>t. t = u \<Longrightarrow> refuses_cleanly v (k t)) \<Longrightarrow> refuses_cleanly v (Let u k)"
  "(\<And>m n. p = (m, n) \<Longrightarrow> refuses_cleanly v (q m n)) \<Longrightarrow> refuses_cleanly v (case p of (m, n) \<Rightarrow> q m n)"
  "\<lbrakk>e \<Longrightarrow> refuses_cleanly v c; \<not> e \<Longrightarrow> refuses_cleanly v d\<rbrakk> \<Longrightarrow>
   refuses_cleanly v (case e of True \<Rightarrow> c | False \<Rightarrow> d)"
  "refuses_cleanly v (r, v)" "refuses_cleanly v (reply status body v)"
  by (auto simp: refuses_cleanly_def split: option.split sum.split prod.split bool.split)

lemma refuses_reply_iff:
  "refuses_cleanly v (reply status body v') \<longleftrightarrow> (200 \<le> status \<and> status < 300) \<or> v' = v"
  by (auto simp: refuses_cleanly_def success_def)

lemma refuses_unless_locked:
  "refuses_cleanly v k \<Longrightarrow> refuses_cleanly v (unless_locked check v k)"
  by (auto simp: unless_locked_def intro: refuses_cases split: sum.split option.split)

text \<open>
  What a request that is not answered with success may leave: the volume as it was, or, when the
  one filesystem call it made on its own resource threw, what that call left.
\<close>

definition thrown :: "'fs dofs \<Rightarrow> string \<Rightarrow> 'fs \<Rightarrow> 'fs \<Rightarrow> bool" where
  "thrown dofs q fs fs' \<longleftrightarrow>
     (\<exists>e. (\<exists>b. fs_writeFile dofs fs q b = (fs', Some e)) \<or> fs_mkdir dofs fs q False = (fs', Some e)
        \<or> fs_rmdir dofs fs q True = (fs', Some e) \<or> fs_unlink dofs fs q = (fs', Some e))"

lemma thrownI:
  "fs_writeFile dofs fs q b = (fs', Some e) \<Longrightarrow> thrown dofs q fs fs'"
  "fs_mkdir dofs fs q False = (fs', Some e) \<Longrightarrow> thrown dofs q fs fs'"
  "fs_rmdir dofs fs q True = (fs', Some e) \<Longrightarrow> thrown dofs q fs fs'"
  "fs_unlink dofs fs q = (fs', Some e) \<Longrightarrow> thrown dofs q fs fs'"
  by (auto simp: thrown_def)

definition refuses_within :: "'fs dofs \<Rightarrow> string \<Rightarrow> 'fs volume \<Rightarrow> 'fs handled \<Rightarrow> bool" where
  "refuses_within dofs q v h \<longleftrightarrow> refuses_cleanly v h
     \<or> (\<exists>res. fst h = Inr res \<and> rs_status res \<in> {404, 409, 500, 507} \<and> vol_store (snd h) = vol_store v
          \<and> thrown dofs q (vol_fs v) (vol_fs (snd h)))"

lemma within_clean: "refuses_cleanly v h \<Longrightarrow> refuses_within dofs q v h"
  by (simp add: refuses_within_def)

lemma within_cases:
  "\<lbrakk>x = None \<Longrightarrow> refuses_within dofs q v a; \<And>y. x = Some y \<Longrightarrow> refuses_within dofs q v (f y)\<rbrakk> \<Longrightarrow>
   refuses_within dofs q v (case x of None \<Rightarrow> a | Some y \<Rightarrow> f y)"
  "\<lbrakk>\<And>y. s = Inl y \<Longrightarrow> refuses_within dofs q v (g y); \<And>z. s = Inr z \<Longrightarrow> refuses_within dofs q v (h z)\<rbrakk> \<Longrightarrow>
   refuses_within dofs q v (case s of Inl y \<Rightarrow> g y | Inr z \<Rightarrow> h z)"
  "\<lbrakk>b \<Longrightarrow> refuses_within dofs q v c; \<not> b \<Longrightarrow> refuses_within dofs q v d\<rbrakk> \<Longrightarrow> refuses_within dofs q v (if b then c else d)"
  "(\<And>t. t = u \<Longrightarrow> refuses_within dofs q v (k t)) \<Longrightarrow> refuses_within dofs q v (Let u k)"
  "(\<And>m n. p = (m, n) \<Longrightarrow> refuses_within dofs q v (r m n)) \<Longrightarrow> refuses_within dofs q v (case p of (m, n) \<Rightarrow> r m n)"
  "\<lbrakk>e \<Longrightarrow> refuses_within dofs q v c; \<not> e \<Longrightarrow> refuses_within dofs q v d\<rbrakk> \<Longrightarrow>
   refuses_within dofs q v (case e of True \<Rightarrow> c | False \<Rightarrow> d)"
  "refuses_within dofs q v (z, v)" "refuses_within dofs q v (reply status body v)"
  "refuses_within dofs q v k' \<Longrightarrow> refuses_within dofs q v (unless_locked check v k')"
  by (auto simp: refuses_within_def refuses_cleanly_def unless_locked_def split: option.split sum.split prod.split bool.split)

lemma within_success: "200 \<le> status \<Longrightarrow> status < 300 \<Longrightarrow> refuses_within dofs q v (reply status body v')"
  by (simp add: within_clean refuses_reply_iff)

lemma within_thrown:
  assumes "on_fs f v = (v', Some e)" and "status \<in> {404, 409, 500, 507}"
    and "\<And>fs'. f (vol_fs v) = (fs', Some e) \<Longrightarrow> thrown dofs q (vol_fs v) fs'"
  shows "refuses_within dofs q v (reply status body v')"
  using assms by (auto simp: refuses_within_def on_fs_def reply_def respond_def respond_with_def split: prod.splits)

lemma put_refuses: "refuses_within dofs (fsPathOf p) v (handlePut dofs env date_parse cap req p v)"
  unfolding handlePut_def
  by (intro within_cases) (auto intro!: within_success elim!: within_thrown intro: thrownI)

lemma delete_refuses: "refuses_within dofs (fsPathOf p) v (handleDelete dofs env req p v)"
  unfolding handleDelete_def
  by (intro within_cases) (auto intro!: within_success elim!: within_thrown intro: thrownI)

lemma mkcol_refuses: "refuses_within dofs (fsPathOf p) v (handleMkcol dofs env req p v)"
  unfolding handleMkcol_def
  by (intro within_cases) (auto intro!: within_success elim!: within_thrown intro: thrownI)

lemma refuses_207: "refuses_cleanly v (Inr (respond_with 207 hs body), v')"
  by (simp add: refuses_cleanly_def success_def)

lemma proppatch_refuses: "refuses_cleanly v (handleProppatch dofs env lib req p bases v)"
  unfolding handleProppatch_def
  by (intro refuses_unless_locked refuses_cases refuses_207)

lemma exec_error: "exec env op f (vol_store v) = (s, Some e) \<Longrightarrow> v\<lparr>vol_store := s\<rparr> = v"
  by (auto simp: exec_def split: option.splits)

lemma unlock_refuses: "refuses_cleanly v (handleUnlock dofs env req p v)"
  unfolding handleUnlock_def
  by (intro refuses_cases) (auto simp: refuses_reply_iff dest: exec_error)

text \<open>
  C14. A refused write writes nothing of its own. When PUT, DELETE, MKCOL, PROPPATCH or UNLOCK is
  answered with anything but success, or throws, no row of the metadata has changed, and the files
  are as before, with one exception: when the answer is a 404, 409, 500 or 507 to a PUT, DELETE or
  MKCOL whose single call of the filesystem on the resource itself threw, they are what that call
  left. So a request refused for a lock, a precondition or its body changes nothing at all.
\<close>

theorem refused_write_changes_nothing:
  assumes "r_method req \<in> {''PUT'', ''DELETE'', ''MKCOL'', ''PROPPATCH'', ''UNLOCK''}"
    and "fetch pf req v = (res, v')" and "\<not> success (Inr res)"
  shows "vol_store v' = vol_store v
    \<and> (vol_fs v' = vol_fs v
       \<or> r_method req \<in> {''PUT'', ''DELETE'', ''MKCOL''} \<and> rs_status res \<in> {404, 409, 500, 507}
         \<and> (\<exists>p. resolveInnerPath (r_header req ''X-Dav-Path'') (r_pathname req)
                  (case r_header req ''X-Dav-Base'' of Some b \<Rightarrow> b | None \<Rightarrow> []) = Some p
              \<and> thrown (pf_dofs pf) (fsPathOf p) (vol_fs v) (vol_fs v')))"
proof -
  let ?within = "\<lambda>p h. refuses_cleanly v h
    \<or> r_method req \<in> {''PUT'', ''DELETE'', ''MKCOL''} \<and> refuses_within (pf_dofs pf) (fsPathOf p) v h"
  have run: "?within p (run_method pf req p bases v)" for p bases
    using assms(1) by (auto simp: run_method_def Let_def put_refuses delete_refuses mkcol_refuses proppatch_refuses unlock_refuses)
  have "refuses_cleanly v (dispatch pf req v)
      \<or> (\<exists>p. resolveInnerPath (r_header req ''X-Dav-Path'') (r_pathname req)
            (case r_header req ''X-Dav-Base'' of Some b \<Rightarrow> b | None \<Rightarrow> []) = Some p \<and> ?within p (dispatch pf req v))"
    using run by (auto simp: dispatch_def Let_def intro: refuses_cases split: option.split)
  then show ?thesis
    using assms(2,3)
    by (auto simp: fetch_def refuses_within_def refuses_cleanly_def success_def split: sum.splits prod.splits)
qed

theorem refused_write_changes_nothing_witness:
  "snd (fetch sample_platform (dav_request ''DELETE'' ''a'' [] None) sample_volume) = sample_volume"
proof -
  let ?req = "dav_request ''DELETE'' ''a'' [] None"
  obtain res v' where run: "fetch sample_platform ?req sample_volume = (res, v')" by (metis prod.collapse)
  have "\<not> success (Inr (fst (fetch sample_platform ?req sample_volume)))" by code_simp
  moreover have "r_method ?req \<in> {''PUT'', ''DELETE'', ''MKCOL'', ''PROPPATCH'', ''UNLOCK''}" by (simp add: dav_request_def)
  ultimately have "vol_store v' = vol_store sample_volume \<and> (vol_fs v' = vol_fs sample_volume
      \<or> (\<exists>q. thrown (pf_dofs sample_platform) q (vol_fs sample_volume) (vol_fs v')))"
    using refused_write_changes_nothing [OF _ run] run by auto
  moreover have "fs' = fs" if "thrown mem_dofs q fs fs'" for q fs fs'
    using that unfolding thrown_def
    by (elim exE disjE) (metis mem_clean clean_failures_def)+
  ultimately have "v' = sample_volume" by (auto simp: sample_platform_def)
  then show ?thesis by (simp add: run)
qed

subsection \<open>Locks on descendants\<close>

lemma self_ancestor: "p \<in> set (ancestorsOf p)"
  unfolding ancestorsOf_def by (subst ancestors_from.simps) simp

text \<open>The client holds every live lock on \<open>p\<close> itself.\<close>

definition holds_locks_at :: "int \<Rightarrow> request \<Rightarrow> string \<Rightarrow> store \<Rightarrow> bool" where
  "holds_locks_at now req p st \<longleftrightarrow>
     (\<forall>lock\<in>set (st_locks st). now < k_expiresAt lock \<and> k_path lock = p \<and> k_token lock \<noteq> [] \<longrightarrow>
        normalizeLockToken (k_token lock) \<in> request_tokens req)"

lemma no_active_tokens:
  assumes "activeTokensForPath env p (getRequestLockTokens req) st = Inr []"
  shows "holds_locks_at (se_now env) req p st"
proof -
  from assms obtain rows where rows: "locksAffecting env p st = Inr rows"
    by (auto simp: activeTokensForPath_def map_sum_def split: sum.splits)
  then have "rows = filter (\<lambda>r. k_path r \<in> set (ancestorsOf p) \<and> k_expiresAt r > se_now env) (st_locks st)"
    by (auto simp: locksAffecting_def split: option.splits)
  with assms rows self_ancestor [of p] show ?thesis
    by (fastforce simp: activeTokensForPath_def holds_locks_at_def request_tokens_def filter_empty_conv)
qed

lemma descendants_unlocked:
  assumes "descendant_locked env (getRequestLockTokens req) parent st names = Inr False"
  shows "\<forall>name\<in>set names. holds_locks_at (se_now env) req (childInner parent name) st"
  using assms
proof (induction names)
  case (Cons name names)
  then have "activeTokensForPath env (childInner parent name) (getRequestLockTokens req) st = Inr []"
    by (auto split: sum.splits if_splits)
  moreover from this Cons have "\<forall>n\<in>set names. holds_locks_at (se_now env) req (childInner parent n) st"
    by (auto split: sum.splits if_splits)
  ultimately show ?case using no_active_tokens by simp
qed simp

text \<open>What the lock check of a recursive DELETE or MOVE has to have established.\<close>

definition subtree_cleared :: "'fs dofs \<Rightarrow> sql_env \<Rightarrow> request \<Rightarrow> string \<Rightarrow> 'fs volume \<Rightarrow> bool" where
  "subtree_cleared dofs env req p v \<longleftrightarrow>
     assertLock env req p False (vol_store v) = Inr None
     \<and> (si_isDirectory (statInner dofs env v p) \<longrightarrow>
          (\<exists>names. requireRecursive dofs v p = Inr names
             \<and> (\<forall>name\<in>set names. holds_locks_at (se_now env) req (childInner p name) (vol_store v))))"

lemma unless_locked_success:
  "success (fst (unless_locked check v k)) \<Longrightarrow> check = Inr None \<and> success (fst k)
     \<or> (\<exists>r. check = Inr (Some r) \<and> success (Inr r))"
  by (auto simp: unless_locked_def success_def split: sum.splits option.splits)

lemma assertLock_never_success: "assertLock env req p ign st = Inr (Some r) \<Longrightarrow> \<not> success (Inr r)"
  by (auto simp: assertLock_def success_def split: if_splits sum.splits)

lemma success_reply: "success (Inr (respond status body)) \<longleftrightarrow> 200 \<le> status \<and> status < 300"
  by (simp add: success_def)

lemma delete_cleared:
  assumes "success (fst (handleDelete dofs env req p v))"
  shows "p \<noteq> [] \<and> si_exists (statInner dofs env v p) \<and> subtree_cleared dofs env req p v"
proof -
  let ?st = "statInner dofs env v p"
  from assms have p: "p \<noteq> []" "si_exists ?st"
    by (auto simp: handleDelete_def Let_def success_reply split: if_splits)
  with assms obtain k where k: "success (fst (unless_locked (assertLock env req p False (vol_store v)) v k))"
    and k_def: "k = (if si_isDirectory ?st then
              (case requireRecursive dofs v p of
                 Inl _ \<Rightarrow> reply 500 ''Internal Server Error'' v
               | Inr descendants \<Rightarrow>
                   (case descendant_locked env (getRequestLockTokens req) p (vol_store v) descendants of
                      Inl e \<Rightarrow> (Inl e, v)
                    | Inr True \<Rightarrow> reply 423 ''Locked'' v
                    | Inr False \<Rightarrow>
                        (case on_fs (\<lambda>fs. fs_rmdir dofs fs (fsPathOf p) True) v of
                           (v1, Some _) \<Rightarrow> reply 500 ''Internal Server Error'' v1
                         | (v1, None) \<Rightarrow> reply 204 [] (deleteCascade env p v1))))
            else
              (case on_fs (\<lambda>fs. fs_unlink dofs fs (fsPathOf p)) v of
                 (v1, Some _) \<Rightarrow> reply 404 ''Not Found'' v1
               | (v1, None) \<Rightarrow> reply 204 [] (deleteCascade env p v1)))"
    by (simp add: handleDelete_def Let_def)
  from unless_locked_success [OF k] assertLock_never_success
  have lock: "assertLock env req p False (vol_store v) = Inr None" and ok: "success (fst k)" by blast+
  have "\<exists>names. requireRecursive dofs v p = Inr names
      \<and> (\<forall>name\<in>set names. holds_locks_at (se_now env) req (childInner p name) (vol_store v))"
    if dir: "si_isDirectory ?st"
  proof (cases "requireRecursive dofs v p")
    case (Inl e)
    with ok dir show ?thesis by (simp add: k_def success_reply)
  next
    case (Inr names)
    have "descendant_locked env (getRequestLockTokens req) p (vol_store v) names = Inr False"
    proof (cases "descendant_locked env (getRequestLockTokens req) p (vol_store v) names")
      case (Inl e)
      with ok dir Inr show ?thesis by (simp add: k_def success_def)
    next
      case (Inr b)
      with ok dir \<open>requireRecursive dofs v p = Inr names\<close> show ?thesis
        by (cases b) (simp_all add: k_def success_reply)
    qed
    with Inr descendants_unlocked show ?thesis by blast
  qed
  with p lock show ?thesis by (simp add: subtree_cleared_def)
qed

text \<open>
  A successful DELETE has cleared every lock in its way: the client presented the token of
  each live lock covering the resource, and, for a collection, the whole subtree could be
  listed and the client holds each live lock on each of its members. If the listing fails,
  the deletion is refused.
\<close>

theorem delete_clears_locks:
  assumes "success (fst (handleDelete dofs env req p v))"
  shows "subtree_cleared dofs env req p v"
  using delete_cleared [OF assms] by simp

theorem delete_clears_locks_witness:
  "subtree_cleared mem_dofs calm_env (dav_request ''DELETE'' ''a'' [(''Lock-Token'', ''<urn:uuid:t1>'')] None) ''a'' sample_volume"
  by (rule delete_clears_locks) code_simp

lemma descendants_free_clears:
  assumes "assertLock env req p False (vol_store v) = Inr None"
    and "(if si_isDirectory (statInner dofs env v p) then descendants_free dofs env req p v else Inr None) = Inr None"
  shows "subtree_cleared dofs env req p v"
  unfolding subtree_cleared_def
proof (intro conjI impI)
  show "assertLock env req p False (vol_store v) = Inr None" by (rule assms(1))
  assume "si_isDirectory (statInner dofs env v p)"
  with assms(2) obtain names where "requireRecursive dofs v p = Inr names"
    and "descendant_locked env (getRequestLockTokens req) p (vol_store v) names = Inr False"
    by (auto simp: descendants_free_def map_sum_def split: sum.splits if_splits)
  with descendants_unlocked show "\<exists>names. requireRecursive dofs v p = Inr names
      \<and> (\<forall>name\<in>set names. holds_locks_at (se_now env) req (childInner p name) (vol_store v))" by blast
qed

lemma descendants_free_never_success:
  "descendants_free dofs env req p v = Inr (Some r) \<Longrightarrow> \<not> success (Inr r)"
  by (auto simp: descendants_free_def map_sum_def success_def split: sum.splits if_splits)

lemma removal_cleared:
  assumes "success (fst (after_removal dofs env req dst ex v k))" and "ex"
  shows "success (fst (handleDelete dofs env (overwrite_request req) dst v))"
  using assms by (auto simp: after_removal_def deleteDestination_def success_def split: prod.splits sum.splits if_splits)

text \<open>
  C13. A successful MOVE has cleared every lock in its way: the destination is a valid path of
  this volume outside the source, the source's subtree and the destination itself are
  cleared, and a destination that existed was one the client allowed to be replaced and
  whose subtree a DELETE with the client's tokens had cleared first.
\<close>

theorem move_clears_locks:
  assumes "success (fst (handleMove dofs env parse_url req p bases v))"
  shows "\<exists>dst. resolveDestination parse_url req (pathBase bases) p = Some dst
    \<and> isValidInnerPath dst \<and> \<not> isSameOrDescendantPath p dst
    \<and> subtree_cleared dofs env req p v
    \<and> assertLock env req dst False (vol_store v) = Inr None
    \<and> (si_exists (statInner dofs env v dst) \<longrightarrow>
         isOverwriteAllowed req \<and> subtree_cleared dofs env (overwrite_request req) dst v)"
proof (cases "resolveDestination parse_url req (pathBase bases) p")
  case None
  with assms show ?thesis by (simp add: handleMove_def success_reply)
next
  case (Some dst)
  then have dst: "isValidInnerPath dst" "\<not> isSameOrDescendantPath p dst"
    by (auto simp: resolveDestination_def split: option.splits if_splits)
  let ?ex = "si_exists (statInner dofs env v dst)"
  let ?src = "statInner dofs env v p"
  define k3 where "k3 = (if getParentPath dst \<noteq> [] \<and> \<not> si_isDirectory (statInner dofs env v (getParentPath dst))
      then reply 409 ''Conflict'' v
      else if \<not> isOverwriteAllowed req \<and> ?ex then reply 412 ''Precondition Failed'' v
      else after_removal dofs env req dst ?ex v (move_resource dofs env bases p dst ?ex (si_isDirectory ?src)))"
  define refused where "refused = (case r_header req ''Depth'' of None \<Rightarrow> False | Some d \<Rightarrow> to_lower (trim d) \<noteq> ''infinity'')"
  define k2 where "k2 = (if \<not> si_exists ?src then reply 404 ''Not Found'' v
      else if refused then reply 400 ''Bad Request'' v
      else unless_locked (if si_isDirectory ?src then descendants_free dofs env req p v else Inr None) v k3)"
  have "success (fst (unless_locked (assertLock env req p False (vol_store v)) v
      (unless_locked (assertLock env req dst False (vol_store v)) v k2)))"
    using assms by (simp only: handleMove_def Some option.case Let_def k2_def k3_def refused_def)
  from unless_locked_success [OF this] assertLock_never_success
  have l1: "assertLock env req p False (vol_store v) = Inr None"
    and s1: "success (fst (unless_locked (assertLock env req dst False (vol_store v)) v k2))" by blast+
  from unless_locked_success [OF s1] assertLock_never_success
  have l2: "assertLock env req dst False (vol_store v) = Inr None" and s2: "success (fst k2)" by blast+
  from s2 have "success (fst (unless_locked (if si_isDirectory ?src then descendants_free dofs env req p v else Inr None) v k3))"
    by (auto simp: k2_def success_reply split: if_splits)
  from unless_locked_success [OF this] descendants_free_never_success [of dofs env req p v]
  have free: "(if si_isDirectory ?src then descendants_free dofs env req p v else Inr None) = Inr None"
    and s3: "success (fst k3)" by (auto split: if_splits)
  from s3 have "isOverwriteAllowed req \<and> subtree_cleared dofs env (overwrite_request req) dst v" if ?ex
    using that by (auto simp: k3_def success_reply dest!: removal_cleared delete_cleared split: if_splits)
  with Some dst l1 l2 descendants_free_clears [OF l1 free] show ?thesis by blast
qed

theorem move_clears_locks_witness:
  "\<exists>dst. resolveDestination sample_url (dav_request ''MOVE'' ''ab'' [(''Destination'', ''/o/v/a/c'')] None) ''/o/v'' ''ab'' = Some dst
     \<and> \<not> isSameOrDescendantPath ''ab'' dst"
proof -
  have "success (fst (handleMove mem_dofs calm_env sample_url
      (dav_request ''MOVE'' ''ab'' [(''Destination'', ''/o/v/a/c'')] None) ''ab'' \<lparr>pathBase = ''/o/v'', hrefBase = ''/o/v''\<rparr> sample_volume))"
    by code_simp
  from move_clears_locks [OF this] show ?thesis by auto
qed

subsection \<open>A stored file reads back\<close>

lemma mint_etag_not_Nil: "mint_etag n t \<noteq> []"
  by (simp add: mint_etag_def)

lemma upsert_lookup:
  "lookup_row n_path p (upsert node_key merge_node new rows) =
     (if n_path new = p
      then (case lookup_row n_path p rows of None \<Rightarrow> Some new | Some r \<Rightarrow> Some (merge_node r new))
      else lookup_row n_path p rows)"
  using nodes.lookup_upsert_same [of new rows] nodes.lookup_upsert_other [of p new rows]
  by (auto simp: node_key_def)

lemma readMeta_after_upsert:
  assumes "se_fails env (Upsert_node p) = None" and "se_fails env (Select_node p) = None"
  shows "m_etag (readMeta env (upsertFileNode env p ct e cr v) p) = Some e"
    and "m_contentType (readMeta env (upsertFileNode env p ct e cr v) p) = Some ct"
    and "m_mtime (readMeta env (upsertFileNode env p ct e cr v) p) = Some (se_now env)"
  using assms
  by (simp_all add: readMeta_def upsertFileNode_def on_store_def upsertNode_def exec_def Let_def
      upsert_lookup merge_node_def split: option.split)

lemma no_conditions:
  "r_header req = (\<lambda>_. None) \<Longrightarrow> check_conditions date_parse req state forRead = None"
  by (simp add: check_conditions_def check_if_match_def check_unmodified_def check_none_match_def
      check_if_etags_def check_modified_def getIfHeaderEtags_def parseIfHeader_def)

lemma put_success:
  assumes "success (fst (handlePut dofs env date_parse cap req p v))"
  obtains bytes v1 ct cr where "readCappedBody req cap = Some bytes" and "p \<noteq> []"
    and "on_fs (\<lambda>fs. fs_writeFile dofs fs (fsPathOf p) bytes) v = (v1, None)"
    and "snd (handlePut dofs env date_parse cap req p v) =
           upsertFileNode env p ct (mint_etag (length bytes) (se_now env)) (Some cr) v1"
    and "\<not> ends_with ''/'' (r_pathname req)"
proof -
  have outer: "\<not> (p = [] \<or> ends_with ''/'' (r_pathname req))"
    using assms by (auto simp: handlePut_def success_reply split: if_splits)
  define k where "k = (let parent = getParentPath p; existing = statInner dofs env v p; previous = readMeta env v p
         in if parent \<noteq> [] \<and> \<not> si_isDirectory (statInner dofs env v parent) then reply 409 ''Conflict'' v
            else if si_exists existing \<and> si_isDirectory existing then reply 405 ''Method Not Allowed'' v
            else (case check_conditions date_parse req \<lparr>cs_etag = m_etag previous, cs_mtime = m_mtime previous\<rparr> False of
                    Some r \<Rightarrow> (Inr r, v)
                  | None \<Rightarrow>
                      (case readCappedBody req cap of
                         None \<Rightarrow> reply 413 ''Payload Too Large'' v
                       | Some bytes \<Rightarrow>
                           (case on_fs (\<lambda>fs. fs_writeFile dofs fs (fsPathOf p) bytes) v of
                              (v1, Some _) \<Rightarrow> reply 507 ''Insufficient Storage'' v1
                            | (v1, None) \<Rightarrow>
                                let contentType = (case r_header req ''Content-Type'' of Some c \<Rightarrow> c
                                                   | None \<Rightarrow> ''application/octet-stream'');
                                    crtime = (case m_crtime previous of Some c \<Rightarrow> c | None \<Rightarrow> se_now env);
                                    v2 = upsertFileNode env p contentType (mint_etag (length bytes) (se_now env)) (Some crtime) v1
                                in if si_exists existing then reply 204 [] v2 else reply 201 [] v2))))"
  have put: "handlePut dofs env date_parse cap req p v = unless_locked (assertLock env req p False (vol_store v)) v k"
    using outer by (simp only: handlePut_def k_def if_False)
  from assms unless_locked_success [of "assertLock env req p False (vol_store v)" v k] assertLock_never_success
  have lock: "assertLock env req p False (vol_store v) = Inr None" and s: "success (fst k)"
    by (auto simp: put)
  have cond_fail: "\<not> success (Inr r)" if "check_conditions date_parse req state False = Some r" for r state
  proof -
    have answer: "first_answer xs = Some r \<Longrightarrow> Some r \<in> set xs" for xs
      by (induction xs rule: first_answer.induct) auto
    have "Some r \<in> set [check_if_match req state, check_unmodified date_parse req state,
        check_none_match req state False, check_if_etags req state, check_modified date_parse req state False]"
      using that unfolding check_conditions_def by (rule answer)
    then have "rs_status r = 412"
      by (auto simp: check_if_match_def check_unmodified_def check_none_match_def check_if_etags_def
          check_modified_def preconditionFailed_def Let_def split: option.splits if_splits)
    then show ?thesis by (simp add: success_def)
  qed
  from s show thesis
    unfolding k_def Let_def
    by (auto simp: success_reply split: option.splits prod.splits if_splits dest: cond_fail
        intro!: that [where ct = "case r_header req ''Content-Type'' of Some c \<Rightarrow> c | None \<Rightarrow> ''application/octet-stream''"
          and cr = "case m_crtime (readMeta env v p) of Some c \<Rightarrow> c | None \<Rightarrow> se_now env"]
        simp: put unless_locked_def lock k_def Let_def outer [simplified])
qed

text \<open>
  C15. What PUT stored, GET serves: over a filesystem that reads back what it has written, after a
  PUT that was answered with success a plain GET of the same resource returns 200 with exactly the
  bytes of the PUT's body, whether or not the metadata could be written or read; when the upsert of
  the node and the read of its row succeed, it carries the entity tag minted for those bytes.
\<close>

theorem put_then_get:
  assumes "success (fst (handlePut dofs env date_parse cap req p v))" and "reads_back dofs (fsPathOf p)"
    and "r_header getReq = (\<lambda>_. None)" and "\<not> ends_with ''/'' (r_pathname getReq)"
  shows "\<exists>res bytes. readCappedBody req cap = Some bytes
    \<and> fst (handleGet dofs env date_parse getReq p bases False (snd (handlePut dofs env date_parse cap req p v))) = Inr res
    \<and> rs_status res = 200 \<and> rs_body res = bytes
    \<and> (se_fails env (Upsert_node p) = None \<and> se_fails env (Select_node p) = None
        \<longrightarrow> (''ETag'', mint_etag (length bytes) (se_now env)) \<in> set (rs_headers res))"
proof -
  from assms(1) obtain bytes v1 ct cr where body: "readCappedBody req cap = Some bytes" and p: "p \<noteq> []"
    and stored: "on_fs (\<lambda>fs. fs_writeFile dofs fs (fsPathOf p) bytes) v = (v1, None)"
    and after: "snd (handlePut dofs env date_parse cap req p v) =
           upsertFileNode env p ct (mint_etag (length bytes) (se_now env)) (Some cr) v1"
    by (rule put_success)
  let ?v = "upsertFileNode env p ct (mint_etag (length bytes) (se_now env)) (Some cr) v1"
  from stored have "fs_writeFile dofs (vol_fs v) (fsPathOf p) bytes = (vol_fs v1, None)"
    by (auto simp: on_fs_def split: prod.splits)
  with assms(2) obtain m where read: "fs_readFile dofs (vol_fs v1) (fsPathOf p) = Inr bytes"
    and stat: "fs_statOf dofs (vol_fs v1) (fsPathOf p) =
        Inr \<lparr>fs_isDirectory = False, fs_size = Some (length bytes), fs_mtime = m\<rparr>"
    unfolding reads_back_def by blast
  have fs: "vol_fs ?v = vol_fs v1" by (simp add: upsertFileNode_def on_store_def)
  have st: "si_exists (statInner dofs env ?v p) \<and> \<not> si_isDirectory (statInner dofs env ?v p)"
    by (simp add: statInner_def rp_stat_def degraded_def fs stat)
  note meta = readMeta_after_upsert [of env p ct "mint_etag (length bytes) (se_now env)" "Some cr" v1]
  have range: "parseRangeHeader None sz = full_body" for sz by (simp add: parseRangeHeader_def)
  define res where "res = respond_with 200 (read_headers (readMeta env ?v p) (si_size (statInner dofs env ?v p)) None) bytes"
  have "fst (handleGet dofs env date_parse getReq p bases False ?v) = Inr res"
    using p st assms(3,4)
    by (simp add: handleGet_def serve_file_def Let_def no_conditions range full_body_def fs read res_def)
  moreover have "(''ETag'', mint_etag (length bytes) (se_now env)) \<in> set (rs_headers res)"
    if "se_fails env (Upsert_node p) = None \<and> se_fails env (Select_node p) = None"
    using that mint_etag_not_Nil [of "length bytes" "se_now env"] by (simp add: res_def read_headers_def meta present_def)
  moreover have "rs_status res = 200 \<and> rs_body res = bytes" by (simp add: res_def)
  ultimately show ?thesis using body unfolding after by blast
qed

theorem put_then_get_witness:
  "\<exists>res. fst (handleGet mem_dofs calm_env (\<lambda>_. None) (header_request ''GET'' []\<lparr>r_pathname := ''/o/v/a/n''\<rparr>) ''a/n''
       \<lparr>pathBase = ''/o/v'', hrefBase = ''/o/v''\<rparr> False
       (snd (handlePut mem_dofs calm_env (\<lambda>_. None) 8 (dav_request ''PUT'' ''a/n'' [] (Some [''ab'', ''c''])) ''a/n'' sample_volume)))
     = Inr res \<and> rs_body res = ''abc''"
proof -
  have "success (fst (handlePut mem_dofs calm_env (\<lambda>_. None) 8 (dav_request ''PUT'' ''a/n'' [] (Some [''ab'', ''c''])) ''a/n'' sample_volume))"
    by code_simp
  moreover have "reads_back mem_dofs (fsPathOf ''a/n'')" by (rule mem_reads_back) (simp add: fsPathOf_def)
  moreover have "r_header (header_request ''GET'' []\<lparr>r_pathname := ''/o/v/a/n''\<rparr>) = (\<lambda>_. None)"
    by (simp add: header_request_def)
  moreover have "\<not> ends_with ''/'' (r_pathname (header_request ''GET'' []\<lparr>r_pathname := ''/o/v/a/n''\<rparr>))"
    by code_simp
  moreover have "readCappedBody (dav_request ''PUT'' ''a/n'' [] (Some [''ab'', ''c''])) 8 = Some ''abc''"
    by code_simp
  ultimately show ?thesis
    using put_then_get [of mem_dofs calm_env "\<lambda>_. None" 8 _ "''a/n''" sample_volume
        "header_request ''GET'' []\<lparr>r_pathname := ''/o/v/a/n''\<rparr>" "\<lparr>pathBase = ''/o/v'', hrefBase = ''/o/v''\<rparr>"]
    by (fastforce simp: calm_env_def)
qed

end
