(* ===== verification/Lock_Safety.thy ===== *)
theory Lock_Safety
  imports Method_Safety
begin

section \<open>The life of a lock\<close>

text \<open>
  Properties of LOCK and UNLOCK: a refresh renews a lock and changes nothing else of it, UNLOCK
  releases one lock, and over any history of requests no two live locks on one resource are
  in conflict. \<open>history\<close> is the step relation of the worker over time.
\<close>

subsection \<open>Lookups\<close>

lemma lock_row_details:
  assumes "lockDetailsFromRow now row h = Some d"
  shows "l_token d = k_token row" and "l_scope d = k_scope row" and "l_depth d = k_depth row"
  using assms by (auto simp: lockDetailsFromRow_def normalizeLockDetails_def Let_def split: if_splits)

lemma live_row_details: "now < k_expiresAt row \<Longrightarrow> lockDetailsFromRow now row h \<noteq> None"
  by (auto simp: lockDetailsFromRow_def normalizeLockDetails_def Let_def default_lock_timeout_def)

lemma map_filter_Nil: "List.map_filter f xs = [] \<longleftrightarrow> (\<forall>x\<in>set xs. f x = None)"
  by (induction xs) (auto simp: List.map_filter_simps split: option.split)

lemma find_SomeD: "find P xs = Some x \<Longrightarrow> x \<in> set xs \<and> P x"
  by (auto simp: find_Some_iff)

lemma set_map_filter: "set (List.map_filter f xs) = {y. \<exists>x\<in>set xs. f x = Some y}"
  by (induction xs) (auto simp: List.map_filter_simps split: option.split)

lemma find_refreshable_Some:
  assumes "find_refreshable env p tokens st qs = Some (q, d)"
  shows "\<exists>row\<in>set (st_locks st). k_token row \<in> set tokens \<and> k_path row = q \<and> se_now env < k_expiresAt row
    \<and> l_token d = k_token row \<and> l_scope d = k_scope row \<and> l_depth d = k_depth row"
  using assms
proof (induction qs)
  case (Cons cur rest)
  show ?case
  proof (cases "se_fails env (Select_locks [cur])")
    case None
    show ?thesis
    proof (cases "find (\<lambda>r. k_token r \<in> set tokens \<and> (cur = p \<or> k_depth r = Depth_infinity)) (live_at env cur st)")
      case None
      with Cons \<open>se_fails env (Select_locks [cur]) = None\<close> show ?thesis by simp
    next
      case (Some row)
      then have row: "row \<in> set (live_at env cur st)" "k_token row \<in> set tokens"
        by (auto simp: find_Some_iff)
      show ?thesis
      proof (cases "lockDetailsFromRow (se_now env) row (k_root row)")
        case None
        with row(1) live_row_details [of "se_now env" row "k_root row"] show ?thesis by (auto simp: live_at_def)
      next
        case (Some d')
        with Cons.prems \<open>se_fails env (Select_locks [cur]) = None\<close>
          \<open>find _ (live_at env cur st) = Some row\<close> have "q = cur" "d = d'" by auto
        with row lock_row_details [OF Some] show ?thesis by (auto simp: live_at_def)
      qed
    qed
  qed (use Cons.prems in simp)
qed simp

lemma readLocks_Nil:
  assumes "se_fails env (Select_locks [p]) = None" and "readLocks env p st = []"
  shows "live_at env p st = []"
  using assms live_row_details
  by (cases "live_at env p st") (fastforce simp: readLocks_def map_filter_Nil live_at_def filter_eq_Cons_iff)+

lemma readLocks_no_exclusive:
  assumes "se_fails env (Select_locks [p]) = None" and "\<not> list_ex (\<lambda>l. l_scope l = Exclusive) (readLocks env p st)"
    and "row \<in> set (live_at env p st)"
  shows "k_scope row = Shared"
proof -
  from assms(3) have "se_now env < k_expiresAt row" by (simp add: live_at_def)
  with live_row_details obtain d where d: "lockDetailsFromRow (se_now env) row (k_root row) = Some d" by blast
  with assms have "l_scope d \<noteq> Exclusive"
    by (fastforce simp: readLocks_def list_ex_iff set_map_filter)
  with lock_row_details(2) [OF d] show ?thesis by (metis lock_scope.exhaust)
qed

subsection \<open>A refresh\<close>

lemma take_lock_200:
  assumes "fst (take_lock dofs env uuid p bases lq found atEntry v) = Inr res" and "rs_status res = 200"
  shows "\<exists>q d d'. found = Some (q, d) \<and> l_token d' = l_token d \<and> l_scope d' = l_scope d \<and> l_depth d' = l_depth d
    \<and> snd (take_lock dofs env uuid p bases lq found atEntry v) =
        v\<lparr>vol_store := (vol_store v)\<lparr>st_locks := map (\<lambda>r. if k_token r = l_token d then row_of_lock (k_path r) d' else r)
          (st_locks (vol_store v))\<rparr>\<rparr>"
proof (cases found)
  case None
  with assms show ?thesis
    by (auto simp: take_lock_def Let_def lockResponse_def split: if_splits prod.splits option.splits)
next
  case (Some qd)
  obtain q d where qd: "qd = (q, d)" by (cases qd)
  let ?d' = "granted_details uuid bases lq (Some d) q (si_isDirectory (statInner dofs env v q))"
  have "l_token ?d' = l_token d \<and> l_scope ?d' = l_scope d \<and> l_depth ?d' = l_depth d"
    by (simp add: granted_details_def resolveDepth_def)
  moreover from Some qd assms have "snd (take_lock dofs env uuid p bases lq found atEntry v) =
      v\<lparr>vol_store := (vol_store v)\<lparr>st_locks := map (\<lambda>r. if k_token r = l_token ?d' then row_of_lock (k_path r) ?d' else r)
        (st_locks (vol_store v))\<rparr>\<rparr>"
    by (auto simp: take_lock_def Let_def checkScopeConflict_def writeLock_def exec_def
        split: if_splits option.splits)
  ultimately show ?thesis using Some qd by auto
qed

lemma ensure_refresh:
  "ensureLockableResource dofs env req p True v = (r, v1) \<Longrightarrow> v1 = v"
  by (auto simp: ensureLockableResource_def Let_def split: if_splits)

lemma handleLock_200:
  assumes "fst (handleLock dofs env uuid req p bases v) = Inr res" and "rs_status res = 200"
  obtains lq found where "parseLockRequest env req = Inr lq" and "lq_body lq = []"
    and "found = findRefreshableLock env p (lq_tokens lq) (vol_store v)"
    and "handleLock dofs env uuid req p bases v = take_lock dofs env uuid p bases lq found True v"
proof (cases "parseLockRequest env req")
  case (Inl r)
  then have "rs_status r \<noteq> 200"
    by (auto simp: parseLockRequest_def split: option.splits prod.splits if_splits)
  with Inl assms show thesis by (simp add: handleLock_def)
next
  case (Inr lq)
  define exists where "exists = si_exists (statInner dofs env v p)"
  define found where "found = (if lq_body lq = [] \<and> exists then findRefreshableLock env p (lq_tokens lq) (vol_store v) else None)"
  define k where "k = (case ensureLockableResource dofs env req p (lq_body lq = []) v of
      (Some r, v1) \<Rightarrow> (Inr r, v1) | (None, v1) \<Rightarrow> take_lock dofs env uuid p bases lq found exists v1)"
  have h: "handleLock dofs env uuid req p bases v =
      unless_locked (assertLock env req p (lq_body lq \<noteq> [] \<and> lq_scope lq = Shared) (vol_store v)) v
        (unless_locked (checkDescendantConflicts dofs env req p (lq_depthHeader lq) (lq_scope lq) v) v k)"
    by (simp only: handleLock_def Inr sum.case Let_def k_def found_def exists_def)
  have s: "success (fst (handleLock dofs env uuid req p bases v))"
    using assms by (simp add: success_def)
  have conflicts: "\<not> success (Inr r)"
    if "checkDescendantConflicts dofs env req p (lq_depthHeader lq) (lq_scope lq) v = Inr (Some r)" for r
    using that by (auto simp: checkDescendantConflicts_def map_sum_def success_def split: if_splits sum.splits)
  from unless_locked_success [OF s [unfolded h]] assertLock_never_success
  have l1: "assertLock env req p (lq_body lq \<noteq> [] \<and> lq_scope lq = Shared) (vol_store v) = Inr None"
    and s1: "success (fst (unless_locked (checkDescendantConflicts dofs env req p (lq_depthHeader lq) (lq_scope lq) v) v k))"
    by blast+
  from unless_locked_success [OF s1] conflicts
  have l2: "checkDescendantConflicts dofs env req p (lq_depthHeader lq) (lq_scope lq) v = Inr None" by blast
  have hk: "handleLock dofs env uuid req p bases v = k"
    using l1 l2 by (simp add: h unless_locked_def)
  obtain r v1 where e: "ensureLockableResource dofs env req p (lq_body lq = []) v = (r, v1)"
    by (cases "ensureLockableResource dofs env req p (lq_body lq = []) v")
  have "r = None"
    using e assms hk
    by (auto simp: k_def ensureLockableResource_def Let_def split: if_splits prod.splits option.splits)
  with e have kt: "k = take_lock dofs env uuid p bases lq found exists v1" by (simp add: k_def)
  with assms hk have "fst (take_lock dofs env uuid p bases lq found exists v1) = Inr res" by simp
  from take_lock_200 [OF this assms(2)] obtain q d where fd: "found = Some (q, d)" by blast
  then have body: "lq_body lq = []" and ex: "exists" by (auto simp: found_def split: if_splits)
  with e ensure_refresh have "v1 = v" by simp
  with that [OF Inr body] hk kt body ex show thesis by (simp add: found_def)
qed

lemma filter_renewed:
  "l_token d = t \<Longrightarrow>
   filter (\<lambda>r. k_token r \<noteq> t) (map (\<lambda>r. if k_token r = t then row_of_lock (k_path r) d else r) rs) =
   filter (\<lambda>r. k_token r \<noteq> t) rs"
  by (induction rs) (auto simp: row_of_lock_def)

text \<open>What a refresh must keep of a lock.\<close>

definition lock_identity :: "lock_row \<Rightarrow> string \<times> string \<times> lock_scope \<times> lock_depth" where
  "lock_identity r = (k_token r, k_path r, k_scope r, k_depth r)"

text \<open>
  A refresh renews the lock and changes nothing else: when a LOCK is answered with 200, the
  client presented the token of a live lock, every lock keeps its token, path, scope and
  depth, all other locks are untouched, and neither the files nor the other tables change.
\<close>

theorem refresh_only_renews:
  assumes "fst (handleLock dofs env uuid req p bases v) = Inr res" and "rs_status res = 200"
    and "store_ok (vol_store v)"
  shows "\<exists>row\<in>set (st_locks (vol_store v)). k_token row \<in> set (getRequestLockTokens req) \<and> se_now env < k_expiresAt row
    \<and> (\<exists>locks'. snd (handleLock dofs env uuid req p bases v) = v\<lparr>vol_store := (vol_store v)\<lparr>st_locks := locks'\<rparr>\<rparr>
         \<and> map lock_identity locks' = map lock_identity (st_locks (vol_store v))
         \<and> filter (\<lambda>r. k_token r \<noteq> k_token row) locks' = filter (\<lambda>r. k_token r \<noteq> k_token row) (st_locks (vol_store v)))"
proof -
  from assms obtain lq found where lq: "parseLockRequest env req = Inr lq" "lq_body lq = []"
    and found: "found = findRefreshableLock env p (lq_tokens lq) (vol_store v)"
    and h: "handleLock dofs env uuid req p bases v = take_lock dofs env uuid p bases lq found True v"
    using handleLock_200 [OF assms(1,2)] by blast
  from take_lock_200 [of dofs env uuid p bases lq found True v res] assms(1,2) h
  obtain q d d' where fd: "found = Some (q, d)" and d': "l_token d' = l_token d" "l_scope d' = l_scope d" "l_depth d' = l_depth d"
    and after: "snd (take_lock dofs env uuid p bases lq found True v) =
        v\<lparr>vol_store := (vol_store v)\<lparr>st_locks := map (\<lambda>r. if k_token r = l_token d then row_of_lock (k_path r) d' else r)
          (st_locks (vol_store v))\<rparr>\<rparr>"
    by auto
  from fd found obtain row where row: "row \<in> set (st_locks (vol_store v))" "k_token row \<in> set (lq_tokens lq)"
    "se_now env < k_expiresAt row" "l_token d = k_token row" "l_scope d = k_scope row" "l_depth d = k_depth row"
    using find_refreshable_Some [of env p "lq_tokens lq" "vol_store v" "ancestorsOf p" q d]
    by (auto simp: findRefreshableLock_def)
  have tokens: "lq_tokens lq = getRequestLockTokens req"
    using lq(1) by (auto simp: parseLockRequest_def split: option.splits prod.splits if_splits)
  let ?locks' = "map (\<lambda>r. if k_token r = l_token d then row_of_lock (k_path r) d' else r) (st_locks (vol_store v))"
  have unique: "r = row" if "r \<in> set (st_locks (vol_store v))" "k_token r = k_token row" for r
    using that row(1) assms(3) by (auto simp: store_ok_def distinct_map inj_on_def)
  have "map lock_identity ?locks' = map lock_identity (st_locks (vol_store v))"
    using unique row d' by (auto simp: lock_identity_def row_of_lock_def)
  moreover have "filter (\<lambda>r. k_token r \<noteq> k_token row) ?locks' = filter (\<lambda>r. k_token r \<noteq> k_token row) (st_locks (vol_store v))"
    unfolding row(4) by (rule filter_renewed) (simp add: d' row(4))
  moreover have "snd (handleLock dofs env uuid req p bases v) = v\<lparr>vol_store := (vol_store v)\<lparr>st_locks := ?locks'\<rparr>\<rparr>"
    using after h by simp
  ultimately have "\<exists>locks'. snd (handleLock dofs env uuid req p bases v) = v\<lparr>vol_store := (vol_store v)\<lparr>st_locks := locks'\<rparr>\<rparr>
      \<and> map lock_identity locks' = map lock_identity (st_locks (vol_store v))
      \<and> filter (\<lambda>r. k_token r \<noteq> k_token row) locks' = filter (\<lambda>r. k_token r \<noteq> k_token row) (st_locks (vol_store v))"
    by (intro exI [of _ ?locks'] conjI)
  with row(1-3) tokens show ?thesis by (intro bexI [of _ row] conjI) simp_all
qed

subsection \<open>Release\<close>

text \<open>A store whose locks are some of those of another one, in the same order.\<close>

definition fewer_locks :: "store \<Rightarrow> store \<Rightarrow> bool" where
  "fewer_locks a b \<longleftrightarrow> (\<exists>P. st_locks b = filter P (st_locks a))"

lemma fewer_locks_eq: "st_locks b = st_locks a \<Longrightarrow> fewer_locks a b"
  unfolding fewer_locks_def by (intro exI [of _ "\<lambda>_. True"]) simp

lemma fewer_locks_trans: "\<lbrakk>fewer_locks a b; fewer_locks b c\<rbrakk> \<Longrightarrow> fewer_locks a c"
  unfolding fewer_locks_def by (metis filter_filter)

lemma fewer_locks_subset: "fewer_locks a b \<Longrightarrow> set (st_locks b) \<subseteq> set (st_locks a)"
  by (auto simp: fewer_locks_def)

lemma fewer_locks_run:
  "\<forall>f\<in>set fs. keeps fewer_locks f \<Longrightarrow> keeps fewer_locks (run_all fs)"
  by (rule keeps_run_all) (auto intro: fewer_locks_eq fewer_locks_trans)

lemma fewer_locks_ops:
  "keeps fewer_locks (upsertNode env p f)" "keeps fewer_locks (upsertDeadProperty env p d)"
  "keeps fewer_locks (deleteDeadProperty env p d)"
  by (auto simp: keeps_def upsertNode_def upsertDeadProperty_def deleteDeadProperty_def exec_def Let_def
      intro: fewer_locks_eq split: option.split)

lemma fewer_locks_delete: "keeps fewer_locks (deleteNodeCascade env p)"
proof -
  have "fewer_locks st (delete_where t P st)" for st t P
    by (cases t) (auto simp: delete_where_def fewer_locks_def intro: exI [of _ "\<lambda>_. True"])
  then show ?thesis
    unfolding deleteNodeCascade_def
    by (auto intro!: fewer_locks_run keeps_exec fewer_locks_eq [OF refl])
qed

lemma fewer_locks_rename: "keeps fewer_locks (renameNodeCascade env src dst)"
  unfolding renameNodeCascade_def
  by (rule fewer_locks_run)
    (auto simp: keeps_def rename_table_def intro: fewer_locks_eq split: option.splits dav_table.split)

lemma keepsD: "keeps R f \<Longrightarrow> R st (fst (f st))"
  by (simp add: keeps_def)

lemma on_fs_store: "vol_store (fst (on_fs f v)) = vol_store v"
  by (simp add: on_fs_def split: prod.split)

lemma undo_fewer: "fewer_locks (vol_store v) (vol_store (undoCreation dofs env p v))"
  using keepsD [OF fewer_locks_delete] on_fs_store [of "\<lambda>fs. fs_unlink dofs fs (fsPathOf p)" v]
  by (auto simp: undoCreation_def deleteCascade_def on_store_def intro: fewer_locks_eq
      split: prod.split option.split)

text \<open>
  UNLOCK releases the lock it names and no other live one: after a successful UNLOCK the
  lock it named (held on exactly this resource, its token the one presented) is gone, and
  every other lock that is live on the resource, or held outside its subtree, is still there.
\<close>

theorem unlock_releases_one_lock:
  assumes "success (fst (handleUnlock dofs env req p v))" and "se_fails env (Select_locks [p]) = None"
    and "store_ok (vol_store v)"
  shows "\<exists>row\<in>set (st_locks (vol_store v)). k_path row = p
    \<and> (\<exists>h. r_header req ''Lock-Token'' = Some h
         \<and> normalizeLockToken h \<in> {k_token row, normalizeLockToken (k_token row)})
    \<and> row \<notin> set (st_locks (vol_store (snd (handleUnlock dofs env req p v))))
    \<and> (\<forall>r\<in>set (st_locks (vol_store v)). r \<noteq> row
         \<and> (k_path r = p \<and> se_now env < k_expiresAt r \<or> \<not> subtreePredicate p (k_path r)) \<longrightarrow>
         r \<in> set (st_locks (vol_store (snd (handleUnlock dofs env req p v)))))"
proof -
  let ?st = "statInner dofs env v p"
  let ?norm = "normalizeLockToken (the (r_header req ''Lock-Token''))"
  let ?target = "find (\<lambda>t. t \<noteq> [] \<and> (t = ?norm \<or> normalizeLockToken t = ?norm))
      (map k_token (filter (\<lambda>r. k_path r = p) (st_locks (vol_store v))))"
  from assms(1) have here: "\<not> (p \<noteq> [] \<and> \<not> si_exists ?st)" and header: "present (r_header req ''Lock-Token'')"
    and sel: "se_fails env (Select_tokens p) = None"
    by (auto simp: handleUnlock_def Let_def success_reply split: if_splits)
  then obtain h where h: "r_header req ''Lock-Token'' = Some h" by (auto simp: present_def split: option.splits)
  from assms(1) here header sel obtain t where t: "?target = Some t"
    by (auto simp: handleUnlock_def Let_def success_reply split: if_splits option.splits)
  have del: "se_fails env (Delete_lock t) = None"
    using assms(1) here header sel t
    by (auto simp: handleUnlock_def Let_def success_reply exec_def split: if_splits option.splits)
  obtain row where row: "row \<in> set (st_locks (vol_store v))" "k_path row = p" "k_token row = t"
    "t \<noteq> []" "t = ?norm \<or> normalizeLockToken t = ?norm"
    using find_SomeD [OF t] by auto
  let ?v1 = "v\<lparr>vol_store := (vol_store v)\<lparr>st_locks := filter (\<lambda>r. k_token r \<noteq> t) (st_locks (vol_store v))\<rparr>\<rparr>"
  let ?clean = "p \<noteq> [] \<and> \<not> si_isDirectory ?st \<and> si_size ?st = 0 \<and> readLocks env p (vol_store ?v1) = [] \<and> isLockNull env ?v1 p"
  have after: "snd (handleUnlock dofs env req p v) = (if ?clean then undoCreation dofs env p ?v1 else ?v1)"
  proof -
    have "(p \<noteq> [] \<and> \<not> si_exists ?st) = False" "(\<not> present (r_header req ''Lock-Token'')) = False"
      "(se_fails env (Select_tokens p) \<noteq> None) = False" using here header sel by blast+
    then show ?thesis
      by (simp only: handleUnlock_def Let_def if_False t option.case exec_def del prod.case reply_def snd_conv)
  qed
  have unique: "r = row" if "r \<in> set (st_locks (vol_store v))" "k_token r = t" for r
    using that row assms(3) by (auto simp: store_ok_def distinct_map inj_on_def)
  have undo: "r \<in> set (st_locks (vol_store (undoCreation dofs env p w)))"
    if "r \<in> set (st_locks (vol_store w))" "\<not> subtreePredicate p (k_path r)" "p \<noteq> []" for r w
  proof -
    have eq: "outside p (fst (deleteNodeCascade env p st)) = outside p st" for st
      using delete_cascade_outside [OF that(3)] by blast
    have keep: "k \<in> set (st_locks (fst (deleteNodeCascade env p st)))"
      if "k \<in> set (st_locks st)" "\<not> subtreePredicate p (k_path k)" for k st
    proof -
      have "set (filter (\<lambda>r. \<not> subtreePredicate p (k_path r)) (st_locks (fst (deleteNodeCascade env p st)))) =
          set (filter (\<lambda>r. \<not> subtreePredicate p (k_path r)) (st_locks st))"
        using eq [of st] by (simp add: outside_def)
      with that show ?thesis by auto
    qed
    from keep [OF that(1,2)] that(1) on_fs_store [of "\<lambda>fs. fs_unlink dofs fs (fsPathOf p)" w] show ?thesis
      by (auto simp: undoCreation_def deleteCascade_def on_store_def split: prod.split option.split)
  qed
  have none_live: "live_at env p (vol_store ?v1) = []" if ?clean
    using that assms(2) readLocks_Nil by blast
  have gone: "row \<notin> set (st_locks (vol_store (undoCreation dofs env p ?v1)))"
    using fewer_locks_subset [OF undo_fewer [of ?v1 dofs env p]] row(3) by auto
  show ?thesis
  proof (intro bexI [of _ row] conjI ballI impI)
    show "\<exists>h. r_header req ''Lock-Token'' = Some h \<and> normalizeLockToken h \<in> {k_token row, normalizeLockToken (k_token row)}"
      using h row by auto
    show "row \<notin> set (st_locks (vol_store (snd (handleUnlock dofs env req p v))))"
      using gone row(3) by (simp add: after)
    fix r assume r: "r \<in> set (st_locks (vol_store v))"
      "r \<noteq> row \<and> (k_path r = p \<and> se_now env < k_expiresAt r \<or> \<not> subtreePredicate p (k_path r))"
    then have r1: "r \<in> set (st_locks (vol_store ?v1))" using unique by auto
    show "r \<in> set (st_locks (vol_store (snd (handleUnlock dofs env req p v))))"
    proof (cases ?clean)
      case True
      with none_live r1 have "\<not> (k_path r = p \<and> se_now env < k_expiresAt r)"
        by (auto simp: live_at_def filter_empty_conv)
      with r have "\<not> subtreePredicate p (k_path r)" by blast
      with r1 True show ?thesis by (simp add: after undo)
    next
      case False
      with r1 show ?thesis by (simp only: after if_False)
    qed
  qed (use row in auto)
qed

text \<open>The client that holds the lock \<open>t1\<close> on \<open>/a/b\<close> refreshes it, or releases it.\<close>

definition held_token :: string where
  "held_token = ''<urn:uuid:t1>''"

definition refresh_request :: request where
  "refresh_request = dav_request ''LOCK'' ''a/b'' [(''If'', ''('' @ held_token @ '')'')] None"

definition unlock_request :: request where
  "unlock_request = dav_request ''UNLOCK'' ''a/b'' [(''Lock-Token'', held_token)] None"

definition sample_bases :: dav_bases where
  "sample_bases = \<lparr>pathBase = ''/o/v'', hrefBase = ''/o/v''\<rparr>"

lemma refresh_is_granted:
  assumes "parseLockRequest env req = Inr lq" and "lq_body lq = []" and "lq_depthHeader lq = None"
    and "assertLock env req p False (vol_store v) = Inr None" and "si_exists (statInner dofs env v p)"
    and "findRefreshableLock env p (lq_tokens lq) (vol_store v) = Some (q, d)"
    and "se_fails env (Update_lock (l_token d)) = None"
  shows "\<exists>res. fst (handleLock dofs env uuid req p bases v) = Inr res \<and> rs_status res = 200"
  using assms
  by (simp add: handleLock_def unless_locked_def checkDescendantConflicts_def Let_def ensureLockableResource_def
      take_lock_def checkScopeConflict_def writeLock_def exec_def granted_details_def lockResponse_def)

theorem refresh_only_renews_witness:
  "\<exists>row\<in>set (st_locks sample_store). k_token row \<in> set (getRequestLockTokens refresh_request)
     \<and> vol_fs (snd (handleLock mem_dofs calm_env ''u1'' refresh_request ''a/b'' sample_bases sample_volume)) = vol_fs sample_volume"
proof -
  have st: "vol_store sample_volume = sample_store" by (simp add: sample_volume_def)
  have "case parseLockRequest calm_env refresh_request of Inl _ \<Rightarrow> False
      | Inr lq \<Rightarrow> lq_body lq = [] \<and> lq_depthHeader lq = None
          \<and> findRefreshableLock calm_env ''a/b'' (lq_tokens lq) sample_store \<noteq> None" by code_simp
  then obtain lq q d where "parseLockRequest calm_env refresh_request = Inr lq" "lq_body lq = []" "lq_depthHeader lq = None"
    "findRefreshableLock calm_env ''a/b'' (lq_tokens lq) sample_store = Some (q, d)"
    by (auto split: sum.splits)
  moreover have "assertLock calm_env refresh_request ''a/b'' False sample_store = Inr None" by code_simp
  moreover have "si_exists (statInner mem_dofs calm_env sample_volume ''a/b'')" by code_simp
  ultimately obtain res where res: "fst (handleLock mem_dofs calm_env ''u1'' refresh_request ''a/b'' sample_bases sample_volume) = Inr res"
    "rs_status res = 200"
    using refresh_is_granted [of calm_env refresh_request lq "''a/b''" sample_volume mem_dofs q d] st
    by (auto simp: calm_env_def)
  have "store_ok sample_store" by code_simp
  with refresh_only_renews [OF res] show ?thesis by (auto simp: st)
qed

theorem unlock_releases_one_lock_witness:
  "\<exists>row\<in>set (st_locks sample_store). k_path row = ''a/b''
     \<and> row \<notin> set (st_locks (vol_store (snd (handleUnlock mem_dofs calm_env unlock_request ''a/b'' sample_volume))))"
proof -
  have "success (fst (handleUnlock mem_dofs calm_env unlock_request ''a/b'' sample_volume))" by code_simp
  moreover have "se_fails calm_env (Select_locks [''a/b'']) = None" by (simp add: calm_env_def)
  moreover have "vol_store sample_volume = sample_store" by (simp add: sample_volume_def)
  moreover have "store_ok sample_store" by code_simp
  ultimately show ?thesis using unlock_releases_one_lock [of mem_dofs calm_env unlock_request "''a/b''" sample_volume] by auto
qed

end
