(* ===== verification/Lock_History.thy ===== *)
theory Lock_History
  imports Lock_Safety
begin

section \<open>Locks over a history of requests\<close>

text \<open>
  The worker over time: \<open>history\<close> is the step relation whose steps are requests, each at a time
  no earlier than the one before and in an environment of its own. Every method but LOCK can
  only drop locks (\<open>thins\<close>); LOCK renews one live row or adds one that the scope rules admit
  (\<open>admitted\<close>). So no two live locks on one resource are ever in conflict.
\<close>

subsection \<open>Every method but LOCK only drops locks\<close>

definition thins :: "'fs volume \<Rightarrow> 'fs handled \<Rightarrow> bool" where
  "thins v h \<longleftrightarrow> fewer_locks (vol_store v) (vol_store (snd h))"

lemma thins_cases:
  "\<lbrakk>x = None \<Longrightarrow> thins v a; \<And>y. x = Some y \<Longrightarrow> thins v (f y)\<rbrakk> \<Longrightarrow> thins v (case x of None \<Rightarrow> a | Some y \<Rightarrow> f y)"
  "\<lbrakk>\<And>y. s = Inl y \<Longrightarrow> thins v (g y); \<And>z. s = Inr z \<Longrightarrow> thins v (h z)\<rbrakk> \<Longrightarrow> thins v (case s of Inl y \<Rightarrow> g y | Inr z \<Rightarrow> h z)"
  "\<lbrakk>b \<Longrightarrow> thins v c; \<not> b \<Longrightarrow> thins v d\<rbrakk> \<Longrightarrow> thins v (if b then c else d)"
  "(\<And>t. t = u \<Longrightarrow> thins v (k t)) \<Longrightarrow> thins v (Let u k)"
  "(\<And>m n. p = (m, n) \<Longrightarrow> thins v (q m n)) \<Longrightarrow> thins v (case p of (m, n) \<Rightarrow> q m n)"
  "\<lbrakk>e \<Longrightarrow> thins v c; \<not> e \<Longrightarrow> thins v d\<rbrakk> \<Longrightarrow> thins v (case e of True \<Rightarrow> c | False \<Rightarrow> d)"
  by (auto split: option.split sum.split prod.split bool.split)

lemma thins_end:
  "thins v (r, v') \<longleftrightarrow> fewer_locks (vol_store v) (vol_store v')"
  "thins v (reply status body v') \<longleftrightarrow> fewer_locks (vol_store v) (vol_store v')"
  by (simp_all add: thins_def)

lemma thins_unless_locked: "thins v k \<Longrightarrow> thins v (unless_locked check v k)"
  by (auto simp: unless_locked_def thins_end intro: fewer_locks_eq split: sum.split option.split)

lemma fewer_locks_refl [simp]: "fewer_locks a a"
  by (rule fewer_locks_eq) simp

lemma thins_on_store:
  "keeps fewer_locks f \<Longrightarrow> fewer_locks a (vol_store v) \<Longrightarrow> fewer_locks a (vol_store (on_store f v))"
  by (auto simp: on_store_def dest: keepsD intro: fewer_locks_trans)

lemma on_fs_thins: "on_fs f v = (v1, e) \<Longrightarrow> vol_store v1 = vol_store v"
  using on_fs_store [of f v] by simp

lemma copyMeta_fewer: "fewer_locks a (vol_store v) \<Longrightarrow> fewer_locks a (vol_store (copyMeta env src dst c v))"
proof -
  have "keeps fewer_locks (\<lambda>st. case se_fails env (Select_props src) of Some e \<Rightarrow> (st, Some e)
      | None \<Rightarrow> run_all (map (\<lambda>r. upsertDeadProperty env dst (property_of r)) (filter (\<lambda>r. pr_path r = src) (st_props st))) st)"
  proof (cases "se_fails env (Select_props src)")
    case None
    have "fewer_locks st (fst (run_all (map (\<lambda>r. upsertDeadProperty env dst (property_of r)) rows) st))" for st rows
      by (rule keepsD [OF fewer_locks_run]) (auto simp: fewer_locks_ops)
    with None show ?thesis by (simp add: keeps_def)
  qed (simp add: keeps_def)
  then have "keeps fewer_locks (run_all [upsertNode env dst fields, (\<lambda>st. case se_fails env (Select_props src) of Some e \<Rightarrow> (st, Some e)
      | None \<Rightarrow> run_all (map (\<lambda>r. upsertDeadProperty env dst (property_of r)) (filter (\<lambda>r. pr_path r = src) (st_props st))) st)])"
    for fields by (intro fewer_locks_run) (simp add: fewer_locks_ops)
  then show "fewer_locks a (vol_store v) \<Longrightarrow> fewer_locks a (vol_store (copyMeta env src dst c v))"
    by (auto simp: copyMeta_def Let_def intro: thins_on_store split: option.split)
qed

lemmas volume_fewer = thins_on_store [OF fewer_locks_delete] thins_on_store [OF fewer_locks_rename] copyMeta_fewer
  thins_on_store [OF fewer_locks_ops(1)]

lemma put_thins: "thins v (handlePut dofs env date_parse cap req p v)"
  unfolding handlePut_def upsertFileNode_def
  by (intro thins_unless_locked thins_cases) (auto simp: thins_end dest: on_fs_thins intro!: volume_fewer)

lemma delete_thins: "thins v (handleDelete dofs env req p v)"
  unfolding handleDelete_def deleteCascade_def
  by (intro thins_unless_locked thins_cases) (auto simp: thins_end dest: on_fs_thins intro!: volume_fewer)

lemma mkcol_thins: "thins v (handleMkcol dofs env req p v)"
  unfolding handleMkcol_def upsertCollectionNode_def
  by (intro thins_unless_locked thins_cases) (auto simp: thins_end dest: on_fs_thins intro!: volume_fewer)

lemma apply_each_fewer:
  "(\<And>p. keeps fewer_locks (f p)) \<Longrightarrow> fewer_locks st (fst (apply_each f ps st))"
proof (induction ps arbitrary: st)
  case (Cons p ps)
  have "fewer_locks st (fst (f p st))" using Cons.prems keepsD by blast
  moreover have "fewer_locks (fst (f p st)) (fst (apply_each f ps (fst (f p st))))" using Cons by blast
  ultimately show ?case
    by (auto simp: Let_def intro: fewer_locks_trans split: prod.split option.split)
qed simp

lemma apply_patch_fewer: "fewer_locks st (po_store (apply_patch env p ops st))"
proof -
  have "fewer_locks st (fst (apply_each (deleteDeadProperty env p) rs (fst (apply_each (upsertDeadProperty env p) ss st))))" for rs ss
    using apply_each_fewer [of "upsertDeadProperty env p" st ss]
      apply_each_fewer [of "deleteDeadProperty env p" "fst (apply_each (upsertDeadProperty env p) ss st)" rs]
    by (blast intro: fewer_locks_trans fewer_locks_ops)
  then show ?thesis
    by (auto simp: apply_patch_def Let_def split: prod.split) (metis fst_conv)
qed

lemma proppatch_thins: "thins v (handleProppatch dofs env lib req p bases v)"
  unfolding handleProppatch_def
  by (intro thins_unless_locked thins_cases) (auto simp: thins_end apply_patch_fewer)

lemma after_removal_thins:
  assumes "\<And>w. fewer_locks (vol_store v) (vol_store w) \<Longrightarrow> fewer_locks (vol_store v) (vol_store (snd (k w)))"
  shows "thins v (after_removal dofs env req dst ex v k)"
proof -
  have "fewer_locks (vol_store v) (vol_store (snd (deleteDestination dofs env req dst v)))"
    using delete_thins [of v dofs env "overwrite_request req" dst]
    by (auto simp: deleteDestination_def thins_def split: prod.splits sum.splits)
  with assms show ?thesis
    by (auto simp: after_removal_def thins_def split: prod.splits sum.splits option.splits)
qed

lemma copied_store: "vol_store (snd (copied ex href v)) = vol_store v"
  by (simp add: copied_def)

lemma copy_bytes_store: "vol_store (fst (copy_bytes dofs src dst v)) = vol_store v"
  using on_fs_store [of _ v] by (auto simp: copy_bytes_def split: sum.split)

lemma copy_members_fewer:
  "fewer_locks a (vol_store v) \<Longrightarrow> fewer_locks a (vol_store (fst (copy_members dofs env base src dst names v)))"
proof (induction names arbitrary: v)
  case (Cons name names)
  define sc where "sc = childInner src name"
  define dc where "dc = dst @ ''/'' @ drop (length src + 1) sc"
  obtain v1 e where bytes: "copy_bytes dofs sc dc v = (v1, e)" by fastforce
  then have v1: "fewer_locks a (vol_store v1)" using Cons.prems copy_bytes_store by (metis fst_conv)
  obtain v2 fs where rest: "copy_members dofs env base src dst names v1 = (v2, fs)" by fastforce
  with Cons.IH [OF v1] have v2: "fewer_locks a (vol_store v2)" by simp
  have dir: "fewer_locks a (vol_store (copyMeta env sc dc True (fst (on_fs f v))))" for f
    by (rule copyMeta_fewer) (simp add: on_fs_store Cons.prems)
  show ?case
  proof (cases "si_isDirectory (statInner dofs env v sc)")
    case True
    then show ?thesis
      by (simp only: copy_members.simps Let_def sc_def [symmetric] dc_def [symmetric] if_True Cons.IH dir)
  next
    case False
    then show ?thesis
      by (cases e) (simp_all only: copy_members.simps Let_def sc_def [symmetric] dc_def [symmetric] if_False
          bytes rest prod.case option.case fst_conv v2 Cons.IH [OF copyMeta_fewer [OF v1]])
  qed
qed simp

lemma copy_collection_fewer:
  assumes "fewer_locks a (vol_store w)"
  shows "fewer_locks a (vol_store (snd (copy_collection dofs env bases p dst ex depth w)))"
proof -
  obtain w1 e where w1: "on_fs (\<lambda>fs. fs_mkdir dofs fs (fsPathOf dst) False) w = (w1, e)" by fastforce
  then have "fewer_locks a (vol_store w1)" using assms on_fs_thins by metis
  then have "fewer_locks a (vol_store (copyMeta env p dst True w1))" by (rule copyMeta_fewer)
  with \<open>fewer_locks a (vol_store w1)\<close> copy_members_fewer [OF this, of dofs env "hrefBase bases" p dst] show ?thesis
    by (auto simp: copy_collection_def w1 Let_def copied_store split: prod.split) (metis fst_conv)+
qed

lemma copy_file_fewer:
  assumes "fewer_locks a (vol_store w)"
  shows "fewer_locks a (vol_store (snd (copy_file dofs env bases p dst ex w)))"
  using assms copy_bytes_store [of dofs p dst w]
  by (auto simp: copy_file_def copied_store intro!: copyMeta_fewer split: prod.split option.split)

lemma move_resource_fewer:
  assumes "fewer_locks a (vol_store w)"
  shows "fewer_locks a (vol_store (snd (move_resource dofs env bases p dst ex dir w)))"
  using assms
  by (auto simp: move_resource_def copied_store renameCascade_def split: prod.split option.split
      dest!: on_fs_thins intro!: volume_fewer)

lemma copy_thins: "thins v (handleCopy dofs env parse_url req p bases v)"
  unfolding handleCopy_def
  by (intro thins_unless_locked thins_cases after_removal_thins copy_collection_fewer copy_file_fewer)
    (simp_all add: thins_end)

lemma move_thins: "thins v (handleMove dofs env parse_url req p bases v)"
  unfolding handleMove_def
  by (intro thins_unless_locked thins_cases after_removal_thins move_resource_fewer) (simp_all add: thins_end)

lemma undo_thins: "fewer_locks a (vol_store v) \<Longrightarrow> fewer_locks a (vol_store (undoCreation dofs env p v))"
  using undo_fewer fewer_locks_trans by blast

lemma unlock_thins: "thins v (handleUnlock dofs env req p v)"
proof -
  have "fewer_locks (vol_store v) s" if "exec env (Delete_lock t) (\<lambda>s. s\<lparr>st_locks := filter (\<lambda>r. k_token r \<noteq> t) (st_locks s)\<rparr>) (vol_store v) = (s, e)"
    for t s e
    using that by (auto simp: exec_def fewer_locks_def intro: exI [of _ "\<lambda>_. True"] split: option.splits)
  then show ?thesis
    unfolding handleUnlock_def by (intro thins_cases) (auto simp: thins_end intro!: undo_thins)
qed

subsection \<open>What LOCK does to the lock table\<close>

text \<open>
  The three ways: locks only dropped; one live row renewed under its token; or a row added
  under a fresh token, at a path whose live locks are all shared if the new one is, and
  where there is none if the new one is exclusive.
\<close>

definition renewed :: "int \<Rightarrow> lock_row list \<Rightarrow> lock_row list \<Rightarrow> bool" where
  "renewed now locks locks' \<longleftrightarrow> (\<exists>row\<in>set locks. \<exists>d. now < k_expiresAt row \<and> l_token d = k_token row \<and> l_scope d = k_scope row
     \<and> locks' = map (\<lambda>r. if k_token r = l_token d then row_of_lock (k_path r) d else r) locks)"

definition admitted :: "int \<Rightarrow> lock_row list \<Rightarrow> lock_row list \<Rightarrow> bool" where
  "admitted now locks locks' \<longleftrightarrow> (\<exists>row. locks' = locks @ [row] \<and> k_token row \<notin> k_token ` set locks
     \<and> (\<forall>r\<in>set locks. k_path r = k_path row \<and> now < k_expiresAt r \<longrightarrow> k_scope row = Shared \<and> k_scope r = Shared))"

definition lock_step :: "int \<Rightarrow> store \<Rightarrow> store \<Rightarrow> bool" where
  "lock_step now a b \<longleftrightarrow> fewer_locks a b \<or> renewed now (st_locks a) (st_locks b) \<or> admitted now (st_locks a) (st_locks b)"

lemma no_scope_conflict:
  assumes "\<not> checkScopeConflict env p scope None st" and "se_fails env (Select_locks [p]) = None"
    and "r \<in> set (st_locks st)" and "k_path r = p" and "se_now env < k_expiresAt r"
  shows "scope = Shared \<and> k_scope r = Shared"
proof -
  have live: "r \<in> set (live_at env p st)" using assms(3-5) by (simp add: live_at_def)
  with readLocks_Nil [OF assms(2)] have "readLocks env p st \<noteq> []" by fastforce
  with assms(1) have "scope = Shared" by (auto simp: checkScopeConflict_def intro: lock_scope.exhaust)
  with assms(1) readLocks_no_exclusive [OF assms(2) _ live] show ?thesis by (auto simp: checkScopeConflict_def)
qed

lemma take_lock_store:
  fixes v :: "'fs volume"
  assumes "active = (case found of Some (q, _) \<Rightarrow> q | None \<Rightarrow> p)"
    and "d = granted_details uuid bases lq (map_option snd found) active (si_isDirectory (statInner dofs env v active))"
  shows "fewer_locks (vol_store v) (vol_store (snd (take_lock dofs env uuid p bases lq found atEntry v)))
    \<or> \<not> checkScopeConflict env active (lq_scope lq) (map_option snd found) (vol_store v)
      \<and> vol_store (snd (take_lock dofs env uuid p bases lq found atEntry v)) =
            fst (writeLock env (map_option snd found \<noteq> None) active d (vol_store v))"
proof -
  have "snd (take_lock dofs env uuid p bases lq found atEntry v) =
    (if checkScopeConflict env active (lq_scope lq) (map_option snd found) (vol_store v) then v
     else if lq_depthHeader lq = Some Depth_infinity \<and> \<not> si_isDirectory (statInner dofs env v active)
     then (if atEntry then v else undoCreation dofs env p v)
     else v\<lparr>vol_store := fst (writeLock env (map_option snd found \<noteq> None) active d (vol_store v))\<rparr>)"
    by (simp only: take_lock_def Let_def assms) (simp split: prod.split option.split)
  then show ?thesis by (simp add: undo_fewer)
qed

lemma writeLock_insert:
  assumes "\<And>r. \<lbrakk>r \<in> set (st_locks st); k_path r = p; now < k_expiresAt r\<rbrakk> \<Longrightarrow> l_scope d = Shared \<and> k_scope r = Shared"
  shows "lock_step now st (fst (writeLock env False p d st))"
proof -
  have "admitted now (st_locks st) (st_locks st @ [row_of_lock p d])" if "l_token d \<notin> k_token ` set (st_locks st)"
    unfolding admitted_def
    by (rule exI [of _ "row_of_lock p d"]) (use that assms in \<open>auto simp: row_of_lock_def\<close>)
  then show ?thesis by (auto simp: writeLock_def exec_def lock_step_def split: option.split)
qed

lemma writeLock_update:
  assumes "row \<in> set (st_locks st)" and "now < k_expiresAt row" and "l_token d = k_token row" and "l_scope d = k_scope row"
  shows "lock_step now st (fst (writeLock env True p d st))"
proof -
  have "renewed now (st_locks st) (map (\<lambda>r. if k_token r = l_token d then row_of_lock (k_path r) d else r) (st_locks st))"
    unfolding renewed_def using assms by blast
  then show ?thesis by (auto simp: writeLock_def exec_def lock_step_def split: option.split)
qed

lemma take_lock_step:
  assumes "\<And>q d. found = Some (q, d) \<Longrightarrow> \<exists>row\<in>set (st_locks (vol_store v)). se_now env < k_expiresAt row
      \<and> l_token d = k_token row \<and> l_scope d = k_scope row"
    and "\<And>q. se_fails env (Select_locks q) = None"
  shows "lock_step (se_now env) (vol_store v) (vol_store (snd (take_lock dofs env uuid p bases lq found atEntry v)))"
proof (cases found)
  case None
  define d where "d = granted_details uuid bases lq None p (si_isDirectory (statInner dofs env v p))"
  have scope: "l_scope d = lq_scope lq" by (simp add: d_def granted_details_def)
  have "lock_step (se_now env) (vol_store v) (fst (writeLock env False p d (vol_store v)))"
    if "\<not> checkScopeConflict env p (lq_scope lq) None (vol_store v)"
  proof (rule writeLock_insert)
    fix r assume "r \<in> set (st_locks (vol_store v))" "k_path r = p" "se_now env < k_expiresAt r"
    from no_scope_conflict [OF that assms(2) this] show "l_scope d = Shared \<and> k_scope r = Shared"
      by (simp add: scope)
  qed
  then show ?thesis using take_lock_store [where active = p and d = d and v = v and found = found and p = p and uuid = uuid and bases = bases and lq = lq and dofs = dofs and env = env and atEntry = atEntry] None
    by (auto simp: d_def lock_step_def)
next
  case (Some qd)
  obtain q d where qd: "qd = (q, d)" by (cases qd)
  define e where "e = granted_details uuid bases lq (Some d) q (si_isDirectory (statInner dofs env v q))"
  from assms(1) Some qd obtain row where row: "row \<in> set (st_locks (vol_store v))" "se_now env < k_expiresAt row"
    "l_token d = k_token row" "l_scope d = k_scope row" by blast
  then have "l_token e = k_token row" "l_scope e = k_scope row" by (simp_all add: e_def granted_details_def)
  from writeLock_update [OF row(1,2) this, where env = env and p = q] take_lock_store [where active = q and d = e and v = v and found = found and p = p and uuid = uuid and bases = bases and lq = lq and dofs = dofs and env = env and atEntry = atEntry] Some qd
  show ?thesis by (auto simp: e_def lock_step_def)
qed

lemma ensure_keeps_locks:
  "st_locks (vol_store (snd (ensureLockableResource dofs env req p isRefresh v))) = st_locks (vol_store v)"
proof -
  have "st_locks (fst (upsertNode env p f st)) = st_locks st" for f st
    by (simp add: upsertNode_def exec_def Let_def split: option.split)
  note upsert = this
  have w: "st_locks (vol_store (fst (writeEmptyFile dofs env p v))) = st_locks (vol_store v)"
  proof -
    obtain v1 e where c: "on_fs (\<lambda>fs. fs_writeFile dofs fs (fsPathOf p) []) v = (v1, e)" by fastforce
    show ?thesis
      by (cases e) (simp_all add: writeEmptyFile_def c on_store_def upsert on_fs_thins [OF c])
  qed
  obtain v1 ok where e: "writeEmptyFile dofs env p v = (v1, ok)" by fastforce
  show ?thesis using w unfolding ensureLockableResource_def Let_def e prod.case
    by (simp split: if_split)
qed

lemma lock_step_start:
  assumes "st_locks a = st_locks b"
  shows "lock_step now b c \<Longrightarrow> lock_step now a c"
  using assms by (auto simp: lock_step_def fewer_locks_def)

lemma lock_handler_step:
  assumes "\<And>q. se_fails env (Select_locks q) = None"
  shows "lock_step (se_now env) (vol_store v) (vol_store (snd (handleLock dofs env uuid req p bases v)))"
proof (cases "parseLockRequest env req")
  case (Inr lq)
  define found where "found = (if lq_body lq = [] \<and> si_exists (statInner dofs env v p)
      then findRefreshableLock env p (lq_tokens lq) (vol_store v) else None)"
  obtain r v1 where e: "ensureLockableResource dofs env req p (lq_body lq = []) v = (r, v1)"
    by (cases "ensureLockableResource dofs env req p (lq_body lq = []) v")
  with ensure_keeps_locks [of dofs env req p "lq_body lq = []" v] have locks: "st_locks (vol_store v) = st_locks (vol_store v1)"
    by simp
  have "lock_step (se_now env) (vol_store v1)
      (vol_store (snd (take_lock dofs env uuid p bases lq found (si_exists (statInner dofs env v p)) v1)))"
  proof (rule take_lock_step)
    fix q d assume "found = Some (q, d)"
    then show "\<exists>row\<in>set (st_locks (vol_store v1)). se_now env < k_expiresAt row \<and> l_token d = k_token row \<and> l_scope d = k_scope row"
      using find_refreshable_Some [of env p "lq_tokens lq" "vol_store v" "ancestorsOf p" q d]
      by (auto simp: found_def findRefreshableLock_def locks split: if_splits)
  qed (rule assms)
  then have taken: "lock_step (se_now env) (vol_store v)
      (vol_store (snd (take_lock dofs env uuid p bases lq found (si_exists (statInner dofs env v p)) v1)))"
    by (rule lock_step_start [OF locks])
  have kept: "lock_step (se_now env) (vol_store v) (vol_store v)" by (simp add: lock_step_def)
  have made: "lock_step (se_now env) (vol_store v) (vol_store v1)"
    by (simp add: lock_step_def fewer_locks_eq locks)
  have guarded: "lock_step (se_now env) (vol_store v) (vol_store (snd (unless_locked c v k)))"
    if "lock_step (se_now env) (vol_store v) (vol_store (snd k))" for c and k :: "'a handled"
    using that kept by (auto simp: unless_locked_def split: sum.split option.split)
  show ?thesis
    unfolding handleLock_def Inr sum.case Let_def
    by (intro guarded) (use taken made in \<open>auto simp: e found_def split: option.split\<close>)
qed (simp add: handleLock_def lock_step_def)

subsection \<open>The history\<close>

inductive history :: "int \<Rightarrow> 'fs volume \<Rightarrow> bool" where
  history_start: "st_locks (vol_store v) = [] \<Longrightarrow> history 0 v"
| history_request: "\<lbrakk>history now v; now \<le> se_now (pf_sql pf);
     r_method req = ''LOCK'' \<Longrightarrow> (\<And>q. se_fails (pf_sql pf) (Select_locks q) = None)\<rbrakk> \<Longrightarrow>
     history (se_now (pf_sql pf)) (snd (fetch pf req v))"

text \<open>Two live locks on one path are both shared.\<close>

definition conflict_free :: "int \<Rightarrow> lock_row list \<Rightarrow> bool" where
  "conflict_free now locks \<longleftrightarrow>
     (\<forall>r\<in>set locks. \<forall>r'\<in>set locks. k_token r \<noteq> k_token r' \<and> k_path r = k_path r'
        \<and> now < k_expiresAt r \<and> now < k_expiresAt r' \<longrightarrow> k_scope r = Shared \<and> k_scope r' = Shared)"

definition locks_ok :: "int \<Rightarrow> store \<Rightarrow> bool" where
  "locks_ok now st \<longleftrightarrow> distinct (map k_token (st_locks st)) \<and> conflict_free now (st_locks st)"

lemma locks_ok_later: "\<lbrakk>locks_ok now st; now \<le> now'\<rbrakk> \<Longrightarrow> locks_ok now' st"
  unfolding locks_ok_def conflict_free_def by (meson le_less_trans)

lemma locks_ok_fewer:
  assumes "fewer_locks a b" and "locks_ok now a"
  shows "locks_ok now b"
proof -
  obtain P where "st_locks b = filter P (st_locks a)" using assms(1) by (auto simp: fewer_locks_def)
  with assms(2) show ?thesis by (auto simp: locks_ok_def conflict_free_def distinct_map_filter)
qed

lemma locks_ok_renewed:
  assumes "renewed now (st_locks a) (st_locks b)" and "locks_ok now a"
  shows "locks_ok now b"
proof -
  obtain row d where row: "row \<in> set (st_locks a)" "now < k_expiresAt row" "l_token d = k_token row" "l_scope d = k_scope row"
    and b: "st_locks b = map (\<lambda>r. if k_token r = l_token d then row_of_lock (k_path r) d else r) (st_locks a)"
    using assms(1) by (auto simp: renewed_def)
  define g where "g = (\<lambda>r. if k_token r = l_token d then row_of_lock (k_path r) d else r)"
  have bg: "st_locks b = map g (st_locks a)" by (simp add: b g_def)
  have same: "r = row" if "r \<in> set (st_locks a)" "k_token r = l_token d" for r
    using that row assms(2) by (auto simp: locks_ok_def distinct_map inj_on_def)
  have keep: "k_token (g r) = k_token r \<and> k_path (g r) = k_path r \<and> k_scope (g r) = k_scope r
      \<and> (now < k_expiresAt (g r) \<longrightarrow> now < k_expiresAt r)" if "r \<in> set (st_locks a)" for r
    using same [OF that] row by (auto simp: g_def row_of_lock_def)
  have "map k_token (st_locks b) = map k_token (st_locks a)"
    using keep by (simp add: bg)
  moreover have "conflict_free now (st_locks b)"
    unfolding conflict_free_def
  proof (intro ballI impI)
    fix x y assume x: "x \<in> set (st_locks b)" and y: "y \<in> set (st_locks b)"
      and c: "k_token x \<noteq> k_token y \<and> k_path x = k_path y \<and> now < k_expiresAt x \<and> now < k_expiresAt y"
    from x obtain r where r: "r \<in> set (st_locks a)" "x = g r" unfolding bg set_map by blast
    from y obtain s where s: "s \<in> set (st_locks a)" "y = g s" unfolding bg set_map by blast
    from keep [OF r(1)] keep [OF s(1)] c r s
    have "k_token r \<noteq> k_token s" "k_path r = k_path s" "now < k_expiresAt r" "now < k_expiresAt s" by simp_all
    with assms(2) r(1) s(1) have "k_scope r = Shared \<and> k_scope s = Shared"
      unfolding locks_ok_def conflict_free_def by blast
    with keep [OF r(1)] keep [OF s(1)] r s
    show "k_scope x = Shared \<and> k_scope y = Shared" by simp
  qed
  ultimately show ?thesis using assms(2) by (simp add: locks_ok_def)
qed

lemma locks_ok_admitted:
  assumes "admitted now (st_locks a) (st_locks b)" and "locks_ok now a"
  shows "locks_ok now b"
proof -
  obtain row where b: "st_locks b = st_locks a @ [row]" and "k_token row \<notin> k_token ` set (st_locks a)"
    and all: "\<forall>r\<in>set (st_locks a). k_path r = k_path row \<and> now < k_expiresAt r \<longrightarrow> k_scope row = Shared \<and> k_scope r = Shared"
    using assms(1) by (auto simp: admitted_def)
  have new: "k_scope row = Shared \<and> k_scope r = Shared"
    if "r \<in> set (st_locks a)" "k_path r = k_path row" "now < k_expiresAt r" for r using all that by blast
  have "conflict_free now (st_locks b)"
    unfolding conflict_free_def b
  proof (intro ballI impI)
    fix x y assume x: "x \<in> set (st_locks a @ [row])" and y: "y \<in> set (st_locks a @ [row])"
      and c: "k_token x \<noteq> k_token y \<and> k_path x = k_path y \<and> now < k_expiresAt x \<and> now < k_expiresAt y"
    have old: "k_scope x = Shared \<and> k_scope y = Shared" if "x \<in> set (st_locks a)" "y \<in> set (st_locks a)"
      using that c assms(2) unfolding locks_ok_def conflict_free_def by blast
    from x y c consider "x \<in> set (st_locks a)" "y \<in> set (st_locks a)" | "x = row" "y \<in> set (st_locks a)"
      | "x \<in> set (st_locks a)" "y = row" by auto
    then show "k_scope x = Shared \<and> k_scope y = Shared"
      using old new [of x] new [of y] c by cases auto
  qed
  then show ?thesis using assms(2) \<open>k_token row \<notin> k_token ` set (st_locks a)\<close>
    by (simp add: locks_ok_def b)
qed

lemma locks_ok_step: "lock_step now a b \<Longrightarrow> locks_ok now a \<Longrightarrow> locks_ok now b"
  unfolding lock_step_def using locks_ok_fewer locks_ok_renewed locks_ok_admitted by blast

lemma fewer_step: "thins v h \<Longrightarrow> lock_step now (vol_store v) (vol_store (snd h))"
  by (simp add: thins_def lock_step_def)

lemma leaves_thins: "leaves v h \<Longrightarrow> thins v h"
  by (simp add: leaves_def thins_def)

lemmas method_thins = leaves_thins [OF handleGet_reads] leaves_thins [OF handlePropfind_reads] put_thins delete_thins
  mkcol_thins proppatch_thins copy_thins move_thins unlock_thins

lemma lock_step_refl: "lock_step now a a"
  by (simp add: lock_step_def)

lemma run_method_step:
  assumes "\<And>q. r_method req = ''LOCK'' \<Longrightarrow> se_fails (pf_sql pf) (Select_locks q) = None"
  shows "lock_step (se_now (pf_sql pf)) (vol_store v) (vol_store (snd (run_method pf req p bases v)))"
proof (cases "r_method req = ''LOCK''")
  case True
  with assms have calm: "\<And>q. se_fails (pf_sql pf) (Select_locks q) = None" by blast
  show ?thesis by (simp add: run_method_def Let_def True lock_handler_step [OF calm])
next
  case False
  then show ?thesis
    unfolding run_method_def Let_def
    by (simp only: if_distrib [of snd] if_distrib [of vol_store] if_distrib [of "lock_step (se_now (pf_sql pf)) (vol_store v)"]
        if_False method_thins [THEN fewer_step] snd_conv lock_step_refl if_bool_eq_conj simp_thms)
qed

lemma fetch_step:
  assumes "\<And>q. r_method req = ''LOCK'' \<Longrightarrow> se_fails (pf_sql pf) (Select_locks q) = None"
  shows "lock_step (se_now (pf_sql pf)) (vol_store v) (vol_store (snd (fetch pf req v)))"
proof -
  have "lock_step (se_now (pf_sql pf)) (vol_store v) (vol_store (snd (dispatch pf req v)))"
    by (simp add: dispatch_def Let_def run_method_step [OF assms] lock_step_refl split: option.split)
  then show ?thesis by (cases "dispatch pf req v") (simp add: fetch_def split: sum.split)
qed

lemma history_locks_ok: "history now v \<Longrightarrow> locks_ok now (vol_store v)"
proof (induction rule: history.induct)
  case (history_start v)
  then show ?case by (simp add: locks_ok_def conflict_free_def)
next
  case (history_request now v pf req)
  then show ?case using locks_ok_step [OF fetch_step] locks_ok_later by blast
qed

text \<open>
  C12. Locks never contradict each other. Take a volume that started without locks and has served
  any requests, in any order, with the clock not going backwards, whatever statements and calls of
  the filesystem failed on the way, except that no lookup of locks failed while a LOCK was served
  (\<open>readLocks\<close> would take the failure for a resource without locks). Then two live locks with
  different tokens on one resource are both shared.
\<close>

theorem no_conflicting_locks:
  assumes "history now v"
  shows "conflict_free now (st_locks (vol_store v))"
  using history_locks_ok [OF assms] by (simp add: locks_ok_def)

text \<open>A client locks \<open>/a\<close> exclusively; the next client is refused.\<close>

definition fresh_volume :: "mem_fs volume" where
  "fresh_volume = sample_volume\<lparr>vol_store := sample_store\<lparr>st_locks := []\<rparr>\<rparr>"

definition lock_body :: "string list" where
  "lock_body = [''<lockinfo><lockscope><exclusive/></lockscope><locktype><write/></locktype></lockinfo>'']"

definition locked_volume :: "mem_fs volume" where
  "locked_volume = snd (fetch sample_platform (dav_request ''LOCK'' ''a'' [(''Depth'', ''0'')] (Some lock_body)) fresh_volume)"

theorem no_conflicting_locks_witness:
  "map k_path (st_locks (vol_store locked_volume)) = [''a''] \<and> conflict_free 1000 (st_locks (vol_store locked_volume))"
proof -
  have "history 0 fresh_volume" by (rule history_start) (simp add: fresh_volume_def)
  then have "history 1000 locked_volume"
    using history_request [of 0 fresh_volume sample_platform "dav_request ''LOCK'' ''a'' [(''Depth'', ''0'')] (Some lock_body)"]
    by (simp add: locked_volume_def sample_platform_def calm_env_def)
  moreover have "map k_path (st_locks (vol_store locked_volume)) = [''a'']" by code_simp
  ultimately show ?thesis using no_conflicting_locks by blast
qed

end
