(* ===== verification/Method_Findings.thy ===== *)
theory Method_Findings
  imports Lock_History
begin

section \<open>Behaviour worth knowing\<close>

text \<open>
  Runs of the model in which the worker does not do what its comments, or RFC 4918, promise.
  Each is a closed theorem about one request on the sample volume, whose file \<open>/a/b\<close> is
  locked exclusively under the token \<open>t1\<close>.
\<close>

definition status_after :: "request \<Rightarrow> mem_fs volume \<Rightarrow> nat" where
  "status_after req v = rs_status (fst (fetch sample_platform req v))"

text \<open>
  A LOCK without a \<open>Depth\<close> header takes an infinite exclusive lock on a collection although a
  member is locked by another client; the same request with \<open>Depth: infinity\<close> is refused.
\<close>

definition lock_collection :: "(string \<times> string) list \<Rightarrow> request" where
  "lock_collection headers = dav_request ''LOCK'' ''a'' headers (Some lock_body)"

lemma explicit_infinity_is_refused:
  "status_after (lock_collection [(''Depth'', ''infinity'')]) sample_volume = 423"
  by code_simp

lemma implicit_infinity_skips_descendant_check:
  "map (\<lambda>r. (k_path r, k_scope r, k_depth r))
       (st_locks (vol_store (snd (fetch sample_platform (lock_collection []) sample_volume)))) =
     [(''a/b'', Exclusive, Depth_0), (''a'', Exclusive, Depth_infinity)]"
  by code_simp

text \<open>A LOCK with an empty body, a refresh by its comment, creates a lock where there is none.\<close>

lemma empty_lock_body_creates_a_lock:
  "map (\<lambda>r. (k_path r, k_scope r))
       (st_locks (vol_store (snd (fetch sample_platform (dav_request ''LOCK'' ''ab'' [] None) sample_volume)))) =
     [(''a/b'', Exclusive), (''ab'', Exclusive)]"
  by code_simp

text \<open>A MOVE onto an ancestor of its source deletes the source with the destination and then fails.\<close>

definition move_up :: request where
  "move_up = dav_request ''MOVE'' ''a/b'' [(''Destination'', ''/o/v/a''), (''If'', ''('' @ held_token @ '')'')] None"

lemma move_onto_ancestor_loses_source:
  "status_after move_up sample_volume = 500 \<and> vol_fs (snd (fetch sample_platform move_up sample_volume)) = [(''/ab'', Some ''two'')]"
  by code_simp

end
