(* ===== verification/Replica_Sweep.thy ===== *)
theory Replica_Sweep
  imports Replica_Evidence Store
begin

section \<open>Replication: the resumable sweep\<close>

text \<open>
  Models \<open>packages/backend-services/src/replication/sweepWindow.ts\<close> and, from
  \<open>apps/background/src/replication\<close>, \<open>replicaBase.ts\<close>, \<open>replicaListing.ts\<close>,
  \<open>replicaTypes.ts\<close> and \<open>collectSlice.ts\<close>. The two sides a slice reads are the record
  \<open>sides\<close>: what a listing answers, or the message of what it throws. The clock is
  \<open>late n\<close>, whether the deadline has passed before the \<open>n\<close>-th step of the walk.
  A frontier is the list of its levels, the innermost one first. Log lines are left out.
\<close>

subsection \<open>\<open>sweepWindow.ts\<close>\<close>

fun sweep_cmp :: "string list \<Rightarrow> string list \<Rightarrow> int" where
  "sweep_cmp (a # as) (b # bs) = (if a = b then sweep_cmp as bs else if a < b then - 1 else 1)"
| "sweep_cmp as bs = int (length as) - int (length bs)"

definition sweepOrderCompare :: "string \<Rightarrow> string \<Rightarrow> int" where
  "sweepOrderCompare a b = (if a = b then 0 else sweep_cmp (split_path a) (split_path b))"

definition sweepSort :: "string list \<Rightarrow> string list" where
  "sweepSort = sort_by sweepOrderCompare"

fun ancestor_chain :: "string \<Rightarrow> string list \<Rightarrow> string list" where
  "ancestor_chain current [] = []"
| "ancestor_chain current (segment # rest) =
     (let next = (if current = [] then segment else current @ ''/'' @ segment)
      in next # ancestor_chain next rest)"

definition sweepAncestorChain :: "string \<Rightarrow> string list" where
  "sweepAncestorChain p = (if p = [] then [[]] else [] # ancestor_chain [] (split_path p))"

subsection \<open>\<open>replicaBase.ts\<close>\<close>

definition parentOf :: "string \<Rightarrow> string" where
  "parentOf p = (case last_index_of slash p of None \<Rightarrow> [] | Some k \<Rightarrow> take k p)"

definition toPlanBase :: "replica_row \<Rightarrow> plan_base" where
  "toPlanBase row = \<lparr>pb_path = rp_path row, pb_isCollection = rp_isCollection row,
     pb_localEtag = rp_localEtag row, pb_localMtime = rp_localMtime row, pb_localSize = rp_localSize row,
     pb_remoteEtag = rp_remoteEtag row, pb_remoteMtime = rp_remoteMtime row, pb_remoteSize = rp_remoteSize row,
     pb_contentType = rp_contentType row\<rparr>"

definition baseForVisited :: "replica_row list \<Rightarrow> string list \<Rightarrow> plan_base list" where
  "baseForVisited recorded visited =
     map toPlanBase (filter (\<lambda>row. rp_path row \<noteq> [] \<and> parentOf (rp_path row) \<in> set visited) recorded)"

subsection \<open>\<open>replicaListing.ts\<close>\<close>

record remote_listing =
  ls_entries :: "plan_side list"
  ls_complete :: bool

record replica_sides =
  sd_local :: "string \<Rightarrow> string + remote_listing"
  sd_remote :: "string \<Rightarrow> string + remote_listing"

record collection_listing =
  cl_children :: "string list"
  cl_local :: "plan_side list"
  cl_remote :: "plan_side list"
  cl_complete :: bool
  cl_errors :: nat
  cl_firstError :: "string option"

text \<open>\<open>JSON.stringify\<close> of a string.\<close>

definition json_char :: "char \<Rightarrow> string" where
  "json_char c =
     (if c = CHR 0x22 then CHR 0x5C # [c] else if c = CHR 0x5C then [c, c]
      else if c = CHR 0x08 then CHR 0x5C # ''b'' else if c = CHR 0x09 then CHR 0x5C # ''t''
      else if c = CHR 0x0A then CHR 0x5C # ''n'' else if c = CHR 0x0C then CHR 0x5C # ''f''
      else if c = CHR 0x0D then CHR 0x5C # ''r''
      else if code c < 32 then CHR 0x5C # ''u00'' @ to_lower [hex_digit (code c div 16), hex_digit (code c mod 16)]
      else [c])"

definition json_string :: "string \<Rightarrow> string" where
  "json_string s = CHR 0x22 # concat (map json_char s) @ [CHR 0x22]"

text \<open>The first of the errors seen.\<close>

definition or_else :: "'a option \<Rightarrow> 'a option \<Rightarrow> 'a option" where
  "or_else a b = (case a of Some x \<Rightarrow> Some x | None \<Rightarrow> b)"

definition unusable_error :: "string \<Rightarrow> string \<Rightarrow> plan_side list \<Rightarrow> string option" where
  "unusable_error path side entries =
     map_option (\<lambda>e. ''listing '' @ path @ '' '' @ side @ '': entry '' @ json_string (ps_path e) @ '' is not a usable path'')
       (find (\<lambda>e. \<not> isValidInnerPath (ps_path e)) entries)"

definition usable :: "plan_side list \<Rightarrow> plan_side list" where
  "usable entries = filter (\<lambda>e. isValidInnerPath (ps_path e)) entries"

definition note_children :: "string \<Rightarrow> string list \<Rightarrow> plan_side list \<Rightarrow> string list" where
  "note_children path visited entries =
     map ps_path (filter (\<lambda>e. ps_isCollection e \<and> ps_path e \<noteq> path \<and> ps_path e \<notin> set visited) entries)"

definition listCollection :: "replica_sides \<Rightarrow> string \<Rightarrow> string list \<Rightarrow> collection_listing" where
  "listCollection sides path visited =
     (let (listed, lcomplete, lerrors, lfirst) =
            (case sd_local sides path of
               Inl e \<Rightarrow> ([], False, 1, Some (''listing '' @ path @ '' locally: '' @ e))
             | Inr l \<Rightarrow> (ls_entries l, ls_complete l, 0, None));
          localEntries = usable listed;
          complete1 = (lcomplete \<and> usable listed = listed);
          first1 = or_else lfirst (unusable_error path ''locally'' listed);
          children1 = note_children path visited localEntries
      in case sd_remote sides path of
           Inl e \<Rightarrow>
             \<lparr>cl_children = sweepSort (dedup children1), cl_local = localEntries, cl_remote = [],
              cl_complete = complete1, cl_errors = lerrors + 1,
              cl_firstError = or_else first1 (Some (''listing '' @ path @ '' remotely: '' @ e))\<rparr>
         | Inr r \<Rightarrow>
             \<lparr>cl_children = sweepSort (dedup (children1 @ note_children path visited (usable (ls_entries r)))),
              cl_local = localEntries, cl_remote = usable (ls_entries r),
              cl_complete = (complete1 \<and> ls_complete r \<and> usable (ls_entries r) = ls_entries r),
              cl_errors = lerrors, cl_firstError = or_else first1 (unusable_error path ''remotely'' (ls_entries r))\<rparr>)"

subsection \<open>\<open>collectSlice.ts\<close>\<close>

type_synonym frontier = "(string list \<times> nat) list"

record sweep_state =
  sw_local :: "plan_side list"
  sw_remote :: "plan_side list"
  sw_visited :: "string list"
  sw_complete :: bool
  sw_errors :: nat
  sw_firstError :: "string option"
  sw_frontier :: frontier

definition fresh_sweep :: sweep_state where
  "fresh_sweep = \<lparr>sw_local = [], sw_remote = [], sw_visited = [], sw_complete = True, sw_errors = 0,
     sw_firstError = None, sw_frontier = []\<rparr>"

text \<open>\<open>Map.set\<close>: the last entry for a path is the one kept.\<close>

definition note_entries :: "plan_side list \<Rightarrow> plan_side list \<Rightarrow> plan_side list" where
  "note_entries entries seen = foldl (\<lambda>m e. upsert ps_path (\<lambda>_ new. new) e m) seen entries"

definition add_visited :: "string \<Rightarrow> sweep_state \<Rightarrow> sweep_state" where
  "add_visited p st = (if p \<in> set (sw_visited st) then st else st\<lparr>sw_visited := sw_visited st @ [p]\<rparr>)"

definition visit :: "replica_sides \<Rightarrow> string \<Rightarrow> sweep_state \<Rightarrow> string list \<times> sweep_state" where
  "visit sides path st0 =
     (let st = add_visited path st0; listing = listCollection sides path (sw_visited st)
      in (cl_children listing,
          st\<lparr>sw_local := note_entries (cl_local listing) (sw_local st),
             sw_remote := note_entries (cl_remote listing) (sw_remote st),
             sw_complete := (sw_complete st \<and> cl_complete listing),
             sw_errors := sw_errors st + cl_errors listing,
             sw_firstError := or_else (sw_firstError st) (cl_firstError listing)\<rparr>))"

fun position :: "'a \<Rightarrow> 'a list \<Rightarrow> nat option" where
  "position x [] = None"
| "position x (y # ys) = (if x = y then Some 0 else map_option Suc (position x ys))"

definition max_resume_depth :: nat where "max_resume_depth = 256"

text \<open>The loop of \<open>resumeFrontier\<close> over the pairs of a parent and its child on the chain.\<close>

fun resume_levels :: "replica_sides \<Rightarrow> (string \<times> string) list \<Rightarrow> sweep_state \<Rightarrow> bool \<times> sweep_state" where
  "resume_levels sides [] st = (True, st)"
| "resume_levels sides ((parent, child) # rest) st =
     (let (children, st1) = visit sides parent st
      in case position child children of
           None \<Rightarrow> (False, st1\<lparr>sw_frontier := []\<rparr>)
         | Some k \<Rightarrow> resume_levels sides rest (st1\<lparr>sw_frontier := (children, k + 1) # sw_frontier st1\<rparr>))"

definition resumeFrontier :: "replica_sides \<Rightarrow> string \<Rightarrow> sweep_state \<Rightarrow> bool \<times> sweep_state" where
  "resumeFrontier sides from st =
     (let chain = sweepAncestorChain from
      in if length chain > max_resume_depth then (False, st\<lparr>sw_frontier := []\<rparr>)
         else resume_levels sides (zip chain (tl chain)) st)"

text \<open>The next sibling, unwinding the levels that have none left.\<close>

fun next_sibling :: "frontier \<Rightarrow> string option \<times> frontier" where
  "next_sibling [] = (None, [])"
| "next_sibling ((children, next) # levels) =
     (if next < length children then (Some (children ! next), (children, next + 1) # levels)
      else next_sibling levels)"

text \<open>
  The walk: \<open>used\<close> collections of the budget \<open>limit\<close> are spent, \<open>free\<close> says that the next step
  does not spend any, \<open>n\<close> counts the steps. It yields where it stopped, the cursor, the state.
\<close>

function sweep_loop ::
    "replica_sides \<Rightarrow> nat \<Rightarrow> (nat \<Rightarrow> bool) \<Rightarrow> nat \<Rightarrow> bool \<Rightarrow> nat \<Rightarrow> string option \<Rightarrow> string option \<Rightarrow> sweep_state \<Rightarrow>
     string option \<times> string option \<times> sweep_state" where
  "sweep_loop sides limit late used free n current cursor st =
     (case current of
        None \<Rightarrow> (None, cursor, st)
      | Some c \<Rightarrow>
          if limit \<le> used \<or> late n then (Some c, cursor, st)
          else (let (children, st1) = visit sides c st;
                    used1 = (if free then used else used + 1);
                    cursor1 = (case cursor of None \<Rightarrow> Some c
                               | Some k \<Rightarrow> if sweepOrderCompare c k \<ge> 0 then Some c else Some k)
                in case children of
                     child # _ \<Rightarrow>
                       sweep_loop sides limit late used1 False (n + 1) (Some child) cursor1
                         (st1\<lparr>sw_frontier := (children, 1) # sw_frontier st1\<rparr>)
                   | [] \<Rightarrow>
                       (let (next, levels) = next_sibling (sw_frontier st1)
                        in sweep_loop sides limit late used1 False (n + 1) next cursor1 (st1\<lparr>sw_frontier := levels\<rparr>))))"
  by pat_completeness auto
termination
  by (relation "measure (\<lambda>(_, limit, _, used, free, _). 2 * (limit - used) + (if free then 1 else 0))") auto

declare sweep_loop.simps [simp del]

record slice =
  sl_local :: "plan_side list"
  sl_remote :: "plan_side list"
  sl_base :: "plan_base list"
  sl_complete :: bool
  sl_errors :: nat
  sl_firstError :: "string option"
  sl_remaining :: nat
  sl_cursor :: "string option"

text \<open>The walk of one slice, from where the previous one stopped.\<close>

definition sweep ::
    "replica_sides \<Rightarrow> nat \<Rightarrow> (nat \<Rightarrow> bool) \<Rightarrow> string option \<Rightarrow> string option \<times> string option \<times> sweep_state" where
  "sweep sides limit late resumeFrom =
     (case resumeFrom of
        None \<Rightarrow> sweep_loop sides limit late 0 False 0 (Some []) None fresh_sweep
      | Some from \<Rightarrow>
          (case resumeFrontier sides from fresh_sweep of
             (True, st) \<Rightarrow> sweep_loop sides limit late 0 True 0 (Some from) (Some from) st
           | (False, st) \<Rightarrow> sweep_loop sides limit late 0 False 0 (Some []) None st))"

definition frontier_left :: "frontier \<Rightarrow> nat" where
  "frontier_left levels = sum_list (map (\<lambda>(children, next). length children - next) levels)"

definition collectSlice ::
    "replica_sides \<Rightarrow> string + replica_row list \<Rightarrow> nat \<Rightarrow> (nat \<Rightarrow> bool) \<Rightarrow> string option \<Rightarrow> string + slice" where
  "collectSlice sides stateRows maxCollections late resumeFrom =
     (let (current, cursor, st) = sweep sides maxCollections late resumeFrom;
          exhausted = (current = None);
          left = frontier_left (sw_frontier st)
      in map_sum id (\<lambda>rows.
           \<lparr>sl_local = sw_local st, sl_remote = sw_remote st, sl_base = baseForVisited rows (sw_visited st),
            sl_complete = (sw_complete st \<and> sw_errors st = 0), sl_errors = sw_errors st,
            sl_firstError = sw_firstError st,
            sl_remaining = (if \<not> exhausted \<and> left = 0 then 1 else left),
            sl_cursor = (if exhausted then None else cursor)\<rparr>) stateRows)"

end
