(* ===== verification/Replica_Volume.thy ===== *)
theory Replica_Volume
  imports Replica_Sweep Repository
begin

section \<open>Replication: the volume's side\<close>

text \<open>
  Models \<open>packages/backend-services/src/replication/truncateError.ts\<close> and, from
  \<open>apps/background/src/dav\<close>, \<open>replicaOperations.ts\<close> and \<open>VolumeReplicationRpc.ts\<close>: what the cron
  runner may ask of a volume. A call yields the volume it leaves and the message it threw, if it
  did. The schema creation every entry point starts with is \<open>ensureReplicationSchema\<close>; the reads
  of files and listings, which do not depend on it, leave it out.
\<close>

subsection \<open>\<open>truncateError.ts\<close>\<close>

definition stored_error_length :: nat where "stored_error_length = 500"
definition truncated_error_length :: nat where "truncated_error_length = 300"

definition truncateReplicationError :: "string \<Rightarrow> string" where
  "truncateReplicationError message =
     (if length message > stored_error_length then take stored_error_length message else message)"

definition truncateReplicationReason :: "string \<Rightarrow> string" where
  "truncateReplicationReason message =
     (if length message > truncated_error_length then take truncated_error_length message else message)"

lemma truncate_take:
  "truncateReplicationError m = take stored_error_length m"
  "truncateReplicationReason m = take truncated_error_length m"
  by (simp_all add: truncateReplicationError_def truncateReplicationReason_def)

subsection \<open>\<open>replicaOperations.ts\<close>\<close>

text \<open>A step that may throw, and one step after another.\<close>

type_synonym 's step = "'s \<times> string option"

definition also_do :: "'s step \<Rightarrow> ('s \<Rightarrow> 's step) \<Rightarrow> 's step" where
  "also_do r f = (case r of (s, None) \<Rightarrow> f s | (s, Some e) \<Rightarrow> (s, Some e))"

definition fs_step :: "('fs \<Rightarrow> 'fs \<times> fs_error option) \<Rightarrow> 'fs volume \<Rightarrow> 'fs volume step" where
  "fs_step f v = (case on_fs f v of (v', e) \<Rightarrow> (v', map_option fe_message e))"

definition store_step :: "(store \<Rightarrow> outcome) \<Rightarrow> 'fs volume \<Rightarrow> 'fs volume step" where
  "store_step f v = (case f (vol_store v) of (st', e) \<Rightarrow> (v\<lparr>vol_store := st'\<rparr>, e))"

definition describe :: "'fs dofs \<Rightarrow> sql_env \<Rightarrow> 'fs volume \<Rightarrow> string \<Rightarrow> string + plan_side option" where
  "describe dofs env v path =
     map_sum id (\<lambda>st.
       if \<not> si_exists st then None
       else (let meta = readMeta env v path
             in Some \<lparr>ps_path = path, ps_isCollection = si_isDirectory st, ps_etag = m_etag meta,
                  ps_mtime = Some (case m_mtime meta of Some m \<Rightarrow> m | None \<Rightarrow> si_mtime st),
                  ps_size = Some (si_size st), ps_contentType = m_contentType meta\<rparr>))
       (requireStatInner dofs env v path)"

definition unusable_path :: "string \<Rightarrow> bool" where
  "unusable_path path \<longleftrightarrow> path = [] \<or> \<not> isValidInnerPath path"

definition replica_mkdir :: "'fs dofs \<Rightarrow> sql_env \<Rightarrow> string \<Rightarrow> 'fs volume \<Rightarrow> 'fs volume step" where
  "replica_mkdir dofs env path v =
     (if unusable_path path then (v, Some (''replication mkdir: invalid path '' @ json_string path))
      else (let parent = getParentPath path;
                segments = split_path parent;
                v1 = (if parent = [] then v
                      else foldl (\<lambda>w i. upsertCollectionNode env (join_path (take i segments)) w)
                             (fst (fs_step (\<lambda>fs. fs_mkdir dofs fs (fsPathOf parent) True) v))
                             [1..<length segments + 1]);
                v2 = fst (fs_step (\<lambda>fs. fs_mkdir dofs fs (fsPathOf path) False) v1)
            in (upsertCollectionNode env path v2, None)))"

datatype payload = Stream string | Bytes string

definition payload_bytes :: "payload \<Rightarrow> string" where
  "payload_bytes p = (case p of Stream b \<Rightarrow> b | Bytes b \<Rightarrow> b)"

definition payload_size :: "payload \<Rightarrow> nat" where
  "payload_size p = (case p of Stream _ \<Rightarrow> 0 | Bytes b \<Rightarrow> length b)"

definition octet_stream :: string where "octet_stream = ''application/octet-stream''"

definition replica_write ::
    "'fs dofs \<Rightarrow> sql_env \<Rightarrow> string \<Rightarrow> string option \<Rightarrow> payload \<Rightarrow> 'fs volume \<Rightarrow> 'fs volume step" where
  "replica_write dofs env path contentType data v =
     (if unusable_path path then (v, Some (''replication write: invalid path '' @ json_string path))
      else (let parent = getParentPath path
            in also_do (also_do (if parent = [] then (v, None) else replica_mkdir dofs env parent v)
                 (fs_step (\<lambda>fs. fs_writeFile dofs fs (fsPathOf path) (payload_bytes data))))
                 (\<lambda>v1. (upsertFileNode env path (case contentType of Some c \<Rightarrow> c | None \<Rightarrow> octet_stream)
                          (mint_etag (payload_size data) (se_now env)) (Some (se_now env)) v1, None))))"

definition unlink_child :: "'fs dofs \<Rightarrow> sql_env \<Rightarrow> 'fs volume \<Rightarrow> string \<Rightarrow> 'fs volume" where
  "unlink_child dofs env v child =
     (let st = statInner dofs env v child
      in if si_exists st \<and> \<not> si_isDirectory st then fst (fs_step (\<lambda>fs. fs_unlink dofs fs (fsPathOf child)) v) else v)"

definition replica_unlink :: "'fs dofs \<Rightarrow> sql_env \<Rightarrow> string \<Rightarrow> bool \<Rightarrow> 'fs volume \<Rightarrow> 'fs volume step" where
  "replica_unlink dofs env path recursive v =
     (if unusable_path path then (v, Some (''replication unlink: invalid path '' @ json_string path))
      else (let st = statInner dofs env v path
            in if \<not> si_exists st then store_step (deleteNodeCascade env path) v
               else also_do
                 (if si_isDirectory st
                  then fs_step (\<lambda>fs. fs_rmdir dofs fs (fsPathOf path) recursive)
                         (if recursive then foldl (unlink_child dofs env) v (listRecursive dofs v path) else v)
                  else fs_step (\<lambda>fs. fs_unlink dofs fs (fsPathOf path)) v)
                 (store_step (deleteNodeCascade env path))))"

definition copy_property :: "sql_env \<Rightarrow> string \<Rightarrow> dead_property \<Rightarrow> store \<Rightarrow> outcome" where
  "copy_property env to property =
     run_all [upsertNode env to \<lparr>nf_isCollection = True, nf_contentType = None, nf_etag = None, nf_mtime = None,
                nf_crtime = None, nf_lockNull = False\<rparr>,
              upsertDeadProperty env to property]"

definition replica_copy :: "'fs dofs \<Rightarrow> sql_env \<Rightarrow> string \<Rightarrow> string \<Rightarrow> 'fs volume \<Rightarrow> 'fs volume step" where
  "replica_copy dofs env from to v =
     (if unusable_path from \<or> unusable_path to
      then (v, Some (''replication copy: invalid paths '' @ json_string from @ '' -> '' @ json_string to))
      else (let st = statInner dofs env v from; meta = readMeta env v from
            in if \<not> si_exists st then (v, Some (''replication copy: '' @ from @ '' does not exist''))
               else if si_isDirectory st
               then also_do (replica_mkdir dofs env to v)
                 (\<lambda>v1. case getDeadProperties env from (vol_store v1) of
                    Inl e \<Rightarrow> (v1, Some e)
                  | Inr properties \<Rightarrow> store_step (run_all (map (copy_property env to) properties)) v1)
               else (case fs_read dofs (vol_fs v) (fsPathOf from) None of
                  Inl e \<Rightarrow> (v, Some (fe_message e))
                | Inr bytes \<Rightarrow>
                    also_do (also_do (replica_mkdir dofs env (getParentPath to) v)
                      (fs_step (\<lambda>fs. fs_writeFile dofs fs (fsPathOf to) bytes)))
                      (\<lambda>v1. (upsertFileNode env to (case m_contentType meta of Some c \<Rightarrow> c | None \<Rightarrow> octet_stream)
                               (mint_etag (length bytes) (se_now env)) (Some (se_now env)) v1, None)))))"

subsection \<open>\<open>VolumeReplicationRpc.ts\<close>\<close>

datatype replica_operation =
    Op_mkdir string
  | Op_write string "string option" payload
  | Op_unlink string bool
  | Op_copy string string
  | Op_record replica_row
  | Op_forget string
  | Op_touch string

record apply_result =
  ar_applied :: nat
  ar_failed :: nat
  ar_error :: "string option"

text \<open>The children named by a listing that are valid paths and still there.\<close>

fun described_children ::
    "'fs dofs \<Rightarrow> sql_env \<Rightarrow> 'fs volume \<Rightarrow> string \<Rightarrow> string list \<Rightarrow> string + plan_side list" where
  "described_children dofs env v parent [] = Inr []"
| "described_children dofs env v parent (name # names) =
     (let child = childInner parent name
      in if \<not> isValidInnerPath child then described_children dofs env v parent names
         else (case describe dofs env v child of
                 Inl e \<Rightarrow> Inl e
               | Inr d \<Rightarrow> map_sum id (\<lambda>ds. (case d of None \<Rightarrow> ds | Some e \<Rightarrow> e # ds))
                   (described_children dofs env v parent names)))"

definition listReplicaChildren :: "'fs dofs \<Rightarrow> sql_env \<Rightarrow> 'fs volume \<Rightarrow> string \<Rightarrow> string + remote_listing" where
  "listReplicaChildren dofs env v parent =
     (if \<not> isValidInnerPath parent then Inr \<lparr>ls_entries = [], ls_complete = False\<rparr>
      else (case (if parent = [] then Inr None else describe dofs env v parent) of
              Inl e \<Rightarrow> Inl e
            | Inr self \<Rightarrow>
                (case requireChildren dofs v parent of
                   Inl e \<Rightarrow> Inl e
                 | Inr names \<Rightarrow>
                     map_sum id (\<lambda>ds. \<lparr>ls_entries = (case self of None \<Rightarrow> ds | Some e \<Rightarrow> e # ds), ls_complete = True\<rparr>)
                       (described_children dofs env v parent names))))"

definition loadState :: "sql_env \<Rightarrow> 'fs volume \<Rightarrow> string \<Rightarrow> string + replica_row list" where
  "loadState env v replicationId = loadReplicaState env replicationId (ensureReplicationSchema (vol_store v))"

definition ensure_schema :: "'fs volume \<Rightarrow> 'fs volume" where
  "ensure_schema v = v\<lparr>vol_store := ensureReplicationSchema (vol_store v)\<rparr>"

definition forgetState :: "sql_env \<Rightarrow> string \<Rightarrow> 'fs volume \<Rightarrow> 'fs volume step" where
  "forgetState env replicationId v = store_step (forgetReplication env replicationId) (ensure_schema v)"

text \<open>What a batch has collected for the end: rows to record and paths to forget.\<close>

type_synonym bookkeeping = "replica_row list \<times> string list"

definition applyOne ::
    "'fs dofs \<Rightarrow> sql_env \<Rightarrow> string \<Rightarrow> replica_operation \<Rightarrow> 'fs volume \<times> bookkeeping \<Rightarrow> ('fs volume \<times> bookkeeping) step" where
  "applyOne dofs env replicationId operation s =
     (case s of (v, records, forgetPaths) \<Rightarrow>
        (let mutated = (\<lambda>(v', e). ((v', records, forgetPaths), e))
         in case operation of
              Op_mkdir p \<Rightarrow> mutated (replica_mkdir dofs env p v)
            | Op_write p ct data \<Rightarrow> mutated (replica_write dofs env p ct data v)
            | Op_unlink p recursive \<Rightarrow> mutated (replica_unlink dofs env p recursive v)
            | Op_copy from to \<Rightarrow> mutated (replica_copy dofs env from to v)
            | Op_record row \<Rightarrow> ((v, records @ [row], forgetPaths), None)
            | Op_forget p \<Rightarrow> ((v, records, forgetPaths @ [p]), None)
            | Op_touch p \<Rightarrow>
                (case loadReplicaState env replicationId (vol_store v) of
                   Inl e \<Rightarrow> ((v, records, forgetPaths), Some e)
                 | Inr rows \<Rightarrow>
                     (case find (\<lambda>r. rp_path r = p) rows of
                        None \<Rightarrow> ((v, records, forgetPaths), None)
                      | Some row \<Rightarrow> ((v, records @ [row\<lparr>rp_syncedAt := se_now env\<rparr>], forgetPaths), None)))))"

fun apply_all ::
    "'fs dofs \<Rightarrow> sql_env \<Rightarrow> string \<Rightarrow> replica_operation list \<Rightarrow> ('fs volume \<times> bookkeeping) \<times> apply_result
     \<Rightarrow> ('fs volume \<times> bookkeeping) \<times> apply_result" where
  "apply_all dofs env replicationId [] (s, res) = (s, res)"
| "apply_all dofs env replicationId (operation # rest) (s, res) =
     apply_all dofs env replicationId rest
       (case applyOne dofs env replicationId operation s of
          (s', None) \<Rightarrow> (s', res\<lparr>ar_applied := ar_applied res + 1\<rparr>)
        | (s', Some e) \<Rightarrow> (s', res\<lparr>ar_failed := ar_failed res + 1,
            ar_error := or_else (ar_error res) (Some (truncateReplicationReason e))\<rparr>))"

definition no_result :: apply_result where
  "no_result = \<lparr>ar_applied = 0, ar_failed = 0, ar_error = None\<rparr>"

definition applyReplicaOperations ::
    "'fs dofs \<Rightarrow> sql_env \<Rightarrow> string \<Rightarrow> replica_operation list \<Rightarrow> 'fs volume \<Rightarrow> 'fs volume \<times> (string + apply_result)" where
  "applyReplicaOperations dofs env replicationId operations v0 =
     (case apply_all dofs env replicationId operations ((ensure_schema v0, [], []), no_result) of
        ((v, records, forgetPaths), res) \<Rightarrow>
          (case also_do (if records = [] then (v, None) else store_step (saveReplicaState env replicationId records) v)
                  (\<lambda>w. if forgetPaths = [] then (w, None)
                        else store_step (forgetReplicaPaths env replicationId forgetPaths) w) of
             (v', None) \<Rightarrow> (v', Inr res)
           | (v', Some e) \<Rightarrow> (v', Inl e)))"

definition readReplicaBytes :: "'fs dofs \<Rightarrow> sql_env \<Rightarrow> 'fs volume \<Rightarrow> string \<Rightarrow> string option" where
  "readReplicaBytes dofs env v path =
     (if unusable_path path then None
      else (let st = statInner dofs env v path
            in if \<not> si_exists st \<or> si_isDirectory st then None
               else (case fs_read dofs (vol_fs v) (fsPathOf path) None of Inr b \<Rightarrow> Some b | Inl _ \<Rightarrow> None)))"

definition readReplicaStream :: "'fs dofs \<Rightarrow> sql_env \<Rightarrow> 'fs volume \<Rightarrow> string \<Rightarrow> string + string option" where
  "readReplicaStream dofs env v path =
     (if unusable_path path then Inr None
      else map_sum id (\<lambda>st.
        if \<not> si_exists st \<or> si_isDirectory st then None
        else (case fs_readFile dofs (vol_fs v) (fsPathOf path) of Inr b \<Rightarrow> Some b | Inl _ \<Rightarrow> None))
        (requireStatInner dofs env v path))"

end
