(* ===== verification/Replica_Remote.thy ===== *)
theory Replica_Remote
  imports Replica_Volume
begin

section \<open>Replication: the two sides as interfaces\<close>

text \<open>
  The interfaces \<open>LocalReplicaStub\<close> (\<open>apps/background/src/replication/replicaTypes.ts\<close>) and
  \<open>RemoteVolume\<close> (\<open>packages/backend-services/src/replication/remote/RemoteVolume.ts\<close>) as records
  of functions over a state of any type, the stub a \<open>DavVolumeWorker\<close> presents, and the remote
  \<open>remote/DavVolumeRemote.ts\<close> builds on the stub of a sibling volume. A stream is the bytes it
  yields. A call that throws gives its message.
\<close>

subsection \<open>The interfaces\<close>

record 'l replica_stub =
  stub_list :: "'l \<Rightarrow> string \<Rightarrow> string + remote_listing"
  stub_stream :: "'l \<Rightarrow> string \<Rightarrow> string + string option"
  stub_bytes :: "'l \<Rightarrow> string \<Rightarrow> string + string option"
  stub_apply :: "string \<Rightarrow> replica_operation list \<Rightarrow> 'l \<Rightarrow> 'l \<times> (string + apply_result)"
  stub_rows :: "'l \<Rightarrow> string \<Rightarrow> string + replica_row list"
  stub_forget :: "string \<Rightarrow> 'l \<Rightarrow> 'l step"

record 'r remote_volume =
  rv_list :: "'r \<Rightarrow> string \<Rightarrow> string + remote_listing"
  rv_stat :: "'r \<Rightarrow> string \<Rightarrow> string + plan_side option"
  rv_readFile :: "'r \<Rightarrow> string \<Rightarrow> string + string option"
  rv_writeFile :: "string \<Rightarrow> payload \<Rightarrow> string option \<Rightarrow> 'r \<Rightarrow> 'r step"
  rv_makeCollection :: "string \<Rightarrow> 'r \<Rightarrow> 'r step"
  rv_remove :: "string \<Rightarrow> bool \<Rightarrow> 'r \<Rightarrow> 'r step"
  rv_probe :: "'r \<Rightarrow> string + string list"

text \<open>What \<open>collectSlice\<close> reads of the two sides.\<close>

definition sides_of :: "'l replica_stub \<Rightarrow> 'r remote_volume \<Rightarrow> 'l \<Rightarrow> 'r \<Rightarrow> replica_sides" where
  "sides_of stub rv l r = \<lparr>sd_local = stub_list stub l, sd_remote = rv_list rv r\<rparr>"

subsection \<open>The stub of a volume worker\<close>

definition volume_stub :: "'fs dofs \<Rightarrow> sql_env \<Rightarrow> 'fs volume replica_stub" where
  "volume_stub dofs env = \<lparr>
     stub_list = listReplicaChildren dofs env,
     stub_stream = readReplicaStream dofs env,
     stub_bytes = (\<lambda>v p. Inr (readReplicaBytes dofs env v p)),
     stub_apply = applyReplicaOperations dofs env,
     stub_rows = loadState env,
     stub_forget = forgetState env\<rparr>"

subsection \<open>\<open>DavVolumeRemote.ts\<close>\<close>

record volume_target =
  vt_owner :: string
  vt_volume :: string
  vt_remotePath :: string
  vt_replicationId :: string

definition withRoot :: "volume_target \<Rightarrow> string \<Rightarrow> string + string" where
  "withRoot t remotePath =
     (if list_ex (\<lambda>s. s = ''..'' \<or> s = ''.'') (split_path remotePath)
      then Inl (''refusing to resolve a replication path containing '' @ CHR 0x22 # ''..'' @ CHR 0x22 # '': '' @ remotePath)
      else Inr (let root = stripSlashes (vt_remotePath t)
                in if root = [] then remotePath else if remotePath = [] then root else root @ ''/'' @ remotePath))"

text \<open>\<open>after_root t p f\<close>: go on with the path inside the sibling volume.\<close>

definition after_root :: "volume_target \<Rightarrow> string \<Rightarrow> (string \<Rightarrow> string + 'a) \<Rightarrow> string + 'a" where
  "after_root t p f = (case withRoot t p of Inl e \<Rightarrow> Inl e | Inr inner \<Rightarrow> f inner)"

definition sibling_children :: "'l replica_stub \<Rightarrow> 'l \<Rightarrow> string \<Rightarrow> string + remote_listing" where
  "sibling_children stub l inner =
     (case stub_list stub l inner of
        Inl e \<Rightarrow> Inl (''listing '' @ inner @ '' on the sibling volume failed: '' @ e)
      | Inr listing \<Rightarrow> Inr listing)"

definition dvr_list :: "'l replica_stub \<Rightarrow> volume_target \<Rightarrow> 'l \<Rightarrow> string \<Rightarrow> string + remote_listing" where
  "dvr_list stub t l path = after_root t path (\<lambda>inner.
     map_sum id (\<lambda>listing.
       let volumePrefix = (if inner = [] then [] else inner @ ''/'');
           callerPrefix = (if path = [] then [] else path @ ''/'')
       in \<lparr>ls_entries = map (\<lambda>e. e\<lparr>ps_path := callerPrefix @ drop (length volumePrefix) (ps_path e)\<rparr>)
             (filter (\<lambda>e. ps_path e \<noteq> inner) (ls_entries listing)),
           ls_complete = ls_complete listing\<rparr>)
       (sibling_children stub l inner))"

definition dvr_stat :: "'l replica_stub \<Rightarrow> volume_target \<Rightarrow> 'l \<Rightarrow> string \<Rightarrow> string + plan_side option" where
  "dvr_stat stub t l path =
     (if path = [] then Inr None
      else after_root t path (\<lambda>inner.
        let parent = parentOf inner
        in case sibling_children stub l parent of
             Inl e \<Rightarrow> Inl e
           | Inr siblings \<Rightarrow>
               (case find (\<lambda>e. ps_path e = inner) (ls_entries siblings) of
                  Some found \<Rightarrow> Inr (Some (found\<lparr>ps_path := path\<rparr>))
                | None \<Rightarrow> if \<not> ls_complete siblings
                    then Inl (''listing '' @ parent @ '' on the sibling volume was incomplete'') else Inr None)))"

definition dvr_readFile :: "'l replica_stub \<Rightarrow> volume_target \<Rightarrow> 'l \<Rightarrow> string \<Rightarrow> string + string option" where
  "dvr_readFile stub t l path = after_root t path (stub_stream stub l)"

text \<open>One operation on the sibling, with the message for a batch that failed.\<close>

definition sibling_apply ::
    "'l replica_stub \<Rightarrow> volume_target \<Rightarrow> string \<Rightarrow> string \<Rightarrow> (string \<Rightarrow> replica_operation) \<Rightarrow> string \<Rightarrow> 'l \<Rightarrow> 'l step" where
  "sibling_apply stub t doing where_to operation path l =
     (case withRoot t path of
        Inl e \<Rightarrow> (l, Some e)
      | Inr inner \<Rightarrow>
          (case stub_apply stub (vt_replicationId t) [operation inner] l of
             (l', Inl e) \<Rightarrow> (l', Some e)
           | (l', Inr result) \<Rightarrow>
               (l', if ar_failed result > 0
                    then Some (doing @ '' '' @ inner @ '' '' @ where_to @ '' the sibling volume failed: '' @
                      (case ar_error result of Some e \<Rightarrow> e | None \<Rightarrow> ''unknown error''))
                    else None)))"

definition dvr_writeFile ::
    "'l replica_stub \<Rightarrow> volume_target \<Rightarrow> string \<Rightarrow> payload \<Rightarrow> string option \<Rightarrow> 'l \<Rightarrow> 'l step" where
  "dvr_writeFile stub t path body contentType l =
     (if path = [] then (l, Some ''cannot write to the replication root itself'')
      else sibling_apply stub t ''writing'' ''to'' (\<lambda>inner. Op_write inner contentType body) path l)"

definition dvr_makeCollection :: "'l replica_stub \<Rightarrow> volume_target \<Rightarrow> string \<Rightarrow> 'l \<Rightarrow> 'l step" where
  "dvr_makeCollection stub t path l =
     (if path = [] then (l, None) else sibling_apply stub t ''creating'' ''on'' Op_mkdir path l)"

definition dvr_remove :: "'l replica_stub \<Rightarrow> volume_target \<Rightarrow> string \<Rightarrow> bool \<Rightarrow> 'l \<Rightarrow> 'l step" where
  "dvr_remove stub t path recursive l =
     (if path = [] then (l, Some ''refusing to delete the replication root'')
      else sibling_apply stub t ''deleting'' ''from'' (\<lambda>inner. Op_unlink inner recursive) path l)"

definition dvr_probe :: "'l replica_stub \<Rightarrow> volume_target \<Rightarrow> 'l \<Rightarrow> string + string list" where
  "dvr_probe stub t l =
     (case sibling_children stub l (stripSlashes (vt_remotePath t)) of
        Inl e \<Rightarrow> Inl (''sibling volume '' @ normalizeVolumeKey (vt_owner t) (vt_volume t) @ '' could not be read: '' @ e)
      | Inr _ \<Rightarrow> Inr [''1'', ''2''])"

definition volume_remote :: "'l replica_stub \<Rightarrow> volume_target \<Rightarrow> 'l remote_volume" where
  "volume_remote stub t = \<lparr>
     rv_list = dvr_list stub t,
     rv_stat = dvr_stat stub t,
     rv_readFile = dvr_readFile stub t,
     rv_writeFile = dvr_writeFile stub t,
     rv_makeCollection = dvr_makeCollection stub t,
     rv_remove = dvr_remove stub t,
     rv_probe = dvr_probe stub t\<rparr>"

end
