(* ===== verification/Replica_Exec.thy ===== *)
theory Replica_Exec
  imports Replica_Remote Replica_Plan
begin

section \<open>Replication: carrying out a plan\<close>

text \<open>
  Models \<open>planTransfers.ts\<close> and \<open>PlanExecutor.ts\<close> of \<open>apps/background/src/replication\<close>. An
  action runs on the states of the two sides and yields a value or the message it threw.
  \<open>hash\<close> is SHA-256, \<open>late n\<close> says whether the deadline has passed before the \<open>n\<close>-th decision,
  \<open>now\<close> is the clock. Log lines are left out.
\<close>

subsection \<open>Actions\<close>

type_synonym ('l, 'r, 'a) act = "'l \<times> 'r \<Rightarrow> ('l \<times> 'r) \<times> (string + 'a)"

definition act_value :: "'a \<Rightarrow> ('l, 'r, 'a) act" where "act_value a s = (s, Inr a)"

definition act_throw :: "string \<Rightarrow> ('l, 'r, 'a) act" where "act_throw e s = (s, Inl e)"

definition act_bind :: "('l, 'r, 'a) act \<Rightarrow> ('a \<Rightarrow> ('l, 'r, 'b) act) \<Rightarrow> ('l, 'r, 'b) act" where
  "act_bind m f s = (case m s of (s', Inl e) \<Rightarrow> (s', Inl e) | (s', Inr a) \<Rightarrow> f a s')"

definition on_remote :: "('r \<Rightarrow> 'r step) \<Rightarrow> ('l, 'r, unit) act" where
  "on_remote f = (\<lambda>(l, r). case f r of (r', None) \<Rightarrow> ((l, r'), Inr ()) | (r', Some e) \<Rightarrow> ((l, r'), Inl e))"

definition read_local :: "('l \<Rightarrow> string + 'a) \<Rightarrow> ('l, 'r, 'a) act" where
  "read_local f s = (s, f (fst s))"

definition read_remote :: "('r \<Rightarrow> string + 'a) \<Rightarrow> ('l, 'r, 'a) act" where
  "read_remote f s = (s, f (snd s))"

subsection \<open>\<open>planTransfers.ts\<close>\<close>

record ('l, 'r) transfer =
  tc_stub :: "'l replica_stub"
  tc_remote :: "'r remote_volume"
  tc_id :: string
  tc_slice :: slice

definition entry_at :: "string \<Rightarrow> plan_side list \<Rightarrow> plan_side option" where
  "entry_at path entries = find (\<lambda>e. ps_path e = path) entries"

definition is_collection_at :: "string \<Rightarrow> plan_side list \<Rightarrow> bool" where
  "is_collection_at path entries = (case entry_at path entries of Some e \<Rightarrow> ps_isCollection e | None \<Rightarrow> False)"

text \<open>A batch of local operations; a failed one is thrown (\<open>TransferContext.applied\<close>).\<close>

definition apply_local :: "('l, 'r) transfer \<Rightarrow> replica_operation list \<Rightarrow> string \<Rightarrow> ('l, 'r, unit) act" where
  "apply_local tc operations what = (\<lambda>(l, r).
     case stub_apply (tc_stub tc) (tc_id tc) operations l of
       (l', Inl e) \<Rightarrow> ((l', r), Inl e)
     | (l', Inr result) \<Rightarrow>
         ((l', r), if ar_failed result > 0
                   then Inl (case ar_error result of Some e \<Rightarrow> e | None \<Rightarrow> what @ '' failed'') else Inr ()))"

definition pushTransfer :: "('l, 'r) transfer \<Rightarrow> string \<Rightarrow> ('l, 'r, nat option) act" where
  "pushTransfer tc path =
     (case entry_at path (sl_local (tc_slice tc)) of
        None \<Rightarrow> act_throw (''the local side has no entry for '' @ path)
      | Some localEntry \<Rightarrow>
          if ps_isCollection localEntry
          then act_bind (on_remote (rv_makeCollection (tc_remote tc) path)) (\<lambda>_. act_value (Some 0))
          else act_bind (read_local (\<lambda>l. stub_stream (tc_stub tc) l path)) (\<lambda>stream.
            case stream of
              None \<Rightarrow> act_throw (''the local file '' @ path @ '' could not be read'')
            | Some bytes \<Rightarrow>
                act_bind (on_remote (rv_writeFile (tc_remote tc) path (Stream bytes) (ps_contentType localEntry)))
                  (\<lambda>_. act_value (Some (case ps_size localEntry of Some n \<Rightarrow> n | None \<Rightarrow> 0)))))"

text \<open>The entry the slice saw, or else what the remote answers now.\<close>

definition remote_entry :: "('l, 'r) transfer \<Rightarrow> string \<Rightarrow> ('l, 'r, plan_side option) act" where
  "remote_entry tc path =
     (case entry_at path (sl_remote (tc_slice tc)) of
        Some e \<Rightarrow> act_value (Some e) | None \<Rightarrow> read_remote (\<lambda>r. rv_stat (tc_remote tc) r path))"

definition pullTransfer :: "('l, 'r) transfer \<Rightarrow> string \<Rightarrow> string option \<Rightarrow> ('l, 'r, nat option) act" where
  "pullTransfer tc path contentType =
     act_bind (remote_entry tc path) (\<lambda>entry.
       case entry of
         None \<Rightarrow> act_throw (''the remote has no entry for '' @ path)
       | Some remoteEntry \<Rightarrow>
           if ps_isCollection remoteEntry
           then act_bind (apply_local tc [Op_mkdir path] ''local mkdir'') (\<lambda>_. act_value (Some 0))
           else act_bind (read_remote (\<lambda>r. rv_readFile (tc_remote tc) r path)) (\<lambda>stream.
             case stream of
               None \<Rightarrow> act_throw (''the remote file '' @ path @ '' could not be read'')
             | Some bytes \<Rightarrow>
                 act_bind (apply_local tc [Op_write path contentType (Stream bytes)] ''local write'')
                   (\<lambda>_. act_value (Some (case ps_size remoteEntry of Some n \<Rightarrow> n | None \<Rightarrow> 0)))))"

definition remoteToLocal :: "('l, 'r) transfer \<Rightarrow> string \<Rightarrow> string option \<Rightarrow> ('l, 'r, unit) act" where
  "remoteToLocal tc path contentType =
     act_bind (read_remote (\<lambda>r. rv_readFile (tc_remote tc) r path)) (\<lambda>stream.
       case stream of
         None \<Rightarrow> act_value ()
       | Some bytes \<Rightarrow> apply_local tc [Op_write path contentType (Stream bytes)] ''writing the remote version locally'')"

definition preserveConflictingCollection :: "('l, 'r) transfer \<Rightarrow> string \<Rightarrow> string \<Rightarrow> ('l, 'r, bool) act" where
  "preserveConflictingCollection tc path conflictPath =
     (if is_collection_at path (sl_local (tc_slice tc))
      then act_bind (on_remote (rv_makeCollection (tc_remote tc) conflictPath)) (\<lambda>_. act_value True)
      else if \<not> is_collection_at path (sl_remote (tc_slice tc)) \<or> entry_at path (sl_local (tc_slice tc)) \<noteq> None
      then act_value False
      else act_bind (apply_local tc [Op_mkdir conflictPath] ''writing the conflict collection'') (\<lambda>_. act_value True))"

definition keepBoth :: "('l, 'r) transfer \<Rightarrow> string \<Rightarrow> string \<Rightarrow> ('l, 'r, unit) act" where
  "keepBoth tc path conflictPath =
     act_bind (preserveConflictingCollection tc path conflictPath) (\<lambda>handled.
       if handled then act_value ()
       else (let localEntry = entry_at path (sl_local (tc_slice tc)) in
         act_bind
           (act_bind
             (if entry_at path (sl_remote (tc_slice tc)) = None \<or> is_collection_at path (sl_remote (tc_slice tc))
              then act_value None else read_remote (\<lambda>r. rv_readFile (tc_remote tc) r path))
             (\<lambda>remoteStream. case remoteStream of
                None \<Rightarrow> act_value ()
              | Some bytes \<Rightarrow> apply_local tc
                  [Op_write conflictPath (Option.bind localEntry ps_contentType) (Stream bytes)]
                  ''writing the conflict copy locally''))
           (\<lambda>_. case localEntry of
              None \<Rightarrow> act_value ()
            | Some entry \<Rightarrow>
                if ps_isCollection entry then act_value ()
                else act_bind (read_local (\<lambda>l. stub_stream (tc_stub tc) l path)) (\<lambda>localStream.
                  case localStream of
                    None \<Rightarrow> act_value ()
                  | Some bytes \<Rightarrow>
                      on_remote (rv_writeFile (tc_remote tc) conflictPath (Stream bytes) (ps_contentType entry))))))"

definition pullAndPreserve :: "('l, 'r) transfer \<Rightarrow> string \<Rightarrow> string \<Rightarrow> string option \<Rightarrow> ('l, 'r, unit) act" where
  "pullAndPreserve tc path conflictPath contentType =
     act_bind (remote_entry tc path) (\<lambda>remoteEntry.
       let localEntry = entry_at path (sl_local (tc_slice tc));
           remoteIsCollection = (case remoteEntry of Some e \<Rightarrow> ps_isCollection e | None \<Rightarrow> False)
       in case localEntry of
            None \<Rightarrow>
              if remoteIsCollection then apply_local tc [Op_mkdir path] ''local mkdir''
              else remoteToLocal tc path contentType
          | Some local_entry \<Rightarrow>
              if ps_isCollection local_entry
              then (if remoteIsCollection then apply_local tc [Op_mkdir path] ''local mkdir''
                    else remoteToLocal tc path contentType)
              else if remoteIsCollection
              then act_bind (apply_local tc [Op_mkdir conflictPath] ''writing the conflict collection'') (\<lambda>_.
                   act_bind (apply_local tc [Op_unlink path False] ''replacing a file with a collection'') (\<lambda>_.
                   apply_local tc [Op_mkdir path] ''local mkdir''))
              else act_bind (read_local (\<lambda>l. stub_stream (tc_stub tc) l path)) (\<lambda>localStream.
                case localStream of
                  None \<Rightarrow> act_value ()
                | Some bytes \<Rightarrow>
                    act_bind (apply_local tc [Op_write conflictPath (ps_contentType local_entry) (Stream bytes)]
                      ''preserving the local version'') (\<lambda>_. remoteToLocal tc path contentType)))"

definition compareContent ::
    "(string \<Rightarrow> string) \<Rightarrow> ('l, 'r) transfer \<Rightarrow> string \<Rightarrow> winner \<Rightarrow> ('l, 'r, nat option) act" where
  "compareContent hash tc path winner =
     act_bind (read_local (\<lambda>l. stub_bytes (tc_stub tc) l path)) (\<lambda>localBytes.
     act_bind (read_remote (\<lambda>r. rv_readFile (tc_remote tc) r path)) (\<lambda>remoteStream.
       case localBytes of
         None \<Rightarrow> act_throw (''the local file '' @ path @ '' could not be read'')
       | Some a \<Rightarrow>
           (case remoteStream of
              None \<Rightarrow> act_throw (''the remote file '' @ path @ '' could not be read'')
            | Some b \<Rightarrow>
                if hash a = hash b then act_value (Some 0)
                else if winner = Local then pushTransfer tc path
                else pullTransfer tc path
                  (case entry_at path (sl_remote (tc_slice tc)) of Some e \<Rightarrow> ps_contentType e | None \<Rightarrow> None))))"

subsection \<open>\<open>PlanExecutor.ts\<close>\<close>

definition applyDecision :: "(string \<Rightarrow> string) \<Rightarrow> ('l, 'r) transfer \<Rightarrow> decision \<Rightarrow> ('l, 'r, nat option) act" where
  "applyDecision hash tc d =
     (case d of
        Push p ct \<Rightarrow> pushTransfer tc p
      | Pull p ct \<Rightarrow> pullTransfer tc p ct
      | Delete_remote p \<Rightarrow> act_bind (on_remote (rv_remove (tc_remote tc) p True)) (\<lambda>_. act_value (Some 0))
      | Delete_local p \<Rightarrow> act_bind (apply_local tc [Op_unlink p True] ''local delete'') (\<lambda>_. act_value (Some 0))
      | Keep_both_copy p w c \<Rightarrow> act_bind (keepBoth tc p c) (\<lambda>_. act_value (Some 0))
      | Pull_and_preserve p c ct \<Rightarrow> act_bind (pullAndPreserve tc p c ct) (\<lambda>_. act_value (Some 0))
      | Compare_content p w \<Rightarrow> compareContent hash tc p w
      | Agree p coll ct \<Rightarrow> act_value (Some 0)
      | Forget p \<Rightarrow> act_value (Some 0))"

definition decision_kind :: "decision \<Rightarrow> string" where
  "decision_kind d =
     (case d of Push _ _ \<Rightarrow> ''push'' | Pull _ _ \<Rightarrow> ''pull'' | Delete_remote _ \<Rightarrow> ''delete-remote''
      | Delete_local _ \<Rightarrow> ''delete-local'' | Keep_both_copy _ _ _ \<Rightarrow> ''keep-both''
      | Pull_and_preserve _ _ _ \<Rightarrow> ''pull-and-preserve'' | Compare_content _ _ \<Rightarrow> ''compare-content''
      | Agree _ _ _ \<Rightarrow> ''agree'' | Forget _ \<Rightarrow> ''forget'')"

record exec_state =
  ex_movedBytes :: nat
  ex_applied :: nat
  ex_errors :: nat
  ex_firstError :: "string option"
  ex_touched :: "string list"

definition fresh_exec :: exec_state where
  "fresh_exec = \<lparr>ex_movedBytes = 0, ex_applied = 0, ex_errors = 0, ex_firstError = None, ex_touched = []\<rparr>"

definition note_outcome :: "decision \<Rightarrow> string + nat option \<Rightarrow> exec_state \<Rightarrow> exec_state" where
  "note_outcome d outcome ex0 =
     (let ex = (if d_path d \<in> set (ex_touched ex0) then ex0 else ex0\<lparr>ex_touched := ex_touched ex0 @ [d_path d]\<rparr>)
      in case outcome of
           Inr moved \<Rightarrow> ex\<lparr>ex_movedBytes := ex_movedBytes ex + (case moved of Some n \<Rightarrow> n | None \<Rightarrow> 0),
                          ex_applied := ex_applied ex + 1\<rparr>
         | Inl e \<Rightarrow> ex\<lparr>ex_errors := ex_errors ex + 1,
                       ex_firstError := or_else (ex_firstError ex) (Some (decision_kind d @ '' '' @ d_path d @ '': '' @ e))\<rparr>)"

text \<open>The loop over the decisions, up to the deadline or the byte budget.\<close>

fun run_decisions ::
    "(string \<Rightarrow> string) \<Rightarrow> ('l, 'r) transfer \<Rightarrow> (nat \<Rightarrow> bool) \<Rightarrow> nat \<Rightarrow> nat \<Rightarrow> decision list \<Rightarrow>
     ('l \<times> 'r) \<times> exec_state \<Rightarrow> ('l \<times> 'r) \<times> exec_state" where
  "run_decisions hash tc late maxBytes n [] (s, ex) = (s, ex)"
| "run_decisions hash tc late maxBytes n (d # ds) (s, ex) =
     (if late n \<or> ex_movedBytes ex \<ge> maxBytes then (s, ex)
      else (case applyDecision hash tc d s of
              (s', outcome) \<Rightarrow> run_decisions hash tc late maxBytes (n + 1) ds (s', note_outcome d outcome ex)))"

text \<open>What the re-read of both sides says of one path.\<close>

datatype base_change = Record_row replica_row | Forget_path string | Keep_row

definition base_update ::
    "('l, 'r) transfer \<Rightarrow> int \<Rightarrow> 'l \<times> 'r \<Rightarrow> string \<Rightarrow> base_change" where
  "base_update tc now s path =
     (let (complete, localEntry) =
            (case stub_list (tc_stub tc) (fst s) (parentOf path) of
               Inl _ \<Rightarrow> (False, None)
             | Inr listing \<Rightarrow> (ls_complete listing,
                 if ls_complete listing then entry_at path (ls_entries listing) else None));
          remoteEntry = (case rv_stat (tc_remote tc) (snd s) path of Inl _ \<Rightarrow> None | Inr e \<Rightarrow> e)
      in case (localEntry, remoteEntry) of
           (None, None) \<Rightarrow> if complete then Forget_path path else Keep_row
         | (Some l, Some r) \<Rightarrow>
             Record_row \<lparr>rp_id = tc_id tc, rp_path = path, rp_isCollection = ps_isCollection l,
               rp_localEtag = ps_etag l, rp_localMtime = ps_mtime l, rp_localSize = ps_size l,
               rp_remoteEtag = ps_etag r, rp_remoteMtime = ps_mtime r, rp_remoteSize = ps_size r,
               rp_contentType = or_else (ps_contentType l) (ps_contentType r), rp_syncedAt = now\<rparr>
         | _ \<Rightarrow> Keep_row)"

definition base_operations :: "base_change list \<Rightarrow> replica_operation list" where
  "base_operations updates =
     concat (map (\<lambda>u. case u of Record_row row \<Rightarrow> [Op_record row] | _ \<Rightarrow> []) updates)
     @ concat (map (\<lambda>u. case u of Forget_path p \<Rightarrow> [Op_forget p] | _ \<Rightarrow> []) updates)"

definition recordBase ::
    "('l, 'r) transfer \<Rightarrow> int \<Rightarrow> string list \<Rightarrow> ('l, 'r, nat \<times> string option) act" where
  "recordBase tc now touched = (\<lambda>(l, r).
     let operations = base_operations (map (base_update tc now (l, r)) touched)
     in if operations = [] then ((l, r), Inr (0, None))
        else (case stub_apply (tc_stub tc) (tc_id tc) operations l of
                (l', Inl e) \<Rightarrow> ((l', r), Inl e)
              | (l', Inr result) \<Rightarrow>
                  ((l', r), Inr (if ar_failed result = 0 then (0, None)
                     else (ar_failed result, Some (truncateReplicationReason
                       (case ar_error result of Some e \<Rightarrow> e | None \<Rightarrow> ''recording the sync base failed'')))))))"

record apply_outcome =
  ao_applied :: nat
  ao_errors :: nat
  ao_firstError :: "string option"
  ao_movedBytes :: nat

definition run_plan ::
    "(string \<Rightarrow> string) \<Rightarrow> ('l, 'r) transfer \<Rightarrow> (nat \<Rightarrow> bool) \<Rightarrow> nat \<Rightarrow> int \<Rightarrow> decision list \<Rightarrow> ('l, 'r, apply_outcome) act" where
  "run_plan hash tc late maxBytes now decisions s0 =
     (case run_decisions hash tc late maxBytes 0 decisions (s0, fresh_exec) of
        (s, ex) \<Rightarrow> act_bind (recordBase tc now (ex_touched ex))
          (\<lambda>(errors, firstError). act_value
             \<lparr>ao_applied = ex_applied ex, ao_errors = ex_errors ex + errors,
              ao_firstError = or_else (ex_firstError ex) firstError, ao_movedBytes = ex_movedBytes ex\<rparr>) s)"

end
