(* ===== verification/Control_Db.thy ===== *)
theory Control_Db
  imports Replica_Plan Http
begin

section \<open>The control database\<close>

text \<open>
  Models \<open>packages/backend-data/src/dao\<close> (\<open>DavVolumeDAO.ts\<close>, \<open>DavCredentialDAO.ts\<close> and
  \<open>NamespaceDAO.ts\<close>; the replications are in \<open>Replication_Db\<close>) over the tables of \<open>migrations/\<close>, as lists of rows in insertion order.
  A statement is named by its method and its key bindings; \<open>de_fails\<close> gives the message of the
  error it throws (after the retries of the package \<open>@rexezuge/d1\<close>), and a statement that throws
  leaves the tables alone. Uniqueness and foreign keys between these tables are checked; times are
  Unix seconds. The tables of \<open>@rexezuge/identity\<close> (users, addresses) are not part of it.
\<close>

subsection \<open>Rows\<close>

record volume_row =
  vr_id :: string
  vr_ownerEmail :: string
  vr_ownerUserId :: "string option"
  vr_owner :: string
  vr_name :: string
  vr_description :: "string option"
  vr_isPrivate :: int
  vr_createdAt :: int
  vr_updatedAt :: int
  vr_ownerCi :: string
  vr_nameCi :: string
  vr_hrefPrefixMode :: string

record credential_row =
  cr_id :: string
  cr_volumeId :: string
  cr_username :: string
  cr_passwordHash :: string
  cr_name :: string
  cr_passwordPrefix :: string
  cr_passwordLastFour :: string
  cr_createdAt :: int
  cr_expiresAt :: int
  cr_lastUsedAt :: "int option"
  cr_readOnly :: "int option"

record namespace_row =
  ns_usernameCi :: string
  ns_kind :: string
  ns_userEmail :: "string option"
  ns_userId :: "string option"
  ns_createdAt :: int

record replication_row =
  rr_id :: string
  rr_volumeId :: string
  rr_targetKind :: string
  rr_remoteUrl :: string
  rr_remoteOwner :: string
  rr_remoteVolume :: string
  rr_remotePath :: string
  rr_authKind :: string
  rr_encryptedSecret :: "string option"
  rr_secretIv :: "string option"
  rr_mode :: string
  rr_mirrorDeletions :: int
  rr_intervalMinutes :: int
  rr_enabled :: int
  rr_lastRunAt :: "int option"
  rr_lastStatus :: "string option"
  rr_lastError :: "string option"
  rr_consecutiveFailures :: int
  rr_cursorPath :: "string option"
  rr_cursorRemaining :: nat
  rr_passStartedAt :: "int option"
  rr_createdAt :: int
  rr_updatedAt :: int
  rr_createdBy :: "string option"

record conflict_entry =
  cf_id :: string
  cf_replicationId :: string
  cf_path :: string
  cf_winner :: winner
  cf_keptPath :: "string option"
  cf_kind :: conflict_kind
  cf_detectedAt :: int
  cf_resolvedAt :: "int option"

record database =
  db_volumes :: "volume_row list"
  db_credentials :: "credential_row list"
  db_namespaces :: "namespace_row list"
  db_replications :: "replication_row list"
  db_conflicts :: "conflict_entry list"

type_synonym db_statement = "string \<times> string list"

record db_env =
  de_fails :: "db_statement \<Rightarrow> string option"
  de_missing_schema :: "string \<Rightarrow> bool"
  de_now :: int

definition db_read :: "db_env \<Rightarrow> db_statement \<Rightarrow> 'a \<Rightarrow> string + 'a" where
  "db_read env stmt a = (case de_fails env stmt of Some e \<Rightarrow> Inl e | None \<Rightarrow> Inr a)"

text \<open>A writing statement: the first of the violated \<open>constraints\<close> is the error it throws.\<close>

definition db_run ::
    "db_env \<Rightarrow> db_statement \<Rightarrow> (bool \<times> string) list \<Rightarrow> (database \<Rightarrow> database) \<Rightarrow> database \<Rightarrow> database \<times> string option" where
  "db_run env stmt constraints f db =
     (case de_fails env stmt of
        Some e \<Rightarrow> (db, Some e)
      | None \<Rightarrow> (case find fst constraints of Some (_, e) \<Rightarrow> (db, Some e) | None \<Rightarrow> (f db, None)))"

definition unique_violation :: string where "unique_violation = ''UNIQUE constraint failed''"
definition foreign_key_violation :: string where "foreign_key_violation = ''FOREIGN KEY constraint failed''"

text \<open>\<open>ORDER BY\<close> a number, descending or ascending.\<close>

definition descending :: "('r \<Rightarrow> int) \<Rightarrow> 'r \<Rightarrow> 'r \<Rightarrow> int" where "descending f a b = f b - f a"
definition ascending :: "('r \<Rightarrow> int) \<Rightarrow> 'r \<Rightarrow> 'r \<Rightarrow> int" where "ascending f a b = f a - f b"

definition update_where :: "('r \<Rightarrow> bool) \<Rightarrow> ('r \<Rightarrow> 'r) \<Rightarrow> 'r list \<Rightarrow> 'r list" where
  "update_where P f rows = map (\<lambda>r. if P r then f r else r) rows"

definition set_some :: "'a option \<Rightarrow> ('a \<Rightarrow> 'r \<Rightarrow> 'r) \<Rightarrow> 'r \<Rightarrow> 'r" where
  "set_some patch f r = (case patch of Some a \<Rightarrow> f a r | None \<Rightarrow> r)"

definition flag :: "bool \<Rightarrow> int" where "flag b = (if b then 1 else 0)"

subsection \<open>\<open>DavVolumeDAO.ts\<close>\<close>

definition default_href_prefix_mode :: string where "default_href_prefix_mode = ''base''"

definition create_volume_row ::
    "db_env \<Rightarrow> string \<Rightarrow> string \<Rightarrow> string \<Rightarrow> string \<Rightarrow> string \<Rightarrow> string option \<Rightarrow> bool \<Rightarrow> string option \<Rightarrow> database
     \<Rightarrow> database \<times> string option" where
  "create_volume_row env volumeId ownerEmail ownerUserId owner name description isPrivate hrefPrefixMode db =
     db_run env (''DavVolumeDAO.create'', [volumeId])
       [(volumeId \<in> vr_id ` set (db_volumes db)
           \<or> (to_lower owner, to_lower name) \<in> (\<lambda>r. (vr_ownerCi r, vr_nameCi r)) ` set (db_volumes db), unique_violation)]
       (\<lambda>d. d\<lparr>db_volumes := db_volumes d @
          [\<lparr>vr_id = volumeId, vr_ownerEmail = ownerEmail, vr_ownerUserId = Some ownerUserId, vr_owner = owner, vr_name = name,
            vr_description = description, vr_isPrivate = flag isPrivate, vr_createdAt = de_now env,
            vr_updatedAt = de_now env, vr_ownerCi = to_lower owner, vr_nameCi = to_lower name,
            vr_hrefPrefixMode = (case hrefPrefixMode of Some m \<Rightarrow> m | None \<Rightarrow> default_href_prefix_mode)\<rparr>]\<rparr>) db"

definition getByOwnerName :: "db_env \<Rightarrow> string \<Rightarrow> string \<Rightarrow> database \<Rightarrow> string + volume_row option" where
  "getByOwnerName env owner name db =
     db_read env (''DavVolumeDAO.getByOwnerName'', [to_lower owner, to_lower name])
       (find (\<lambda>r. vr_ownerCi r = to_lower owner \<and> vr_nameCi r = to_lower name) (db_volumes db))"

definition volume_by_id :: "db_env \<Rightarrow> string \<Rightarrow> database \<Rightarrow> string + volume_row option" where
  "volume_by_id env volumeId db = db_read env (''DavVolumeDAO.getById'', [volumeId]) (find (\<lambda>r. vr_id r = volumeId) (db_volumes db))"

text \<open>A patch: \<open>None\<close> is an absent field.\<close>

definition update_volume_row ::
    "db_env \<Rightarrow> string \<Rightarrow> string option option \<Rightarrow> bool option \<Rightarrow> string option \<Rightarrow> database \<Rightarrow> database \<times> string option" where
  "update_volume_row env volumeId description isPrivate hrefPrefixMode =
     db_run env (''DavVolumeDAO.update'', [volumeId]) []
       (\<lambda>d. d\<lparr>db_volumes := update_where (\<lambda>r. vr_id r = volumeId)
          (set_some hrefPrefixMode (\<lambda>m r. r\<lparr>vr_hrefPrefixMode := m\<rparr>)
           \<circ> set_some isPrivate (\<lambda>b r. r\<lparr>vr_isPrivate := flag b\<rparr>)
           \<circ> set_some description (\<lambda>t r. r\<lparr>vr_description := t\<rparr>)
           \<circ> (\<lambda>r. r\<lparr>vr_updatedAt := de_now env\<rparr>)) (db_volumes d)\<rparr>)"

definition listByOwnerUserId :: "db_env \<Rightarrow> string \<Rightarrow> nat \<Rightarrow> database \<Rightarrow> string + volume_row list" where
  "listByOwnerUserId env ownerUserId limit db =
     db_read env (''DavVolumeDAO.listByOwnerUserId'', [ownerUserId])
       (take limit (sort_by (descending vr_updatedAt) (filter (\<lambda>r. vr_ownerUserId r = Some ownerUserId) (db_volumes db))))"

definition countByOwnerUserId :: "db_env \<Rightarrow> string \<Rightarrow> database \<Rightarrow> string + nat" where
  "countByOwnerUserId env ownerUserId db =
     db_read env (''DavVolumeDAO.countByOwnerUserId'', [ownerUserId])
       (length (filter (\<lambda>r. vr_ownerUserId r = Some ownerUserId) (db_volumes db)))"

definition listByOwnerEmail :: "db_env \<Rightarrow> string \<Rightarrow> nat \<Rightarrow> database \<Rightarrow> string + volume_row list" where
  "listByOwnerEmail env ownerEmail limit db =
     db_read env (''DavVolumeDAO.listByOwnerEmail'', [to_lower ownerEmail])
       (take limit (sort_by (descending vr_updatedAt) (filter (\<lambda>r. vr_ownerEmail r = to_lower ownerEmail) (db_volumes db))))"

text \<open>The unique index on owner and name is checked row by row, as in \<open>Store\<close>.\<close>

definition volume_key :: "volume_row \<Rightarrow> string \<times> string" where "volume_key r = (vr_ownerCi r, vr_nameCi r)"

fun rename_rows :: "string \<Rightarrow> (volume_row \<Rightarrow> volume_row) \<Rightarrow> volume_row list \<Rightarrow> volume_row list \<Rightarrow> volume_row list option" where
  "rename_rows old f passed [] = Some passed"
| "rename_rows old f passed (r # rs) =
     (if vr_ownerCi r \<noteq> old then rename_rows old f (passed @ [r]) rs
      else if volume_key (f r) \<in> volume_key ` set (passed @ rs) then None
      else rename_rows old f (passed @ [f r]) rs)"

definition renameOwner :: "db_env \<Rightarrow> string \<Rightarrow> string \<Rightarrow> database \<Rightarrow> database \<times> string option" where
  "renameOwner env oldOwnerCi newOwner db =
     (let renamed = rename_rows (to_lower oldOwnerCi)
            (\<lambda>r. r\<lparr>vr_owner := newOwner, vr_ownerCi := to_lower newOwner, vr_updatedAt := de_now env\<rparr>) [] (db_volumes db)
      in db_run env (''DavVolumeDAO.renameOwner'', [to_lower oldOwnerCi]) [(renamed = None, unique_violation)]
           (\<lambda>d. d\<lparr>db_volumes := (case renamed of Some rows \<Rightarrow> rows | None \<Rightarrow> db_volumes d)\<rparr>) db)"

definition countByOwnerEmail :: "db_env \<Rightarrow> string \<Rightarrow> database \<Rightarrow> string + nat" where
  "countByOwnerEmail env ownerEmail db =
     db_read env (''DavVolumeDAO.countByOwnerEmail'', [to_lower ownerEmail])
       (length (filter (\<lambda>r. vr_ownerEmail r = to_lower ownerEmail) (db_volumes db)))"

text \<open>\<open>ON DELETE CASCADE\<close> of the credentials, the replications and their conflicts.\<close>

definition drop_replications :: "(replication_row \<Rightarrow> bool) \<Rightarrow> database \<Rightarrow> database" where
  "drop_replications P db =
     db\<lparr>db_conflicts := filter (\<lambda>c. cf_replicationId c \<notin> rr_id ` set (filter P (db_replications db))) (db_conflicts db),
        db_replications := filter (\<lambda>r. \<not> P r) (db_replications db)\<rparr>"

definition delete_volume_row :: "db_env \<Rightarrow> string \<Rightarrow> database \<Rightarrow> database \<times> string option" where
  "delete_volume_row env volumeId =
     db_run env (''DavVolumeDAO.deleteById'', [volumeId]) []
       (\<lambda>d. if volumeId \<in> vr_id ` set (db_volumes d)
             then (drop_replications (\<lambda>r. rr_volumeId r = volumeId) d)
               \<lparr>db_volumes := filter (\<lambda>r. vr_id r \<noteq> volumeId) (db_volumes d),
                db_credentials := filter (\<lambda>c. cr_volumeId c \<noteq> volumeId) (db_credentials d)\<rparr>
             else d)"

subsection \<open>\<open>DavCredentialDAO.ts\<close>\<close>

record credential_metadata =
  cm_id :: string
  cm_volumeId :: string
  cm_name :: string
  cm_username :: string
  cm_passwordPrefix :: string
  cm_passwordLastFour :: string
  cm_createdAt :: int
  cm_expiresAt :: int
  cm_lastUsedAt :: "int option"
  cm_readOnly :: bool

definition toMetadata :: "credential_row \<Rightarrow> credential_metadata" where
  "toMetadata row = \<lparr>cm_id = cr_id row, cm_volumeId = cr_volumeId row, cm_name = cr_name row,
     cm_username = cr_username row, cm_passwordPrefix = cr_passwordPrefix row,
     cm_passwordLastFour = cr_passwordLastFour row, cm_createdAt = cr_createdAt row, cm_expiresAt = cr_expiresAt row,
     cm_lastUsedAt = cr_lastUsedAt row, cm_readOnly = (cr_readOnly row = Some 1)\<rparr>"

definition credential_by_id :: "db_env \<Rightarrow> string \<Rightarrow> database \<Rightarrow> string + credential_metadata option" where
  "credential_by_id env credentialId db =
     db_read env (''DavCredentialDAO.getById'', [credentialId])
       (map_option toMetadata (find (\<lambda>r. cr_id r = credentialId) (db_credentials db)))"

text \<open>\<open>credentialId\<close> is the UUID drawn for the row.\<close>

definition create_credential_row ::
    "db_env \<Rightarrow> string \<Rightarrow> string \<Rightarrow> string \<Rightarrow> string \<Rightarrow> string \<Rightarrow> string \<Rightarrow> string \<Rightarrow> int \<Rightarrow> bool \<Rightarrow> database
     \<Rightarrow> database \<times> (string + credential_metadata)" where
  "create_credential_row env credentialId volumeId username passwordHash name passwordPrefix passwordLastFour
       expiresAt readOnly db =
     (case db_run env (''DavCredentialDAO.create'', [credentialId])
        [(credentialId \<in> cr_id ` set (db_credentials db) \<or> username \<in> cr_username ` set (db_credentials db)
            \<or> passwordHash \<in> cr_passwordHash ` set (db_credentials db), unique_violation),
         (volumeId \<notin> vr_id ` set (db_volumes db), foreign_key_violation)]
        (\<lambda>d. d\<lparr>db_credentials := db_credentials d @
           [\<lparr>cr_id = credentialId, cr_volumeId = volumeId, cr_username = username, cr_passwordHash = passwordHash,
             cr_name = name, cr_passwordPrefix = passwordPrefix, cr_passwordLastFour = passwordLastFour,
             cr_createdAt = de_now env, cr_expiresAt = expiresAt, cr_lastUsedAt = None,
             cr_readOnly = Some (flag readOnly)\<rparr>]\<rparr>) db of
        (db', Some e) \<Rightarrow> (db', Inl e)
      | (db', None) \<Rightarrow>
          (db', case credential_by_id env credentialId db' of
             Inl e \<Rightarrow> Inl e
           | Inr None \<Rightarrow> Inl ''Failed to load DAV credential after create.''
           | Inr (Some m) \<Rightarrow> Inr m))"

definition getActiveByUsername ::
    "db_env \<Rightarrow> string \<Rightarrow> database \<Rightarrow> string + (credential_metadata \<times> string) option" where
  "getActiveByUsername env username db =
     db_read env (''DavCredentialDAO.getActiveByUsername'', [username])
       (map_option (\<lambda>r. (toMetadata r, cr_passwordHash r))
         (find (\<lambda>r. cr_username r = username \<and> cr_expiresAt r > de_now env) (db_credentials db)))"

definition credentials_of_volume :: "db_env \<Rightarrow> string \<Rightarrow> database \<Rightarrow> string + credential_metadata list" where
  "credentials_of_volume env volumeId db =
     db_read env (''DavCredentialDAO.listByVolume'', [volumeId])
       (map toMetadata (sort_by (descending cr_createdAt) (filter (\<lambda>r. cr_volumeId r = volumeId) (db_credentials db))))"

definition count_credentials :: "db_env \<Rightarrow> string \<Rightarrow> database \<Rightarrow> string + nat" where
  "count_credentials env volumeId db =
     db_read env (''DavCredentialDAO.countByVolume'', [volumeId])
       (length (filter (\<lambda>r. cr_volumeId r = volumeId) (db_credentials db)))"

definition usernameExists :: "db_env \<Rightarrow> string \<Rightarrow> database \<Rightarrow> string + bool" where
  "usernameExists env username db =
     db_read env (''DavCredentialDAO.usernameExists'', [username]) (username \<in> cr_username ` set (db_credentials db))"

definition update_credentials ::
    "db_env \<Rightarrow> db_statement \<Rightarrow> (credential_row \<Rightarrow> bool) \<Rightarrow> (credential_row \<Rightarrow> credential_row) \<Rightarrow> database \<Rightarrow> database \<times> string option" where
  "update_credentials env stmt P f =
     db_run env stmt [] (\<lambda>d. d\<lparr>db_credentials := update_where P f (db_credentials d)\<rparr>)"

definition updatePasswordHash :: "db_env \<Rightarrow> string \<Rightarrow> string \<Rightarrow> database \<Rightarrow> database \<times> string option" where
  "updatePasswordHash env credentialId passwordHash db =
     db_run env (''DavCredentialDAO.updatePasswordHash'', [credentialId])
       [(\<exists>r\<in>set (db_credentials db). cr_id r \<noteq> credentialId \<and> cr_passwordHash r = passwordHash, unique_violation)]
       (\<lambda>d. d\<lparr>db_credentials := update_where (\<lambda>r. cr_id r = credentialId) (\<lambda>r. r\<lparr>cr_passwordHash := passwordHash\<rparr>)
          (db_credentials d)\<rparr>) db"

definition updateReadOnly :: "db_env \<Rightarrow> string \<Rightarrow> string \<Rightarrow> bool \<Rightarrow> database \<Rightarrow> database \<times> string option" where
  "updateReadOnly env credentialId volumeId readOnly =
     update_credentials env (''DavCredentialDAO.updateReadOnly'', [credentialId, volumeId])
       (\<lambda>r. cr_id r = credentialId \<and> cr_volumeId r = volumeId) (\<lambda>r. r\<lparr>cr_readOnly := Some (flag readOnly)\<rparr>)"

definition updateLastUsed :: "db_env \<Rightarrow> string \<Rightarrow> database \<Rightarrow> database \<times> string option" where
  "updateLastUsed env credentialId =
     update_credentials env (''DavCredentialDAO.updateLastUsed'', [credentialId])
       (\<lambda>r. cr_id r = credentialId) (\<lambda>r. r\<lparr>cr_lastUsedAt := Some (de_now env)\<rparr>)"

definition deleteForVolume :: "db_env \<Rightarrow> string \<Rightarrow> string \<Rightarrow> database \<Rightarrow> database \<times> string option" where
  "deleteForVolume env credentialId volumeId =
     db_run env (''DavCredentialDAO.deleteForVolume'', [credentialId, volumeId]) []
       (\<lambda>d. d\<lparr>db_credentials := filter (\<lambda>r. \<not> (cr_id r = credentialId \<and> cr_volumeId r = volumeId)) (db_credentials d)\<rparr>)"

definition deleteByVolume :: "db_env \<Rightarrow> string \<Rightarrow> database \<Rightarrow> database \<times> string option" where
  "deleteByVolume env volumeId =
     db_run env (''DavCredentialDAO.deleteByVolume'', [volumeId]) []
       (\<lambda>d. d\<lparr>db_credentials := filter (\<lambda>r. cr_volumeId r \<noteq> volumeId) (db_credentials d)\<rparr>)"

subsection \<open>\<open>NamespaceDAO.ts\<close>\<close>

definition get_namespace :: "db_env \<Rightarrow> string \<Rightarrow> database \<Rightarrow> string + namespace_row option" where
  "get_namespace env usernameCi db =
     db_read env (''NamespaceDAO.get'', [usernameCi]) (find (\<lambda>r. ns_usernameCi r = usernameCi) (db_namespaces db))"

definition isTaken :: "db_env \<Rightarrow> string \<Rightarrow> database \<Rightarrow> string + bool" where
  "isTaken env usernameCi db = map_sum id (\<lambda>r. r \<noteq> None) (get_namespace env usernameCi db)"

definition new_namespace :: "db_env \<Rightarrow> string \<Rightarrow> string option \<Rightarrow> string option \<Rightarrow> namespace_row" where
  "new_namespace env usernameCi userEmail userId =
     \<lparr>ns_usernameCi = usernameCi, ns_kind = ''user'', ns_userEmail = userEmail, ns_userId = userId, ns_createdAt = de_now env\<rparr>"

definition claim :: "db_env \<Rightarrow> string \<Rightarrow> string option \<Rightarrow> string option \<Rightarrow> database \<Rightarrow> database \<times> string option" where
  "claim env usernameCi userEmail userId db =
     db_run env (''NamespaceDAO.claim'', [usernameCi]) [(usernameCi \<in> ns_usernameCi ` set (db_namespaces db), unique_violation)]
       (\<lambda>d. d\<lparr>db_namespaces := db_namespaces d @ [new_namespace env usernameCi userEmail userId]\<rparr>) db"

definition claimIgnore :: "db_env \<Rightarrow> string \<Rightarrow> string option \<Rightarrow> string option \<Rightarrow> database \<Rightarrow> database \<times> string option" where
  "claimIgnore env usernameCi userEmail userId =
     db_run env (''NamespaceDAO.claimIgnore'', [usernameCi]) []
       (\<lambda>d. if usernameCi \<in> ns_usernameCi ` set (db_namespaces d) then d
             else d\<lparr>db_namespaces := db_namespaces d @ [new_namespace env usernameCi userEmail userId]\<rparr>)"

definition release :: "db_env \<Rightarrow> string \<Rightarrow> database \<Rightarrow> database \<times> string option" where
  "release env usernameCi =
     db_run env (''NamespaceDAO.release'', [usernameCi]) []
       (\<lambda>d. d\<lparr>db_namespaces := filter (\<lambda>r. ns_usernameCi r \<noteq> usernameCi) (db_namespaces d)\<rparr>)"

end
