(* ===== verification/Replication_Db.thy ===== *)
theory Replication_Db
  imports Control_Db
begin

section \<open>The control database: replications\<close>

text \<open>
  Models \<open>packages/backend-data/src/dao/replicationPassSql.ts\<close>, \<open>DavReplicationDAO.ts\<close> and
  \<open>DavReplicationConflictDAO.ts\<close>. The bookkeeping of a pass lives in three columns: when it
  was opened, where its sweep stands, and how much is left.
\<close>

definition update_replications ::
    "db_env \<Rightarrow> db_statement \<Rightarrow> string \<Rightarrow> (replication_row \<Rightarrow> replication_row) \<Rightarrow> database \<Rightarrow> database \<times> string option" where
  "update_replications env stmt replicationId f =
     db_run env stmt [] (\<lambda>d. d\<lparr>db_replications := update_where (\<lambda>r. rr_id r = replicationId) f (db_replications d)\<rparr>)"

subsection \<open>\<open>replicationPassSql.ts\<close>\<close>

definition max_stored_error_length :: nat where "max_stored_error_length = 500"

definition begin_pass_row :: "int \<Rightarrow> replication_row \<Rightarrow> replication_row" where
  "begin_pass_row now r = r\<lparr>rr_passStartedAt := Some now, rr_cursorPath := None, rr_cursorRemaining := 0,
     rr_updatedAt := now\<rparr>"

datatype run_status = Run_ok | Run_partial | Run_failed

definition status_text :: "run_status \<Rightarrow> string" where
  "status_text s = (case s of Run_ok \<Rightarrow> ''ok'' | Run_partial \<Rightarrow> ''partial'' | Run_failed \<Rightarrow> ''failed'')"

definition record_run_row ::
    "run_status \<Rightarrow> string option \<Rightarrow> int \<Rightarrow> int \<Rightarrow> string option \<Rightarrow> nat \<Rightarrow> replication_row \<Rightarrow> replication_row" where
  "record_run_row status error now maxFailures cursorPath remaining r =
     (let failed = (status \<noteq> Run_ok);
          closePass = (failed \<or> remaining = 0);
          trimmedError = map_option (take max_stored_error_length) error
      in r\<lparr>rr_lastRunAt := Some now, rr_lastStatus := Some (status_text status), rr_lastError := trimmedError,
           rr_consecutiveFailures := (if failed then rr_consecutiveFailures r + 1 else 0),
           rr_enabled := (if failed \<and> rr_consecutiveFailures r + 1 \<ge> maxFailures then 0 else rr_enabled r),
           rr_passStartedAt := (if closePass then None else rr_passStartedAt r),
           rr_cursorPath := cursorPath, rr_cursorRemaining := remaining, rr_updatedAt := now\<rparr>)"

definition beginPass :: "db_env \<Rightarrow> string \<Rightarrow> int \<Rightarrow> database \<Rightarrow> database \<times> string option" where
  "beginPass env replicationId now =
     update_replications env (''DavReplicationDAO.beginPass'', [replicationId]) replicationId (begin_pass_row now)"

definition recordRun ::
    "db_env \<Rightarrow> string \<Rightarrow> run_status \<Rightarrow> string option \<Rightarrow> int \<Rightarrow> int \<Rightarrow> string option \<Rightarrow> nat \<Rightarrow> database \<Rightarrow> database \<times> string option" where
  "recordRun env replicationId status error now maxFailures cursorPath remaining =
     update_replications env (''DavReplicationDAO.recordRun'', [replicationId, status_text status]) replicationId
       (record_run_row status error now maxFailures cursorPath remaining)"

subsection \<open>\<open>DavReplicationDAO.ts\<close>\<close>

record replication_target =
  rt_targetKind :: string
  rt_remoteUrl :: string
  rt_remoteOwner :: string
  rt_remoteVolume :: string
  rt_remotePath :: string

definition target_of :: "replication_row \<Rightarrow> replication_target" where
  "target_of r = \<lparr>rt_targetKind = rr_targetKind r, rt_remoteUrl = rr_remoteUrl r, rt_remoteOwner = rr_remoteOwner r,
     rt_remoteVolume = rr_remoteVolume r, rt_remotePath = rr_remotePath r\<rparr>"

record new_replication =
  nr_id :: string
  nr_volumeId :: string
  nr_target :: replication_target
  nr_authKind :: string
  nr_encryptedSecret :: "string option"
  nr_secretIv :: "string option"
  nr_mode :: string
  nr_mirrorDeletions :: bool
  nr_intervalMinutes :: int
  nr_enabled :: bool
  nr_createdBy :: "string option"

definition create_replication_row :: "db_env \<Rightarrow> new_replication \<Rightarrow> database \<Rightarrow> database \<times> string option" where
  "create_replication_row env n db =
     db_run env (''DavReplicationDAO.create'', [nr_id n])
       [(nr_id n \<in> rr_id ` set (db_replications db)
           \<or> (nr_volumeId n, nr_target n) \<in> (\<lambda>r. (rr_volumeId r, target_of r)) ` set (db_replications db), unique_violation),
        (nr_volumeId n \<notin> vr_id ` set (db_volumes db), foreign_key_violation)]
       (\<lambda>d. d\<lparr>db_replications := db_replications d @
          [\<lparr>rr_id = nr_id n, rr_volumeId = nr_volumeId n, rr_targetKind = rt_targetKind (nr_target n),
            rr_remoteUrl = rt_remoteUrl (nr_target n), rr_remoteOwner = rt_remoteOwner (nr_target n),
            rr_remoteVolume = rt_remoteVolume (nr_target n), rr_remotePath = rt_remotePath (nr_target n),
            rr_authKind = nr_authKind n, rr_encryptedSecret = nr_encryptedSecret n, rr_secretIv = nr_secretIv n,
            rr_mode = nr_mode n, rr_mirrorDeletions = flag (nr_mirrorDeletions n),
            rr_intervalMinutes = nr_intervalMinutes n, rr_enabled = flag (nr_enabled n), rr_lastRunAt = None,
            rr_lastStatus = None, rr_lastError = None, rr_consecutiveFailures = 0, rr_cursorPath = None,
            rr_cursorRemaining = 0, rr_passStartedAt = None, rr_createdAt = de_now env, rr_updatedAt = de_now env,
            rr_createdBy = nr_createdBy n\<rparr>]\<rparr>) db"

definition replication_by_id :: "db_env \<Rightarrow> string \<Rightarrow> database \<Rightarrow> string + replication_row option" where
  "replication_by_id env replicationId db =
     db_read env (''DavReplicationDAO.getById'', [replicationId])
       (find (\<lambda>r. rr_id r = replicationId) (db_replications db))"

definition getByVolumeAndTarget ::
    "db_env \<Rightarrow> string \<Rightarrow> replication_target \<Rightarrow> database \<Rightarrow> string + replication_row option" where
  "getByVolumeAndTarget env volumeId target db =
     db_read env (''DavReplicationDAO.getByVolumeAndTarget'', [volumeId])
       (find (\<lambda>r. rr_volumeId r = volumeId \<and> target_of r = target) (db_replications db))"

definition replications_of_volume :: "db_env \<Rightarrow> string \<Rightarrow> database \<Rightarrow> string + replication_row list" where
  "replications_of_volume env volumeId db =
     db_read env (''DavReplicationDAO.listByVolume'', [volumeId])
       (sort_by (ascending rr_createdAt) (filter (\<lambda>r. rr_volumeId r = volumeId) (db_replications db)))"

definition count_replications :: "db_env \<Rightarrow> string \<Rightarrow> database \<Rightarrow> string + nat" where
  "count_replications env volumeId db =
     db_read env (''DavReplicationDAO.countByVolume'', [volumeId])
       (length (filter (\<lambda>r. rr_volumeId r = volumeId) (db_replications db)))"

record replication_patch =
  pt_mode :: "string option"
  pt_mirrorDeletions :: "bool option"
  pt_intervalMinutes :: "int option"
  pt_enabled :: "bool option"

definition patch_replication :: "int \<Rightarrow> replication_patch \<Rightarrow> replication_row \<Rightarrow> replication_row" where
  "patch_replication now p =
     set_some (pt_enabled p) (\<lambda>b r. if b then r\<lparr>rr_enabled := 1, rr_consecutiveFailures := 0\<rparr> else r\<lparr>rr_enabled := 0\<rparr>)
     \<circ> set_some (pt_intervalMinutes p) (\<lambda>n r. r\<lparr>rr_intervalMinutes := n\<rparr>)
     \<circ> set_some (pt_mirrorDeletions p) (\<lambda>b r. r\<lparr>rr_mirrorDeletions := flag b\<rparr>)
     \<circ> set_some (pt_mode p) (\<lambda>m r. r\<lparr>rr_mode := m\<rparr>)
     \<circ> (\<lambda>r. r\<lparr>rr_updatedAt := now\<rparr>)"

definition update_replication_row :: "db_env \<Rightarrow> string \<Rightarrow> replication_patch \<Rightarrow> database \<Rightarrow> database \<times> string option" where
  "update_replication_row env replicationId p =
     update_replications env (''DavReplicationDAO.update'', [replicationId]) replicationId (patch_replication (de_now env) p)"

definition setSecret ::
    "db_env \<Rightarrow> string \<Rightarrow> string option \<Rightarrow> string option \<Rightarrow> database \<Rightarrow> database \<times> string option" where
  "setSecret env replicationId encryptedSecret secretIv =
     update_replications env (''DavReplicationDAO.setSecret'', [replicationId]) replicationId
       (\<lambda>r. r\<lparr>rr_encryptedSecret := encryptedSecret, rr_secretIv := secretIv, rr_updatedAt := de_now env\<rparr>)"

definition delete_replication_row :: "db_env \<Rightarrow> string \<Rightarrow> database \<Rightarrow> database \<times> string option" where
  "delete_replication_row env replicationId =
     db_run env (''DavReplicationDAO.deleteById'', [replicationId]) [] (drop_replications (\<lambda>r. rr_id r = replicationId))"

text \<open>\<open>ORDER BY COALESCE(last_run_at, 0) ASC, replication_id ASC\<close>.\<close>

definition due_order :: "replication_row \<Rightarrow> replication_row \<Rightarrow> int" where
  "due_order a b =
     (let when = (\<lambda>r. case rr_lastRunAt r of Some t \<Rightarrow> t | None \<Rightarrow> 0)
      in if when a \<noteq> when b then when a - when b else compareByPath (rr_id a) (rr_id b))"

definition is_due :: "int \<Rightarrow> replication_row \<Rightarrow> bool" where
  "is_due now r \<longleftrightarrow> rr_enabled r = 1
     \<and> (case rr_lastRunAt r of None \<Rightarrow> True | Some t \<Rightarrow> t + rr_intervalMinutes r * 60 \<le> now)"

definition listDue :: "db_env \<Rightarrow> int \<Rightarrow> nat \<Rightarrow> database \<Rightarrow> string + replication_row list" where
  "listDue env now limit db =
     db_read env (''DavReplicationDAO.listDue'', []) (take limit (sort_by due_order (filter (is_due now) (db_replications db))))"

subsection \<open>\<open>DavReplicationConflictDAO.ts\<close>\<close>

definition record_conflict :: "db_env \<Rightarrow> conflict_entry \<Rightarrow> database \<Rightarrow> database \<times> string option" where
  "record_conflict env c db =
     db_run env (''DavReplicationConflictDAO.record'', [cf_replicationId c, cf_path c])
       [(cf_id c \<in> cf_id ` set (db_conflicts db), unique_violation),
        (cf_replicationId c \<notin> rr_id ` set (db_replications db), foreign_key_violation)]
       (\<lambda>d. d\<lparr>db_conflicts := db_conflicts d @ [c\<lparr>cf_resolvedAt := None\<rparr>]\<rparr>) db"

definition listByReplication :: "db_env \<Rightarrow> string \<Rightarrow> bool \<Rightarrow> nat \<Rightarrow> database \<Rightarrow> string + conflict_entry list" where
  "listByReplication env replicationId includeResolved limit db =
     db_read env (''DavReplicationConflictDAO.listByReplication'', [replicationId])
       (take limit (sort_by (descending cf_detectedAt)
         (filter (\<lambda>c. cf_replicationId c = replicationId \<and> (includeResolved \<or> cf_resolvedAt c = None)) (db_conflicts db))))"

definition countUnresolved :: "db_env \<Rightarrow> string \<Rightarrow> database \<Rightarrow> string + nat" where
  "countUnresolved env replicationId db =
     db_read env (''DavReplicationConflictDAO.countUnresolved'', [replicationId])
       (length (filter (\<lambda>c. cf_replicationId c = replicationId \<and> cf_resolvedAt c = None) (db_conflicts db)))"

definition unresolved :: "string \<Rightarrow> string \<Rightarrow> conflict_entry \<Rightarrow> bool" where
  "unresolved replicationId conflictId c \<longleftrightarrow>
     cf_id c = conflictId \<and> cf_replicationId c = replicationId \<and> cf_resolvedAt c = None"

definition markResolved :: "db_env \<Rightarrow> string \<Rightarrow> string \<Rightarrow> database \<Rightarrow> database \<times> (string + bool)" where
  "markResolved env replicationId conflictId db =
     (case db_run env (''DavReplicationConflictDAO.markResolved'', [conflictId, replicationId]) []
        (\<lambda>d. d\<lparr>db_conflicts := update_where (unresolved replicationId conflictId)
           (\<lambda>c. c\<lparr>cf_resolvedAt := Some (de_now env)\<rparr>) (db_conflicts d)\<rparr>) db of
        (db', Some e) \<Rightarrow> (db', Inl e)
      | (db', None) \<Rightarrow> (db', Inr (filter (unresolved replicationId conflictId) (db_conflicts db) \<noteq> [])))"

end
