(* ===== verification/Replica_Runner.thy ===== *)
theory Replica_Runner
  imports Replica_Exec Replication_Db
begin

section \<open>Replication: one scheduled run\<close>

text \<open>
  Models \<open>apps/background/src/replication/ReplicationRunner.ts\<close>, \<open>buildRemote.ts\<close> (the choice of
  the transport; the HTTP transport with its stored credential is the parameter \<open>http\<close>),
  \<open>packages/backend-services/src/replication/targetVolume.ts\<close>,
  \<open>packages/backend-runtime/src/kv/davCacheInvalidation.ts\<close> and
  \<open>apps/background/src/scheduled/ReplicationSyncTask.ts\<close>. The configuration, the clocks, the
  random names and the hash are fields of \<open>runner_env\<close>. A read cache is the list of the volume
  keys purged from it: a purge never fails the run.
\<close>

record runner_env =
  re_db :: db_env
  re_nowMs :: int
  re_slicePaths :: nat
  re_sliceBytes :: nat
  re_passMaxMs :: int
  re_maxFailures :: int
  re_hashOnAmbiguous :: bool
  re_cache :: bool
  re_lateSweep :: "nat \<Rightarrow> bool"
  re_latePlan :: "nat \<Rightarrow> bool"
  re_random :: "string \<Rightarrow> string"
  re_hash :: "string \<Rightarrow> string"
  re_conflictId :: "nat \<Rightarrow> string"

record ('l, 'r) world =
  w_db :: database
  w_sides :: "'l \<times> 'r"
  w_purged :: "string list"

subsection \<open>\<open>targetVolume.ts\<close> and \<open>buildRemote.ts\<close>\<close>

definition missingTargetVolume :: "db_env \<Rightarrow> string \<Rightarrow> string \<Rightarrow> database \<Rightarrow> string + string option" where
  "missingTargetVolume env owner volume db =
     map_sum id (\<lambda>existing. if existing \<noteq> None then None
       else Some (''the bucket '' @ owner @ ''/'' @ volume @ '' does not exist''))
       (getByOwnerName env owner volume db)"

definition buildRemote ::
    "db_env \<Rightarrow> (string \<Rightarrow> string + 'r replica_stub) \<Rightarrow> (replication_row \<Rightarrow> string + 'r remote_volume) \<Rightarrow> replication_row \<Rightarrow>
     database \<Rightarrow> string + 'r remote_volume" where
  "buildRemote env stub_of http row db =
     (if rr_targetKind row = ''dav-volume''
      then (case missingTargetVolume env (rr_remoteOwner row) (rr_remoteVolume row) db of
              Inl e \<Rightarrow> Inl e
            | Inr (Some missing) \<Rightarrow> Inl (missing @ ''; create it before replicating into it'')
            | Inr None \<Rightarrow>
                map_sum id (\<lambda>stub. volume_remote stub \<lparr>vt_owner = rr_remoteOwner row, vt_volume = rr_remoteVolume row,
                    vt_remotePath = rr_remotePath row, vt_replicationId = rr_id row\<rparr>)
                  (stub_of (normalizeVolumeKey (rr_remoteOwner row) (rr_remoteVolume row))))
      else http row)"

definition siblingVolumeKey :: "replication_row \<Rightarrow> string option" where
  "siblingVolumeKey row =
     (if rr_targetKind row \<noteq> ''dav-volume'' \<or> rr_remoteOwner row = [] \<or> rr_remoteVolume row = [] then None
      else Some (normalizeVolumeKey (rr_remoteOwner row) (rr_remoteVolume row)))"

subsection \<open>\<open>ReplicationRunner.ts\<close>\<close>

definition mode_of :: "replication_row \<Rightarrow> replication_mode" where
  "mode_of row =
     (if rr_mode row = ''copy-only'' then Copy_only else if rr_mode row = ''sync'' then Sync
      else if rr_mode row = ''pull-only'' then Pull_only else Keep_both)"

definition mirror_deletions :: "replication_row \<Rightarrow> bool" where
  "mirror_deletions row \<longleftrightarrow> rr_mirrorDeletions row = 1"

definition pass_is_stale :: "runner_env \<Rightarrow> int \<Rightarrow> replication_row \<Rightarrow> bool" where
  "pass_is_stale env now row \<longleftrightarrow>
     (case rr_passStartedAt row of None \<Rightarrow> False | Some openedAt \<Rightarrow> now - openedAt > re_passMaxMs env div 1000)"

text \<open>Where the sweep resumes; the row in memory follows the one in the database.\<close>

definition reconcilePassState ::
    "runner_env \<Rightarrow> replication_row \<Rightarrow> database \<Rightarrow> database \<times> (string + replication_row \<times> string option)" where
  "reconcilePassState env row db =
     (let now = de_now (re_db env)
      in if rr_passStartedAt row \<noteq> None \<and> \<not> pass_is_stale env now row then (db, Inr (row, rr_cursorPath row))
         else (case beginPass (re_db env) (rr_id row) now db of
                 (db', Some e) \<Rightarrow> (db', Inl e)
               | (db', None) \<Rightarrow> (db', Inr (row\<lparr>rr_passStartedAt := Some now, rr_cursorPath := None\<rparr>, None))))"

definition plan_for :: "runner_env \<Rightarrow> replication_row \<Rightarrow> slice \<Rightarrow> plan" where
  "plan_for env row seen =
     buildReplicationPlan (re_random env)
       \<lparr>bi_mode = mode_of row, bi_local = sl_local seen, bi_remote = sl_remote seen, bi_base = sl_base seen,
        bi_trustAbsences = sl_complete seen, bi_hashOnAmbiguous = Some (re_hashOnAmbiguous env),
        bi_mirrorDeletions = Some (mirror_deletions row), bi_now = Some (re_nowMs env)\<rparr>"

text \<open>The audit rows, each best-effort; \<open>n\<close> numbers the random identifiers.\<close>

fun recordConflicts :: "runner_env \<Rightarrow> string \<Rightarrow> nat \<Rightarrow> conflict_row list \<Rightarrow> database \<Rightarrow> database" where
  "recordConflicts env replicationId n [] db = db"
| "recordConflicts env replicationId n (c # cs) db =
     recordConflicts env replicationId (n + 1) cs
       (fst (record_conflict (re_db env)
          \<lparr>cf_id = re_conflictId env n, cf_replicationId = replicationId, cf_path = c_path c, cf_winner = c_winner c,
           cf_keptPath = c_conflictPath c, cf_kind = c_kind c, cf_detectedAt = re_nowMs env div 1000,
           cf_resolvedAt = None\<rparr> db))"

record run_result =
  res_status :: run_status
  res_error :: "string option"
  res_remaining :: nat
  res_deferredPaths :: nat

definition incomplete_listing :: string where
  "incomplete_listing = ''a listing was incomplete, so absence-based decisions were held back for this pass''"

definition invalidateReadCaches :: "runner_env \<Rightarrow> string \<Rightarrow> replication_row \<Rightarrow> string list \<Rightarrow> string list" where
  "invalidateReadCaches env localKey row purged =
     (if \<not> re_cache env then purged
      else purged @ localKey # (case siblingVolumeKey row of None \<Rightarrow> [] | Some k \<Rightarrow> [k]))"

text \<open>The status of a run that got as far as its transfers, and the error it reports.\<close>

definition run_is_dirty :: "apply_outcome \<Rightarrow> slice \<Rightarrow> bool" where
  "run_is_dirty outcome seen \<longleftrightarrow> ao_errors outcome > 0 \<or> sl_errors seen > 0 \<or> \<not> sl_complete seen"

definition run_status_of :: "apply_outcome \<Rightarrow> slice \<Rightarrow> run_status" where
  "run_status_of outcome seen =
     (if run_is_dirty outcome seen then (if ao_applied outcome > 0 then Run_partial else Run_failed) else Run_ok)"

definition run_error_of :: "apply_outcome \<Rightarrow> slice \<Rightarrow> string" where
  "run_error_of outcome seen =
     (case or_else (ao_firstError outcome) (sl_firstError seen) of Some e \<Rightarrow> e | None \<Rightarrow> incomplete_listing)"

text \<open>The body of the \<open>try\<close>: the world it leaves and its result, or what it throws.\<close>

definition slice_body ::
    "runner_env \<Rightarrow> 'l replica_stub \<Rightarrow> (replication_row \<Rightarrow> database \<Rightarrow> string + 'r remote_volume) \<Rightarrow> string \<Rightarrow> replication_row \<Rightarrow>
     ('l, 'r) world \<Rightarrow> ('l, 'r) world \<times> (string + run_result)" where
  "slice_body env stub build localKey row0 w0 =
     (case reconcilePassState env row0 (w_db w0) of
        (db1, Inl e) \<Rightarrow> (w0\<lparr>w_db := db1\<rparr>, Inl e)
      | (db1, Inr (row, resumeFrom)) \<Rightarrow>
          (let w1 = w0\<lparr>w_db := db1\<rparr>; (l, r) = w_sides w1
           in case build row db1 of
                Inl e \<Rightarrow> (w1, Inl e)
              | Inr remote \<Rightarrow>
                  (case (if rr_lastRunAt row = None then rv_probe remote r else Inr []) of
                     Inl e \<Rightarrow> (w1, Inl e)
                   | Inr _ \<Rightarrow>
                       (case collectSlice (sides_of stub remote l r) (stub_rows stub l (rr_id row)) (re_slicePaths env)
                               (re_lateSweep env) resumeFrom of
                          Inl e \<Rightarrow> (w1, Inl e)
                        | Inr seen \<Rightarrow>
                            (let plan = plan_for env row seen
                             in case run_plan (re_hash env)
                                   \<lparr>tc_stub = stub, tc_remote = remote, tc_id = rr_id row, tc_slice = seen\<rparr>
                                   (re_latePlan env) (re_sliceBytes env) (re_nowMs env) (p_decisions plan) (l, r) of
                                  (sides, Inl e) \<Rightarrow> (w1\<lparr>w_sides := sides\<rparr>, Inl e)
                                | (sides, Inr outcome) \<Rightarrow>
                                    (let db2 = recordConflicts env (rr_id row) 0 (p_conflicts plan) db1;
                                         dirty = run_is_dirty outcome seen;
                                         status = run_status_of outcome seen;
                                         message = run_error_of outcome seen
                                     in case recordRun (re_db env) (rr_id row) status
                                           (if dirty then Some (truncateReplicationReason message) else None)
                                           (de_now (re_db env)) (re_maxFailures env) (sl_cursor seen) (sl_remaining seen) db2 of
                                          (db3, Some e) \<Rightarrow> (w1\<lparr>w_db := db3, w_sides := sides\<rparr>, Inl e)
                                        | (db3, None) \<Rightarrow>
                                            (w1\<lparr>w_db := db3, w_sides := sides,
                                               w_purged := invalidateReadCaches env localKey row (w_purged w1)\<rparr>,
                                             Inr \<lparr>res_status = status, res_error = (if dirty then Some message else None),
                                                  res_remaining = sl_remaining seen,
                                                  res_deferredPaths = length (p_deferredPaths plan)\<rparr>)))))))"

definition runSlice ::
    "runner_env \<Rightarrow> 'l replica_stub \<Rightarrow> (replication_row \<Rightarrow> database \<Rightarrow> string + 'r remote_volume) \<Rightarrow> string \<Rightarrow> replication_row \<Rightarrow>
     ('l, 'r) world \<Rightarrow> ('l, 'r) world \<times> run_result" where
  "runSlice env stub build localKey row w0 =
     (case slice_body env stub build localKey row w0 of
        (w, Inr result) \<Rightarrow> (w, result)
      | (w, Inl e) \<Rightarrow>
          (let message = truncateReplicationError e
           in (w\<lparr>w_db := fst (recordRun (re_db env) (rr_id row) Run_failed (Some message) (de_now (re_db env))
                   (re_maxFailures env) None 0 (w_db w))\<rparr>,
               \<lparr>res_status = Run_failed, res_error = Some message, res_remaining = 0, res_deferredPaths = 0\<rparr>)))"

definition forget_replication :: "'l replica_stub \<Rightarrow> replication_row \<Rightarrow> 'l \<Rightarrow> 'l step" where
  "forget_replication stub row = stub_forget stub (rr_id row)"

subsection \<open>\<open>ReplicationSyncTask.ts\<close>\<close>

text \<open>
  The volumes of the deployment as one state with a stub for each key; the remote of a run
  works on the same state. \<open>Inl\<close>: the lookup threw.
\<close>

definition run_one ::
    "runner_env \<Rightarrow> (string \<Rightarrow> 'l replica_stub) option \<Rightarrow> (replication_row \<Rightarrow> database \<Rightarrow> string + 'r remote_volume) \<Rightarrow>
     replication_row \<Rightarrow> ('l, 'r) world \<Rightarrow> ('l, 'r) world \<times> (string + run_result)" where
  "run_one env stub_of build due w =
     (let nothing = \<lparr>res_status = Run_ok, res_error = None, res_remaining = 0, res_deferredPaths = 0\<rparr>
      in case volume_by_id (re_db env) (rr_volumeId due) (w_db w) of
           Inl e \<Rightarrow> (w, Inl e)
         | Inr None \<Rightarrow>
             (case delete_replication_row (re_db env) (rr_id due) (w_db w) of
                (db, Some e) \<Rightarrow> (w\<lparr>w_db := db\<rparr>, Inl e)
              | (db, None) \<Rightarrow> (w\<lparr>w_db := db\<rparr>, Inr nothing))
         | Inr (Some volume) \<Rightarrow>
             (case replication_by_id (re_db env) (rr_id due) (w_db w) of
                Inl e \<Rightarrow> (w, Inl e)
              | Inr None \<Rightarrow> (w, Inr nothing)
              | Inr (Some row) \<Rightarrow>
                  (case stub_of of
                     None \<Rightarrow> (w, Inr \<lparr>res_status = Run_failed, res_error = Some ''DAV_VOLUME binding is not configured'',
                                    res_remaining = 0, res_deferredPaths = 0\<rparr>)
                   | Some stubs \<Rightarrow>
                       (let key = normalizeVolumeKey (vr_owner volume) (vr_name volume)
                        in case runSlice env (stubs key) build key row w of (w', result) \<Rightarrow> (w', Inr result)))))"

fun run_due ::
    "runner_env \<Rightarrow> (string \<Rightarrow> 'l replica_stub) option \<Rightarrow> (replication_row \<Rightarrow> database \<Rightarrow> string + 'r remote_volume) \<Rightarrow>
     replication_row list \<Rightarrow> ('l, 'r) world \<Rightarrow> ('l, 'r) world \<times> run_status list" where
  "run_due env stub_of build [] w = (w, [])"
| "run_due env stub_of build (due # rest) w =
     (case run_one env stub_of build due w of
        (w1, outcome) \<Rightarrow>
          (case run_due env stub_of build rest w1 of
             (w2, statuses) \<Rightarrow> (w2, (case outcome of Inl _ \<Rightarrow> Run_failed | Inr result \<Rightarrow> res_status result) # statuses)))"

definition handleScheduledTask ::
    "runner_env \<Rightarrow> nat \<Rightarrow> (string \<Rightarrow> 'l replica_stub) option \<Rightarrow> (replication_row \<Rightarrow> database \<Rightarrow> string + 'r remote_volume) \<Rightarrow>
     ('l, 'r) world \<Rightarrow> ('l, 'r) world \<times> (string + run_status list)" where
  "handleScheduledTask env limit stub_of build w =
     (case listDue (re_db env) (de_now (re_db env)) limit (w_db w) of
        Inl e \<Rightarrow> (w, Inl e)
      | Inr due \<Rightarrow> (case run_due env stub_of build due w of (w', statuses) \<Rightarrow> (w', Inr statuses)))"

end
