(* ===== verification/Replica_Run_Safety.thy ===== *)
theory Replica_Run_Safety
  imports Replica_Runner Replica_Safety Memory_Fs
begin

section \<open>Replication: what a run may change\<close>

text \<open>
  The planner's guarantees carried through the executor and the runner to the states of the two
  sides. The locale \<open>kept_relation\<close> is the argument once: a reflexive and transitive relation
  that every decision of a plan and the base bookkeeping keep is kept by the run. Its
  interpretations are the remote left alone, the local side left alone, and the local files,
  metadata and locks left alone.
\<close>

subsection \<open>Relations a run keeps\<close>

definition keeps_act :: "('l \<times> 'r \<Rightarrow> 'l \<times> 'r \<Rightarrow> bool) \<Rightarrow> ('l, 'r, 'a) act \<Rightarrow> bool" where
  "keeps_act R m \<longleftrightarrow> (\<forall>s. R s (fst (m s)))"

lemma keeps_actD: "keeps_act R m \<Longrightarrow> R s (fst (m s))"
  unfolding keeps_act_def by blast

locale kept_relation =
  fixes R :: "'l \<times> 'r \<Rightarrow> 'l \<times> 'r \<Rightarrow> bool"
  assumes kept_refl: "R s s"
    and kept_trans: "\<lbrakk>R s t; R t u\<rbrakk> \<Longrightarrow> R s u"
begin

lemma keeps_value: "keeps_act R (act_value a)"
  and keeps_throw: "keeps_act R (act_throw e)"
  and keeps_read_local: "keeps_act R (read_local f)"
  and keeps_read_remote: "keeps_act R (read_remote g)"
  by (simp_all add: keeps_act_def act_value_def act_throw_def read_local_def read_remote_def kept_refl)

lemma keeps_bind: "\<lbrakk>keeps_act R m; \<And>a. keeps_act R (f a)\<rbrakk> \<Longrightarrow> keeps_act R (act_bind m f)"
  by (auto simp: keeps_act_def act_bind_def split: prod.split sum.split) (metis fst_conv kept_trans)+

lemma keeps_remote_entry: "keeps_act R (remote_entry tc p)"
  by (simp add: remote_entry_def keeps_value keeps_read_remote split: option.split)

lemmas keeps_intros = keeps_value keeps_throw keeps_read_local keeps_read_remote keeps_bind keeps_remote_entry

lemma keeps_decisions:
  assumes "\<And>d. d \<in> set ds \<Longrightarrow> keeps_act R (applyDecision hash tc d)"
  shows "R s (fst (run_decisions hash tc late cap n ds (s, ex)))"
  using assms
proof (induction ds arbitrary: s ex n)
  case (Cons d ds)
  obtain s' outcome where step: "applyDecision hash tc d s = (s', outcome)" by fastforce
  have "R s s'" using keeps_actD [OF Cons.prems, of d s] step by simp
  moreover have "R s' (fst (run_decisions hash tc late cap (n + 1) ds (s', note_outcome d outcome ex)))"
    by (rule Cons.IH) (simp add: Cons.prems)
  ultimately show ?case by (auto simp: step kept_refl intro: kept_trans)
qed (simp add: kept_refl)

lemma keeps_plan:
  assumes "\<And>d. d \<in> set ds \<Longrightarrow> keeps_act R (applyDecision hash tc d)" and "\<And>ps. keeps_act R (recordBase tc now ps)"
  shows "keeps_act R (run_plan hash tc late cap now ds)"
proof -
  have "R s (fst (run_plan hash tc late cap now ds s))" for s
  proof -
    obtain s1 ex where run: "run_decisions hash tc late cap 0 ds (s, fresh_exec) = (s1, ex)" by fastforce
    then have "R s s1" using keeps_decisions [OF assms(1), of ds s late cap 0 fresh_exec] by simp
    moreover have "R s1 (fst (run_plan hash tc late cap now ds s))"
    proof -
      have "keeps_act R (act_bind (recordBase tc now (ex_touched ex)) (\<lambda>(errors, firstError). act_value
          \<lparr>ao_applied = ex_applied ex, ao_errors = ex_errors ex + errors,
           ao_firstError = or_else (ex_firstError ex) firstError, ao_movedBytes = ex_movedBytes ex\<rparr>))"
        by (rule keeps_bind) (auto simp: assms(2) keeps_value split: prod.split)
      from keeps_actD [OF this] show ?thesis by (simp add: run_plan_def run)
    qed
    ultimately show ?thesis by (rule kept_trans)
  qed
  then show ?thesis by (simp add: keeps_act_def)
qed

text \<open>The runner adds nothing to the sides but the plan it runs.\<close>

lemma keeps_slice:
  assumes "\<And>row' tc d. \<lbrakk>mode_of row' = mode_of row; tc_stub tc = stub; d \<in> set (p_decisions (plan_for env row' (tc_slice tc)))\<rbrakk>
      \<Longrightarrow> keeps_act R (applyDecision (re_hash env) tc d)"
    and "\<And>tc ps. tc_stub tc = stub \<Longrightarrow> keeps_act R (recordBase tc (re_nowMs env) ps)"
  shows "R (w_sides w) (w_sides (fst (runSlice env stub build localKey row w)))"
proof -
  have body: "R (w_sides w) (w_sides (fst (slice_body env stub build localKey row w)))"
  proof (cases "reconcilePassState env row (w_db w)")
    case (Pair db1 found)
    show ?thesis
    proof (cases found)
      case (Inr a)
      obtain row' resume where a: "a = (row', resume)" by fastforce
      have mode: "mode_of row' = mode_of row"
        using Pair by (auto simp: Inr a reconcilePassState_def Let_def mode_of_def split: if_splits prod.splits option.splits)
      show ?thesis
      proof (cases "build row' db1")
        case built: (Inr remote)
        obtain l r where sides: "w_sides w = (l, r)" by fastforce
        show ?thesis
        proof (cases "if rr_lastRunAt row' = None then rv_probe remote r else Inr []")
          case probed: (Inr classes)
          show ?thesis
          proof (cases "collectSlice (sides_of stub remote l r) (stub_rows stub l (rr_id row')) (re_slicePaths env)
                          (re_lateSweep env) resume")
            case collected: (Inr seen)
            define tc where "tc = \<lparr>tc_stub = stub, tc_remote = remote, tc_id = rr_id row', tc_slice = seen\<rparr>"
            have "keeps_act R (run_plan (re_hash env) tc (re_latePlan env) (re_sliceBytes env) (re_nowMs env)
                (p_decisions (plan_for env row' seen)))"
            proof (rule keeps_plan)
              fix d assume "d \<in> set (p_decisions (plan_for env row' seen))"
              then show "keeps_act R (applyDecision (re_hash env) tc d)"
                using assms(1) [OF mode, of tc d] by (simp add: tc_def)
            next
              fix ps show "keeps_act R (recordBase tc (re_nowMs env) ps)" by (rule assms(2)) (simp add: tc_def)
            qed
            then have "R (l, r) (fst (run_plan (re_hash env) tc (re_latePlan env) (re_sliceBytes env) (re_nowMs env)
                (p_decisions (plan_for env row' seen)) (l, r)))"
              by (rule keeps_actD)
            then show ?thesis
              by (auto simp: slice_body_def Pair Inr a built sides probed collected tc_def Let_def kept_refl
                  split: prod.split sum.split option.split)
          qed (simp add: slice_body_def Pair Inr a built sides probed Let_def kept_refl)
        qed (simp add: slice_body_def Pair Inr a built sides Let_def kept_refl)
      qed (simp add: slice_body_def Pair Inr a Let_def kept_refl split: prod.split)
    qed (simp add: slice_body_def Pair kept_refl)
  qed
  then show ?thesis by (auto simp: runSlice_def Let_def split: prod.split sum.split)
qed

end

interpretation remote_kept: kept_relation "\<lambda>s s'. snd s' = snd s"
  by unfold_locales simp_all

interpretation local_kept: kept_relation "\<lambda>s s'. fst s' = fst s"
  by unfold_locales simp_all

definition same_files :: "'fs volume \<Rightarrow> 'fs volume \<Rightarrow> bool" where
  "same_files v v' \<longleftrightarrow> vol_fs v' = vol_fs v \<and> st_nodes (vol_store v') = st_nodes (vol_store v)
     \<and> st_props (vol_store v') = st_props (vol_store v) \<and> st_locks (vol_store v') = st_locks (vol_store v)"

interpretation files_kept: kept_relation "\<lambda>s s'. same_files (fst s) (fst s')"
  by unfold_locales (simp_all add: same_files_def)

subsection \<open>Pull-only\<close>

lemma apply_local_remote: "keeps_act (\<lambda>s s'. snd s' = snd s) (apply_local tc ops what)"
  by (auto simp: keeps_act_def apply_local_def split: prod.split sum.split)

lemma pull_keeps_remote:
  "keeps_act (\<lambda>s s'. snd s' = snd s) (remoteToLocal tc p ct)"
  "keeps_act (\<lambda>s s'. snd s' = snd s) (pullTransfer tc p ct)"
  "keeps_act (\<lambda>s s'. snd s' = snd s) (pullAndPreserve tc p c ct)"
proof -
  show 1: "keeps_act (\<lambda>s s'. snd s' = snd s) (remoteToLocal tc p ct)" for p ct
    by (auto simp: remoteToLocal_def intro!: remote_kept.keeps_intros apply_local_remote split: option.split)
  show "keeps_act (\<lambda>s s'. snd s' = snd s) (pullTransfer tc p ct)"
    by (auto simp: pullTransfer_def intro!: remote_kept.keeps_intros apply_local_remote split: option.split)
  show "keeps_act (\<lambda>s s'. snd s' = snd s) (pullAndPreserve tc p c ct)"
    by (auto simp: pullAndPreserve_def Let_def intro!: remote_kept.keeps_intros apply_local_remote 1 split: option.split)
qed

lemma recordBase_keeps_remote: "keeps_act (\<lambda>s s'. snd s' = snd s) (recordBase tc now ps)"
  by (auto simp: keeps_act_def recordBase_def Let_def split: prod.split sum.split)

text \<open>
  C2. A pull-only run never writes to the remote: whatever the two sides hold and whatever
  fails, after a scheduled run of a replication in mode \<open>pull-only\<close> the remote is exactly what
  it was before.
\<close>

theorem pull_only_run_keeps_remote:
  fixes stub :: "'l replica_stub" and w :: "('l, 'r) world"
  assumes "rr_mode row = ''pull-only''"
  shows "snd (w_sides (fst (runSlice env stub build localKey row w))) = snd (w_sides w)"
proof (rule remote_kept.keeps_slice)
  fix row' :: replication_row and tc :: "('l, 'r) transfer" and d
  assume "mode_of row' = mode_of row" and d: "d \<in> set (p_decisions (plan_for env row' (tc_slice tc)))"
  with assms have mode: "mode_of row' = Pull_only" by (simp add: mode_of_def)
  from d obtain taken inp c k where "decide (re_random env) inp taken (d_path d) = Emit d c k" "bi_mode inp = Pull_only"
    unfolding plan_for_def by (elim decision_origin) (use mode in auto)
  from decide_pull_only [OF this] show "keeps_act (\<lambda>s s'. snd s' = snd s) (applyDecision (re_hash env) tc d)"
    by (cases d) (auto simp: applyDecision_def intro!: remote_kept.keeps_intros pull_keeps_remote apply_local_remote)
qed (rule recordBase_keeps_remote)

subsection \<open>Copy-only\<close>

definition bookkeeping_only :: "replica_operation \<Rightarrow> bool" where
  "bookkeeping_only operation \<longleftrightarrow> (case operation of Op_record _ \<Rightarrow> True | Op_forget _ \<Rightarrow> True | Op_touch _ \<Rightarrow> True | _ \<Rightarrow> False)"

lemma apply_all_bookkeeping:
  "\<forall>operation\<in>set ops. bookkeeping_only operation \<Longrightarrow>
     fst (fst (apply_all dofs env i ops ((v, k), res))) = v"
proof (induction ops arbitrary: k res)
  case (Cons operation ops)
  obtain s' e where step: "applyOne dofs env i operation (v, k) = (s', e)" by fastforce
  have "fst s' = v"
    using step Cons.prems
    by (cases k) (auto simp: applyOne_def bookkeeping_only_def Let_def
        split: replica_operation.splits sum.splits option.splits)
  then obtain k' where "s' = (v, k')" by (cases s') auto
  with step Cons show ?case by (cases e) auto
qed simp

lemma same_files_ensure: "same_files v (ensure_schema v)"
  by (simp add: same_files_def ensure_schema_def ensureReplicationSchema_def split: option.split)

lemma same_files_refl [simp]: "same_files v v"
  by (simp add: same_files_def)

lemma same_files_trans: "\<lbrakk>same_files u v; same_files v w\<rbrakk> \<Longrightarrow> same_files u w"
  by (simp add: same_files_def)

text \<open>A statement on the replica table leaves the other three alone.\<close>

definition replica_only :: "store \<Rightarrow> store \<Rightarrow> bool" where
  "replica_only st st' \<longleftrightarrow> st_nodes st' = st_nodes st \<and> st_props st' = st_props st \<and> st_locks st' = st_locks st"

lemma replica_statements:
  "keeps replica_only (saveReplicaState env i rows)" "keeps replica_only (forgetReplicaPaths env i ps)"
proof -
  have one: "keeps replica_only (save_one env i row)" "keeps replica_only (delete_replica_rows env op P)" for row op P
    by (auto simp: keeps_def replica_only_def save_one_def delete_replica_rows_def split: option.split)
  show "keeps replica_only (saveReplicaState env i rows)" unfolding saveReplicaState_def
    by (rule keeps_run_all) (auto simp: one, auto simp: replica_only_def)
  show "keeps replica_only (forgetReplicaPaths env i ps)" unfolding forgetReplicaPaths_def
    by (rule keeps_run_all) (auto simp: one, auto simp: replica_only_def)
qed

lemma store_step_files: "keeps replica_only f \<Longrightarrow> same_files v (fst (store_step f v))"
  unfolding keeps_def store_step_def same_files_def replica_only_def by (auto split: prod.split) (metis fst_conv)+

lemma apply_bookkeeping_files:
  assumes "\<forall>operation\<in>set ops. bookkeeping_only operation"
  shows "same_files v (fst (applyReplicaOperations dofs env i ops v))"
proof -
  obtain w rows ps res where all: "apply_all dofs env i ops ((ensure_schema v, [], []), no_result) = ((w, rows, ps), res)"
    by (metis prod.collapse)
  then have w: "w = ensure_schema v" using apply_all_bookkeeping [OF assms, of dofs env i "ensure_schema v" "([], [])" no_result] by simp
  define r where "r = (if rows = [] then (w, None) else store_step (saveReplicaState env i rows) w)"
  have 1: "same_files w (fst r)"
    by (cases "rows = []") (simp_all add: r_def same_files_refl store_step_files replica_statements)
  define r' where "r' = also_do r (\<lambda>u. if ps = [] then (u, None) else store_step (forgetReplicaPaths env i ps) u)"
  have 2: "same_files (fst r) (fst r')"
    by (auto simp: r'_def also_do_def same_files_refl store_step_files replica_statements split: prod.split option.split)
  have "fst (applyReplicaOperations dofs env i ops v) = fst r'"
    by (simp add: applyReplicaOperations_def all r_def [symmetric] r'_def [symmetric] split: prod.split option.split)
  then show ?thesis using same_files_trans [OF same_files_trans [OF same_files_ensure 1 [unfolded w]] 2] by simp
qed

lemma push_keeps_local: "keeps_act (\<lambda>s s'. fst s' = fst s) (pushTransfer tc p)"
  by (auto simp: pushTransfer_def on_remote_def keeps_act_def act_bind_def act_value_def act_throw_def read_local_def
      split: option.split prod.split sum.split)

lemma keeps_act_weaken: "\<lbrakk>keeps_act R m; \<And>s s'. R s s' \<Longrightarrow> R' s s'\<rbrakk> \<Longrightarrow> keeps_act R' m"
  unfolding keeps_act_def by blast

lemma remove_keeps_local: "keeps_act (\<lambda>s s'. fst s' = fst s) (on_remote f)"
  by (auto simp: keeps_act_def on_remote_def split: prod.split option.split)

lemma base_operations_bookkeeping: "\<forall>operation\<in>set (base_operations us). bookkeeping_only operation"
  by (auto simp: base_operations_def bookkeeping_only_def split: base_change.splits)

lemma recordBase_keeps_files:
  assumes "tc_stub tc = volume_stub dofs env"
  shows "keeps_act (\<lambda>s s'. same_files (fst s) (fst s')) (recordBase tc now ps)"
proof -
  have "same_files l (fst (fst (recordBase tc now ps (l, r))))" for l r
  proof -
    let ?ops = "base_operations (map (base_update tc now (l, r)) ps)"
    have "same_files l (fst (applyReplicaOperations dofs env (tc_id tc) ?ops l))"
      by (rule apply_bookkeeping_files) (rule base_operations_bookkeeping)
    then show ?thesis
      by (auto simp: recordBase_def Let_def assms volume_stub_def split: prod.split sum.split)
  qed
  then show ?thesis by (simp add: keeps_act_def)
qed

text \<open>
  C3. A copy-only run never touches the local volume: after a scheduled run of a replication in
  mode \<open>copy-only\<close> the volume's files, its metadata, its dead properties and its locks are what
  they were before; only the replication's own record of the base may have changed.
\<close>

theorem copy_only_run_keeps_files:
  fixes w :: "('fs volume, 'r) world"
  assumes "rr_mode row = ''copy-only''"
  shows "same_files (fst (w_sides w)) (fst (w_sides (fst (runSlice env (volume_stub dofs sql) build localKey row w))))"
proof (rule files_kept.keeps_slice)
  fix row' and tc :: "('fs volume, 'r) transfer" and d
  assume "mode_of row' = mode_of row" and d: "d \<in> set (p_decisions (plan_for env row' (tc_slice tc)))"
  with assms have mode: "mode_of row' = Copy_only" by (simp add: mode_of_def)
  from d obtain taken inp c k where "decide (re_random env) inp taken (d_path d) = Emit d c k" "bi_mode inp = Copy_only"
    unfolding plan_for_def by (elim decision_origin) (use mode in auto)
  note allowed = decide_copy_only [OF this]
  have "keeps_act (\<lambda>s s'. fst s' = fst s) (applyDecision (re_hash env) tc d)"
    using allowed
    by (cases d) (auto simp: applyDecision_def intro!: local_kept.keeps_intros push_keeps_local remove_keeps_local)
  then show "keeps_act (\<lambda>s s'. same_files (fst s) (fst s')) (applyDecision (re_hash env) tc d)"
    by (rule keeps_act_weaken) simp
qed (rule recordBase_keeps_files)

end
