(* ===== verification/Replica_Base.thy ===== *)
theory Replica_Base
  imports Replica_Run_Safety
begin

section \<open>Replication: the recorded base\<close>

text \<open>
  What \<open>PlanExecutor.recordBase\<close> does to the base as a map from paths to rows: the statements
  of \<open>VolumeReplicationRpc.apply\<close> and \<open>replication.ts\<close> behind it refine one update per touched path.
\<close>

definition base_row :: "'fs volume \<Rightarrow> string \<Rightarrow> string \<Rightarrow> replica_row option" where
  "base_row v i p =
     lookup_row replica_key (i, p) (case st_replica (vol_store v) of Some table \<Rightarrow> table | None \<Rightarrow> [])"

definition saved_rows :: "base_change list \<Rightarrow> replica_row list" where
  "saved_rows us = concat (map (\<lambda>u. case u of Record_row row \<Rightarrow> [row] | _ \<Rightarrow> []) us)"

definition forgotten :: "base_change list \<Rightarrow> string list" where
  "forgotten us = concat (map (\<lambda>u. case u of Forget_path p \<Rightarrow> [p] | _ \<Rightarrow> []) us)"

lemma base_operations_split: "base_operations us = map Op_record (saved_rows us) @ map Op_forget (forgotten us)"
proof -
  have "concat (map (\<lambda>u. case u of Record_row row \<Rightarrow> [Op_record row] | _ \<Rightarrow> []) us) = map Op_record (saved_rows us)"
    by (induction us) (simp_all add: saved_rows_def split: base_change.split)
  moreover have "concat (map (\<lambda>u. case u of Forget_path p \<Rightarrow> [Op_forget p] | _ \<Rightarrow> []) us) = map Op_forget (forgotten us)"
    by (induction us) (simp_all add: forgotten_def split: base_change.split)
  ultimately show ?thesis by (simp add: base_operations_def)
qed

lemma apply_all_append:
  "apply_all dofs env i (xs @ ys) s = apply_all dofs env i ys (apply_all dofs env i xs s)"
  by (induction xs arbitrary: s) (auto split: prod.split option.split)

lemma apply_records:
  "apply_all dofs env i (map Op_record rows) ((v, r, f), res) =
     ((v, r @ rows, f), res\<lparr>ar_applied := ar_applied res + length rows\<rparr>)"
  by (induction rows arbitrary: r res) (simp_all add: applyOne_def Let_def)

lemma apply_forgets:
  "apply_all dofs env i (map Op_forget ps) ((v, r, f), res) =
     ((v, r, f @ ps), res\<lparr>ar_applied := ar_applied res + length ps\<rparr>)"
  by (induction ps arbitrary: f res) (simp_all add: applyOne_def Let_def)

subsection \<open>The statements on the table\<close>

definition with_table :: "replica_row list \<Rightarrow> store \<Rightarrow> store" where
  "with_table table st = st\<lparr>st_replica := Some table\<rparr>"

lemma save_table:
  assumes "\<forall>op. se_fails env op = None"
  shows "saveReplicaState env i rows (with_table table st) =
     (with_table (foldl (\<lambda>t row. upsert replica_key merge_replica (row\<lparr>rp_id := i\<rparr>) t) table rows) st, None)"
  by (induction rows arbitrary: table) (simp_all add: saveReplicaState_def save_one_def assms with_table_def)

lemma forget_table:
  assumes "\<forall>op. se_fails env op = None"
  shows "forgetReplicaPaths env i ps (with_table table st) =
     (with_table (filter (\<lambda>row. \<not> (rp_id row = i \<and> rp_path row \<in> set ps)) table) st, None)"
proof (induction ps arbitrary: table)
  case (Cons p ps)
  have "forgetReplicaPaths env i (p # ps) (with_table table st) =
      forgetReplicaPaths env i ps (with_table (filter (\<lambda>row. \<not> (rp_id row = i \<and> rp_path row = p)) table) st)"
    by (simp add: forgetReplicaPaths_def delete_replica_rows_def assms with_table_def)
  also have "\<dots> = (with_table (filter (\<lambda>row. \<not> (rp_id row = i \<and> rp_path row \<in> set ps))
      (filter (\<lambda>row. \<not> (rp_id row = i \<and> rp_path row = p)) table)) st, None)" by (rule Cons)
  also have "filter (\<lambda>row. \<not> (rp_id row = i \<and> rp_path row \<in> set ps))
      (filter (\<lambda>row. \<not> (rp_id row = i \<and> rp_path row = p)) table) =
      filter (\<lambda>row. \<not> (rp_id row = i \<and> rp_path row \<in> set (p # ps))) table" by (auto intro: filter_cong)
  finally show ?case .
qed (simp add: forgetReplicaPaths_def with_table_def)

lemma lookup_saved:
  assumes "distinct (map rp_path rows)"
  shows "lookup_row replica_key (i, p) (foldl (\<lambda>t row. upsert replica_key merge_replica (row\<lparr>rp_id := i\<rparr>) t) table rows) =
     (case find (\<lambda>row. rp_path row = p) rows of Some row \<Rightarrow> Some (row\<lparr>rp_id := i\<rparr>) | None \<Rightarrow> lookup_row replica_key (i, p) table)"
  using assms
proof (induction rows arbitrary: table)
  case (Cons row rows)
  let ?row = "row\<lparr>rp_id := i\<rparr>"
  have key: "replica_key ?row = (i, rp_path row)" by (simp add: replica_key_def)
  show ?case
  proof (cases "rp_path row = p")
    case True
    then have "find (\<lambda>r. rp_path r = p) rows = None" using Cons.prems by (auto simp: find_None_iff) (metis image_eqI)
    moreover have "lookup_row replica_key (i, p) (upsert replica_key merge_replica ?row table) = Some ?row"
      using replicas.lookup_upsert_same [of ?row table] True by (simp add: key merge_replica_def split: option.split)
    ultimately show ?thesis using Cons True by simp
  next
    case False
    then have "lookup_row replica_key (i, p) (upsert replica_key merge_replica ?row table) = lookup_row replica_key (i, p) table"
      by (intro replicas.lookup_upsert_other) (simp add: key)
    then show ?thesis using Cons False by (simp split: option.split)
  qed
qed simp

lemma lookup_filtered:
  "lookup_row replica_key (i, p) (filter (\<lambda>row. \<not> (rp_id row = i \<and> rp_path row \<in> set ps)) table) =
     (if p \<in> set ps then None else lookup_row replica_key (i, p) table)"
  by (induction table) (auto simp: lookup_row_def replica_key_def)

subsection \<open>The bookkeeping refines an update of the base\<close>

text \<open>The row for a path both sides hold, as re-read after the transfers.\<close>

definition agreement :: "string \<Rightarrow> string \<Rightarrow> int \<Rightarrow> plan_side \<Rightarrow> plan_side \<Rightarrow> replica_row" where
  "agreement i p now l r = \<lparr>rp_id = i, rp_path = p, rp_isCollection = ps_isCollection l,
     rp_localEtag = ps_etag l, rp_localMtime = ps_mtime l, rp_localSize = ps_size l,
     rp_remoteEtag = ps_etag r, rp_remoteMtime = ps_mtime r, rp_remoteSize = ps_size r,
     rp_contentType = or_else (ps_contentType l) (ps_contentType r), rp_syncedAt = now\<rparr>"

text \<open>What the re-read sees: a complete listing of the parent, and the answer of the remote.\<close>

definition local_view :: "'l replica_stub \<Rightarrow> 'l \<Rightarrow> string \<Rightarrow> plan_side option option" where
  "local_view stub l p =
     (case stub_list stub l (parentOf p) of
        Inr listing \<Rightarrow> if ls_complete listing then Some (entry_at p (ls_entries listing)) else None
      | Inl _ \<Rightarrow> None)"

definition remote_view :: "'r remote_volume \<Rightarrow> 'r \<Rightarrow> string \<Rightarrow> plan_side option" where
  "remote_view rv r p = (case rv_stat rv r p of Inr e \<Rightarrow> e | Inl _ \<Rightarrow> None)"

text \<open>The base after the bookkeeping, path by path.\<close>

definition rebased :: "'l replica_stub \<Rightarrow> 'r remote_volume \<Rightarrow> string \<Rightarrow> int \<Rightarrow> 'l \<times> 'r \<Rightarrow> string \<Rightarrow> replica_row option \<Rightarrow> replica_row option" where
  "rebased stub rv i now s p old =
     (case (local_view stub (fst s) p, rv_stat rv (snd s) p) of
        (Some (Some l), Inr (Some r)) \<Rightarrow> Some (agreement i p now l r)
      | (Some None, Inr None) \<Rightarrow> None
      | _ \<Rightarrow> old)"

lemma base_update_cases:
  "base_update tc now s p =
     (case (local_view (tc_stub tc) (fst s) p, remote_view (tc_remote tc) (snd s) p) of
        (Some (Some l), Some r) \<Rightarrow> Record_row (agreement (tc_id tc) p now l r)
      | (Some None, None) \<Rightarrow> Forget_path p
      | _ \<Rightarrow> Keep_row)"
  by (auto simp: base_update_def local_view_def remote_view_def agreement_def split: sum.split option.split)

lemma saved_find:
  "find (\<lambda>row. rp_path row = p) (saved_rows (map (base_update tc now s) ps)) =
     (if p \<in> set ps then (case base_update tc now s p of Record_row row \<Rightarrow> Some row | _ \<Rightarrow> None) else None)"
proof (induction ps)
  case (Cons q ps)
  have "rp_path row = q" if "base_update tc now s q = Record_row row" for q row
    using that by (auto simp: base_update_cases agreement_def split: option.splits)
  with Cons show ?case by (auto simp: saved_rows_def split: base_change.split)
qed (simp add: saved_rows_def)

lemma distinct_saved: "distinct ps \<Longrightarrow> distinct (map rp_path (saved_rows (map (base_update tc now s) ps)))"
proof (induction ps)
  case (Cons p ps)
  have path: "rp_path row = q" if "base_update tc now s q = Record_row row" for q row
    using that by (auto simp: base_update_cases agreement_def split: option.splits)
  have "p \<notin> rp_path ` set (saved_rows (map (base_update tc now s) ps))"
    using Cons.prems path by (fastforce simp: saved_rows_def split: base_change.splits)
  then show ?case using Cons path by (auto simp: saved_rows_def split: base_change.split)
qed (simp add: saved_rows_def)

lemma forgotten_iff:
  "p \<in> set (forgotten (map (base_update tc now s) ps)) \<longleftrightarrow> p \<in> set ps \<and> base_update tc now s p = Forget_path p"
proof -
  have "q = p" if "base_update tc now s q = Forget_path p" for q
    using that by (auto simp: base_update_cases split: option.splits)
  then show ?thesis by (auto simp: forgotten_def split: base_change.splits) metis+
qed

lemma rebased_update:
  assumes "local_view (tc_stub tc) (fst s) p = Some None \<longrightarrow> (\<exists>e. rv_stat (tc_remote tc) (snd s) p = Inr e)" and "i = tc_id tc"
  shows "(case base_update tc now s p of
       Record_row row \<Rightarrow> Some (row\<lparr>rp_id := i\<rparr>) | Forget_path q \<Rightarrow> if q = p then None else old | Keep_row \<Rightarrow> old)
     = rebased (tc_stub tc) (tc_remote tc) i now s p old"
proof (cases "rv_stat (tc_remote tc) (snd s) p")
  case (Inl m)
  then have "local_view (tc_stub tc) (fst s) p \<noteq> Some None" using assms(1) by auto
  with Inl show ?thesis by (simp add: base_update_cases rebased_def remote_view_def split: option.split)
next
  case (Inr e)
  then show ?thesis by (simp add: base_update_cases rebased_def remote_view_def agreement_def assms(2) split: option.split)
qed

text \<open>
  C4. The recorded base follows positive evidence: when the statements succeed and the remote has
  answered for the touched paths that are gone locally, the bookkeeping of a run rewrites the row of
  exactly the touched paths that both sides hold (to the agreement of their validators, as re-read
  after the transfers), drops the row of exactly those that a complete local listing and the remote
  both say are absent, and keeps every other row: those of paths that only one side holds, those
  that could not be read, and those of paths it did not touch.
\<close>

theorem base_follows_evidence:
  assumes "tc_stub tc = volume_stub dofs env" and "\<forall>op. se_fails env op = None" and "distinct touched"
    and "recordBase tc now touched (v, r) = ((v', r'), result)"
    and "p \<in> set touched \<and> local_view (tc_stub tc) v p = Some None \<longrightarrow> (\<exists>e. rv_stat (tc_remote tc) r p = Inr e)"
  shows "result = Inr (0, None)
    \<and> base_row v' (tc_id tc) p =
        (if p \<in> set touched then rebased (tc_stub tc) (tc_remote tc) (tc_id tc) now (v, r) p (base_row v (tc_id tc) p)
         else base_row v (tc_id tc) p)"
proof -
  define us where "us = map (base_update tc now (v, r)) touched"
  define table where "table = (case st_replica (vol_store v) of Some t \<Rightarrow> t | None \<Rightarrow> [])"
  define i where "i = tc_id tc"
  define saved where "saved = foldl (\<lambda>t row. upsert replica_key merge_replica (row\<lparr>rp_id := i\<rparr>) t) table (saved_rows us)"
  define kept where "kept = filter (\<lambda>row. \<not> (rp_id row = i \<and> rp_path row \<in> set (forgotten us))) saved"
  have before: "vol_store (ensure_schema v) = with_table table (vol_store v)"
    by (auto simp: ensure_schema_def ensureReplicationSchema_def with_table_def table_def split: option.split)
  have result: "result = Inr (0, None) \<and> base_row v' i p = lookup_row replica_key (i, p) kept"
  proof (cases "base_operations us = []")
    case True
    then have none: "saved_rows us = []" "forgotten us = []" by (simp_all add: base_operations_split)
    from assms(4) True have "v' = v" "result = Inr (0, None)" by (simp_all add: recordBase_def us_def [symmetric])
    then show ?thesis by (simp add: base_row_def kept_def saved_def none table_def)
  next
    case False
    have "apply_all dofs env i (base_operations us) ((ensure_schema v, [], []), no_result) =
        ((ensure_schema v, saved_rows us, forgotten us), no_result\<lparr>ar_applied := length (saved_rows us) + length (forgotten us)\<rparr>)"
      by (simp add: base_operations_split apply_all_append apply_records apply_forgets no_result_def)
    moreover have "(if saved_rows us = [] then (ensure_schema v, None) else store_step (saveReplicaState env i (saved_rows us)) (ensure_schema v))
        = ((ensure_schema v)\<lparr>vol_store := with_table saved (vol_store v)\<rparr>, None)"
      using before by (auto simp: store_step_def save_table [OF assms(2)] saved_def)
    moreover have "(if forgotten us = [] then (w, None) else store_step (forgetReplicaPaths env i (forgotten us)) w)
        = (w\<lparr>vol_store := with_table kept (vol_store v)\<rparr>, None)"
      if "vol_store w = with_table saved (vol_store v)" for w :: "'a volume"
      using that by (auto simp: store_step_def forget_table [OF assms(2)] kept_def)
    ultimately have "applyReplicaOperations dofs env i (base_operations us) v =
        ((ensure_schema v)\<lparr>vol_store := with_table kept (vol_store v)\<rparr>,
         Inr (no_result\<lparr>ar_applied := length (saved_rows us) + length (forgotten us)\<rparr>))"
      by (simp add: applyReplicaOperations_def also_do_def)
    with assms(1,4) False show ?thesis
      by (auto simp: recordBase_def us_def [symmetric] i_def [symmetric] volume_stub_def no_result_def base_row_def with_table_def)
  qed
  have "lookup_row replica_key (i, p) kept =
      (if p \<in> set (forgotten us) then None
       else (case find (\<lambda>row. rp_path row = p) (saved_rows us) of
               Some row \<Rightarrow> Some (row\<lparr>rp_id := i\<rparr>) | None \<Rightarrow> lookup_row replica_key (i, p) table))"
    by (simp only: kept_def lookup_filtered saved_def us_def lookup_saved [OF distinct_saved [OF assms(3)]])
  then have row: "base_row v' i p =
      (if p \<in> set touched
       then (case base_update tc now (v, r) p of
               Record_row row \<Rightarrow> Some (row\<lparr>rp_id := i\<rparr>) | Forget_path q \<Rightarrow> if q = p then None else base_row v i p | Keep_row \<Rightarrow> base_row v i p)
       else base_row v i p)"
    using result by (simp add: us_def saved_find forgotten_iff table_def base_row_def split: base_change.split)
  have "(case base_update tc now (v, r) p of
          Record_row row \<Rightarrow> Some (row\<lparr>rp_id := i\<rparr>) | Forget_path q \<Rightarrow> if q = p then None else base_row v i p | Keep_row \<Rightarrow> base_row v i p)
      = rebased (tc_stub tc) (tc_remote tc) i now (v, r) p (base_row v i p)" if "p \<in> set touched"
    by (rule rebased_update [OF _ i_def]) (use assms(5) that in simp)
  moreover have "result = Inr (0, None)" using result by simp
  ultimately show ?thesis unfolding i_def [symmetric] using row by simp
qed

end
