(* ===== verification/Replica_Runs.thy ===== *)
theory Replica_Runs
  imports Replica_Base
begin

section \<open>Replication: runs on two small volumes\<close>

text \<open>
  Runs of the whole engine, from the listing of both sides to the recorded outcome, on two
  volumes in memory: witnesses of the properties, and behaviour worth knowing.
\<close>

definition quiet_db :: db_env where
  "quiet_db = \<lparr>de_fails = (\<lambda>_. None), de_missing_schema = (\<lambda>_. False), de_now = 100\<rparr>"

definition empty_store :: store where
  "empty_store = \<lparr>st_nodes = [], st_props = [], st_locks = [], st_replica = None\<rparr>"

definition volume_with :: "mem_fs \<Rightarrow> mem_fs volume" where
  "volume_with fs = \<lparr>vol_fs = fs, vol_store = empty_store\<rparr>"

definition sample_runner :: runner_env where
  "sample_runner = \<lparr>re_db = quiet_db, re_nowMs = 100000, re_slicePaths = 10, re_sliceBytes = 1000, re_passMaxMs = 60000,
     re_maxFailures = 3, re_hashOnAmbiguous = False, re_cache = True, re_lateSweep = (\<lambda>_. False),
     re_latePlan = (\<lambda>_. False), re_random = (\<lambda>_. ''rnd''), re_hash = (\<lambda>s. s), re_conflictId = (\<lambda>n. show_nat n)\<rparr>"

definition sample_replication :: "string \<Rightarrow> replication_row" where
  "sample_replication mode = \<lparr>rr_id = ''R'', rr_volumeId = ''V'', rr_targetKind = ''dav-volume'', rr_remoteUrl = [],
     rr_remoteOwner = ''o'', rr_remoteVolume = ''w'', rr_remotePath = [], rr_authKind = ''none'',
     rr_encryptedSecret = None, rr_secretIv = None, rr_mode = mode, rr_mirrorDeletions = 0, rr_intervalMinutes = 60,
     rr_enabled = 1, rr_lastRunAt = None, rr_lastStatus = None, rr_lastError = None, rr_consecutiveFailures = 0,
     rr_cursorPath = None, rr_cursorRemaining = 0, rr_passStartedAt = None, rr_createdAt = 1, rr_updatedAt = 1,
     rr_createdBy = None\<rparr>"

definition sample_volume_row :: "string \<Rightarrow> string \<Rightarrow> volume_row" where
  "sample_volume_row i name = \<lparr>vr_id = i, vr_ownerEmail = ''o@x'', vr_ownerUserId = Some ''u'', vr_owner = ''o'',
     vr_name = name, vr_description = None, vr_isPrivate = 1, vr_createdAt = 1, vr_updatedAt = 1, vr_ownerCi = ''o'',
     vr_nameCi = name, vr_hrefPrefixMode = ''base''\<rparr>"

definition sample_db :: "string \<Rightarrow> database" where
  "sample_db mode = \<lparr>db_volumes = [sample_volume_row ''V'' ''v'', sample_volume_row ''W'' ''w''], db_credentials = [],
     db_namespaces = [], db_replications = [sample_replication mode], db_conflicts = []\<rparr>"

definition sample_sql :: sql_env where
  "sample_sql = \<lparr>se_fails = (\<lambda>_. None), se_missing_schema = (\<lambda>_. False), se_now = 7\<rparr>"

definition mem_stub :: "mem_fs volume replica_stub" where "mem_stub = volume_stub mem_dofs sample_sql"

definition run_between :: "string \<Rightarrow> mem_fs volume \<Rightarrow> mem_fs volume \<Rightarrow> (mem_fs volume, mem_fs volume) world \<times> run_result" where
  "run_between mode l r =
     runSlice sample_runner mem_stub (buildRemote quiet_db (\<lambda>_. Inr mem_stub) (\<lambda>_. Inl ''no http'')) ''o/v''
       (sample_replication mode) \<lparr>w_db = sample_db mode, w_sides = (l, r), w_purged = []\<rparr>"

definition files_after :: "(mem_fs volume, mem_fs volume) world \<times> run_result \<Rightarrow> mem_fs \<times> mem_fs" where
  "files_after result = map_prod vol_fs vol_fs (w_sides (fst result))"

subsection \<open>Witnesses\<close>

text \<open>The local volume \<open>/a/x\<close> and the remote one with the file \<open>/n\<close>.\<close>

definition left_volume :: "mem_fs volume" where
  "left_volume = volume_with [(''/a'', None), (''/a/x'', Some ''one'')]"

definition right_volume :: "mem_fs volume" where
  "right_volume = volume_with [(''/n'', Some ''two'')]"

theorem pull_only_run_keeps_remote_witness:
  "snd (w_sides (fst (run_between ''pull-only'' left_volume right_volume))) = right_volume"
  unfolding run_between_def
  by (subst pull_only_run_keeps_remote) (simp_all add: sample_replication_def)

lemma pull_only_run_pulls:
  "fst (files_after (run_between ''pull-only'' left_volume right_volume)) =
     [(''/a'', None), (''/a/x'', Some ''one''), (''/n'', Some ''two'')]"
  by code_simp

theorem copy_only_run_keeps_files_witness:
  "same_files left_volume (fst (w_sides (fst (run_between ''copy-only'' left_volume right_volume))))"
  using copy_only_run_keeps_files [of "sample_replication ''copy-only''" "\<lparr>w_db = sample_db ''copy-only'',
      w_sides = (left_volume, right_volume), w_purged = []\<rparr>" sample_runner mem_dofs sample_sql
      "buildRemote quiet_db (\<lambda>_. Inr mem_stub) (\<lambda>_. Inl ''no http'')" "''o/v''"]
  by (simp add: run_between_def mem_stub_def sample_replication_def)

lemma copy_only_run_copies:
  "snd (files_after (run_between ''copy-only'' left_volume right_volume)) =
     [(''/n'', Some ''two''), (''/a'', None), (''/a/x'', Some ''one'')]"
  by code_simp

definition sample_transfer :: "(mem_fs volume, mem_fs volume) transfer" where
  "sample_transfer = \<lparr>tc_stub = mem_stub,
     tc_remote = volume_remote mem_stub \<lparr>vt_owner = ''o'', vt_volume = ''w'', vt_remotePath = [], vt_replicationId = ''R''\<rparr>,
     tc_id = ''R'', tc_slice = \<lparr>sl_local = [], sl_remote = [], sl_base = [], sl_complete = True, sl_errors = 0,
       sl_firstError = None, sl_remaining = 0, sl_cursor = None\<rparr>\<rparr>"

text \<open>Both sides hold \<open>n\<close>; neither holds \<open>gone\<close>; only the local one holds \<open>a\<close>.\<close>

definition both_volume :: "mem_fs volume" where
  "both_volume = volume_with [(''/a'', None), (''/n'', Some ''two'')]"

theorem base_follows_evidence_witness:
  "let v' = fst (fst (recordBase sample_transfer 7 [''n'', ''gone'', ''a''] (both_volume, right_volume)))
   in base_row v' ''R'' ''n'' \<noteq> None \<and> base_row v' ''R'' ''a'' = None"
proof -
  obtain v' r' result where run: "recordBase sample_transfer 7 [''n'', ''gone'', ''a''] (both_volume, right_volume) = ((v', r'), result)"
    by (metis prod.collapse)
  have stub: "tc_stub sample_transfer = volume_stub mem_dofs sample_sql" by (simp add: sample_transfer_def mem_stub_def)
  have calm: "\<forall>op. se_fails sample_sql op = None" by (simp add: sample_sql_def)
  have answers: "rv_stat (tc_remote sample_transfer) right_volume ''gone'' = Inr None"
    "local_view (tc_stub sample_transfer) both_volume ''n'' \<noteq> Some None"
    "local_view (tc_stub sample_transfer) both_volume ''a'' \<noteq> Some None" by code_simp+
  note rows = conjunct2 [OF base_follows_evidence [OF stub calm _ run]]
  have "base_row v' ''R'' p = rebased mem_stub (tc_remote sample_transfer) ''R'' 7 (both_volume, right_volume) p (base_row both_volume ''R'' p)"
    if "p = ''n'' \<or> p = ''a''" for p
    using rows [of p] answers that by (auto simp: sample_transfer_def)
  moreover have "rebased mem_stub (tc_remote sample_transfer) ''R'' 7 (both_volume, right_volume) ''n'' (base_row both_volume ''R'' ''n'') \<noteq> None"
    by code_simp
  moreover have "rebased mem_stub (tc_remote sample_transfer) ''R'' 7 (both_volume, right_volume) ''a'' (base_row both_volume ''R'' ''a'') = None"
    by code_simp
  ultimately show ?thesis by (simp add: run)
qed

subsection \<open>Behaviour worth knowing\<close>

text \<open>
  In \<open>pull-only\<close> mode a local file under the name of a remote collection is lost: the conflict
  copy made for it is an empty collection.
\<close>

lemma pull_only_collection_loses_file:
  "fst (files_after (run_between ''pull-only'' (volume_with [(''/x'', Some ''one'')])
       (volume_with [(''/x'', None), (''/x/y'', Some ''two'')]))) =
     [(''/x.conflict-100'', None), (''/x'', None), (''/x/y'', Some ''two'')]"
  by code_simp

text \<open>
  A \<open>keep-both\<close> conflict never settles: the copies of the two sides differ from each other, so
  the next run finds a conflict at the copy and makes copies of it.
\<close>

definition conflict_run :: "(mem_fs volume, mem_fs volume) world \<times> run_result" where
  "conflict_run = run_between ''keep-both'' (volume_with [(''/x'', Some ''one'')]) (volume_with [(''/x'', Some ''four'')])"

lemma keep_both_crosses_the_copies:
  "files_after conflict_run = ([(''/x'', Some ''one''), (''/x.conflict-100'', Some ''four'')],
     [(''/x'', Some ''four''), (''/x.conflict-100'', Some ''one'')])"
  by code_simp

lemma keep_both_never_settles:
  "fst (files_after (case w_sides (fst conflict_run) of (l, r) \<Rightarrow> run_between ''keep-both'' l r)) =
     [(''/x'', Some ''one''), (''/x.conflict-100'', Some ''four''), (''/x.conflict-100.conflict-100'', Some ''one'')]"
  by code_simp

text \<open>
  Where \<open>listDir\<close> answers names relative to its directory, the recursive delete of a collection
  takes them for paths of the volume and unlinks a file of the same name at the root.
\<close>

lemma recursive_unlink_leaves_the_subtree:
  "vol_fs (fst (replica_unlink mem_dofs sample_sql ''a'' True
     (volume_with [(''/a'', None), (''/a/b'', Some ''in''), (''/b'', Some ''out'')]))) = []"
  by code_simp

text \<open>A remote that cannot be asked counts as a remote that has nothing: the base row is forgotten.\<close>

lemma unreadable_remote_forgets_the_base:
  "base_update (sample_transfer\<lparr>tc_remote := (tc_remote sample_transfer)\<lparr>rv_stat := \<lambda>_ _. Inl ''timeout''\<rparr>\<rparr>) 7
     (left_volume, right_volume) ''gone'' = Forget_path ''gone''"
  by code_simp

text \<open>A file cannot be copied to the root of the volume.\<close>

lemma copy_to_root_fails:
  "snd (replica_copy mem_dofs sample_sql ''a/x'' ''y'' left_volume) = Some (''replication mkdir: invalid path '' @ json_string [])"
  by code_simp

end
