(* ===== verification/Sweep_Coverage.thy ===== *)
theory Sweep_Coverage
  imports Replica_Sweep "HOL-Library.Sublist"
begin

section \<open>The sweep covers the tree\<close>

text \<open>
  The reference for the walk: \<open>successor\<close> gives the collection that follows another one in
  the sweep order from the listings of its ancestors alone, with no memory. The walk of
  \<open>collectSlice\<close>, with its frontier, its visited set and its cursor, computes the orbit of
  \<open>successor\<close>; a resumed slice goes on where the last one stopped; and the slices together
  visit every reachable collection once, in order.
\<close>

subsection \<open>The order on paths\<close>

definition segs :: "string \<Rightarrow> string list" where
  "segs p = (if p = [] then [] else split_path p)"

lemma segs_inject: "segs p = segs q \<longleftrightarrow> p = q"
  by (metis segs_def split_on_inject split_on_not_Nil)

lemma segs_Nil [simp]: "segs [] = []" "segs p = [] \<longleftrightarrow> p = []"
  by (simp_all add: segs_def)

lemma sweep_cmp_le: "sweep_cmp as bs \<le> 0 \<longleftrightarrow> as \<le> bs"
  by (induction as bs rule: sweep_cmp.induct) auto

lemma sweep_compare_le: "sweepOrderCompare a b \<le> 0 \<longleftrightarrow> split_path a \<le> split_path b"
  by (auto simp: sweepOrderCompare_def sweep_cmp_le)

lemma sweep_compare_zero: "sweepOrderCompare a b = 0 \<longleftrightarrow> a = b"
proof -
  have "sweep_cmp as bs = 0 \<longleftrightarrow> as = bs" for as bs by (induction as bs rule: sweep_cmp.induct) auto
  then show ?thesis by (auto simp: sweepOrderCompare_def split_on_inject)
qed

interpretation sweep_order: strict_comparator sweepOrderCompare
  by unfold_locales (auto simp: sweep_compare_le split_on_inject)

lemma valid_segs: "\<lbrakk>isValidInnerPath p; s \<in> set (segs p)\<rbrakk> \<Longrightarrow> valid_segment s"
  by (auto simp: segs_def split: if_splits dest: valid_path_segments)

lemma sweep_compare_segs:
  assumes "isValidInnerPath a" and "isValidInnerPath b"
  shows "sweepOrderCompare a b \<le> 0 \<longleftrightarrow> segs a \<le> segs b"
proof -
  have "hd (split_path p) \<noteq> []" if "isValidInnerPath p" "p \<noteq> []" for p
    using valid_path_segments [OF that] by (auto simp: valid_segment_def)
  then have split: "\<exists>x xs. x \<noteq> [] \<and> split_path p = x # xs" if "isValidInnerPath p" "p \<noteq> []" for p
    using that by (metis list.exhaust_sel split_on_not_Nil)
  consider "a = []" "b = []" | "a = []" "b \<noteq> []" | "a \<noteq> []" "b = []" | "a \<noteq> []" "b \<noteq> []" by blast
  then show ?thesis
  proof cases
    case 2
    with split [OF assms(2)] obtain x xs where "x \<noteq> []" "split_path b = x # xs" by blast
    with 2 show ?thesis by (cases x) (auto simp: sweep_compare_le segs_def)
  next
    case 3
    with split [OF assms(1)] obtain x xs where "x \<noteq> []" "split_path a = x # xs" by blast
    with 3 show ?thesis by (cases x) (auto simp: sweep_compare_le segs_def)
  qed (simp_all add: sweep_compare_le segs_def)
qed

lemma less_not_prefix: "\<lbrakk>xs < ys; \<not> prefix xs ys\<rbrakk> \<Longrightarrow> xs @ zs < ys @ (ws :: 'a :: linorder list)"
proof (induction xs arbitrary: ys)
  case (Cons x xs)
  then show ?case by (cases ys) auto
qed simp

lemma prefix_le: "prefix xs ys \<Longrightarrow> xs \<le> (ys :: 'a :: linorder list)"
proof (induction xs arbitrary: ys)
  case (Cons x xs)
  then show ?case by (cases ys) auto
qed simp

lemma branch_less: "C @ [a] < C @ b # z \<longleftrightarrow> a < b \<or> a = b \<and> z \<noteq> ([] :: 'a :: linorder list)"
  by (induction C) (cases z; auto)+

subsection \<open>Parents\<close>

lemma last_index_split:
  assumes "last_index_of c s = Some k"
  shows "s = take k s @ c # drop (k + 1) s" and "c \<notin> set (drop (k + 1) s)"
proof -
  let ?t = "takeWhile (\<lambda>x. x \<noteq> c) (rev s)"
  have k: "k = length s - 1 - length ?t" and lt: "length ?t < length s"
    using assms by (auto simp: last_index_of_def Let_def split: if_splits)
  have "dropWhile (\<lambda>x. x \<noteq> c) (rev s) \<noteq> []"
    using lt by (metis append_Nil2 length_rev less_irrefl takeWhile_dropWhile_id)
  then obtain u where "dropWhile (\<lambda>x. x \<noteq> c) (rev s) = c # u"
    using hd_dropWhile [of "\<lambda>x. x \<noteq> c" "rev s"] by (cases "dropWhile (\<lambda>x. x \<noteq> c) (rev s)") auto
  then have "rev s = ?t @ c # u" by (metis takeWhile_dropWhile_id)
  define t where "t = ?t"
  have "rev (rev s) = rev (t @ c # u)" using \<open>rev s = ?t @ c # u\<close> by (simp only: t_def)
  then have s: "s = rev u @ c # rev t" by simp
  have ku: "k = length u" using k unfolding t_def [symmetric] by (simp add: s)
  show "s = take k s @ c # drop (k + 1) s" by (simp add: s ku)
  have "set (drop (k + 1) s) = set t" by (simp add: s ku)
  then show "c \<notin> set (drop (k + 1) s)" by (auto simp: t_def dest: set_takeWhileD)
qed

lemma parentOf_split: "p \<noteq> [] \<Longrightarrow> parentOf p = join_path (butlast (split_path p))"
proof (cases "last_index_of slash p")
  case None
  then have "slash \<notin> set p"
  proof -
    let ?t = "takeWhile (\<lambda>x. x \<noteq> slash) (rev p)"
    have "\<not> length ?t < length (rev p)" using None by (auto simp: last_index_of_def Let_def split: if_splits)
    then have "length ?t = length (rev p)" using length_takeWhile_le [of "\<lambda>x. x \<noteq> slash" "rev p"] by linarith
    then have "take (length (rev p)) (rev p) = ?t" using takeWhile_eq_take [of "\<lambda>x. x \<noteq> slash" "rev p"] by argo
    then have "takeWhile (\<lambda>x. x \<noteq> slash) (rev p) = rev p" by simp
    then have "\<forall>x\<in>set (rev p). x \<noteq> slash" by (simp only: takeWhile_eq_all_conv)
    then show ?thesis by auto
  qed
  then show ?thesis by (simp add: parentOf_def None split_on_single)
next
  case (Some k)
  have "split_path p = split_path (take k p) @ split_path (drop (k + 1) p)"
    using last_index_split(1) [OF Some] split_on_append by metis
  also have "split_path (drop (k + 1) p) = [drop (k + 1) p]"
    using last_index_split(2) [OF Some] by (rule split_on_single)
  finally show ?thesis by (simp add: parentOf_def Some)
qed

lemma parentOf_shorter: "p \<noteq> [] \<Longrightarrow> length (parentOf p) < length p"
  by (auto simp: parentOf_def last_index_of_def Let_def split: option.split if_splits)

lemma segs_child:
  assumes "isValidInnerPath k" and "k \<noteq> []" and "parentOf k = c"
  shows "\<exists>x. segs k = segs c @ [x]"
proof -
  let ?b = "butlast (split_path k)"
  have c: "c = join_path ?b" using assms parentOf_split by blast
  have "segs c = ?b"
  proof (cases "?b = []")
    case False
    have ok: "\<forall>s\<in>set ?b. valid_segment s"
      using valid_path_segments [OF assms(1,2)] by (meson in_set_butlastD)
    then have "split_path c = ?b"
      using False by (simp add: c split_join valid_segment_def)
    moreover have "c \<noteq> []"
      using False ok last_join [of ?b] by (auto simp: c valid_segment_def)
    ultimately show ?thesis by (simp add: segs_def)
  qed (simp add: c)
  moreover have "segs k = ?b @ [last (split_path k)]" using assms(2) by (simp add: segs_def)
  ultimately show ?thesis by metis
qed

subsection \<open>The tree two static sides describe\<close>

text \<open>The documented contract of a listing: the children of the collection, and itself.\<close>

definition entries_of :: "string + remote_listing \<Rightarrow> plan_side list" where
  "entries_of r = (case r of Inl _ \<Rightarrow> [] | Inr l \<Rightarrow> ls_entries l)"

definition well_listed :: "replica_sides \<Rightarrow> bool" where
  "well_listed sides \<longleftrightarrow>
     (\<forall>p. \<forall>e\<in>set (entries_of (sd_local sides p)) \<union> set (entries_of (sd_remote sides p)).
        ps_path e = p \<or> (ps_path e \<noteq> [] \<and> parentOf (ps_path e) = p))"

definition kids :: "replica_sides \<Rightarrow> string \<Rightarrow> string list" where
  "kids sides c = cl_children (listCollection sides c [])"

inductive reach :: "replica_sides \<Rightarrow> string \<Rightarrow> bool" for sides where
  reach_root: "reach sides []"
| reach_kid: "\<lbrakk>reach sides c; k \<in> set (kids sides c)\<rbrakk> \<Longrightarrow> reach sides k"

definition listed_children :: "replica_sides \<Rightarrow> string \<Rightarrow> string list \<Rightarrow> string list" where
  "listed_children sides c visited =
     note_children c visited (usable (entries_of (sd_local sides c)) @ usable (entries_of (sd_remote sides c)))"

lemma children_listed: "cl_children (listCollection sides c visited) = sweepSort (dedup (listed_children sides c visited))"
  by (auto simp: listCollection_def listed_children_def entries_of_def note_children_def usable_def Let_def
      split: sum.split prod.split)

lemma note_children_visited: "note_children c visited es = filter (\<lambda>p. p \<notin> set visited) (note_children c [] es)"
  by (induction es) (auto simp: note_children_def)

lemma note_children_append: "note_children c visited (xs @ ys) = note_children c visited xs @ note_children c visited ys"
  by (simp add: note_children_def)

lemma listed_children_visited:
  "listed_children sides c visited = filter (\<lambda>p. p \<notin> set visited) (listed_children sides c [])"
  by (simp add: listed_children_def note_children_visited [of c visited])

lemma children_unvisited:
  assumes "\<forall>k\<in>set (kids sides c). k \<notin> set visited"
  shows "cl_children (listCollection sides c visited) = kids sides c"
proof -
  have "set (kids sides c) = set (listed_children sides c [])"
    by (simp add: kids_def children_listed sweepSort_def)
  with assms have "\<forall>p\<in>set (listed_children sides c []). p \<notin> set visited" by simp
  then have "listed_children sides c visited = listed_children sides c []"
    unfolding listed_children_visited [of sides c visited] by (rule filter_True)
  then show ?thesis by (simp add: kids_def children_listed)
qed

lemma kid:
  assumes "well_listed sides" and "k \<in> set (kids sides c)"
  shows "isValidInnerPath k" and "k \<noteq> []" and "\<exists>x. segs k = segs c @ [x]" and "parentOf k = c"
proof -
  from assms(2) have "k \<in> set (listed_children sides c [])" by (simp add: kids_def children_listed sweepSort_def)
  then obtain e where e: "e \<in> set (entries_of (sd_local sides c)) \<union> set (entries_of (sd_remote sides c))"
    "ps_path e = k" "k \<noteq> c" and valid: "isValidInnerPath k"
    by (auto simp: listed_children_def note_children_def usable_def)
  have "ps_path e = c \<or> (ps_path e \<noteq> [] \<and> parentOf (ps_path e) = c)"
    using assms(1) e(1) by (simp only: well_listed_def)
  then show "k \<noteq> []" and p: "parentOf k = c" using e(2,3) by auto
  show "isValidInnerPath k" by (rule valid)
  show "\<exists>x. segs k = segs c @ [x]" using segs_child [OF valid \<open>k \<noteq> []\<close> p] .
qed

lemma distinct_kids: "distinct (kids sides c)"
  by (simp add: kids_def children_listed sweepSort_def)

lemma sorted_kids:
  assumes "well_listed sides"
  shows "sorted_wrt (\<lambda>a b. segs a < segs b) (kids sides c)"
proof -
  have "sorted_wrt (\<lambda>a b. sweepOrderCompare a b \<le> 0) (kids sides c)"
    by (simp add: kids_def children_listed sweepSort_def sweep_order.sorted_sort_by)
  then have "sorted_wrt (\<lambda>a b. sweepOrderCompare a b \<le> 0 \<and> a \<noteq> b) (kids sides c)"
    using distinct_kids [of sides c] by (auto simp: sorted_wrt_iff_nth_less distinct_conv_nth)
  moreover have "segs a < segs b"
    if "a \<in> set (kids sides c)" "b \<in> set (kids sides c)" "sweepOrderCompare a b \<le> 0 \<and> a \<noteq> b" for a b
    using that sweep_compare_segs [OF kid(1) [OF assms that(1)] kid(1) [OF assms that(2)]] segs_inject [of a b]
    by (simp add: order_less_le)
  ultimately show ?thesis by (rule sorted_wrt_mono_rel [rotated])
qed

lemma reach_valid: "\<lbrakk>well_listed sides; reach sides c\<rbrakk> \<Longrightarrow> isValidInnerPath c"
  by (erule reach.cases) (auto dest: kid(1) simp: isValidInnerPath_def [of "[]"])

subsection \<open>The successor\<close>

definition after :: "string \<Rightarrow> string list \<Rightarrow> string list" where
  "after c xs = tl (dropWhile (\<lambda>y. y \<noteq> c) xs)"

function rest :: "replica_sides \<Rightarrow> string \<Rightarrow> string list" where
  "rest sides c =
     (if c = [] then [] else after c (kids sides (parentOf c)) @ rest sides (parentOf c))"
  by pat_completeness auto
termination
  by (relation "measure (length \<circ> snd)") (auto simp: parentOf_shorter)

declare rest.simps [simp del]

lemma rest_root [simp]: "rest sides [] = []"
  by (simp add: rest.simps)

lemma rest_kid: "\<lbrakk>well_listed sides; k \<in> set (kids sides c)\<rbrakk> \<Longrightarrow> rest sides k = after k (kids sides c) @ rest sides c"
  by (subst rest.simps) (simp add: kid)

lemma after_split:
  assumes "distinct xs" and "c \<in> set xs"
  obtains pre where "xs = pre @ c # after c xs"
proof -
  from assms(2) obtain pre post where xs: "xs = pre @ c # post" "c \<notin> set pre" by (meson split_list_first)
  then have "after c xs = post" by (simp add: after_def dropWhile_append2)
  then show thesis using xs(1) that [of pre] by simp
qed

lemma after_append: "c \<notin> set pre \<Longrightarrow> after c (pre @ c # post) = post"
  by (simp add: after_def dropWhile_append2)

lemma after_subset: "set (after c xs) \<subseteq> set xs"
proof -
  have "set (tl ys) \<subseteq> set ys" for ys :: "string list" by (cases ys) auto
  then show ?thesis unfolding after_def using set_dropWhileD by (metis subset_iff)
qed

definition agenda :: "replica_sides \<Rightarrow> string \<Rightarrow> string list" where
  "agenda sides c = kids sides c @ rest sides c"

definition successor :: "replica_sides \<Rightarrow> string \<Rightarrow> string option" where
  "successor sides c = (case agenda sides c of [] \<Rightarrow> None | d # _ \<Rightarrow> Some d)"

lemma later_sibling:
  assumes "well_listed sides" and "k \<in> set (kids sides c)" and "d \<in> set (after k (kids sides c))"
  shows "segs k < segs d \<and> \<not> prefix (segs k) (segs d) \<and> d \<in> set (kids sides c)"
proof -
  obtain pre where split: "kids sides c = pre @ k # after k (kids sides c)"
    using after_split [OF distinct_kids assms(2)] .
  have "sorted_wrt (\<lambda>a b. segs a < segs b) (pre @ k # after k (kids sides c))"
    using sorted_kids [OF assms(1)] split by metis
  with assms(3) have "segs k < segs d" by (auto simp: sorted_wrt_append)
  moreover have "d \<in> set (kids sides c)" using assms(3) after_subset by blast
  moreover from this have "\<not> prefix (segs k) (segs d)"
    using kid(3) [OF assms(1,2)] kid(3) [OF assms(1) \<open>d \<in> set (kids sides c)\<close>] \<open>segs k < segs d\<close> by auto
  ultimately show ?thesis by blast
qed

text \<open>What is still to come lies after the collection and outside its subtree.\<close>

lemma rest_later:
  assumes "well_listed sides" and "reach sides c"
  shows "\<forall>d\<in>set (rest sides c). reach sides d \<and> segs c < segs d \<and> \<not> prefix (segs c) (segs d)"
  using assms(2)
proof (induction rule: reach.induct)
  case (reach_kid c k)
  obtain x where x: "segs k = segs c @ [x]" using kid(3) [OF assms(1) reach_kid(2)] by blast
  show ?case
  proof
    fix d assume "d \<in> set (rest sides k)"
    then consider "d \<in> set (after k (kids sides c))" | "d \<in> set (rest sides c)"
      using rest_kid [OF assms(1) reach_kid(2)] by auto
    then show "reach sides d \<and> segs k < segs d \<and> \<not> prefix (segs k) (segs d)"
    proof cases
      case 1
      with later_sibling [OF assms(1) reach_kid(2)] reach_kid(1) show ?thesis
        by (blast intro: reach.intros)
    next
      case 2
      with reach_kid.IH have d: "reach sides d" "segs c < segs d" "\<not> prefix (segs c) (segs d)" by auto
      have "segs k < segs d" using less_not_prefix [OF d(2,3), of "[x]" "[]"] by (simp add: x)
      moreover have "\<not> prefix (segs k) (segs d)" using d(3) by (auto simp: x dest: append_prefixD)
      ultimately show ?thesis using d(1) by blast
    qed
  qed
qed simp

lemma kids_before_rest:
  assumes "well_listed sides" and "reach sides c" and "k \<in> set (kids sides c)" and "d \<in> set (rest sides c)"
  shows "segs k < segs d"
proof -
  obtain x where "segs k = segs c @ [x]" using kid(3) [OF assms(1,3)] by blast
  moreover have "segs c < segs d" "\<not> prefix (segs c) (segs d)" using rest_later [OF assms(1,2)] assms(4) by auto
  ultimately show ?thesis using less_not_prefix [of "segs c" "segs d" "[x]" "[]"] by simp
qed

lemma sorted_rest:
  assumes "well_listed sides" and "reach sides c"
  shows "sorted_wrt (\<lambda>a b. segs a < segs b) (rest sides c)"
  using assms(2)
proof (induction rule: reach.induct)
  case (reach_kid c k)
  obtain pre where split: "kids sides c = pre @ k # after k (kids sides c)"
    using after_split [OF distinct_kids reach_kid(2)] .
  have "sorted_wrt (\<lambda>a b. segs a < segs b) (pre @ k # after k (kids sides c))"
    using sorted_kids [OF assms(1)] split by metis
  moreover have "set (after k (kids sides c)) \<subseteq> set (kids sides c)" by (rule after_subset)
  ultimately show ?case
    using reach_kid.IH kids_before_rest [OF assms(1) reach_kid(1)]
    by (auto simp: rest_kid [OF assms(1) reach_kid(2)] sorted_wrt_append)
qed simp

lemma sorted_agenda:
  "\<lbrakk>well_listed sides; reach sides c\<rbrakk> \<Longrightarrow> sorted_wrt (\<lambda>a b. segs a < segs b) (agenda sides c)"
  by (simp add: agenda_def sorted_wrt_append sorted_kids sorted_rest kids_before_rest)

lemma agenda_later:
  assumes "well_listed sides" and "reach sides c" and "d \<in> set (agenda sides c)"
  shows "reach sides d \<and> segs c < segs d"
proof (cases "d \<in> set (kids sides c)")
  case True
  obtain x where "segs d = segs c @ [x]" using kid(3) [OF assms(1) True] by blast
  then have "segs c < segs d" using prefix_le [of "segs c" "segs d"] by (simp add: order_less_le)
  with True assms(2) show ?thesis by (blast intro: reach.intros)
next
  case False
  with assms(3) have "d \<in> set (rest sides c)" by (simp add: agenda_def)
  with rest_later [OF assms(1,2)] show ?thesis by blast
qed

text \<open>A reachable path below \<open>c\<close> lies in the subtree of one of the children of \<open>c\<close>.\<close>

lemma below_kid:
  assumes "well_listed sides" and "reach sides x" and "prefix (segs c) (segs x)" and "c \<noteq> x"
  shows "\<exists>k\<in>set (kids sides c). prefix (segs k) (segs x)"
  using assms(2-)
proof (induction rule: reach.induct)
  case (reach_kid y x)
  obtain z where z: "segs x = segs y @ [z]" using kid(3) [OF assms(1) reach_kid(2)] by blast
  show ?case
  proof (cases "c = y")
    case True
    with reach_kid(2) show ?thesis by auto
  next
    case False
    have "segs c \<noteq> segs x" using reach_kid.prems(2) by (simp add: segs_inject)
    then have "prefix (segs c) (segs y)" using reach_kid.prems(1) z by (simp add: prefix_snoc)
    with reach_kid.IH False obtain k where "k \<in> set (kids sides c)" "prefix (segs k) (segs y)" by blast
    then show ?thesis using z by (auto intro: prefix_order.order_trans)
  qed
qed simp

lemma rest_covers:
  assumes "well_listed sides" and "reach sides c" and "reach sides x" and "segs c < segs x" and "\<not> prefix (segs c) (segs x)"
  shows "\<exists>d\<in>set (rest sides c). prefix (segs d) (segs x)"
  using assms(2,4,5)
proof (induction rule: reach.induct)
  case (reach_kid c k)
  obtain a where a: "segs k = segs c @ [a]" using kid(3) [OF assms(1) reach_kid(2)] by blast
  show ?case
  proof (cases "prefix (segs c) (segs x)")
    case True
    have "c \<noteq> x" using reach_kid.prems(1) a prefix_le [of "segs x" "segs k"] by auto
    with below_kid [OF assms(1,3) True] obtain k' where k': "k' \<in> set (kids sides c)" "prefix (segs k') (segs x)" by blast
    obtain b where b: "segs k' = segs c @ [b]" using kid(3) [OF assms(1) k'(1)] by blast
    from k'(2) obtain z where x: "segs x = segs c @ b # z" by (auto simp: b prefix_def)
    have "a \<noteq> b" using reach_kid.prems(2) by (auto simp: a x)
    with reach_kid.prems(1) have "a < b" by (simp add: a x branch_less)
    obtain pre where split: "kids sides c = pre @ k # after k (kids sides c)"
      using after_split [OF distinct_kids reach_kid(2)] .
    have "sorted_wrt (\<lambda>a b. segs a < segs b) (pre @ k # after k (kids sides c))"
      using sorted_kids [OF assms(1)] split by metis
    moreover have "segs k < segs k'" using \<open>a < b\<close> by (simp add: a b branch_less)
    moreover have "k' \<in> set (pre @ k # after k (kids sides c))" using k'(1) split by simp
    ultimately have "k' \<in> set (after k (kids sides c))" by (auto simp: sorted_wrt_append)
    with k'(2) show ?thesis by (auto simp: rest_kid [OF assms(1) reach_kid(2)])
  next
    case False
    have "segs c \<le> segs k" using prefix_le [of "segs c" "segs k"] by (simp add: a)
    with reach_kid.prems(1) have "segs c < segs x" by simp
    with reach_kid.IH False show ?thesis by (auto simp: rest_kid [OF assms(1) reach_kid(2)])
  qed
qed simp

lemma agenda_covers:
  assumes "well_listed sides" and "reach sides c" and "reach sides x" and "segs c < segs x"
  shows "\<exists>d\<in>set (agenda sides c). segs d \<le> segs x"
proof (cases "prefix (segs c) (segs x)")
  case True
  with below_kid [OF assms(1,3) True] assms(4) show ?thesis by (fastforce simp: agenda_def dest: prefix_le)
next
  case False
  with rest_covers [OF assms] show ?thesis by (fastforce simp: agenda_def dest: prefix_le)
qed

text \<open>The successor is the least reachable collection after \<open>c\<close>.\<close>

lemma successor_least:
  assumes "well_listed sides" and "reach sides c"
  shows "case successor sides c of
      None \<Rightarrow> \<forall>x. reach sides x \<longrightarrow> segs x \<le> segs c
    | Some d \<Rightarrow> reach sides d \<and> segs c < segs d \<and> (\<forall>x. reach sides x \<and> segs c < segs x \<longrightarrow> segs d \<le> segs x)"
proof (cases "agenda sides c")
  case Nil
  then show ?thesis using agenda_covers [OF assms] by (auto simp: successor_def not_less [symmetric])
next
  case (Cons d ds)
  have "segs d \<le> segs e" if "e \<in> set (agenda sides c)" for e
    using sorted_agenda [OF assms] that by (auto simp: Cons)
  with agenda_covers [OF assms] agenda_later [OF assms, of d] show ?thesis
    by (auto simp: successor_def Cons) (meson order_trans)
qed

text \<open>The agenda of the successor's level is the remaining agenda.\<close>

lemma rest_of_rest:
  assumes "well_listed sides" and "reach sides c"
  shows "rest sides c = d # ds \<Longrightarrow> rest sides d = ds"
  using assms(2)
proof (induction rule: reach.induct)
  case (reach_kid c k)
  obtain pre where split: "kids sides c = pre @ k # after k (kids sides c)"
    using after_split [OF distinct_kids reach_kid(2)] .
  show ?case
  proof (cases "after k (kids sides c)")
    case Nil
    with reach_kid show ?thesis by (simp add: rest_kid [OF assms(1) reach_kid(2)])
  next
    case (Cons e es)
    with reach_kid.prems have d: "d = e" "ds = es @ rest sides c"
      by (simp_all add: rest_kid [OF assms(1) reach_kid(2)])
    have kids: "kids sides c = (pre @ [k]) @ e # es" using split Cons by simp
    moreover have "e \<notin> set (pre @ [k])" using distinct_kids [of sides c] unfolding kids by auto
    ultimately have "after e (kids sides c) = es" using after_append by metis
    moreover have "rest sides e = after e (kids sides c) @ rest sides c"
      by (rule rest_kid [OF assms(1)]) (simp add: kids)
    ultimately show ?thesis using d by simp
  qed
qed simp

lemma successor_rest:
  assumes "well_listed sides" and "reach sides c" and "agenda sides c = d # ds"
  shows "rest sides d = ds"
proof (cases "kids sides c")
  case Nil
  with assms(3) have "rest sides c = d # ds" by (simp add: agenda_def)
  then show ?thesis by (rule rest_of_rest [OF assms(1,2)])
next
  case (Cons k ks)
  then have "after k (kids sides c) = ks" using after_append [of k "[]" ks] by simp
  moreover have "rest sides k = after k (kids sides c) @ rest sides c" by (rule rest_kid [OF assms(1)]) (simp add: Cons)
  ultimately show ?thesis using Cons assms(3) by (simp add: agenda_def)
qed

subsection \<open>The walk follows the successor\<close>

definition frontier_agenda :: "frontier \<Rightarrow> string list" where
  "frontier_agenda levels = concat (map (\<lambda>(children, next). drop next children) levels)"

lemma next_sibling_agenda:
  "case frontier_agenda levels of
     [] \<Rightarrow> fst (next_sibling levels) = None
   | d # ds \<Rightarrow> fst (next_sibling levels) = Some d \<and> frontier_agenda (snd (next_sibling levels)) = ds"
proof (induction levels rule: next_sibling.induct)
  case (2 children "next" levels)
  show ?case
  proof (cases "next < length children")
    case True
    then have "drop next children = children ! next # drop (next + 1) children"
      by (simp add: Cons_nth_drop_Suc)
    with True show ?thesis by (simp add: frontier_agenda_def)
  next
    case False
    then have "next_sibling ((children, next) # levels) = next_sibling levels"
      and "frontier_agenda ((children, next) # levels) = frontier_agenda levels"
      by (simp_all add: frontier_agenda_def)
    with 2 [OF False] show ?thesis by metis
  qed
qed (simp add: frontier_agenda_def)

text \<open>The collections the walk visits from \<open>c\<close> on, and where it is after \<open>n\<close> of them.\<close>

fun orbit :: "replica_sides \<Rightarrow> nat \<Rightarrow> string option \<Rightarrow> string list" where
  "orbit sides (Suc n) (Some c) = c # orbit sides n (successor sides c)"
| "orbit sides n c = []"

fun advance :: "replica_sides \<Rightarrow> nat \<Rightarrow> string option \<Rightarrow> string option" where
  "advance sides (Suc n) (Some c) = advance sides n (successor sides c)"
| "advance sides n c = c"

lemma orbit_None [simp]: "orbit sides n None = []" and advance_None [simp]: "advance sides n None = None"
  by (cases n; simp)+

lemma orbit_add: "orbit sides (m + n) c = orbit sides m c @ orbit sides n (advance sides m c)"
  by (induction sides m c rule: orbit.induct) auto

lemma advance_add: "advance sides (m + n) c = advance sides n (advance sides m c)"
  by (induction sides m c rule: advance.induct) auto

definition walk_at :: "replica_sides \<Rightarrow> string \<Rightarrow> sweep_state \<Rightarrow> bool" where
  "walk_at sides c st \<longleftrightarrow> frontier_agenda (sw_frontier st) = rest sides c
     \<and> (\<forall>v\<in>set (sw_visited st). segs v < segs c)"

lemma visit_fields:
  "sw_frontier (snd (visit sides c st)) = sw_frontier st"
  "sw_visited (snd (visit sides c st)) = sw_visited (add_visited c st)"
  "fst (visit sides c st) = cl_children (listCollection sides c (sw_visited (add_visited c st)))"
  by (simp_all add: visit_def Let_def add_visited_def)

lemma visit_unvisited:
  assumes "well_listed sides" and "\<forall>v\<in>set (sw_visited st). segs v < segs c"
  shows "fst (visit sides c st) = kids sides c" and "sw_visited (snd (visit sides c st)) = sw_visited st @ [c]"
proof -
  have "c \<notin> set (sw_visited st)" using assms(2) by blast
  then have v: "sw_visited (add_visited c st) = sw_visited st @ [c]" by (simp add: add_visited_def)
  have "segs c < segs k" if k: "k \<in> set (kids sides c)" for k
  proof -
    obtain x where "segs k = segs c @ [x]" using kid(3) [OF assms(1) k] by blast
    then show ?thesis using prefix_le [of "segs c" "segs k"] by (simp add: order_less_le)
  qed
  then have "\<forall>k\<in>set (kids sides c). k \<notin> set (sw_visited st @ [c])" using assms(2) by fastforce
  then show "fst (visit sides c st) = kids sides c" by (simp add: visit_fields v children_unvisited)
  show "sw_visited (snd (visit sides c st)) = sw_visited st @ [c]" by (simp add: visit_fields v)
qed

lemma sweep_loop_orbit:
  assumes "well_listed sides" and "reach sides c" and "walk_at sides c st"
    and "\<forall>k. cursor = Some k \<longrightarrow> isValidInnerPath k \<and> segs k \<le> segs c"
    and "m = (if free then limit - used + 1 else limit - used)" and "free \<longrightarrow> used < limit"
  shows "\<exists>cursor' st'. sweep_loop sides limit (\<lambda>_. False) used free n (Some c) cursor st = (advance sides m (Some c), cursor', st')
    \<and> sw_visited st' = sw_visited st @ orbit sides m (Some c)
    \<and> (0 < m \<longrightarrow> cursor' = Some (last (orbit sides m (Some c))))"
  using assms(2-)
proof (induction m arbitrary: c st cursor used free n)
  case 0
  then have "limit \<le> used" by (auto split: if_splits)
  then show ?case by (subst sweep_loop.simps) simp
next
  case (Suc m)
  have room: "\<not> limit \<le> used" using Suc.prems(4,5) by (auto split: if_splits)
  define used1 where "used1 = (if free then used else used + 1)"
  have m: "m = limit - used1" using Suc.prems(4,5) room by (auto simp: used1_def split: if_splits)
  define st1 where "st1 = snd (visit sides c st)"
  have before: "\<forall>v\<in>set (sw_visited st). segs v < segs c" and levels: "frontier_agenda (sw_frontier st) = rest sides c"
    using Suc.prems(2) by (simp_all add: walk_at_def)
  have visit: "visit sides c st = (kids sides c, st1)"
    using visit_unvisited(1) [OF assms(1) before] by (simp add: st1_def prod_eq_iff)
  have visited: "sw_visited st1 = sw_visited st @ [c]" using visit_unvisited(2) [OF assms(1) before] by (simp add: st1_def)
  have frontier: "sw_frontier st1 = sw_frontier st" by (simp add: st1_def visit_fields)
  have valid: "isValidInnerPath c" by (rule reach_valid [OF assms(1) Suc.prems(1)])
  define cursor1 where "cursor1 = (case cursor of None \<Rightarrow> Some c
      | Some k \<Rightarrow> if sweepOrderCompare c k \<ge> 0 then Some c else Some k)"
  have cursor1: "cursor1 = Some c"
  proof (cases cursor)
    case (Some k)
    with Suc.prems(3) have "isValidInnerPath k" "segs k \<le> segs c" by auto
    then have "k = c \<or> \<not> sweepOrderCompare c k \<le> 0"
      using sweep_compare_segs [OF valid \<open>isValidInnerPath k\<close>] segs_inject [of k c] by fastforce
    then have "0 \<le> sweepOrderCompare c k" by (auto simp: sweepOrderCompare_def)
    with Some show ?thesis by (simp add: cursor1_def)
  qed (simp add: cursor1_def)
  define levels1 where "levels1 = (case kids sides c of [] \<Rightarrow> snd (next_sibling (sw_frontier st1)) | _ \<Rightarrow> (kids sides c, 1) # sw_frontier st1)"
  define st2 where "st2 = st1\<lparr>sw_frontier := levels1\<rparr>"
  have sib: "case rest sides c of [] \<Rightarrow> fst (next_sibling (sw_frontier st1)) = None
      | d # ds \<Rightarrow> fst (next_sibling (sw_frontier st1)) = Some d \<and> frontier_agenda (snd (next_sibling (sw_frontier st1))) = ds"
    using next_sibling_agenda [of "sw_frontier st1"] by (simp add: frontier levels)
  have loop: "sweep_loop sides limit (\<lambda>_. False) used free n (Some c) cursor st =
      sweep_loop sides limit (\<lambda>_. False) used1 False (n + 1) (successor sides c) (Some c) st2"
  proof (cases "kids sides c")
    case Nil
    have "fst (next_sibling (sw_frontier st1)) = successor sides c"
      using sib by (cases "rest sides c") (simp_all add: successor_def agenda_def Nil)
    then have "next_sibling (sw_frontier st1) = (successor sides c, levels1)"
      by (simp add: levels1_def Nil prod_eq_iff)
    then show ?thesis using room cursor1
      by (subst sweep_loop.simps) (simp add: visit Nil used1_def cursor1_def [symmetric] st2_def)
  next
    case (Cons k ks)
    then show ?thesis using room cursor1
      by (subst sweep_loop.simps)
        (simp add: visit used1_def cursor1_def [symmetric] st2_def levels1_def successor_def agenda_def)
  qed
  show ?case
  proof (cases "agenda sides c")
    case Nil
    then have none: "successor sides c = None" by (simp add: successor_def)
    have "sweep_loop sides limit (\<lambda>_. False) used1 False (n + 1) None (Some c) st2 = (None, Some c, st2)"
      by (subst sweep_loop.simps) simp
    then show ?thesis by (simp add: loop none visited st2_def)
  next
    case (Cons d ds)
    then have some: "successor sides c = Some d" by (simp add: successor_def)
    have d: "reach sides d" "segs c < segs d" using agenda_later [OF assms(1) Suc.prems(1), of d] Cons by auto
    have "frontier_agenda levels1 = ds"
      using sib Cons by (cases "kids sides c") (auto simp: levels1_def agenda_def frontier_agenda_def frontier levels [unfolded frontier_agenda_def])
    then have "walk_at sides d st2"
      using successor_rest [OF assms(1) Suc.prems(1) Cons] before d(2)
      by (auto simp: walk_at_def st2_def visited)
    from Suc.IH [OF d(1) this, of "Some c" False used1 "n + 1"] less_imp_le [OF d(2)] valid m
    obtain cursor' st' where ih: "sweep_loop sides limit (\<lambda>_. False) used1 False (n + 1) (Some d) (Some c) st2 = (advance sides m (Some d), cursor', st')"
      "sw_visited st' = sw_visited st2 @ orbit sides m (Some d)" "0 < m \<longrightarrow> cursor' = Some (last (orbit sides m (Some d)))"
      by auto
    have "m = 0 \<Longrightarrow> cursor' = Some c"
      using ih(1) m by (subst (asm) sweep_loop.simps) simp
    moreover have "0 < m \<Longrightarrow> orbit sides m (Some d) \<noteq> []" by (cases m) auto
    ultimately have "cursor' = Some (last (c # orbit sides m (Some d)))" using ih(3) by (cases m) auto
    then show ?thesis using ih(1,2) by (simp add: loop some visited st2_def)
  qed
qed

subsection \<open>Resuming\<close>

lemma ancestor_chain_Nil [simp]: "ancestor_chain c xs = [] \<longleftrightarrow> xs = []"
  by (cases xs) (simp_all add: Let_def)

lemma ancestor_chain_append: "ancestor_chain c (xs @ ys) =
    ancestor_chain c xs @ ancestor_chain (if xs = [] then c else last (ancestor_chain c xs)) ys"
  by (induction xs arbitrary: c) (auto simp: Let_def)

lemma last_ancestor_chain:
  assumes "xs \<noteq> []" and "\<forall>x\<in>set xs. x \<noteq> []"
  shows "last (ancestor_chain c xs) = (if c = [] then join_path xs else c @ ''/'' @ join_path xs)"
  using assms
proof (induction xs arbitrary: c)
  case (Cons x xs)
  show ?case
  proof (cases xs)
    case (Cons y ys)
    let ?c = "if c = [] then x else c @ ''/'' @ x"
    have "?c \<noteq> []" using Cons.prems by auto
    with Cons.IH [of ?c] Cons.prems Cons show ?thesis by (auto simp: Let_def join_Cons)
  qed (simp add: Let_def)
qed simp

lemma chain_segs: "sweepAncestorChain p = [] # ancestor_chain [] (segs p)"
  by (simp add: sweepAncestorChain_def segs_def)

lemma join_segs: "join_path (segs p) = p"
  by (simp add: segs_def)

lemma chain_kid:
  assumes "well_listed sides" and "reach sides c" and "k \<in> set (kids sides c)"
  shows "sweepAncestorChain k = sweepAncestorChain c @ [k]"
proof -
  obtain x where x: "segs k = segs c @ [x]" using kid(3) [OF assms(1,3)] by blast
  have seg: "\<forall>s\<in>set (segs k). s \<noteq> []" using valid_segs [OF kid(1) [OF assms(1,3)]] by (auto simp: valid_segment_def)
  moreover have "segs k \<noteq> []" using x by simp
  ultimately have "last (ancestor_chain [] (segs k)) = join_path (segs k)"
    using last_ancestor_chain [of "segs k" "[]"] by simp
  then have "last (ancestor_chain [] (segs k)) = k" by (simp only: join_segs)
  moreover have "ancestor_chain [] (segs k) = ancestor_chain [] (segs c) @ [last (ancestor_chain [] (segs k))]"
    by (simp add: x ancestor_chain_append Let_def)
  ultimately show ?thesis by (simp add: chain_segs)
qed

lemma length_chain: "length (sweepAncestorChain p) = Suc (length (segs p))"
proof -
  have "length (ancestor_chain c xs) = length xs" for c xs by (induction xs arbitrary: c) (auto simp: Let_def)
  then show ?thesis by (simp add: chain_segs)
qed

lemma last_chain:
  assumes "well_listed sides" and "reach sides c"
  shows "last (sweepAncestorChain c) = c"
  using assms(2)
proof cases
  case (reach_kid b)
  show ?thesis by (simp only: chain_kid [OF assms(1) reach_kid] last_snoc)
qed (simp add: chain_segs)

lemma resume_levels_append:
  "resume_levels sides (ps @ qs) st =
     (case resume_levels sides ps st of (False, s) \<Rightarrow> (False, s) | (True, s) \<Rightarrow> resume_levels sides qs s)"
  by (induction sides ps st rule: resume_levels.induct) (auto simp: Let_def split: prod.split option.split bool.split)

lemma position_after:
  "x \<in> set xs \<Longrightarrow> \<exists>j. position x xs = Some j \<and> drop (j + 1) xs = after x xs"
  by (induction xs) (auto simp: after_def)

lemma resume_reachable:
  assumes "well_listed sides" and "reach sides c"
  shows "\<exists>st. resume_levels sides (zip (sweepAncestorChain c) (tl (sweepAncestorChain c))) fresh_sweep = (True, st)
    \<and> sw_visited st = butlast (sweepAncestorChain c) \<and> walk_at sides c st"
  using assms(2)
proof (induction rule: reach.induct)
  case reach_root
  show ?case by (simp add: chain_segs walk_at_def fresh_sweep_def frontier_agenda_def)
next
  case (reach_kid c k)
  let ?chain = "sweepAncestorChain c"
  from reach_kid.IH obtain st where st: "resume_levels sides (zip ?chain (tl ?chain)) fresh_sweep = (True, st)"
    "sw_visited st = butlast ?chain" "walk_at sides c st" by blast
  have chain: "sweepAncestorChain k = ?chain @ [k]" by (rule chain_kid [OF assms(1) reach_kid(1,2)])
  have ne: "?chain \<noteq> []" by (simp add: chain_segs)
  have whole: "butlast ?chain @ [c] = ?chain"
    using last_chain [OF assms(1) reach_kid(1)] append_butlast_last_id [OF ne] by simp
  have pairs: "zip (?chain @ [k]) (tl (?chain @ [k])) = zip ?chain (tl ?chain) @ [(c, k)]"
  proof -
    have "tl (?chain @ [k]) = tl ?chain @ [k]" using ne by simp
    moreover have "zip (butlast ?chain @ [c] @ [k]) (tl ?chain @ [k]) = zip (butlast ?chain) (tl ?chain) @ [(c, k)]"
      by (subst zip_append) simp_all
    moreover have "zip (butlast ?chain) (tl ?chain) = zip (butlast ?chain @ [c]) (tl ?chain)"
      by (subst zip_append1) simp
    ultimately show ?thesis using whole by (metis append_assoc)
  qed
  have before: "\<forall>v\<in>set (sw_visited st). segs v < segs c" and levels: "frontier_agenda (sw_frontier st) = rest sides c"
    using st(3) by (simp_all add: walk_at_def)
  define st1 where "st1 = snd (visit sides c st)"
  have visit: "visit sides c st = (kids sides c, st1)"
    using visit_unvisited(1) [OF assms(1) before] by (simp add: st1_def prod_eq_iff)
  have visited: "sw_visited st1 = ?chain" using visit_unvisited(2) [OF assms(1) before] st(2) whole by (simp add: st1_def)
  obtain j where j: "position k (kids sides c) = Some j" "drop (j + 1) (kids sides c) = after k (kids sides c)"
    using position_after [OF reach_kid(2)] by blast
  define st2 where "st2 = st1\<lparr>sw_frontier := (kids sides c, j + 1) # sw_frontier st1\<rparr>"
  have "resume_levels sides (zip (sweepAncestorChain k) (tl (sweepAncestorChain k))) fresh_sweep = (True, st2)"
    by (simp add: chain pairs resume_levels_append st(1) visit j(1) st2_def)
  moreover have "sw_visited st2 = butlast (sweepAncestorChain k)" by (simp add: st2_def visited chain)
  moreover have "walk_at sides k st2"
  proof -
    have "frontier_agenda (sw_frontier st2) = rest sides k"
      using j(2) levels by (simp add: st2_def frontier_agenda_def st1_def visit_fields rest_kid [OF assms(1) reach_kid(2)])
    moreover have "segs v < segs k" if "v \<in> set (sw_visited st2)" for v
    proof -
      obtain x where x: "segs k = segs c @ [x]" using kid(3) [OF assms(1) reach_kid(2)] by blast
      then have "segs c < segs k" using prefix_le [of "segs c" "segs k"] by (simp add: order_less_le)
      moreover have "v \<in> set (sw_visited st) \<or> v = c"
      proof -
        have "v \<in> set (butlast ?chain @ [c])" using that by (simp only: whole) (simp add: st2_def visited)
        then show ?thesis by (auto simp: st(2))
      qed
      ultimately show ?thesis using before by auto
    qed
    ultimately show ?thesis by (simp add: walk_at_def)
  qed
  ultimately show ?case by blast
qed

subsection \<open>Slice after slice\<close>

lemma orbit_successor:
  "\<lbrakk>advance sides (Suc m) (Some c) = Some d\<rbrakk> \<Longrightarrow> successor sides (last (orbit sides (Suc m) (Some c))) = Some d"
proof (induction m arbitrary: c)
  case (Suc m)
  then obtain e where e: "successor sides c = Some e" by (cases "successor sides c") auto
  with Suc.IH [of e] Suc.prems have "successor sides (last (orbit sides (Suc m) (Some e))) = Some d" by simp
  moreover have "orbit sides (Suc m) (Some e) \<noteq> []" by simp
  ultimately show ?case by (simp add: e)
qed simp

lemma successor_later:
  "\<lbrakk>well_listed sides; reach sides c; successor sides c = Some d\<rbrakk> \<Longrightarrow> reach sides d \<and> segs c < segs d"
  using successor_least [of sides c] by simp

lemma orbit_sorted:
  assumes "well_listed sides" and "reach sides c"
  shows "sorted_wrt (\<lambda>a b. segs a < segs b) (orbit sides n (Some c))
    \<and> (\<forall>x\<in>set (orbit sides n (Some c)). reach sides x \<and> segs c \<le> segs x)"
  using assms(2)
proof (induction n arbitrary: c)
  case (Suc n)
  show ?case
  proof (cases "successor sides c")
    case (Some d)
    with successor_later [OF assms(1) Suc.prems] have "reach sides d" "segs c < segs d" by auto
    with Suc.IH [of d] Suc.prems Some show ?thesis by fastforce
  qed (simp add: Suc.prems)
qed simp

lemma orbit_complete:
  assumes "well_listed sides" and "reach sides c" and "advance sides n (Some c) = None"
  shows "\<lbrakk>reach sides x; segs c \<le> segs x\<rbrakk> \<Longrightarrow> x \<in> set (orbit sides n (Some c))"
  using assms(2,3)
proof (induction n arbitrary: c)
  case (Suc n)
  show ?case
  proof (cases "x = c")
    case False
    with Suc.prems(2) have less: "segs c < segs x" by (simp add: order_less_le segs_inject)
    with successor_least [OF assms(1) Suc.prems(3)] Suc.prems(1)
    obtain d where d: "successor sides c = Some d" "reach sides d" "segs d \<le> segs x"
      by (cases "successor sides c") auto
    with Suc.IH [of d] Suc.prems show ?thesis by simp
  qed simp
qed simp

lemma orbit_length: "advance sides n (Some c) \<noteq> None \<Longrightarrow> length (orbit sides n (Some c)) = n"
proof (induction n arbitrary: c)
  case (Suc n)
  then show ?case by (cases "successor sides c") auto
qed simp

lemma sorted_distinct: "sorted_wrt (\<lambda>a b. segs a < segs b) xs \<Longrightarrow> distinct xs"
  by (induction xs) auto

lemma orbit_ends:
  assumes "well_listed sides" and "reach sides c" and "finite {x. reach sides x}" and "card {x. reach sides x} < n"
  shows "advance sides n (Some c) = None"
proof (rule ccontr)
  assume "advance sides n (Some c) \<noteq> None"
  then have n: "length (orbit sides n (Some c)) = n" by (rule orbit_length)
  have "distinct (orbit sides n (Some c))"
    by (rule sorted_distinct [OF orbit_sorted [OF assms(1,2), THEN conjunct1]])
  then have "card (set (orbit sides n (Some c))) = n" using n by (simp add: distinct_card)
  moreover have "set (orbit sides n (Some c)) \<subseteq> {x. reach sides x}" using orbit_sorted [OF assms(1,2), of n] by blast
  then have "card (set (orbit sides n (Some c))) \<le> card {x. reach sides x}" by (rule card_mono [OF assms(3)])
  ultimately show False using assms(4) by linarith
qed

text \<open>
  The runs of one pass: each slice has the budget \<open>m\<close> and goes on from the cursor the last
  one left, at most \<open>k\<close> of them. The result is what they visit newly and whether the last one
  was exhausted. A resumed slice visits its ancestor chain, the cursor included, a second time.
\<close>

definition newly :: "string option \<Rightarrow> sweep_state \<Rightarrow> string list" where
  "newly from st =
     (case from of None \<Rightarrow> sw_visited st | Some c \<Rightarrow> drop (length (sweepAncestorChain c)) (sw_visited st))"

fun sweep_slices :: "replica_sides \<Rightarrow> nat \<Rightarrow> nat \<Rightarrow> string option \<Rightarrow> string list \<times> bool" where
  "sweep_slices sides m 0 from = ([], False)"
| "sweep_slices sides m (Suc k) from =
     (let (current, cursor, st) = sweep sides m (\<lambda>_. False) from
      in if current = None then (newly from st, True)
         else (let (rest, finished) = sweep_slices sides m k cursor in (newly from st @ rest, finished)))"

lemma sweep_fresh:
  assumes "well_listed sides"
  shows "\<exists>cursor st. sweep sides m (\<lambda>_. False) None = (advance sides m (Some []), cursor, st)
    \<and> sw_visited st = orbit sides m (Some []) \<and> (0 < m \<longrightarrow> cursor = Some (last (orbit sides m (Some []))))"
proof -
  have "walk_at sides [] fresh_sweep" by (simp add: walk_at_def fresh_sweep_def frontier_agenda_def)
  from sweep_loop_orbit [OF assms reach_root this, of None m False m 0 0]
  show ?thesis by (simp add: sweep_def fresh_sweep_def)
qed

lemma sweep_resumed:
  assumes "well_listed sides" and "reach sides c" and "length (sweepAncestorChain c) \<le> max_resume_depth"
    and "0 < m" and "successor sides c = Some d"
  shows "\<exists>st. sweep sides m (\<lambda>_. False) (Some c) = (advance sides m (Some d), Some (last (orbit sides m (Some d))), st)
    \<and> newly (Some c) st = orbit sides m (Some d)"
proof -
  obtain st where st: "resumeFrontier sides c fresh_sweep = (True, st)"
    "sw_visited st = butlast (sweepAncestorChain c)" "walk_at sides c st"
    using resume_reachable [OF assms(1,2)] assms(3) by (auto simp: resumeFrontier_def Let_def)
  have "isValidInnerPath c" by (rule reach_valid [OF assms(1,2)])
  with sweep_loop_orbit [OF assms(1,2) st(3), of "Some c" "m + 1" True m 0 0] assms(4)
  obtain cursor st' where loop:
    "sweep_loop sides m (\<lambda>_. False) 0 True 0 (Some c) (Some c) st = (advance sides (m + 1) (Some c), cursor, st')"
    "sw_visited st' = sw_visited st @ orbit sides (m + 1) (Some c)" "cursor = Some (last (orbit sides (m + 1) (Some c)))"
    by auto
  have "orbit sides m (Some d) \<noteq> []" using assms(4) by (cases m) simp_all
  then have ends: "advance sides (m + 1) (Some c) = advance sides m (Some d)" "cursor = Some (last (orbit sides m (Some d)))"
    by (simp_all add: loop(3) assms(5))
  have "length (sweepAncestorChain c) = length (butlast (sweepAncestorChain c) @ [c])" by (simp add: chain_segs)
  then have "newly (Some c) st' = orbit sides m (Some d)" by (simp add: newly_def loop(2) st(2) assms(5))
  with loop(1) ends st(1) show ?thesis by (simp add: sweep_def)
qed

lemma slices_orbit:
  assumes "well_listed sides" and "\<forall>c. reach sides c \<longrightarrow> length (sweepAncestorChain c) \<le> max_resume_depth" and "0 < m"
  shows "\<lbrakk>reach sides c; successor sides c = Some d\<rbrakk>
    \<Longrightarrow> sweep_slices sides m k (Some c) = (orbit sides (k * m) (Some d), advance sides (k * m) (Some d) = None)"
proof (induction k arbitrary: c d)
  case (Suc k)
  from assms(2) Suc.prems(1) have "length (sweepAncestorChain c) \<le> max_resume_depth" by blast
  from sweep_resumed [OF assms(1) Suc.prems(1) this assms(3) Suc.prems(2)] obtain st where
    st: "sweep sides m (\<lambda>_. False) (Some c) = (advance sides m (Some d), Some (last (orbit sides m (Some d))), st)"
    "newly (Some c) st = orbit sides m (Some d)" by blast
  have d: "reach sides d" using successor_later [OF assms(1) Suc.prems] by blast
  show ?case
  proof (cases "advance sides m (Some d)")
    case None
    then show ?thesis by (simp add: st orbit_add advance_add)
  next
    case (Some e)
    let ?last = "last (orbit sides m (Some d))"
    from assms(3) have "orbit sides m (Some d) \<noteq> []" by (cases m) simp_all
    then have "reach sides ?last" using orbit_sorted [OF assms(1) d, of m] last_in_set by blast
    moreover have "successor sides ?last = Some e" using orbit_successor [of sides "m - 1" d e] Some assms(3) by simp
    ultimately have "sweep_slices sides m k (Some ?last) = (orbit sides (k * m) (Some e), advance sides (k * m) (Some e) = None)"
      by (rule Suc.IH)
    then show ?thesis by (simp add: st Some orbit_add advance_add)
  qed
qed simp

lemma fresh_slices_orbit:
  assumes "well_listed sides" and "\<forall>c. reach sides c \<longrightarrow> length (sweepAncestorChain c) \<le> max_resume_depth" and "0 < m"
  shows "sweep_slices sides m k None = (orbit sides (k * m) (Some []), advance sides (k * m) (Some []) = None)"
proof (cases k)
  case (Suc j)
  from sweep_fresh [OF assms(1), of m] assms(3) obtain st where
    st: "sweep sides m (\<lambda>_. False) None = (advance sides m (Some []), Some (last (orbit sides m (Some []))), st)"
    "newly None st = orbit sides m (Some [])" by (auto simp: newly_def)
  show ?thesis
  proof (cases "advance sides m (Some [])")
    case None
    then show ?thesis by (simp add: Suc st orbit_add advance_add)
  next
    case (Some e)
    let ?last = "last (orbit sides m (Some []))"
    from assms(3) have "orbit sides m (Some []) \<noteq> []" by (cases m) simp_all
    then have "reach sides ?last" using orbit_sorted [OF assms(1) reach_root, of m] last_in_set by blast
    moreover have "successor sides ?last = Some e" using orbit_successor [of sides "m - 1" "[]" e] Some assms(3) by simp
    ultimately have "sweep_slices sides m j (Some ?last) = (orbit sides (j * m) (Some e), advance sides (j * m) (Some e) = None)"
      by (rule slices_orbit [OF assms])
    then show ?thesis by (simp add: Suc st Some orbit_add advance_add)
  qed
qed simp

subsection \<open>The properties\<close>

lemma orbit_is_the_tree:
  assumes "well_listed sides" and "finite {c. reach sides c}" and "card {c. reach sides c} < n"
  shows "set (orbit sides n (Some [])) = {c. reach sides c}" and "advance sides n (Some []) = None"
    and "sorted_wrt (\<lambda>a b. sweepOrderCompare a b < 0) (orbit sides n (Some []))"
proof -
  show none: "advance sides n (Some []) = None" by (rule orbit_ends [OF assms(1) reach_root assms(2,3)])
  have all: "\<forall>x\<in>set (orbit sides n (Some [])). reach sides x" using orbit_sorted [OF assms(1) reach_root] by blast
  show "set (orbit sides n (Some [])) = {c. reach sides c}"
    using all orbit_complete [OF assms(1) reach_root none] by auto
  have "sweepOrderCompare a b < 0" if "reach sides a" "reach sides b" "segs a < segs b" for a b
  proof -
    have "sweepOrderCompare a b \<le> 0"
      using that sweep_compare_segs [OF reach_valid [OF assms(1) that(1)] reach_valid [OF assms(1) that(2)]] by simp
    moreover have "sweepOrderCompare a b \<noteq> 0" using that(3) by (auto simp: sweep_compare_zero)
    ultimately show ?thesis by linarith
  qed
  then show "sorted_wrt (\<lambda>a b. sweepOrderCompare a b < 0) (orbit sides n (Some []))"
    using orbit_sorted [OF assms(1) reach_root, of n]
    by (auto intro: sorted_wrt_mono_rel [rotated])
qed

text \<open>
  C5. Every pass ends and covers the tree: when the listings are those of a fixed finite tree
  no deeper than the resume depth, and each run may visit at least one collection, then after at
  most one run more than there are collections the sweep reports itself exhausted, and the runs
  together have newly visited exactly the collections reachable from the root, each of them
  once, in the order of \<open>sweepOrderCompare\<close>. No run is cut short by its deadline here: what limits
  it is its budget.
\<close>

theorem sweep_covers_the_tree:
  assumes "well_listed sides" and "finite {c. reach sides c}"
    and "\<forall>c. reach sides c \<longrightarrow> length (sweepAncestorChain c) \<le> max_resume_depth" and "0 < m"
  shows "\<exists>visited. sweep_slices sides m (card {c. reach sides c} + 1) None = (visited, True)
    \<and> set visited = {c. reach sides c} \<and> sorted_wrt (\<lambda>a b. sweepOrderCompare a b < 0) visited"
proof -
  let ?n = "(card {c. reach sides c} + 1) * m"
  have "card {c. reach sides c} < ?n" using assms(4) by (cases m) simp_all
  then show ?thesis
    using fresh_slices_orbit [OF assms(1,3,4), of "card {c. reach sides c} + 1"] orbit_is_the_tree [OF assms(1,2)] by simp
qed

text \<open>
  C6. Slicing does not change the walk: over fixed listings, where every reachable collection
  counted with its ancestors and the root makes a chain of at most \<open>max_resume_depth\<close> (256), and as
  long as no deadline passes, \<open>k\<close> runs with a budget \<open>m\<close> of at least one, each resumed at the cursor
  the one before has left, and one undivided run of the budget \<open>k * m\<close> visit the same collections in
  the same order. (Below that depth the resume is given up and a run starts again at the root.)
\<close>

theorem slices_agree_with_one_run:
  assumes "well_listed sides" and "\<forall>c. reach sides c \<longrightarrow> length (sweepAncestorChain c) \<le> max_resume_depth" and "0 < m"
  shows "fst (sweep_slices sides m k None) = (case sweep sides (k * m) (\<lambda>_. False) None of (_, _, st) \<Rightarrow> sw_visited st)"
proof -
  from sweep_fresh [OF assms(1), of "k * m"]
  show ?thesis using fresh_slices_orbit [OF assms, of k] by auto
qed

subsection \<open>Witnesses\<close>

text \<open>A small tree: \<open>a\<close> with \<open>a/b\<close> and a file on the local side, \<open>a.b\<close> only on the remote.\<close>

definition small_side :: "string \<Rightarrow> bool \<Rightarrow> plan_side" where
  "small_side p collection = \<lparr>ps_path = p, ps_isCollection = collection, ps_etag = None, ps_mtime = None,
     ps_size = None, ps_contentType = None\<rparr>"

definition small_sides :: replica_sides where
  "small_sides =
     \<lparr>sd_local = (\<lambda>p. if p = [] then Inr \<lparr>ls_entries = [small_side ''a'' True], ls_complete = True\<rparr>
        else if p = ''a'' then Inr \<lparr>ls_entries = [small_side ''a/x'' False, small_side ''a/b'' True], ls_complete = True\<rparr>
        else Inr \<lparr>ls_entries = [], ls_complete = True\<rparr>),
      sd_remote = (\<lambda>p. if p = [] then Inr \<lparr>ls_entries = [small_side ''a.b'' True, small_side ''a'' True], ls_complete = True\<rparr>
        else Inl ''offline'')\<rparr>"

lemma small_well_listed: "well_listed small_sides"
  by (simp add: well_listed_def small_sides_def small_side_def entries_of_def parentOf_def last_index_of_def Let_def)

lemma small_kids:
  "kids small_sides [] = [''a'', ''a.b'']" "kids small_sides ''a'' = [''a/b'']"
  "p \<noteq> [] \<Longrightarrow> p \<noteq> ''a'' \<Longrightarrow> kids small_sides p = []"
proof -
  show "kids small_sides [] = [''a'', ''a.b'']" by code_simp
  show "kids small_sides ''a'' = [''a/b'']" by code_simp
  show "p \<noteq> [] \<Longrightarrow> p \<noteq> ''a'' \<Longrightarrow> kids small_sides p = []"
    by (simp add: kids_def listCollection_def small_sides_def note_children_def usable_def sweepSort_def dedup_def)
qed

lemma small_reach: "{c. reach small_sides c} = {[], ''a'', ''a.b'', ''a/b''}"
proof -
  have "c \<in> {[], ''a'', ''a.b'', ''a/b''}" if "reach small_sides c" for c
    using that by induction (auto simp: small_kids split: if_splits)
  moreover have "reach small_sides []" "reach small_sides ''a''" "reach small_sides ''a.b''" "reach small_sides ''a/b''"
    using reach_kid [of small_sides "[]" "''a''"] reach_kid [of small_sides "[]" "''a.b''"]
      reach_kid [of small_sides "''a''" "''a/b''"] by (simp_all add: small_kids reach_root)
  ultimately show ?thesis by blast
qed

lemma small_depth: "reach small_sides c \<Longrightarrow> length (sweepAncestorChain c) \<le> max_resume_depth"
proof -
  assume "reach small_sides c"
  then have "c \<in> {[], ''a'', ''a.b'', ''a/b''}" using small_reach by blast
  moreover have "\<forall>p\<in>set [[], ''a'', ''a.b'', ''a/b'']. length (sweepAncestorChain p) \<le> 3" by code_simp
  ultimately have "length (sweepAncestorChain c) \<le> 3" by auto
  then show ?thesis by (simp add: max_resume_depth_def)
qed

theorem sweep_covers_the_tree_witness:
  "\<exists>visited. sweep_slices small_sides 1 5 None = (visited, True) \<and> set visited = {[], ''a'', ''a.b'', ''a/b''}
    \<and> sorted_wrt (\<lambda>a b. sweepOrderCompare a b < 0) visited"
proof -
  have "finite {c. reach small_sides c}" and "card {c. reach small_sides c} + 1 = 5" by (simp_all add: small_reach)
  then show ?thesis
    using sweep_covers_the_tree [OF small_well_listed, of 1] small_depth by (simp only: small_reach) simp
qed

theorem slices_agree_with_one_run_witness:
  "fst (sweep_slices small_sides 1 3 None) = [[], ''a'', ''a/b'']"
proof -
  have "fst (sweep_slices small_sides 1 3 None) = (case sweep small_sides 3 (\<lambda>_. False) None of (_, _, st) \<Rightarrow> sw_visited st)"
    using slices_agree_with_one_run [OF small_well_listed, of 1 3] small_depth by simp
  also have "\<dots> = [[], ''a'', ''a/b'']" by code_simp
  finally show ?thesis .
qed

subsection \<open>An abandoned resume\<close>

text \<open>
  A cursor that is gone: the resume lists the root and its child \<open>a\<close>, misses \<open>a/z\<close> there,
  and starts over; but both stay in \<open>visited\<close>, so the second listing of the root no longer
  names \<open>a\<close>: the sweep ends as exhausted without ever having listed \<open>a/b\<close>.
\<close>

lemma abandoned_resume_skips_a_subtree:
  "case sweep small_sides 1000 (\<lambda>_. False) (Some ''a/z'') of (current, _, st) \<Rightarrow>
     current = None \<and> ''a/b'' \<notin> set (sw_visited st)"
  by code_simp

end
