(* ===== verification/Replica_Passes.thy ===== *)
theory Replica_Passes
  imports Replica_Runs Sweep_Coverage
begin

section \<open>Replication: from one run to the next\<close>

text \<open>
  What a run leaves on its row (\<open>recordRun\<close>, \<open>beginPass\<close>), and where the next run therefore
  resumes: clean runs chain the slices of \<open>Sweep_Coverage\<close>, any other run sends the sweep back to
  the root, and a target that keeps failing is disabled.
\<close>

subsection \<open>The row of a replication\<close>

definition stored :: "string \<Rightarrow> database \<Rightarrow> replication_row option" where
  "stored i db = find (\<lambda>r. rr_id r = i) (db_replications db)"

lemma find_update_where:
  assumes "\<And>r. rr_id (f r) = rr_id r"
  shows "find (\<lambda>r. rr_id r = i) (update_where (\<lambda>r. rr_id r = i) f rows) = map_option f (find (\<lambda>r. rr_id r = i) rows)"
  by (induction rows) (auto simp: update_where_def assms)

lemma stored_beginPass:
  "\<lbrakk>beginPass env i now db = (db', None)\<rbrakk> \<Longrightarrow> stored i db' = map_option (begin_pass_row now) (stored i db)"
  by (auto simp: beginPass_def update_replications_def db_run_def stored_def find_update_where begin_pass_row_def
      split: option.splits)

lemma stored_recordRun:
  "\<lbrakk>recordRun env i status error now m cursor remaining db = (db', None)\<rbrakk>
    \<Longrightarrow> stored i db' = map_option (record_run_row status error now m cursor remaining) (stored i db)"
  by (auto simp: recordRun_def update_replications_def db_run_def stored_def find_update_where record_run_row_def Let_def
      split: option.splits)

lemma stored_recordConflicts: "stored i (recordConflicts env j n cs db) = stored i db"
proof (induction cs arbitrary: n db)
  case (Cons c cs)
  have "stored i (fst (record_conflict e k db)) = stored i db" for e k db
    by (auto simp: record_conflict_def db_run_def stored_def split: option.split prod.split)
  with Cons show ?case by simp
qed simp

lemma recordRun_ok: "\<forall>s. de_fails env s = None \<Longrightarrow> snd (recordRun env i status error now m cursor remaining db) = None"
  by (simp add: recordRun_def update_replications_def db_run_def)

text \<open>Where the sweep of a run starts.\<close>

definition resume_point :: "runner_env \<Rightarrow> replication_row \<Rightarrow> string option" where
  "resume_point env row =
     (if rr_passStartedAt row \<noteq> None \<and> \<not> pass_is_stale env (de_now (re_db env)) row then rr_cursorPath row else None)"

text \<open>The row a run works with: the stored one, or the one of the pass it opens.\<close>

definition opened_row :: "runner_env \<Rightarrow> replication_row \<Rightarrow> replication_row" where
  "opened_row env row =
     (if rr_passStartedAt row \<noteq> None \<and> \<not> pass_is_stale env (de_now (re_db env)) row then row
      else begin_pass_row (de_now (re_db env)) row)"

lemma reconcile:
  assumes "\<forall>s. de_fails (re_db env) s = None" and "stored (rr_id row) db = Some row"
  shows "\<exists>db' row'. reconcilePassState env row db = (db', Inr (row', resume_point env row))
    \<and> stored (rr_id row) db' = Some (opened_row env row) \<and> rr_id row' = rr_id row
    \<and> rr_lastRunAt row' = rr_lastRunAt row \<and> db_volumes db' = db_volumes db"
proof (cases "rr_passStartedAt row \<noteq> None \<and> \<not> pass_is_stale env (de_now (re_db env)) row")
  case True
  then show ?thesis using assms(2) by (simp add: reconcilePassState_def Let_def resume_point_def opened_row_def)
next
  case False
  obtain db' where db': "beginPass (re_db env) (rr_id row) (de_now (re_db env)) db = (db', None)"
    using assms(1) by (simp add: beginPass_def update_replications_def db_run_def)
  then have "db_volumes db' = db_volumes db"
    by (auto simp: beginPass_def update_replications_def db_run_def split: option.splits)
  with False show ?thesis
    using stored_beginPass [OF db'] assms(2) by (auto simp: reconcilePassState_def Let_def resume_point_def opened_row_def db')
qed

subsection \<open>What the walk leaves\<close>

lemma next_sibling_None: "fst (next_sibling levels) = None \<Longrightarrow> snd (next_sibling levels) = []"
  by (induction levels rule: next_sibling.induct) (auto split: if_splits)

lemma exhausted_frontier:
  "sweep_loop sides limit late used free n current cursor st = (None, cursor', st') \<Longrightarrow>
     (current = None \<longrightarrow> sw_frontier st = []) \<Longrightarrow> sw_frontier st' = []"
proof (induction sides limit late used free n current cursor st rule: sweep_loop.induct)
  case (1 sides limit late used free n current cursor st)
  show ?case
  proof (cases current)
    case None
    with 1(3,4) show ?thesis by (subst (asm) sweep_loop.simps) simp
  next
    case (Some c)
    obtain children st1 where visit: "visit sides c st = (children, st1)" by fastforce
    have room: "\<not> (limit \<le> used \<or> late n)" using 1(3) Some by (subst (asm) sweep_loop.simps) (auto split: if_splits)
    define used1 where "used1 = (if free then used else used + 1)"
    define cursor1 where "cursor1 = (case cursor of None \<Rightarrow> Some c
        | Some k \<Rightarrow> if sweepOrderCompare c k \<ge> 0 then Some c else Some k)"
    show ?thesis
    proof (cases children)
      case (Cons k ks)
      have "sweep_loop sides limit late used1 False (n + 1) (Some k) cursor1 (st1\<lparr>sw_frontier := (children, 1) # sw_frontier st1\<rparr>)
          = (None, cursor', st')"
        using 1(3) Some room Cons
        by (subst (asm) sweep_loop.simps) (simp add: visit used1_def cursor1_def)
      then show ?thesis
        using 1(2) [OF Some room refl visit [symmetric] used1_def cursor1_def Cons] by (simp add: Cons)
    next
      case Nil
      obtain next_c levels where sib: "next_sibling (sw_frontier st1) = (next_c, levels)" by fastforce
      have "sweep_loop sides limit late used1 False (n + 1) next_c cursor1 (st1\<lparr>sw_frontier := levels\<rparr>) = (None, cursor', st')"
        using 1(3) Some room Nil
        by (subst (asm) sweep_loop.simps) (simp add: visit used1_def cursor1_def sib)
      moreover have "next_c = None \<longrightarrow> levels = []" using next_sibling_None [of "sw_frontier st1"] by (simp add: sib)
      ultimately show ?thesis
        using 1(1) [OF Some room refl visit [symmetric] used1_def cursor1_def Nil refl sib [symmetric]] by simp
    qed
  qed
qed

lemma sweep_exhausted: "sweep sides m late start = (None, cursor, st) \<Longrightarrow> sw_frontier st = []"
  by (auto simp: sweep_def split: option.splits prod.splits bool.splits dest: exhausted_frontier)

lemma collectSlice_fields:
  assumes "collectSlice sides rows m late start = Inr seen" and "sweep sides m late start = (current, cursor, st)"
  shows "sl_remaining seen = 0 \<longleftrightarrow> current = None" and "sl_cursor seen = (if current = None then None else cursor)"
proof -
  define left where "left = frontier_left (sw_frontier st)"
  obtain rs where "rows = Inr rs" using assms(1) by (cases rows) (simp_all add: collectSlice_def assms(2) Let_def)
  then have seen: "sl_remaining seen = (if current \<noteq> None \<and> left = 0 then 1 else left)"
    "sl_cursor seen = (if current = None then None else cursor)"
    using assms(1) by (auto simp: collectSlice_def assms(2) Let_def left_def)
  have "current = None \<Longrightarrow> left = 0" using sweep_exhausted [of sides m late start cursor st] assms(2) by (simp add: left_def frontier_left_def)
  with seen show "sl_remaining seen = 0 \<longleftrightarrow> current = None" by auto
  show "sl_cursor seen = (if current = None then None else cursor)" by (rule seen(2))
qed

subsection \<open>What a run leaves on its row\<close>

lemma slice_body_row:
  assumes calm: "\<forall>s. de_fails (re_db env) s = None" and row: "stored (rr_id row) (w_db w) = Some row"
    and body: "slice_body env stub build localKey row w = (w', outcome)"
  shows "case outcome of
      Inl e \<Rightarrow> stored (rr_id row) (w_db w') = Some (opened_row env row)
    | Inr result \<Rightarrow> \<exists>remote seen error.
        collectSlice (sides_of stub remote (fst (w_sides w)) (snd (w_sides w))) (stub_rows stub (fst (w_sides w)) (rr_id row))
          (re_slicePaths env) (re_lateSweep env) (resume_point env row) = Inr seen
        \<and> (\<exists>row' db'. build row' db' = Inr remote)
        \<and> stored (rr_id row) (w_db w') = Some (record_run_row (res_status result) error (de_now (re_db env))
            (re_maxFailures env) (sl_cursor seen) (sl_remaining seen) (opened_row env row))
        \<and> res_remaining result = sl_remaining seen"
proof -
  obtain db1 row' where rec: "reconcilePassState env row (w_db w) = (db1, Inr (row', resume_point env row))"
    and db1: "stored (rr_id row) db1 = Some (opened_row env row)" and row': "rr_id row' = rr_id row"
    using reconcile [OF calm row] by blast
  obtain l r where sides: "w_sides w = (l, r)" by fastforce
  show ?thesis
  proof (cases "build row' db1")
    case (Inl e)
    with body db1 show ?thesis by (auto simp: slice_body_def rec sides Let_def)
  next
    case built: (Inr remote)
    show ?thesis
    proof (cases "if rr_lastRunAt row' = None then rv_probe remote r else Inr []")
      case (Inl e)
      with body db1 show ?thesis by (auto simp: slice_body_def rec sides built Let_def)
    next
      case probed: (Inr classes)
      show ?thesis
      proof (cases "collectSlice (sides_of stub remote l r) (stub_rows stub l (rr_id row')) (re_slicePaths env)
                      (re_lateSweep env) (resume_point env row)")
        case (Inl e)
        with body db1 show ?thesis by (auto simp: slice_body_def rec sides built probed Let_def)
      next
        case collected: (Inr seen)
        define plan where "plan = plan_for env row' seen"
        define tc where "tc = \<lparr>tc_stub = stub, tc_remote = remote, tc_id = rr_id row', tc_slice = seen\<rparr>"
        obtain s out where ran: "run_plan (re_hash env) tc (re_latePlan env) (re_sliceBytes env) (re_nowMs env) (p_decisions plan) (l, r) = (s, out)"
          by fastforce
        show ?thesis
        proof (cases out)
          case (Inl e)
          with body db1 ran show ?thesis
            by (auto simp: slice_body_def rec sides built probed collected tc_def plan_def Let_def)
        next
          case (Inr res)
          define db2 where "db2 = recordConflicts env (rr_id row') 0 (p_conflicts plan) db1"
          define error where "error = (if run_is_dirty res seen then Some (truncateReplicationReason (run_error_of res seen)) else None)"
          define recorded where "recorded = recordRun (re_db env) (rr_id row') (run_status_of res seen) error
              (de_now (re_db env)) (re_maxFailures env) (sl_cursor seen) (sl_remaining seen) db2"
          obtain db3 where db3: "recorded = (db3, None)"
            using recordRun_ok [OF calm] by (metis recorded_def prod.collapse)
          have "stored (rr_id row) db2 = Some (opened_row env row)" by (simp add: db2_def stored_recordConflicts db1)
          with db3 have stored3: "stored (rr_id row) db3 = Some (record_run_row (run_status_of res seen) error (de_now (re_db env))
              (re_maxFailures env) (sl_cursor seen) (sl_remaining seen) (opened_row env row))"
            using stored_recordRun [of "re_db env" "rr_id row'" "run_status_of res seen" error "de_now (re_db env)"
                "re_maxFailures env" "sl_cursor seen" "sl_remaining seen" db2 db3]
            by (simp add: recorded_def row')
          have out: "outcome = Inr \<lparr>res_status = run_status_of res seen,
              res_error = (if run_is_dirty res seen then Some (run_error_of res seen) else None),
              res_remaining = sl_remaining seen, res_deferredPaths = length (p_deferredPaths plan)\<rparr>"
            and w': "w_db w' = db3"
            using body ran db3
            by (auto simp: slice_body_def rec sides built probed collected tc_def plan_def Inr Let_def error_def db2_def recorded_def)
          show ?thesis unfolding out
            using collected built stored3 row' by (auto simp: w' sides)
        qed
      qed
    qed
  qed
qed

text \<open>
  A run leaves its outcome on its row: with a working database, after a run the stored row
  carries the run's status and time, one more failure or none, the disabled flag exactly when the
  failure was the last one allowed, an error exactly when the run was not clean, and an open pass
  exactly when the run was clean with collections left to visit.
\<close>

theorem run_leaves_its_outcome:
  assumes "\<forall>s. de_fails (re_db env) s = None" and "stored (rr_id row) (w_db w) = Some row"
    and "runSlice env stub build localKey row w = (w', result)"
  shows "\<exists>row'. stored (rr_id row) (w_db w') = Some row'
    \<and> rr_lastStatus row' = Some (status_text (res_status result)) \<and> rr_lastRunAt row' = Some (de_now (re_db env))
    \<and> rr_consecutiveFailures row' = (if res_status result = Run_ok then 0 else rr_consecutiveFailures row + 1)
    \<and> rr_enabled row' = (if res_status result \<noteq> Run_ok \<and> rr_consecutiveFailures row + 1 \<ge> re_maxFailures env
                         then 0 else rr_enabled row)
    \<and> (rr_passStartedAt row' \<noteq> None \<longleftrightarrow> res_status result = Run_ok \<and> res_remaining result \<noteq> 0)"
proof -
  obtain w1 outcome where body: "slice_body env stub build localKey row w = (w1, outcome)" by fastforce
  have opened: "rr_consecutiveFailures (opened_row env row) = rr_consecutiveFailures row"
    "rr_enabled (opened_row env row) = rr_enabled row" "rr_passStartedAt (opened_row env row) \<noteq> None"
    by (auto simp: opened_row_def begin_pass_row_def)
  note row = slice_body_row [OF assms(1,2) body]
  show ?thesis
  proof (cases outcome)
    case (Inl e)
    define recorded where "recorded = recordRun (re_db env) (rr_id row) Run_failed (Some (truncateReplicationError e))
        (de_now (re_db env)) (re_maxFailures env) None 0 (w_db w1)"
    obtain db where db: "recorded = (db, None)" using recordRun_ok [OF assms(1)] by (metis recorded_def prod.collapse)
    have "stored (rr_id row) db = Some (record_run_row Run_failed (Some (truncateReplicationError e)) (de_now (re_db env))
        (re_maxFailures env) None 0 (opened_row env row))"
      using stored_recordRun [OF db [unfolded recorded_def]] row by (simp add: Inl)
    moreover have "w_db w' = db" "res_status result = Run_failed"
      using assms(3) db by (auto simp: runSlice_def body Inl Let_def recorded_def)
    ultimately show ?thesis by (simp add: record_run_row_def Let_def opened)
  next
    case (Inr res)
    with assms(3) have "w' = w1" "result = res" by (simp_all add: runSlice_def body)
    with row obtain error cursor where "stored (rr_id row) (w_db w') = Some (record_run_row (res_status result) error
        (de_now (re_db env)) (re_maxFailures env) cursor (res_remaining result) (opened_row env row))"
      by (auto simp: Inr)
    with opened show ?thesis by (auto simp: record_run_row_def Let_def)
  qed
qed

text \<open>
  Clean runs walk the tree: after a clean run whose pass is not stale at the time of the
  next one, the next run resumes where the walk of this one stopped (at the root again, in a new
  pass, when it had reached the end); after any other run it starts at the root.
\<close>

theorem next_run_continues_the_sweep:
  assumes "\<forall>s. de_fails (re_db env) s = None" and "stored (rr_id row) (w_db w) = Some row"
    and "runSlice env stub build localKey row w = (w', result)"
    and "stored (rr_id row) (w_db w') = Some row'" and "\<not> pass_is_stale env' (de_now (re_db env')) row'"
  shows "(res_status result = Run_ok \<longrightarrow> (\<exists>remote row1 db1. build row1 db1 = Inr remote
        \<and> (case sweep (sides_of stub remote (fst (w_sides w)) (snd (w_sides w))) (re_slicePaths env) (re_lateSweep env)
                 (resume_point env row) of
             (current, cursor, _) \<Rightarrow> resume_point env' row' = (if current = None then None else cursor))))
    \<and> (res_status result \<noteq> Run_ok \<longrightarrow> resume_point env' row' = None)"
proof -
  obtain w1 outcome where body: "slice_body env stub build localKey row w = (w1, outcome)" by fastforce
  note row = slice_body_row [OF assms(1,2) body]
  show ?thesis
  proof (cases outcome)
    case (Inl e)
    define recorded where "recorded = recordRun (re_db env) (rr_id row) Run_failed (Some (truncateReplicationError e))
        (de_now (re_db env)) (re_maxFailures env) None 0 (w_db w1)"
    obtain db where db: "recorded = (db, None)" using recordRun_ok [OF assms(1)] by (metis recorded_def prod.collapse)
    have "stored (rr_id row) db = Some (record_run_row Run_failed (Some (truncateReplicationError e)) (de_now (re_db env))
        (re_maxFailures env) None 0 (opened_row env row))"
      using stored_recordRun [OF db [unfolded recorded_def]] row by (simp add: Inl)
    moreover have "w_db w' = db" "res_status result = Run_failed"
      using assms(3) db by (auto simp: runSlice_def body Inl Let_def recorded_def)
    ultimately show ?thesis using assms(4) by (auto simp: record_run_row_def Let_def resume_point_def)
  next
    case (Inr res)
    with assms(3) have eq: "w' = w1" "result = res" by (simp_all add: runSlice_def body)
    from row [unfolded Inr sum.case] obtain remote seen error where
      seen: "collectSlice (sides_of stub remote (fst (w_sides w)) (snd (w_sides w))) (stub_rows stub (fst (w_sides w)) (rr_id row))
          (re_slicePaths env) (re_lateSweep env) (resume_point env row) = Inr seen"
      and built: "\<exists>row' db'. build row' db' = Inr remote"
      and after1: "stored (rr_id row) (w_db w1) = Some (record_run_row (res_status res) error (de_now (re_db env))
            (re_maxFailures env) (sl_cursor seen) (sl_remaining seen) (opened_row env row))"
      by blast
    note after = after1 [folded eq]
    obtain current cursor st where walk: "sweep (sides_of stub remote (fst (w_sides w)) (snd (w_sides w))) (re_slicePaths env)
        (re_lateSweep env) (resume_point env row) = (current, cursor, st)" by (metis prod.collapse)
    note fields = collectSlice_fields [OF seen walk]
    have row': "row' = record_run_row (res_status result) error (de_now (re_db env))
            (re_maxFailures env) (sl_cursor seen) (sl_remaining seen) (opened_row env row)" using after assms(4) by simp
    have opened: "rr_passStartedAt (opened_row env row) \<noteq> None" by (auto simp: opened_row_def begin_pass_row_def)
    show ?thesis
    proof (intro conjI impI)
      assume "res_status result = Run_ok"
      with assms(5) opened have "resume_point env' row' = (if current = None then None else cursor)"
        by (auto simp: resume_point_def row' record_run_row_def Let_def fields)
      then have "case sweep (sides_of stub remote (fst (w_sides w)) (snd (w_sides w))) (re_slicePaths env) (re_lateSweep env)
                 (resume_point env row) of
             (current, cursor, _) \<Rightarrow> resume_point env' row' = (if current = None then None else cursor)"
        by (simp add: walk)
      with built show "\<exists>remote row1 db1. build row1 db1 = Inr remote
        \<and> (case sweep (sides_of stub remote (fst (w_sides w)) (snd (w_sides w))) (re_slicePaths env) (re_lateSweep env)
                 (resume_point env row) of
             (current, cursor, _) \<Rightarrow> resume_point env' row' = (if current = None then None else cursor))"
        by (elim exE, intro exI conjI)
    next
      assume "res_status result \<noteq> Run_ok"
      then show "resume_point env' row' = None" by (simp add: resume_point_def row' record_run_row_def Let_def)
    qed
  qed
qed

subsection \<open>Targets that keep failing\<close>

text \<open>The row after a series of runs; what they record besides their status is arbitrary.\<close>

definition after_runs ::
    "int \<Rightarrow> (run_status \<times> string option \<times> int \<times> string option \<times> nat) list \<Rightarrow> replication_row \<Rightarrow> replication_row" where
  "after_runs maxFailures runs row =
     foldl (\<lambda>r (status, error, now, cursor, remaining). record_run_row status error now maxFailures cursor remaining r) row runs"

lemma after_runs_snoc:
  "after_runs m (runs @ [(s, e, t, c, k)]) row = record_run_row s e t m c k (after_runs m runs row)"
  by (simp add: after_runs_def)

lemma failures_count:
  assumes "rr_consecutiveFailures row = 0"
  shows "rr_consecutiveFailures (after_runs m runs row) = int (length (takeWhile (\<lambda>run. fst run \<noteq> Run_ok) (rev runs)))"
proof (induction runs rule: rev_induct)
  case (snoc run runs)
  obtain s e t c k where "run = (s, e, t, c, k)" by (metis prod.collapse)
  with snoc show ?case by (simp add: after_runs_snoc record_run_row_def Let_def)
qed (simp add: after_runs_def assms)

lemma takeWhile_failing_block:
  assumes "m \<le> length (takeWhile P (rev xs))"
  shows "\<exists>ys zs. xs = ys @ zs \<and> length zs = m \<and> (\<forall>z\<in>set zs. P z)"
proof -
  let ?t = "takeWhile P (rev xs)"
  have "rev xs = take m ?t @ drop m ?t @ dropWhile P (rev xs)" by (simp add: takeWhile_dropWhile_id flip: append_assoc)
  then have "rev (rev xs) = rev (take m ?t @ drop m ?t @ dropWhile P (rev xs))" by simp
  then have "xs = (rev (dropWhile P (rev xs)) @ rev (drop m ?t)) @ rev (take m ?t)" by simp
  moreover have "length (rev (take m ?t)) = m" using assms by simp
  moreover have "\<forall>z\<in>set (rev (take m ?t)). P z" by (auto dest: in_set_takeD set_takeWhileD)
  ultimately show ?thesis by blast
qed

text \<open>
  C30. A target is disabled exactly when it has failed too often in a row: starting from an
  enabled row without failures, after any series of recorded runs the row is disabled iff some
  \<open>m\<close> of them in a row were not clean, \<open>m\<close> being the configured maximum.
\<close>

theorem disabled_after_failures_in_a_row:
  assumes "rr_enabled row = 1" and "rr_consecutiveFailures row = 0" and "0 < m"
  shows "rr_enabled (after_runs (int m) runs row) = 0 \<longleftrightarrow>
    (\<exists>before failing later. runs = before @ failing @ later \<and> length failing = m \<and> (\<forall>run\<in>set failing. fst run \<noteq> Run_ok))"
proof (induction runs rule: rev_induct)
  case Nil
  then show ?case using assms by (auto simp: after_runs_def)
next
  case (snoc run runs)
  obtain s e t c k where run: "run = (s, e, t, c, k)" by (metis prod.collapse)
  let ?row = "after_runs (int m) runs row"
  let ?block = "\<lambda>xs. \<exists>before failing later. xs = before @ failing @ later \<and> length failing = m \<and> (\<forall>run\<in>set failing. fst run \<noteq> Run_ok)"
  have enabled: "rr_enabled (after_runs (int m) (runs @ [run]) row) = 0 \<longleftrightarrow>
      rr_enabled ?row = 0 \<or> (s \<noteq> Run_ok \<and> int m \<le> rr_consecutiveFailures ?row + 1)"
    by (auto simp: run after_runs_snoc record_run_row_def Let_def)
  have count: "rr_consecutiveFailures ?row + 1 = int (length (takeWhile (\<lambda>run. fst run \<noteq> Run_ok) (rev (runs @ [run]))))"
    if "s \<noteq> Run_ok" using that by (simp add: failures_count [OF assms(2)] run)
  show ?case
  proof
    assume "rr_enabled (after_runs (int m) (runs @ [run]) row) = 0"
    with enabled consider "rr_enabled ?row = 0" | "s \<noteq> Run_ok" "int m \<le> rr_consecutiveFailures ?row + 1" by blast
    then show "?block (runs @ [run])"
    proof cases
      case 1
      with snoc obtain before failing later where "runs = before @ failing @ later" "length failing = m"
        "\<forall>run\<in>set failing. fst run \<noteq> Run_ok" by blast
      then have "runs @ [run] = before @ failing @ (later @ [run])" by simp
      with \<open>length failing = m\<close> \<open>\<forall>run\<in>set failing. fst run \<noteq> Run_ok\<close> show ?thesis by blast
    next
      case 2
      with count have "m \<le> length (takeWhile (\<lambda>run. fst run \<noteq> Run_ok) (rev (runs @ [run])))" by linarith
      from takeWhile_failing_block [OF this] show ?thesis by (metis append_Nil2)
    qed
  next
    assume "?block (runs @ [run])"
    then obtain before failing later where block: "runs @ [run] = before @ failing @ later" "length failing = m"
      "\<forall>run\<in>set failing. fst run \<noteq> Run_ok" by blast
    show "rr_enabled (after_runs (int m) (runs @ [run]) row) = 0"
    proof (cases later rule: rev_cases)
      case Nil
      with block(2) assms(3) obtain init where failing: "failing = init @ [run]" "runs = before @ init"
        using block(1) by (cases failing rule: rev_cases) auto
      then have s: "s \<noteq> Run_ok" using block(3) by (simp add: run)
      have "takeWhile (\<lambda>run. fst run \<noteq> Run_ok) (rev (before @ failing)) = rev failing @ takeWhile (\<lambda>run. fst run \<noteq> Run_ok) (rev before)"
        using takeWhile_append2 [of "rev failing" "\<lambda>run. fst run \<noteq> Run_ok" "rev before"] block(3) by simp
      then have "m \<le> length (takeWhile (\<lambda>run. fst run \<noteq> Run_ok) (rev (runs @ [run])))"
        using block(1,2) Nil by simp
      with enabled s count show ?thesis by linarith
    next
      case (snoc init x)
      then have "runs = before @ failing @ init" using block(1) by simp
      with snoc.IH block(2,3) enabled show ?thesis by blast
    qed
  qed
qed

subsection \<open>Witnesses\<close>

definition sample_world :: "string \<Rightarrow> (mem_fs volume, mem_fs volume) world" where
  "sample_world mode = \<lparr>w_db = sample_db mode, w_sides = (left_volume, right_volume), w_purged = []\<rparr>"

definition sample_build :: "replication_row \<Rightarrow> database \<Rightarrow> string + mem_fs volume remote_volume" where
  "sample_build = buildRemote quiet_db (\<lambda>_. Inr mem_stub) (\<lambda>_. Inl ''no http'')"

text \<open>With a budget of one collection a run, the first run stops before \<open>a\<close>.\<close>

definition one_step_runner :: runner_env where "one_step_runner = sample_runner\<lparr>re_slicePaths := 1\<rparr>"

lemma sample_stored: "stored (rr_id (sample_replication mode)) (w_db (sample_world mode)) = Some (sample_replication mode)"
  by (simp add: stored_def sample_world_def sample_db_def)

lemma sample_calm: "\<forall>s. de_fails (re_db one_step_runner) s = None"
  by (simp add: one_step_runner_def sample_runner_def quiet_db_def)

theorem run_leaves_its_outcome_witness:
  "\<exists>row'. stored ''R'' (w_db (fst (runSlice one_step_runner mem_stub sample_build ''o/v'' (sample_replication ''sync'')
      (sample_world ''sync'')))) = Some row' \<and> rr_lastStatus row' = Some ''ok'' \<and> rr_passStartedAt row' \<noteq> None"
proof -
  let ?run = "runSlice one_step_runner mem_stub sample_build ''o/v'' (sample_replication ''sync'') (sample_world ''sync'')"
  obtain w' result where run: "?run = (w', result)" by fastforce
  have "res_status (snd ?run) = Run_ok \<and> res_remaining (snd ?run) \<noteq> 0" by code_simp
  then have ok: "res_status result = Run_ok" "res_remaining result \<noteq> 0" by (simp_all add: run)
  have i: "rr_id (sample_replication ''sync'') = ''R''" by (simp add: sample_replication_def)
  from run_leaves_its_outcome [OF sample_calm sample_stored run]
  obtain row' where "stored ''R'' (w_db w') = Some row'" "rr_lastStatus row' = Some (status_text Run_ok)" "rr_passStartedAt row' \<noteq> None"
    using ok by (auto simp: i)
  then show ?thesis by (auto simp: run status_text_def)
qed

theorem next_run_continues_the_sweep_witness:
  "\<exists>row'. stored ''R'' (w_db (fst (runSlice one_step_runner mem_stub sample_build ''o/v'' (sample_replication ''sync'')
      (sample_world ''sync'')))) = Some row' \<and> resume_point one_step_runner row' = Some []"
proof -
  let ?run = "runSlice one_step_runner mem_stub sample_build ''o/v'' (sample_replication ''sync'') (sample_world ''sync'')"
  obtain w' result where run: "?run = (w', result)" by fastforce
  have "case stored ''R'' (w_db (fst ?run)) of None \<Rightarrow> False
      | Some row' \<Rightarrow> \<not> pass_is_stale one_step_runner (de_now (re_db one_step_runner)) row'
          \<and> resume_point one_step_runner row' = Some []"
    by code_simp
  then obtain row' where row': "stored ''R'' (w_db w') = Some row'"
    "\<not> pass_is_stale one_step_runner (de_now (re_db one_step_runner)) row'" "resume_point one_step_runner row' = Some []"
    by (auto simp: run split: option.splits)
  have i: "rr_id (sample_replication ''sync'') = ''R''" by (simp add: sample_replication_def)
  have "res_status result \<noteq> Run_ok \<longrightarrow> resume_point one_step_runner row' = None"
    using next_run_continues_the_sweep [OF sample_calm sample_stored run _ row'(2)] row'(1) by (simp add: i)
  with row' show ?thesis by (auto simp: run)
qed

theorem disabled_after_failures_in_a_row_witness:
  "rr_enabled (after_runs 2 [(Run_failed, None, 1, None, 0), (Run_partial, None, 2, None, 0)] (sample_replication ''sync'')) = 0"
proof -
  have row: "rr_enabled (sample_replication ''sync'') = 1" "rr_consecutiveFailures (sample_replication ''sync'') = 0"
    by (simp_all add: sample_replication_def)
  let ?runs = "[(Run_failed, None, 1, None, 0), (Run_partial, None, 2, None, 0)] :: (run_status \<times> string option \<times> int \<times> string option \<times> nat) list"
  have "\<exists>before failing later. ?runs = before @ failing @ later \<and> length failing = 2 \<and> (\<forall>run\<in>set failing. fst run \<noteq> Run_ok)"
    by (rule exI [of _ "[]"], rule exI [of _ ?runs], rule exI [of _ "[]"]) simp
  with disabled_after_failures_in_a_row [OF row, of 2 ?runs] show ?thesis by simp
qed

end
