(* ===== verification/Replica_Transfers.thy ===== *)
theory Replica_Transfers
  imports Replica_Runs Sweep_Coverage
begin

section \<open>Replication: batches and transfers\<close>

text \<open>
  A batch of operations on a volume accounts for each of them, and a push to a sibling volume
  delivers the bytes: the write of \<open>replicaOperations.ts\<close>, read back through the stub and the
  remote of \<open>DavVolumeRemote.ts\<close>.
\<close>

subsection \<open>Batches\<close>

lemma apply_all_counts:
  assumes "apply_all dofs env i ops (s, res) = (s', res')"
  shows "ar_applied res' + ar_failed res' = ar_applied res + ar_failed res + length ops
    \<and> ar_failed res \<le> ar_failed res' \<and> (ar_failed res' = ar_failed res \<longrightarrow> ar_error res' = ar_error res)
    \<and> (ar_failed res' \<noteq> ar_failed res \<longrightarrow> ar_error res' \<noteq> None)
    \<and> (\<forall>e. ar_error res = Some e \<longrightarrow> ar_error res' = Some e)
    \<and> (\<forall>e. ar_error res = None \<longrightarrow> ar_error res' = Some e \<longrightarrow> length e \<le> truncated_error_length)"
  using assms
proof (induction ops arbitrary: s res)
  case (Cons operation ops)
  obtain s1 e where step: "applyOne dofs env i operation s = (s1, e)" by fastforce
  show ?case
  proof (cases e)
    case None
    with Cons.prems step have "apply_all dofs env i ops (s1, res\<lparr>ar_applied := ar_applied res + 1\<rparr>) = (s', res')" by simp
    from Cons.IH [OF this] show ?thesis by simp
  next
    case (Some m)
    define res1 where "res1 = res\<lparr>ar_failed := ar_failed res + 1,
        ar_error := or_else (ar_error res) (Some (truncateReplicationReason m))\<rparr>"
    from Some Cons.prems step have "apply_all dofs env i ops (s1, res1) = (s', res')" by (simp add: res1_def)
    from Cons.IH [OF this] show ?thesis
      by (cases "ar_error res") (auto simp: res1_def or_else_def truncate_take)
  qed
qed simp

text \<open>
  A batch goes on after a failure and accounts for every operation: whenever it returns,
  each operation was either applied or counted as failed, an error is reported exactly when one
  failed, and it is short enough to be stored.
\<close>

theorem batch_accounts_for_every_operation:
  assumes "applyReplicaOperations dofs env i ops v = (v', Inr res)"
  shows "ar_applied res + ar_failed res = length ops \<and> (ar_error res = None \<longleftrightarrow> ar_failed res = 0)
    \<and> (\<forall>e. ar_error res = Some e \<longrightarrow> length e \<le> truncated_error_length)"
proof -
  obtain w rows ps res' where all: "apply_all dofs env i ops ((ensure_schema v, [], []), no_result) = ((w, rows, ps), res')"
    by (metis prod.collapse)
  with assms have "res' = res" by (auto simp: applyReplicaOperations_def split: prod.splits option.splits)
  with apply_all_counts [OF all] show ?thesis by (auto simp: no_result_def)
qed

theorem batch_accounts_for_every_operation_witness:
  "\<exists>res. snd (applyReplicaOperations mem_dofs sample_sql ''R'' [Op_mkdir [], Op_write ''b'' None (Bytes ''xy''), Op_touch ''a''] left_volume)
      = Inr res \<and> ar_applied res + ar_failed res = 3 \<and> ar_failed res = 1"
proof -
  let ?run = "applyReplicaOperations mem_dofs sample_sql ''R'' [Op_mkdir [], Op_write ''b'' None (Bytes ''xy''), Op_touch ''a''] left_volume"
  have "case snd ?run of Inl _ \<Rightarrow> False | Inr res \<Rightarrow> ar_failed res = 1" by code_simp
  then obtain res where "snd ?run = Inr res" "ar_failed res = 1" by (auto split: sum.splits)
  moreover obtain v' where "?run = (v', Inr res)" using \<open>snd ?run = Inr res\<close> by (metis prod.collapse)
  from batch_accounts_for_every_operation [OF this] have "ar_applied res + ar_failed res = 3" by simp
  ultimately show ?thesis by blast
qed

subsection \<open>Delivery\<close>

lemma replica_write_cases:
  assumes "replica_write dofs env p ct data v = (v', None)"
  obtains fs v1 where "\<not> unusable_path p"
    and "fs_writeFile dofs fs (fsPathOf p) (payload_bytes data) = (vol_fs v', None)"
proof -
  have usable: "\<not> unusable_path p" using assms by (auto simp: replica_write_def split: if_splits)
  obtain v0 e0 where made: "(if getParentPath p = [] then (v, None) else replica_mkdir dofs env (getParentPath p) v) = (v0, e0)"
    by (metis prod.collapse)
  have "e0 = None" using assms usable made by (auto simp: replica_write_def Let_def also_do_def split: option.splits if_splits)
  obtain fs1 e1 where wrote: "fs_writeFile dofs (vol_fs v0) (fsPathOf p) (payload_bytes data) = (fs1, e1)" by fastforce
  have "e1 = None" and "vol_fs v' = fs1"
    using assms usable made \<open>e0 = None\<close> wrote
    by (auto simp: replica_write_def Let_def also_do_def fs_step_def on_fs_def upsertFileNode_def on_store_def
        split: option.splits if_splits)
  with wrote usable show thesis by (intro that) auto
qed

lemma written_file_reads_back:
  assumes "replica_write dofs env p ct data v = (v', None)" and "reads_back dofs (fsPathOf p)"
  shows "readReplicaStream dofs env' v' p = Inr (Some (payload_bytes data))"
proof -
  obtain fs where usable: "\<not> unusable_path p"
    and wrote: "fs_writeFile dofs fs (fsPathOf p) (payload_bytes data) = (vol_fs v', None)"
    using assms(1) by (rule replica_write_cases)
  then obtain m where "fs_readFile dofs (vol_fs v') (fsPathOf p) = Inr (payload_bytes data)"
    "fs_statOf dofs (vol_fs v') (fsPathOf p) = Inr \<lparr>fs_isDirectory = False, fs_size = Some (length (payload_bytes data)), fs_mtime = m\<rparr>"
    using assms(2) unfolding reads_back_def by blast
  then show ?thesis using usable by (simp add: readReplicaStream_def requireStatInner_def rp_stat_def)
qed

lemma applied_write:
  assumes "applyReplicaOperations dofs env i [Op_write p ct data] v = (v', Inr res)" and "ar_failed res = 0"
  shows "replica_write dofs env p ct data (ensure_schema v) = (v', None)"
  using assms
  by (auto simp: applyReplicaOperations_def applyOne_def no_result_def also_do_def split: prod.splits option.splits)

lemma sibling_write:
  assumes "dvr_writeFile (volume_stub dofs env) t p data ct r = (r', None)"
  obtains inner where "withRoot t p = Inr inner" and "replica_write dofs env inner ct data (ensure_schema r) = (r', None)"
proof -
  obtain inner where inner: "withRoot t p = Inr inner"
    using assms by (cases "withRoot t p") (auto simp: dvr_writeFile_def sibling_apply_def split: if_splits)
  obtain l' out where call: "applyReplicaOperations dofs env (vt_replicationId t) [Op_write inner ct data] r = (l', out)" by fastforce
  obtain res where "out = Inr res" "ar_failed res = 0" "l' = r'"
    using assms inner call
    by (cases out) (auto simp: dvr_writeFile_def sibling_apply_def volume_stub_def split: if_splits)
  with inner call applied_write show thesis by (intro that) auto
qed

text \<open>
  C29. A push delivers: when the transfer of a local file to a sibling volume reports success, the
  file it read is what the sibling serves for the path afterwards, byte for byte (under the
  documented contract of the filesystem that a file written without an error reads back).
\<close>

theorem push_delivers_the_bytes:
  assumes "tc_stub tc = volume_stub dofs env" and "tc_remote tc = volume_remote (volume_stub dofs' env') t"
    and "\<forall>p. p \<noteq> ''/'' \<longrightarrow> reads_back dofs' p"
    and "entry_at p (sl_local (tc_slice tc)) = Some e" and "\<not> ps_isCollection e"
    and "pushTransfer tc p (l, r) = ((l', r'), Inr moved)"
  shows "\<exists>bytes. readReplicaStream dofs env l p = Inr (Some bytes) \<and> rv_readFile (tc_remote tc) r' p = Inr (Some bytes)"
proof -
  obtain bytes where bytes: "readReplicaStream dofs env l p = Inr (Some bytes)"
    and wrote: "dvr_writeFile (volume_stub dofs' env') t p (Stream bytes) (ps_contentType e) r = (r', None)"
    using assms(6)
    by (auto simp: pushTransfer_def assms(1,2,4,5) act_bind_def read_local_def act_throw_def act_value_def on_remote_def
        volume_stub_def volume_remote_def split: sum.splits option.splits prod.splits)
  obtain inner where inner: "withRoot t p = Inr inner"
    and stored: "replica_write dofs' env' inner (ps_contentType e) (Stream bytes) (ensure_schema r) = (r', None)"
    using wrote by (rule sibling_write)
  have "inner \<noteq> []" using stored by (auto simp: replica_write_def unusable_path_def)
  then have "fsPathOf inner \<noteq> ''/''" by (auto simp: fsPathOf_def)
  with assms(3) have "reads_back dofs' (fsPathOf inner)" by blast
  from written_file_reads_back [OF stored this, of env']
  have "rv_readFile (tc_remote tc) r' p = Inr (Some bytes)"
    by (simp add: assms(2) volume_remote_def dvr_readFile_def after_root_def inner volume_stub_def payload_bytes_def)
  with bytes show ?thesis by blast
qed

definition push_transfer :: "(mem_fs volume, mem_fs volume) transfer" where
  "push_transfer = sample_transfer\<lparr>tc_slice := (tc_slice sample_transfer)\<lparr>sl_local := [small_side ''a/x'' False]\<rparr>\<rparr>"

theorem push_delivers_the_bytes_witness:
  "rv_readFile (tc_remote push_transfer) (snd (fst (pushTransfer push_transfer ''a/x'' (left_volume, right_volume)))) ''a/x'' = Inr (Some ''one'')"
proof -
  obtain l' r' out where run: "pushTransfer push_transfer ''a/x'' (left_volume, right_volume) = ((l', r'), out)"
    by (metis prod.collapse)
  have "case snd (pushTransfer push_transfer ''a/x'' (left_volume, right_volume)) of Inl _ \<Rightarrow> False | Inr _ \<Rightarrow> True" by code_simp
  then obtain moved where out: "out = Inr moved" by (auto simp: run split: sum.splits)
  have "entry_at ''a/x'' (sl_local (tc_slice push_transfer)) = Some (small_side ''a/x'' False)"
    "\<not> ps_isCollection (small_side ''a/x'' False)"
    by (simp_all add: push_transfer_def entry_at_def small_side_def)
  moreover have "tc_stub push_transfer = volume_stub mem_dofs sample_sql"
    "tc_remote push_transfer = volume_remote (volume_stub mem_dofs sample_sql)
       \<lparr>vt_owner = ''o'', vt_volume = ''w'', vt_remotePath = [], vt_replicationId = ''R''\<rparr>"
    by (simp_all add: push_transfer_def sample_transfer_def mem_stub_def)
  ultimately obtain bytes where "readReplicaStream mem_dofs sample_sql left_volume ''a/x'' = Inr (Some bytes)"
    and "rv_readFile (tc_remote push_transfer) r' ''a/x'' = Inr (Some bytes)"
    using push_delivers_the_bytes [of push_transfer mem_dofs sample_sql mem_dofs sample_sql] run out mem_reads_back by blast
  moreover have "readReplicaStream mem_dofs sample_sql left_volume ''a/x'' = Inr (Some ''one'')" by code_simp
  ultimately show ?thesis by (simp add: run)
qed

end
