(* ===== verification/Base64.thy ===== *)
theory Base64
  imports Http
begin

section \<open>Base64 and Basic credentials\<close>

text \<open>
  \<open>btoa\<close> and \<open>atob\<close> of the platform, on strings of code units below 256, the URL-safe variant of
  \<open>packages/shared/src/utils/DavCredentialUtil.ts\<close>, the parsing of a \<open>Basic\<close> header of
  \<open>apps/api/src/middleware/DavAuth.ts\<close> and the printing of one of
  \<open>apps/background/src/replication/remote/davHttpProtocol.ts\<close>.
\<close>

subsection \<open>\<open>btoa\<close> and \<open>atob\<close>\<close>

definition b64_char :: "nat \<Rightarrow> char" where
  "b64_char n =
     (if n < 26 then char_of (n + 65) else if n < 52 then char_of (n + 71)
      else if n < 62 then char_of (n - 4) else if n = 62 then CHR ''+'' else CHR ''/'')"

definition b64_value :: "char \<Rightarrow> nat option" where
  "b64_value c =
     (let n = of_char c :: nat
      in if 65 \<le> n \<and> n \<le> 90 then Some (n - 65) else if 97 \<le> n \<and> n \<le> 122 then Some (n - 71)
         else if 48 \<le> n \<and> n \<le> 57 then Some (n + 4) else if c = CHR ''+'' then Some 62
         else if c = CHR ''/'' then Some 63 else None)"

fun btoa :: "string \<Rightarrow> string" where
  "btoa [] = []"
| "btoa [a] = [b64_char (of_char a div 4), b64_char (of_char a mod 4 * 16), CHR ''='', CHR ''='']"
| "btoa [a, b] = [b64_char (of_char a div 4), b64_char (of_char a mod 4 * 16 + of_char b div 16),
     b64_char (of_char b mod 16 * 4), CHR ''='']"
| "btoa (a # b # c # rest) =
     [b64_char (of_char a div 4), b64_char (of_char a mod 4 * 16 + of_char b div 16),
      b64_char (of_char b mod 16 * 4 + of_char c div 64), b64_char (of_char c mod 64)] @ btoa rest"

text \<open>The bits of the sextets in groups of eight; bits left over are dropped.\<close>

fun b64_bytes :: "nat list \<Rightarrow> string" where
  "b64_bytes (a # b # c # d # rest) =
     [char_of (a * 4 + b div 16), char_of (b mod 16 * 16 + c div 4), char_of (c mod 4 * 64 + d)] @ b64_bytes rest"
| "b64_bytes [a, b, c] = [char_of (a * 4 + b div 16), char_of (b mod 16 * 16 + c div 4)]"
| "b64_bytes [a, b] = [char_of (a * 4 + b div 16)]"
| "b64_bytes _ = []"

fun sextets :: "string \<Rightarrow> nat list option" where
  "sextets [] = Some []"
| "sextets (c # cs) =
     (case b64_value c of None \<Rightarrow> None | Some n \<Rightarrow> map_option ((#) n) (sextets cs))"

text \<open>The padding is removed from a text whose length is a multiple of four, two characters at most.\<close>

definition unpadded :: "string \<Rightarrow> string" where
  "unpadded s =
     (if length s mod 4 \<noteq> 0 then s
      else if ends_with ''=='' s then take (length s - 2) s
      else if ends_with ''='' s then take (length s - 1) s else s)"

definition atob :: "string \<Rightarrow> string option" where
  "atob text =
     (let s = unpadded (filter (\<lambda>c. c \<notin> {CHR '' '', CHR 0x09, CHR 0x0A, CHR 0x0C, CHR 0x0D}) text)
      in if length s mod 4 = 1 then None else map_option b64_bytes (sextets s))"

lemma b64_value_char [simp]: "n < 64 \<Longrightarrow> b64_value (b64_char n) = Some n"
  by (auto simp: b64_value_def b64_char_def Let_def of_char_of)

lemma b64_char_printable: "n < 64 \<Longrightarrow> b64_char n \<notin> {CHR ''='', CHR '' '', CHR 0x09, CHR 0x0A, CHR 0x0C, CHR 0x0D}"
proof -
  assume "n < 64"
  then have "b64_value (b64_char n) = Some n" by simp
  moreover have "b64_value c = None" if "c \<in> {CHR ''='', CHR '' '', CHR 0x09, CHR 0x0A, CHR 0x0C, CHR 0x0D}" for c
    using that by (auto simp: b64_value_def)
  ultimately show ?thesis by (metis option.distinct(1))
qed

lemma of_char_bound: "(of_char c :: nat) < 256"
  using nat_of_char_less_256 by simp

text \<open>The sextets of a text, and the text they spell: what \<open>btoa\<close> pads.\<close>

fun to_sextets :: "string \<Rightarrow> nat list" where
  "to_sextets [] = []"
| "to_sextets [a] = [of_char a div 4, of_char a mod 4 * 16]"
| "to_sextets [a, b] = [of_char a div 4, of_char a mod 4 * 16 + of_char b div 16, of_char b mod 16 * 4]"
| "to_sextets (a # b # c # rest) =
     [of_char a div 4, of_char a mod 4 * 16 + of_char b div 16, of_char b mod 16 * 4 + of_char c div 64,
      of_char c mod 64] @ to_sextets rest"

definition padding :: "string \<Rightarrow> string" where
  "padding s = (if length s mod 3 = 1 then ''=='' else if length s mod 3 = 2 then ''='' else [])"

lemma char_quotients: "of_char a div 4 < (64 :: nat)" "of_char a div 16 < (16 :: nat)" "of_char a div 64 < (4 :: nat)"
  using of_char_bound[of a] by (simp_all add: less_mult_imp_div_less)

lemma sextet_bounds:
  "of_char a div 4 < (64 :: nat)" "of_char a mod 4 * 16 + of_char b div 16 < (64 :: nat)"
  "of_char b mod 16 * 4 + of_char c div 64 < (64 :: nat)" "of_char c mod 64 < (64 :: nat)"
  "of_char a mod 4 * 16 < (64 :: nat)" "of_char b mod 16 * 4 < (64 :: nat)"
proof -
  have "of_char a mod 4 < (4 :: nat)" "of_char b mod 16 < (16 :: nat)" by simp_all
  then show "of_char a mod 4 * 16 + of_char b div 16 < (64 :: nat)" "of_char b mod 16 * 4 + of_char c div 64 < (64 :: nat)"
    "of_char a mod 4 * 16 < (64 :: nat)" "of_char b mod 16 * 4 < (64 :: nat)"
    using char_quotients(2)[of b] char_quotients(3)[of c] by linarith+
qed (simp_all add: char_quotients)

lemma to_sextets_less: "n \<in> set (to_sextets s) \<Longrightarrow> n < 64"
  by (induction s rule: to_sextets.induct) (use sextet_bounds in auto)

lemma btoa_alt: "btoa s = map b64_char (to_sextets s) @ padding s"
  by (induction s rule: to_sextets.induct) (simp_all add: padding_def)

text \<open>Each byte comes back from the two sextets it is spread over.\<close>

lemma first_byte: "char_of (of_char a div (4 :: nat) * 4 + (of_char a mod 4 * 16 + of_char b div 16) div 16) = (a :: char)"
  "char_of (of_char a div (4 :: nat) * 4 + (of_char a mod 4 * 16) div 16) = (a :: char)"
proof -
  have "(of_char a mod 4 * 16 + of_char b div 16) div 16 = (of_char a mod 4 :: nat)"
    using char_quotients(2)[of b] by (simp only: div_mult_self3[of 16] mult.commute)
  then show "char_of (of_char a div (4 :: nat) * 4 + (of_char a mod 4 * 16 + of_char b div 16) div 16) = a"
    by (simp only: div_mult_mod_eq char_of_char)
  show "char_of (of_char a div (4 :: nat) * 4 + (of_char a mod 4 * 16) div 16) = a"
    by (simp only: nonzero_mult_div_cancel_right[of 16] div_mult_mod_eq char_of_char)
qed

lemma second_byte: fixes n :: nat shows "char_of ((n * 16 + of_char b div 16) mod 16 * 16 + (of_char b mod 16 * 4 + of_char c div 64) div 4) = (b :: char)"
  "char_of ((n * 16 + of_char b div 16) mod 16 * 16 + (of_char b mod 16 * 4) div 4) = (b :: char)"
proof -
  have 1: "(n * 16 + of_char b div 16) mod 16 = (of_char b div 16 :: nat)"
    using char_quotients(2)[of b] by (simp only: mod_mult_self3 mod_less)
  have 2: "(of_char b mod 16 * 4 + of_char c div 64) div 4 = (of_char b mod 16 :: nat)"
    using char_quotients(3)[of c] by (simp only: div_mult_self3 mod_less div_less)
  show "char_of ((n * 16 + of_char b div 16) mod 16 * 16 + (of_char b mod 16 * 4 + of_char c div 64) div 4) = b"
    by (simp only: 1 2 div_mult_mod_eq char_of_char)
  show "char_of ((n * 16 + of_char b div 16) mod 16 * 16 + (of_char b mod 16 * 4) div 4) = b"
    by (simp only: 1 nonzero_mult_div_cancel_right[of 4] div_mult_mod_eq char_of_char)
qed

lemma third_byte: fixes n :: nat shows "char_of ((n * 4 + of_char c div 64) mod 4 * 64 + of_char c mod 64) = (c :: char)"
proof -
  have "(n * 4 + of_char c div 64) mod 4 = (of_char c div 64 :: nat)"
    using char_quotients(3)[of c] by (simp only: mod_mult_self3 mod_less)
  then show ?thesis by (simp only: div_mult_mod_eq char_of_char)
qed

lemma b64_bytes_to_sextets [simp]: "b64_bytes (to_sextets s) = s"
  by (induction s rule: to_sextets.induct)
    (simp_all only: to_sextets.simps b64_bytes.simps append.simps first_byte second_byte third_byte)

lemma sextets_map [simp]: "\<forall>n\<in>set ns. n < 64 \<Longrightarrow> sextets (map b64_char ns) = Some ns"
  by (induction ns) simp_all

lemma length_to_sextets: "length (to_sextets s) = 4 * (length s div 3) + (if length s mod 3 = 0 then 0 else Suc (length s mod 3))"
  by (induction s rule: to_sextets.induct) simp_all

lemma ends_with_snoc: "ends_with [c] (s @ [d]) \<longleftrightarrow> c = d"
  by (simp add: ends_with_def starts_with_Cons)

lemma unpadded_padding:
  assumes "c \<notin> set t" "c = CHR ''=''" and rest: "length t mod 4 \<noteq> 1"
  shows "unpadded (t @ replicate ((4 - length t mod 4) mod 4) c) = t"
proof -
  have no_pad: "\<not> ends_with ''='' t" "\<not> ends_with ''=='' t"
    using assms by (auto simp: ends_with_def starts_with_iff rev_eq_Cons_iff)
  have "length t mod 4 < 4" by simp
  with rest consider "length t mod 4 = 0" | "length t mod 4 = 2" | "length t mod 4 = 3" by linarith
  then show ?thesis
  proof cases
    case 1
    with no_pad show ?thesis by (simp add: unpadded_def)
  next
    case 2
    then have "(length t + 2) mod 4 = 0" by presburger
    with 2 assms show ?thesis
      by (simp add: unpadded_def ends_with_def starts_with_iff numeral_2_eq_2)
  next
    case 3
    then have "(length t + 1) mod 4 = 0" by presburger
    moreover from assms have "\<not> ends_with ''=='' (t @ [c])"
      by (auto simp: ends_with_def starts_with_iff rev_eq_Cons_iff)
    ultimately show ?thesis using 3 assms by (simp add: unpadded_def ends_with_snoc)
  qed
qed

lemma padding_alt: "padding s = replicate ((4 - length (to_sextets s) mod 4) mod 4) CHR ''=''"
proof -
  have "length s mod 3 \<in> {0, 1, 2}" by (simp, linarith)
  moreover have "length (to_sextets s) mod 4 = (if length s mod 3 = 0 then 0 else Suc (length s mod 3))"
    using calculation by (auto simp: length_to_sextets)
  ultimately show ?thesis by (auto simp: padding_def numeral_2_eq_2)
qed

lemma length_to_sextets_mod: "length (to_sextets s) mod 4 \<noteq> 1"
proof -
  have "length s mod 3 \<in> {0, 1, 2}" by (simp, linarith)
  then show ?thesis by (auto simp: length_to_sextets)
qed

definition b64_text :: "string \<Rightarrow> string" where "b64_text s = map b64_char (to_sextets s)"

lemma length_b64_text: "length (b64_text s) = length (to_sextets s)"
  by (simp add: b64_text_def)

lemma sextets_text [simp]: "sextets (b64_text s) = Some (to_sextets s)"
  by (simp add: b64_text_def to_sextets_less)

lemma b64_text_chars: "c \<in> set (b64_text s) \<Longrightarrow> \<exists>n < 64. c = b64_char n"
  by (auto simp: b64_text_def dest: to_sextets_less)

lemma atob_padded: "atob (b64_text s @ replicate ((4 - length (b64_text s) mod 4) mod 4) CHR ''='') = Some s"
proof -
  have "filter (\<lambda>c. c \<notin> {CHR '' '', CHR 0x09, CHR 0x0A, CHR 0x0C, CHR 0x0D}) (b64_text s) = b64_text s"
    using b64_char_printable by (fastforce simp: filter_id_conv dest: b64_text_chars)
  moreover have "filter (\<lambda>c. c \<notin> {CHR '' '', CHR 0x09, CHR 0x0A, CHR 0x0C, CHR 0x0D}) (replicate n CHR ''='') = replicate n CHR ''=''" for n
    by (simp add: filter_id_conv)
  moreover have "CHR ''='' \<notin> set (b64_text s)"
    using b64_char_printable by (fastforce dest: b64_text_chars)
  ultimately show ?thesis
    using unpadded_padding[of "CHR ''=''" "b64_text s"] length_to_sextets_mod[of s]
    by (simp add: atob_def Let_def length_b64_text)
qed

lemma btoa_padded: "btoa s = b64_text s @ replicate ((4 - length (b64_text s) mod 4) mod 4) CHR ''=''"
  by (simp add: btoa_alt b64_text_def padding_alt)

lemma atob_btoa [simp]: "atob (btoa s) = Some s"
  by (simp add: btoa_padded atob_padded)

subsection \<open>The URL-safe variant (\<open>DavCredentialUtil.ts\<close>)\<close>

definition replace_char :: "char \<Rightarrow> char \<Rightarrow> string \<Rightarrow> string" where
  "replace_char a b s = map (\<lambda>c. if c = a then b else c) s"

definition base64Url :: "string \<Rightarrow> string" where
  "base64Url bytes = filter (\<lambda>c. c \<noteq> CHR ''='') (replace_char CHR ''/'' CHR ''_'' (replace_char CHR ''+'' CHR ''-'' (btoa bytes)))"

definition fromBase64Url :: "string \<Rightarrow> string option" where
  "fromBase64Url s =
     (let padded = replace_char CHR ''_'' CHR ''/'' (replace_char CHR ''-'' CHR ''+'' s)
      in atob (padded @ replicate ((4 - length padded mod 4) mod 4) CHR ''=''))"

lemma url_safe_char:
  assumes "n < 64"
  shows "b64_char n \<notin> {CHR ''-'', CHR ''_'', CHR ''$'', CHR '':''}"
proof -
  have "b64_value c = None" if "c \<in> {CHR ''-'', CHR ''_'', CHR ''$'', CHR '':''}" for c
    using that by (auto simp: b64_value_def)
  with b64_value_char[OF assms] show ?thesis by (metis option.distinct(1))
qed

lemma base64Url_alt: "base64Url s = replace_char CHR ''/'' CHR ''_'' (replace_char CHR ''+'' CHR ''-'' (b64_text s))"
proof -
  have "CHR ''='' \<notin> set (b64_text s)"
    using b64_char_printable by (fastforce dest: b64_text_chars)
  then show ?thesis
    by (auto simp: base64Url_def btoa_padded replace_char_def filter_id_conv)
qed

lemma fromBase64Url_base64Url [simp]: "fromBase64Url (base64Url s) = Some s"
proof -
  have "c \<notin> {CHR ''-'', CHR ''_''}" if "c \<in> set (b64_text s)" for c
    using url_safe_char b64_text_chars[OF that] by fastforce
  then have "map (\<lambda>c. if c = CHR ''_'' then CHR ''/'' else c) (map (\<lambda>c. if c = CHR ''-'' then CHR ''+'' else c)
      (base64Url s)) = b64_text s"
    by (auto simp: base64Url_alt replace_char_def map_idI)
  then show ?thesis
    by (simp add: fromBase64Url_def replace_char_def Let_def atob_padded)
qed

lemma base64Url_no_dollar [simp]: "CHR ''$'' \<notin> set (base64Url s)"
  using url_safe_char by (fastforce simp: base64Url_alt replace_char_def dest: b64_text_chars)

lemma base64Url_Nil [simp]: "base64Url s = [] \<longleftrightarrow> s = []"
proof
  have nil: "base64Url [] = []" by (simp add: base64Url_alt b64_text_def replace_char_def)
  then show "s = [] \<Longrightarrow> base64Url s = []" by simp
  assume "base64Url s = []"
  with nil have "fromBase64Url (base64Url s) = fromBase64Url (base64Url [])" by (simp only:)
  then show "s = []" by simp
qed

subsection \<open>Basic credentials (\<open>DavAuth.ts\<close>, \<open>davHttpProtocol.ts\<close>)\<close>

definition getBasicCredentials :: "string option \<Rightarrow> (string \<times> string) option" where
  "getBasicCredentials header =
     (case header of
        None \<Rightarrow> None
      | Some h \<Rightarrow>
          (case index_of CHR '' '' h 0 of
             None \<Rightarrow> None
           | Some separator \<Rightarrow>
               if to_lower (take separator h) \<noteq> ''basic'' then None
               else (case atob (trim (drop (separator + 1) h)) of
                       None \<Rightarrow> None
                     | Some decoded \<Rightarrow>
                         (case index_of CHR '':'' decoded 0 of
                            None \<Rightarrow> None
                          | Some i \<Rightarrow>
                              (let username = trim (take i decoded); password = drop (i + 1) decoded
                               in if username = [] \<or> password = [] then None else Some (username, password))))))"

text \<open>The value of the header a replication sends; \<open>bytesToBase64\<close> is the codec of a library.\<close>

definition basicAuthValue :: "(string \<Rightarrow> string) \<Rightarrow> string \<Rightarrow> string \<Rightarrow> string + string" where
  "basicAuthValue bytesToBase64 username password =
     (if CHR '':'' \<in> set username then Inl ''replication username must not contain a colon''
      else Inr (bytesToBase64 (username @ '':'' @ password)))"

lemma trim_no_ws: "\<forall>c\<in>set s. \<not> is_ws c \<Longrightarrow> trim s = s"
proof -
  have drop: "dropWhile is_ws t = t" if "\<forall>c\<in>set t. \<not> is_ws c" for t using that by (cases t) auto
  assume "\<forall>c\<in>set s. \<not> is_ws c"
  with drop[of s] drop[of "rev s"] show "trim s = s" by (simp add: trim_def)
qed

lemma index_of_first: "c \<notin> set s \<Longrightarrow> index_of c (s @ c # t) 0 = Some (length s)"
  by (auto simp: index_of_def Let_def takeWhile_append)

lemma btoa_no_ws: "c \<in> set (btoa s) \<Longrightarrow> \<not> is_ws c"
proof (cases "c = CHR ''=''")
  case False
  assume "c \<in> set (btoa s)"
  with False obtain n where "n < 64" "c = b64_char n" by (auto simp: btoa_padded dest: b64_text_chars)
  moreover have "b64_value c = None" if "is_ws c" using that by (auto simp: is_ws_def b64_value_def)
  ultimately show ?thesis by auto
qed (simp add: is_ws_def)

lemma lower_basic: "lower_char CHR ''B'' = CHR ''b''" "lower_char CHR ''a'' = CHR ''a''"
  "lower_char CHR ''s'' = CHR ''s''" "lower_char CHR ''i'' = CHR ''i''" "lower_char CHR ''c'' = CHR ''c''"
  by code_simp+

text \<open>
  A Basic header built for a username without a colon and without blanks at its ends and a
  non-empty password is parsed back to exactly these, colons in the password included.
\<close>

lemma parse_basic_header:
  assumes "CHR '':'' \<notin> set username" "trim username = username" "username \<noteq> []" "password \<noteq> []"
  shows "getBasicCredentials (Some (''Basic '' @ btoa (username @ '':'' @ password))) = Some (username, password)"
  using assms index_of_first[of "CHR '' ''" "''Basic''" "btoa (username @ '':'' @ password)"]
    index_of_first[of "CHR '':''" username password]
  by (simp add: getBasicCredentials_def trim_no_ws btoa_no_ws lower_basic)

end
