(* ===== verification/Api_Input.thy ===== *)
theory Api_Input
  imports Base64 Repository Replication_Db
begin

section \<open>Untrusted input of the dashboard API\<close>

text \<open>
  What a parsed JSON body can hold, and the pure functions that interpret it: the naming rules of
  \<open>packages/shared/src/constants\<close> (\<open>naming.ts\<close>, \<open>reservedNames.ts\<close>), \<open>VolumeCreatePolicy.ts\<close>,
  \<open>replicationInput.ts\<close> and the credential of a target (\<open>replicationCredential.ts\<close>) of
  \<open>packages/backend-services/src/dav\<close>, with the reader of that credential (\<open>authHeader\<close> of
  \<open>buildRemote.ts\<close>). An absent field is \<open>None\<close>. A number of a JSON text is a rational.
\<close>

datatype json = Json_null | Json_bool bool | Json_num rat | Json_str string | Json_other

text \<open>The errors of the package \<open>@rexezuge/errors\<close>; \<open>Database\<close> is a statement that failed.\<close>

datatype api_error = Bad_request string | Not_found string | Forbidden string | Internal string | Database string

subsection \<open>Services as state passing\<close>

type_synonym 'a svc = "database \<Rightarrow> database \<times> (api_error + 'a)"

definition svc_value :: "'a \<Rightarrow> 'a svc" where "svc_value a = (\<lambda>db. (db, Inr a))"
definition svc_fail :: "api_error \<Rightarrow> 'a svc" where "svc_fail e = (\<lambda>db. (db, Inl e))"

definition svc_bind :: "'a svc \<Rightarrow> ('a \<Rightarrow> 'b svc) \<Rightarrow> 'b svc" where
  "svc_bind m f = (\<lambda>db. case m db of (db', Inl e) \<Rightarrow> (db', Inl e) | (db', Inr a) \<Rightarrow> f a db')"

definition svc_pure :: "api_error + 'a \<Rightarrow> 'a svc" where "svc_pure r = (\<lambda>db. (db, r))"

definition svc_read :: "(database \<Rightarrow> string + 'a) \<Rightarrow> 'a svc" where
  "svc_read q = (\<lambda>db. (db, map_sum Database id (q db)))"

definition svc_run :: "(database \<Rightarrow> database \<times> string option) \<Rightarrow> unit svc" where
  "svc_run q = (\<lambda>db. case q db of (db', None) \<Rightarrow> (db', Inr ()) | (db', Some e) \<Rightarrow> (db', Inl (Database e)))"

definition svc_require :: "bool \<Rightarrow> api_error \<Rightarrow> unit svc" where
  "svc_require b e = (if b then svc_value () else svc_fail e)"

definition sum_bind :: "'e + 'a \<Rightarrow> ('a \<Rightarrow> 'e + 'b) \<Rightarrow> 'e + 'b" where
  "sum_bind r f = (case r of Inl e \<Rightarrow> Inl e | Inr a \<Rightarrow> f a)"

lemma sum_bind_Inr [simp]: "sum_bind r f = Inr b \<longleftrightarrow> (\<exists>a. r = Inr a \<and> f a = Inr b)"
  by (cases r) (simp_all add: sum_bind_def)

subsection \<open>Names\<close>

definition is_alnum_ascii :: "char \<Rightarrow> bool" where
  "is_alnum_ascii c \<longleftrightarrow> is_digit c \<or> (CHR ''a'' \<le> lower_char c \<and> lower_char c \<le> CHR ''z'')"

definition username_max_length :: nat where "username_max_length = 39"
definition volume_name_max_length :: nat where "volume_name_max_length = 100"

definition isValidUsername :: "string \<Rightarrow> bool" where
  "isValidUsername s \<longleftrightarrow>
     length s \<le> username_max_length
     \<and> (case s of [] \<Rightarrow> False
        | [c] \<Rightarrow> is_alnum_ascii c
        | c # t \<Rightarrow> is_alnum_ascii c \<and> is_alnum_ascii (last t) \<and> length t \<le> 38
            \<and> list_all (\<lambda>x. is_alnum_ascii x \<or> x = CHR ''-'') (butlast t))"

definition isValidVolumeName :: "string \<Rightarrow> bool" where
  "isValidVolumeName s \<longleftrightarrow>
     length s \<le> volume_name_max_length
     \<and> (case s of [] \<Rightarrow> False
        | c # t \<Rightarrow> is_alnum_ascii c
            \<and> list_all (\<lambda>x. is_alnum_ascii x \<or> x \<in> {CHR ''_'', CHR ''.'', CHR ''-''}) t)"

definition reserved_namespace_names :: "string list" where
  "reserved_namespace_names =
    [''health'', ''docs'', ''repos'', ''users'', ''user'', ''api'', ''settings'', ''new'', ''search'',
     ''notifications'', ''login'', ''logout'', ''signin'', ''signup'', ''sso'', ''oauth'', ''admin'', ''root'',
     ''system'', ''support'', ''help'', ''about'', ''status'', ''security'', ''contact'', ''orgs'',
     ''organizations'', ''explore'', ''trending'', ''stars'', ''topics'', ''collections'', ''features'',
     ''pricing'', ''marketplace'', ''gist'', ''gists'', ''git'', ''ssh'', ''assets'', ''static'', ''public'',
     ''realtime'', ''dashboard'', ''home'', ''profile'', ''profiles'', ''account'', ''accounts'', ''billing'',
     ''invitations'', ''enterprise'']"

definition isReservedNamespaceName :: "string \<Rightarrow> bool" where
  "isReservedNamespaceName name \<longleftrightarrow> to_lower (trim name) \<in> set reserved_namespace_names"

subsection \<open>\<open>VolumeCreatePolicy.ts\<close>\<close>

definition max_volume_description_length :: nat where "max_volume_description_length = 500"

record volume_patch_input =
  vi_description :: "json option"
  vi_isPrivate :: "json option"
  vi_hrefPrefixMode :: "json option"

record volume_patch =
  vp_description :: "string option"
  vp_isPrivate :: "bool option"
  vp_hrefPrefixMode :: "string option"

definition parseVolumePatch :: "volume_patch_input \<Rightarrow> api_error + volume_patch" where
  "parseVolumePatch i =
     (case (case vi_description i of
              None \<Rightarrow> Inr None | Some Json_null \<Rightarrow> Inr None
            | Some (Json_str s) \<Rightarrow>
                if length s > max_volume_description_length
                then Inl (Bad_request ''Description must be 500 characters or fewer'') else Inr (Some s)
            | Some _ \<Rightarrow> Inl (Bad_request ''Description must be a string or null'')) of
        Inl e \<Rightarrow> Inl e
      | Inr description \<Rightarrow>
          (case (case vi_isPrivate i of
                   None \<Rightarrow> Inr None | Some (Json_bool b) \<Rightarrow> Inr (Some b)
                 | Some _ \<Rightarrow> Inl (Bad_request ''isPrivate must be a boolean'')) of
             Inl e \<Rightarrow> Inl e
           | Inr isPrivate \<Rightarrow>
               (case (case vi_hrefPrefixMode i of
                        None \<Rightarrow> Inr None
                      | Some (Json_str m) \<Rightarrow>
                          if toDavHrefPrefixMode m = None then Inl (Bad_request ''hrefPrefixMode must be one of: base, root'')
                          else Inr (Some m)
                      | Some _ \<Rightarrow> Inl (Bad_request ''hrefPrefixMode must be one of: base, root'')) of
                  Inl e \<Rightarrow> Inl e
                | Inr mode \<Rightarrow> Inr \<lparr>vp_description = description, vp_isPrivate = isPrivate, vp_hrefPrefixMode = mode\<rparr>)))"

definition checkVolumeQuota :: "int \<Rightarrow> int \<Rightarrow> api_error + unit" where
  "checkVolumeQuota ownedCount maximum =
     (if ownedCount \<ge> maximum then Inl (Bad_request (''Maximum '' @ show_int maximum @ '' volumes per user'')) else Inr ())"

subsection \<open>\<open>replicationInput.ts\<close>\<close>

definition replication_intervals :: "int list" where "replication_intervals = [15, 60, 360, 720, 1440, 10080]"
definition replication_modes :: "string list" where
  "replication_modes = [''copy-only'', ''sync'', ''keep-both'', ''pull-only'']"
definition mirror_deletion_mode :: string where "mirror_deletion_mode = ''pull-only''"
definition replication_auth_kinds :: "string list" where "replication_auth_kinds = [''none'', ''basic'', ''bearer'']"
definition replication_target_kinds :: "string list" where "replication_target_kinds = [''dav'', ''dav-volume'']"

definition max_remote_path_length :: nat where "max_remote_path_length = 512"
definition max_remote_url_length :: nat where "max_remote_url_length = 2048"
definition max_secret_length :: nat where "max_secret_length = 1024"
definition max_name_length :: nat where "max_name_length = 256"

definition absent :: "json option \<Rightarrow> bool" where "absent v \<longleftrightarrow> v = None \<or> v = Some Json_null"

definition optionalBoolean :: "json option \<Rightarrow> string \<Rightarrow> bool \<Rightarrow> api_error + bool" where
  "optionalBoolean v field fallback =
     (if absent v then Inr fallback
      else (case v of Some (Json_bool b) \<Rightarrow> Inr b | _ \<Rightarrow> Inl (Bad_request (field @ '' must be a boolean''))))"

definition readMirrorDeletions :: "json option \<Rightarrow> string \<Rightarrow> api_error + bool" where
  "readMirrorDeletions v mode =
     sum_bind (optionalBoolean v ''mirrorDeletions'' False) (\<lambda>flag.
       if flag \<and> mode \<noteq> mirror_deletion_mode
       then Inl (Bad_request (''mirrorDeletions may only be enabled when mode is '' @ mirror_deletion_mode)) else Inr flag)"

definition oneOf :: "json option \<Rightarrow> string list \<Rightarrow> string \<Rightarrow> string option \<Rightarrow> api_error + string" where
  "oneOf v allowed field fallback =
     (if absent v then (case fallback of Some f \<Rightarrow> Inr f | None \<Rightarrow> Inl (Bad_request (field @ '' is required'')))
      else (case v of
              Some (Json_str s) \<Rightarrow>
                if s \<in> set allowed then Inr s else Inl (Bad_request (field @ '' must be one of: '' @ join '', '' allowed))
            | _ \<Rightarrow> Inl (Bad_request (field @ '' must be one of: '' @ join '', '' allowed))))"

definition optionalString :: "json option \<Rightarrow> string \<Rightarrow> nat \<Rightarrow> api_error + string" where
  "optionalString v field maxLength =
     (if absent v then Inr []
      else (case v of
              Some (Json_str s) \<Rightarrow>
                if length (trim s) > maxLength
                then Inl (Bad_request (field @ '' must be at most '' @ show_nat maxLength @ '' characters'')) else Inr (trim s)
            | _ \<Rightarrow> Inl (Bad_request (field @ '' must be a string''))))"

definition sealableSecret :: "string \<Rightarrow> string \<Rightarrow> string \<Rightarrow> api_error + string" where
  "sealableSecret authKind username secret =
     (if authKind \<noteq> ''basic'' then Inr secret
      else if CHR '':'' \<in> set username then Inl (Bad_request (''username must not contain '' @ [CHR 0x22] @ '':'' @ [CHR 0x22]))
      else Inr (username @ '':'' @ secret))"

definition optionalSecret :: "json option \<Rightarrow> string \<Rightarrow> api_error + string" where
  "optionalSecret v field =
     (if absent v then Inr []
      else (case v of
              Some (Json_str s) \<Rightarrow>
                if length s > max_secret_length
                then Inl (Bad_request (field @ '' must be at most '' @ show_nat max_secret_length @ '' characters'')) else Inr s
            | _ \<Rightarrow> Inl (Bad_request (field @ '' must be a string''))))"

definition normalizeInterval :: "json option \<Rightarrow> api_error + int" where
  "normalizeInterval v =
     (if absent v then Inr 60
      else (case v of
              Some (Json_num n) \<Rightarrow>
                if n \<in> rat_of_int ` set replication_intervals then Inr \<lfloor>n\<rfloor>
                else Inl (Bad_request ''intervalMinutes must be one of: 15, 60, 360, 720, 1440, 10080'')
            | _ \<Rightarrow> Inl (Bad_request ''intervalMinutes must be one of: 15, 60, 360, 720, 1440, 10080'')))"

definition normalizeRemotePath :: "json option \<Rightarrow> api_error + string" where
  "normalizeRemotePath v =
     sum_bind (optionalString v ''remotePath'' max_remote_path_length) (\<lambda>raw.
       if raw = [] then Inr []
       else if starts_with ''/'' raw then Inl (Bad_request (''remotePath must not start with '' @ [CHR 0x22] @ ''/'' @ [CHR 0x22]))
       else (let segments = filter (\<lambda>s. s \<noteq> [] \<and> s \<noteq> ''.'') (split_path raw)
             in if ''..'' \<in> set segments then Inl (Bad_request (''remotePath must not contain '' @ [CHR 0x22] @ ''..'' @ [CHR 0x22] @ '' segments''))
                else Inr (join_path segments)))"

text \<open>\<open>normalizeRemoteUrl\<close> is the egress policy of a library; \<open>Inl\<close> is its refusal.\<close>

definition requireRemoteUrl :: "(string \<Rightarrow> string + string) \<Rightarrow> json option \<Rightarrow> api_error + string" where
  "requireRemoteUrl normalizeRemoteUrl v =
     sum_bind (optionalString v ''remoteUrl'' max_remote_url_length) (\<lambda>raw.
       if raw = [] then Inl (Bad_request ''remoteUrl is required when targetKind is dav'')
       else map_sum Bad_request id (normalizeRemoteUrl raw))"

subsection \<open>The credential of a target\<close>

definition credentialPlaintext :: "string \<Rightarrow> json option \<Rightarrow> json option \<Rightarrow> api_error + string" where
  "credentialPlaintext authKind username secret =
     sum_bind (optionalString username ''username'' max_name_length) (\<lambda>name.
       sum_bind (if authKind = ''none'' then Inr [] else optionalSecret secret ''secret'') (\<lambda>v.
         if authKind \<noteq> ''none'' \<and> v = [] then Inl (Bad_request (''secret is required when authKind is '' @ authKind))
         else if authKind = ''basic'' \<and> name = [] then Inl (Bad_request ''username is required when authKind is basic'')
         else sealableSecret authKind name v))"

datatype auth_header = Auth_none | Auth_basic string | Auth_bearer string

text \<open>\<open>authHeader\<close> of \<open>buildRemote.ts\<close>: the first colon separates the username.\<close>

definition authHeader :: "(string \<Rightarrow> string) \<Rightarrow> string \<Rightarrow> string \<Rightarrow> string + auth_header" where
  "authHeader bytesToBase64 authKind secret =
     (if authKind = ''basic''
      then (case index_of CHR '':'' secret 0 of
              None \<Rightarrow> Inl ''stored replication credential is in an unreadable format; re-enter the username and password for this target''
            | Some i \<Rightarrow> map_sum id Auth_basic (basicAuthValue bytesToBase64 (take i secret) (drop (i + 1) secret)))
      else if authKind = ''bearer'' then Inr (Auth_bearer secret) else Inr Auth_none)"

lemma trim_last: "trim s = [] \<or> \<not> is_ws (hd (trim s)) \<and> \<not> is_ws (last (trim s))"
proof (cases "trim s = []")
  case False
  let ?l = "dropWhile is_ws s" and ?t = "dropWhile is_ws (rev (dropWhile is_ws s))"
  have t: "trim s = rev ?t" "?t \<noteq> []" using False by (simp_all add: trim_def)
  have "\<not> is_ws (hd ?t)" using hd_dropWhile[OF t(2)] .
  moreover obtain u where u: "?l = rev ?t @ u"
    by (metis rev_append rev_rev_ident takeWhile_dropWhile_id)
  have "hd (rev ?t @ u) = hd (rev ?t)" "rev ?t @ u \<noteq> []" using t(2) by simp_all
  with u have "?l \<noteq> []" "hd (rev ?t) = hd ?l" by metis+
  ultimately show ?thesis
    using hd_dropWhile[of is_ws s] t(2) by (simp add: t(1) last_rev)
qed simp

lemma trim_trim [simp]: "trim (trim s) = trim s"
proof -
  have fixed: "dropWhile is_ws t = t" if "t = [] \<or> \<not> is_ws (hd t)" for t
    using that by (cases t) auto
  have "trim t = t" if "t = [] \<or> \<not> is_ws (hd t) \<and> \<not> is_ws (last t)" for t
  proof -
    have "dropWhile is_ws (rev t) = rev t" using that by (intro fixed) (auto simp: hd_rev)
    then show ?thesis using fixed[of t] that by (auto simp: trim_def)
  qed
  then show ?thesis using trim_last by blast
qed

text \<open>
  The credential of a target survives storage: when the service accepts a username and a
  password for a basic target, the text it seals is split back by the runner into the trimmed
  username and exactly that password, so that the header the runner sends is read by another
  deployment as those two. The codec of the library is taken to be base64.
\<close>

theorem target_credential_survives:
  assumes "credentialPlaintext ''basic'' (Some (Json_str username)) (Some (Json_str password)) = Inr plaintext"
    and "\<forall>s. bytesToBase64 s = btoa s"
  shows "\<exists>v. authHeader bytesToBase64 ''basic'' plaintext = Inr (Auth_basic v)
    \<and> getBasicCredentials (Some (''Basic '' @ v)) = Some (trim username, password)"
proof -
  from assms(1) have plaintext: "plaintext = trim username @ '':'' @ password"
    and parts: "trim username \<noteq> []" "password \<noteq> []" "CHR '':'' \<notin> set (trim username)"
    by (auto simp: credentialPlaintext_def optionalString_def optionalSecret_def absent_def sealableSecret_def split: if_splits)
  have "authHeader bytesToBase64 ''basic'' plaintext = Inr (Auth_basic (btoa plaintext))"
    using parts assms(2) index_of_first[of "CHR '':''" "trim username" password]
    by (simp add: plaintext authHeader_def basicAuthValue_def)
  with parse_basic_header[of "trim username" password] parts show ?thesis by (simp add: plaintext)
qed

theorem target_credential_survives_witness:
  "\<exists>v. authHeader btoa ''basic'' ''me:p:w'' = Inr (Auth_basic v)
    \<and> getBasicCredentials (Some (''Basic '' @ v)) = Some (trim '' me '', ''p:w'')"
  by (rule target_credential_survives) (code_simp, simp)

end
