(* ===== verification/Credential_Hash.thy ===== *)
theory Credential_Hash
  imports Base64 "HOL-Library.Word"
begin

unbundle bit_operations_syntax

section \<open>Passwords, usernames and shards\<close>

text \<open>
  \<open>packages/shared/src/utils/DavCredentialUtil.ts\<close> and \<open>CredentialShardUtil.ts\<close>. The derivation
  of the platform (\<open>crypto.subtle\<close>) and the SHA-256 of the library are the record \<open>hash_lib\<close>;
  random bytes are arguments.
\<close>

text \<open>\<open>hl_pbkdf2\<close> maps a password, a salt and an iteration count to the derived bytes, or throws.\<close>

record hash_lib =
  hl_pbkdf2 :: "string \<Rightarrow> string \<Rightarrow> int \<Rightarrow> string + string"
  hl_sha256Hex :: "string \<Rightarrow> string"

definition pbkdf2_iterations :: int where "pbkdf2_iterations = 100000"
definition pbkdf2_prefix :: string where "pbkdf2_prefix = ''pbkdf2-sha256''"
definition pbkdf2_max_iterations :: int where "pbkdf2_max_iterations = pbkdf2_iterations * 4"

text \<open>The exclusive-or of every pair, accumulated.\<close>

fun byte_diff :: "nat \<Rightarrow> string \<Rightarrow> string \<Rightarrow> nat" where
  "byte_diff diff (a # as) (b # bs) = byte_diff (diff OR (of_char a XOR of_char b)) as bs"
| "byte_diff diff _ _ = diff"

definition timingSafeEqual :: "string \<Rightarrow> string \<Rightarrow> bool" where
  "timingSafeEqual a b \<longleftrightarrow> (if length a \<noteq> length b then False else byte_diff 0 a b = 0)"

definition verifyPbkdf2 :: "hash_lib \<Rightarrow> string \<Rightarrow> string \<Rightarrow> string + bool" where
  "verifyPbkdf2 lib password stored =
     (case split_on CHR ''$'' stored of
        [_, iterationText, saltText, hashText] \<Rightarrow>
          (case js_number iterationText of
             None \<Rightarrow> Inr False
           | Some iterations \<Rightarrow>
               if iterations \<noteq> of_int \<lfloor>iterations\<rfloor> \<or> \<bar>iterations\<bar> > of_nat max_safe_integer
                  \<or> iterations \<le> 0 \<or> iterations > of_int pbkdf2_max_iterations then Inr False
               else (case (fromBase64Url saltText, fromBase64Url hashText) of
                       (Some salt, Some expected) \<Rightarrow>
                         if salt = [] \<or> expected = [] then Inr False
                         else map_sum id (\<lambda>derived. timingSafeEqual derived expected)
                                (hl_pbkdf2 lib password salt \<lfloor>iterations\<rfloor>)
                     | _ \<Rightarrow> Inr False))
      | _ \<Rightarrow> Inr False)"

definition is_hex :: "char \<Rightarrow> bool" where
  "is_hex c \<longleftrightarrow> is_digit c \<or> lower_char c \<in> set ''abcdef''"

definition verifyPassword :: "hash_lib \<Rightarrow> string \<Rightarrow> string \<Rightarrow> string + bool \<times> bool" where
  "verifyPassword lib password stored =
     (if starts_with pbkdf2_prefix stored then map_sum id (\<lambda>ok. (ok, False)) (verifyPbkdf2 lib password stored)
      else if length stored = 64 \<and> list_all is_hex stored
      then (let matches = (hl_sha256Hex lib password = to_lower stored) in Inr (matches, matches))
      else Inl ''verifyPassword: unrecognized stored hash format'')"

text \<open>\<open>salt\<close> is the sixteen random bytes.\<close>

definition hashPassword :: "hash_lib \<Rightarrow> string \<Rightarrow> string \<Rightarrow> string + string" where
  "hashPassword lib salt password =
     map_sum id (\<lambda>derived. join ''$'' [pbkdf2_prefix, show_int pbkdf2_iterations, base64Url salt, base64Url derived])
       (hl_pbkdf2 lib password salt pbkdf2_iterations)"

definition generatePassword :: "string \<Rightarrow> string" where
  "generatePassword randomBase64Url = ''ddav_'' @ randomBase64Url"

definition getPrefix :: "string \<Rightarrow> string" where "getPrefix password = take 10 password"
definition getLastFour :: "string \<Rightarrow> string" where "getLastFour password = drop (length password - 4) password"

subsection \<open>Usernames\<close>

text \<open>The loop of \<open>slugifyVolume\<close>: the text so far and whether it ends in a dash.\<close>

fun slug_scan :: "string \<Rightarrow> bool \<Rightarrow> string \<Rightarrow> string" where
  "slug_scan out lastDash [] = out"
| "slug_scan out lastDash (ch # rest) =
     (if is_digit ch \<or> (CHR ''a'' \<le> ch \<and> ch \<le> CHR ''z'') then slug_scan (out @ [ch]) False rest
      else if \<not> lastDash \<and> out \<noteq> [] then slug_scan (out @ ''-'') True rest
      else slug_scan out lastDash rest)"

definition trim_dashes :: "string \<Rightarrow> string" where
  "trim_dashes s = rev (dropWhile (\<lambda>c. c = CHR ''-'') (rev s))"

definition slugifyVolume :: "string \<Rightarrow> string" where
  "slugifyVolume volumeName =
     (let out = trim_dashes (slug_scan [] False (to_lower volumeName))
      in if out = [] then ''volume''
         else (let truncated = trim_dashes (take 16 out) in if truncated = [] then ''volume'' else truncated))"

text \<open>Rejection sampling over the 32-bit words drawn; \<open>None\<close> while every draw was rejected.\<close>

definition randomInteger :: "32 word list \<Rightarrow> nat \<Rightarrow> nat option" where
  "randomInteger draws maxExclusive =
     (let limit = 0xffffffff div maxExclusive * maxExclusive
      in map_option (\<lambda>v. unat v mod maxExclusive) (find (\<lambda>v. unat v < limit) draws))"

definition credential_adjectives :: "string list" where
  "credential_adjectives =
     [''swift'', ''bright'', ''calm'', ''clever'', ''crisp'', ''daring'', ''eager'', ''frosty'', ''gentle'',
      ''glacial'', ''golden'', ''granite'', ''harbor'', ''iron'', ''jade'', ''keen'', ''lunar'', ''maple'', ''marble'',
      ''misty'', ''nimble'', ''noble'', ''onyx'', ''pebble'', ''pine'', ''quartz'', ''quiet'', ''rapid'', ''rocky'',
      ''sandy'', ''shady'', ''silky'', ''solar'', ''spruce'', ''stony'', ''sunny'', ''tidal'', ''timber'', ''velvet'',
      ''willow'']"

definition credential_animals :: "string list" where
  "credential_animals =
     [''alpaca'', ''badger'', ''beaver'', ''bobcat'', ''buffalo'', ''camel'', ''cheetah'', ''cougar'', ''coyote'',
      ''dolphin'', ''eagle'', ''falcon'', ''ferret'', ''fox'', ''gazelle'', ''giraffe'', ''gorilla'', ''hamster'',
      ''heron'', ''jaguar'', ''koala'', ''lemur'', ''leopard'', ''llama'', ''lynx'', ''meerkat'', ''moose'', ''otter'',
      ''panda'', ''panther'', ''penguin'', ''puma'', ''rabbit'', ''raccoon'', ''raven'', ''seal'', ''tiger'',
      ''walrus'', ''weasel'', ''zebra'']"

definition pad_start :: "nat \<Rightarrow> char \<Rightarrow> string \<Rightarrow> string" where
  "pad_start n c s = replicate (n - length s) c @ s"

definition generateUsername :: "32 word list \<Rightarrow> 32 word list \<Rightarrow> 32 word list \<Rightarrow> string \<Rightarrow> string option" where
  "generateUsername adjectiveDraws animalDraws digitDraws volumeName =
     (case (randomInteger adjectiveDraws (length credential_adjectives),
            randomInteger animalDraws (length credential_animals), randomInteger digitDraws 10000) of
        (Some i, Some j, Some n) \<Rightarrow>
          Some (join ''-'' [slugifyVolume volumeName, credential_adjectives ! i, credential_animals ! j,
                  pad_start 4 CHR ''0'' (show_nat n)])
      | _ \<Rightarrow> None)"

subsection \<open>Shards (\<open>CredentialShardUtil.ts\<close>)\<close>

definition credential_shard_count :: nat where "credential_shard_count = 32"

text \<open>FNV-1a on 32-bit words: \<open>Math.imul\<close> wraps.\<close>

definition credentialShardOf :: "string \<Rightarrow> nat" where
  "credentialShardOf username =
     unat (foldl (\<lambda>hash c. (hash XOR of_nat (of_char c)) * 0x01000193) (0x811c9dc5 :: 32 word) username)
       mod credential_shard_count"

lemma credentialShardOf_bound: "credentialShardOf username < credential_shard_count"
  by (simp add: credentialShardOf_def credential_shard_count_def)

subsection \<open>The comparison is equality, and a hash verifies its password\<close>

lemma xor_nat_0: "(m :: nat) XOR n = 0 \<longleftrightarrow> m = n"
proof
  assume *: "m XOR n = 0"
  have "bit m k = bit n k" for k
    using bit_xor_iff[of m n k] by (simp add: *)
  then show "m = n" by (simp add: bit_eq_iff)
qed simp

lemma byte_diff_0: "length a = length b \<Longrightarrow> byte_diff d a b = 0 \<longleftrightarrow> d = 0 \<and> a = b"
proof (induction d a b rule: byte_diff.induct)
  case (1 d x xs y ys)
  have "((of_char x :: nat) XOR of_char y = 0) = (x = y)"
    by (simp add: xor_nat_0 of_char_eq_iff)
  with 1 show ?case by (simp add: or_eq_0_iff)
qed auto

lemma timingSafeEqual_iff [simp]: "timingSafeEqual a b \<longleftrightarrow> a = b"
  by (auto simp: timingSafeEqual_def byte_diff_0)

lemma digits_not_ws: "is_digit c \<Longrightarrow> \<not> is_ws c"
  by (auto simp: is_ws_def is_digit_def)

text \<open>The number written in decimal digits is read back.\<close>

lemma js_number_show_nat:
  assumes "rat_of_nat n < 2 ^ 1024 - 2 ^ 970"
  shows "js_number (show_nat n) = Some (rat_of_nat n)"
proof -
  let ?s = "show_nat n"
  have digits: "\<forall>c\<in>set ?s. is_digit c" using show_nat_digits by blast
  then have whole: "takeWhile is_digit ?s = ?s" "dropWhile is_digit ?s = []" by simp_all
  have lead: "to_lower (take 2 ?s) \<noteq> [CHR ''0'', x]" if "x \<in> set ''xob''" for x
  proof
    assume *: "to_lower (take 2 ?s) = [CHR ''0'', x]"
    then obtain a b where "take 2 ?s = [a, b]" "lower_char b = x" by (auto simp: to_lower_def map_eq_Cons_conv)
    moreover from this have "is_digit b" using digits by (metis in_set_takeD list.set_intros)
    then have "lower_char b = b" by (auto simp: is_digit_def lower_char_def Let_def)
    ultimately show False using that \<open>is_digit b\<close> by (auto simp: is_digit_def)
  qed
  have "Http.signed ?s = (1, ?s)"
    using digits by (cases ?s) (auto simp: Http.signed_def is_digit_def)
  then show ?thesis
    using assms digits digits_not_ws lead by (simp add: js_number_def Let_def trim_no_ws js_decimal_def whole ten_to_def)
qed

lemma iterations_text: "js_number (show_int pbkdf2_iterations) = Some (of_int pbkdf2_iterations)"
  using js_number_show_nat[of 100000] by (simp add: pbkdf2_iterations_def show_int_def)

lemma hash_parts:
  "split_on CHR ''$'' (join ''$'' [pbkdf2_prefix, show_int pbkdf2_iterations, base64Url salt, base64Url derived]) =
   [pbkdf2_prefix, show_int pbkdf2_iterations, base64Url salt, base64Url derived]"
proof -
  have "\<not> is_digit CHR ''$''" by (simp add: is_digit_def)
  then have "CHR ''$'' \<notin> set (show_int pbkdf2_iterations)"
    using show_nat_digits by (auto simp: pbkdf2_iterations_def show_int_def)
  then show ?thesis by (intro split_join) (auto simp: pbkdf2_prefix_def)
qed

lemma hashPassword_prefix: "hashPassword lib salt password = Inr h \<Longrightarrow> starts_with pbkdf2_prefix h"
  by (cases "hl_pbkdf2 lib password salt pbkdf2_iterations") (auto simp: hashPassword_def starts_with_iff)

lemma hash_verifies:
  assumes "hashPassword lib salt password = Inr stored" "salt \<noteq> []"
    and "hl_pbkdf2 lib password salt pbkdf2_iterations = Inr derived" "derived \<noteq> []"
    and "hl_pbkdf2 lib attempt salt pbkdf2_iterations = Inr other"
  shows "verifyPassword lib attempt stored = Inr (other = derived, False)"
proof -
  have stored: "stored = join ''$'' [pbkdf2_prefix, show_int pbkdf2_iterations, base64Url salt, base64Url derived]"
    using assms(1,3) by (simp add: hashPassword_def)
  have "0 < pbkdf2_iterations" "pbkdf2_iterations \<le> pbkdf2_max_iterations"
    "\<not> rat_of_nat max_safe_integer < rat_of_int pbkdf2_iterations"
    by (simp_all add: pbkdf2_iterations_def pbkdf2_max_iterations_def max_safe_integer_def)
  with assms(2,4,5) have "verifyPbkdf2 lib attempt stored = Inr (other = derived)"
    unfolding verifyPbkdf2_def stored hash_parts by (simp add: iterations_text)
  then show ?thesis using hashPassword_prefix[OF assms(1)] by (simp add: verifyPassword_def)
qed

text \<open>
  C40. A stored hash verifies its password and no need of an upgrade: when a password has been
  hashed with a salt that is not empty and the derivation yields some bytes, then verifying a
  password against the stored text succeeds exactly when it derives the same bytes with that salt,
  the original password in particular, and never asks for a rehash.
\<close>

theorem hash_verifies_its_password:
  assumes "hashPassword lib salt password = Inr stored" "salt \<noteq> []"
    and "hl_pbkdf2 lib password salt pbkdf2_iterations = Inr derived" "derived \<noteq> []"
    and "hl_pbkdf2 lib attempt salt pbkdf2_iterations = Inr other"
  shows "verifyPassword lib attempt stored = Inr (other = derived, False)"
  using assms by (rule hash_verifies)

definition toy_hash :: hash_lib where
  "toy_hash = \<lparr>hl_pbkdf2 = (\<lambda>password salt n. Inr (password @ salt)), hl_sha256Hex = (\<lambda>password. replicate 64 CHR ''a'')\<rparr>"

theorem hash_verifies_its_password_witness:
  "verifyPassword toy_hash ''guess'' (join ''$'' [pbkdf2_prefix, show_int pbkdf2_iterations, base64Url ''s'', base64Url ''ddav_xs'']) =
     Inr (''guesss'' = ''ddav_xs'', False)"
  by (rule hash_verifies_its_password[of _ "''s''" "''ddav_x''"]) (simp_all add: toy_hash_def hashPassword_def)

subsection \<open>Generated usernames are names Basic credentials can carry\<close>

lemma slug_scan_chars:
  "\<lbrakk>c \<in> set (slug_scan out d s); \<forall>c\<in>set out. is_digit c \<or> (CHR ''a'' \<le> c \<and> c \<le> CHR ''z'') \<or> c = CHR ''-''\<rbrakk>
   \<Longrightarrow> is_digit c \<or> (CHR ''a'' \<le> c \<and> c \<le> CHR ''z'') \<or> c = CHR ''-''"
  by (induction out d s rule: slug_scan.induct) (auto split: if_splits)

lemma set_trim_dashes: "set (trim_dashes s) \<subseteq> set s"
  by (auto simp: trim_dashes_def dest: set_dropWhileD)

lemma slug_chars: "c \<in> set (slugifyVolume v) \<Longrightarrow> is_digit c \<or> (CHR ''a'' \<le> c \<and> c \<le> CHR ''z'') \<or> c = CHR ''-''"
  using slug_scan_chars[of c "[]" False "to_lower v"] set_trim_dashes
  by (auto simp: slugifyVolume_def Let_def less_eq_char_def split: if_splits dest!: subsetD[OF set_trim_dashes] in_set_takeD)

lemma slug_shape: "slugifyVolume v \<noteq> [] \<and> length (slugifyVolume v) \<le> 16 \<and> last (slugifyVolume v) \<noteq> CHR ''-''"
proof -
  have "length (trim_dashes s) \<le> length s" for s
    by (metis length_dropWhile_le length_rev trim_dashes_def)
  then have "length (trim_dashes (take 16 s)) \<le> 16" for s
    by (rule order_trans) simp
  moreover have "last (trim_dashes s) \<noteq> CHR ''-''" if "trim_dashes s \<noteq> []" for s
    using that hd_dropWhile[of "\<lambda>c. c = CHR ''-''" "rev s"] by (simp add: trim_dashes_def last_rev)
  ultimately show ?thesis
    by (simp add: slugifyVolume_def Let_def)
qed

lemma randomInteger_bound: "randomInteger draws n = Some k \<Longrightarrow> 0 < n \<Longrightarrow> k < n"
  by (auto simp: randomInteger_def Let_def)

lemma generated_username_plain:
  assumes "generateUsername ds es fs v = Some username" and "c \<in> set username"
  shows "is_digit c \<or> (CHR ''a'' \<le> c \<and> c \<le> CHR ''z'') \<or> c = CHR ''-''"
proof -
  obtain i j n where i: "randomInteger ds (length credential_adjectives) = Some i"
    and j: "randomInteger es (length credential_animals) = Some j"
    and username: "username = join ''-'' [slugifyVolume v, credential_adjectives ! i, credential_animals ! j,
      pad_start 4 CHR ''0'' (show_nat n)]"
    using assms(1) by (auto simp: generateUsername_def split: option.splits)
  have "0 < length credential_adjectives" "0 < length credential_animals"
    by (simp_all add: credential_adjectives_def credential_animals_def)
  then have members: "credential_adjectives ! i \<in> set credential_adjectives" "credential_animals ! j \<in> set credential_animals"
    using randomInteger_bound i j by auto
  have words: "\<forall>w\<in>set credential_adjectives \<union> set credential_animals. \<forall>c\<in>set w. CHR ''a'' \<le> c \<and> c \<le> CHR ''z''"
    by (simp add: credential_adjectives_def credential_animals_def less_eq_char_def)
  consider "c \<in> set (slugifyVolume v)" | "c \<in> set (credential_adjectives ! i)" | "c \<in> set (credential_animals ! j)"
    | "c \<in> set (pad_start 4 CHR ''0'' (show_nat n))" | "c = CHR ''-''"
    using assms(2) by (auto simp: username)
  then show ?thesis
  proof cases
    case 1 then show ?thesis by (rule slug_chars)
  next
    case 4 then show ?thesis
      using show_nat_digits by (auto simp: pad_start_def is_digit_def)
  qed (use words members in blast)+
qed

lemma generated_username_basic:
  assumes "generateUsername ds es fs v = Some username"
  shows "CHR '':'' \<notin> set username" "trim username = username" "username \<noteq> []"
proof -
  have "\<not> is_ws c \<and> c \<noteq> CHR '':''" if "c \<in> set username" for c
    using generated_username_plain[OF assms that] by (auto simp: is_ws_def is_digit_def less_eq_char_def)
  then show "CHR '':'' \<notin> set username" "trim username = username"
    by (auto intro: trim_no_ws)
  show "username \<noteq> []" using assms by (auto simp: generateUsername_def split: option.splits)
qed

end
