(* ===== verification/Verdict_Cache.thy ===== *)
theory Verdict_Cache
  imports Credential_Hash
begin

section \<open>Caches of successful verifications\<close>

text \<open>
  The memo of an isolate (\<open>apps/api/src/middleware/credentialMemo.ts\<close>) and the cache of the
  verifier object (\<open>VerificationCache\<close> of \<open>apps/background/src/dav/CredentialVerifierDO.ts\<close>). A
  \<open>Map\<close> is the list of its entries in insertion order; times are in milliseconds.
  The locale \<open>verdict_cache\<close> states what both promise to the verification that consults them.
\<close>

record cached_verdict =
  vd_passwordHash :: string
  vd_expiresAt :: int

type_synonym cached_verdicts = "(string \<times> cached_verdict) list"

definition verdict_key :: "string \<Rightarrow> string \<Rightarrow> string" where
  "verdict_key username fingerprint = username @ '':'' @ fingerprint"

definition map_delete :: "string \<Rightarrow> cached_verdicts \<Rightarrow> cached_verdicts" where
  "map_delete key entries = filter (\<lambda>e. fst e \<noteq> key) entries"

definition map_has :: "string \<Rightarrow> cached_verdicts \<Rightarrow> bool" where
  "map_has key entries \<longleftrightarrow> key \<in> fst ` set entries"

definition map_set :: "string \<Rightarrow> cached_verdict \<Rightarrow> cached_verdicts \<Rightarrow> cached_verdicts" where
  "map_set key v entries = upsert fst (\<lambda>old new. new) (key, v) entries"

text \<open>Room for one more: the oldest entry goes when the key is new and the map is full.\<close>

definition evict_oldest :: "nat \<Rightarrow> string \<Rightarrow> cached_verdicts \<Rightarrow> cached_verdicts" where
  "evict_oldest maxEntries key entries =
     (if \<not> map_has key entries \<and> length entries \<ge> maxEntries
      then (case entries of [] \<Rightarrow> [] | oldest # _ \<Rightarrow> map_delete (fst oldest) entries) else entries)"

definition delete_prefix :: "string \<Rightarrow> cached_verdicts \<Rightarrow> cached_verdicts" where
  "delete_prefix prefix entries = filter (\<lambda>e. \<not> starts_with prefix (fst e)) entries"

subsection \<open>\<open>credentialMemo.ts\<close>\<close>

definition memo_ttl_ms :: int where "memo_ttl_ms = 60000"
definition memo_max_entries :: nat where "memo_max_entries = 256"

definition memo_look :: "int \<Rightarrow> string \<Rightarrow> string \<Rightarrow> cached_verdicts \<Rightarrow> bool \<times> cached_verdicts" where
  "memo_look now key passwordHash entries =
     (case map_of entries key of
        None \<Rightarrow> (False, entries)
      | Some hit \<Rightarrow>
          if vd_expiresAt hit \<le> now then (False, map_delete key entries)
          else if vd_passwordHash hit \<noteq> passwordHash then (False, map_delete key entries)
          else (True, entries))"

definition memo_remember :: "int \<Rightarrow> string \<Rightarrow> string \<Rightarrow> cached_verdicts \<Rightarrow> cached_verdicts" where
  "memo_remember now key passwordHash entries =
     map_set key \<lparr>vd_passwordHash = passwordHash, vd_expiresAt = now + memo_ttl_ms\<rparr>
       (evict_oldest memo_max_entries key entries)"

definition lookupCredentialMemo :: "int \<Rightarrow> string \<Rightarrow> string \<Rightarrow> string \<Rightarrow> cached_verdicts \<Rightarrow> bool \<times> cached_verdicts" where
  "lookupCredentialMemo now username fingerprint = memo_look now (verdict_key username fingerprint)"

definition rememberCredential :: "int \<Rightarrow> string \<Rightarrow> string \<Rightarrow> string \<Rightarrow> cached_verdicts \<Rightarrow> cached_verdicts" where
  "rememberCredential now username fingerprint = memo_remember now (verdict_key username fingerprint)"

definition forgetCredential :: "string \<Rightarrow> cached_verdicts \<Rightarrow> cached_verdicts" where
  "forgetCredential username = delete_prefix (username @ '':'')"

subsection \<open>\<open>VerificationCache\<close>\<close>

record verification_cache =
  vc_ttlMs :: int
  vc_maxEntries :: nat
  vc_entries :: cached_verdicts

definition max_cache_entries :: nat where "max_cache_entries = 200"
definition default_ttl_seconds :: int where "default_ttl_seconds = 60"

definition cache_get :: "string \<Rightarrow> string \<Rightarrow> int \<Rightarrow> verification_cache \<Rightarrow> bool \<times> verification_cache" where
  "cache_get key passwordHash now cache =
     (case map_of (vc_entries cache) key of
        None \<Rightarrow> (False, cache)
      | Some hit \<Rightarrow>
          if vd_expiresAt hit \<le> now then (False, cache\<lparr>vc_entries := map_delete key (vc_entries cache)\<rparr>)
          else (vd_passwordHash hit = passwordHash, cache))"

definition cache_set :: "string \<Rightarrow> string \<Rightarrow> int \<Rightarrow> verification_cache \<Rightarrow> verification_cache" where
  "cache_set key passwordHash now cache =
     cache\<lparr>vc_entries := map_set key \<lparr>vd_passwordHash = passwordHash, vd_expiresAt = now + vc_ttlMs cache\<rparr>
       (evict_oldest (vc_maxEntries cache) key (vc_entries cache))\<rparr>"

definition cache_deletePrefix :: "string \<Rightarrow> verification_cache \<Rightarrow> verification_cache" where
  "cache_deletePrefix prefix cache = cache\<lparr>vc_entries := delete_prefix prefix (vc_entries cache)\<rparr>"

subsection \<open>The contract\<close>

text \<open>
  \<open>look\<close> and \<open>remember\<close> take the time, a key and a stored hash; \<open>facts\<close> are the pairs of a key
  and a hash the cache vouches for.
\<close>

locale verdict_cache =
  fixes look :: "int \<Rightarrow> string \<Rightarrow> string \<Rightarrow> 'c \<Rightarrow> bool \<times> 'c"
    and remember :: "int \<Rightarrow> string \<Rightarrow> string \<Rightarrow> 'c \<Rightarrow> 'c"
    and facts :: "'c \<Rightarrow> (string \<times> string) set"
    and entries :: "'c \<Rightarrow> nat"
    and capacity :: "'c \<Rightarrow> nat"
  assumes hit: "look now key hash c = (True, c') \<Longrightarrow> (key, hash) \<in> facts c"
    and look_facts: "look now key hash c = (b, c') \<Longrightarrow> facts c' \<subseteq> facts c"
    and look_size: "look now key hash c = (b, c') \<Longrightarrow> entries c' \<le> entries c \<and> capacity c' = capacity c"
    and remember_facts: "facts (remember now key hash c) \<subseteq> insert (key, hash) (facts c)"
    and remember_size: "entries c \<le> capacity c \<Longrightarrow> 0 < capacity c \<Longrightarrow> entries (remember now key hash c) \<le> capacity c"
    and remember_capacity: "capacity (remember now key hash c) = capacity c"
begin

text \<open>Every fact of the cache satisfies \<open>P\<close>, and it is within its bound.\<close>

definition vouched :: "(string \<Rightarrow> string \<Rightarrow> bool) \<Rightarrow> 'c \<Rightarrow> bool" where
  "vouched P c \<longleftrightarrow> (\<forall>(key, hash)\<in>facts c. P key hash) \<and> entries c \<le> capacity c \<and> 0 < capacity c"

lemma vouched_hit: "vouched P c \<Longrightarrow> look now key hash c = (True, c') \<Longrightarrow> P key hash"
  using hit unfolding vouched_def by blast

lemma vouched_look: "vouched P c \<Longrightarrow> look now key hash c = (b, c') \<Longrightarrow> vouched P c'"
  using look_facts look_size unfolding vouched_def by (metis (no_types, lifting) in_mono order_trans)

lemma vouched_remember: "vouched P c \<Longrightarrow> P key hash \<Longrightarrow> vouched P (remember now key hash c)"
  using remember_facts[of now key hash c] remember_size[of c now key hash] remember_capacity[of now key hash c]
  unfolding vouched_def by auto

lemmas vouched_rules = vouched_look vouched_remember

end

definition fact_set :: "cached_verdicts \<Rightarrow> (string \<times> string) set" where
  "fact_set entries = (\<lambda>(key, v). (key, vd_passwordHash v)) ` set entries"

lemma fact_set_Nil [simp]: "fact_set [] = {}"
  by (simp add: fact_set_def)

lemma map_of_fact: "map_of entries key = Some v \<Longrightarrow> (key, vd_passwordHash v) \<in> fact_set entries"
  by (force simp: fact_set_def dest: map_of_SomeD)

lemma fact_set_delete: "fact_set (map_delete key entries) \<subseteq> fact_set entries"
  by (auto simp: fact_set_def map_delete_def)

lemma set_upsert_subset: "set (upsert key (\<lambda>old new. new) x rs) \<subseteq> insert x (set rs)"
  by (induction rs) auto

lemma fact_set_set: "fact_set (map_set key v entries) \<subseteq> insert (key, vd_passwordHash v) (fact_set entries)"
  using set_upsert_subset[of fst "(key, v)" entries] by (auto simp: fact_set_def map_set_def)

lemma fact_set_evict: "fact_set (evict_oldest n key entries) \<subseteq> fact_set entries"
  using fact_set_delete by (auto simp: evict_oldest_def split: list.split)

lemma length_delete: "length (map_delete key entries) \<le> length entries"
  by (simp add: map_delete_def)

lemma length_upsert: "length (upsert key m x rs) = (if key x \<in> key ` set rs then length rs else Suc (length rs))"
  by (induction rs) auto

lemma length_set_evict:
  assumes "length entries \<le> n" "0 < n"
  shows "length (map_set key v (evict_oldest n key entries)) \<le> n"
proof (cases "map_has key entries \<or> length entries < n")
  case True
  with assms show ?thesis by (auto simp: map_set_def evict_oldest_def length_upsert map_has_def not_le)
next
  case False
  with assms obtain oldest rest where "entries = oldest # rest" by (cases entries) auto
  with False assms have "length (evict_oldest n key entries) < n"
    using length_filter_le[of "\<lambda>e. fst e \<noteq> fst oldest" rest] by (auto simp: less_Suc_eq_le evict_oldest_def map_delete_def)
  then show ?thesis by (simp add: map_set_def length_upsert)
qed

interpretation memo: verdict_cache memo_look memo_remember fact_set length "\<lambda>_. memo_max_entries"
proof
  fix now key hash and c c' :: cached_verdicts and b
  show "memo_look now key hash c = (True, c') \<Longrightarrow> (key, hash) \<in> fact_set c"
    by (auto simp: memo_look_def split: option.splits if_splits dest: map_of_fact)
  show "memo_look now key hash c = (b, c') \<Longrightarrow> fact_set c' \<subseteq> fact_set c"
    "memo_look now key hash c = (b, c') \<Longrightarrow> length c' \<le> length c \<and> memo_max_entries = memo_max_entries"
    using fact_set_delete length_delete by (auto simp: memo_look_def split: option.splits if_splits)
  show "fact_set (memo_remember now key hash c) \<subseteq> insert (key, hash) (fact_set c)"
    using fact_set_set fact_set_evict by (fastforce simp: memo_remember_def)
  show "length c \<le> memo_max_entries \<Longrightarrow> 0 < memo_max_entries \<Longrightarrow> length (memo_remember now key hash c) \<le> memo_max_entries"
    by (simp add: memo_remember_def length_set_evict)
qed simp

interpretation store: verdict_cache "\<lambda>now key hash. cache_get key hash now" "\<lambda>now key hash. cache_set key hash now"
  "\<lambda>c. fact_set (vc_entries c)" "\<lambda>c. length (vc_entries c)" vc_maxEntries
proof
  fix now key hash and c c' :: verification_cache and b
  show "cache_get key hash now c = (True, c') \<Longrightarrow> (key, hash) \<in> fact_set (vc_entries c)"
    by (auto simp: cache_get_def split: option.splits if_splits dest: map_of_fact)
  show "cache_get key hash now c = (b, c') \<Longrightarrow> fact_set (vc_entries c') \<subseteq> fact_set (vc_entries c)"
    "cache_get key hash now c = (b, c') \<Longrightarrow> length (vc_entries c') \<le> length (vc_entries c) \<and> vc_maxEntries c' = vc_maxEntries c"
    using length_delete by (auto simp: cache_get_def split: option.splits if_splits dest: subsetD[OF fact_set_delete])
  show "fact_set (vc_entries (cache_set key hash now c)) \<subseteq> insert (key, hash) (fact_set (vc_entries c))"
    using fact_set_set fact_set_evict by (fastforce simp: cache_set_def)
  show "length (vc_entries c) \<le> vc_maxEntries c \<Longrightarrow> 0 < vc_maxEntries c \<Longrightarrow>
      length (vc_entries (cache_set key hash now c)) \<le> vc_maxEntries c"
    by (simp add: cache_set_def length_set_evict)
qed (simp add: cache_set_def)

lemma delete_prefix_less: "fact_set (delete_prefix prefix entries) \<subseteq> fact_set entries"
  "length (delete_prefix prefix entries) \<le> length entries"
  by (auto simp: delete_prefix_def fact_set_def)

lemma vouched_delete_prefix: "memo.vouched P entries \<Longrightarrow> memo.vouched P (delete_prefix prefix entries)"
  unfolding memo.vouched_def using delete_prefix_less by (meson order_trans subsetD)

lemma vouched_deletePrefix: "store.vouched P cache \<Longrightarrow> store.vouched P (cache_deletePrefix prefix cache)"
  unfolding store.vouched_def cache_deletePrefix_def
  using delete_prefix_less[of prefix "vc_entries cache"] by (auto dest: subsetD)

end
