(* ===== verification/Dav_Auth.thy ===== *)
theory Dav_Auth
  imports Verdict_Cache Control_Db
begin

section \<open>Authorization of a WebDAV request\<close>

text \<open>
  The front door's decision: \<open>apps/api/src/middleware/DavAuth.ts\<close>, the tiers of
  \<open>credentialVerifier.ts\<close>, the verifier object of
  \<open>apps/background/src/dav/CredentialVerifierDO.ts\<close>, and the ownership rules of
  \<open>packages/backend-services/src/dav\<close> (\<open>DavPermissionService.ts\<close>, \<open>volumeOwnership.ts\<close>,
  \<open>VolumeService.getVolume\<close>). The fingerprint of a password and the lookup of an account are
  functions of libraries. Whether the hop to the verifier object succeeds is a value of the
  environment, and so are the derivations (username, password, stored hash) in flight at the object
  when the request arrives there: each was started by another request, which is a step of its own.
\<close>

subsection \<open>Ownership\<close>

record viewer =
  vw_userId :: "string option"
  vw_email :: string

definition isVolumeOwner :: "viewer option \<Rightarrow> volume_row \<Rightarrow> bool" where
  "isVolumeOwner viewer volume =
     (case viewer of
        None \<Rightarrow> False
      | Some v \<Rightarrow>
          (case vr_ownerUserId volume of
             Some owner \<Rightarrow> if owner = [] then to_lower (vw_email v) = to_lower (vr_ownerEmail volume)
                           else vw_userId v = Some owner
           | None \<Rightarrow> to_lower (vw_email v) = to_lower (vr_ownerEmail volume)))"

datatype dav_permission = Admin | Read_permission

definition getRole :: "viewer option \<Rightarrow> volume_row \<Rightarrow> dav_permission option" where
  "getRole viewer volume =
     (if isVolumeOwner viewer volume then Some Admin
      else if vr_isPrivate volume = 1 then None else Some Read_permission)"

subsection \<open>The verifier object\<close>

record verify_outcome =
  vo_ok :: bool
  vo_needsRehash :: bool
  vo_upgradedHash :: "string option"

definition rejected :: verify_outcome where
  "rejected = \<lparr>vo_ok = False, vo_needsRehash = False, vo_upgradedHash = None\<rparr>"

definition verified :: verify_outcome where
  "verified = \<lparr>vo_ok = True, vo_needsRehash = False, vo_upgradedHash = None\<rparr>"

text \<open>A hop to the object: not bound, lost before or after the object ran, or answered.\<close>

datatype hop = No_binding | Lost_before | Lost_after | Answered

record auth_env =
  ae_lib :: hash_lib
  ae_fingerprint :: "string \<Rightarrow> string"
  ae_salt :: string
  ae_nowMs :: int
  ae_hop :: hop
  ae_account :: "string \<Rightarrow> string + (string \<times> string) option"
  ae_db :: db_env
  ae_inflight :: "(string \<times> string \<times> string) list"

text \<open>\<open>verifyPassword\<close> and the upgrade of a legacy digest, the same in the object and in the worker.\<close>

definition verifyLocally :: "auth_env \<Rightarrow> string \<Rightarrow> string \<Rightarrow> verify_outcome" where
  "verifyLocally env password passwordHash =
     (case verifyPassword (ae_lib env) password passwordHash of
        Inr (True, needsRehash) \<Rightarrow>
          \<lparr>vo_ok = True, vo_needsRehash = needsRehash,
           vo_upgradedHash = (if needsRehash
             then (case hashPassword (ae_lib env) (ae_salt env) password of Inr h \<Rightarrow> Some h | Inl _ \<Rightarrow> None)
             else None)\<rparr>
      | _ \<Rightarrow> rejected)"

definition derive :: "auth_env \<Rightarrow> string \<Rightarrow> string \<Rightarrow> string \<Rightarrow> verification_cache \<Rightarrow> verify_outcome \<times> verification_cache" where
  "derive env key password passwordHash cache =
     (let outcome = verifyLocally env password passwordHash
      in (outcome, if vo_ok outcome then cache_set key passwordHash (ae_nowMs env) cache else cache))"

text \<open>
  \<open>pending\<close> is what a derivation in flight for the same key settles to: \<open>None\<close> when there is
  none, \<open>Some None\<close> when it throws.
\<close>

definition verify ::
    "auth_env \<Rightarrow> verify_outcome option option \<Rightarrow> string \<Rightarrow> string \<Rightarrow> string \<Rightarrow> verification_cache \<Rightarrow> verify_outcome \<times> verification_cache" where
  "verify env pending username password passwordHash cache =
     (let key = verdict_key username (ae_fingerprint env password)
      in case cache_get key passwordHash (ae_nowMs env) cache of
           (True, cache1) \<Rightarrow> (verified, cache1)
         | (False, cache1) \<Rightarrow>
             (case pending of
                Some (Some settled) \<Rightarrow>
                  if vo_ok settled then (verified, cache1) else derive env key password passwordHash cache1
              | _ \<Rightarrow> derive env key password passwordHash cache1))"

text \<open>
  \<open>inflight.get\<close>: the derivation in flight under a key. It settles to the verdict on its own
  password and stored hash; \<open>derive\<close> catches what it calls, so it does not throw.
\<close>

definition in_flight :: "auth_env \<Rightarrow> string \<Rightarrow> (string \<times> string \<times> string) option" where
  "in_flight env key = find (\<lambda>(u, p, h). verdict_key u (ae_fingerprint env p) = key) (ae_inflight env)"

definition settles :: "auth_env \<Rightarrow> string \<Rightarrow> verify_outcome option option" where
  "settles env key = map_option (\<lambda>(u, p, h). Some (verifyLocally env p h)) (in_flight env key)"

text \<open>\<open>fetch\<close> of the object; \<open>None\<close> is the answer 400.\<close>

definition verifier_fetch ::
    "auth_env \<Rightarrow> string \<Rightarrow> string \<Rightarrow> string \<Rightarrow> verification_cache \<Rightarrow> verify_outcome option \<times> verification_cache" where
  "verifier_fetch env username password passwordHash cache =
     (if username = [] \<or> password = [] \<or> passwordHash = [] then (None, cache)
      else (case verify env (settles env (verdict_key username (ae_fingerprint env password))) username password passwordHash cache of
              (outcome, cache') \<Rightarrow> (Some outcome, cache')))"

subsection \<open>The tiers (\<open>credentialVerifier.ts\<close>)\<close>

record auth_world =
  aw_memo :: cached_verdicts
  aw_shards :: "nat \<Rightarrow> verification_cache"
  aw_db :: database

definition verifyViaDo ::
    "auth_env \<Rightarrow> string \<Rightarrow> string \<Rightarrow> string \<Rightarrow> (nat \<Rightarrow> verification_cache) \<Rightarrow> verify_outcome option \<times> (nat \<Rightarrow> verification_cache)" where
  "verifyViaDo env username password passwordHash shards =
     (if ae_hop env = No_binding \<or> ae_hop env = Lost_before then (None, shards)
      else (let i = credentialShardOf username;
                (outcome, cache) = verifier_fetch env username password passwordHash (shards i)
            in (if ae_hop env = Answered then outcome else None, shards(i := cache))))"

definition verifyCredential :: "auth_env \<Rightarrow> string \<Rightarrow> string \<Rightarrow> string \<Rightarrow> auth_world \<Rightarrow> verify_outcome \<times> auth_world" where
  "verifyCredential env username password passwordHash w =
     (let fingerprint = ae_fingerprint env password
      in case lookupCredentialMemo (ae_nowMs env) username fingerprint passwordHash (aw_memo w) of
           (True, memo) \<Rightarrow> (verified, w\<lparr>aw_memo := memo\<rparr>)
         | (False, memo) \<Rightarrow>
             (let (answer, shards) = verifyViaDo env username password passwordHash (aw_shards w);
                  outcome = (case answer of Some a \<Rightarrow> a | None \<Rightarrow> verifyLocally env password passwordHash)
              in (outcome, w\<lparr>aw_shards := shards,
                    aw_memo := (if vo_ok outcome
                                then rememberCredential (ae_nowMs env) username fingerprint passwordHash memo
                                else memo)\<rparr>)))"

subsection \<open>The decision (\<open>DavAuth.ts\<close>)\<close>

record dav_auth_result =
  da_userEmail :: "string option"
  da_userId :: "string option"
  da_owner :: string
  da_volume :: string
  da_hrefPrefixMode :: href_prefix_mode

datatype auth_answer = Granted dav_auth_result | Refused response

definition unauthorizedDav :: response where
  "unauthorizedDav =
     respond_with 401 [(''WWW-Authenticate'', ''Basic realm='' @ [CHR 0x22] @ ''Durable-DAV'' @ [CHR 0x22])] ''Unauthorized''"

definition readOnlyCredentialDav :: response where
  "readOnlyCredentialDav = davErrorResponse 403 (Some ''cannot-modify-protected-property'') []"

definition ownerIdentity :: "auth_env \<Rightarrow> volume_row \<Rightarrow> string \<times> string option" where
  "ownerIdentity env volume =
     (case vr_ownerUserId volume of
        None \<Rightarrow> (vr_ownerEmail volume, None)
      | Some ownerUserId \<Rightarrow>
          if ownerUserId = [] then (vr_ownerEmail volume, None)
          else (case ae_account env ownerUserId of
                  Inr (Some (email, accountId)) \<Rightarrow> (email, Some accountId)
                | _ \<Rightarrow> (vr_ownerEmail volume, Some ownerUserId)))"

text \<open>What follows a verified password: the upgrade of the hash and the time of use, both best-effort.\<close>

definition note_use :: "auth_env \<Rightarrow> credential_metadata \<Rightarrow> verify_outcome \<Rightarrow> database \<Rightarrow> database" where
  "note_use env credential outcome db =
     (let db1 = (case (vo_needsRehash outcome, vo_upgradedHash outcome) of
                   (True, Some h) \<Rightarrow> if h = [] then db else fst (updatePasswordHash (ae_db env) (cm_id credential) h db)
                 | _ \<Rightarrow> db)
      in fst (updateLastUsed (ae_db env) (cm_id credential) db1))"

definition grant_credential ::
    "auth_env \<Rightarrow> volume_row \<Rightarrow> credential_metadata \<Rightarrow> bool \<Rightarrow> verify_outcome \<Rightarrow> auth_world \<Rightarrow> auth_world \<times> auth_answer" where
  "grant_credential env volume credential needWrite outcome w =
     (if \<not> vo_ok outcome then (w, Refused unauthorizedDav)
      else if cm_volumeId credential \<noteq> vr_id volume then (w, Refused unauthorizedDav)
      else if needWrite \<and> cm_readOnly credential then (w, Refused readOnlyCredentialDav)
      else (w\<lparr>aw_db := note_use env credential outcome (aw_db w)\<rparr>,
            Granted (let (email, userId) = ownerIdentity env volume
                     in \<lparr>da_userEmail = Some email, da_userId = userId, da_owner = vr_owner volume,
                         da_volume = vr_name volume,
                         da_hrefPrefixMode = readDavHrefPrefixMode (Some (vr_hrefPrefixMode volume))\<rparr>)))"

definition anonymous_answer :: "volume_row \<Rightarrow> bool \<Rightarrow> auth_answer" where
  "anonymous_answer volume needWrite =
     (if \<not> needWrite \<and> vr_isPrivate volume \<noteq> 1
      then (if getRole None volume = None then Refused unauthorizedDav
            else Granted \<lparr>da_userEmail = None, da_userId = None, da_owner = vr_owner volume, da_volume = vr_name volume,
                   da_hrefPrefixMode = readDavHrefPrefixMode (Some (vr_hrefPrefixMode volume))\<rparr>)
      else Refused unauthorizedDav)"

text \<open>A failed statement is a \<open>DatabaseError\<close>, which the wrapper answers with 503.\<close>

definition davAuthForVolumeInner ::
    "auth_env \<Rightarrow> string \<Rightarrow> string \<Rightarrow> string option \<Rightarrow> bool \<Rightarrow> auth_world \<Rightarrow> auth_world \<times> (string + auth_answer)" where
  "davAuthForVolumeInner env owner volumeName authHeader needWrite w =
     (case getByOwnerName (ae_db env) owner volumeName (aw_db w) of
        Inl e \<Rightarrow> (w, Inl e)
      | Inr None \<Rightarrow> (w, Inr (Refused (respond 404 ''Not Found'')))
      | Inr (Some volume) \<Rightarrow>
          (case getBasicCredentials authHeader of
             None \<Rightarrow> (w, Inr (anonymous_answer volume needWrite))
           | Some (username, password) \<Rightarrow>
               (case getActiveByUsername (ae_db env) username (aw_db w) of
                  Inl e \<Rightarrow> (w, Inl e)
                | Inr None \<Rightarrow> (w, Inr (Refused unauthorizedDav))
                | Inr (Some (credential, passwordHash)) \<Rightarrow>
                    (let (outcome, w1) = verifyCredential env username password passwordHash w
                     in map_prod id Inr (grant_credential env volume credential needWrite outcome w1)))))"

definition davAuthForVolume ::
    "auth_env \<Rightarrow> string \<Rightarrow> string \<Rightarrow> string option \<Rightarrow> bool \<Rightarrow> auth_world \<Rightarrow> auth_world \<times> auth_answer" where
  "davAuthForVolume env owner volumeName authHeader needWrite w =
     (case davAuthForVolumeInner env owner volumeName authHeader needWrite w of
        (w', Inr answer) \<Rightarrow> (w', answer)
      | (w', Inl _) \<Rightarrow> (w', Refused (respond 503 ''Authentication unavailable'')))"

end
