(* ===== verification/Auth_Safety.thy ===== *)
theory Auth_Safety
  imports Dav_Auth
begin

section \<open>Who is let in\<close>

text \<open>
  The history of the front door as a step relation: requests, any change of the control database,
  fresh isolates and verifier objects, dropped verdicts. In every reachable state the caches hold
  only verdicts that were verified, so a request is let in only by a credential that is valid now,
  whichever tier answered.
\<close>

definition verifies :: "hash_lib \<Rightarrow> string \<Rightarrow> string \<Rightarrow> bool" where
  "verifies lib password passwordHash \<longleftrightarrow>
     (case verifyPassword lib password passwordHash of Inr (ok, _) \<Rightarrow> ok | Inl _ \<Rightarrow> False)"

text \<open>The constructor of the verifier object, with its configured lifetime of a verdict.\<close>

definition new_cache :: "int \<Rightarrow> verification_cache" where
  "new_cache ttlMs = \<lparr>vc_ttlMs = ttlMs, vc_maxEntries = max_cache_entries, vc_entries = []\<rparr>"

text \<open>
  A request may be answered by a derivation in flight that another request started under the same
  key: the same username and a password with the same fingerprint, but possibly another stored
  hash, when the hash was rotated in between. The race of a request is the verdict it takes from
  such a derivation and not from its own hash.
\<close>

definition race :: "auth_env \<Rightarrow> string \<Rightarrow> string \<Rightarrow> string \<Rightarrow> (string \<times> string) set" where
  "race env username password passwordHash =
     (let key = verdict_key username (ae_fingerprint env password)
      in case in_flight env key of
           Some (u, p, h) \<Rightarrow>
             if (u, h) \<noteq> (username, passwordHash) \<and> verifies (ae_lib env) p h then {(key, passwordHash)} else {}
         | None \<Rightarrow> {})"

definition request_race :: "auth_env \<Rightarrow> string option \<Rightarrow> auth_world \<Rightarrow> (string \<times> string) set" where
  "request_race env header w =
     (case getBasicCredentials header of
        None \<Rightarrow> {}
      | Some (username, password) \<Rightarrow>
          (case find (\<lambda>r. cr_username r = username \<and> cr_expiresAt r > de_now (ae_db env)) (db_credentials (aw_db w)) of
             None \<Rightarrow> {}
           | Some row \<Rightarrow> race env username password (cr_passwordHash row)))"

text \<open>The histories of a deployment, with the races (verdict key, stored hash) that happened in them.\<close>

inductive auth_history :: "hash_lib \<Rightarrow> (string \<Rightarrow> string) \<Rightarrow> (string \<times> string) set \<Rightarrow> auth_world \<Rightarrow> bool" for lib fingerprint where
  deployed: "auth_history lib fingerprint {} \<lparr>aw_memo = [], aw_shards = (\<lambda>i. new_cache ttlMs), aw_db = db\<rparr>"
| request: "\<lbrakk>auth_history lib fingerprint R w; ae_lib env = lib; ae_fingerprint env = fingerprint\<rbrakk>
     \<Longrightarrow> auth_history lib fingerprint (R \<union> request_race env authHeader w)
           (fst (davAuthForVolume env owner volumeName authHeader needWrite w))"
| control_plane: "auth_history lib fingerprint R w \<Longrightarrow> auth_history lib fingerprint R (w\<lparr>aw_db := db\<rparr>)"
| fresh_isolate: "auth_history lib fingerprint R w \<Longrightarrow> auth_history lib fingerprint R (w\<lparr>aw_memo := []\<rparr>)"
| fresh_object: "auth_history lib fingerprint R w
     \<Longrightarrow> auth_history lib fingerprint R (w\<lparr>aw_shards := (aw_shards w)(i := new_cache ttlMs)\<rparr>)"
| forget: "auth_history lib fingerprint R w
     \<Longrightarrow> auth_history lib fingerprint R (w\<lparr>aw_memo := forgetCredential username (aw_memo w)\<rparr>)"
| invalidate: "auth_history lib fingerprint R w
     \<Longrightarrow> auth_history lib fingerprint R (w\<lparr>aw_shards := (aw_shards w)(i := cache_deletePrefix (username @ '':'') (aw_shards w i))\<rparr>)"

subsection \<open>The caches vouch for verified passwords only\<close>

definition verdict_for :: "hash_lib \<Rightarrow> (string \<Rightarrow> string) \<Rightarrow> string \<Rightarrow> string \<Rightarrow> bool" where
  "verdict_for lib fingerprint key passwordHash \<longleftrightarrow>
     (\<exists>username password. CHR '':'' \<notin> set username \<and> key = verdict_key username (fingerprint password)
        \<and> verifies lib password passwordHash)"

text \<open>What a tier may answer from: a verified password, or a race that happened.\<close>

definition trusted :: "hash_lib \<Rightarrow> (string \<Rightarrow> string) \<Rightarrow> (string \<times> string) set \<Rightarrow> string \<Rightarrow> string \<Rightarrow> bool" where
  "trusted lib fingerprint R key passwordHash \<longleftrightarrow> verdict_for lib fingerprint key passwordHash \<or> (key, passwordHash) \<in> R"

definition caches_sound :: "hash_lib \<Rightarrow> (string \<Rightarrow> string) \<Rightarrow> (string \<times> string) set \<Rightarrow> auth_world \<Rightarrow> bool" where
  "caches_sound lib fingerprint R w \<longleftrightarrow>
     memo.vouched (trusted lib fingerprint R) (aw_memo w)
     \<and> (\<forall>i. store.vouched (trusted lib fingerprint R) (aw_shards w i) \<and> vc_maxEntries (aw_shards w i) = max_cache_entries)"

lemma caches_sound_mono: "caches_sound lib fingerprint R w \<Longrightarrow> R \<subseteq> R' \<Longrightarrow> caches_sound lib fingerprint R' w"
  unfolding caches_sound_def memo.vouched_def store.vouched_def trusted_def by fast

lemma verdict_for_key:
  assumes "verdict_for lib fingerprint (verdict_key username (fingerprint password)) passwordHash"
    and "CHR '':'' \<notin> set username"
  shows "\<exists>other. fingerprint other = fingerprint password \<and> verifies lib other passwordHash"
proof -
  obtain u p where *: "CHR '':'' \<notin> set u" "u @ CHR '':'' # fingerprint p = username @ CHR '':'' # fingerprint password"
    "verifies lib p passwordHash"
    using assms(1) by (auto simp: verdict_for_def verdict_key_def)
  have "takeWhile (\<lambda>c. c \<noteq> CHR '':'') (s @ CHR '':'' # t) = s" if "CHR '':'' \<notin> set s" for s t
    using that by (auto simp: takeWhile_append)
  from this[OF *(1)] this[OF assms(2)] * have "u = username" by metis
  with * show ?thesis by auto
qed

lemma verifyLocally_ok: "vo_ok (verifyLocally env password passwordHash) \<longleftrightarrow> verifies (ae_lib env) password passwordHash"
  by (auto simp: verifyLocally_def verifies_def rejected_def split: sum.split prod.split bool.split)

lemma trustedI:
  "verifies lib password passwordHash \<Longrightarrow> CHR '':'' \<notin> set username
   \<Longrightarrow> trusted lib fingerprint R (verdict_key username (fingerprint password)) passwordHash"
  by (auto simp: trusted_def verdict_for_def)

lemma maxEntries_simps [simp]: "vc_maxEntries (cache_set k h now c) = vc_maxEntries c"
  "cache_get k h now c = (b, c') \<Longrightarrow> vc_maxEntries c' = vc_maxEntries c"
  by (auto simp: cache_set_def cache_get_def split: option.splits if_splits)

lemma derive_sound:
  assumes "store.vouched (trusted (ae_lib env) (ae_fingerprint env) R) cache" "CHR '':'' \<notin> set username"
    and "derive env (verdict_key username (ae_fingerprint env password)) password passwordHash cache = (outcome, cache')"
  shows "store.vouched (trusted (ae_lib env) (ae_fingerprint env) R) cache'" "vc_maxEntries cache' = vc_maxEntries cache"
    "vo_ok outcome = verifies (ae_lib env) password passwordHash"
proof -
  have outcome: "outcome = verifyLocally env password passwordHash"
    and cache': "cache' = (if vo_ok outcome then cache_set (verdict_key username (ae_fingerprint env password)) passwordHash
      (ae_nowMs env) cache else cache)"
    using assms(3) by (auto simp: derive_def Let_def)
  then show "vo_ok outcome = verifies (ae_lib env) password passwordHash" "vc_maxEntries cache' = vc_maxEntries cache"
    by (simp_all add: verifyLocally_ok)
  then show "store.vouched (trusted (ae_lib env) (ae_fingerprint env) R) cache'"
    using assms(1,2) cache' by (auto intro!: store.vouched_remember trustedI)
qed

lemma settles_sound:
  assumes "settles env (verdict_key username (ae_fingerprint env password)) = Some (Some outcome)" "vo_ok outcome"
    and "race env username password passwordHash \<subseteq> R" "CHR '':'' \<notin> set username"
  shows "trusted (ae_lib env) (ae_fingerprint env) R (verdict_key username (ae_fingerprint env password)) passwordHash"
proof -
  obtain u p h where f: "in_flight env (verdict_key username (ae_fingerprint env password)) = Some (u, p, h)"
    and ok: "verifies (ae_lib env) p h"
    using assms(1,2) by (auto simp: settles_def verifyLocally_ok)
  then have key: "verdict_key u (ae_fingerprint env p) = verdict_key username (ae_fingerprint env password)"
    by (auto simp: in_flight_def find_Some_iff)
  show ?thesis
  proof (cases "(u, h) = (username, passwordHash)")
    case True
    with ok assms(4) key show ?thesis by (metis prod.inject trustedI)
  next
    case False
    with f ok assms(3) show ?thesis by (simp add: race_def Let_def trusted_def)
  qed
qed

lemma verify_sound:
  assumes "store.vouched (trusted (ae_lib env) (ae_fingerprint env) R) cache" "CHR '':'' \<notin> set username"
    and "race env username password passwordHash \<subseteq> R"
    and "verify env (settles env (verdict_key username (ae_fingerprint env password))) username password passwordHash cache = (outcome, cache')"
  shows "store.vouched (trusted (ae_lib env) (ae_fingerprint env) R) cache' \<and> vc_maxEntries cache' = vc_maxEntries cache
    \<and> (vo_ok outcome \<longrightarrow> trusted (ae_lib env) (ae_fingerprint env) R (verdict_key username (ae_fingerprint env password)) passwordHash)
    \<and> (verifies (ae_lib env) password passwordHash \<longrightarrow> vo_ok outcome)"
proof -
  let ?key = "verdict_key username (ae_fingerprint env password)"
  obtain b c1 where got: "cache_get ?key passwordHash (ae_nowMs env) cache = (b, c1)" by fastforce
  note c1 = store.vouched_look[OF assms(1) got] maxEntries_simps(2)[OF got]
  show ?thesis
  proof (cases b)
    case True
    with got have "cache_get ?key passwordHash (ae_nowMs env) cache = (True, c1)" by simp
    then have "trusted (ae_lib env) (ae_fingerprint env) R ?key passwordHash"
      by (rule store.vouched_hit[OF assms(1)])
    with True got assms(4) c1 show ?thesis by (auto simp: verify_def Let_def verified_def)
  next
    case False
    show ?thesis
    proof (cases "\<exists>settled. settles env ?key = Some (Some settled) \<and> vo_ok settled")
      case True
      with settles_sound[OF _ _ assms(3,2)] have "trusted (ae_lib env) (ae_fingerprint env) R ?key passwordHash" by blast
      with True False got assms(4) c1 show ?thesis by (auto simp: verify_def Let_def verified_def)
    next
      case unsettled: False
      with False got assms(4) have "derive env ?key password passwordHash c1 = (outcome, cache')"
        by (auto simp: verify_def Let_def split: option.splits)
      from derive_sound[OF c1(1) assms(2) this] c1(2) show ?thesis
        using assms(2) by (auto intro: trustedI)
    qed
  qed
qed

lemma verifyViaDo_sound:
  assumes "\<forall>i. store.vouched (trusted (ae_lib env) (ae_fingerprint env) R) (shards i) \<and> vc_maxEntries (shards i) = max_cache_entries"
    and "CHR '':'' \<notin> set username" "race env username password passwordHash \<subseteq> R" and "verifyViaDo env username password passwordHash shards = (answer, shards')"
  shows "(\<forall>i. store.vouched (trusted (ae_lib env) (ae_fingerprint env) R) (shards' i) \<and> vc_maxEntries (shards' i) = max_cache_entries)
    \<and> (\<forall>outcome. answer = Some outcome \<longrightarrow>
         (vo_ok outcome \<longrightarrow> trusted (ae_lib env) (ae_fingerprint env) R (verdict_key username (ae_fingerprint env password)) passwordHash)
         \<and> (verifies (ae_lib env) password passwordHash \<longrightarrow> vo_ok outcome))"
proof -
  let ?i = "credentialShardOf username"
  obtain outcome cache where v: "verify env (settles env (verdict_key username (ae_fingerprint env password))) username password passwordHash (shards ?i) = (outcome, cache)" by fastforce
  with verify_sound[OF _ assms(2,3), of "shards ?i"] assms show ?thesis
    by (auto simp: verifyViaDo_def verifier_fetch_def Let_def split: if_splits)
qed

lemma verifyCredential_sound:
  assumes "caches_sound (ae_lib env) (ae_fingerprint env) R w" "CHR '':'' \<notin> set username" "race env username password passwordHash \<subseteq> R"
    and "verifyCredential env username password passwordHash w = (outcome, w')"
  shows "caches_sound (ae_lib env) (ae_fingerprint env) R w'" "aw_db w' = aw_db w"
    "vo_ok outcome \<Longrightarrow> trusted (ae_lib env) (ae_fingerprint env) R (verdict_key username (ae_fingerprint env password)) passwordHash"
    "verifies (ae_lib env) password passwordHash \<Longrightarrow> vo_ok outcome"
proof -
  let ?P = "trusted (ae_lib env) (ae_fingerprint env) R"
  let ?key = "verdict_key username (ae_fingerprint env password)"
  obtain b memo where look: "memo_look (ae_nowMs env) ?key passwordHash (aw_memo w) = (b, memo)" by fastforce
  obtain answer shards where hop: "verifyViaDo env username password passwordHash (aw_shards w) = (answer, shards)" by fastforce
  have memo: "memo.vouched ?P memo" using assms(1) memo.vouched_look[OF _ look] by (simp add: caches_sound_def)
  note hop_sound = verifyViaDo_sound[OF _ assms(2,3) hop]
  have "caches_sound (ae_lib env) (ae_fingerprint env) R w' \<and> aw_db w' = aw_db w
    \<and> (vo_ok outcome \<longrightarrow> ?P ?key passwordHash) \<and> (verifies (ae_lib env) password passwordHash \<longrightarrow> vo_ok outcome)"
  proof (cases b)
    case True
    then have "?P ?key passwordHash" using look assms(1) memo.vouched_hit by (fastforce simp: caches_sound_def)
    with True look assms(1,4) memo show ?thesis
      by (auto simp: verifyCredential_def lookupCredentialMemo_def Let_def caches_sound_def verified_def)
  next
    case False
    let ?o = "case answer of Some a \<Rightarrow> a | None \<Rightarrow> verifyLocally env password passwordHash"
    have o: "outcome = ?o" and w': "w' = w\<lparr>aw_shards := shards, aw_memo := (if vo_ok ?o
        then memo_remember (ae_nowMs env) ?key passwordHash memo else memo)\<rparr>"
      using False look hop assms(4) by (auto simp: verifyCredential_def lookupCredentialMemo_def rememberCredential_def Let_def)
    have ok: "vo_ok ?o \<longrightarrow> ?P ?key passwordHash" "verifies (ae_lib env) password passwordHash \<longrightarrow> vo_ok ?o"
      using hop_sound assms(1,2) by (auto simp: caches_sound_def verifyLocally_ok intro: trustedI split: option.split)
    then have "memo.vouched ?P (aw_memo w')" using memo w' by (auto intro: memo.vouched_remember)
    with ok o w' hop_sound assms(1) show ?thesis by (simp add: caches_sound_def)
  qed
  then show "caches_sound (ae_lib env) (ae_fingerprint env) R w'" "aw_db w' = aw_db w"
    "vo_ok outcome \<Longrightarrow> ?P ?key passwordHash" "verifies (ae_lib env) password passwordHash \<Longrightarrow> vo_ok outcome" by blast+
qed

text \<open>A username read from a Basic header has no colon.\<close>

lemma basic_username: "getBasicCredentials header = Some (username, password) \<Longrightarrow> CHR '':'' \<notin> set username"
proof -
  assume "getBasicCredentials header = Some (username, password)"
  then obtain decoded i where i: "index_of CHR '':'' decoded 0 = Some i" and u: "username = trim (take i decoded)"
    by (auto simp: getBasicCredentials_def Let_def split: option.splits if_splits)
  have "CHR '':'' \<notin> set (take i decoded)"
    using index_of_Some[OF i] by (auto simp: in_set_conv_nth)
  then show ?thesis by (auto simp: u trim_def dest!: set_dropWhileD)
qed

text \<open>The shapes of a decision: refused before any password is looked at, anonymous, or by a credential.\<close>

abbreviation volume_named :: "string \<Rightarrow> string \<Rightarrow> volume_row \<Rightarrow> bool" where
  "volume_named owner name r \<equiv> vr_ownerCi r = to_lower owner \<and> vr_nameCi r = to_lower name"

lemma found_member: "find P xs = Some x \<Longrightarrow> x \<in> set xs \<and> P x"
  by (auto simp: find_Some_iff)

lemma davAuth_cases:
  obtains (refused) r where "davAuthForVolume env owner volumeName header needWrite w = (w, Refused r)"
  | (anonymous) volume where "find (volume_named owner volumeName) (db_volumes (aw_db w)) = Some volume"
      "getBasicCredentials header = None" "\<not> needWrite" "vr_isPrivate volume \<noteq> 1"
      "davAuthForVolume env owner volumeName header needWrite w = (w, anonymous_answer volume needWrite)"
  | (credential) volume username password row outcome w1
    where "find (volume_named owner volumeName) (db_volumes (aw_db w)) = Some volume"
      "getBasicCredentials header = Some (username, password)"
      "find (\<lambda>r. cr_username r = username \<and> cr_expiresAt r > de_now (ae_db env)) (db_credentials (aw_db w)) = Some row"
      "verifyCredential env username password (cr_passwordHash row) w = (outcome, w1)"
      "davAuthForVolume env owner volumeName header needWrite w = grant_credential env volume (toMetadata row) needWrite outcome w1"
proof (cases "getByOwnerName (ae_db env) owner volumeName (aw_db w)")
  case (Inr found)
  show thesis
  proof (cases found)
    case (Some volume)
    then have volume: "find (volume_named owner volumeName) (db_volumes (aw_db w)) = Some volume"
      using Inr by (auto simp: getByOwnerName_def db_read_def split: option.splits)
    show thesis
    proof (cases "getBasicCredentials header")
      case None
      then have "davAuthForVolume env owner volumeName header needWrite w = (w, anonymous_answer volume needWrite)"
        using Inr Some by (simp add: davAuthForVolume_def davAuthForVolumeInner_def)
      then show thesis using anonymous[OF volume None] refused
        by (cases "\<not> needWrite \<and> vr_isPrivate volume \<noteq> 1") (auto simp: anonymous_answer_def)
    next
      case (Some up)
      obtain username password where up: "getBasicCredentials header = Some (username, password)"
        using Some by (cases up) auto
      show thesis
      proof (cases "getActiveByUsername (ae_db env) username (aw_db w)")
        case Inl
        with up Inr \<open>found = Some volume\<close> show thesis
          by (intro refused) (simp add: davAuthForVolume_def davAuthForVolumeInner_def)
      next
        case (Inr active)
        show thesis
        proof (cases active)
          case None
          with up Inr \<open>found = Some volume\<close> \<open>getByOwnerName _ _ _ _ = Inr found\<close> show thesis
            by (intro refused) (simp add: davAuthForVolume_def davAuthForVolumeInner_def)
        next
          case (Some ch)
          then obtain row where row: "find (\<lambda>r. cr_username r = username \<and> cr_expiresAt r > de_now (ae_db env))
              (db_credentials (aw_db w)) = Some row" "ch = (toMetadata row, cr_passwordHash row)"
            using Inr by (auto simp: getActiveByUsername_def db_read_def split: option.splits)
          obtain outcome w1 where v: "verifyCredential env username password (cr_passwordHash row) w = (outcome, w1)"
            by fastforce
          have "davAuthForVolume env owner volumeName header needWrite w
              = grant_credential env volume (toMetadata row) needWrite outcome w1"
            using up Inr Some row v \<open>found = Some volume\<close> \<open>getByOwnerName _ _ _ _ = Inr found\<close>
            by (cases "grant_credential env volume (toMetadata row) needWrite outcome w1")
              (simp add: davAuthForVolume_def davAuthForVolumeInner_def)
          with volume up row(1) v show thesis by (rule credential)
        qed
      qed
    qed
  qed (use Inr in \<open>auto simp: davAuthForVolume_def davAuthForVolumeInner_def intro: refused\<close>)
qed (auto simp: davAuthForVolume_def davAuthForVolumeInner_def intro: refused)

lemma request_race_credential:
  "getBasicCredentials header = Some (username, password)
   \<Longrightarrow> find (\<lambda>r. cr_username r = username \<and> cr_expiresAt r > de_now (ae_db env)) (db_credentials (aw_db w)) = Some row
   \<Longrightarrow> race env username password (cr_passwordHash row) \<subseteq> R \<union> request_race env header w"
  by (simp add: request_race_def)

lemma davAuth_sound:
  assumes "caches_sound (ae_lib env) (ae_fingerprint env) R w"
  shows "caches_sound (ae_lib env) (ae_fingerprint env) (R \<union> request_race env header w)
    (fst (davAuthForVolume env owner volumeName header needWrite w))"
proof (cases rule: davAuth_cases[of env owner volumeName header needWrite w])
  case (credential volume username password row outcome w1)
  have "caches_sound (ae_lib env) (ae_fingerprint env) (R \<union> request_race env header w) w1"
    using verifyCredential_sound(1)[OF caches_sound_mono[OF assms] basic_username[OF credential(2)]
        request_race_credential[OF credential(2,3)] credential(4)] by blast
  then show ?thesis by (simp add: credential(5) grant_credential_def caches_sound_def)
qed (use caches_sound_mono[OF assms] in simp_all)

lemma vouched_empty: "memo.vouched P []"
  unfolding memo.vouched_def by (simp add: memo_max_entries_def)

lemma vouched_new: "store.vouched P (new_cache ttlMs)" "vc_maxEntries (new_cache ttlMs) = max_cache_entries"
  unfolding store.vouched_def by (simp_all add: new_cache_def max_cache_entries_def)

lemma auth_history_sound: "auth_history lib fingerprint R w \<Longrightarrow> caches_sound lib fingerprint R w"
proof (induction rule: auth_history.induct)
  case (request R w env owner volumeName authHeader needWrite)
  then show ?case using davAuth_sound by blast
next
  case (forget R w username)
  then show ?case by (simp add: caches_sound_def forgetCredential_def vouched_delete_prefix)
next
  case (invalidate R w i username)
  moreover have "vc_maxEntries (cache_deletePrefix p c) = vc_maxEntries c" for p c by (simp add: cache_deletePrefix_def)
  ultimately show ?case by (simp add: caches_sound_def vouched_deletePrefix)
qed (simp_all add: caches_sound_def vouched_empty vouched_new)

subsection \<open>The properties\<close>

text \<open>
  C7. Nobody is let in without a right to: in any state a deployment can reach, whatever tiers
  answer and however the control database was changed in between, a request is granted only for a
  volume that exists under the requested name, and only if either it carries no credentials, asks
  for no write and the volume is public, or the database holds, now, an unexpired credential of
  the presented username that belongs to this volume and may write if the request does, and whose
  stored hash is verified by a password with the fingerprint of the presented one. The one exception
  is the derivation in flight, which the verifier trusts by its key alone: it is granted too if this
  request, or an earlier one, presented the same username and fingerprint against the same stored
  hash while the object was deriving that key against another stored hash, and that verified.
\<close>

theorem access_needs_a_right:
  assumes "auth_history lib fingerprint R w" "ae_lib env = lib" "ae_fingerprint env = fingerprint"
    and "davAuthForVolume env owner volumeName header needWrite w = (w', Granted answer)"
  shows "\<exists>volume \<in> set (db_volumes (aw_db w)).
    volume_named owner volumeName volume \<and> da_owner answer = vr_owner volume \<and> da_volume answer = vr_name volume
    \<and> (case getBasicCredentials header of
         None \<Rightarrow> \<not> needWrite \<and> vr_isPrivate volume \<noteq> 1
       | Some (username, password) \<Rightarrow>
           \<exists>row \<in> set (db_credentials (aw_db w)).
             cr_username row = username \<and> cr_expiresAt row > de_now (ae_db env) \<and> cr_volumeId row = vr_id volume
             \<and> (needWrite \<longrightarrow> cr_readOnly row \<noteq> Some 1)
             \<and> ((\<exists>other. fingerprint other = fingerprint password \<and> verifies lib other (cr_passwordHash row))
                \<or> (verdict_key username (fingerprint password), cr_passwordHash row) \<in> R \<union> request_race env header w))"
proof (cases rule: davAuth_cases[of env owner volumeName header needWrite w])
  case (anonymous volume)
  then show ?thesis using assms(4)
    by (auto simp: anonymous_answer_def dest!: found_member split: if_splits intro!: bexI[of _ volume])
next
  case (credential volume username password row outcome w1)
  have sound: "caches_sound (ae_lib env) (ae_fingerprint env) (R \<union> request_race env header w) w"
    using caches_sound_mono[OF auth_history_sound[OF assms(1)]] assms(2,3) by simp
  have granted: "vo_ok outcome" "cr_volumeId row = vr_id volume" "needWrite \<longrightarrow> cr_readOnly row \<noteq> Some 1"
    "da_owner answer = vr_owner volume" "da_volume answer = vr_name volume"
    using assms(4) credential(5) by (auto simp: grant_credential_def toMetadata_def Let_def split: if_splits prod.splits)
  note trust = verifyCredential_sound(3)[OF sound basic_username[OF credential(2)]
      request_race_credential[OF credential(2,3)] credential(4) granted(1)]
  then have "(\<exists>other. fingerprint other = fingerprint password \<and> verifies lib other (cr_passwordHash row))
    \<or> (verdict_key username (fingerprint password), cr_passwordHash row) \<in> R \<union> request_race env header w"
    using verdict_for_key[OF _ basic_username[OF credential(2)]] assms(2,3) unfolding trusted_def by blast
  then show ?thesis using granted credential(1-3) assms(2,3)
    by (auto dest!: found_member intro!: bexI[of _ volume] bexI[of _ row])
qed (use assms(4) in simp)

text \<open>
  C19. The tiers do not change the verdict: in any state a deployment can reach, and as long as no
  other password with the fingerprint of the presented one verifies against the stored hash unless
  the presented one does, and neither this request nor an earlier one took the verdict on this key
  and hash from a derivation in flight against another stored hash, the verdict of the memo, the verifier object and the local derivation
  together is the verdict of verifying the password directly, with or without the object, however
  the hop to it fails. The database is not touched.
\<close>

theorem tiers_agree_with_verification:
  assumes "auth_history (ae_lib env) (ae_fingerprint env) R w" "CHR '':'' \<notin> set username"
    and "\<forall>other. ae_fingerprint env other = ae_fingerprint env password \<and> verifies (ae_lib env) other passwordHash
      \<longrightarrow> verifies (ae_lib env) password passwordHash"
    and "(verdict_key username (ae_fingerprint env password), passwordHash) \<notin> R \<union> race env username password passwordHash"
  shows "vo_ok (fst (verifyCredential env username password passwordHash w)) = verifies (ae_lib env) password passwordHash
    \<and> aw_db (snd (verifyCredential env username password passwordHash w)) = aw_db w"
proof -
  obtain outcome w' where v: "verifyCredential env username password passwordHash w = (outcome, w')" by fastforce
  note sound = verifyCredential_sound[OF caches_sound_mono[OF auth_history_sound[OF assms(1)]] assms(2) _ v,
      of "R \<union> race env username password passwordHash"]
  have "verifies (ae_lib env) password passwordHash" if "vo_ok outcome"
    using sound(3)[OF _ _ that] verdict_for_key[OF _ assms(2)] assms(3,4) unfolding trusted_def by blast
  with sound(2,4) show ?thesis by (auto simp: v)
qed

text \<open>
  The caches stay within their bounds: in any state a deployment can reach the memo of an
  isolate holds at most 256 verdicts and every verifier object at most 200.
\<close>

theorem caches_are_bounded:
  assumes "auth_history lib fingerprint R w"
  shows "length (aw_memo w) \<le> 256 \<and> length (vc_entries (aw_shards w i)) \<le> 200"
proof -
  have "memo.vouched (trusted lib fingerprint R) (aw_memo w)" "store.vouched (trusted lib fingerprint R) (aw_shards w i)"
    "vc_maxEntries (aw_shards w i) = max_cache_entries"
    using auth_history_sound[OF assms] by (simp_all add: caches_sound_def)
  then show ?thesis unfolding memo.vouched_def store.vouched_def by (simp add: memo_max_entries_def max_cache_entries_def)
qed

lemma davAuth_valid:
  assumes "auth_history (ae_lib env) (ae_fingerprint env) R w" "de_fails (ae_db env) = (\<lambda>_. None)"
    and "find (volume_named owner volumeName) (db_volumes (aw_db w)) = Some volume"
    and "getBasicCredentials header = Some (username, password)"
    and "find (\<lambda>r. cr_username r = username \<and> cr_expiresAt r > de_now (ae_db env)) (db_credentials (aw_db w)) = Some row"
    and "cr_volumeId row = vr_id volume"
    and "verifies (ae_lib env) password (cr_passwordHash row)"
  shows "if needWrite \<and> cr_readOnly row = Some 1
    then snd (davAuthForVolume env owner volumeName header needWrite w) = Refused readOnlyCredentialDav
    else \<exists>answer. snd (davAuthForVolume env owner volumeName header needWrite w) = Granted answer
           \<and> da_owner answer = vr_owner volume \<and> da_volume answer = vr_name volume"
proof -
  obtain outcome w1 where v: "verifyCredential env username password (cr_passwordHash row) w = (outcome, w1)" by fastforce
  have "vo_ok outcome"
    using verifyCredential_sound(4)[OF caches_sound_mono[OF auth_history_sound[OF assms(1)]] basic_username[OF assms(4)]
        request_race_credential[OF assms(4,5)] v assms(7)] by blast
  with assms(2-6) v show ?thesis
    by (auto simp: davAuthForVolume_def davAuthForVolumeInner_def getByOwnerName_def getActiveByUsername_def db_read_def
        grant_credential_def toMetadata_def Let_def split: prod.split)
qed

text \<open>
  C18. A valid credential is always let in: in any state a deployment can reach, when the database
  answers and holds an unexpired credential of the presented username that belongs to the volume,
  may write if the request does, and whose stored hash the presented password verifies against,
  the request is granted, whatever the caches hold and whether or not the hop succeeds.
\<close>

theorem valid_credential_is_admitted:
  assumes "auth_history (ae_lib env) (ae_fingerprint env) R w" "de_fails (ae_db env) = (\<lambda>_. None)"
    and "find (volume_named owner volumeName) (db_volumes (aw_db w)) = Some volume"
    and "getBasicCredentials header = Some (username, password)"
    and "find (\<lambda>r. cr_username r = username \<and> cr_expiresAt r > de_now (ae_db env)) (db_credentials (aw_db w)) = Some row"
    and "cr_volumeId row = vr_id volume" "needWrite \<longrightarrow> cr_readOnly row \<noteq> Some 1"
    and "verifies (ae_lib env) password (cr_passwordHash row)"
  shows "\<exists>answer. snd (davAuthForVolume env owner volumeName header needWrite w) = Granted answer
    \<and> da_owner answer = vr_owner volume \<and> da_volume answer = vr_name volume"
  using davAuth_valid[OF assms(1-6,8), of needWrite] assms(7) by (auto split: if_splits)

text \<open>A credential with what an authorization may change blanked out.\<close>

definition fixed_part :: "credential_row \<Rightarrow> credential_row" where
  "fixed_part r = r\<lparr>cr_passwordHash := [], cr_lastUsedAt := None\<rparr>"

lemma fixed_update: "\<forall>r. fixed_part (f r) = fixed_part r \<Longrightarrow> map fixed_part (update_where P f rs) = map fixed_part rs"
  by (simp add: update_where_def)

lemma note_use_effect:
  "\<exists>credentials. note_use env credential outcome db = db\<lparr>db_credentials := credentials\<rparr>
     \<and> map fixed_part credentials = map fixed_part (db_credentials db)
     \<and> filter (\<lambda>r. cr_id r \<noteq> cm_id credential) credentials = filter (\<lambda>r. cr_id r \<noteq> cm_id credential) (db_credentials db)"
proof -
  have others: "filter (\<lambda>r. cr_id r \<noteq> k) (update_where (\<lambda>r. cr_id r = k) f rs) = filter (\<lambda>r. cr_id r \<noteq> k) rs"
    if "\<forall>r. cr_id (f r) = cr_id r" for k f and rs :: "credential_row list"
    using that by (induction rs) (auto simp: update_where_def)
  let ?effect = "\<lambda>db db'. \<exists>credentials. db' = db\<lparr>db_credentials := credentials\<rparr>
     \<and> map fixed_part credentials = map fixed_part (db_credentials db)
     \<and> filter (\<lambda>r. cr_id r \<noteq> cm_id credential) credentials = filter (\<lambda>r. cr_id r \<noteq> cm_id credential) (db_credentials db)"
  have refl: "?effect d d" for d :: database by (rule exI[of _ "db_credentials d"]) simp
  have used: "?effect d (fst (updateLastUsed (ae_db env) (cm_id credential) d))" for d
    using refl[of d] fixed_update[of "\<lambda>r. r\<lparr>cr_lastUsedAt := Some (de_now (ae_db env))\<rparr>"]
    by (auto simp: updateLastUsed_def update_credentials_def db_run_def fixed_part_def others split: option.split)
  have hashed: "?effect d (fst (updatePasswordHash (ae_db env) (cm_id credential) h d))" for d h
    using refl[of d] fixed_update[of "\<lambda>r. r\<lparr>cr_passwordHash := h\<rparr>"]
    by (auto simp: updatePasswordHash_def db_run_def fixed_part_def others split: option.split)
  define d where "d = (case (vo_needsRehash outcome, vo_upgradedHash outcome) of
      (True, Some h) \<Rightarrow> if h = [] then db else fst (updatePasswordHash (ae_db env) (cm_id credential) h db) | _ \<Rightarrow> db)"
  have "?effect db d" unfolding d_def using hashed refl by (auto split: bool.split option.split)
  moreover have "note_use env credential outcome db = fst (updateLastUsed (ae_db env) (cm_id credential) d)"
    by (simp add: note_use_def d_def)
  ultimately show ?thesis using used[of d] by force
qed

text \<open>
  Deciding changes next to nothing: a refused request leaves the control database as it was;
  a granted one changes at most the stored hash and the time of last use of credentials, never
  their volume, username, expiry or rights, and touches no other table.
\<close>

theorem decision_changes_only_hash_and_use:
  "case davAuthForVolume env owner volumeName header needWrite w of
     (w', Refused _) \<Rightarrow> aw_db w' = aw_db w
   | (w', Granted _) \<Rightarrow> \<exists>credentials. aw_db w' = (aw_db w)\<lparr>db_credentials := credentials\<rparr>
       \<and> map fixed_part credentials = map fixed_part (db_credentials (aw_db w))"
proof (cases rule: davAuth_cases[of env owner volumeName header needWrite w])
  case (anonymous volume)
  then show ?thesis
    by (auto simp: anonymous_answer_def intro: exI[of _ "db_credentials (aw_db w)"])
next
  case (credential volume username password row outcome w1)
  have "aw_db w1 = aw_db w" using credential(4)
    by (auto simp: verifyCredential_def Let_def split: prod.splits bool.splits)
  with note_use_effect[of env "toMetadata row" outcome "aw_db w"] show ?thesis
    by (auto simp: credential(5) grant_credential_def)
qed simp

subsection \<open>A small deployment\<close>

definition door_lib :: hash_lib where
  "door_lib = \<lparr>hl_pbkdf2 = (\<lambda>_ _ _. Inl ''no entropy''), hl_sha256Hex = (\<lambda>p. replicate 64 (if p = ''pw'' then CHR ''a'' else CHR ''b''))\<rparr>"

definition door_env :: "hop \<Rightarrow> auth_env" where
  "door_env h = \<lparr>ae_lib = door_lib, ae_fingerprint = id, ae_salt = ''s'', ae_nowMs = 5, ae_hop = h,
     ae_account = (\<lambda>_. Inr None), ae_db = \<lparr>de_fails = (\<lambda>_. None), de_missing_schema = (\<lambda>_. False), de_now = 5\<rparr>, ae_inflight = []\<rparr>"

definition door_volume :: volume_row where
  "door_volume = \<lparr>vr_id = ''v'', vr_ownerEmail = ''a@b.c'', vr_ownerUserId = Some ''u'', vr_owner = ''Ann'', vr_name = ''docs'',
     vr_description = None, vr_isPrivate = 1, vr_createdAt = 1, vr_updatedAt = 1, vr_ownerCi = ''ann'', vr_nameCi = ''docs'',
     vr_hrefPrefixMode = ''base''\<rparr>"

definition door_credential :: credential_row where
  "door_credential = \<lparr>cr_id = ''c'', cr_volumeId = ''v'', cr_username = ''me'', cr_passwordHash = replicate 64 CHR ''a'',
     cr_name = ''phone'', cr_passwordPrefix = ''pw'', cr_passwordLastFour = ''pw'', cr_createdAt = 1, cr_expiresAt = 9,
     cr_lastUsedAt = None, cr_readOnly = Some 1\<rparr>"

definition door_world :: auth_world where
  "door_world = \<lparr>aw_memo = [], aw_shards = (\<lambda>i. new_cache 60), aw_db = \<lparr>db_volumes = [door_volume],
     db_credentials = [door_credential], db_namespaces = [], db_replications = [], db_conflicts = []\<rparr>\<rparr>"

definition door_header :: "string option" where "door_header = Some (''Basic '' @ btoa ''me:pw'')"

lemma door_history: "auth_history door_lib id {} door_world"
  unfolding door_world_def by (rule deployed)

lemma door_header_reads: "getBasicCredentials door_header = Some (''me'', ''pw'')"
  by code_simp

lemma door_verifies: "verifies door_lib password (replicate 64 CHR ''a'') \<longleftrightarrow> password = ''pw''"
proof -
  have hex: "is_hex CHR ''a''" "to_lower (replicate n CHR ''a'') = replicate n CHR ''a''" for n
    by (code_simp, simp add: to_lower_def lower_basic)
  have "\<not> starts_with pbkdf2_prefix (replicate 64 CHR ''a'')" by (simp add: pbkdf2_prefix_def starts_with_iff numeral_eq_Suc)
  with hex show ?thesis
    by (simp_all add: verifies_def verifyPassword_def door_lib_def list_all_iff)
qed

text \<open>
  The race happens: when the stored hash was rotated while the old password was being derived
  against the old hash, a second request with the old password is told that it verifies against
  the new one, and the memo of its isolate keeps the verdict.
\<close>

definition rotating_env :: auth_env where
  "rotating_env = (door_env Answered)\<lparr>ae_inflight := [(''me'', ''old'', replicate 64 CHR ''b'')]\<rparr>"

lemma door_verifies_old: "verifies door_lib ''old'' (replicate 64 CHR ''b'')"
proof -
  have "lower_char CHR ''b'' = CHR ''b''" by code_simp
  then have hex: "is_hex CHR ''b''" "to_lower (replicate n CHR ''b'') = replicate n CHR ''b''" for n
    by (code_simp, simp add: to_lower_def)
  have "\<not> starts_with pbkdf2_prefix (replicate 64 CHR ''b'')" by (simp add: pbkdf2_prefix_def starts_with_iff numeral_eq_Suc)
  with hex show ?thesis
    by (simp_all add: verifies_def verifyPassword_def door_lib_def list_all_iff)
qed

lemma inflight_verdict_ignores_the_hash:
  "vo_ok (fst (verifyCredential rotating_env ''me'' ''old'' (replicate 64 CHR ''a'') door_world))
   \<and> (\<exists>entry. aw_memo (snd (verifyCredential rotating_env ''me'' ''old'' (replicate 64 CHR ''a'') door_world)) = [entry])
   \<and> \<not> verifies door_lib ''old'' (replicate 64 CHR ''a'')"
proof -
  have "ae_lib rotating_env = door_lib" by (simp add: rotating_env_def door_env_def)
  then have "vo_ok (verifyLocally rotating_env ''old'' (replicate 64 CHR ''b''))"
    by (simp add: verifyLocally_ok door_verifies_old)
  then have "settles rotating_env ''me:old'' = Some (Some (verifyLocally rotating_env ''old'' (replicate 64 CHR ''b'')))"
    by (simp add: settles_def in_flight_def rotating_env_def door_env_def verdict_key_def)
  with \<open>vo_ok _\<close> have "verifyCredential rotating_env ''me'' ''old'' (replicate 64 CHR ''a'') door_world
      = (verified, door_world\<lparr>aw_memo := rememberCredential 5 ''me'' ''old'' (replicate 64 CHR ''a'') []\<rparr>)"
    by (simp add: verifyCredential_def verifyViaDo_def verifier_fetch_def verify_def lookupCredentialMemo_def memo_look_def
        cache_get_def new_cache_def door_world_def rotating_env_def door_env_def verdict_key_def verified_def fun_eq_iff)
  then show ?thesis using door_verifies[of "''old''"]
    by (simp add: verified_def rememberCredential_def memo_remember_def memo_max_entries_def map_set_def evict_oldest_def)
qed

theorem valid_credential_is_admitted_witness:
  "\<exists>answer. snd (davAuthForVolume (door_env Lost_after) ''ann'' ''Docs'' door_header False door_world) = Granted answer
    \<and> da_owner answer = vr_owner door_volume \<and> da_volume answer = vr_name door_volume"
proof (rule valid_credential_is_admitted[where row = door_credential])
  show "auth_history (ae_lib (door_env Lost_after)) (ae_fingerprint (door_env Lost_after)) {} door_world"
    using door_history by (simp add: door_env_def)
  show "getBasicCredentials door_header = Some (''me'', ''pw'')" by (rule door_header_reads)
  show "verifies (ae_lib (door_env Lost_after)) ''pw'' (cr_passwordHash door_credential)"
    using door_verifies by (simp add: door_env_def door_credential_def)
  show "find (volume_named ''ann'' ''Docs'') (db_volumes (aw_db door_world)) = Some door_volume" by code_simp
qed (simp_all add: door_env_def door_world_def door_credential_def door_volume_def)

theorem tiers_agree_with_verification_witness:
  "vo_ok (fst (verifyCredential (door_env Answered) ''me'' ''pw'' (replicate 64 CHR ''a'') door_world)) = verifies door_lib ''pw'' (replicate 64 CHR ''a'')
    \<and> aw_db (snd (verifyCredential (door_env Answered) ''me'' ''pw'' (replicate 64 CHR ''a'') door_world)) = aw_db door_world"
  using tiers_agree_with_verification[of "door_env Answered" "{}" door_world "''me''" "''pw''" "replicate 64 CHR ''a''"] door_history
  by (simp add: door_env_def race_def in_flight_def)

theorem caches_are_bounded_witness: "length (aw_memo door_world) \<le> 256 \<and> length (vc_entries (aw_shards door_world 3)) \<le> 200"
  by (rule caches_are_bounded[OF door_history])

lemma door_admits:
  "\<exists>w' answer. davAuthForVolume (door_env Answered) ''ann'' ''Docs'' door_header False door_world = (w', Granted answer)"
proof -
  have "verifyCredential (door_env Answered) ''me'' ''pw'' (replicate 64 CHR ''a'') door_world = (outcome, w1) \<Longrightarrow> vo_ok outcome" for outcome w1
    using verifyCredential_sound(4)[OF auth_history_sound, of "door_env Answered" "{}" door_world "''me''" "''pw''"] door_history door_verifies
    by (simp add: door_env_def race_def in_flight_def)
  moreover have "getByOwnerName (ae_db (door_env Answered)) ''ann'' ''Docs'' (aw_db door_world) = Inr (Some door_volume)"
    "getActiveByUsername (ae_db (door_env Answered)) ''me'' (aw_db door_world)
      = Inr (Some (toMetadata door_credential, replicate 64 CHR ''a''))"
    by code_simp+
  moreover have "cm_volumeId (toMetadata door_credential) = vr_id door_volume"
    by (simp add: toMetadata_def door_credential_def door_volume_def)
  ultimately show ?thesis
    by (simp add: davAuthForVolume_def davAuthForVolumeInner_def door_header_reads grant_credential_def split: prod.split)
qed

theorem access_needs_a_right_witness:
  "\<exists>volume \<in> set (db_volumes (aw_db door_world)). volume_named ''ann'' ''Docs'' volume"
proof -
  obtain w' answer where "davAuthForVolume (door_env Answered) ''ann'' ''Docs'' door_header False door_world = (w', Granted answer)"
    using door_admits by blast
  from access_needs_a_right[OF door_history _ _ this] show ?thesis by (auto simp: door_env_def)
qed

end
