(* ===== verification/Volume_Services.thy ===== *)
theory Volume_Services
  imports Api_Input Auth_Safety
begin

section \<open>Volumes and credentials: the services\<close>

text \<open>
  \<open>packages/backend-services/src/dav\<close>: \<open>VolumeService.ts\<close> and \<open>VolumeCredentialService.ts\<close>, over
  the tables of \<open>Control_Db\<close>. The account of an address is looked up by the package
  \<open>@rexezuge/identity\<close>, a function of the environment; so are the configured limits, the random
  values and \<open>TimestampUtil.addDays\<close>.
\<close>

record account =
  ac_id :: string
  ac_email :: string
  ac_anchorEmail :: string
  ac_username :: "string option"

text \<open>\<open>sv_usernames n\<close> and \<open>sv_uuid n\<close> are what is drawn in attempt \<open>n\<close>.\<close>

record service_env =
  sv_db :: db_env
  sv_lib :: hash_lib
  sv_account :: "string \<Rightarrow> string + account option"
  sv_uuid :: "nat \<Rightarrow> string"
  sv_salt :: string
  sv_secret :: string
  sv_usernames :: "nat \<Rightarrow> string \<Rightarrow> string"
  sv_addDays :: "int \<Rightarrow> int \<Rightarrow> int"
  sv_maxVolumes :: int
  sv_maxCredentials :: int
  sv_maxReplications :: int
  sv_defaultExpiryDays :: int
  sv_maxExpiryDays :: int

definition svc_catch :: "'a svc \<Rightarrow> (api_error \<Rightarrow> 'a svc) \<Rightarrow> 'a svc" where
  "svc_catch m handler = (\<lambda>db. case m db of (db', Inl e) \<Rightarrow> handler e db' | (db', Inr a) \<Rightarrow> (db', Inr a))"

subsection \<open>\<open>VolumeService.ts\<close>\<close>

definition normalizeOwner :: "string \<Rightarrow> string" where "normalizeOwner owner = trim owner"
definition normalizeName :: "string \<Rightarrow> string" where "normalizeName name = trim name"

definition assertValidOwner :: "string \<Rightarrow> api_error + unit" where
  "assertValidOwner owner = (if isValidUsername owner then Inr () else Inl (Bad_request ''Invalid owner name''))"

definition assertValidName :: "string \<Rightarrow> api_error + unit" where
  "assertValidName name = (if isValidVolumeName name then Inr () else Inl (Bad_request ''Invalid volume name''))"

definition countOwnedVolumes :: "service_env \<Rightarrow> account \<Rightarrow> int svc" where
  "countOwnedVolumes env account =
     svc_catch (svc_read (map_sum id int \<circ> countByOwnerUserId (sv_db env) (ac_id account)))
       (\<lambda>_. svc_catch (svc_read (map_sum id (int \<circ> length) \<circ> listByOwnerUserId (sv_db env) (ac_id account) 1000))
              (\<lambda>_. svc_value 0))"

definition getVolume :: "service_env \<Rightarrow> string \<Rightarrow> string \<Rightarrow> volume_row option svc" where
  "getVolume env owner name = svc_read (getByOwnerName (sv_db env) owner name)"

definition some_or :: "api_error \<Rightarrow> 'a option \<Rightarrow> 'a svc" where
  "some_or e r = (case r of Some a \<Rightarrow> svc_value a | None \<Rightarrow> svc_fail e)"

definition requireVolume :: "service_env \<Rightarrow> string \<Rightarrow> string \<Rightarrow> volume_row svc" where
  "requireVolume env owner name = svc_bind (getVolume env owner name) (some_or (Not_found ''Volume not found''))"

definition requireCallerAccount :: "service_env \<Rightarrow> string \<Rightarrow> account svc" where
  "requireCallerAccount env email =
     svc_bind (svc_read (\<lambda>_. sv_account env email))
       (some_or (Not_found ''No account is provisioned for this address; sign in again to provision one''))"

definition requireCallerUsername :: "account \<Rightarrow> api_error + string" where
  "requireCallerUsername account =
     (case ac_username account of
        Some u \<Rightarrow> if u = [] then Inl (Not_found ''No username is provisioned for this account; set one via PATCH /user/me/username'')
                  else Inr (to_lower u)
      | None \<Rightarrow> Inl (Not_found ''No username is provisioned for this account; set one via PATCH /user/me/username''))"

text \<open>\<open>mode\<close> is the raw \<open>hrefPrefixMode\<close>, which the row gets once the patch has been validated.\<close>

definition createVolume :: "service_env \<Rightarrow> string \<Rightarrow> string \<Rightarrow> volume_patch_input \<Rightarrow> string \<Rightarrow> volume_row svc" where
  "createVolume env owner0 name0 input creatorEmail =
     svc_bind (svc_pure (parseVolumePatch input)) (\<lambda>patch.
       let owner = normalizeOwner owner0; name = normalizeName name0 in
       svc_bind (svc_pure (assertValidOwner owner)) (\<lambda>_.
       svc_bind (svc_pure (assertValidName name)) (\<lambda>_.
       svc_bind (requireCallerAccount env creatorEmail) (\<lambda>account.
       svc_bind (svc_pure (requireCallerUsername account)) (\<lambda>callerUsername.
       svc_bind (svc_require (to_lower owner = callerUsername)
           (Forbidden ''Only the bucket owner can create buckets for this user'')) (\<lambda>_.
       svc_bind (countOwnedVolumes env account) (\<lambda>ownedCount.
       svc_bind (svc_pure (checkVolumeQuota ownedCount (sv_maxVolumes env))) (\<lambda>_.
       svc_bind (svc_catch (getVolume env owner name) (\<lambda>_. svc_value None)) (\<lambda>existing.
       svc_bind (svc_require (existing = None) (Bad_request ''Volume already exists'')) (\<lambda>_.
       svc_bind (svc_run (create_volume_row (sv_db env) (sv_uuid env 0) (ac_anchorEmail account) (ac_id account) owner name
           (vp_description patch) (case vp_isPrivate patch of Some b \<Rightarrow> b | None \<Rightarrow> True) (vp_hrefPrefixMode patch))) (\<lambda>_.
       svc_bind (svc_read (volume_by_id (sv_db env) (sv_uuid env 0)))
         (some_or (Not_found ''Volume not found after create'')))))))))))))"

definition updateVolume :: "service_env \<Rightarrow> string \<Rightarrow> string \<Rightarrow> viewer \<Rightarrow> volume_patch_input \<Rightarrow> volume_row svc" where
  "updateVolume env owner name viewer rawPatch =
     svc_bind (svc_pure (parseVolumePatch rawPatch)) (\<lambda>patch.
       svc_bind (requireVolume env owner name) (\<lambda>volume.
       svc_bind (svc_require (isVolumeOwner (Some viewer) volume) (Forbidden ''Only the bucket owner can update this bucket'')) (\<lambda>_.
       svc_bind (svc_require (vi_description rawPatch \<noteq> None \<or> vi_isPrivate rawPatch \<noteq> None \<or> vi_hrefPrefixMode rawPatch \<noteq> None)
           (Bad_request ''Nothing to update'')) (\<lambda>_.
       svc_bind (svc_run (update_volume_row (sv_db env) (vr_id volume) (Some (vp_description patch)) (vp_isPrivate patch)
           (vp_hrefPrefixMode patch))) (\<lambda>_.
       svc_bind (svc_read (volume_by_id (sv_db env) (vr_id volume)))
         (some_or (Not_found ''Volume not found after update'')))))))"

definition deleteVolume_service :: "service_env \<Rightarrow> string \<Rightarrow> string \<Rightarrow> unit svc" where
  "deleteVolume_service env owner name =
     svc_bind (requireVolume env owner name) (\<lambda>volume.
       svc_bind (svc_catch (svc_run (deleteByVolume (sv_db env) (vr_id volume))) (\<lambda>_. svc_value ())) (\<lambda>_.
       svc_run (delete_volume_row (sv_db env) (vr_id volume))))"

subsection \<open>\<open>VolumeCredentialService.ts\<close>\<close>

definition max_username_generation_attempts :: nat where "max_username_generation_attempts = 5"

definition resolveExpiryDays :: "service_env \<Rightarrow> json option \<Rightarrow> api_error + int" where
  "resolveExpiryDays env expiresInDays =
     (if absent expiresInDays then Inr (sv_defaultExpiryDays env)
      else (let numeric = (case expiresInDays of
                  Some (Json_str s) \<Rightarrow> if trim s \<noteq> [] \<and> list_all is_digit (trim s) then js_number (trim s) else None
                | Some (Json_num n) \<Rightarrow> Some n
                | _ \<Rightarrow> None)
            in case numeric of
                 None \<Rightarrow> Inl (Bad_request ''expiresInDays must be a positive integer'')
               | Some n \<Rightarrow>
                   if n \<noteq> of_int \<lfloor>n\<rfloor> \<or> \<bar>n\<bar> > of_nat max_safe_integer \<or> n < 1
                   then Inl (Bad_request ''expiresInDays must be a positive integer'')
                   else if \<lfloor>n\<rfloor> > sv_maxExpiryDays env
                   then Inl (Bad_request (''Credential expiry cannot exceed '' @ show_int (sv_maxExpiryDays env) @ '' days.''))
                   else Inr \<lfloor>n\<rfloor>))"

definition resolveName :: "json option \<Rightarrow> api_error + string" where
  "resolveName name =
     (let trimmed = (case name of Some (Json_str s) \<Rightarrow> trim s | _ \<Rightarrow> [])
      in if trimmed = [] then Inl (Bad_request ''name is required'')
         else if length trimmed > 100 then Inl (Bad_request ''name must be at most 100 characters'') else Inr trimmed)"

definition readFlag :: "json option \<Rightarrow> api_error + bool" where
  "readFlag readOnly =
     (if absent readOnly then Inr False
      else (case readOnly of Some (Json_bool b) \<Rightarrow> Inr b | _ \<Rightarrow> Inl (Bad_request ''readOnly must be a boolean'')))"

definition isUniqueConstraintError :: "string \<Rightarrow> bool" where
  "isUniqueConstraintError message \<longleftrightarrow> contains_sub (to_lower message) ''unique constraint''"

text \<open>The loop over generated usernames, from attempt \<open>n\<close> with \<open>k\<close> attempts left.\<close>

fun create_attempts ::
    "service_env \<Rightarrow> nat \<Rightarrow> nat \<Rightarrow> string \<Rightarrow> string \<Rightarrow> string \<Rightarrow> string \<Rightarrow> string \<Rightarrow> int \<Rightarrow> bool \<Rightarrow> credential_metadata svc" where
  "create_attempts env n 0 volumeId volumeName name password passwordHash expiresAt readOnly =
     svc_fail (Internal ''Failed to generate a unique credential username.'')"
| "create_attempts env n (Suc k) volumeId volumeName name password passwordHash expiresAt readOnly =
     (let username = sv_usernames env n volumeName;
          retry = create_attempts env (n + 1) k volumeId volumeName name password passwordHash expiresAt readOnly
      in svc_bind (svc_read (usernameExists (sv_db env) username)) (\<lambda>taken.
           if taken then retry
           else (\<lambda>db. case create_credential_row (sv_db env) (sv_uuid env n) volumeId username passwordHash name
                     (getPrefix password) (getLastFour password) expiresAt readOnly db of
                   (db', Inr metadata) \<Rightarrow> (db', Inr metadata)
                 | (db', Inl e) \<Rightarrow> if isUniqueConstraintError e then retry db' else (db', Inl (Database e)))))"

definition createCredential ::
    "service_env \<Rightarrow> string \<Rightarrow> string \<Rightarrow> json option \<Rightarrow> json option \<Rightarrow> json option \<Rightarrow> (string \<times> credential_metadata) svc" where
  "createCredential env volumeId volumeName name expiresInDays readOnly =
     svc_bind (svc_read (map_sum id int \<circ> count_credentials (sv_db env) volumeId)) (\<lambda>used.
       svc_bind (svc_require (used < sv_maxCredentials env)
           (Bad_request (''Maximum '' @ show_int (sv_maxCredentials env) @ '' credentials allowed per bucket.''))) (\<lambda>_.
       svc_bind (svc_pure (resolveName name)) (\<lambda>trimmedName.
       svc_bind (svc_pure (readFlag readOnly)) (\<lambda>readOnlyFlag.
       svc_bind (svc_pure (resolveExpiryDays env expiresInDays)) (\<lambda>effectiveDays.
       let password = generatePassword (sv_secret env) in
       svc_bind (svc_pure (map_sum Internal id (hashPassword (sv_lib env) (sv_salt env) password))) (\<lambda>passwordHash.
       let expiresAt = sv_addDays env (de_now (sv_db env)) effectiveDays in
       svc_bind (create_attempts env 0 max_username_generation_attempts volumeId volumeName trimmedName password passwordHash
           expiresAt readOnlyFlag) (\<lambda>metadata.
       svc_value (password, metadata))))))))"

definition listCredentials :: "service_env \<Rightarrow> string \<Rightarrow> credential_metadata list svc" where
  "listCredentials env volumeId = svc_read (credentials_of_volume (sv_db env) volumeId)"

definition deleteCredential :: "service_env \<Rightarrow> string \<Rightarrow> string \<Rightarrow> unit svc" where
  "deleteCredential env volumeId credentialId = svc_run (deleteForVolume (sv_db env) credentialId volumeId)"

definition setCredentialReadOnly :: "service_env \<Rightarrow> string \<Rightarrow> string \<Rightarrow> json option \<Rightarrow> credential_metadata svc" where
  "setCredentialReadOnly env volumeId credentialId readOnly =
     svc_bind (svc_pure (readFlag readOnly)) (\<lambda>flag.
       svc_bind (svc_run (updateReadOnly (sv_db env) credentialId volumeId flag)) (\<lambda>_.
       svc_bind (svc_read (credential_by_id (sv_db env) credentialId)) (\<lambda>updated.
       case updated of
         None \<Rightarrow> svc_fail (Not_found ''Credential not found.'')
       | Some m \<Rightarrow> if cm_volumeId m \<noteq> volumeId then svc_fail (Not_found ''Credential not found.'') else svc_value m)))"

end
