(* ===== verification/Service_Rules.thy ===== *)
theory Service_Rules
  imports Volume_Services
begin

section \<open>Reasoning about services\<close>

text \<open>
  Rules to step through a service that succeeded or failed, the services that only read, and the
  invariants that a service keeps.
\<close>

text \<open>A database whose statements do not fail.\<close>

definition working :: "service_env \<Rightarrow> bool" where
  "working env \<longleftrightarrow> de_fails (sv_db env) = (\<lambda>_. None)"

named_theorems svc_simps \<open>stepping through a service\<close>

lemma svc_bind_Inr [svc_simps]:
  "svc_bind m f db = (db', Inr b) \<longleftrightarrow> (\<exists>db1 a. m db = (db1, Inr a) \<and> f a db1 = (db', Inr b))"
  by (auto simp: svc_bind_def split: prod.splits sum.splits)

lemma svc_Inr [svc_simps]:
  "svc_value a db = (db', Inr b) \<longleftrightarrow> db' = db \<and> b = a"
  "svc_fail e db = (db', Inr b) \<longleftrightarrow> False"
  "svc_pure r db = (db', Inr b) \<longleftrightarrow> db' = db \<and> r = Inr b"
  "svc_require c e db = (db', Inr u) \<longleftrightarrow> db' = db \<and> c"
  by (auto simp: svc_value_def svc_fail_def svc_pure_def svc_require_def)

lemma svc_read_Inr [svc_simps]: "svc_read q db = (db', Inr b) \<longleftrightarrow> db' = db \<and> q db = Inr b"
  by (cases "q db") (auto simp: svc_read_def)

lemma map_sum_Inr: "map_sum f g r = Inr b \<longleftrightarrow> (\<exists>a. r = Inr a \<and> b = g a)"
  by (cases r) auto

lemma svc_Inl [svc_simps]:
  "svc_value a db = (db', Inl e) \<longleftrightarrow> False"
  "svc_fail e' db = (db', Inl e) \<longleftrightarrow> db' = db \<and> e' = e"
  "svc_pure r db = (db', Inl e) \<longleftrightarrow> db' = db \<and> r = Inl e"
  "svc_require c e' db = (db', Inl e) \<longleftrightarrow> db' = db \<and> \<not> c \<and> e' = e"
  "svc_run f db = (db', Inl e) \<longleftrightarrow> (\<exists>m. f db = (db', Some m) \<and> e = Database m)"
  by (auto simp: svc_value_def svc_fail_def svc_pure_def svc_require_def svc_run_def split: prod.splits option.splits)

lemma svc_read_Inl [svc_simps]: "svc_read q db = (db', Inl e) \<longleftrightarrow> db' = db \<and> (\<exists>m. q db = Inl m \<and> e = Database m)"
  by (cases "q db") (auto simp: svc_read_def)

lemma svc_run_Inr [svc_simps]: "svc_run q db = (db', Inr u) \<longleftrightarrow> q db = (db', None)"
  by (auto simp: svc_run_def split: prod.splits option.splits)

lemma some_or_Inr [svc_simps]: "some_or e r db = (db', Inr a) \<longleftrightarrow> db' = db \<and> r = Some a"
  by (cases r) (auto simp: some_or_def svc_simps)

lemma svc_catch_Inr:
  "svc_catch m h db = (db', Inr a) \<longleftrightarrow> m db = (db', Inr a) \<or> (\<exists>db1 e. m db = (db1, Inl e) \<and> h e db1 = (db', Inr a))"
  by (auto simp: svc_catch_def split: prod.splits sum.splits)

text \<open>A service that only reads.\<close>

definition reads_only :: "'a svc \<Rightarrow> bool" where
  "reads_only m \<longleftrightarrow> (\<forall>db. fst (m db) = db)"

named_theorems reads_only

lemma reads_only_basic [reads_only]: "reads_only (svc_value a)" "reads_only (svc_fail e)" "reads_only (svc_pure r)"
  "reads_only (svc_read q)" "reads_only (svc_require c e)" "reads_only (some_or e s)"
  by (auto simp: reads_only_def svc_value_def svc_fail_def svc_pure_def svc_read_def svc_require_def some_or_def split: option.split)

lemma reads_only_bind [reads_only]: "reads_only m \<Longrightarrow> (\<And>a. reads_only (f a)) \<Longrightarrow> reads_only (svc_bind m f)"
  by (auto simp: reads_only_def svc_bind_def split: prod.splits sum.splits) (metis fst_conv)+

lemma reads_only_catch [reads_only]: "reads_only m \<Longrightarrow> (\<And>e. reads_only (h e)) \<Longrightarrow> reads_only (svc_catch m h)"
  by (auto simp: reads_only_def svc_catch_def split: prod.splits sum.splits) (metis fst_conv)+

lemma reads_only_fst: "reads_only m \<Longrightarrow> m db = (db', r) \<Longrightarrow> db' = db"
  by (metis fst_conv reads_only_def)

lemma reads_only_Inr: "reads_only m \<Longrightarrow> m db = (db', r) \<longleftrightarrow> db' = db \<and> snd (m db) = r"
  by (metis prod.collapse prod.inject reads_only_def)

lemma find_append_last: "\<forall>x\<in>set xs. \<not> P x \<Longrightarrow> P y \<Longrightarrow> find P (xs @ [y]) = Some y"
  by (induction xs) auto

lemma find_replaced:
  "\<lbrakk>v \<in> set xs; \<forall>r\<in>set xs. k r = k v \<longrightarrow> r = v; k u = k v\<rbrakk>
   \<Longrightarrow> find (\<lambda>r. k r = k v) (map (\<lambda>r. if r = v then u else r) xs) = Some u"
  by (induction xs) auto

lemma svc_bind_Inl: "svc_bind m f db = (db', Inl e) \<longleftrightarrow>
    m db = (db', Inl e) \<or> (\<exists>db1 a. m db = (db1, Inr a) \<and> f a db1 = (db', Inl e))"
  by (auto simp: svc_bind_def split: prod.splits sum.splits)

text \<open>A service that keeps an invariant, and one that leaves no trace when it fails.\<close>

definition svc_keeps :: "(database \<Rightarrow> bool) \<Rightarrow> 'a svc \<Rightarrow> bool" where
  "svc_keeps P m \<longleftrightarrow> (\<forall>db. P db \<longrightarrow> P (fst (m db)))"

named_theorems svc_keeps

lemma svc_keeps_reads [svc_keeps]: "reads_only m \<Longrightarrow> svc_keeps P m"
  by (simp add: reads_only_def svc_keeps_def)

lemma svc_keeps_bind [svc_keeps]: "svc_keeps P m \<Longrightarrow> (\<And>a. svc_keeps P (f a)) \<Longrightarrow> svc_keeps P (svc_bind m f)"
  by (force simp: svc_keeps_def svc_bind_def split: prod.splits sum.splits)

lemma svc_keeps_catch [svc_keeps]: "svc_keeps P m \<Longrightarrow> (\<And>e. svc_keeps P (h e)) \<Longrightarrow> svc_keeps P (svc_catch m h)"
  by (force simp: svc_keeps_def svc_catch_def split: prod.splits sum.splits)

lemma svc_keeps_run [svc_keeps]: "(\<And>db. P db \<Longrightarrow> P (fst (q db))) \<Longrightarrow> svc_keeps P (svc_run q)"
  by (force simp: svc_keeps_def svc_run_def split: prod.splits option.splits)

text \<open>The same, for one state: what was read is known when the rest of the service runs.\<close>

lemma read_then: "\<lbrakk>P db; reads_only m; \<And>a. m db = (db, Inr a) \<Longrightarrow> P (fst (f a db))\<rbrakk> \<Longrightarrow> P (fst (svc_bind m f db))"
  by (cases "m db") (auto simp: svc_bind_def dest: reads_only_fst split: sum.split)

lemma write_then: "\<lbrakk>P (fst (q db)); reads_only m\<rbrakk> \<Longrightarrow> P (fst (svc_bind (svc_run q) (\<lambda>_. m) db))"
  by (cases "q db") (auto simp: svc_bind_def svc_run_def reads_only_def split: option.splits)

text \<open>A run that was refused has left the database as it was.\<close>

definition clean :: "database \<Rightarrow> database \<times> (api_error + 'a) \<Rightarrow> bool" where
  "clean db result \<longleftrightarrow> (\<forall>e. snd result = Inl e \<longrightarrow> fst result = db)"

lemma clean_read_then: "\<lbrakk>reads_only m; \<And>a. m db = (db, Inr a) \<Longrightarrow> clean db (f a db)\<rbrakk> \<Longrightarrow> clean db (svc_bind m f db)"
  by (cases "m db") (auto simp: svc_bind_def clean_def dest: reads_only_fst split: sum.split)

lemma clean_write_then:
  "\<lbrakk>\<And>db' e. q db = (db', Some e) \<Longrightarrow> db' = db; \<And>db'. q db = (db', None) \<Longrightarrow> \<exists>a. snd (m db') = Inr a\<rbrakk>
   \<Longrightarrow> clean db (svc_bind (svc_run q) (\<lambda>_. m) db)"
  by (cases "q db"; cases "snd (q db)") (auto simp: svc_bind_def svc_run_def clean_def)

end
