(* ===== verification/Volume_Safety.thy ===== *)
theory Volume_Safety
  imports Service_Rules
begin

section \<open>What the volume and credential services guarantee\<close>

text \<open>
  The services change the control database the way they say, and what they issue works at the front
  door: a credential that was created opens its volume, and one that was deleted opens nothing,
  whatever the caches hold.
\<close>

lemma reads_only_volume [reads_only]: "reads_only (getVolume env owner name)" "reads_only (requireVolume env owner name)"
  "reads_only (requireCallerAccount env email)" "reads_only (countOwnedVolumes env account)"
  unfolding getVolume_def requireVolume_def requireCallerAccount_def countOwnedVolumes_def
  by (intro reads_only)+

lemmas volume_reads_Inr = reads_only_volume[THEN reads_only_Inr]

subsection \<open>Volumes\<close>

definition new_volume_row :: "service_env \<Rightarrow> account \<Rightarrow> string \<Rightarrow> string \<Rightarrow> volume_patch \<Rightarrow> volume_row" where
  "new_volume_row env account owner name patch =
     \<lparr>vr_id = sv_uuid env 0, vr_ownerEmail = ac_anchorEmail account, vr_ownerUserId = Some (ac_id account), vr_owner = owner,
      vr_name = name, vr_description = vp_description patch,
      vr_isPrivate = flag (case vp_isPrivate patch of Some b \<Rightarrow> b | None \<Rightarrow> True), vr_createdAt = de_now (sv_db env),
      vr_updatedAt = de_now (sv_db env), vr_ownerCi = to_lower owner, vr_nameCi = to_lower name,
      vr_hrefPrefixMode = (case vp_hrefPrefixMode patch of Some m \<Rightarrow> m | None \<Rightarrow> default_href_prefix_mode)\<rparr>"

lemma create_volume_row_None:
  "create_volume_row env volumeId ownerEmail ownerUserId owner name description isPrivate mode db = (db', None) \<longleftrightarrow>
     de_fails env (''DavVolumeDAO.create'', [volumeId]) = None
     \<and> volumeId \<notin> vr_id ` set (db_volumes db)
     \<and> (to_lower owner, to_lower name) \<notin> (\<lambda>r. (vr_ownerCi r, vr_nameCi r)) ` set (db_volumes db)
     \<and> db' = db\<lparr>db_volumes := db_volumes db @
          [\<lparr>vr_id = volumeId, vr_ownerEmail = ownerEmail, vr_ownerUserId = Some ownerUserId, vr_owner = owner, vr_name = name,
            vr_description = description, vr_isPrivate = flag isPrivate, vr_createdAt = de_now env,
            vr_updatedAt = de_now env, vr_ownerCi = to_lower owner, vr_nameCi = to_lower name,
            vr_hrefPrefixMode = (case mode of Some m \<Rightarrow> m | None \<Rightarrow> default_href_prefix_mode)\<rparr>]\<rparr>"
  by (auto simp: create_volume_row_def db_run_def split: option.splits)

text \<open>
  A bucket is created in its creator's own namespace, private unless asked otherwise: when
  the service reports success, the table of volumes has exactly one row more, under an identifier
  and a name no volume had; its owner is the username of the account of the caller's address, up
  to case, and the row belongs to that account; owner and name are valid; it is public only if the
  body says so with a boolean; the number of volumes the account owned was below the quota,
  if it could be counted.
\<close>

theorem bucket_belongs_to_its_creator:
  assumes "createVolume env owner name input email db = (db', Inr row)"
  shows "\<exists>account username. sv_account env email = Inr (Some account) \<and> ac_username account = Some username
    \<and> db' = db\<lparr>db_volumes := db_volumes db @ [row]\<rparr>
    \<and> vr_id row \<notin> vr_id ` set (db_volumes db)
    \<and> \<not> (\<exists>r\<in>set (db_volumes db). vr_ownerCi r = to_lower (trim owner) \<and> vr_nameCi r = to_lower (trim name))
    \<and> vr_owner row = trim owner \<and> vr_name row = trim name \<and> to_lower (trim owner) = to_lower username
    \<and> vr_ownerUserId row = Some (ac_id account)
    \<and> isValidUsername (vr_owner row) \<and> isValidVolumeName (vr_name row)
    \<and> (vr_isPrivate row \<noteq> 1 \<longrightarrow> vi_isPrivate input = Some (Json_bool False))
    \<and> (working env \<longrightarrow> int (length (filter (\<lambda>r. vr_ownerUserId r = Some (ac_id account)) (db_volumes db))) < sv_maxVolumes env)"
proof -
  let ?db = "sv_db env"
  obtain patch account username n where steps: "parseVolumePatch input = Inr patch" "isValidUsername (trim owner)"
    "isValidVolumeName (trim name)" "sv_account env email = Inr (Some account)"
    "requireCallerUsername account = Inr username" "to_lower (trim owner) = username"
    "snd (countOwnedVolumes env account db) = Inr n" "n < sv_maxVolumes env"
    and created: "create_volume_row ?db (sv_uuid env 0) (ac_anchorEmail account) (ac_id account) (trim owner) (trim name)
         (vp_description patch) (case vp_isPrivate patch of Some b \<Rightarrow> b | None \<Rightarrow> True) (vp_hrefPrefixMode patch) db = (db', None)"
    and found: "volume_by_id ?db (sv_uuid env 0) db' = Inr (Some row)"
    using assms
    by (auto simp: createVolume_def Let_def svc_simps volume_reads_Inr(4) svc_catch_Inr assertValidOwner_def
          assertValidName_def checkVolumeQuota_def requireCallerAccount_def normalizeOwner_def normalizeName_def getVolume_def
        split: if_splits)
  let ?new = "new_volume_row env account (trim owner) (trim name) patch"
  from created have new: "db' = db\<lparr>db_volumes := db_volumes db @ [?new]\<rparr>" "sv_uuid env 0 \<notin> vr_id ` set (db_volumes db)"
    "(to_lower (trim owner), to_lower (trim name)) \<notin> (\<lambda>r. (vr_ownerCi r, vr_nameCi r)) ` set (db_volumes db)"
    by (simp_all add: create_volume_row_None new_volume_row_def)
  have "find (\<lambda>r. vr_id r = sv_uuid env 0) (db_volumes db') = Some ?new"
    using new find_append_last[of "db_volumes db" "\<lambda>r. vr_id r = sv_uuid env 0" ?new] by (force simp: new_volume_row_def)
  then have row: "row = ?new"
    using found by (simp add: volume_by_id_def db_read_def split: option.splits)
  obtain u where u: "ac_username account = Some u" "username = to_lower u"
    using steps(5) by (auto simp: requireCallerUsername_def split: option.splits if_splits)
  have count: "n = int (length (filter (\<lambda>r. vr_ownerUserId r = Some (ac_id account)) (db_volumes db)))" if "working env"
    using steps(7) that
    by (simp add: countOwnedVolumes_def svc_catch_def working_def countByOwnerUserId_def db_read_def svc_read_def)
  have open_to_all: "vi_isPrivate input = Some (Json_bool False)" if "vr_isPrivate row \<noteq> 1"
    using that steps(1) by (auto simp: row new_volume_row_def flag_def parseVolumePatch_def
      split: option.splits json.splits sum.splits if_splits)
  have "\<not> (\<exists>r\<in>set (db_volumes db). vr_ownerCi r = to_lower (trim owner) \<and> vr_nameCi r = to_lower (trim name))"
    using new(3) by force
  then show ?thesis
    using new(1,2) row steps u count open_to_all by (intro exI[of _ account] exI[of _ u]) (auto simp: new_volume_row_def)
qed

subsection \<open>Credentials\<close>

lemma create_credential_row_Inr:
  assumes "de_fails env = (\<lambda>_. None)"
    and "create_credential_row env credentialId volumeId username passwordHash name prefix lastFour expiresAt readOnly db = (db', Inr m)"
  defines "row \<equiv> \<lparr>cr_id = credentialId, cr_volumeId = volumeId, cr_username = username, cr_passwordHash = passwordHash,
             cr_name = name, cr_passwordPrefix = prefix, cr_passwordLastFour = lastFour,
             cr_createdAt = de_now env, cr_expiresAt = expiresAt, cr_lastUsedAt = None,
             cr_readOnly = Some (flag readOnly)\<rparr>"
  shows "db' = db\<lparr>db_credentials := db_credentials db @ [row]\<rparr>" "m = toMetadata row"
    "username \<notin> cr_username ` set (db_credentials db)" "credentialId \<notin> cr_id ` set (db_credentials db)"
    "volumeId \<in> vr_id ` set (db_volumes db)"
proof -
  have run: "username \<notin> cr_username ` set (db_credentials db)" "credentialId \<notin> cr_id ` set (db_credentials db)"
    "volumeId \<in> vr_id ` set (db_volumes db)" "db' = db\<lparr>db_credentials := db_credentials db @ [row]\<rparr>"
    using assms(1,2) by (auto simp: create_credential_row_def db_run_def row_def split: if_splits)
  then show "db' = db\<lparr>db_credentials := db_credentials db @ [row]\<rparr>"
    "username \<notin> cr_username ` set (db_credentials db)" "credentialId \<notin> cr_id ` set (db_credentials db)"
    "volumeId \<in> vr_id ` set (db_volumes db)"
    by simp_all
  have "find (\<lambda>r. cr_id r = credentialId) (db_credentials db') = Some row"
    using run(2,4) find_append_last[of "db_credentials db" "\<lambda>r. cr_id r = credentialId" row] by (force simp: row_def)
  then show "m = toMetadata row"
    using assms(1,2) run(4) by (auto simp: create_credential_row_def db_run_def row_def credential_by_id_def db_read_def split: if_splits)
qed

lemma create_credential_row_Inl:
  "de_fails env = (\<lambda>_. None)
   \<Longrightarrow> create_credential_row env credentialId volumeId username passwordHash name prefix lastFour expiresAt readOnly db = (db', Inl e)
   \<Longrightarrow> db' = db"
  using find_append_last[of "db_credentials db" "\<lambda>r. cr_id r = credentialId"]
  by (force simp: create_credential_row_def db_run_def credential_by_id_def db_read_def split: if_splits option.splits)

lemma create_attempts_Inr:
  assumes "working env"
    and "create_attempts env n k volumeId volumeName name password passwordHash expiresAt readOnly db = (db', Inr m)"
  shows "\<exists>i. db' = db\<lparr>db_credentials := db_credentials db @
      [\<lparr>cr_id = sv_uuid env i, cr_volumeId = volumeId, cr_username = sv_usernames env i volumeName, cr_passwordHash = passwordHash,
        cr_name = name, cr_passwordPrefix = getPrefix password, cr_passwordLastFour = getLastFour password,
        cr_createdAt = de_now (sv_db env), cr_expiresAt = expiresAt, cr_lastUsedAt = None, cr_readOnly = Some (flag readOnly)\<rparr>]\<rparr>
    \<and> m = toMetadata (last (db_credentials db')) \<and> n \<le> i \<and> i < n + k
    \<and> sv_usernames env i volumeName \<notin> cr_username ` set (db_credentials db)
    \<and> sv_uuid env i \<notin> cr_id ` set (db_credentials db) \<and> volumeId \<in> vr_id ` set (db_volumes db)"
  using assms(2)
proof (induction k arbitrary: n)
  case (Suc k)
  have up: "de_fails (sv_db env) = (\<lambda>_. None)" using assms(1) by (simp add: working_def)
  show ?case
  proof (cases "create_attempts env (n + 1) k volumeId volumeName name password passwordHash expiresAt readOnly db = (db', Inr m)")
    case True
    then show ?thesis using Suc.IH[of "n + 1"] by force
  next
    case False
    then have "create_credential_row (sv_db env) (sv_uuid env n) volumeId (sv_usernames env n volumeName) passwordHash name
        (getPrefix password) (getLastFour password) expiresAt readOnly db = (db', Inr m)"
      using Suc.prems
      by (auto simp: svc_simps Let_def dest: create_credential_row_Inl[OF up] split: if_splits prod.splits sum.splits)
    from create_credential_row_Inr[OF up this] show ?thesis by (intro exI[of _ n]) simp
  qed
qed (simp add: svc_simps)

lemma createCredential_Inr:
  assumes "createCredential env volumeId volumeName name days readOnly db = (db', Inr (password, m))" and "working env"
  shows "\<exists>stored i effectiveDays trimmedName.
      hashPassword (sv_lib env) (sv_salt env) password = Inr stored
      \<and> password = ''ddav_'' @ sv_secret env \<and> resolveExpiryDays env days = Inr effectiveDays
      \<and> resolveName name = Inr trimmedName
      \<and> readFlag readOnly = Inr (cm_readOnly m) \<and> cm_volumeId m = volumeId
      \<and> cm_expiresAt m = sv_addDays env (de_now (sv_db env)) effectiveDays
      \<and> cm_username m = sv_usernames env i volumeName
      \<and> cm_username m \<notin> cr_username ` set (db_credentials db)
      \<and> int (length (filter (\<lambda>r. cr_volumeId r = volumeId) (db_credentials db))) < sv_maxCredentials env
      \<and> (\<exists>row. db' = db\<lparr>db_credentials := db_credentials db @ [row]\<rparr> \<and> m = toMetadata row
           \<and> cr_passwordHash row = stored \<and> cr_readOnly row = Some (flag (cm_readOnly m)))"
proof -
  obtain n effectiveDays trimmedName stored flag where steps:
    "count_credentials (sv_db env) volumeId db = Inr n" "int n < sv_maxCredentials env"
    "resolveName name = Inr trimmedName" "readFlag readOnly = Inr flag" "resolveExpiryDays env days = Inr effectiveDays"
    "hashPassword (sv_lib env) (sv_salt env) password = Inr stored" "password = generatePassword (sv_secret env)"
    and attempts: "create_attempts env 0 max_username_generation_attempts volumeId volumeName trimmedName password stored
      (sv_addDays env (de_now (sv_db env)) effectiveDays) flag db = (db', Inr m)"
    using assms(1) unfolding createCredential_def Let_def svc_simps map_sum_Inr comp_apply
    by clarsimp
  have "n = length (filter (\<lambda>r. cr_volumeId r = volumeId) (db_credentials db))"
    using steps(1) assms(2) by (simp add: count_credentials_def db_read_def working_def)
  moreover obtain i row where i: "row = \<lparr>cr_id = sv_uuid env i, cr_volumeId = volumeId,
        cr_username = sv_usernames env i volumeName, cr_passwordHash = stored,
        cr_name = trimmedName, cr_passwordPrefix = getPrefix password, cr_passwordLastFour = getLastFour password,
        cr_createdAt = de_now (sv_db env), cr_expiresAt = sv_addDays env (de_now (sv_db env)) effectiveDays,
        cr_lastUsedAt = None, cr_readOnly = Some (Control_Db.flag flag)\<rparr>"
    and created: "db' = db\<lparr>db_credentials := db_credentials db @ [row]\<rparr>" "m = toMetadata row"
    "sv_usernames env i volumeName \<notin> cr_username ` set (db_credentials db)"
    using create_attempts_Inr[OF assms(2) attempts] by auto
  moreover have "cm_readOnly m = flag" "cm_username m = sv_usernames env i volumeName" "cm_volumeId m = volumeId"
    "cm_expiresAt m = sv_addDays env (de_now (sv_db env)) effectiveDays"
    by (simp_all add: created(2) i toMetadata_def Control_Db.flag_def)
  ultimately show ?thesis
    using steps by (intro exI[of _ stored] exI[of _ i] exI[of _ effectiveDays] exI[of _ trimmedName] conjI exI[of _ row])
      (simp_all add: generatePassword_def)
qed

definition generated :: "service_env \<Rightarrow> bool" where
  "generated env \<longleftrightarrow> (\<forall>n v. \<exists>ds es fs. generateUsername ds es fs v = Some (sv_usernames env n v))"

text \<open>
  C20. A credential that was issued opens its volume: right after the service has reported a new
  credential, and until that expires, a request to the volume which presents its username and
  password is granted, in any state of the caches a deployment can reach; if the credential was
  asked to be read-only, a write is refused with 403, and it is granted otherwise.
\<close>

theorem issued_credential_opens_its_volume:
  assumes "createCredential env (vr_id volume) (vr_name volume) name days readOnly db = (db', Inr (password, m))"
    and "working env" "generated env" "sv_salt env \<noteq> []"
    and "\<forall>bytes. hl_pbkdf2 (sv_lib env) password (sv_salt env) pbkdf2_iterations = Inr bytes \<longrightarrow> bytes \<noteq> []"
    and "auth_history (ae_lib door) (ae_fingerprint door) R w" "aw_db w = db'" "ae_lib door = sv_lib env"
    and "de_fails (ae_db door) = (\<lambda>_. None)" "de_now (ae_db door) < cm_expiresAt m"
    and "find (volume_named owner volumeName) (db_volumes db) = Some volume"
  shows "case snd (davAuthForVolume door owner volumeName (Some (''Basic '' @ btoa (cm_username m @ '':'' @ password))) needWrite w) of
      Granted answer \<Rightarrow> \<not> (needWrite \<and> readOnly = Some (Json_bool True)) \<and> da_volume answer = vr_name volume
    | Refused r \<Rightarrow> needWrite \<and> readOnly = Some (Json_bool True) \<and> r = readOnlyCredentialDav"
proof -
  obtain stored i row where hash: "hashPassword (sv_lib env) (sv_salt env) password = Inr stored"
    and password: "password = ''ddav_'' @ sv_secret env" and flag: "readFlag readOnly = Inr (cm_readOnly m)"
    and username: "cm_username m = sv_usernames env i (vr_name volume)" "cm_username m \<notin> cr_username ` set (db_credentials db)"
    and row: "db' = db\<lparr>db_credentials := db_credentials db @ [row]\<rparr>" "m = toMetadata row" "cr_passwordHash row = stored"
      "cr_readOnly row = Some (Control_Db.flag (cm_readOnly m))" "cm_volumeId m = vr_id volume"
    using createCredential_Inr[OF assms(1,2)] by blast
  obtain bytes where bytes: "hl_pbkdf2 (sv_lib env) password (sv_salt env) pbkdf2_iterations = Inr bytes"
    using hash by (cases "hl_pbkdf2 (sv_lib env) password (sv_salt env) pbkdf2_iterations") (auto simp: hashPassword_def)
  have valid: "verifies (ae_lib door) password (cr_passwordHash row)"
    using hash_verifies[OF hash assms(4) bytes _ bytes] assms(5,8) bytes row(3) by (simp add: verifies_def)
  obtain ds es fs where "generateUsername ds es fs (vr_name volume) = Some (cm_username m)"
    using assms(3) unfolding generated_def username(1) by blast
  from generated_username_basic[OF this]
  have header: "getBasicCredentials (Some (''Basic '' @ btoa (cm_username m @ '':'' @ password))) = Some (cm_username m, password)"
    by (intro parse_basic_header) (simp_all add: password)
  have "db_credentials (aw_db w) = db_credentials db @ [row]" "cm_username m = cr_username row" "cm_expiresAt m = cr_expiresAt row"
    using assms(7) by (simp_all add: row(1,2) toMetadata_def)
  moreover from this have "find (\<lambda>r. cr_username r = cm_username m \<and> cr_expiresAt r > de_now (ae_db door)) (db_credentials db @ [row]) = Some row"
    using assms(10) username(2) by (intro find_append_last) (auto intro: image_eqI[OF sym])
  ultimately have stored: "find (\<lambda>r. cr_username r = cm_username m \<and> cr_expiresAt r > de_now (ae_db door)) (db_credentials (aw_db w)) = Some row"
    by simp
  have volume: "find (volume_named owner volumeName) (db_volumes (aw_db w)) = Some volume" "cr_volumeId row = vr_id volume"
    "cr_readOnly row = Some (if readOnly = Some (Json_bool True) then 1 else 0)"
    using assms(7,11) row flag
    by (auto simp: toMetadata_def Control_Db.flag_def readFlag_def absent_def split: if_splits json.splits option.splits)
  from davAuth_valid[OF assms(6,9) volume(1) header stored volume(2) valid, of needWrite] show ?thesis
    using volume(3) by (auto split: if_splits)
qed

lemma davAuth_unknown:
  assumes "getBasicCredentials header = Some (username, password)"
    and "username \<notin> cr_username ` set (db_credentials (aw_db w))"
  shows "\<exists>r. davAuthForVolume door owner volumeName header needWrite w = (w, Refused r)"
proof -
  have "find (\<lambda>r. cr_username r = username \<and> cr_expiresAt r > de_now (ae_db door)) (db_credentials (aw_db w)) = None"
    using assms(2) by (auto simp: find_None_iff)
  then show ?thesis using assms(1)
    by (auto simp: davAuthForVolume_def davAuthForVolumeInner_def getActiveByUsername_def db_read_def getByOwnerName_def
        split: option.splits sum.splits)
qed

lemma davAuth_no_volume:
  assumes "find (volume_named owner volumeName) (db_volumes (aw_db w)) = None"
  shows "\<exists>r. davAuthForVolume door owner volumeName header needWrite w = (w, Refused r) \<and> rs_status r \<in> {404, 503}"
  using assms
  by (auto simp: davAuthForVolume_def davAuthForVolumeInner_def getByOwnerName_def db_read_def respond_def respond_with_def
      split: option.splits)

text \<open>
  C21. Revocation is immediate: once the service has reported that a credential was deleted, every
  request with its username is refused, whatever the caches still hold and whichever password comes
  with it; the credentials of other volumes and the other credentials of this one are all still
  there.
\<close>

theorem revoked_credential_opens_nothing:
  assumes "deleteCredential env volumeId credentialId db = (db', Inr ())"
    and "row \<in> set (db_credentials db)" "cr_id row = credentialId" "cr_volumeId row = volumeId"
    and "distinct (map cr_username (db_credentials db))"
    and "aw_db w = db'" "getBasicCredentials header = Some (cr_username row, password)"
  shows "(\<exists>r. davAuthForVolume door owner volumeName header needWrite w = (w, Refused r))
    \<and> (\<forall>other \<in> set (db_credentials db). cr_id other \<noteq> credentialId \<or> cr_volumeId other \<noteq> volumeId
         \<longrightarrow> other \<in> set (db_credentials db'))"
proof -
  have db': "db' = db\<lparr>db_credentials := filter (\<lambda>r. \<not> (cr_id r = credentialId \<and> cr_volumeId r = volumeId)) (db_credentials db)\<rparr>"
    using assms(1) by (auto simp: deleteCredential_def svc_simps deleteForVolume_def db_run_def split: option.splits)
  have "cr_username row \<notin> cr_username ` set (db_credentials (aw_db w))"
    using assms(2-6) by (auto simp: db' distinct_map inj_on_def)
  from davAuth_unknown[OF assms(7) this] show ?thesis by (auto simp: db')
qed

text \<open>The volumes as the database keeps them: identifiers and names are unique.\<close>

definition volumes_unique :: "database \<Rightarrow> bool" where
  "volumes_unique db \<longleftrightarrow> distinct (map vr_id (db_volumes db)) \<and> distinct (map volume_key (db_volumes db))"

lemma requireVolume_Inr:
  "requireVolume env owner name db = (db', Inr volume) \<longleftrightarrow> db' = db \<and> getByOwnerName (sv_db env) owner name db = Inr (Some volume)"
  by (auto simp: requireVolume_def getVolume_def svc_simps)

lemma getByOwnerName_Some: "getByOwnerName env owner name db = Inr (Some volume)
  \<Longrightarrow> volume \<in> set (db_volumes db) \<and> volume_named owner name volume"
  by (auto simp: getByOwnerName_def db_read_def dest: found_member split: option.splits)

text \<open>
  C22. A deleted volume is gone for good: when the service reports that a volume was deleted, there
  was one of that name; now every request for the name is refused as not found (or as unavailable
  when the database cannot be read), no credential and no replication of the volume is left, not
  even if deleting the credentials had failed, and every other volume has kept its row and its
  credentials.
\<close>

theorem deleted_volume_is_gone:
  assumes "deleteVolume_service env owner name db = (db', Inr ())" "volumes_unique db" "aw_db w = db'"
  shows "\<exists>volume \<in> set (db_volumes db). volume_named owner name volume
    \<and> (\<exists>r. davAuthForVolume door owner name header needWrite w = (w, Refused r) \<and> rs_status r \<in> {404, 503})
    \<and> (\<forall>c \<in> set (db_credentials db'). cr_volumeId c \<noteq> vr_id volume)
    \<and> (\<forall>t \<in> set (db_replications db'). rr_volumeId t \<noteq> vr_id volume)
    \<and> set (db_volumes db') = set (db_volumes db) - {volume}
    \<and> (\<forall>c \<in> set (db_credentials db). cr_volumeId c \<noteq> vr_id volume \<longrightarrow> c \<in> set (db_credentials db'))"
proof -
  obtain volume db1 where volume: "getByOwnerName (sv_db env) owner name db = Inr (Some volume)"
    and creds: "db1 = db \<or> db1 = db\<lparr>db_credentials := filter (\<lambda>r. cr_volumeId r \<noteq> vr_id volume) (db_credentials db)\<rparr>"
    and dropped: "delete_volume_row (sv_db env) (vr_id volume) db1 = (db', None)"
    using assms(1)
    by (auto simp: deleteVolume_service_def svc_simps requireVolume_Inr svc_catch_Inr deleteByVolume_def db_run_def
        split: option.splits)
  note found = getByOwnerName_Some[OF volume]
  have rows: "db_volumes db1 = db_volumes db" using creds by auto
  have db': "db_volumes db' = filter (\<lambda>r. vr_id r \<noteq> vr_id volume) (db_volumes db)"
    "db_credentials db' = filter (\<lambda>c. cr_volumeId c \<noteq> vr_id volume) (db_credentials db)"
    "\<forall>t \<in> set (db_replications db'). rr_volumeId t \<noteq> vr_id volume"
    using dropped creds found
    by (auto simp: delete_volume_row_def db_run_def drop_replications_def rows split: option.splits if_splits)
  have others: "set (db_volumes db') = set (db_volumes db) - {volume}"
    using assms(2) found by (auto simp: db'(1) volumes_unique_def distinct_map inj_on_def)
  have "find (volume_named owner name) (db_volumes (aw_db w)) = None"
    using assms(2,3) found others by (auto simp: find_None_iff volumes_unique_def distinct_map inj_on_def volume_key_def)
  from davAuth_no_volume[OF this] found others db'(2,3) show ?thesis by (intro bexI[of _ volume]) auto
qed

lemma parsed_patch:
  assumes "parseVolumePatch patch = Inr p"
  shows "vp_description p = (case vi_description patch of Some (Json_str t) \<Rightarrow> Some t | _ \<Rightarrow> None)"
    "vp_isPrivate p = (case vi_isPrivate patch of Some (Json_bool b) \<Rightarrow> Some b | _ \<Rightarrow> None)"
    "vp_hrefPrefixMode p = (case vi_hrefPrefixMode patch of Some (Json_str m) \<Rightarrow> Some m | _ \<Rightarrow> None)"
proof -
  have "vp_description p = (case vi_description patch of Some (Json_str t) \<Rightarrow> Some t | _ \<Rightarrow> None)
    \<and> vp_isPrivate p = (case vi_isPrivate patch of Some (Json_bool b) \<Rightarrow> Some b | _ \<Rightarrow> None)
    \<and> vp_hrefPrefixMode p = (case vi_hrefPrefixMode patch of Some (Json_str m) \<Rightarrow> Some m | _ \<Rightarrow> None)"
    using assms unfolding parseVolumePatch_def sum_bind_Inr[unfolded sum_bind_def]
    by (elim exE conjE) (intro conjI; force split: option.splits json.splits if_splits)
  then show "vp_description p = (case vi_description patch of Some (Json_str t) \<Rightarrow> Some t | _ \<Rightarrow> None)"
    "vp_isPrivate p = (case vi_isPrivate patch of Some (Json_bool b) \<Rightarrow> Some b | _ \<Rightarrow> None)"
    "vp_hrefPrefixMode p = (case vi_hrefPrefixMode patch of Some (Json_str m) \<Rightarrow> Some m | _ \<Rightarrow> None)"
    by simp_all
qed

text \<open>
  Only the owner changes a bucket, and only its settings: when an update is reported, the
  viewer owned the volume of that name; its description, privacy, href mode and time of change are
  now what the body says (a description that is left out is cleared, the other two are kept); no
  other row and no other field of the row has changed.
\<close>

theorem only_the_owner_changes_a_volume:
  assumes "updateVolume env owner name viewer patch db = (db', Inr row)" "volumes_unique db"
  shows "\<exists>volume \<in> set (db_volumes db). volume_named owner name volume \<and> isVolumeOwner (Some viewer) volume
    \<and> row = volume\<lparr>vr_description := (case vi_description patch of Some (Json_str t) \<Rightarrow> Some t | _ \<Rightarrow> None),
        vr_isPrivate := (case vi_isPrivate patch of Some (Json_bool b) \<Rightarrow> flag b | _ \<Rightarrow> vr_isPrivate volume),
        vr_hrefPrefixMode := (case vi_hrefPrefixMode patch of Some (Json_str m) \<Rightarrow> m | _ \<Rightarrow> vr_hrefPrefixMode volume),
        vr_updatedAt := de_now (sv_db env)\<rparr>
    \<and> db' = db\<lparr>db_volumes := map (\<lambda>r. if r = volume then row else r) (db_volumes db)\<rparr>"
proof -
  obtain volume p where volume: "getByOwnerName (sv_db env) owner name db = Inr (Some volume)"
    and parsed: "parseVolumePatch patch = Inr p" and own: "isVolumeOwner (Some viewer) volume"
    and run: "update_volume_row (sv_db env) (vr_id volume) (Some (vp_description p)) (vp_isPrivate p) (vp_hrefPrefixMode p) db
      = (db', None)"
    and read: "volume_by_id (sv_db env) (vr_id volume) db' = Inr (Some row)"
    using assms(1) by (auto simp: updateVolume_def svc_simps requireVolume_Inr)
  note found = getByOwnerName_Some[OF volume]
  define f :: "volume_row \<Rightarrow> volume_row" where "f = set_some (vp_hrefPrefixMode p) (\<lambda>m r. r\<lparr>vr_hrefPrefixMode := m\<rparr>)
           \<circ> set_some (vp_isPrivate p) (\<lambda>b r. r\<lparr>vr_isPrivate := flag b\<rparr>)
           \<circ> set_some (Some (vp_description p)) (\<lambda>t r. r\<lparr>vr_description := t\<rparr>)
           \<circ> (\<lambda>r. r\<lparr>vr_updatedAt := de_now (sv_db env)\<rparr>)"
  have new: "f volume = volume\<lparr>vr_description := (case vi_description patch of Some (Json_str t) \<Rightarrow> Some t | _ \<Rightarrow> None),
        vr_isPrivate := (case vi_isPrivate patch of Some (Json_bool b) \<Rightarrow> flag b | _ \<Rightarrow> vr_isPrivate volume),
        vr_hrefPrefixMode := (case vi_hrefPrefixMode patch of Some (Json_str m) \<Rightarrow> m | _ \<Rightarrow> vr_hrefPrefixMode volume),
        vr_updatedAt := de_now (sv_db env)\<rparr>"
    by (simp add: f_def set_some_def parsed_patch[OF parsed] split: option.split json.split)
  have only: "r = volume" if "r \<in> set (db_volumes db)" "vr_id r = vr_id volume" for r
    using that found assms(2) by (auto simp: volumes_unique_def distinct_map inj_on_def)
  have db': "db' = db\<lparr>db_volumes := map (\<lambda>r. if r = volume then f volume else r) (db_volumes db)\<rparr>"
    using run only by (auto simp: update_volume_row_def db_run_def update_where_def f_def split: option.splits)
  have "vr_id (f volume) = vr_id volume" by (simp add: new)
  then have "find (\<lambda>r. vr_id r = vr_id volume) (db_volumes db') = Some (f volume)"
    using find_replaced[of volume "db_volumes db" vr_id] found only by (simp add: db')
  then have "row = f volume"
    using read by (simp add: volume_by_id_def db_read_def split: option.splits)
  then show ?thesis using found own new db' by blast
qed

subsection \<open>A small service\<close>

definition shop_env :: service_env where
  "shop_env = \<lparr>sv_db = ae_db (door_env Answered), sv_lib = toy_hash,
     sv_account = (\<lambda>_. Inr (Some \<lparr>ac_id = ''u'', ac_email = ''a@b.c'', ac_anchorEmail = ''a@b.c'', ac_username = Some ''Ann''\<rparr>)),
     sv_uuid = (\<lambda>n. ''new''), sv_salt = ''s'', sv_secret = ''x'',
     sv_usernames = (\<lambda>n v. case generateUsername [1] [2] [3] v of Some u \<Rightarrow> u | None \<Rightarrow> []),
     sv_addDays = (\<lambda>now days. now + days), sv_maxVolumes = 3, sv_maxCredentials = 2, sv_maxReplications = 2,
     sv_defaultExpiryDays = 4, sv_maxExpiryDays = 9\<rparr>"

definition shop_patch :: volume_patch_input where
  "shop_patch = \<lparr>vi_description = Some (Json_str ''new''), vi_isPrivate = Some (Json_bool False), vi_hrefPrefixMode = None\<rparr>"

definition shop_db :: database where "shop_db = aw_db door_world"

definition shop_row :: volume_row where
  "shop_row = \<lparr>vr_id = ''new'', vr_ownerEmail = ''a@b.c'', vr_ownerUserId = Some ''u'', vr_owner = ''ANN'', vr_name = ''Pics'',
     vr_description = Some ''new'', vr_isPrivate = 0, vr_createdAt = 5, vr_updatedAt = 5, vr_ownerCi = ''ann'', vr_nameCi = ''pics'',
     vr_hrefPrefixMode = ''base''\<rparr>"

lemma shop_names:
  "lower_char CHR ''A'' = CHR ''a''" "lower_char CHR ''N'' = CHR ''n''" "lower_char CHR ''P'' = CHR ''p''" "lower_char CHR ''D'' = CHR ''d''"
  "lower_char CHR ''a'' = CHR ''a''" "lower_char CHR ''n'' = CHR ''n''" "lower_char CHR ''i'' = CHR ''i''" "lower_char CHR ''c'' = CHR ''c''" "lower_char CHR ''s'' = CHR ''s''" "lower_char CHR ''d'' = CHR ''d''" "lower_char CHR ''o'' = CHR ''o''"
  "trim '' Pics '' = ''Pics''" "trim ''ANN'' = ''ANN''" "trim ''tv'' = ''tv''" "isValidUsername ''ANN''" "isValidVolumeName ''Pics''"
  by code_simp+

lemmas service_eval = Let_def svc_bind_def svc_value_def svc_fail_def svc_pure_def svc_read_def svc_run_def svc_require_def
  db_run_def db_read_def svc_catch_def requireVolume_def getVolume_def getByOwnerName_def some_or_def requireCallerAccount_def
  requireCallerUsername_def countOwnedVolumes_def countByOwnerUserId_def assertValidOwner_def assertValidName_def
  normalizeOwner_def normalizeName_def checkVolumeQuota_def default_href_prefix_mode_def flag_def
  shop_names shop_env_def door_env_def shop_db_def door_world_def door_volume_def
  door_credential_def

lemma shop_creates: "snd (createVolume shop_env ''ANN'' '' Pics '' shop_patch ''a@b.c'' shop_db) = Inr shop_row"
  by (simp add: service_eval createVolume_def shop_row_def create_volume_row_def parseVolumePatch_def shop_patch_def
      max_volume_description_length_def volume_by_id_def)

theorem bucket_belongs_to_its_creator_witness:
  "db_volumes (fst (createVolume shop_env ''ANN'' '' Pics '' shop_patch ''a@b.c'' shop_db)) = db_volumes shop_db @ [shop_row]
   \<and> vr_name shop_row = trim '' Pics ''"
proof -
  have "createVolume shop_env ''ANN'' '' Pics '' shop_patch ''a@b.c'' shop_db
      = (fst (createVolume shop_env ''ANN'' '' Pics '' shop_patch ''a@b.c'' shop_db), Inr shop_row)"
    using shop_creates by (metis prod.collapse)
  from bucket_belongs_to_its_creator[OF this] show ?thesis by fastforce
qed

lemma shop_unique: "volumes_unique shop_db"
  by (simp add: volumes_unique_def shop_db_def door_world_def volume_key_def)

lemma shop_updates:
  "snd (updateVolume shop_env ''ann'' ''docs'' \<lparr>vw_userId = Some ''u'', vw_email = ''x''\<rparr> shop_patch shop_db)
   = Inr (door_volume\<lparr>vr_description := Some ''new'', vr_isPrivate := 0, vr_updatedAt := 5\<rparr>)"
  by (simp add: service_eval updateVolume_def parseVolumePatch_def shop_patch_def max_volume_description_length_def
      volume_by_id_def isVolumeOwner_def update_volume_row_def update_where_def set_some_def)

theorem only_the_owner_changes_a_volume_witness:
  "isVolumeOwner (Some \<lparr>vw_userId = Some ''u'', vw_email = ''x''\<rparr>) door_volume
   \<and> db_credentials (fst (updateVolume shop_env ''ann'' ''docs'' \<lparr>vw_userId = Some ''u'', vw_email = ''x''\<rparr> shop_patch shop_db))
      = db_credentials shop_db"
proof -
  let ?u = "updateVolume shop_env ''ann'' ''docs'' \<lparr>vw_userId = Some ''u'', vw_email = ''x''\<rparr> shop_patch shop_db"
  have "?u = (fst ?u, Inr (door_volume\<lparr>vr_description := Some ''new'', vr_isPrivate := 0, vr_updatedAt := 5\<rparr>))"
    using shop_updates by (metis prod.collapse)
  from only_the_owner_changes_a_volume[OF this shop_unique] show ?thesis
    by (auto simp: shop_db_def door_world_def)
qed

lemma shop_deletes: "snd (deleteVolume_service shop_env ''ann'' ''Docs'' shop_db) = Inr ()"
  by (simp add: service_eval deleteVolume_service_def deleteByVolume_def delete_volume_row_def drop_replications_def svc_catch_def)

theorem deleted_volume_is_gone_witness:
  "\<exists>r. davAuthForVolume (door_env Answered) ''ann'' ''Docs'' door_header False
      (door_world\<lparr>aw_db := fst (deleteVolume_service shop_env ''ann'' ''Docs'' shop_db)\<rparr>)
    = (door_world\<lparr>aw_db := fst (deleteVolume_service shop_env ''ann'' ''Docs'' shop_db)\<rparr>, Refused r) \<and> rs_status r \<in> {404, 503}"
proof -
  have "deleteVolume_service shop_env ''ann'' ''Docs'' shop_db = (fst (deleteVolume_service shop_env ''ann'' ''Docs'' shop_db), Inr ())"
    using shop_deletes by (metis prod.collapse)
  from deleted_volume_is_gone[OF this shop_unique, of "door_world\<lparr>aw_db := fst (deleteVolume_service shop_env ''ann'' ''Docs'' shop_db)\<rparr>"]
  show ?thesis by (auto simp del: insert_iff)
qed

theorem revoked_credential_opens_nothing_witness:
  "\<exists>r. davAuthForVolume (door_env Answered) ''ann'' ''Docs'' door_header False
      (door_world\<lparr>aw_db := fst (deleteCredential shop_env ''v'' ''c'' shop_db)\<rparr>)
    = (door_world\<lparr>aw_db := fst (deleteCredential shop_env ''v'' ''c'' shop_db)\<rparr>, Refused r)"
proof -
  have gone: "deleteCredential shop_env ''v'' ''c'' shop_db = (fst (deleteCredential shop_env ''v'' ''c'' shop_db), Inr ())"
    by (simp add: deleteCredential_def svc_run_def deleteForVolume_def db_run_def shop_env_def door_env_def)
  have "getBasicCredentials door_header = Some (cr_username door_credential, ''pw'')"
    using door_header_reads by (simp add: door_credential_def)
  from revoked_credential_opens_nothing[OF gone, of door_credential, OF _ _ _ _ _ this, of "door_world\<lparr>aw_db := fst (deleteCredential shop_env ''v'' ''c'' shop_db)\<rparr>"]
  show ?thesis by (simp add: shop_db_def door_world_def door_credential_def)
qed

definition shop_password :: string where "shop_password = ''ddav_x''"

definition shop_metadata :: credential_metadata where
  "shop_metadata = \<lparr>cm_id = ''new'', cm_volumeId = ''v'', cm_name = ''tv'', cm_username = ''docs-bright-beaver-0003'',
     cm_passwordPrefix = ''ddav_x'', cm_passwordLastFour = ''av_x'', cm_createdAt = 5, cm_expiresAt = 9, cm_lastUsedAt = None,
     cm_readOnly = True\<rparr>"

lemma shop_username: "generateUsername [1] [2] [3] ''docs'' = Some ''docs-bright-beaver-0003''"
proof -
  have "slugifyVolume ''docs'' = ''docs''" "pad_start 4 CHR ''0'' (show_nat 3) = ''0003''" by code_simp+
  then show ?thesis
    by (simp add: generateUsername_def randomInteger_def Let_def credential_adjectives_def credential_animals_def)
qed

lemma shop_parts: "getPrefix ''ddav_x'' = ''ddav_x''" "getLastFour ''ddav_x'' = ''av_x''" "generatePassword ''x'' = ''ddav_x''"
  "max_username_generation_attempts = Suc 4"
  by (simp_all add: getPrefix_def getLastFour_def generatePassword_def max_username_generation_attempts_def)

lemma shop_hash: "\<exists>h. hashPassword toy_hash ''s'' ''ddav_x'' = Inr h \<and> h \<noteq> replicate 64 CHR ''a''"
proof -
  have "hd (pbkdf2_prefix @ xs) \<noteq> CHR ''a''" for xs
    by (simp add: pbkdf2_prefix_def)
  then show ?thesis by (auto simp: hashPassword_def toy_hash_def dest: arg_cong[where f = hd])
qed

lemma shop_issues:
  "snd (createCredential shop_env (vr_id door_volume) (vr_name door_volume) (Some (Json_str ''tv'')) None (Some (Json_bool True)) shop_db)
   = Inr (shop_password, shop_metadata)"
proof -
  obtain h where h: "hashPassword toy_hash ''s'' ''ddav_x'' = Inr h" "h \<noteq> replicate 64 CHR ''a''" using shop_hash by blast
  have "create_attempts shop_env 0 (Suc k) ''v'' ''docs'' ''tv'' ''ddav_x'' h 9 True shop_db
      = (fst (create_credential_row (sv_db shop_env) ''new'' ''v'' ''docs-bright-beaver-0003'' h ''tv'' ''ddav_x'' ''av_x'' 9 True shop_db),
         Inr shop_metadata)" for k
    using h(2) by (simp add: service_eval shop_username shop_parts create_attempts.simps(2)
        usernameExists_def create_credential_row_def credential_by_id_def toMetadata_def shop_metadata_def)
  moreover have "sv_lib shop_env = toy_hash" "sv_salt shop_env = ''s''" "sv_secret shop_env = ''x''" "sv_maxCredentials shop_env = 2"
    "sv_addDays shop_env (de_now (sv_db shop_env)) 4 = 9" "resolveExpiryDays shop_env None = Inr 4"
    "count_credentials (sv_db shop_env) ''v'' shop_db = Inr 1" "vr_id door_volume = ''v''" "vr_name door_volume = ''docs''"
    by (simp_all add: shop_env_def door_env_def shop_db_def door_world_def count_credentials_def db_read_def door_credential_def
        resolveExpiryDays_def absent_def door_volume_def)
  moreover from calculation(1)[of 4] shop_parts(4) have "create_attempts shop_env 0 max_username_generation_attempts ''v'' ''docs'' ''tv'' ''ddav_x'' h 9 True shop_db
      = (fst (create_credential_row (sv_db shop_env) ''new'' ''v'' ''docs-bright-beaver-0003'' h ''tv'' ''ddav_x'' ''av_x'' 9 True shop_db),
         Inr shop_metadata)" by (simp only:)
  ultimately show ?thesis
    by (simp add: createCredential_def resolveName_def readFlag_def absent_def shop_parts(1-3) shop_names h(1) shop_password_def
        svc_bind_def svc_read_def svc_require_def svc_value_def svc_pure_def Let_def)
qed

theorem issued_credential_opens_its_volume_witness:
  "case snd (davAuthForVolume ((door_env Answered)\<lparr>ae_lib := toy_hash\<rparr>) ''ann'' ''Docs''
      (Some (''Basic '' @ btoa (cm_username shop_metadata @ '':'' @ shop_password))) True
      (door_world\<lparr>aw_db := fst (createCredential shop_env (vr_id door_volume) (vr_name door_volume) (Some (Json_str ''tv'')) None
         (Some (Json_bool True)) shop_db)\<rparr>)) of
     Granted answer \<Rightarrow> False | Refused r \<Rightarrow> r = readOnlyCredentialDav"
proof -
  let ?c = "createCredential shop_env (vr_id door_volume) (vr_name door_volume) (Some (Json_str ''tv'')) None (Some (Json_bool True)) shop_db"
  have issued: "?c = (fst ?c, Inr (shop_password, shop_metadata))" using shop_issues by (metis prod.collapse)
  have "\<exists>u. generateUsername [1] [2] [3] v = Some u" for v
    by (simp add: generateUsername_def randomInteger_def Let_def credential_adjectives_def credential_animals_def)
  then have generated: "generated shop_env" unfolding generated_def shop_env_def
    by (metis option.simps(5) service_env.select_convs(7))
  have reached: "auth_history toy_hash id {} (door_world\<lparr>aw_db := fst ?c\<rparr>)"
    unfolding door_world_def by (intro control_plane deployed)
  have "case snd (davAuthForVolume ((door_env Answered)\<lparr>ae_lib := toy_hash\<rparr>) ''ann'' ''Docs''
      (Some (''Basic '' @ btoa (cm_username shop_metadata @ '':'' @ shop_password))) True (door_world\<lparr>aw_db := fst ?c\<rparr>)) of
      Granted answer \<Rightarrow> \<not> (True \<and> Some (Json_bool True) = Some (Json_bool True)) \<and> da_volume answer = vr_name door_volume
    | Refused r \<Rightarrow> True \<and> Some (Json_bool True) = Some (Json_bool True) \<and> r = readOnlyCredentialDav"
  proof (rule issued_credential_opens_its_volume[OF issued _ generated])
    show "find (volume_named ''ann'' ''Docs'') (db_volumes shop_db) = Some door_volume"
      by (simp add: shop_db_def door_world_def door_volume_def shop_names)
    show "working shop_env" "sv_salt shop_env \<noteq> []" by (simp_all add: working_def shop_env_def door_env_def)
    show "\<forall>bytes. hl_pbkdf2 (sv_lib shop_env) shop_password (sv_salt shop_env) pbkdf2_iterations = Inr bytes \<longrightarrow> bytes \<noteq> []"
      by (simp add: shop_env_def toy_hash_def shop_password_def)
    show "auth_history (ae_lib (door_env Answered\<lparr>ae_lib := toy_hash\<rparr>)) (ae_fingerprint (door_env Answered\<lparr>ae_lib := toy_hash\<rparr>)) {}
        (door_world\<lparr>aw_db := fst ?c\<rparr>)"
      using reached by (simp add: door_env_def)
  qed (simp_all add: door_env_def shop_env_def shop_metadata_def)
  then show ?thesis by (simp split: auth_answer.splits)
qed

end
