(* ===== verification/Replication_Service.thy ===== *)
theory Replication_Service
  imports Volume_Services Replica_Runner
begin

section \<open>The replication configuration service\<close>

text \<open>
  \<open>packages/backend-services/src/dav\<close>: \<open>replicationTarget.ts\<close>, \<open>buildCredentialEnvelope\<close> of
  \<open>replicationCredential.ts\<close> and \<open>VolumeReplicationService.ts\<close>, over the tables of
  \<open>Replication_Db\<close>. Encryption and the egress policy for URLs are functions of libraries; a field
  of a body is \<open>None\<close> when it is absent.
\<close>

record target_env =
  te_env :: service_env
  te_seal :: "string \<Rightarrow> string + string \<times> string"
  te_normalizeRemoteUrl :: "string \<Rightarrow> string + string"

record replication_input =
  ri_targetKind :: "json option"
  ri_remoteUrl :: "json option"
  ri_remoteOwner :: "json option"
  ri_remoteVolume :: "json option"
  ri_remotePath :: "json option"
  ri_authKind :: "json option"
  ri_username :: "json option"
  ri_secret :: "json option"
  ri_mode :: "json option"
  ri_mirrorDeletions :: "json option"
  ri_intervalMinutes :: "json option"
  ri_enabled :: "json option"

record replication_patch_input =
  rp_mode :: "json option"
  rp_mirrorDeletions :: "json option"
  rp_intervalMinutes :: "json option"
  rp_enabled :: "json option"

subsection \<open>\<open>replicationTarget.ts\<close>\<close>

definition resolveTarget :: "target_env \<Rightarrow> replication_input \<Rightarrow> string \<Rightarrow> replication_target svc" where
  "resolveTarget env i localPath =
     svc_bind (svc_pure (oneOf (ri_targetKind i) replication_target_kinds ''targetKind'' None)) (\<lambda>targetKind.
     svc_bind (svc_pure (normalizeRemotePath (ri_remotePath i))) (\<lambda>remotePath.
     svc_bind (svc_pure (if targetKind = ''dav'' then requireRemoteUrl (te_normalizeRemoteUrl env) (ri_remoteUrl i) else Inr []))
       (\<lambda>remoteUrl.
     svc_bind (svc_pure (if targetKind = ''dav-volume'' then optionalString (ri_remoteOwner i) ''remoteOwner'' max_name_length else Inr []))
       (\<lambda>remoteOwner.
     svc_bind (svc_pure (if targetKind = ''dav-volume'' then optionalString (ri_remoteVolume i) ''remoteVolume'' max_name_length else Inr []))
       (\<lambda>remoteVolume.
     svc_bind
       (if targetKind = ''dav-volume''
        then svc_bind (svc_require (remoteOwner \<noteq> [] \<and> remoteVolume \<noteq> [])
               (Bad_request ''remoteOwner and remoteVolume are required when targetKind is dav-volume'')) (\<lambda>_.
             svc_bind (svc_require (to_lower (remoteOwner @ ''/'' @ remoteVolume) \<noteq> to_lower localPath)
               (Bad_request ''A volume cannot replicate to itself'')) (\<lambda>_.
             svc_bind (svc_read (missingTargetVolume (sv_db (te_env env)) remoteOwner remoteVolume)) (\<lambda>missing.
             case missing of
               None \<Rightarrow> svc_value ()
             | Some m \<Rightarrow> svc_fail (Bad_request (''remoteOwner/remoteVolume: '' @ m)))))
        else svc_value ())
       (\<lambda>_. svc_value \<lparr>rt_targetKind = targetKind, rt_remoteUrl = remoteUrl, rt_remoteOwner = remoteOwner,
              rt_remoteVolume = remoteVolume, rt_remotePath = remotePath\<rparr>))))))"

subsection \<open>\<open>replicationCredential.ts\<close>\<close>

text \<open>The envelope of a plaintext; nothing is sealed when there is nothing to seal.\<close>

definition seal_plaintext :: "target_env \<Rightarrow> string \<Rightarrow> api_error + string option \<times> string option" where
  "seal_plaintext env plaintext =
     (if plaintext = [] then Inr (None, None)
      else map_sum Internal (map_prod Some Some) (te_seal env plaintext))"

definition buildCredentialEnvelope ::
    "target_env \<Rightarrow> string \<Rightarrow> json option \<Rightarrow> json option \<Rightarrow> api_error + string option \<times> string option" where
  "buildCredentialEnvelope env authKind username secret =
     sum_bind (credentialPlaintext authKind username secret) (seal_plaintext env)"

subsection \<open>\<open>VolumeReplicationService.ts\<close>\<close>

definition listReplications :: "target_env \<Rightarrow> string \<Rightarrow> replication_row list svc" where
  "listReplications env volumeId = svc_read (replications_of_volume (sv_db (te_env env)) volumeId)"

definition requireReplication :: "target_env \<Rightarrow> string \<Rightarrow> string \<Rightarrow> replication_row svc" where
  "requireReplication env volumeId replicationId =
     svc_bind (svc_read (replication_by_id (sv_db (te_env env)) replicationId)) (\<lambda>found.
       case found of
         None \<Rightarrow> svc_fail (Not_found ''Replication not found'')
       | Some row \<Rightarrow> if rr_volumeId row \<noteq> volumeId then svc_fail (Not_found ''Replication not found'') else svc_value row)"

definition reload :: "target_env \<Rightarrow> string \<Rightarrow> string \<Rightarrow> replication_row svc" where
  "reload env replicationId message =
     svc_bind (svc_read (replication_by_id (sv_db (te_env env)) replicationId)) (some_or (Not_found message))"

definition createReplication :: "target_env \<Rightarrow> string \<Rightarrow> string \<Rightarrow> replication_input \<Rightarrow> string \<Rightarrow> replication_row svc" where
  "createReplication env volumeId localPath i creatorEmail =
     svc_bind (svc_pure (oneOf (ri_mode i) replication_modes ''mode'' (Some ''keep-both''))) (\<lambda>mode.
     svc_bind (svc_pure (readMirrorDeletions (ri_mirrorDeletions i) mode)) (\<lambda>mirrorDeletions.
     svc_bind (svc_pure (oneOf (ri_authKind i) replication_auth_kinds ''authKind'' (Some ''none''))) (\<lambda>authKind.
     svc_bind (svc_pure (normalizeInterval (ri_intervalMinutes i))) (\<lambda>intervalMinutes.
     svc_bind (svc_pure (optionalBoolean (ri_enabled i) ''enabled'' True)) (\<lambda>enabled.
     svc_bind (resolveTarget env i localPath) (\<lambda>target.
     svc_bind (svc_pure (credentialPlaintext authKind (ri_username i) (ri_secret i))) (\<lambda>plaintext.
     svc_bind (svc_read (map_sum id int \<circ> count_replications (sv_db (te_env env)) volumeId)) (\<lambda>used.
     svc_bind (svc_require (used < sv_maxReplications (te_env env))
        (Bad_request (''A volume may have at most '' @ show_int (sv_maxReplications (te_env env)) @ '' replications''))) (\<lambda>_.
     svc_bind (svc_read (getByVolumeAndTarget (sv_db (te_env env)) volumeId target)) (\<lambda>existing.
     svc_bind (svc_require (existing = None) (Bad_request ''This target is already configured for this volume'')) (\<lambda>_.
     svc_bind (svc_pure (seal_plaintext env plaintext)) (\<lambda>(ciphertext, iv).
     svc_bind (svc_run (create_replication_row (sv_db (te_env env))
         \<lparr>nr_id = sv_uuid (te_env env) 0, nr_volumeId = volumeId, nr_target = target, nr_authKind = authKind,
          nr_encryptedSecret = ciphertext, nr_secretIv = iv, nr_mode = mode, nr_mirrorDeletions = mirrorDeletions,
          nr_intervalMinutes = intervalMinutes, nr_enabled = enabled, nr_createdBy = Some creatorEmail\<rparr>)) (\<lambda>_.
     reload env (sv_uuid (te_env env) 0) ''Replication not found after create'')))))))))))))"

text \<open>The patch of an update, from the row it is applied to.\<close>

definition update_patch :: "replication_row \<Rightarrow> replication_patch_input \<Rightarrow> api_error + replication_patch" where
  "update_patch existing i =
     sum_bind (if rp_mode i = None then Inr None
               else map_sum id Some (oneOf (rp_mode i) replication_modes ''mode'' None)) (\<lambda>mode.
     sum_bind (if rp_mirrorDeletions i \<noteq> None
               then map_sum id Some (readMirrorDeletions (rp_mirrorDeletions i) (case mode of Some m \<Rightarrow> m | None \<Rightarrow> rr_mode existing))
               else (case mode of
                       Some m \<Rightarrow> if rr_mirrorDeletions existing = 1
                                 then map_sum id Some (readMirrorDeletions (Some (Json_bool False)) m) else Inr None
                     | None \<Rightarrow> Inr None)) (\<lambda>mirrorDeletions.
     sum_bind (if rp_intervalMinutes i = None then Inr None
               else map_sum id Some (normalizeInterval (rp_intervalMinutes i))) (\<lambda>intervalMinutes.
     sum_bind (if rp_enabled i = None then Inr None
               else map_sum id Some (optionalBoolean (rp_enabled i) ''enabled'' (rr_enabled existing = 1))) (\<lambda>enabled.
     Inr \<lparr>pt_mode = mode, pt_mirrorDeletions = mirrorDeletions, pt_intervalMinutes = intervalMinutes, pt_enabled = enabled\<rparr>))))"

definition updateReplication :: "target_env \<Rightarrow> string \<Rightarrow> string \<Rightarrow> replication_patch_input \<Rightarrow> replication_row svc" where
  "updateReplication env volumeId replicationId i =
     svc_bind (requireReplication env volumeId replicationId) (\<lambda>existing.
     svc_bind (svc_pure (update_patch existing i)) (\<lambda>patch.
     svc_bind (svc_run (update_replication_row (sv_db (te_env env)) replicationId patch)) (\<lambda>_.
     reload env replicationId ''Replication not found after update'')))"

definition rotateSecret ::
    "target_env \<Rightarrow> string \<Rightarrow> string \<Rightarrow> json option \<Rightarrow> json option \<Rightarrow> json option \<Rightarrow> replication_row svc" where
  "rotateSecret env volumeId replicationId authKind0 username secret =
     svc_bind (requireReplication env volumeId replicationId) (\<lambda>existing.
     svc_bind (svc_pure (oneOf authKind0 replication_auth_kinds ''authKind''
         (if rr_authKind existing = ''none'' then None else Some (rr_authKind existing)))) (\<lambda>authKind.
     svc_bind (svc_pure (buildCredentialEnvelope env authKind username secret)) (\<lambda>(ciphertext, iv).
     svc_bind (svc_run (setSecret (sv_db (te_env env)) replicationId ciphertext iv)) (\<lambda>_.
     reload env replicationId ''Replication not found after credential update''))))"

definition deleteReplication :: "target_env \<Rightarrow> string \<Rightarrow> string \<Rightarrow> unit svc" where
  "deleteReplication env volumeId replicationId =
     svc_bind (requireReplication env volumeId replicationId)
       (\<lambda>_. svc_run (delete_replication_row (sv_db (te_env env)) replicationId))"

definition default_conflict_limit :: nat where "default_conflict_limit = 200"

definition listConflicts :: "target_env \<Rightarrow> string \<Rightarrow> string \<Rightarrow> bool \<Rightarrow> conflict_entry list svc" where
  "listConflicts env volumeId replicationId includeResolved =
     svc_bind (requireReplication env volumeId replicationId)
       (\<lambda>_. svc_read (listByReplication (sv_db (te_env env)) replicationId includeResolved default_conflict_limit))"

definition resolveConflict :: "target_env \<Rightarrow> string \<Rightarrow> string \<Rightarrow> string \<Rightarrow> bool svc" where
  "resolveConflict env volumeId replicationId conflictId =
     svc_bind (requireReplication env volumeId replicationId)
       (\<lambda>_ db. map_prod id (map_sum Database id) (markResolved (sv_db (te_env env)) replicationId conflictId db))"

definition countUnresolvedConflicts :: "target_env \<Rightarrow> string \<Rightarrow> string \<Rightarrow> nat svc" where
  "countUnresolvedConflicts env volumeId replicationId =
     svc_bind (requireReplication env volumeId replicationId)
       (\<lambda>_. svc_read (countUnresolved (sv_db (te_env env)) replicationId))"

end
