(* ===== verification/Replication_Safety.thy ===== *)
theory Replication_Safety
  imports Replication_Service Service_Rules
begin

section \<open>What the replication configuration guarantees\<close>

text \<open>
  The rows of the table of replications have the shape the runner relies on, in every state the
  services, the runner and the deletion of volumes can reach; a replication is configured only for a
  volume that exists and never for itself; a replication answers only to its own volume.
\<close>

subsection \<open>The type of a row\<close>

definition segments_inside :: "string \<Rightarrow> bool" where
  "segments_inside path \<longleftrightarrow> path = [] \<or> (\<forall>s\<in>set (split_path path). s \<notin> {[], ''.'', ''..''})"

definition target_typed :: "replication_target \<Rightarrow> bool" where
  "target_typed t \<longleftrightarrow> rt_targetKind t \<in> set replication_target_kinds
     \<and> (rt_targetKind t = ''dav'' \<longrightarrow> rt_remoteOwner t = [] \<and> rt_remoteVolume t = [])
     \<and> (rt_targetKind t = ''dav-volume'' \<longrightarrow> rt_remoteUrl t = [] \<and> rt_remoteOwner t \<noteq> [] \<and> rt_remoteVolume t \<noteq> [])
     \<and> segments_inside (rt_remotePath t)"

definition row_typed :: "replication_row \<Rightarrow> bool" where
  "row_typed r \<longleftrightarrow> target_typed (target_of r)
     \<and> rr_mode r \<in> set replication_modes \<and> rr_authKind r \<in> set replication_auth_kinds
     \<and> rr_intervalMinutes r \<in> set replication_intervals
     \<and> rr_mirrorDeletions r \<in> {0, 1} \<and> rr_enabled r \<in> {0, 1}
     \<and> (rr_mirrorDeletions r = 1 \<longrightarrow> rr_mode r = mirror_deletion_mode)
     \<and> (rr_encryptedSecret r = None \<longleftrightarrow> rr_secretIv r = None)
     \<and> rr_consecutiveFailures r \<ge> 0"

definition config_typed :: "database \<Rightarrow> bool" where
  "config_typed db \<longleftrightarrow> (\<forall>r\<in>set (db_replications db). row_typed r)
     \<and> distinct (map rr_id (db_replications db))
     \<and> distinct (map (\<lambda>r. (rr_volumeId r, target_of r)) (db_replications db))
     \<and> (\<forall>c\<in>set (db_conflicts db). cf_replicationId c \<in> rr_id ` set (db_replications db))"

lemma oneOf_Inr: "oneOf v allowed field fallback = Inr s \<Longrightarrow> s \<in> set allowed \<or> fallback = Some s"
  by (auto simp: oneOf_def split: if_splits option.splits json.splits)

lemma normalizeInterval_Inr: "normalizeInterval v = Inr n \<Longrightarrow> n \<in> set replication_intervals"
  by (auto simp: normalizeInterval_def replication_intervals_def split: if_splits option.splits json.splits)

lemma readMirrorDeletions_Inr: "readMirrorDeletions v mode = Inr b \<Longrightarrow> b \<longrightarrow> mode = mirror_deletion_mode"
  by (auto simp: readMirrorDeletions_def split: if_splits)

lemma seal_plaintext_Inr: "seal_plaintext env p = Inr (c, iv) \<Longrightarrow> c = None \<longleftrightarrow> iv = None"
  by (cases "te_seal env p") (auto simp: seal_plaintext_def split: if_splits)

lemma normalizeRemotePath_Inr: "normalizeRemotePath v = Inr path \<Longrightarrow> segments_inside path"
proof -
  assume *: "normalizeRemotePath v = Inr path"
  show "segments_inside path"
  proof (cases "path = []")
    case False
    with * obtain raw segments where segments: "segments = filter (\<lambda>s. s \<noteq> [] \<and> s \<noteq> ''.'') (split_path raw)"
      "''..'' \<notin> set segments" "path = join_path segments"
      by (auto simp: normalizeRemotePath_def Let_def split: if_splits)
    moreover have "segments \<noteq> []" using False segments(3) by auto
    ultimately have "split_path path = segments"
      using split_on_no_sep[of _ slash raw] by (auto intro!: split_join)
    then show ?thesis using segments(1,2) by (auto simp: segments_inside_def)
  qed (simp add: segments_inside_def)
qed

lemma missingTargetVolume_None:
  assumes "missingTargetVolume env owner volume db = Inr None"
  shows "\<exists>v\<in>set (db_volumes db). vr_ownerCi v = to_lower owner \<and> vr_nameCi v = to_lower volume"
proof -
  obtain v where "getByOwnerName env owner volume db = Inr (Some v)"
    using assms by (cases "getByOwnerName env owner volume db") (auto simp: missingTargetVolume_def split: if_splits)
  then show ?thesis
    by (auto simp: getByOwnerName_def db_read_def find_Some_iff split: option.splits intro!: bexI[of _ v] nth_mem)
qed

lemma resolveTarget_Inr:
  assumes "resolveTarget env i localPath db = (db', Inr t)"
  shows "db' = db" "target_typed t"
    "rt_targetKind t = ''dav-volume'' \<Longrightarrow> to_lower (rt_remoteOwner t @ ''/'' @ rt_remoteVolume t) \<noteq> to_lower localPath
       \<and> (\<exists>v\<in>set (db_volumes db). vr_ownerCi v = to_lower (rt_remoteOwner t) \<and> vr_nameCi v = to_lower (rt_remoteVolume t))"
proof -
  let ?kind = "rt_targetKind t"
  let ?sibling = "rt_remoteOwner t \<noteq> [] \<and> rt_remoteVolume t \<noteq> []
      \<and> to_lower (rt_remoteOwner t @ ''/'' @ rt_remoteVolume t) \<noteq> to_lower localPath
      \<and> (\<exists>v\<in>set (db_volumes db). vr_ownerCi v = to_lower (rt_remoteOwner t) \<and> vr_nameCi v = to_lower (rt_remoteVolume t))"
  have all: "?kind \<in> set replication_target_kinds \<and> segments_inside (rt_remotePath t)
    \<and> (?kind \<noteq> ''dav'' \<longrightarrow> rt_remoteUrl t = [])
    \<and> (?kind \<noteq> ''dav-volume'' \<longrightarrow> rt_remoteOwner t = [] \<and> rt_remoteVolume t = [])
    \<and> (?kind = ''dav-volume'' \<longrightarrow> ?sibling) \<and> db' = db"
    using assms unfolding resolveTarget_def
    by (auto simp: svc_simps simp del: to_lower_append dest!: oneOf_Inr normalizeRemotePath_Inr missingTargetVolume_None
        split: if_splits option.splits)
  show "db' = db" "target_typed t" using all by (auto simp: target_typed_def replication_target_kinds_def)
  show "to_lower (rt_remoteOwner t @ ''/'' @ rt_remoteVolume t) \<noteq> to_lower localPath
       \<and> (\<exists>v\<in>set (db_volumes db). vr_ownerCi v = to_lower (rt_remoteOwner t) \<and> vr_nameCi v = to_lower (rt_remoteVolume t))"
    if "?kind = ''dav-volume''" using all that by blast
qed

lemma credential_none: "credentialPlaintext ''none'' u s = Inr p \<Longrightarrow> p = []"
  by (auto simp: credentialPlaintext_def sealableSecret_def)

text \<open>The row a successful create adds.\<close>

lemma createReplication_Inr:
  assumes "createReplication env volumeId localPath i email db = (db', Inr row)"
  shows "resolveTarget env i localPath db = (db, Inr (target_of row))" "rr_volumeId row = volumeId"
    "db' = db\<lparr>db_replications := db_replications db @ [row]\<rparr>" "row_typed row" "rr_createdBy row = Some email"
    "rr_id row \<notin> rr_id ` set (db_replications db)"
    "(volumeId, target_of row) \<notin> (\<lambda>r. (rr_volumeId r, target_of r)) ` set (db_replications db)"
    "volumeId \<in> vr_id ` set (db_volumes db)"
    "int (length (filter (\<lambda>r. rr_volumeId r = volumeId) (db_replications db))) < sv_maxReplications (te_env env)"
    "rr_authKind row = ''none'' \<longrightarrow> rr_encryptedSecret row = None"
    "rr_lastRunAt row = None" "rr_passStartedAt row = None"
proof -
  obtain mode mirror authKind interval enabled target plaintext used ciphertext iv where
    mode: "oneOf (ri_mode i) replication_modes ''mode'' (Some ''keep-both'') = Inr mode"
      "readMirrorDeletions (ri_mirrorDeletions i) mode = Inr mirror"
    and kind: "oneOf (ri_authKind i) replication_auth_kinds ''authKind'' (Some ''none'') = Inr authKind"
    and interval: "normalizeInterval (ri_intervalMinutes i) = Inr interval"
    and target: "resolveTarget env i localPath db = (db, Inr target)"
    and used: "count_replications (sv_db (te_env env)) volumeId db = Inr used" "int used < sv_maxReplications (te_env env)"
    and sealed: "credentialPlaintext authKind (ri_username i) (ri_secret i) = Inr plaintext"
      "seal_plaintext env plaintext = Inr (ciphertext, iv)"
    and run: "create_replication_row (sv_db (te_env env))
         \<lparr>nr_id = sv_uuid (te_env env) 0, nr_volumeId = volumeId, nr_target = target, nr_authKind = authKind,
          nr_encryptedSecret = ciphertext, nr_secretIv = iv, nr_mode = mode, nr_mirrorDeletions = mirror,
          nr_intervalMinutes = interval, nr_enabled = enabled, nr_createdBy = Some email\<rparr> db = (db', None)"
    and found: "replication_by_id (sv_db (te_env env)) (sv_uuid (te_env env) 0) db' = Inr (Some row)"
    using assms unfolding createReplication_def reload_def svc_simps comp_apply map_sum_Inr
    by (clarsimp simp: svc_simps) (metis resolveTarget_Inr(1))
  define new where "new = \<lparr>rr_id = sv_uuid (te_env env) 0, rr_volumeId = volumeId, rr_targetKind = rt_targetKind target,
            rr_remoteUrl = rt_remoteUrl target, rr_remoteOwner = rt_remoteOwner target,
            rr_remoteVolume = rt_remoteVolume target, rr_remotePath = rt_remotePath target,
            rr_authKind = authKind, rr_encryptedSecret = ciphertext, rr_secretIv = iv,
            rr_mode = mode, rr_mirrorDeletions = flag mirror,
            rr_intervalMinutes = interval, rr_enabled = flag enabled, rr_lastRunAt = None,
            rr_lastStatus = None, rr_lastError = None, rr_consecutiveFailures = 0, rr_cursorPath = None,
            rr_cursorRemaining = 0, rr_passStartedAt = None, rr_createdAt = de_now (sv_db (te_env env)),
            rr_updatedAt = de_now (sv_db (te_env env)), rr_createdBy = Some email\<rparr>"
  have created: "db' = db\<lparr>db_replications := db_replications db @ [new]\<rparr>" "rr_id new \<notin> rr_id ` set (db_replications db)"
    "(volumeId, target) \<notin> (\<lambda>r. (rr_volumeId r, target_of r)) ` set (db_replications db)" "volumeId \<in> vr_id ` set (db_volumes db)"
    using run by (auto simp: create_replication_row_def db_run_def new_def split: option.splits if_splits)
  have "find (\<lambda>r. rr_id r = rr_id new) (db_replications db @ [new]) = Some new"
    using created(2) by (intro find_append_last) (auto intro: image_eqI[OF sym])
  then have row: "row = new"
    using found by (simp add: replication_by_id_def db_read_def created(1) new_def split: option.splits)
  have "target_of new = target" by (simp add: target_of_def new_def)
  moreover have "mode \<in> set replication_modes" "authKind \<in> set replication_auth_kinds"
    using oneOf_Inr[OF mode(1)] oneOf_Inr[OF kind] by (auto simp: replication_modes_def replication_auth_kinds_def)
  then have "row_typed new"
    using readMirrorDeletions_Inr[OF mode(2)] normalizeInterval_Inr[OF interval] seal_plaintext_Inr[OF sealed(2)]
      resolveTarget_Inr(2)[OF target] \<open>target_of new = target\<close>
    by (simp add: row_typed_def) (simp add: new_def flag_def)
  moreover have "rr_authKind new = ''none'' \<longrightarrow> rr_encryptedSecret new = None"
    using sealed by (auto simp: new_def seal_plaintext_def dest: credential_none)
  moreover have "used = length (filter (\<lambda>r. rr_volumeId r = volumeId) (db_replications db))"
    using used(1) by (auto simp: count_replications_def db_read_def split: option.splits)
  ultimately show "resolveTarget env i localPath db = (db, Inr (target_of row))" "rr_volumeId row = volumeId"
    "db' = db\<lparr>db_replications := db_replications db @ [row]\<rparr>" "row_typed row" "rr_createdBy row = Some email"
    "rr_id row \<notin> rr_id ` set (db_replications db)"
    "(volumeId, target_of row) \<notin> (\<lambda>r. (rr_volumeId r, target_of r)) ` set (db_replications db)"
    "volumeId \<in> vr_id ` set (db_volumes db)"
    "int (length (filter (\<lambda>r. rr_volumeId r = volumeId) (db_replications db))) < sv_maxReplications (te_env env)"
    "rr_authKind row = ''none'' \<longrightarrow> rr_encryptedSecret row = None"
    "rr_lastRunAt row = None" "rr_passStartedAt row = None"
    using target created used(2) by (simp_all add: row) (simp_all add: new_def)
qed

subsection \<open>Every writer keeps the types\<close>

text \<open>A change of a row that keeps what identifies it.\<close>

definition keeps_identity :: "(replication_row \<Rightarrow> replication_row) \<Rightarrow> bool" where
  "keeps_identity f \<longleftrightarrow> (\<forall>r. rr_id (f r) = rr_id r \<and> rr_volumeId (f r) = rr_volumeId r \<and> target_of (f r) = target_of r)"

lemma update_where_map: "\<forall>r. g (f r) = g r \<Longrightarrow> map g (update_where P f rs) = map g rs"
  by (simp add: update_where_def)

lemma typed_update:
  assumes "config_typed db" "keeps_identity f"
    and "\<And>r. r \<in> set (db_replications db) \<Longrightarrow> rr_id r = k \<Longrightarrow> row_typed r \<Longrightarrow> row_typed (f r)"
  shows "config_typed (fst (update_replications env stmt k f db))"
proof -
  have "map rr_id (update_where P f rs) = map rr_id rs"
    "map (\<lambda>r. (rr_volumeId r, target_of r)) (update_where P f rs) = map (\<lambda>r. (rr_volumeId r, target_of r)) rs" for P rs
    using assms(2) by (auto simp: keeps_identity_def intro: update_where_map)
  moreover from this(1) have "rr_id ` set (update_where P f rs) = rr_id ` set rs" for P rs
    by (metis list.set_map)
  moreover have "\<forall>r\<in>set (update_where (\<lambda>r. rr_id r = k) f (db_replications db)). row_typed r"
    using assms(1,3) by (auto simp: update_where_def config_typed_def)
  ultimately show ?thesis
    using assms(1) by (auto simp: update_replications_def db_run_def config_typed_def split: option.split)
qed

lemma patch_keeps_identity: "keeps_identity (patch_replication now p)"
  by (simp add: keeps_identity_def patch_replication_def set_some_def target_of_def split: option.split)

lemma update_patch_typed:
  assumes "row_typed r" "update_patch r i = Inr p"
  shows "row_typed (patch_replication now p r)"
proof -
  obtain mode mirror interval enabled where p: "p = \<lparr>pt_mode = mode, pt_mirrorDeletions = mirror, pt_intervalMinutes = interval, pt_enabled = enabled\<rparr>"
    by (cases p)
  have mode: "\<forall>m. mode = Some m \<longrightarrow> m \<in> set replication_modes"
    using assms(2) by (auto simp: update_patch_def p map_sum_Inr dest!: oneOf_Inr split: if_splits)
  have interval: "\<forall>n. interval = Some n \<longrightarrow> n \<in> set replication_intervals"
    using assms(2) by (auto simp: update_patch_def p map_sum_Inr dest!: normalizeInterval_Inr split: if_splits)
  have mirror: "\<forall>b. mirror = Some b \<longrightarrow> b \<longrightarrow> (case mode of Some m \<Rightarrow> m | None \<Rightarrow> rr_mode r) = mirror_deletion_mode"
    using assms(2) by (auto simp: update_patch_def p map_sum_Inr dest!: readMirrorDeletions_Inr split: if_splits option.splits)
  have cleared: "mirror = None \<longrightarrow> mode \<noteq> None \<longrightarrow> rr_mirrorDeletions r \<noteq> 1"
    using assms(2) by (auto simp: update_patch_def p map_sum_Inr split: if_splits option.splits)
  show ?thesis
    using assms(1) mode interval mirror cleared
    by (cases mode; cases mirror; cases interval; cases enabled)
      (auto simp: p row_typed_def patch_replication_def set_some_def target_of_def flag_def)
qed

lemma requireReplication_Inr:
  "requireReplication env volumeId replicationId db = (db', Inr row) \<Longrightarrow>
     db' = db \<and> row \<in> set (db_replications db) \<and> rr_id row = replicationId \<and> rr_volumeId row = volumeId"
  by (auto simp: requireReplication_def svc_simps replication_by_id_def db_read_def dest!: find_key_Some
      split: option.splits if_splits)

lemma reads_only_replication [reads_only]: "reads_only (requireReplication env volumeId replicationId)"
  "reads_only (reload env replicationId message)" "reads_only (resolveTarget env i localPath)"
proof -
  show "reads_only (requireReplication env volumeId replicationId)" "reads_only (reload env replicationId message)"
    unfolding requireReplication_def reload_def
    by (intro reads_only_bind reads_only_basic; auto intro: reads_only split: option.split)+
  show "reads_only (resolveTarget env i localPath)"
    unfolding resolveTarget_def
    by (intro reads_only_bind reads_only_basic; auto intro!: reads_only split: option.split)
qed

subsection \<open>Reachable configurations\<close>

text \<open>
  Everything that writes these two tables: the service, the runner, and the deletion of a volume;
  the other tables change freely. A write that fails is a step too.
\<close>

inductive config_history :: "database \<Rightarrow> bool" where
  empty: "db_replications db = [] \<Longrightarrow> db_conflicts db = [] \<Longrightarrow> config_history db"
| configured: "config_history db \<Longrightarrow> config_history (fst (createReplication env volumeId localPath i email db))"
| updated: "config_history db \<Longrightarrow> config_history (fst (updateReplication env volumeId replicationId p db))"
| rotated: "config_history db \<Longrightarrow> config_history (fst (rotateSecret env volumeId replicationId authKind username secret db))"
| removed: "config_history db \<Longrightarrow> config_history (fst (deleteReplication env volumeId replicationId db))"
| resolved: "config_history db \<Longrightarrow> config_history (fst (resolveConflict env volumeId replicationId conflictId db))"
| pass_opened: "config_history db \<Longrightarrow> config_history (fst (beginPass denv replicationId now db))"
| run_recorded: "config_history db \<Longrightarrow>
    config_history (fst (recordRun denv replicationId status error now maxFailures cursorPath remaining db))"
| conflict_seen: "config_history db \<Longrightarrow> config_history (fst (record_conflict denv c db))"
| volume_deleted: "config_history db \<Longrightarrow> config_history (fst (deleteVolume_service senv owner name db))"
| elsewhere: "config_history db \<Longrightarrow> config_history (db\<lparr>db_volumes := vs, db_credentials := cs, db_namespaces := ns\<rparr>)"

lemma typed_append:
  assumes "config_typed db" "row_typed row" "rr_id row \<notin> rr_id ` set (db_replications db)"
    "(rr_volumeId row, target_of row) \<notin> (\<lambda>r. (rr_volumeId r, target_of r)) ` set (db_replications db)"
  shows "config_typed (db\<lparr>db_replications := db_replications db @ [row]\<rparr>)"
  using assms by (auto simp: config_typed_def)

lemma typed_create_row:
  assumes "config_typed db"
    and "row_typed new" "new = \<lparr>rr_id = nr_id n, rr_volumeId = nr_volumeId n, rr_targetKind = rt_targetKind (nr_target n),
            rr_remoteUrl = rt_remoteUrl (nr_target n), rr_remoteOwner = rt_remoteOwner (nr_target n),
            rr_remoteVolume = rt_remoteVolume (nr_target n), rr_remotePath = rt_remotePath (nr_target n),
            rr_authKind = nr_authKind n, rr_encryptedSecret = nr_encryptedSecret n, rr_secretIv = nr_secretIv n,
            rr_mode = nr_mode n, rr_mirrorDeletions = flag (nr_mirrorDeletions n),
            rr_intervalMinutes = nr_intervalMinutes n, rr_enabled = flag (nr_enabled n), rr_lastRunAt = None,
            rr_lastStatus = None, rr_lastError = None, rr_consecutiveFailures = 0, rr_cursorPath = None,
            rr_cursorRemaining = 0, rr_passStartedAt = None, rr_createdAt = de_now env, rr_updatedAt = de_now env,
            rr_createdBy = nr_createdBy n\<rparr>"
  shows "config_typed (fst (create_replication_row env n db))"
proof -
  have "target_of new = nr_target n" "rr_id new = nr_id n" "rr_volumeId new = nr_volumeId n"
    by (simp_all add: assms(3) target_of_def)
  with typed_append[OF assms(1,2)] assms(1) show ?thesis
    by (auto simp: create_replication_row_def db_run_def simp flip: assms(3) split: option.split)
qed

lemma typed_drop: "config_typed db \<Longrightarrow> config_typed (drop_replications P db)"
proof -
  assume *: "config_typed db"
  have "cf_replicationId c \<in> rr_id ` set (filter (\<lambda>r. \<not> P r) (db_replications db))"
    if "c \<in> set (db_conflicts (drop_replications P db))" for c
    using that * by (force simp: drop_replications_def config_typed_def)
  then show ?thesis using * by (auto simp: config_typed_def drop_replications_def distinct_map_filter)
qed

lemma typed_same: "db_replications db' = db_replications db \<Longrightarrow> db_conflicts db' = db_conflicts db \<Longrightarrow> config_typed db \<Longrightarrow> config_typed db'"
  by (simp add: config_typed_def)

lemma typed_configured:
  assumes "config_typed db"
  shows "config_typed (fst (createReplication env volumeId localPath i email db))"
  unfolding createReplication_def
proof (intro read_then[where P = config_typed] assms reads_only_basic reads_only_replication)
  fix mode mirror authKind interval enabled target plaintext used u existing u' envelope
  assume "svc_pure (oneOf (ri_mode i) replication_modes ''mode'' (Some ''keep-both'')) db = (db, Inr mode)"
    "svc_pure (readMirrorDeletions (ri_mirrorDeletions i) mode) db = (db, Inr mirror)"
    "svc_pure (oneOf (ri_authKind i) replication_auth_kinds ''authKind'' (Some ''none'')) db = (db, Inr authKind)"
    "svc_pure (normalizeInterval (ri_intervalMinutes i)) db = (db, Inr interval)"
    and target: "resolveTarget env i localPath db = (db, Inr target)"
    and "svc_pure (seal_plaintext env plaintext) db = (db, Inr envelope)"
  then have steps: "oneOf (ri_mode i) replication_modes ''mode'' (Some ''keep-both'') = Inr mode"
    "readMirrorDeletions (ri_mirrorDeletions i) mode = Inr mirror"
    "oneOf (ri_authKind i) replication_auth_kinds ''authKind'' (Some ''none'') = Inr authKind"
    "normalizeInterval (ri_intervalMinutes i) = Inr interval" "seal_plaintext env plaintext = Inr (fst envelope, snd envelope)"
    by (simp_all add: svc_simps)
  have "mode \<in> set replication_modes" "authKind \<in> set replication_auth_kinds"
    using oneOf_Inr[OF steps(1)] oneOf_Inr[OF steps(3)] by (auto simp: replication_modes_def replication_auth_kinds_def)
  then have "config_typed (fst (create_replication_row (sv_db (te_env env))
         \<lparr>nr_id = sv_uuid (te_env env) 0, nr_volumeId = volumeId, nr_target = target, nr_authKind = authKind,
          nr_encryptedSecret = fst envelope, nr_secretIv = snd envelope, nr_mode = mode, nr_mirrorDeletions = mirror,
          nr_intervalMinutes = interval, nr_enabled = enabled, nr_createdBy = Some email\<rparr> db))"
    using readMirrorDeletions_Inr[OF steps(2)] normalizeInterval_Inr[OF steps(4)] seal_plaintext_Inr[OF steps(5)]
      resolveTarget_Inr(2)[OF target]
    by (intro typed_create_row[OF assms _ refl]) (cases target, simp add: row_typed_def flag_def target_of_def)
  then show "config_typed (fst ((case envelope of (ciphertext, iv) \<Rightarrow>
      svc_bind (svc_run (create_replication_row (sv_db (te_env env))
         \<lparr>nr_id = sv_uuid (te_env env) 0, nr_volumeId = volumeId, nr_target = target, nr_authKind = authKind,
          nr_encryptedSecret = ciphertext, nr_secretIv = iv, nr_mode = mode, nr_mirrorDeletions = mirror,
          nr_intervalMinutes = interval, nr_enabled = enabled, nr_createdBy = Some email\<rparr>)) (\<lambda>_.
     reload env (sv_uuid (te_env env) 0) ''Replication not found after create'')) db))"
    by (cases envelope) (auto intro!: write_then[where P = config_typed] reads_only_replication)
qed

lemma typed_updated:
  assumes "config_typed db"
  shows "config_typed (fst (updateReplication env volumeId replicationId p db))"
  unfolding updateReplication_def
proof (rule read_then[where P = config_typed, OF assms reads_only_replication(1)],
    rule read_then[where P = config_typed, OF assms reads_only_basic(3)],
    rule write_then[where P = config_typed, OF _ reads_only_replication(2)])
  fix existing patch
  assume "requireReplication env volumeId replicationId db = (db, Inr existing)"
    and patch: "svc_pure (update_patch existing p) db = (db, Inr patch)"
  then have existing: "existing \<in> set (db_replications db)" "rr_id existing = replicationId" by (auto dest: requireReplication_Inr)
  have "r = existing" if "r \<in> set (db_replications db)" "rr_id r = replicationId" for r
    using assms that existing by (auto simp: config_typed_def distinct_map inj_on_def)
  then show "config_typed (fst (update_replication_row (sv_db (te_env env)) replicationId patch db))"
    unfolding update_replication_row_def using patch
    by (intro typed_update assms patch_keeps_identity) (auto simp: svc_simps intro: update_patch_typed)
qed

lemma typed_rotated:
  assumes "config_typed db"
  shows "config_typed (fst (rotateSecret env volumeId replicationId authKind username secret db))"
  unfolding rotateSecret_def
proof (intro read_then[where P = config_typed] assms reads_only_basic reads_only_replication)
  fix existing kind envelope
  assume "svc_pure (buildCredentialEnvelope env kind username secret) db = (db, Inr envelope)"
  then have "fst envelope = None \<longleftrightarrow> snd envelope = None"
    by (cases envelope) (auto simp: svc_simps buildCredentialEnvelope_def dest: seal_plaintext_Inr)
  then have "config_typed (fst (setSecret (sv_db (te_env env)) replicationId (fst envelope) (snd envelope) db))"
    unfolding setSecret_def using assms
    by (intro typed_update) (auto simp: keeps_identity_def row_typed_def target_of_def)
  then show "config_typed (fst ((case envelope of (ciphertext, iv) \<Rightarrow>
      svc_bind (svc_run (setSecret (sv_db (te_env env)) replicationId ciphertext iv)) (\<lambda>_.
     reload env replicationId ''Replication not found after credential update'')) db))"
    by (cases envelope) (auto intro!: write_then[where P = config_typed] reads_only_replication)
qed

lemma typed_deleted: "config_typed db \<Longrightarrow> config_typed (fst (deleteReplication env volumeId replicationId db))"
  unfolding deleteReplication_def
  by (intro read_then[where P = config_typed] reads_only_replication)
    (auto simp: svc_run_def delete_replication_row_def db_run_def intro: typed_drop split: option.splits)

lemma typed_resolved: "config_typed db \<Longrightarrow> config_typed (fst (resolveConflict env volumeId replicationId conflictId db))"
  unfolding resolveConflict_def
  by (intro read_then[where P = config_typed] reads_only_replication)
    (auto simp: markResolved_def db_run_def config_typed_def update_where_def split: option.splits)

lemma typed_runner:
  assumes "config_typed db"
  shows "config_typed (fst (beginPass denv replicationId now db))"
    "config_typed (fst (recordRun denv replicationId status error now maxFailures cursorPath remaining db))"
    "config_typed (fst (record_conflict denv c db))"
  unfolding beginPass_def recordRun_def
  by (auto intro!: typed_update assms simp: keeps_identity_def begin_pass_row_def record_run_row_def row_typed_def target_of_def Let_def)
    (use assms in \<open>auto simp: record_conflict_def db_run_def config_typed_def split: option.split\<close>)

lemma typed_volume_deleted:
  assumes "config_typed db"
  shows "config_typed (fst (deleteVolume_service senv owner name db))"
proof -
  have "config_typed (fst (deleteByVolume denv v d))" "config_typed (fst (delete_volume_row denv v d))" if "config_typed d" for denv v d
    using that typed_drop[OF that]
    by (auto simp: deleteByVolume_def delete_volume_row_def db_run_def intro: typed_same split: option.split)
  then have "svc_keeps config_typed (deleteVolume_service senv owner name)"
    unfolding deleteVolume_service_def
    by (intro svc_keeps) (auto intro!: svc_keeps reads_only simp: requireVolume_def getVolume_def)
  then show ?thesis using assms by (simp add: svc_keeps_def)
qed

subsection \<open>The properties\<close>

text \<open>
  C23. The rows of the replication table stay well typed: in every configuration that the service,
  the runner, the deletion of volumes and any change of the other tables can reach, from an empty
  table on, with bodies of any shape and statements that fail anywhere, each row has a known kind
  of target with exactly the fields of that kind, a remote path that stays inside the remote root,
  a known mode, kind of credential and interval, flags that are 0 or 1, mirrored deletions only in
  mode pull-only, and a ciphertext exactly when it has an initialisation vector; identifiers, and
  targets within a volume, are distinct, and every recorded conflict belongs to a row.
\<close>

theorem configuration_stays_typed:
  assumes "config_history db"
  shows "config_typed db"
  using assms
proof (induction rule: config_history.induct)
  case (elsewhere db vs cs ns)
  then show ?case by (auto intro: typed_same)
qed (simp add: config_typed_def, simp_all add: typed_configured typed_updated typed_rotated typed_deleted typed_resolved typed_runner
      typed_volume_deleted)

text \<open>
  A replication is configured only where it can work: when a create succeeds, exactly one row
  is added, under an identifier and a target the volume did not have, within the quota of the
  volume and in an existing volume; a target on the same deployment names a volume that exists and
  whose name is not the path of the volume itself; the row has never run, and it stores no secret
  if it needs no credential.
\<close>

theorem configured_target_is_sound:
  assumes "createReplication env volumeId localPath i email db = (db', Inr row)"
  shows "db' = db\<lparr>db_replications := db_replications db @ [row]\<rparr> \<and> rr_volumeId row = volumeId
    \<and> rr_id row \<notin> rr_id ` set (db_replications db)
    \<and> \<not> (\<exists>r\<in>set (db_replications db). rr_volumeId r = volumeId \<and> target_of r = target_of row)
    \<and> volumeId \<in> vr_id ` set (db_volumes db)
    \<and> int (length (filter (\<lambda>r. rr_volumeId r = volumeId) (db_replications db'))) \<le> sv_maxReplications (te_env env)
    \<and> (rr_targetKind row = ''dav-volume'' \<longrightarrow>
        to_lower (rr_remoteOwner row @ ''/'' @ rr_remoteVolume row) \<noteq> to_lower localPath
        \<and> (\<exists>v\<in>set (db_volumes db). vr_ownerCi v = to_lower (rr_remoteOwner row) \<and> vr_nameCi v = to_lower (rr_remoteVolume row)))
    \<and> rr_lastRunAt row = None \<and> (rr_authKind row = ''none'' \<longrightarrow> rr_encryptedSecret row = None)"
proof -
  note row = createReplication_Inr[OF assms]
  have fields: "rt_targetKind (target_of row) = rr_targetKind row" "rt_remoteOwner (target_of row) = rr_remoteOwner row"
    "rt_remoteVolume (target_of row) = rr_remoteVolume row" by (simp_all add: target_of_def)
  have "\<not> (\<exists>r\<in>set (db_replications db). rr_volumeId r = volumeId \<and> target_of r = target_of row)" using row(7) by force
  with row resolveTarget_Inr(3)[OF row(1), unfolded fields] show ?thesis by simp
qed

text \<open>
  A replication answers only to its own volume: asked through another volume, an update, a
  rotation of the secret, a deletion, and the reading or resolving of conflicts are all refused as
  not found (or for a failed statement) and change nothing.
\<close>

theorem replication_answers_to_its_volume:
  assumes "config_typed db" "row \<in> set (db_replications db)" "rr_id row = replicationId" "rr_volumeId row \<noteq> volumeId"
  shows "\<exists>e. updateReplication env volumeId replicationId p db = (db, Inl e)
    \<and> rotateSecret env volumeId replicationId authKind username secret db = (db, Inl e)
    \<and> deleteReplication env volumeId replicationId db = (db, Inl e)
    \<and> resolveConflict env volumeId replicationId conflictId db = (db, Inl e)
    \<and> listConflicts env volumeId replicationId includeResolved db = (db, Inl e)
    \<and> countUnresolvedConflicts env volumeId replicationId db = (db, Inl e)
    \<and> (e = Not_found ''Replication not found'' \<or> (\<exists>m. e = Database m))"
proof -
  have "r = row" if "r \<in> set (db_replications db)" "rr_id r = replicationId" for r
    using assms(1-3) that by (auto simp: config_typed_def distinct_map inj_on_def)
  then have "requireReplication env volumeId replicationId db \<noteq> (db, Inr r)" for r
    using assms(4) requireReplication_Inr[of env volumeId replicationId db db r] by auto
  then obtain e where e: "requireReplication env volumeId replicationId db = (db, Inl e)"
    using reads_only_fst[OF reads_only_replication(1)]
    by (cases "requireReplication env volumeId replicationId db"; cases "snd (requireReplication env volumeId replicationId db)") force+
  moreover from this have "e = Not_found ''Replication not found'' \<or> (\<exists>m. e = Database m)"
    by (auto simp: requireReplication_def svc_bind_Inl svc_simps split: option.splits if_splits)
  ultimately show ?thesis
    by (auto simp: updateReplication_def rotateSecret_def deleteReplication_def resolveConflict_def listConflicts_def
        countUnresolvedConflicts_def svc_bind_def)
qed

lemma update_where_only:
  assumes "\<And>r. r \<in> set rs \<Longrightarrow> P r \<Longrightarrow> r = x" "x \<in> set rs \<Longrightarrow> P x"
  shows "update_where P f rs = map (\<lambda>r. if r = x then f x else r) rs"
  unfolding update_where_def by (rule map_cong[OF refl]) (use assms in metis)

lemma update_only:
  assumes "config_typed db" "existing \<in> set (db_replications db)" "rr_id existing = k"
    and "update_replications env stmt k f db = (db', None)"
  shows "db' = db\<lparr>db_replications := map (\<lambda>r. if r = existing then f existing else r) (db_replications db)\<rparr>"
proof -
  have "r = existing" if "r \<in> set (db_replications db)" "rr_id r = k" for r
    using assms(1-3) that by (auto simp: config_typed_def distinct_map inj_on_def)
  then have "update_where (\<lambda>r. rr_id r = k) f (db_replications db) = map (\<lambda>r. if r = existing then f existing else r) (db_replications db)"
    using assms(3) by (intro update_where_only) blast+
  then show ?thesis using assms(4) by (simp add: update_replications_def db_run_def split: option.splits)
qed

lemma reload_replaced:
  assumes "config_typed db" "existing \<in> set (db_replications db)" "rr_id new = rr_id existing"
    and "db' = db\<lparr>db_replications := map (\<lambda>r. if r = existing then new else r) (db_replications db)\<rparr>"
  shows "reload env (rr_id existing) message db' =
    (db', case de_fails (sv_db (te_env env)) (''DavReplicationDAO.getById'', [rr_id existing]) of
            Some e \<Rightarrow> Inl (Database e) | None \<Rightarrow> Inr new)"
proof -
  have "find (\<lambda>r. rr_id r = rr_id existing) (db_replications db') = Some new"
    using assms find_replaced[of existing "db_replications db" rr_id new] by (auto simp: config_typed_def distinct_map inj_on_def)
  then show ?thesis
    by (simp add: reload_def svc_bind_def svc_read_def replication_by_id_def db_read_def some_or_def svc_value_def split: option.split)
qed

text \<open>
  An update changes the settings it names and nothing else: when it succeeds, exactly one row
  of the volume has changed; its target, credential, sweep and last run are what they were; mode,
  interval and enabling are those of the body where it has them; enabling clears the count of
  failures; deletions are mirrored afterwards only in mode pull-only, and never because of a change
  of mode alone.
\<close>

theorem update_changes_the_named_settings:
  assumes "config_typed db" "updateReplication env volumeId replicationId p db = (db', Inr row)"
  shows "\<exists>existing \<in> set (db_replications db). rr_id existing = replicationId \<and> rr_volumeId existing = volumeId
    \<and> db' = db\<lparr>db_replications := map (\<lambda>r. if r = existing then row else r) (db_replications db)\<rparr>
    \<and> row = existing\<lparr>rr_mode := rr_mode row, rr_mirrorDeletions := rr_mirrorDeletions row, rr_intervalMinutes := rr_intervalMinutes row,
        rr_enabled := rr_enabled row, rr_consecutiveFailures := rr_consecutiveFailures row, rr_updatedAt := de_now (sv_db (te_env env))\<rparr>
    \<and> (case rp_mode p of None \<Rightarrow> rr_mode row = rr_mode existing | Some v \<Rightarrow> v = Json_str (rr_mode row))
    \<and> (case rp_enabled p of Some (Json_bool b) \<Rightarrow> rr_enabled row = flag b | _ \<Rightarrow> rr_enabled row = rr_enabled existing)
    \<and> rr_consecutiveFailures row = (if rp_enabled p \<noteq> None \<and> rr_enabled row = 1 then 0 else rr_consecutiveFailures existing)
    \<and> (rr_mirrorDeletions row = 1 \<longrightarrow> rr_mode row = mirror_deletion_mode
        \<and> (rp_mirrorDeletions p = Some (Json_bool True) \<or> rp_mode p = None \<and> rr_mirrorDeletions existing = 1))"
proof -
  obtain existing patch where found: "requireReplication env volumeId replicationId db = (db, Inr existing)"
    and patch: "update_patch existing p = Inr patch"
    and run: "update_replication_row (sv_db (te_env env)) replicationId patch db = (db', None)"
    and read: "reload env replicationId ''Replication not found after update'' db' = (db', Inr row)"
    using assms(2) reads_only_fst[OF reads_only_replication(1)] reads_only_fst[OF reads_only_replication(2)]
    by (auto simp: updateReplication_def svc_simps) blast+
  note existing = requireReplication_Inr[OF found]
  let ?new = "patch_replication (de_now (sv_db (te_env env))) patch existing"
  have db': "db' = db\<lparr>db_replications := map (\<lambda>r. if r = existing then ?new else r) (db_replications db)\<rparr>"
    using run existing by (intro update_only[OF assms(1)]) (auto simp: update_replication_row_def)
  have "rr_id ?new = rr_id existing" using patch_keeps_identity by (simp add: keeps_identity_def)
  from reload_replaced[OF assms(1) _ this db'] read existing have row: "row = ?new"
    by (auto split: option.splits)
  have typed: "row_typed existing" "row_typed row"
    using assms(1) existing update_patch_typed[OF _ patch] by (auto simp: config_typed_def row)
  obtain mode mirror interval enabled where p: "patch = \<lparr>pt_mode = mode, pt_mirrorDeletions = mirror, pt_intervalMinutes = interval, pt_enabled = enabled\<rparr>"
    by (cases patch)
  have parsed: "(if rp_mode p = None then Inr None else map_sum id Some (oneOf (rp_mode p) replication_modes ''mode'' None)) = Inr mode"
    "(if rp_mirrorDeletions p \<noteq> None
               then map_sum id Some (readMirrorDeletions (rp_mirrorDeletions p) (case mode of Some m \<Rightarrow> m | None \<Rightarrow> rr_mode existing))
               else (case mode of
                       Some m \<Rightarrow> if rr_mirrorDeletions existing = 1
                                 then map_sum id Some (readMirrorDeletions (Some (Json_bool False)) m) else Inr None
                     | None \<Rightarrow> Inr None)) = Inr mirror"
    "(if rp_enabled p = None then Inr None
      else map_sum id Some (optionalBoolean (rp_enabled p) ''enabled'' (rr_enabled existing = 1))) = Inr enabled"
    using patch unfolding update_patch_def sum_bind_Inr p by simp_all
  have mode: "case rp_mode p of None \<Rightarrow> mode = None | Some v \<Rightarrow> \<exists>m. mode = Some m \<and> v = Json_str m"
    using parsed(1) by (auto simp: map_sum_Inr oneOf_def absent_def split: option.splits if_splits json.splits)
  have enabled: "case rp_enabled p of None \<Rightarrow> enabled = None | Some (Json_bool b) \<Rightarrow> enabled = Some b | Some v \<Rightarrow> enabled = Some (rr_enabled existing = 1)"
    using parsed(3) by (auto simp: map_sum_Inr optionalBoolean_def absent_def split: option.splits if_splits json.splits)
  have mirror: "case rp_mirrorDeletions p of None \<Rightarrow> mirror = (if mode \<noteq> None \<and> rr_mirrorDeletions existing = 1 then Some False else None)
      | Some v \<Rightarrow> mirror = Some (v = Json_bool True)"
    using parsed(2) by (auto simp: map_sum_Inr readMirrorDeletions_def optionalBoolean_def absent_def split: option.splits if_splits json.splits)
  have fields: "rr_mode row = (case mode of Some m \<Rightarrow> m | None \<Rightarrow> rr_mode existing)"
    "rr_enabled row = (case enabled of Some b \<Rightarrow> flag b | None \<Rightarrow> rr_enabled existing)"
    "rr_mirrorDeletions row = (case mirror of Some b \<Rightarrow> flag b | None \<Rightarrow> rr_mirrorDeletions existing)"
    "rr_consecutiveFailures row = (if enabled = Some True then 0 else rr_consecutiveFailures existing)"
    "row = existing\<lparr>rr_mode := rr_mode row, rr_mirrorDeletions := rr_mirrorDeletions row, rr_intervalMinutes := rr_intervalMinutes row,
        rr_enabled := rr_enabled row, rr_consecutiveFailures := rr_consecutiveFailures row, rr_updatedAt := de_now (sv_db (te_env env))\<rparr>"
    by (auto simp: row p patch_replication_def set_some_def flag_def split: option.split)
  have "rr_mirrorDeletions row = 1 \<longrightarrow> rr_mode row = mirror_deletion_mode" using typed(2) by (simp add: row_typed_def)
  moreover have "case rp_mode p of None \<Rightarrow> rr_mode row = rr_mode existing | Some v \<Rightarrow> v = Json_str (rr_mode row)"
    using mode by (auto simp: fields(1) split: option.splits)
  moreover have "case rp_enabled p of Some (Json_bool b) \<Rightarrow> rr_enabled row = flag b | _ \<Rightarrow> rr_enabled row = rr_enabled existing"
    using enabled typed(1) by (auto simp: fields(2) row_typed_def flag_def split: option.splits json.splits)
  moreover have "rr_consecutiveFailures row = (if rp_enabled p \<noteq> None \<and> rr_enabled row = 1 then 0 else rr_consecutiveFailures existing)"
    using enabled by (auto simp: fields(2,4) flag_def split: option.splits json.splits)
  moreover have "rr_mirrorDeletions row = 1 \<longrightarrow> rp_mirrorDeletions p = Some (Json_bool True) \<or> rp_mode p = None \<and> rr_mirrorDeletions existing = 1"
    using mirror mode by (auto simp: fields(3) flag_def split: option.splits if_splits)
  moreover note fields(5) db' existing
  ultimately show ?thesis by (intro bexI[of _ existing]) (simp_all flip: row)
qed

lemma db_run_failed: "db_run env stmt constraints f db = (db', Some e) \<Longrightarrow> db' = db"
  by (auto simp: db_run_def split: option.splits)

lemma reload_found:
  "working (te_env env) \<Longrightarrow> k \<in> rr_id ` set (db_replications db) \<Longrightarrow> \<exists>a. snd (reload env k message db) = Inr a"
  using find_key_None[of rr_id k "db_replications db"]
  by (cases "find (\<lambda>r. rr_id r = k) (db_replications db)")
    (auto simp: working_def reload_def svc_bind_def svc_read_def replication_by_id_def db_read_def some_or_def svc_value_def)

lemma ids: "keeps_identity f \<Longrightarrow> rr_id ` set (update_where P f rs) = rr_id ` set rs"
proof -
  assume "keeps_identity f"
  then have "map rr_id (update_where P f rs) = map rr_id rs" by (intro update_where_map) (simp add: keeps_identity_def)
  then show ?thesis by (metis list.set_map)
qed

text \<open>
  A refused request leaves no trace: while the statements of the database themselves do not
  fail, a create, an update or a rotation of the secret that is refused, for whatever reason, has
  left the whole database as it was.
\<close>

theorem refused_configuration_changes_nothing:
  assumes "config_typed db" "working (te_env env)"
  shows "(\<forall>db' e. createReplication env volumeId localPath i email db = (db', Inl e) \<longrightarrow> db' = db)
    \<and> (\<forall>db' e. updateReplication env volumeId replicationId p db = (db', Inl e) \<longrightarrow> db' = db)
    \<and> (\<forall>db' e. rotateSecret env volumeId replicationId authKind username secret db = (db', Inl e) \<longrightarrow> db' = db)"
proof -
  have up: "de_fails (sv_db (te_env env)) = (\<lambda>_. None)" using assms(2) by (simp add: working_def)
  have "clean db (createReplication env volumeId localPath i email db)"
    unfolding createReplication_def
  proof (intro clean_read_then reads_only_basic reads_only_replication)
    fix mode mirror authKind interval enabled target envelope
    let ?n = "\<lambda>c iv. \<lparr>nr_id = sv_uuid (te_env env) 0, nr_volumeId = volumeId, nr_target = target, nr_authKind = authKind,
          nr_encryptedSecret = c, nr_secretIv = iv, nr_mode = mode, nr_mirrorDeletions = mirror,
          nr_intervalMinutes = interval, nr_enabled = enabled, nr_createdBy = Some email\<rparr>"
    have "\<exists>a. snd (reload env (sv_uuid (te_env env) 0) message db') = Inr a"
      if "create_replication_row (sv_db (te_env env)) (?n c iv) db = (db', None)" for c iv db' message
      using that by (intro reload_found assms) (auto simp: create_replication_row_def db_run_def up split: if_splits)
    then have "clean db (svc_bind (svc_run (create_replication_row (sv_db (te_env env)) (?n c iv)))
        (\<lambda>_. reload env (sv_uuid (te_env env) 0) message) db)" for c iv message
      by (intro clean_write_then) (auto simp: create_replication_row_def dest: db_run_failed)
    then show "clean db ((case envelope of (c, iv) \<Rightarrow> svc_bind (svc_run (create_replication_row (sv_db (te_env env)) (?n c iv)))
        (\<lambda>_. reload env (sv_uuid (te_env env) 0) ''Replication not found after create'')) db)"
      by (cases envelope) simp
  qed
  moreover have "clean db (updateReplication env volumeId replicationId p db)"
    unfolding updateReplication_def
  proof (rule clean_read_then[OF reads_only_replication(1)], rule clean_read_then[OF reads_only_basic(3)], rule clean_write_then)
    fix existing patch db'
    assume "requireReplication env volumeId replicationId db = (db, Inr existing)"
      "update_replication_row (sv_db (te_env env)) replicationId patch db = (db', None)"
    then show "\<exists>a. snd (reload env replicationId ''Replication not found after update'' db') = Inr a"
      using requireReplication_Inr[of env volumeId replicationId db db existing]
      by (intro reload_found assms) (auto simp: update_replication_row_def update_replications_def db_run_def up ids patch_keeps_identity)
  qed (auto simp: update_replication_row_def update_replications_def dest: db_run_failed)
  moreover have "clean db (rotateSecret env volumeId replicationId authKind username secret db)"
    unfolding rotateSecret_def
  proof (intro clean_read_then reads_only_basic reads_only_replication)
    fix existing envelope
    assume "requireReplication env volumeId replicationId db = (db, Inr existing)"
    note existing = requireReplication_Inr[OF this]
    have "clean db (svc_bind (svc_run (setSecret (sv_db (te_env env)) replicationId c iv)) (\<lambda>_. reload env replicationId message) db)"
      for c iv message
    proof (rule clean_write_then)
      show "\<exists>a. snd (reload env replicationId message db') = Inr a"
        if "setSecret (sv_db (te_env env)) replicationId c iv db = (db', None)" for db'
        using existing that
        by (intro reload_found assms) (auto simp: setSecret_def update_replications_def db_run_def up ids keeps_identity_def target_of_def)
    qed (auto simp: setSecret_def update_replications_def dest: db_run_failed)
    then show "clean db ((case envelope of (c, iv) \<Rightarrow> svc_bind (svc_run (setSecret (sv_db (te_env env)) replicationId c iv))
        (\<lambda>_. reload env replicationId ''Replication not found after credential update'')) db)"
      by (cases envelope) simp
  qed
  ultimately show ?thesis by (auto simp: clean_def)
qed

subsection \<open>What modelling showed\<close>

text \<open>
  A rotation stores no kind of credential: a secret sealed for another kind than the one of the row
  is one that the runner cannot read.
\<close>

lemma rotation_keeps_the_kind:
  assumes "config_typed db" "rotateSecret env volumeId replicationId authKind username secret db = (db', Inr row)"
  shows "\<exists>existing \<in> set (db_replications db). rr_id existing = replicationId \<and> rr_authKind row = rr_authKind existing"
proof -
  obtain existing c iv where found: "requireReplication env volumeId replicationId db = (db, Inr existing)"
    and run: "setSecret (sv_db (te_env env)) replicationId c iv db = (db', None)"
    and read: "reload env replicationId ''Replication not found after credential update'' db' = (db', Inr row)"
    using assms(2) reads_only_fst[OF reads_only_replication(1)] reads_only_fst[OF reads_only_replication(2)]
    by (auto simp: rotateSecret_def svc_simps split: prod.splits) blast+
  note existing = requireReplication_Inr[OF found]
  let ?new = "existing\<lparr>rr_encryptedSecret := c, rr_secretIv := iv, rr_updatedAt := de_now (sv_db (te_env env))\<rparr>"
  have db': "db' = db\<lparr>db_replications := map (\<lambda>r. if r = existing then ?new else r) (db_replications db)\<rparr>"
    using run existing by (intro update_only[OF assms(1)]) (auto simp: setSecret_def)
  from reload_replaced[OF assms(1) _ _ db', of] read existing have "row = ?new"
    by (auto split: option.splits)
  then show ?thesis using existing by auto
qed

lemma bearer_secret_is_no_basic_credential:
  assumes "credentialPlaintext ''bearer'' username (Some (Json_str token)) = Inr plaintext" "CHR '':'' \<notin> set token"
  shows "\<exists>e. authHeader bytesToBase64 ''basic'' plaintext = Inl e"
proof -
  have "plaintext = token"
    using assms(1) by (auto simp: credentialPlaintext_def optionalSecret_def absent_def sealableSecret_def split: if_splits)
  moreover have "length (takeWhile (\<lambda>x. x \<noteq> CHR '':'') token) = length token"
    using assms(2) by (induction token) auto
  then have "index_of CHR '':'' token 0 = None" by (simp add: index_of_def)
  ultimately show ?thesis by (simp add: authHeader_def)
qed

text \<open>Sending the mode a row already has clears its mirroring of deletions.\<close>

lemma repeating_the_mode_clears_mirroring:
  "update_patch (row\<lparr>rr_mode := ''pull-only'', rr_mirrorDeletions := 1\<rparr>)
     \<lparr>rp_mode = Some (Json_str ''pull-only''), rp_mirrorDeletions = None, rp_intervalMinutes = None, rp_enabled = None\<rparr>
   = Inr \<lparr>pt_mode = Some ''pull-only'', pt_mirrorDeletions = Some False, pt_intervalMinutes = None, pt_enabled = None\<rparr>"
  by (simp add: update_patch_def sum_bind_def oneOf_def absent_def replication_modes_def readMirrorDeletions_def optionalBoolean_def)

subsection \<open>A small configuration\<close>

definition lab_env :: target_env where
  "lab_env = \<lparr>te_env = \<lparr>sv_db = \<lparr>de_fails = (\<lambda>_. None), de_missing_schema = (\<lambda>_. False), de_now = 7\<rparr>,
       sv_lib = \<lparr>hl_pbkdf2 = (\<lambda>p s n. Inr p), hl_sha256Hex = id\<rparr>, sv_account = (\<lambda>_. Inr None), sv_uuid = (\<lambda>n. ''r2''), sv_salt = ''s'',
       sv_secret = ''x'', sv_usernames = (\<lambda>n v. v), sv_addDays = (+), sv_maxVolumes = 3, sv_maxCredentials = 3, sv_maxReplications = 3,
       sv_defaultExpiryDays = 4, sv_maxExpiryDays = 9\<rparr>,
     te_seal = (\<lambda>p. Inr (p, ''iv'')), te_normalizeRemoteUrl = Inr\<rparr>"

definition lab_volume :: "string \<Rightarrow> string \<Rightarrow> volume_row" where
  "lab_volume k n = \<lparr>vr_id = k, vr_ownerEmail = ''m'', vr_ownerUserId = None, vr_owner = ''me'', vr_name = n, vr_description = None,
     vr_isPrivate = 1, vr_createdAt = 1, vr_updatedAt = 1, vr_ownerCi = ''me'', vr_nameCi = n, vr_hrefPrefixMode = ''base''\<rparr>"

definition lab_row :: replication_row where
  "lab_row = \<lparr>rr_id = ''r1'', rr_volumeId = ''v1'', rr_targetKind = ''dav-volume'', rr_remoteUrl = [], rr_remoteOwner = ''me'',
     rr_remoteVolume = ''two'', rr_remotePath = [], rr_authKind = ''none'', rr_encryptedSecret = None, rr_secretIv = None,
     rr_mode = ''pull-only'', rr_mirrorDeletions = 1, rr_intervalMinutes = 60, rr_enabled = 0, rr_lastRunAt = None, rr_lastStatus = None,
     rr_lastError = None, rr_consecutiveFailures = 5, rr_cursorPath = None, rr_cursorRemaining = 0, rr_passStartedAt = None,
     rr_createdAt = 1, rr_updatedAt = 1, rr_createdBy = None\<rparr>"

definition lab_db :: database where
  "lab_db = \<lparr>db_volumes = [lab_volume ''v1'' ''one'', lab_volume ''v2'' ''two''], db_credentials = [], db_namespaces = [],
     db_replications = [lab_row], db_conflicts = []\<rparr>"

definition lab_input :: replication_input where
  "lab_input = \<lparr>ri_targetKind = Some (Json_str ''dav-volume''), ri_remoteUrl = None, ri_remoteOwner = Some (Json_str ''me''),
     ri_remoteVolume = Some (Json_str ''two''), ri_remotePath = Some (Json_str ''a/./b''), ri_authKind = None, ri_username = None,
     ri_secret = None, ri_mode = None, ri_mirrorDeletions = None, ri_intervalMinutes = None, ri_enabled = None\<rparr>"

definition lab_patch :: replication_patch_input where
  "lab_patch = \<lparr>rp_mode = Some (Json_str ''sync''), rp_mirrorDeletions = None, rp_intervalMinutes = None, rp_enabled = Some (Json_bool True)\<rparr>"

lemma lab_typed: "config_typed lab_db"
  by (simp add: config_typed_def lab_db_def row_typed_def lab_row_def target_typed_def target_of_def segments_inside_def
      replication_target_kinds_def replication_modes_def replication_auth_kinds_def replication_intervals_def mirror_deletion_mode_def)

theorem configuration_stays_typed_witness:
  "config_typed (fst (createReplication lab_env ''v1'' ''me/one'' lab_input ''m'' (lab_db\<lparr>db_replications := []\<rparr>)))"
  by (rule configuration_stays_typed, intro configured empty) (simp_all add: lab_db_def)

definition lab_created :: replication_row where
  "lab_created = lab_row\<lparr>rr_id := ''r2'', rr_remotePath := ''a/b'', rr_mode := ''keep-both'', rr_mirrorDeletions := 0, rr_enabled := 1,
     rr_consecutiveFailures := 0, rr_createdAt := 7, rr_updatedAt := 7, rr_createdBy := Some ''m''\<rparr>"

lemma lab_names: "lower_char CHR ''m'' = CHR ''m''" "lower_char CHR ''e'' = CHR ''e''" "lower_char CHR ''t'' = CHR ''t''"
  "lower_char CHR ''w'' = CHR ''w''" "lower_char CHR ''o'' = CHR ''o''" "lower_char CHR ''n'' = CHR ''n''" "lower_char CHR ''/'' = CHR ''/''"
  "trim ''me'' = ''me''" "trim ''two'' = ''two''" "trim ''a/./b'' = ''a/./b''" "split_path ''a/./b'' = [''a'', ''.'', ''b'']"
  "\<not> starts_with ''/'' ''a/./b''"
  by code_simp+

lemma lab_creates: "snd (createReplication lab_env ''v1'' ''me/one'' lab_input ''m'' lab_db) = Inr lab_created"
  by (simp add: createReplication_def resolveTarget_def svc_bind_def svc_pure_def svc_read_def svc_run_def svc_require_def svc_value_def
      svc_fail_def oneOf_def absent_def lab_input_def lab_env_def replication_modes_def replication_auth_kinds_def replication_target_kinds_def
      readMirrorDeletions_def optionalBoolean_def normalizeInterval_def normalizeRemotePath_def optionalString_def max_remote_path_length_def
      max_name_length_def lab_names Let_def missingTargetVolume_def getByOwnerName_def db_read_def lab_db_def lab_volume_def
      credentialPlaintext_def sealableSecret_def count_replications_def getByVolumeAndTarget_def target_of_def lab_row_def
      seal_plaintext_def create_replication_row_def db_run_def flag_def reload_def replication_by_id_def some_or_def lab_created_def
      sum_bind_def)

theorem configured_target_is_sound_witness:
  "db_replications (fst (createReplication lab_env ''v1'' ''me/one'' lab_input ''m'' lab_db)) = [lab_row, lab_created]
   \<and> rr_lastRunAt lab_created = None"
proof -
  have "createReplication lab_env ''v1'' ''me/one'' lab_input ''m'' lab_db
      = (fst (createReplication lab_env ''v1'' ''me/one'' lab_input ''m'' lab_db), Inr lab_created)"
    using lab_creates by (metis prod.collapse)
  from configured_target_is_sound[OF this] show ?thesis by (simp add: lab_db_def)
qed

theorem replication_answers_to_its_volume_witness:
  "\<exists>e. deleteReplication lab_env ''v2'' ''r1'' lab_db = (lab_db, Inl e)"
proof -
  have "lab_row \<in> set (db_replications lab_db)" "rr_id lab_row = ''r1''" "rr_volumeId lab_row \<noteq> ''v2''"
    by (simp_all add: lab_db_def lab_row_def)
  from replication_answers_to_its_volume[OF lab_typed this] show ?thesis by blast
qed

lemma lab_updates:
  "snd (updateReplication lab_env ''v1'' ''r1'' lab_patch lab_db)
   = Inr (lab_row\<lparr>rr_mode := ''sync'', rr_mirrorDeletions := 0, rr_enabled := 1, rr_consecutiveFailures := 0, rr_updatedAt := 7\<rparr>)"
  by (simp add: updateReplication_def requireReplication_def update_patch_def sum_bind_def svc_bind_def svc_pure_def svc_read_def
      svc_run_def svc_value_def oneOf_def absent_def lab_patch_def lab_env_def replication_modes_def readMirrorDeletions_def
      optionalBoolean_def lab_db_def lab_row_def replication_by_id_def db_read_def update_replication_row_def update_replications_def
      db_run_def update_where_def patch_replication_def set_some_def flag_def reload_def some_or_def)

theorem update_changes_the_named_settings_witness:
  "db_volumes (fst (updateReplication lab_env ''v1'' ''r1'' lab_patch lab_db)) = db_volumes lab_db"
proof -
  have "updateReplication lab_env ''v1'' ''r1'' lab_patch lab_db = (fst (updateReplication lab_env ''v1'' ''r1'' lab_patch lab_db),
      Inr (lab_row\<lparr>rr_mode := ''sync'', rr_mirrorDeletions := 0, rr_enabled := 1, rr_consecutiveFailures := 0, rr_updatedAt := 7\<rparr>))"
    using lab_updates by (metis prod.collapse)
  from update_changes_the_named_settings[OF lab_typed this] show ?thesis by force
qed

theorem refused_configuration_changes_nothing_witness:
  "\<forall>db' e. createReplication lab_env ''v1'' ''me/two'' lab_input ''m'' lab_db = (db', Inl e) \<longrightarrow> db' = lab_db"
  using refused_configuration_changes_nothing[OF lab_typed, of lab_env] by (simp add: working_def lab_env_def)

end
