(* ===== verification/Dav_Forward.thy ===== *)
theory Dav_Forward
  imports Http
begin

section \<open>What the front door hands to a volume\<close>

text \<open>
  The headers of a forwarded request (\<open>apps/api/src/workers/routes/davForwardHeaders.ts\<close>), the
  canonical form of its \<open>Destination\<close> (\<open>davDestination.ts\<close>), the paging parameters of the browser
  (\<open>davPageParams.ts\<close>) and the inner paths both planes cut out of a URL. Header names are compared
  without case, as \<open>Headers\<close> does.
\<close>

subsection \<open>Headers\<close>

type_synonym header_map = "string \<Rightarrow> string option"

definition header_set :: "string \<Rightarrow> string \<Rightarrow> header_map \<Rightarrow> header_map" where
  "header_set k v h = (\<lambda>n. if to_lower n = to_lower k then Some v else h n)"

definition header_delete :: "string \<Rightarrow> header_map \<Rightarrow> header_map" where
  "header_delete k h = (\<lambda>n. if to_lower n = to_lower k then None else h n)"

definition page_headers :: "string list" where "page_headers = [''X-Dav-Page'', ''X-Dav-Page-Limit'']"

definition mode_text :: "href_prefix_mode \<Rightarrow> string" where
  "mode_text m = (case m of Base_mode \<Rightarrow> ''base'' | Root_mode \<Rightarrow> ''root'')"

record dav_page_params =
  pp_page :: "string option"
  pp_limit :: "string option"

record dav_forward_options =
  fo_base :: string
  fo_inner :: string
  fo_hrefPrefixMode :: href_prefix_mode
  fo_userEmail :: "string option"
  fo_destination :: "string option"
  fo_pageParams :: "dav_page_params option"

definition set_if :: "string \<Rightarrow> string option \<Rightarrow> header_map \<Rightarrow> header_map" where
  "set_if k v h = (case v of None \<Rightarrow> h | Some x \<Rightarrow> header_set k x h)"

definition applyDavForwardHeaders :: "header_map \<Rightarrow> dav_forward_options \<Rightarrow> header_map" where
  "applyDavForwardHeaders source opts =
     (let h1 = header_set ''X-Dav-Base'' (fo_base opts) source;
          h2 = header_set ''X-Dav-Path'' (fo_inner opts) h1;
          h3 = header_set ''X-Dav-Href-Prefix-Mode'' (mode_text (fo_hrefPrefixMode opts)) h2;
          h4 = header_set ''X-Dav-User'' (case fo_userEmail opts of Some e \<Rightarrow> e | None \<Rightarrow> []) h3;
          h5 = foldl (\<lambda>h k. header_delete k h) h4 page_headers;
          h6 = (case fo_pageParams opts of None \<Rightarrow> h5
                | Some p \<Rightarrow> set_if ''X-Dav-Page-Limit'' (pp_limit p) (set_if ''X-Dav-Page'' (pp_page p) h5));
          h7 = header_delete ''Authorization'' h6;
          h8 = header_delete ''Destination'' h7
      in set_if ''Destination'' (fo_destination opts) h8)"

subsection \<open>Paging parameters\<close>

text \<open>A query as its decoded name-value pairs; \<open>get\<close> answers the first, \<open>delete\<close> removes all.\<close>

type_synonym search_params = "(string \<times> string) list"

definition readPageParams :: "search_params \<Rightarrow> dav_page_params option" where
  "readPageParams query =
     (let page = map_of query ''page''; limit = map_of query ''limit''
      in if page = None \<and> limit = None then None else Some \<lparr>pp_page = page, pp_limit = limit\<rparr>)"

definition stripPageParams :: "search_params \<Rightarrow> search_params" where
  "stripPageParams query =
     filter (\<lambda>p. fst p \<noteq> ''limit'') (filter (\<lambda>p. fst p \<noteq> ''page'') query)"

subsection \<open>Destinations\<close>

datatype destination_failure = Absent | Invalid | Cross_origin

text \<open>The position of the first occurrence of a text, and the text from the first slash on.\<close>

fun index_of_text :: "string \<Rightarrow> string \<Rightarrow> nat option" where
  "index_of_text pat [] = (if pat = [] then Some 0 else None)"
| "index_of_text pat (c # s) =
     (if starts_with pat (c # s) then Some 0 else map_option Suc (index_of_text pat s))"

definition rawPathOf :: "string \<Rightarrow> string option" where
  "rawPathOf header =
     (case index_of_text ''://'' header of
        None \<Rightarrow> if starts_with ''/'' header then Some header else None
      | Some schemeEnd \<Rightarrow>
          (case dropWhile (\<lambda>c. c \<noteq> slash) (drop (schemeEnd + 3) header) of [] \<Rightarrow> Some ''/'' | p \<Rightarrow> Some p))"

definition hasDotSegment :: "string \<Rightarrow> bool" where
  "hasDotSegment pathname =
     list_ex (\<lambda>segment. segment \<noteq> [] \<and> decode_or_raw segment \<in> {''.'', ''..''}) (split_path pathname)"

definition browserInnerFrom :: "string \<Rightarrow> string option" where
  "browserInnerFrom pathname =
     (case split_path (stripSlashes pathname) of
        a # b # c # d # e # rest \<Rightarrow>
          if a \<noteq> ''user'' \<or> b \<noteq> ''volumes'' \<or> e \<noteq> ''files'' then None else Some (join_path rest)
      | _ \<Rightarrow> None)"

definition innerFromPathname :: "string \<Rightarrow> string \<Rightarrow> href_prefix_mode \<Rightarrow> string option" where
  "innerFromPathname pathname pathbase mode =
     (let base = stripSlashes pathbase; clean = stripSlashes pathname
      in if base = [] then Some clean
         else if to_lower clean = to_lower base then Some []
         else if starts_with (to_lower base @ ''/'') (to_lower clean) then Some (drop (length base + 1) clean)
         else if mode = Root_mode then Some clean else None)"

definition resolveDestination_front ::
    "url_parser \<Rightarrow> string option \<Rightarrow> string \<Rightarrow> string \<Rightarrow> href_prefix_mode \<Rightarrow> destination_failure + string" where
  "resolveDestination_front parse_url header requestUrl pathbase mode =
     (case header of None \<Rightarrow> Inl Absent
      | Some h \<Rightarrow>
          if h = [] then Inl Absent
          else if (case rawPathOf h of Some rawPath \<Rightarrow> hasDotSegment rawPath | None \<Rightarrow> False) then Inl Invalid
          else (case parse_url h (Some requestUrl) of None \<Rightarrow> Inl Invalid
                | Some (destOrigin, destPathname) \<Rightarrow>
                    (case parse_url requestUrl None of None \<Rightarrow> Inl Invalid
                     | Some (origin, _) \<Rightarrow>
                         if destOrigin \<noteq> origin then Inl Cross_origin
                         else if hasDotSegment destPathname then Inl Invalid
                         else (case (case browserInnerFrom destPathname of
                                       Some i \<Rightarrow> Some i
                                     | None \<Rightarrow> innerFromPathname destPathname pathbase mode) of
                                 None \<Rightarrow> Inl Invalid
                               | Some inner \<Rightarrow>
                                   Inr (origin @ pathbase @ (if inner = [] then ''/'' else ''/'' @ inner))))))"

subsection \<open>Inner paths of the two planes\<close>

text \<open>The WebDAV plane drops \<open>owner\<close> and \<open>volume\<close>, the browser plane its five leading segments.\<close>

definition innerPathOf :: "string \<Rightarrow> string" where
  "innerPathOf pathname = stripSlashes (join_path (drop 3 (split_path pathname)))"

definition innerFromPath :: "string \<Rightarrow> string" where
  "innerFromPath pathname =
     (let parts = split_path (stripSlashes pathname) in if length parts \<le> 5 then [] else join_path (drop 5 parts))"

subsection \<open>What a volume sees of the client's headers\<close>

lemma forward_names:
  "to_lower ''X-Dav-Base'' = ''x-dav-base''" "to_lower ''X-Dav-Path'' = ''x-dav-path''"
  "to_lower ''X-Dav-Href-Prefix-Mode'' = ''x-dav-href-prefix-mode''" "to_lower ''X-Dav-User'' = ''x-dav-user''"
  "to_lower ''X-Dav-Page'' = ''x-dav-page''" "to_lower ''X-Dav-Page-Limit'' = ''x-dav-page-limit''"
  "to_lower ''Authorization'' = ''authorization''" "to_lower ''Destination'' = ''destination''"
  by code_simp+

lemma forwarded_header:
  "applyDavForwardHeaders source opts n =
     (let k = to_lower n
      in if k = ''destination'' then fo_destination opts
         else if k = ''authorization'' then None
         else if k = ''x-dav-page'' then Option.bind (fo_pageParams opts) pp_page
         else if k = ''x-dav-page-limit'' then Option.bind (fo_pageParams opts) pp_limit
         else if k = ''x-dav-user'' then Some (case fo_userEmail opts of Some e \<Rightarrow> e | None \<Rightarrow> [])
         else if k = ''x-dav-href-prefix-mode'' then Some (mode_text (fo_hrefPrefixMode opts))
         else if k = ''x-dav-path'' then Some (fo_inner opts)
         else if k = ''x-dav-base'' then Some (fo_base opts)
         else source n)"
  by (simp add: applyDavForwardHeaders_def header_set_def header_delete_def set_if_def page_headers_def
      forward_names Let_def del: to_lower_Cons split: option.split)

end
