(* ===== verification/Forward_Safety.thy ===== *)
theory Forward_Safety
  imports Dav_Forward
begin

section \<open>Headers and destinations a volume can rely on\<close>

text \<open>
  A volume object has no authentication of its own: it believes the headers of the front door.
  Nothing a client sends reaches the header names it believes, and the destination it is handed
  is one that its own parser maps back to the path the front door resolved.
\<close>

definition trusted_headers :: "string list" where
  "trusted_headers = [''x-dav-base'', ''x-dav-path'', ''x-dav-href-prefix-mode'', ''x-dav-user'', ''x-dav-page'',
     ''x-dav-page-limit'', ''authorization'', ''destination'']"

text \<open>
  C27. The volume hears the front door, not the client: the base, the path, the href mode, the user,
  the paging and the destination of a forwarded request are the front door's, the client's
  \<open>Authorization\<close> is gone, every other header is the client's own, and what the client sent under
  one of those names, however spelled, makes no difference.
\<close>

theorem forwarded_headers_are_the_front_doors:
  "let h = applyDavForwardHeaders source opts
   in h ''X-Dav-Base'' = Some (fo_base opts) \<and> h ''X-Dav-Path'' = Some (fo_inner opts)
      \<and> readDavHrefPrefixMode (h ''X-Dav-Href-Prefix-Mode'') = fo_hrefPrefixMode opts
      \<and> h ''X-Dav-User'' = Some (case fo_userEmail opts of Some e \<Rightarrow> e | None \<Rightarrow> [])
      \<and> h ''X-Dav-Page'' = Option.bind (fo_pageParams opts) pp_page
      \<and> h ''X-Dav-Page-Limit'' = Option.bind (fo_pageParams opts) pp_limit
      \<and> h ''Authorization'' = None \<and> h ''Destination'' = fo_destination opts
      \<and> {n. h n \<noteq> source n} \<subseteq> {n. to_lower n \<in> set trusted_headers}
      \<and> {n. h n \<noteq> applyDavForwardHeaders source' opts n} \<inter> {n. to_lower n \<in> set trusted_headers} = {}"
proof -
  have "readDavHrefPrefixMode (Some (mode_text m)) = m" for m
    by (cases m) (simp_all add: readDavHrefPrefixMode_def toDavHrefPrefixMode_def mode_text_def)
  then show ?thesis
    unfolding Let_def
    by (auto simp: forwarded_header forward_names trusted_headers_def Let_def simp del: to_lower_Cons split: if_splits)
qed

subsection \<open>Segments of a path\<close>

lemma hasDotSegment_append: "hasDotSegment (a @ ''/'' @ b) \<longleftrightarrow> hasDotSegment a \<or> hasDotSegment b"
  by (simp add: hasDotSegment_def split_on_append)

lemma hasDotSegment_join: "hasDotSegment (join_path ss) \<longleftrightarrow> list_ex hasDotSegment ss"
proof (induction ss)
  case (Cons s ss)
  then show ?case by (cases "ss = []") (simp_all add: join_Cons hasDotSegment_append [simplified])
qed (simp add: hasDotSegment_def)

lemma hasDotSegment_slashes: "hasDotSegment (replicate k slash @ a @ replicate m slash) \<longleftrightarrow> hasDotSegment a"
proof -
  have nil: "\<not> hasDotSegment []" by (simp add: hasDotSegment_def)
  have "hasDotSegment (replicate k slash @ b) = hasDotSegment b" for b
  proof (induction k)
    case (Suc k) then show ?case using hasDotSegment_append [of "[]" "replicate k slash @ b"] nil by simp
  qed simp
  moreover have "hasDotSegment (a @ replicate m slash) = hasDotSegment a"
  proof (induction m)
    case (Suc m)
    then show ?case using hasDotSegment_append [of "a @ replicate m slash" "[]"] nil
      by (simp add: replicate_append_same [symmetric])
  qed simp
  ultimately show ?thesis by simp
qed

lemma stripSlashes_parts: "\<exists>k m. p = replicate k slash @ stripSlashes p @ replicate m slash"
proof -
  have drop: "\<exists>k. s = replicate k slash @ dropWhile ((=) slash) s" for s
  proof (induction s)
    case (Cons c s)
    then obtain k where "s = replicate k slash @ dropWhile ((=) slash) s" by blast
    then show ?case by (cases "c = slash") (auto intro: exI [of _ "Suc k"] exI [of _ 0])
  qed simp
  let ?t = "dropWhile ((=) slash) p"
  obtain k where k: "p = replicate k slash @ ?t" using drop by blast
  obtain m where m: "rev ?t = replicate m slash @ dropWhile ((=) slash) (rev ?t)" using drop by blast
  then have "?t = stripSlashes p @ replicate m slash"
    unfolding stripSlashes_def by (metis rev_append rev_replicate rev_rev_ident)
  with k show ?thesis by metis
qed

lemma hasDotSegment_strip: "hasDotSegment (stripSlashes p) \<longleftrightarrow> hasDotSegment p"
  using stripSlashes_parts [of p] hasDotSegment_slashes by metis

lemma below_any_case:
  assumes "starts_with (to_lower b @ ''/'') (to_lower s)"
  shows "s = take (length b) s @ ''/'' @ drop (length b + 1) s"
proof -
  from assms obtain t where t: "to_lower s = to_lower b @ ''/'' @ t" by (auto simp: starts_with_iff)
  then have len: "length b < length s"
    by (metis add_Suc_right length_append length_to_lower less_add_Suc1 list.size(4) append_Cons append_Nil)
  have "lower_char (s ! length b) = slash"
    using t len by (metis length_to_lower nth_append_length nth_map to_lower_def append_Cons append_Nil)
  moreover have "lower_char c = slash \<longleftrightarrow> c = slash" for c
    by (auto simp: lower_char_def Let_def dest: arg_cong [of _ _ "of_char :: char \<Rightarrow> nat"])
  ultimately show ?thesis
    using len by (metis Cons_eq_appendI append_Nil id_take_nth_drop Suc_eq_plus1)
qed

lemma decode_nothing: "decode_or_raw [] = []" by code_simp

lemma chosen_inner:
  "(if B then Some c else if P then Some [] else if Q then Some r else if R then Some c else None) = Some inner
   \<Longrightarrow> inner = c \<or> inner = [] \<or> (Q \<and> inner = r)"
  by (auto split: if_splits)

lemma no_dots_below:
  assumes "\<not> hasDotSegment p" and "(case browserInnerFrom p of Some i \<Rightarrow> Some i | None \<Rightarrow> innerFromPathname p base mode) = Some inner"
  shows "\<not> hasDotSegment inner"
proof -
  have clean: "\<not> hasDotSegment (stripSlashes p)" using assms(1) by (simp add: hasDotSegment_strip)
  have nil: "\<not> hasDotSegment []" by (simp add: hasDotSegment_def)
  show ?thesis
  proof (cases "browserInnerFrom p")
    case (Some i)
    then obtain a b c d e rest where parts: "split_path (stripSlashes p) = a # b # c # d # e # rest" and i: "i = join_path rest"
      by (auto simp: browserInnerFrom_def split: list.splits if_splits)
    then have "stripSlashes p = join_path (a # b # c # d # e # rest)" by (metis join_split_on)
    with clean have "\<not> list_ex hasDotSegment (a # b # c # d # e # rest)" by (metis hasDotSegment_join)
    with i Some assms(2) hasDotSegment_join [of rest] show ?thesis by simp
  next
    case None
    let ?c = "stripSlashes p" and ?b = "stripSlashes base"
    from None assms(2) have "innerFromPathname p base mode = Some inner" by simp
    note chosen_inner [OF this [unfolded innerFromPathname_def Let_def]]
    then consider "inner = ?c" | "inner = []"
      | "starts_with (to_lower ?b @ ''/'') (to_lower ?c)" "inner = drop (length ?b + 1) ?c"
      by blast
    then show ?thesis
    proof cases
      case 3
      from trans [OF arg_cong [OF below_any_case [OF 3(1)], of hasDotSegment] hasDotSegment_append] 3(2) clean
      show ?thesis by simp
    qed (use clean nil in auto)
  qed
qed

text \<open>
  C28. Front door and volume agree on a destination: what the front door makes of a \<open>Destination\<close>
  lies under the volume's own base and has no dot segment in any encoding, and the volume's parser
  maps it to exactly the path that the front door resolved, decoded.
\<close>

theorem forwarded_destination_is_understood:
  assumes "resolveDestination_front parse_url header requestUrl base mode = Inr d"
    and "base = ''/'' @ owner @ ''/'' @ volume" and "owner \<noteq> []" "volume \<noteq> []" "slash \<notin> set owner" "slash \<notin> set volume"
    and "decode_or_raw owner = owner" "decode_or_raw volume = volume"
    and "parse_url requestUrl None = Some (origin, p)" "parse_url d (Some requestUrl) = Some (origin, drop (length origin) d)"
  shows "\<exists>inner. d = origin @ base @ ''/'' @ inner \<and> \<not> hasDotSegment inner
    \<and> Option.bind (parseDestinationPath parse_url d requestUrl) (\<lambda>full. stripBase full base) = Some (decodeResourcePath (''/'' @ inner))"
proof -
  from assms(1) obtain h o' path where url: "parse_url h (Some requestUrl) = Some (o', path)" and h: "header = Some h"
    by (auto simp: resolveDestination_front_def split: option.splits if_splits)
  let ?inner = "case browserInnerFrom path of Some i \<Rightarrow> Some i | None \<Rightarrow> innerFromPathname path base mode"
  from assms(1,9) h url have dots: "\<not> hasDotSegment path" and some: "?inner \<noteq> None"
    and d': "\<And>i. ?inner = Some i \<Longrightarrow> d = origin @ base @ (if i = [] then ''/'' else ''/'' @ i)"
    by (simp_all add: resolveDestination_front_def split: if_splits option.splits)
  from some obtain inner where inner: "?inner = Some inner" by blast
  from d' [OF this] have d: "d = origin @ base @ ''/'' @ inner" by simp
  have parsed: "parseDestinationPath parse_url d requestUrl = Some (decodeResourcePath (base @ ''/'' @ inner))"
    using assms(9,10) d by (simp add: parseDestinationPath_def)
  have base: "stripSlashes base = owner @ ''/'' @ volume"
    using stripSlashes_idle [of "owner @ ''/'' @ volume" 1 0] assms(2-6) by (cases owner; cases volume rule: rev_cases) auto
  let ?r = "strip_one_slash inner"
  have "stripBase (decodeResourcePath (base @ ''/'' @ inner)) base = Some (decodeResourcePath (''/'' @ inner))"
  proof (cases "inner = []")
    case True
    have "decodeResourcePath (base @ ''/'') = owner @ ''/'' @ volume"
      using assms(2-8) strip_one_slash_slash [of "owner @ ''/'' @ volume"]
      by (simp add: decodeResourcePath_def split_on_append split_on_single split_on_append_sep Let_def)
    with True show ?thesis by (simp add: stripBase_def base decodeResourcePath_def strip_one_slash_def ends_with_slash)
  next
    case False
    then have strip: "strip_one_slash (owner @ ''/'' @ volume @ ''/'' @ inner) = owner @ ''/'' @ volume @ ''/'' @ ?r"
      by (simp add: strip_one_slash_def ends_with_slash butlast_append)
    have "decodeResourcePath (base @ ''/'' @ inner) = (owner @ ''/'' @ volume) @ ''/'' @ join_path (map decode_or_raw (split_path ?r))"
      using strip assms(2-8)
      by (simp add: decodeResourcePath_def split_on_append_sep join_Cons Let_def)
    moreover have "decodeResourcePath (''/'' @ inner) = join_path (map decode_or_raw (split_path ?r))"
      using False by (simp add: decodeResourcePath_def Let_def decode_nothing)
    moreover have "lower_char slash = slash" by code_simp
    ultimately show ?thesis
      using starts_with_append [of "to_lower (owner @ ''/'' @ volume) @ ''/''"]
      by (simp add: stripBase_def base Let_def)
  qed
  with parsed d no_dots_below [OF dots inner] show ?thesis by auto
qed

definition host_url :: url_parser where
  "host_url ref base =
     (if starts_with ''https://h'' ref then Some (''https://h'', drop 9 ref)
      else if starts_with ''/'' ref then Some (''https://h'', ref) else None)"

theorem forwarded_destination_is_understood_witness:
  "\<exists>inner. ''https://h/ann/docs/a%20b/c'' = ''https://h'' @ ''/ann/docs'' @ ''/'' @ inner \<and> \<not> hasDotSegment inner
    \<and> Option.bind (parseDestinationPath host_url ''https://h/ann/docs/a%20b/c'' ''https://h/ann/docs/x'')
        (\<lambda>full. stripBase full ''/ann/docs'') = Some (decodeResourcePath (''/'' @ inner))"
proof (rule forwarded_destination_is_understood)
  show "resolveDestination_front host_url (Some ''/a%20b/c'') ''https://h/ann/docs/x'' ''/ann/docs'' Root_mode
      = Inr ''https://h/ann/docs/a%20b/c''" by code_simp
  show "''/ann/docs'' = ''/'' @ ''ann'' @ ''/'' @ ''docs''" by simp
  show "decode_or_raw ''ann'' = ''ann''" "decode_or_raw ''docs'' = ''docs''" by code_simp+
  show "host_url ''https://h/ann/docs/x'' None = Some (''https://h'', ''/ann/docs/x'')" by code_simp
  show "host_url ''https://h/ann/docs/a%20b/c'' (Some ''https://h/ann/docs/x'')
      = Some (''https://h'', drop (length ''https://h'') ''https://h/ann/docs/a%20b/c'')" by code_simp
qed simp_all

text \<open>
  The browser form of a destination is not checked against the volume: a destination in another
  volume is taken for the same path in this one, so that what should be refused as unmappable is
  carried out in the wrong volume. On the WebDAV form the same destination is refused.
\<close>

lemma foreign_browser_destination_is_taken_for_ours:
  "resolveDestination_front host_url (Some ''/user/volumes/bob/mail/files/x'') ''https://h/ann/docs/a'' ''/ann/docs'' Base_mode
     = Inr ''https://h/ann/docs/x''
   \<and> resolveDestination_front host_url (Some ''/bob/mail/x'') ''https://h/ann/docs/a'' ''/ann/docs'' Base_mode = Inl Invalid"
  by code_simp

end
