(* ===== verification/Html_Choice.thy ===== *)
theory Html_Choice
  imports Dav_Forward Api_Input
begin

section \<open>Which requests get the web application\<close>

text \<open>
  Content negotiation at the root of a volume (\<open>apps/api/src/workers/acceptsHtml.ts\<close>) and the
  routes of \<open>DurableDavWorker.ts\<close> that answer with the shell of the web application. Qualities are
  exact rationals.
\<close>

record candidate =
  cd_type :: string
  cd_quality :: rat

definition html_document_types :: "string list" where
  "html_document_types = [''text/html'', ''application/xhtml+xml'']"

definition isHtmlRange :: "string \<Rightarrow> bool" where
  "isHtmlRange type =
     (if type \<in> set html_document_types then True
      else if \<not> ends_with ''/*'' type \<or> starts_with ''*'' type then False
      else list_ex (starts_with (butlast type)) html_document_types)"

text \<open>The number of a \<open>q=\<close> parameter; one that is no finite number counts as 0.\<close>

definition quality_of :: "string list \<Rightarrow> rat" where
  "quality_of params =
     (case find (\<lambda>p. starts_with ''q='' (to_lower p)) (map trim params) of
        None \<Rightarrow> 1
      | Some p \<Rightarrow> (case js_number (drop 2 p) of Some q \<Rightarrow> q | None \<Rightarrow> 0))"

definition parseAccept :: "string \<Rightarrow> candidate list" where
  "parseAccept header =
     concat (map (\<lambda>part. case split_on CHR '';'' part of
         [] \<Rightarrow> []
       | seg # params \<Rightarrow>
           let type = to_lower (trim seg)
           in if type = [] then [] else [\<lparr>cd_type = type, cd_quality = quality_of params\<rparr>])
       (split_on CHR '','' header))"

definition governingQuality :: "candidate list \<Rightarrow> string \<Rightarrow> rat" where
  "governingQuality candidates target =
     (case find (\<lambda>c. cd_type c = target) candidates of
        Some c \<Rightarrow> cd_quality c
      | None \<Rightarrow>
          (case find (\<lambda>c. ends_with ''/*'' (cd_type c) \<and> starts_with (butlast (cd_type c)) target) candidates of
             Some c \<Rightarrow> cd_quality c
           | None \<Rightarrow> (case find (\<lambda>c. cd_type c = ''*/*'') candidates of Some c \<Rightarrow> cd_quality c | None \<Rightarrow> 0)))"

definition acceptsHtml :: "request \<Rightarrow> bool" where
  "acceptsHtml req =
     (case r_header req ''Accept'' of None \<Rightarrow> False
      | Some header \<Rightarrow>
          if header = [] then False
          else let candidates = parseAccept header;
                   htmlQuality = foldl max (governingQuality candidates ''text/html'')
                     (map (governingQuality candidates) (tl html_document_types));
                   otherQuality = foldl (\<lambda>best c. max best (cd_quality c)) 0
                     (filter (\<lambda>c. \<not> isHtmlRange (cd_type c)) candidates)
               in list_ex (\<lambda>c. isHtmlRange (cd_type c)) candidates \<and> htmlQuality > 0 \<and> htmlQuality > otherQuality)"

subsection \<open>The shell (\<open>DurableDavWorker.ts\<close>)\<close>

datatype page_route = Spa_shell | Falls_through

definition serveSpaForBrowser :: "request \<Rightarrow> page_route" where
  "serveSpaForBrowser req = (if r_method req = ''GET'' \<and> acceptsHtml req then Spa_shell else Falls_through)"

text \<open>The single-segment routes that keep their own meaning instead of showing a profile.\<close>

definition non_profile_segments :: "string list" where
  "non_profile_segments = reserved_namespace_names @ [''openapi.json'', ''openapi.yaml'', ''redocs'']"

definition profile_route :: "string \<Rightarrow> page_route" where
  "profile_route username = (if to_lower username \<in> set non_profile_segments then Falls_through else Spa_shell)"

subsection \<open>When HTML is chosen\<close>

lemma foldl_max_ge: "(m :: rat) \<le> foldl max m qs \<and> (\<forall>q\<in>set qs. q \<le> foldl max m qs)"
proof (induction qs arbitrary: m)
  case (Cons q qs)
  from Cons [of "max m q"] show ?case by auto
qed simp

lemma foldl_max_in: "foldl max (m :: rat) qs = m \<or> foldl max m qs \<in> set qs"
proof (induction qs arbitrary: m)
  case (Cons q qs)
  from Cons [of "max m q"] show ?case by (auto simp: max_def split: if_splits)
qed simp

lemma foldl_quality: "foldl (\<lambda>best c. max best (cd_quality c)) m cs = foldl max m (map cd_quality cs)"
  by (induction cs arbitrary: m) auto

text \<open>
  HTML is sent only to a client that prefers it: the \<open>Accept\<close> header names an HTML range, and
  the quality it gives to a document type is positive and beats every other range it names. A
  client that names no HTML range gets the WebDAV representation.
\<close>

theorem html_is_sent_when_preferred:
  assumes "acceptsHtml req"
  shows "\<exists>header target. r_header req ''Accept'' = Some header \<and> target \<in> set html_document_types
    \<and> governingQuality (parseAccept header) target > 0
    \<and> (\<exists>c\<in>set (parseAccept header). isHtmlRange (cd_type c))
    \<and> (\<forall>c\<in>set (parseAccept header). isHtmlRange (cd_type c) \<or> cd_quality c < governingQuality (parseAccept header) target)"
proof -
  from assms obtain header where h: "r_header req ''Accept'' = Some header"
    by (auto simp: acceptsHtml_def split: option.splits)
  let ?cs = "parseAccept header"
  define html where "html = foldl max (governingQuality ?cs ''text/html'') (map (governingQuality ?cs) (tl html_document_types))"
  define others where "others = filter (\<lambda>c. \<not> isHtmlRange (cd_type c)) ?cs"
  from assms h have chosen: "\<exists>c\<in>set ?cs. isHtmlRange (cd_type c)" "html > 0" "html > foldl max 0 (map cd_quality others)"
    by (auto simp: acceptsHtml_def Let_def html_def others_def foldl_quality list_ex_iff split: if_splits)
  from foldl_max_in [of "governingQuality ?cs ''text/html''" "map (governingQuality ?cs) (tl html_document_types)"]
  obtain target where t: "target \<in> set html_document_types" "html = governingQuality ?cs target"
    unfolding html_def by (auto simp: html_document_types_def)
  have "cd_quality c < html" if "c \<in> set ?cs" "\<not> isHtmlRange (cd_type c)" for c
    using that chosen(3) foldl_max_ge [of 0 "map cd_quality others"] by (fastforce simp: others_def)
  with h t chosen show ?thesis by (intro exI [of _ header] exI [of _ target]) auto
qed

definition accept_request :: "string \<Rightarrow> request" where
  "accept_request v = \<lparr>r_method = ''GET'', r_url = ''/'', r_pathname = ''/'', r_header = [''Accept'' \<mapsto> v], r_body = None\<rparr>"

theorem html_is_sent_when_preferred_witness:
  "\<exists>target \<in> set html_document_types. governingQuality (parseAccept ''text/html'') target > 0"
proof -
  have "acceptsHtml (accept_request ''text/html'')" by code_simp
  from html_is_sent_when_preferred [OF this] show ?thesis by (auto simp: accept_request_def)
qed

text \<open>
  The shell is \<open>text/html\<close>, yet it is sent to a client that accepts no \<open>text/html\<close> at all:
  \<open>application/*\<close> counts as naming a document, and governs \<open>application/xhtml+xml\<close>.
\<close>

lemma unaccepted_html_is_sent:
  "acceptsHtml (accept_request ''application/*'')
   \<and> governingQuality (parseAccept ''application/*'') ''text/html'' = 0"
  by code_simp

end
