(* ===== verification/User_Service.thy ===== *)
theory User_Service
  imports Volume_Services Xml
begin

section \<open>Accounts and their handles\<close>

text \<open>
  \<open>packages/backend-services/src/user\<close>: \<open>UserService.ts\<close>, \<open>usernameRules.ts\<close> and
  \<open>volumeRenameCascade.ts\<close>. The tables \<open>users\<close> and \<open>user_emails\<close> and the resolution of an address to
  an account are the package \<open>@rexezuge/identity\<close>: functions over a state of their own. The registry
  of handles (\<open>namespaces\<close>) and the volumes are tables of \<open>Control_Db\<close>.
\<close>

subsection \<open>\<open>usernameRules.ts\<close>\<close>

definition is_handle_char :: "char \<Rightarrow> bool" where
  "is_handle_char c \<longleftrightarrow> (c \<ge> CHR ''a'' \<and> c \<le> CHR ''z'') \<or> is_digit c"

text \<open>\<open>replaceAll(/-{2,}/g, '-')\<close>\<close>

fun collapse_dashes :: "string \<Rightarrow> string" where
  "collapse_dashes (a # b # s) =
     (if a = CHR ''-'' \<and> b = CHR ''-'' then collapse_dashes (b # s) else a # collapse_dashes (b # s))"
| "collapse_dashes s = s"

definition strip_dashes :: "string \<Rightarrow> string" where
  "strip_dashes s = rev (dropWhile ((=) CHR ''-'') (rev (dropWhile ((=) CHR ''-'') s)))"

definition deriveUsernameCandidate :: "string \<Rightarrow> string" where
  "deriveUsernameCandidate email =
     (let prefix = to_lower (takeWhile (\<lambda>c. c \<noteq> CHR ''@'') email);
          sanitized = strip_dashes (collapse_dashes
            (map (\<lambda>c. if c = CHR ''-'' \<or> is_handle_char c then c else CHR ''-'') prefix))
      in if isValidUsername sanitized then sanitized
         else let alnum = filter is_handle_char sanitized
              in if alnum \<noteq> [] then take username_max_length alnum else ''user'')"

record user_row =
  ur_id :: "string option"
  ur_email :: string
  ur_username :: "string option"

definition namespaceBelongsTo :: "namespace_row \<Rightarrow> account \<Rightarrow> bool" where
  "namespaceBelongsTo row account =
     (if present (ns_userId row) then ns_userId row = Some (ac_id account)
      else map_option to_lower (ns_userEmail row) = Some (to_lower (ac_anchorEmail account)))"

definition userBelongsTo :: "user_row \<Rightarrow> account \<Rightarrow> bool" where
  "userBelongsTo row account =
     (if present (ur_id row) then ur_id row = Some (ac_id account)
      else to_lower (ur_email row) = to_lower (ac_anchorEmail account))"

subsection \<open>The library of accounts\<close>

record 'u user_lib =
  ul_resolve :: "string \<Rightarrow> 'u \<Rightarrow> string + account option"
  ul_register :: "string \<Rightarrow> string \<Rightarrow> 'u \<Rightarrow> 'u \<times> (string + account option)"
  ul_ensureUsername :: "string \<Rightarrow> string \<Rightarrow> 'u \<Rightarrow> 'u \<times> string option"
  ul_setUsername :: "string \<Rightarrow> string \<Rightarrow> 'u \<Rightarrow> 'u \<times> string option"
  ul_byUsernameCi :: "string \<Rightarrow> 'u \<Rightarrow> string + user_row option"
  ul_newAnchor :: string
  ul_clock36 :: string

record 'u user_world =
  uw_users :: 'u
  uw_db :: database

text \<open>A service call: what it leaves and what it throws or returns.\<close>

type_synonym ('u, 'a) user_svc = "'u user_world \<Rightarrow> 'u user_world \<times> (api_error + 'a)"

definition on_db :: "(database \<Rightarrow> database \<times> string option) \<Rightarrow> 'u user_world \<Rightarrow> 'u user_world \<times> string option" where
  "on_db f w = (case f (uw_db w) of (db, e) \<Rightarrow> (w\<lparr>uw_db := db\<rparr>, e))"

definition on_users :: "('u \<Rightarrow> 'u \<times> 'r) \<Rightarrow> 'u user_world \<Rightarrow> 'u user_world \<times> 'r" where
  "on_users f w = (case f (uw_users w) of (u, r) \<Rightarrow> (w\<lparr>uw_users := u\<rparr>, r))"

subsection \<open>\<open>volumeRenameCascade.ts\<close> and \<open>UserService.ts\<close>\<close>

definition cascadeOwnerVolumes :: "db_env \<Rightarrow> string \<Rightarrow> string \<Rightarrow> database \<Rightarrow> database \<times> string option" where
  "cascadeOwnerVolumes env oldOwnerCi newOwner = renameOwner env oldOwnerCi newOwner"

definition validateUsername :: "string \<Rightarrow> api_error + unit" where
  "validateUsername username =
     (if \<not> isValidUsername username then Inl (Bad_request ''Invalid username'')
      else if isReservedNamespaceName username then Inl (Bad_request ''Username is reserved'') else Inr ())"

text \<open>The loop over candidates, from attempt \<open>n\<close> with \<open>k\<close> attempts left.\<close>

definition candidate_taken :: "'u user_lib \<Rightarrow> db_env \<Rightarrow> string \<Rightarrow> 'u user_world \<Rightarrow> bool" where
  "candidate_taken lib env ci w =
     (isReservedNamespaceName ci
      \<or> (case isTaken env ci (uw_db w) of Inr t \<Rightarrow> t | Inl _ \<Rightarrow> False)
      \<or> (case ul_byUsernameCi lib ci (uw_users w) of Inr u \<Rightarrow> u \<noteq> None | Inl _ \<Rightarrow> False))"

fun find_free :: "'u user_lib \<Rightarrow> db_env \<Rightarrow> string \<Rightarrow> nat \<Rightarrow> nat \<Rightarrow> string \<Rightarrow> 'u user_world \<Rightarrow> string" where
  "find_free lib env base n 0 candidate w = base @ ''-'' @ ul_clock36 lib"
| "find_free lib env base n (Suc k) candidate w =
     (if \<not> candidate_taken lib env (to_lower candidate) w then candidate
      else find_free lib env base (n + 1) k (base @ ''-'' @ show_nat (n + 1)) w)"

definition max_handle_attempts :: nat where "max_handle_attempts = 50"

definition findFreeUsername :: "'u user_lib \<Rightarrow> db_env \<Rightarrow> string \<Rightarrow> 'u user_world \<Rightarrow> string" where
  "findFreeUsername lib env base w = find_free lib env base 0 max_handle_attempts base w"

text \<open>Every failure is swallowed; the statements after the first that fails are skipped.\<close>

definition bootstrapUsername :: "'u user_lib \<Rightarrow> db_env \<Rightarrow> account \<Rightarrow> 'u user_world \<Rightarrow> 'u user_world" where
  "bootstrapUsername lib env account w =
     (if present (ac_username account) then w
      else let handle = findFreeUsername lib env (deriveUsernameCandidate (ac_anchorEmail account)) w
           in (case on_users (ul_ensureUsername lib (ac_id account) handle) w of
                 (w1, Some _) \<Rightarrow> w1
               | (w1, None) \<Rightarrow>
                   fst (on_db (claimIgnore env (to_lower handle) (Some (ac_anchorEmail account)) (Some (ac_id account))) w1)))"

definition upsertUser :: "'u user_lib \<Rightarrow> db_env \<Rightarrow> string \<Rightarrow> ('u, account) user_svc" where
  "upsertUser lib env email w =
     (let normalized = to_lower email;
          register = (\<lambda>anchor w. on_users (ul_register lib normalized anchor) w);
          finish = (\<lambda>account w. (bootstrapUsername lib env account w, Inr account))
      in case ul_resolve lib normalized (uw_users w) of
           Inl e \<Rightarrow> (w, Inl (Database e))
         | Inr (Some account) \<Rightarrow> finish account w
         | Inr None \<Rightarrow>
             (case register normalized w of
                (w1, Inl e) \<Rightarrow> (w1, Inl (Database e))
              | (w1, Inr (Some account)) \<Rightarrow> finish account w1
              | (w1, Inr None) \<Rightarrow>
                  (case register (ul_newAnchor lib) w1 of
                     (w2, Inl e) \<Rightarrow> (w2, Inl (Database e))
                   | (w2, Inr (Some account)) \<Rightarrow> finish account w2
                   | (w2, Inr None) \<Rightarrow>
                       (w2, Inl (Not_found ''Could not resolve or provision an account for this address'')))))"

definition getProfileByEmail :: "'u user_lib \<Rightarrow> string \<Rightarrow> 'u user_world \<Rightarrow> api_error + account" where
  "getProfileByEmail lib email w =
     (case ul_resolve lib (to_lower email) (uw_users w) of
        Inl e \<Rightarrow> Inl (Database e)
      | Inr None \<Rightarrow> Inl (Not_found ''User not found'')
      | Inr (Some account) \<Rightarrow> Inr account)"

definition getByUsername :: "'u user_lib \<Rightarrow> string \<Rightarrow> 'u user_world \<Rightarrow> api_error + user_row option" where
  "getByUsername lib username w = map_sum Database id (ul_byUsernameCi lib (to_lower username) (uw_users w))"

record handle_claim =
  hc_claimedFresh :: bool
  hc_legacyNamespaces :: bool

definition claimHandle :: "db_env \<Rightarrow> string \<Rightarrow> account \<Rightarrow> 'u user_world \<Rightarrow> 'u user_world \<times> (api_error + handle_claim)" where
  "claimHandle env handleCi account w =
     (let absent_registry = (\<lambda>inner. if de_missing_schema env inner
            then Inr \<lparr>hc_claimedFresh = False, hc_legacyNamespaces = True\<rparr> else Inl (Database inner))
      in case on_db (claim env handleCi (Some (ac_anchorEmail account)) (Some (ac_id account))) w of
           (w1, None) \<Rightarrow> (w1, Inr \<lparr>hc_claimedFresh = True, hc_legacyNamespaces = False\<rparr>)
         | (w1, Some e) \<Rightarrow>
             (w1, case get_namespace env handleCi (uw_db w1) of
                    Inl inner \<Rightarrow> absent_registry inner
                  | Inr found \<Rightarrow>
                      if (case found of Some row \<Rightarrow> namespaceBelongsTo row account | None \<Rightarrow> False)
                      then Inr \<lparr>hc_claimedFresh = False, hc_legacyNamespaces = False\<rparr>
                      else (case isTaken env handleCi (uw_db w1) of
                              Inl inner \<Rightarrow> absent_registry inner
                            | Inr True \<Rightarrow> Inl (Bad_request ''Username is already taken'')
                            | Inr False \<Rightarrow> Inl (Database e))))"

definition isHandleTaken :: "'u user_lib \<Rightarrow> db_env \<Rightarrow> string \<Rightarrow> account \<Rightarrow> 'u user_world \<Rightarrow> bool" where
  "isHandleTaken lib env handleCi account w =
     (let row = get_namespace env handleCi (uw_db w);
          selfOwned = (case row of Inr (Some r) \<Rightarrow> ns_kind r = ''user'' \<and> namespaceBelongsTo r account | _ \<Rightarrow> False);
          otherOwned = (case row of Inr (Some r) \<Rightarrow> \<not> selfOwned | _ \<Rightarrow> False);
          unreadable = (case row of Inl e \<Rightarrow> \<not> de_missing_schema env e | _ \<Rightarrow> False)
      in otherOwned \<or> unreadable
         \<or> (\<not> selfOwned \<and> (case isTaken env handleCi (uw_db w) of Inr t \<Rightarrow> t | Inl _ \<Rightarrow> False))
         \<or> (case ul_byUsernameCi lib handleCi (uw_users w) of Inr (Some u) \<Rightarrow> \<not> userBelongsTo u account | _ \<Rightarrow> False))"

definition renameUsername :: "'u user_lib \<Rightarrow> db_env \<Rightarrow> string \<Rightarrow> string \<Rightarrow> ('u, account) user_svc" where
  "renameUsername lib env email newUsername w =
     (let handle = trim newUsername; handleCi = to_lower handle
      in case validateUsername handle of
           Inl e \<Rightarrow> (w, Inl e)
         | Inr _ \<Rightarrow>
             (case getProfileByEmail lib email w of
                Inl e \<Rightarrow> (w, Inl e)
              | Inr account \<Rightarrow>
                  if map_option to_lower (ac_username account) = Some handleCi then (w, Inr account)
                  else if isHandleTaken lib env handleCi account w then (w, Inl (Bad_request ''Username is already taken''))
                  else (case claimHandle env handleCi account w of
                          (w1, Inl e) \<Rightarrow> (w1, Inl e)
                        | (w1, Inr c) \<Rightarrow>
                            (case on_users (ul_setUsername lib (ac_id account) handleCi) w1 of
                               (w2, Some e) \<Rightarrow>
                                 (if hc_claimedFresh c then fst (on_db (release env handleCi) w2) else w2, Inl (Database e))
                             | (w2, None) \<Rightarrow>
                                 (if present (ac_username account)
                                  then fst (on_db (cascadeOwnerVolumes env (to_lower (the (ac_username account))) handleCi) w2)
                                  else w2,
                                  Inr (account\<lparr>ac_username := Some handleCi\<rparr>))))))"

end
