(* ===== verification/Read_Cache.thy ===== *)
theory Read_Cache
  imports Api_Input
begin

section \<open>The read cache of the front door\<close>

text \<open>
  Models \<open>apps/api/src/workers/routes/DavReadCache.ts\<close>, \<open>DavVolumeListCache.ts\<close> and
  \<open>packages/backend-runtime/src/kv/davCacheInvalidation.ts\<close>. The cache itself (\<open>KvCache\<close> of
  \<open>@rexezuge/runtime\<close>, over Cloudflare KV) and the digest are parameters: a call of the cache may
  fail, and an entry may be gone at any time. A JSON value read back is untrusted, so its fields
  keep their JSON type until the code has checked it.
\<close>

subsection \<open>The cache as the code sees it\<close>

datatype json_doc = Json_scalar | Json_object "(string \<times> json) list" | Json_list "(string \<times> json) list list"

datatype raw_bytes = Uint8_array string | Array_buffer string | Other_bytes

record raw_file =
  rf_bytes :: raw_bytes
  rf_contentType :: "json option"
  rf_etag :: "json option"

record 'c kv_cache =
  kv_getJson :: "'c \<Rightarrow> string \<Rightarrow> string list \<Rightarrow> string + json_doc option"
  kv_getBinary :: "'c \<Rightarrow> string \<Rightarrow> string list \<Rightarrow> string + raw_file option"
  kv_putJson :: "'c \<Rightarrow> string \<Rightarrow> string list \<Rightarrow> json_doc \<Rightarrow> int \<Rightarrow> 'c \<times> string option"
  kv_putBinary :: "'c \<Rightarrow> string \<Rightarrow> string list \<Rightarrow> raw_file \<Rightarrow> int \<Rightarrow> 'c \<times> string option"
  kv_purgePrefix :: "'c \<Rightarrow> string \<Rightarrow> string list \<Rightarrow> 'c \<times> string option"
  kv_del :: "'c \<Rightarrow> string \<Rightarrow> string list \<Rightarrow> 'c \<times> string option"

definition field_text :: "json option \<Rightarrow> string option" where
  "field_text v = (case v of Some (Json_str s) \<Rightarrow> Some s | _ \<Rightarrow> None)"

subsection \<open>Lifetimes and limits\<close>

definition default_prop_ttl_seconds :: int where "default_prop_ttl_seconds = 120"
definition default_file_ttl_seconds :: int where "default_file_ttl_seconds = 300"

record content_ttls =
  ttl_prop :: int
  ttl_file :: int

definition contentTtls :: "rat option \<Rightarrow> content_ttls" where
  "contentTtls configuredSeconds =
     (let base = (case configuredSeconds of
                    Some s \<Rightarrow> if s > 0 then s else of_int default_file_ttl_seconds
                  | None \<Rightarrow> of_int default_file_ttl_seconds)
      in \<lparr>ttl_prop = max 1 \<lfloor>base / (5 / 2)\<rfloor>, ttl_file = \<lfloor>base\<rfloor>\<rparr>)"

definition max_cached_file_bytes :: nat where "max_cached_file_bytes = 10485760"
definition max_cacheable_path_length :: nat where "max_cacheable_path_length = 200"

definition isCacheablePath :: "string \<Rightarrow> bool" where
  "isCacheablePath inner \<longleftrightarrow> length inner \<le> max_cacheable_path_length"

definition content_invalidating_methods :: "string list" where
  "content_invalidating_methods = [''PUT'', ''DELETE'', ''MKCOL'', ''COPY'', ''MOVE'', ''PROPPATCH'']"

definition invalidatesReadCache :: "string \<Rightarrow> bool" where
  "invalidatesReadCache method \<longleftrightarrow> method \<in> set content_invalidating_methods"

subsection \<open>Freshness\<close>

definition isFresh :: "request \<Rightarrow> string \<Rightarrow> bool" where
  "isFresh req etag =
     (etag \<noteq> [] \<and>
      (case r_header req ''If-None-Match'' of None \<Rightarrow> False
       | Some incoming \<Rightarrow> incoming \<noteq> [] \<and>
           list_ex (\<lambda>part. let candidate = trim part
                           in candidate = ''*'' \<or> weakEtagValue candidate = weakEtagValue etag)
             (split_on CHR '','' incoming)))"

datatype cached_shape = File_shape | Propfind_shape

definition cacheControlFor :: "cached_shape \<Rightarrow> string" where
  "cacheControlFor kind =
     (case kind of File_shape \<Rightarrow> ''private, max-age=300, must-revalidate''
      | Propfind_shape \<Rightarrow> ''private, max-age=60, must-revalidate'')"

subsection \<open>Keys\<close>

definition cacheKeyForVolume :: "string \<Rightarrow> string \<Rightarrow> string" where
  "cacheKeyForVolume owner volume = normalizeVolumeKey owner volume"

definition propfindCacheParts :: "(string \<Rightarrow> string) \<Rightarrow> string \<Rightarrow> string \<Rightarrow> string \<Rightarrow> string \<Rightarrow> string list" where
  "propfindCacheParts digest volumeKey innerPath depth body =
     [volumeKey, ''path:'' @ innerPath, ''depth:'' @ depth, digest body]"

definition fileCacheParts :: "string \<Rightarrow> string \<Rightarrow> string list" where
  "fileCacheParts volumeKey innerPath = [volumeKey, ''path:'' @ innerPath]"

definition etagForPropfind :: "(string \<Rightarrow> string) \<Rightarrow> string \<Rightarrow> string \<Rightarrow> string \<Rightarrow> string \<Rightarrow> string" where
  "etagForPropfind digest volumeKey innerPath depth bodyHash =
     ''W/'' @ [CHR 0x22] @ ''prop-'' @
     digest (volumeKey @ '':'' @ innerPath @ '':'' @ depth @ '':'' @ bodyHash) @ [CHR 0x22]"

subsection \<open>Entries\<close>

definition getCachedPropfind ::
    "'c kv_cache \<Rightarrow> (string \<Rightarrow> string) \<Rightarrow> 'c \<Rightarrow> string \<Rightarrow> string \<Rightarrow> string \<Rightarrow> string \<Rightarrow> string \<Rightarrow> json_doc option" where
  "getCachedPropfind kv digest cache owner volume innerPath depth body =
     (if \<not> isCacheablePath innerPath then None
      else (case kv_getJson kv cache ''metadata''
              (propfindCacheParts digest (cacheKeyForVolume owner volume) innerPath depth body) of
              Inr hit \<Rightarrow> hit | Inl _ \<Rightarrow> None))"

definition putCachedPropfind ::
    "'c kv_cache \<Rightarrow> (string \<Rightarrow> string) \<Rightarrow> 'c \<Rightarrow> string \<Rightarrow> string \<Rightarrow> string \<Rightarrow> string \<Rightarrow> string \<Rightarrow> string \<Rightarrow> string \<Rightarrow> int \<Rightarrow> 'c" where
  "putCachedPropfind kv digest cache owner volume innerPath depth body text etag ttlSeconds =
     (if \<not> isCacheablePath innerPath then cache
      else fst (kv_putJson kv cache ''metadata''
             (propfindCacheParts digest (cacheKeyForVolume owner volume) innerPath depth body)
             (Json_object [(''body'', Json_str text), (''etag'', Json_str etag)]) ttlSeconds))"

text \<open>The entries written before bodies were stored as bytes: base64 in JSON.\<close>

definition legacy_file :: "json_doc option \<Rightarrow> raw_file option" where
  "legacy_file legacy =
     (case legacy of
        Some (Json_object entries) \<Rightarrow>
          (case (field_text (map_of entries ''etag''), field_text (map_of entries ''b64'')) of
             (Some etag, Some b64) \<Rightarrow>
               if etag = [] then None
               else map_option (\<lambda>bytes. \<lparr>rf_bytes = Uint8_array bytes,
                      rf_contentType = map_option Json_str (field_text (map_of entries ''contentType'')),
                      rf_etag = Some (Json_str etag)\<rparr>) (atob b64)
           | _ \<Rightarrow> None)
      | _ \<Rightarrow> None)"

definition getCachedFile :: "'c kv_cache \<Rightarrow> 'c \<Rightarrow> string \<Rightarrow> string \<Rightarrow> string \<Rightarrow> raw_file option" where
  "getCachedFile kv cache owner volume innerPath =
     (if \<not> isCacheablePath innerPath then None
      else let parts = fileCacheParts (cacheKeyForVolume owner volume) innerPath
           in (case kv_getBinary kv cache ''asset'' parts of
                 Inl _ \<Rightarrow> None
               | Inr (Some hit) \<Rightarrow> Some hit
               | Inr None \<Rightarrow>
                   (case kv_getJson kv cache ''asset'' parts of Inl _ \<Rightarrow> None | Inr legacy \<Rightarrow> legacy_file legacy)))"

definition putCachedFile ::
    "'c kv_cache \<Rightarrow> 'c \<Rightarrow> string \<Rightarrow> string \<Rightarrow> string \<Rightarrow> string \<Rightarrow> string \<Rightarrow> string \<Rightarrow> int \<Rightarrow> 'c" where
  "putCachedFile kv cache owner volume innerPath bytes contentType etag ttlSeconds =
     (if \<not> isCacheablePath innerPath then cache
      else if length bytes > max_cached_file_bytes then cache
      else if etag = [] then cache
      else fst (kv_putBinary kv cache ''asset'' (fileCacheParts (cacheKeyForVolume owner volume) innerPath)
             \<lparr>rf_bytes = Uint8_array bytes, rf_contentType = Some (Json_str contentType),
              rf_etag = Some (Json_str etag)\<rparr> ttlSeconds))"

subsection \<open>Invalidation\<close>

definition dav_content_domains :: "string list" where "dav_content_domains = [''metadata'', ''asset'']"

text \<open>A purge that fails is swallowed and the next domain still swept.\<close>

definition invalidateDavVolumeCaches :: "'c kv_cache \<Rightarrow> string \<Rightarrow> 'c \<Rightarrow> 'c" where
  "invalidateDavVolumeCaches kv volumeKey cache =
     foldl (\<lambda>c domain. fst (kv_purgePrefix kv c domain [volumeKey])) cache dav_content_domains"

definition invalidateVolumeCaches :: "'c kv_cache \<Rightarrow> string \<Rightarrow> string \<Rightarrow> 'c \<Rightarrow> 'c" where
  "invalidateVolumeCaches kv owner volume cache = invalidateDavVolumeCaches kv (cacheKeyForVolume owner volume) cache"

subsection \<open>The list of an owner's volumes (\<open>DavVolumeListCache.ts\<close>)\<close>

definition dav_meta_ttl_seconds :: int where "dav_meta_ttl_seconds = 60"

definition ownerKeySegment :: "string \<Rightarrow> string" where "ownerKeySegment ownerKey = to_lower ownerKey"

definition invalidateVolumeListCache :: "'c kv_cache \<Rightarrow> string \<Rightarrow> 'c \<Rightarrow> 'c" where
  "invalidateVolumeListCache kv ownerKey cache =
     fst (kv_del kv cache ''metadata'' [''volumes'', ownerKeySegment ownerKey])"

definition getCachedVolumeList :: "'c kv_cache \<Rightarrow> 'c \<Rightarrow> string \<Rightarrow> json_doc option" where
  "getCachedVolumeList kv cache ownerKey =
     (case kv_getJson kv cache ''metadata'' [''volumes'', ownerKeySegment ownerKey] of
        Inr hit \<Rightarrow> hit | Inl _ \<Rightarrow> None)"

definition putCachedVolumeList :: "'c kv_cache \<Rightarrow> string \<Rightarrow> json_doc \<Rightarrow> 'c \<Rightarrow> 'c" where
  "putCachedVolumeList kv ownerKey value cache =
     fst (kv_putJson kv cache ''metadata'' [''volumes'', ownerKeySegment ownerKey] value dav_meta_ttl_seconds)"

end
