(* ===== verification/Volume_Move.thy ===== *)
theory Volume_Move
  imports User_Service Read_Cache Volume_Worker
begin

section \<open>Renaming an account and moving its volumes\<close>

text \<open>
  \<open>apps/api/src/workers/routes/VolumeMove.ts\<close> and \<open>UserRoutes.ts\<close>. A volume object is named by its
  owner and its name, so a new handle means new objects: every volume is copied entry by entry and
  the old object emptied. Each call of an object is one RPC; \<open>mv_hop n\<close> is the fate of the \<open>n\<close>-th.
\<close>

subsection \<open>\<open>VolumeMove.ts\<close>\<close>

record 'fs move_env =
  mv_dofs :: "'fs dofs"
  mv_sql :: sql_env
  mv_hop :: "nat \<Rightarrow> hop"

record 'fs objects =
  ob_calls :: nat
  ob_volumes :: "string \<Rightarrow> 'fs volume"

definition splitFull :: "string \<Rightarrow> string \<times> string" where
  "splitFull full =
     (case split_path full of [] \<Rightarrow> ([], []) | [owner] \<Rightarrow> (owner, []) | owner # volume # _ \<Rightarrow> (owner, volume))"

definition volume_object :: "string \<Rightarrow> string" where
  "volume_object full = normalizeVolumeKey (fst (splitFull full)) (snd (splitFull full))"

definition rpc ::
    "'fs move_env \<Rightarrow> string \<Rightarrow> ('fs volume \<Rightarrow> 'fs volume \<times> (string + 'a)) \<Rightarrow> 'fs objects \<Rightarrow> 'fs objects \<times> (string + 'a)" where
  "rpc env key f ob =
     (let called = ob\<lparr>ob_calls := ob_calls ob + 1\<rparr>;
          ran = called\<lparr>ob_volumes := (ob_volumes ob)(key := fst (f (ob_volumes ob key)))\<rparr>
      in case mv_hop env (ob_calls ob) of
           No_binding \<Rightarrow> (called, Inl ''DAV_VOLUME binding is not configured'')
         | Lost_before \<Rightarrow> (called, Inl ''Network connection lost.'')
         | Lost_after \<Rightarrow> (ran, Inl ''Network connection lost.'')
         | Answered \<Rightarrow> (ran, snd (f (ob_volumes ob key))))"

definition rpc_list :: "'fs move_env \<Rightarrow> string \<Rightarrow> 'fs objects \<Rightarrow> 'fs objects \<times> (string + volume_entry list)" where
  "rpc_list env key = rpc env key (\<lambda>v. (v, Inr (listEntries (mv_dofs env) (mv_sql env) v)))"

definition rpc_read ::
    "'fs move_env \<Rightarrow> string \<Rightarrow> string \<Rightarrow> 'fs objects \<Rightarrow> 'fs objects \<times> (string + (string \<times> string option) option)" where
  "rpc_read env key p = rpc env key (\<lambda>v. (v, Inr (transfer_readFile (mv_dofs env) (mv_sql env) btoa v p)))"

definition rpc_write :: "'fs move_env \<Rightarrow> string \<Rightarrow> volume_entry \<Rightarrow> 'fs objects \<Rightarrow> 'fs objects \<times> (string + unit)" where
  "rpc_write env key entry = rpc env key (\<lambda>v. case writeEntry (mv_dofs env) (mv_sql env) atob entry v of
     (v', Some e) \<Rightarrow> (v', Inl e) | (v', None) \<Rightarrow> (v', Inr ()))"

definition rpc_purge :: "'fs move_env \<Rightarrow> string \<Rightarrow> 'fs objects \<Rightarrow> 'fs objects \<times> (string + unit)" where
  "rpc_purge env key = rpc env key (\<lambda>v. (deleteVolume (mv_dofs env) (mv_sql env) v, Inr ()))"

definition move_order :: "volume_entry \<Rightarrow> volume_entry \<Rightarrow> int" where
  "move_order a b =
     (if ve_isCollection a \<noteq> ve_isCollection b then (if ve_isCollection a then -1 else 1)
      else int (length (ve_path a)) - int (length (ve_path b)))"

text \<open>The entry of a file carries the bytes and the type that were read for it.\<close>

definition file_copy :: "volume_entry \<Rightarrow> string \<Rightarrow> string option \<Rightarrow> volume_entry" where
  "file_copy entry dataBase64 contentType =
     entry\<lparr>ve_isCollection := False,
       ve_contentType := (case contentType of Some t \<Rightarrow> Some t | None \<Rightarrow> ve_contentType entry),
       ve_data := Some dataBase64\<rparr>"

definition collection_copy :: "volume_entry \<Rightarrow> volume_entry" where
  "collection_copy entry = entry\<lparr>ve_isCollection := True, ve_contentType := None, ve_etag := None, ve_data := None\<rparr>"

fun copy_entries ::
    "'fs move_env \<Rightarrow> string \<Rightarrow> string \<Rightarrow> volume_entry list \<Rightarrow> 'fs objects \<Rightarrow> 'fs objects \<times> string option" where
  "copy_entries env source target [] ob = (ob, None)"
| "copy_entries env source target (entry # entries) ob =
     (if ve_path entry = [] then copy_entries env source target entries ob
      else if ve_isCollection entry
      then (case rpc_write env target (collection_copy entry) ob of
              (ob1, Inl e) \<Rightarrow> (ob1, Some e)
            | (ob1, Inr _) \<Rightarrow> copy_entries env source target entries ob1)
      else (case rpc_read env source (ve_path entry) ob of
              (ob1, Inl e) \<Rightarrow> (ob1, Some e)
            | (ob1, Inr None) \<Rightarrow> (ob1, Some (''Failed to copy volume file '' @ ve_path entry))
            | (ob1, Inr (Some (dataBase64, contentType))) \<Rightarrow>
                (case rpc_write env target (file_copy entry dataBase64 contentType) ob1 of
                   (ob2, Inl e) \<Rightarrow> (ob2, Some e)
                 | (ob2, Inr _) \<Rightarrow> copy_entries env source target entries ob2)))"

definition copy_and_purge ::
    "'fs move_env \<Rightarrow> string \<Rightarrow> string \<Rightarrow> volume_entry list \<Rightarrow> 'fs objects \<Rightarrow> 'fs objects \<times> string option" where
  "copy_and_purge env source target entries ob =
     (case copy_entries env source target (sort_by move_order entries) ob of
        (ob1, Some e) \<Rightarrow> (ob1, Some e)
      | (ob1, None) \<Rightarrow> (case rpc_purge env source ob1 of (ob2, Inl e) \<Rightarrow> (ob2, Some e) | (ob2, Inr _) \<Rightarrow> (ob2, None)))"

text \<open>The answer is whether the volume was empty.\<close>

definition moveOneVolume :: "'fs move_env \<Rightarrow> string \<Rightarrow> string \<Rightarrow> 'fs objects \<Rightarrow> 'fs objects \<times> (string + bool)" where
  "moveOneVolume env oldFull newFull ob =
     (let source = volume_object oldFull; target = volume_object newFull
      in case rpc_list env source ob of
           (ob1, Inl e) \<Rightarrow> (ob1, Inl e)
         | (ob1, Inr entries) \<Rightarrow>
             (case copy_and_purge env source target entries ob1 of
                (ob2, Some e) \<Rightarrow> (fst (rpc_purge env target ob2), Inl e)
              | (ob2, None) \<Rightarrow> (ob2, Inr (entries = []))))"

definition moveOneVolumeBack :: "'fs move_env \<Rightarrow> string \<Rightarrow> string \<Rightarrow> 'fs objects \<Rightarrow> 'fs objects \<times> bool" where
  "moveOneVolumeBack env oldFull newFull ob =
     (case moveOneVolume env newFull oldFull ob of (ob', Inr _) \<Rightarrow> (ob', True) | (ob', Inl _) \<Rightarrow> (ob', False))"

text \<open>The moves are done in order; \<open>completed\<close> holds the finished ones, the last first.\<close>

fun move_all ::
    "'fs move_env \<Rightarrow> (string \<times> string) list \<Rightarrow> (string \<times> string) list \<Rightarrow> nat \<Rightarrow> 'fs objects \<Rightarrow>
     'fs objects \<times> (string \<times> (string \<times> string) list + nat \<times> nat)" where
  "move_all env [] completed empties ob = (ob, Inr (length completed, empties))"
| "move_all env ((old, new) # moves) completed empties ob =
     (if old = [] \<or> new = [] \<or> old = new then move_all env moves completed empties ob
      else (case moveOneVolume env old new ob of
              (ob1, Inl e) \<Rightarrow> (ob1, Inl (e, completed))
            | (ob1, Inr was_empty) \<Rightarrow>
                move_all env moves ((old, new) # completed) (if was_empty then empties + 1 else empties) ob1))"

definition moveVolumeDosForRename ::
    "'fs move_env \<Rightarrow> (string \<times> string) list \<Rightarrow> 'fs objects \<Rightarrow> 'fs objects \<times> (string + nat \<times> nat)" where
  "moveVolumeDosForRename env moves ob =
     (case move_all env moves [] 0 ob of
        (ob1, Inr counts) \<Rightarrow> (ob1, Inr counts)
      | (ob1, Inl (e, completed)) \<Rightarrow>
          (foldl (\<lambda>ob (old, new). fst (moveOneVolumeBack env old new ob)) ob1 completed, Inl e))"

subsection \<open>\<open>UserRoutes.ts\<close>\<close>

definition rename_snapshot_limit :: nat where "rename_snapshot_limit = 1000"

definition snapshotOwnedVolumes :: "db_env \<Rightarrow> string option \<Rightarrow> string \<Rightarrow> database \<Rightarrow> string + (string \<times> string) list" where
  "snapshotOwnedVolumes env userId email db =
     map_sum id (\<lambda>rows. first_by fst (filter (\<lambda>v. fst v \<noteq> [] \<and> snd v \<noteq> []) (map (\<lambda>r. (vr_id r, vr_name r)) rows)))
       (if present userId then listByOwnerUserId env (the userId) rename_snapshot_limit db
        else listByOwnerEmail env email rename_snapshot_limit db)"

definition invalidateRenamedCaches :: "'c kv_cache \<Rightarrow> string \<Rightarrow> (string \<times> string) list \<Rightarrow> 'c \<Rightarrow> 'c" where
  "invalidateRenamedCaches kv cacheKey moves cache =
     foldl (\<lambda>c (old, new).
         invalidateVolumeCaches kv (fst (splitFull new)) (snd (splitFull new))
           (invalidateVolumeCaches kv (fst (splitFull old)) (snd (splitFull old)) c))
       (invalidateVolumeListCache kv cacheKey cache) moves"

record ('fs, 'c, 'u) rename_world =
  rw_users :: "'u user_world"
  rw_objects :: "'fs objects"
  rw_cache :: 'c

datatype rename_answer =
    Renamed "string option"
  | Rename_error nat string

definition nonempty_text :: "json option \<Rightarrow> string option" where
  "nonempty_text v = (case field_text v of Some s \<Rightarrow> if s = [] then None else Some s | None \<Rightarrow> None)"

text \<open>\<open>toErrorResponse\<close>: a database error that may pass is answered with 503.\<close>

definition api_status :: "(string \<Rightarrow> bool) \<Rightarrow> api_error \<Rightarrow> nat \<times> string" where
  "api_status retryable e =
     (case e of Bad_request m \<Rightarrow> (400, m) | Not_found m \<Rightarrow> (404, m) | Forbidden m \<Rightarrow> (403, m)
      | Internal m \<Rightarrow> (500, m) | Database m \<Rightarrow> (if retryable m then 503 else 500, m))"

definition failed :: "(string \<Rightarrow> bool) \<Rightarrow> api_error \<Rightarrow> rename_answer" where
  "failed retryable e = Rename_error (fst (api_status retryable e)) (snd (api_status retryable e))"

definition rename_moves :: "string \<Rightarrow> string \<Rightarrow> (string \<times> string) list \<Rightarrow> (string \<times> string) list" where
  "rename_moves beforeUsername newUsername snapshot =
     map (\<lambda>v. (beforeUsername @ ''/'' @ snd v, newUsername @ ''/'' @ snd v)) snapshot"

text \<open>What follows the rename of the account: the move, and its compensation.\<close>

definition move_renamed ::
    "'u user_lib \<Rightarrow> db_env \<Rightarrow> 'fs move_env \<Rightarrow> 'c kv_cache \<Rightarrow> string \<Rightarrow> string \<Rightarrow> string \<Rightarrow> (string \<times> string) list \<Rightarrow>
     ('fs, 'c, 'u) rename_world \<Rightarrow> ('fs, 'c, 'u) rename_world \<times> rename_answer option" where
  "move_renamed lib env menv kv email cacheKey beforeUsername moves w =
     (case moveVolumeDosForRename menv moves (rw_objects w) of
        (ob, Inr _) \<Rightarrow>
          (w\<lparr>rw_objects := ob, rw_cache := invalidateRenamedCaches kv cacheKey moves (rw_cache w)\<rparr>, None)
      | (ob, Inl _) \<Rightarrow>
          (case renameUsername lib env email beforeUsername (rw_users w) of
             (uw, Inr _) \<Rightarrow> (w\<lparr>rw_objects := ob, rw_users := uw\<rparr>, Some (Rename_error 500 ''Failed to move volume data''))
           | (uw, Inl _) \<Rightarrow> (w\<lparr>rw_objects := ob, rw_users := uw\<rparr>,
               Some (Rename_error 500 ''Failed to move volume data and roll back the rename; the username was changed''))))"

definition handleRenameUsername ::
    "(string \<Rightarrow> bool) \<Rightarrow> 'u user_lib \<Rightarrow> db_env \<Rightarrow> 'fs move_env \<Rightarrow> 'c kv_cache \<Rightarrow> string \<Rightarrow> string option \<Rightarrow> json option \<Rightarrow>
     ('fs, 'c, 'u) rename_world \<Rightarrow> ('fs, 'c, 'u) rename_world \<times> rename_answer" where
  "handleRenameUsername retryable lib env menv kv email userId username w =
     (case nonempty_text username of
        None \<Rightarrow> (w, Rename_error 400 ''username is required'')
      | Some newUsername \<Rightarrow>
          (case getProfileByEmail lib email (rw_users w) of
             Inl e \<Rightarrow> (w, failed retryable e)
           | Inr before \<Rightarrow>
               if \<not> present (ac_username before)
               then (w, Rename_error 409 ''No username is provisioned for this account'')
               else let beforeUsername = the (ac_username before);
                        handleChanged = (to_lower beforeUsername \<noteq> to_lower newUsername)
                    in (case (if handleChanged then snapshotOwnedVolumes env userId email (uw_db (rw_users w)) else Inr []) of
                          Inl e \<Rightarrow> (w, failed retryable (Database e))
                        | Inr snapshot \<Rightarrow>
                            (case renameUsername lib env email newUsername (rw_users w) of
                               (uw, Inl e) \<Rightarrow> (w\<lparr>rw_users := uw\<rparr>, failed retryable e)
                             | (uw, Inr _) \<Rightarrow>
                                 (case (if handleChanged
                                        then move_renamed lib env menv kv email
                                               (case userId of Some u \<Rightarrow> u | None \<Rightarrow> email) beforeUsername
                                               (rename_moves beforeUsername newUsername snapshot) (w\<lparr>rw_users := uw\<rparr>)
                                        else (w\<lparr>rw_users := uw\<rparr>, None)) of
                                    (w', Some answer) \<Rightarrow> (w', answer)
                                  | (w', None) \<Rightarrow>
                                      (w', case getProfileByEmail lib email (rw_users w') of
                                             Inl e \<Rightarrow> failed retryable e | Inr profile \<Rightarrow> Renamed (ac_username profile)))))))"

end
