(* ===== verification/Move_Safety.thy ===== *)
theory Move_Safety
  imports Volume_Move Replica_Runs
begin

section \<open>What a rename does to the files\<close>

text \<open>
  Correctness of \<open>Volume_Move\<close>: the files of a moved volume are in the new object with their
  bytes, and a move that fails leaves the old object alone unless a call was carried out and its
  answer lost. The laws of \<open>dofs\<close> used, all for the paths the worker accepts (\<open>isValidInnerPath\<close>: no
  empty segment, no dots): a written file reads back, neither a write nor a new directory changes
  what another file reads, and a recursive listing that succeeds names every file that can be read.
\<close>

definition files_apart :: "'fs dofs \<Rightarrow> bool" where
  "files_apart dofs \<longleftrightarrow>
     (\<forall>fs p b fs'. isValidInnerPath p \<and> p \<noteq> [] \<and> fs_writeFile dofs fs (fsPathOf p) b = (fs', None) \<longrightarrow>
        fs_read dofs fs' (fsPathOf p) None = Inr b
        \<and> (\<forall>q c. isValidInnerPath q \<and> q \<noteq> [] \<and> q \<noteq> p \<and> fs_read dofs fs (fsPathOf q) None = Inr c
             \<longrightarrow> fs_read dofs fs' (fsPathOf q) None = Inr c))
     \<and> (\<forall>fs p r q c. isValidInnerPath q \<and> q \<noteq> [] \<and> fs_read dofs fs (fsPathOf q) None = Inr c
          \<longrightarrow> fs_read dofs (fst (fs_mkdir dofs fs (fsPathOf p) r)) (fsPathOf q) None = Inr c)"

definition lists_files :: "'fs dofs \<Rightarrow> bool" where
  "lists_files dofs \<longleftrightarrow>
     (\<forall>fs names q b. fs_listDir dofs fs ''/'' True = Inr names \<and> isValidInnerPath q \<and> q \<noteq> []
        \<and> fs_read dofs fs (fsPathOf q) None = Inr b
        \<longrightarrow> q \<in> set names \<and> (\<exists>st. fs_statOf dofs fs (fsPathOf q) = Inr st \<and> \<not> fs_isDirectory st))"

text \<open>A volume holds a file under a path that the worker accepts.\<close>

definition holds :: "'fs dofs \<Rightarrow> 'fs volume \<Rightarrow> string \<Rightarrow> string \<Rightarrow> bool" where
  "holds dofs v p b \<longleftrightarrow> isValidInnerPath p \<and> p \<noteq> [] \<and> fs_read dofs (vol_fs v) (fsPathOf p) None = Inr b"

lemma mem_files_apart: "files_apart mem_dofs"
proof -
  have "map_of (filter (\<lambda>e. fst e \<noteq> p) fs @ [(p, x)]) q = (if q = p then Some x else map_of fs q)" for fs :: mem_fs and p q x
    by (induction fs) (auto simp: map_of_eq_None_iff)
  then show ?thesis
    by (auto simp: files_apart_def fsPathOf_def mem_dofs_def mem_write_def mem_mkdir_def mem_bytes_def mem_find_def Let_def
        map_add_def split: if_splits option.splits)
qed

lemma mem_lists_files: "lists_files mem_dofs"
proof -
  have "q \<in> set (mem_below fs ''/'' True)" if "map_of fs (slash # q) = Some (Some b)" for fs q b
  proof -
    have "(slash # q, Some b) \<in> set fs" using that by (rule map_of_SomeD)
    then show ?thesis
      by (auto simp: mem_below_def mem_prefix_def starts_with_def image_iff intro!: bexI [of _ "(slash # q, Some b)"])
  qed
  then show ?thesis
    by (auto simp: lists_files_def mem_dofs_def mem_listDir_def mem_bytes_def mem_find_def fsPathOf_def split: option.splits if_splits)
qed

subsection \<open>One call of an object\<close>

lemma rpc_elsewhere: "k \<noteq> key \<Longrightarrow> ob_volumes (fst (rpc env key f ob)) k = ob_volumes ob k"
  by (simp add: rpc_def Let_def split: hop.split)

lemma rpc_answered:
  assumes "rpc env key f ob = (ob', Inr a)"
  shows "ob_volumes ob' key = fst (f (ob_volumes ob key))" and "snd (f (ob_volumes ob key)) = Inr a"
  using assms by (auto simp: rpc_def Let_def split: hop.splits)

lemma rpc_reading: "\<forall>v. fst (f v) = v \<Longrightarrow> ob_volumes (fst (rpc env key f ob)) = ob_volumes ob"
  by (simp add: rpc_def Let_def split: hop.split)

lemma rpc_refused:
  assumes "rpc env key f ob = (ob', Inl e)" and "mv_hop env (ob_calls ob) \<noteq> Lost_after" and "\<forall>v. \<exists>a. snd (f v) = Inr a"
  shows "ob_volumes ob' = ob_volumes ob"
  using assms by (auto simp: rpc_def Let_def split: hop.splits) (metis Inl_Inr_False)+

lemma reading_calls [simp]:
  "ob_volumes (fst (rpc_list env key ob)) = ob_volumes ob"
  "ob_volumes (fst (rpc_read env key p ob)) = ob_volumes ob"
  by (simp_all add: rpc_list_def rpc_read_def rpc_reading)

lemma calls_elsewhere:
  "k \<noteq> key \<Longrightarrow> ob_volumes (fst (rpc_write env key entry ob)) k = ob_volumes ob k"
  "k \<noteq> key \<Longrightarrow> ob_volumes (fst (rpc_purge env key ob)) k = ob_volumes ob k"
  by (simp_all add: rpc_write_def rpc_purge_def rpc_elsewhere)

lemma copy_elsewhere:
  "k \<noteq> target \<Longrightarrow> ob_volumes (fst (copy_entries env source target entries ob)) k = ob_volumes ob k"
proof (induction entries arbitrary: ob)
  case (Cons entry entries)
  note calls = calls_elsewhere(1) [OF Cons.prems, of env]
  have wr: "rpc_write env target x ob1 = (ob2, r) \<Longrightarrow> ob_volumes ob2 k = ob_volumes ob1 k" for x ob1 ob2 r
    using calls [of x ob1] by simp
  have rd: "rpc_read env source p ob1 = (ob2, r) \<Longrightarrow> ob_volumes ob2 = ob_volumes ob1" for p ob1 ob2 r
    using reading_calls(2) [of env source p ob1] by simp
  show ?case
    using Cons.IH Cons.prems by (auto simp: rd wr split: prod.split sum.split option.split)
qed simp

subsection \<open>Writing an entry\<close>

lemma bookkeeping_keeps_files [simp]:
  "vol_fs (on_store f v) = vol_fs v"
  "vol_fs (upsertFileNode sql p ct et cr v) = vol_fs v"
  "vol_fs (upsertCollectionNode sql p v) = vol_fs v"
  by (simp_all add: on_store_def upsertFileNode_def upsertCollectionNode_def)

lemma props_keep_files [simp]: "vol_fs (write_props sql p ds v) = vol_fs v"
  unfolding write_props_def by (induction ds arbitrary: v) simp_all

lemma ancestors_keep_files [simp]: "vol_fs (upsert_ancestors sql passed ss v) = vol_fs v"
  by (induction ss arbitrary: passed v) simp_all

lemma directory_keeps:
  "\<lbrakk>files_apart dofs; holds dofs v q b\<rbrakk> \<Longrightarrow> holds dofs (fst (on_fs (\<lambda>fs. fs_mkdir dofs fs (fsPathOf p) r) v)) q b"
  by (simp add: files_apart_def holds_def on_fs_def split_beta)

lemma parents_keep: "\<lbrakk>files_apart dofs; holds dofs v q b\<rbrakk> \<Longrightarrow> holds dofs (make_parents dofs sql parent v) q b"
  using directory_keeps [of dofs v q b] by (simp add: make_parents_def holds_def)

text \<open>An entry of a collection, and one of a file with the bytes it carries.\<close>

lemma collection_written:
  assumes "files_apart dofs" and "holds dofs v q b" and "writeEntry dofs sql dec (collection_copy entry) v = (v', None)"
  shows "holds dofs v' q b"
proof -
  let ?v = "fst (on_fs (\<lambda>fs. fs_mkdir dofs fs (fsPathOf (ve_path entry)) False) (make_parents dofs sql (getParentPath (ve_path entry)) v))"
  have "vol_fs v' = vol_fs ?v"
    using assms(3) by (auto simp: writeEntry_def collection_copy_def Let_def split: if_splits)
  moreover have "holds dofs ?v q b" by (intro directory_keeps parents_keep assms)
  ultimately show ?thesis by (simp add: holds_def)
qed

lemma file_written:
  assumes apart: "files_apart dofs" and written: "writeEntry dofs sql atob (file_copy entry (btoa bytes) ct) v = (v', None)"
  shows "holds dofs v' (ve_path entry) bytes"
    and "\<lbrakk>holds dofs v q b; q = ve_path entry \<longrightarrow> b = bytes\<rbrakk> \<Longrightarrow> holds dofs v' q b"
proof -
  let ?p = "ve_path entry" and ?v = "make_parents dofs sql (getParentPath (ve_path entry)) v"
  have decoded: "(if btoa bytes = [] then Some [] else atob (btoa bytes)) = Some bytes"
    using atob_btoa [of bytes] by (auto simp del: atob_btoa) (metis atob_btoa btoa.simps(1) option.inject)
  obtain v2 where stored: "on_fs (\<lambda>fs. fs_writeFile dofs fs (fsPathOf ?p) bytes) ?v = (v2, None)" and left: "vol_fs v' = vol_fs v2"
    and valid: "isValidInnerPath ?p" "?p \<noteq> []"
    using written decoded
    by (cases "on_fs (\<lambda>fs. fs_writeFile dofs fs (fsPathOf ?p) bytes) ?v")
      (auto simp: writeEntry_def file_copy_def Let_def split: if_splits option.splits)
  from stored have "fs_writeFile dofs (vol_fs ?v) (fsPathOf ?p) bytes = (vol_fs v2, None)"
    by (auto simp: on_fs_def split: prod.splits)
  with apart valid have reads: "fs_read dofs (vol_fs v2) (fsPathOf ?p) None = Inr bytes"
    "\<And>x c. \<lbrakk>isValidInnerPath x; x \<noteq> []; x \<noteq> ?p; fs_read dofs (vol_fs ?v) (fsPathOf x) None = Inr c\<rbrakk>
       \<Longrightarrow> fs_read dofs (vol_fs v2) (fsPathOf x) None = Inr c"
    unfolding files_apart_def by blast+
  show "holds dofs v' ?p bytes" using reads(1) left valid by (simp add: holds_def)
  assume kept: "holds dofs v q b" "q = ?p \<longrightarrow> b = bytes"
  then have "holds dofs ?v q b" by (intro parents_keep apart)
  with reads kept(2) left show "holds dofs v' q b" by (cases "q = ?p") (simp_all add: holds_def)
qed

subsection \<open>Copying the entries\<close>

definition same_file :: "'fs dofs \<Rightarrow> 'fs volume \<Rightarrow> 'fs volume \<Rightarrow> string \<Rightarrow> bool" where
  "same_file dofs v v' p \<longleftrightarrow> (\<exists>b. holds dofs v p b \<and> holds dofs v' p b)"

lemma read_for_copy:
  assumes "rpc_read env source p ob = (ob', Inr (Some (data, ct)))"
  shows "\<exists>b. data = btoa b \<and> holds (mv_dofs env) (ob_volumes ob source) p b"
  using rpc_answered(2) [OF assms [unfolded rpc_read_def]]
  by (auto simp: transfer_readFile_def Let_def holds_def split: if_splits sum.splits)

lemma written_by_call:
  assumes "rpc_write env target entry ob = (ob', Inr u)"
  shows "writeEntry (mv_dofs env) (mv_sql env) atob entry (ob_volumes ob target) = (ob_volumes ob' target, None)"
  using rpc_answered [OF assms [unfolded rpc_write_def]] by (auto split: prod.splits option.splits)

text \<open>One entry: it is in the target, and the files copied before it still are.\<close>

lemma file_step:
  assumes apart: "files_apart (mv_dofs env)" and reading: "rpc_read env source (ve_path entry) ob = (ob1, Inr (Some (data, ct)))"
    and writing: "rpc_write env target (file_copy entry data ct) ob1 = (ob2, Inr u)"
  shows "same_file (mv_dofs env) (ob_volumes ob source) (ob_volumes ob2 target) (ve_path entry)"
    and "same_file (mv_dofs env) (ob_volumes ob source) (ob_volumes ob target) q
         \<Longrightarrow> same_file (mv_dofs env) (ob_volumes ob source) (ob_volumes ob2 target) q"
proof -
  obtain b where data: "data = btoa b" and source: "holds (mv_dofs env) (ob_volumes ob source) (ve_path entry) b"
    using read_for_copy [OF reading] by blast
  have kept: "ob_volumes ob1 = ob_volumes ob" using reading_calls(2) [of env source "ve_path entry" ob] by (simp add: reading)
  note written = file_written [OF apart written_by_call [OF writing [unfolded data]]]
  show "same_file (mv_dofs env) (ob_volumes ob source) (ob_volumes ob2 target) (ve_path entry)"
    using written(1) source by (auto simp: same_file_def)
  assume "same_file (mv_dofs env) (ob_volumes ob source) (ob_volumes ob target) q"
  then obtain c where c: "holds (mv_dofs env) (ob_volumes ob source) q c" "holds (mv_dofs env) (ob_volumes ob target) q c"
    by (auto simp: same_file_def)
  moreover have "q = ve_path entry \<longrightarrow> c = b" using c(1) source by (auto simp: holds_def)
  ultimately show "same_file (mv_dofs env) (ob_volumes ob source) (ob_volumes ob2 target) q"
    using written(2) [of q c] by (auto simp: same_file_def kept)
qed

lemma collection_step:
  assumes "files_apart (mv_dofs env)" and "rpc_write env target (collection_copy entry) ob = (ob', Inr u)"
    and "same_file (mv_dofs env) v (ob_volumes ob target) q"
  shows "same_file (mv_dofs env) v (ob_volumes ob' target) q"
  using assms(3) collection_written [OF assms(1) _ written_by_call [OF assms(2)]] by (auto simp: same_file_def)

lemma copy_entries_copies:
  assumes "files_apart (mv_dofs env)" and "source \<noteq> target" and "copy_entries env source target entries ob = (ob', None)"
  shows "(\<forall>e\<in>set entries. \<not> ve_isCollection e \<and> ve_path e \<noteq> []
            \<longrightarrow> same_file (mv_dofs env) (ob_volumes ob source) (ob_volumes ob' target) (ve_path e))
       \<and> (\<forall>q. same_file (mv_dofs env) (ob_volumes ob source) (ob_volumes ob target) q
            \<longrightarrow> same_file (mv_dofs env) (ob_volumes ob source) (ob_volumes ob' target) q)"
  using assms(3)
proof (induction entries arbitrary: ob)
  case (Cons entry entries)
  note apart = assms(1)
  have frame: "ob_volumes ob2 source = ob_volumes ob1 source" if "rpc_write env target x ob1 = (ob2, r)" for x ob1 ob2 r
    using calls_elsewhere(1) [OF assms(2), of env x ob1] that by simp
  consider (root) "ve_path entry = []" "copy_entries env source target entries ob = (ob', None)"
    | (collection) u ob1 where "ve_isCollection entry" "rpc_write env target (collection_copy entry) ob = (ob1, Inr u)"
        "copy_entries env source target entries ob1 = (ob', None)"
    | (plain) ob1 data ct ob2 u where "rpc_read env source (ve_path entry) ob = (ob1, Inr (Some (data, ct)))"
        "rpc_write env target (file_copy entry data ct) ob1 = (ob2, Inr u)"
        "copy_entries env source target entries ob2 = (ob', None)"
    using Cons.prems by (auto split: if_splits prod.splits sum.splits option.splits)
  then show ?case
  proof cases
    case root then show ?thesis using Cons.IH [OF root(2)] by auto
  next
    case collection
    then show ?thesis
      using Cons.IH [OF collection(3)] collection_step [OF apart collection(2)] frame [OF collection(2)] by auto
  next
    case plain
    have "ob_volumes ob2 source = ob_volumes ob source"
      using frame [OF plain(2)] reading_calls(2) [of env source "ve_path entry" ob] by (simp add: plain(1))
    with Cons.IH [OF plain(3)] file_step [OF apart plain(1,2)] show ?thesis by auto
  qed
qed simp

subsection \<open>Moving a volume\<close>

lemma purge_done:
  assumes "rpc_purge env key ob = (ob', Inr u)"
  shows "ob_volumes ob' key = deleteVolume (mv_dofs env) (mv_sql env) (ob_volumes ob key)"
  using rpc_answered(1) [OF assms [unfolded rpc_purge_def]] by simp

lemma purge_refused:
  assumes "rpc_purge env key ob = (ob', Inl e)" and "mv_hop env (ob_calls ob) \<noteq> Lost_after"
  shows "ob_volumes ob' = ob_volumes ob"
  by (rule rpc_refused [OF assms(1) [unfolded rpc_purge_def] assms(2)]) simp

lemma move_elsewhere:
  assumes "k \<noteq> volume_object old" "k \<noteq> volume_object new"
  shows "ob_volumes (fst (moveOneVolume env old new ob)) k = ob_volumes ob k"
proof -
  have listed: "rpc_list env x ob1 = (ob2, r) \<Longrightarrow> ob_volumes ob2 = ob_volumes ob1" for x ob1 ob2 r
    using reading_calls(1) [of env x ob1] by simp
  have purged: "k \<noteq> x \<Longrightarrow> rpc_purge env x ob1 = (ob2, r) \<Longrightarrow> ob_volumes ob2 k = ob_volumes ob1 k" for x ob1 ob2 r
    using calls_elsewhere(2) [of k x env ob1] by simp
  have copied: "copy_entries env s (volume_object new) es ob1 = (ob2, r) \<Longrightarrow> ob_volumes ob2 k = ob_volumes ob1 k" for s es ob1 ob2 r
    using copy_elsewhere [OF assms(2), of env s es ob1] by simp
  show ?thesis
    using assms by (auto simp: moveOneVolume_def copy_and_purge_def Let_def listed purged copied calls_elsewhere
        split: prod.split sum.split option.split)
qed

lemma moved_steps:
  assumes "moveOneVolume env old new ob = (ob', Inr was_empty)"
  obtains ob1 ob2 where
    "rpc_list env (volume_object old) ob = (ob1, Inr (listEntries (mv_dofs env) (mv_sql env) (ob_volumes ob (volume_object old))))"
    "ob_volumes ob1 = ob_volumes ob"
    "copy_entries env (volume_object old) (volume_object new)
       (sort_by move_order (listEntries (mv_dofs env) (mv_sql env) (ob_volumes ob (volume_object old)))) ob1 = (ob2, None)"
    "rpc_purge env (volume_object old) ob2 = (ob', Inr ())"
proof -
  obtain ob1 entries where listed: "rpc_list env (volume_object old) ob = (ob1, Inr entries)"
    and rest: "copy_and_purge env (volume_object old) (volume_object new) entries ob1 = (ob', None)"
    using assms by (auto simp: moveOneVolume_def Let_def split: prod.splits sum.splits option.splits)
  have "entries = listEntries (mv_dofs env) (mv_sql env) (ob_volumes ob (volume_object old))"
    using rpc_answered(2) [OF listed [unfolded rpc_list_def]] by simp
  moreover have "ob_volumes ob1 = ob_volumes ob" using reading_calls(1) [of env "volume_object old" ob] by (simp add: listed)
  ultimately show thesis
    using that [of ob1] listed rest by (auto simp: copy_and_purge_def split: prod.splits sum.splits option.splits)
qed

text \<open>A finished move: the old object is emptied and every listed file is in the new one.\<close>

lemma moved_volume:
  assumes apart: "files_apart (mv_dofs env)" and objects: "volume_object old \<noteq> volume_object new"
    and moved: "moveOneVolume env old new ob = (ob', Inr was_empty)"
  shows "ob_volumes ob' (volume_object old) = deleteVolume (mv_dofs env) (mv_sql env) (ob_volumes ob (volume_object old))"
    and "\<lbrakk>e \<in> set (listEntries (mv_dofs env) (mv_sql env) (ob_volumes ob (volume_object old)));
          \<not> ve_isCollection e; ve_path e \<noteq> []\<rbrakk>
         \<Longrightarrow> same_file (mv_dofs env) (ob_volumes ob (volume_object old)) (ob_volumes ob' (volume_object new)) (ve_path e)"
proof -
  obtain ob1 ob2 where start: "ob_volumes ob1 = ob_volumes ob"
    and copy: "copy_entries env (volume_object old) (volume_object new)
       (sort_by move_order (listEntries (mv_dofs env) (mv_sql env) (ob_volumes ob (volume_object old)))) ob1 = (ob2, None)"
    and purge: "rpc_purge env (volume_object old) ob2 = (ob', Inr ())"
    by (rule moved_steps [OF moved])
  have source: "ob_volumes ob2 (volume_object old) = ob_volumes ob (volume_object old)"
    using copy_elsewhere [OF objects, of env "volume_object old"] copy start by (metis fst_conv)
  then show "ob_volumes ob' (volume_object old) = deleteVolume (mv_dofs env) (mv_sql env) (ob_volumes ob (volume_object old))"
    using purge_done [OF purge] by simp
  have target: "ob_volumes ob' (volume_object new) = ob_volumes ob2 (volume_object new)"
    using calls_elsewhere(2) [OF objects [symmetric], of env ob2] purge by simp
  assume "e \<in> set (listEntries (mv_dofs env) (mv_sql env) (ob_volumes ob (volume_object old)))"
    "\<not> ve_isCollection e" "ve_path e \<noteq> []"
  then show "same_file (mv_dofs env) (ob_volumes ob (volume_object old)) (ob_volumes ob' (volume_object new)) (ve_path e)"
    using conjunct1 [OF copy_entries_copies [OF apart objects copy]] by (simp add: start target)
qed

subsection \<open>A move that fails\<close>


subsection \<open>Moving every volume of an account\<close>

definition move_list :: "(string \<times> string) list \<Rightarrow> (string \<times> string) list" where
  "move_list moves = filter (\<lambda>(old, new). old \<noteq> [] \<and> new \<noteq> [] \<and> old \<noteq> new) moves"

definition objects_apart :: "(string \<times> string) list \<Rightarrow> bool" where
  "objects_apart moves \<longleftrightarrow>
     distinct (map (\<lambda>m. volume_object (fst m)) (move_list moves) @ map (\<lambda>m. volume_object (snd m)) (move_list moves))"

lemma move_all_elsewhere:
  assumes "move_all env moves completed empties ob = (ob', Inr counts)"
    and "\<forall>m\<in>set (move_list moves). k \<noteq> volume_object (fst m) \<and> k \<noteq> volume_object (snd m)"
  shows "ob_volumes ob' k = ob_volumes ob k"
  using assms
proof (induction moves arbitrary: completed empties ob)
  case (Cons m moves)
  obtain old new where m: "m = (old, new)" by (cases m)
  show ?case
  proof (cases "old = [] \<or> new = [] \<or> old = new")
    case True
    then show ?thesis using Cons.IH Cons.prems by (auto simp: m move_list_def)
  next
    case False
    then obtain ob1 b where step: "moveOneVolume env old new ob = (ob1, Inr b)"
      and rest: "move_all env moves ((old, new) # completed) (if b then empties + 1 else empties) ob1 = (ob', Inr counts)"
      using Cons.prems(1) by (auto simp: m split: prod.splits sum.splits)
    from False Cons.prems(2) have apart: "k \<noteq> volume_object old" "k \<noteq> volume_object new"
      "\<forall>m\<in>set (move_list moves). k \<noteq> volume_object (fst m) \<and> k \<noteq> volume_object (snd m)"
      by (auto simp: m move_list_def)
    have "ob_volumes ob' k = ob_volumes ob1 k" by (rule Cons.IH [OF rest apart(3)])
    also have "\<dots> = ob_volumes ob k" using move_elsewhere [OF apart(1,2), of env ob] by (simp add: step)
    finally show ?thesis .
  qed
qed simp

lemma move_all_moves:
  assumes apart: "files_apart (mv_dofs env)"
  shows "\<lbrakk>move_all env moves completed empties ob = (ob', Inr counts); objects_apart moves; (old, new) \<in> set (move_list moves);
     e \<in> set (listEntries (mv_dofs env) (mv_sql env) (ob_volumes ob (volume_object old))); \<not> ve_isCollection e; ve_path e \<noteq> []\<rbrakk>
   \<Longrightarrow> same_file (mv_dofs env) (ob_volumes ob (volume_object old)) (ob_volumes ob' (volume_object new)) (ve_path e)
     \<and> ob_volumes ob' (volume_object old) = deleteVolume (mv_dofs env) (mv_sql env) (ob_volumes ob (volume_object old))"
proof (induction moves arbitrary: completed empties ob)
  case (Cons m moves)
  obtain o1 n1 where m: "m = (o1, n1)" by (cases m)
  show ?case
  proof (cases "o1 = [] \<or> n1 = [] \<or> o1 = n1")
    case True
    then have skip: "move_list (m # moves) = move_list moves" by (auto simp: m move_list_def)
    then have "objects_apart moves" "(old, new) \<in> set (move_list moves)"
      using Cons.prems(2,3) by (simp_all add: objects_apart_def)
    moreover have "move_all env moves completed empties ob = (ob', Inr counts)"
      using Cons.prems(1) True by (simp add: m del: not_None_eq)
    ultimately show ?thesis using Cons.IH Cons.prems(4-6) by blast
  next
    case False
    then obtain ob1 b where step: "moveOneVolume env o1 n1 ob = (ob1, Inr b)"
      and rest: "move_all env moves ((o1, n1) # completed) (if b then empties + 1 else empties) ob1 = (ob', Inr counts)"
      using Cons.prems(1) by (auto simp: m split: prod.splits sum.splits)
    have listed: "move_list (m # moves) = (o1, n1) # move_list moves" using False by (simp add: m move_list_def)
    with Cons.prems(2) have tail: "objects_apart moves" by (simp add: objects_apart_def)
    from Cons.prems(2) have "volume_object o1 \<notin> (\<lambda>m. volume_object (fst m)) ` set (move_list moves)"
        "volume_object o1 \<notin> (\<lambda>m. volume_object (snd m)) ` set (move_list moves)"
        "volume_object n1 \<notin> (\<lambda>m. volume_object (fst m)) ` set (move_list moves)"
        "volume_object n1 \<notin> (\<lambda>m. volume_object (snd m)) ` set (move_list moves)"
      and first: "volume_object o1 \<noteq> volume_object n1"
      by (simp_all add: objects_apart_def listed)
    then have others: "volume_object (fst m) \<notin> {volume_object o1, volume_object n1}
        \<and> volume_object (snd m) \<notin> {volume_object o1, volume_object n1}" if "m \<in> set (move_list moves)" for m
      using that by (metis imageI insertE singletonD)
    show ?thesis
    proof (cases "(old, new) = (o1, n1)")
      case True
      note here = moved_volume [OF apart first step]
      have "ob_volumes ob' (volume_object o1) = ob_volumes ob1 (volume_object o1)"
        "ob_volumes ob' (volume_object n1) = ob_volumes ob1 (volume_object n1)"
        by (rule move_all_elsewhere [OF rest], use others in force)+
      with here True Cons.prems(4-6) show ?thesis by simp
    next
      case False
      with Cons.prems(3) listed have later: "(old, new) \<in> set (move_list moves)" by auto
      have "volume_object old \<noteq> volume_object o1" "volume_object old \<noteq> volume_object n1"
        using others [OF later] by simp_all
      then have "ob_volumes ob1 (volume_object old) = ob_volumes ob (volume_object old)"
        using move_elsewhere [of "volume_object old" o1 n1 env ob] by (simp add: step)
      with Cons.IH [OF rest tail later] Cons.prems(4-6) show ?thesis by simp
    qed
  qed
qed (simp add: move_list_def)

text \<open>A file that a volume holds is among its entries, when the listing does not fail.\<close>

lemma held_file_is_listed:
  assumes "lists_files dofs" and "fs_listDir dofs (vol_fs v) ''/'' True = Inr names" and "holds dofs v q b"
  shows "\<exists>e \<in> set (listEntries dofs env v). ve_path e = q \<and> \<not> ve_isCollection e"
proof -
  from assms obtain st where q: "q \<in> set names" "isValidInnerPath q" "q \<noteq> []" and st: "fs_statOf dofs (vol_fs v) (fsPathOf q) = Inr st"
    and plain: "\<not> fs_isDirectory st" unfolding lists_files_def holds_def by blast
  have segments: "list_all (\<lambda>s. s \<noteq> [] \<and> s \<noteq> ''.'' \<and> s \<noteq> ''..'') (split_path q)" using q by (simp add: isValidInnerPath_def)
  have "split_path ''.'' = [''.'']" "split_path ''..'' = [''..'']" by simp_all
  with segments have "q \<noteq> ''.''" "q \<noteq> ''..''" by auto
  with q assms(2) have named: "q \<in> set (listRecursive dofs v [])"
    by (simp add: listRecursive_def rp_list_def degraded_def fsPathOf_def)
  have child: "childInner [] q = q" using segments q(3) by (cases q) (auto simp: childInner_def starts_with_def)
  let ?e = "\<lparr>ve_path = q, ve_isCollection = False, ve_contentType = m_contentType (readMeta env v q),
      ve_etag = m_etag (readMeta env v q), ve_data = None, ve_props = degraded [] (getDeadProperties env q (vol_store v))\<rparr>"
  have "?e \<in> set (listEntries dofs env v)"
    unfolding listEntries_def set_concat
    by (rule UN_I [where a = "[?e]"])
      (use named child q st plain in \<open>auto simp: statInner_def rp_stat_def degraded_def Let_def intro!: image_eqI [where x = q]\<close>)
  then show ?thesis by (intro bexI [of _ ?e]) simp_all
qed

text \<open>
  C11. A rename that reports its volumes moved has lost no file. Over a filesystem that keeps the files
  under different accepted paths apart and whose successful recursive listing names every readable
  file, and with the old and the new objects all different ones: when the listing of an old volume
  does not fail, every file it held under an accepted path is in the volume's new object with its
  bytes, and the old object has been emptied (\<open>deleteVolume\<close>).
\<close>

theorem renamed_volumes_keep_their_files:
  assumes "files_apart (mv_dofs env)" and "lists_files (mv_dofs env)"
    and "moveVolumeDosForRename env moves ob = (ob', Inr counts)" and "objects_apart moves"
    and "(old, new) \<in> set (move_list moves)"
    and "fs_listDir (mv_dofs env) (vol_fs (ob_volumes ob (volume_object old))) ''/'' True = Inr names"
    and "holds (mv_dofs env) (ob_volumes ob (volume_object old)) q b"
  shows "holds (mv_dofs env) (ob_volumes ob' (volume_object new)) q b
    \<and> ob_volumes ob' (volume_object old) = deleteVolume (mv_dofs env) (mv_sql env) (ob_volumes ob (volume_object old))"
proof -
  have run: "move_all env moves [] 0 ob = (ob', Inr counts)"
    using assms(3) by (auto simp: moveVolumeDosForRename_def split: prod.splits sum.splits)
  obtain e where e: "e \<in> set (listEntries (mv_dofs env) (mv_sql env) (ob_volumes ob (volume_object old)))" "ve_path e = q" "\<not> ve_isCollection e"
    using held_file_is_listed [OF assms(2,6,7)] by blast
  have "ve_path e \<noteq> []" using e(2) assms(7) by (simp add: holds_def)
  from move_all_moves [OF assms(1) run assms(4,5) e(1,3) this] e(2) assms(7) show ?thesis
    by (auto simp: same_file_def holds_def)
qed

text \<open>
  The hypothesis on the listing is needed: a listing that fails is taken for an empty volume, and the
  old object is emptied although nothing was copied.
\<close>

lemma failed_listing_loses_the_volume:
  assumes "fs_listDir (mv_dofs env) (vol_fs (ob_volumes ob (volume_object old))) ''/'' True = Inl e"
    and "\<forall>n. mv_hop env n = Answered"
  shows "snd (moveOneVolume env old new ob) = Inr True
    \<and> ob_volumes (fst (moveOneVolume env old new ob)) (volume_object old)
        = deleteVolume (mv_dofs env) (mv_sql env) (ob_volumes ob (volume_object old))"
  using assms by (simp add: moveOneVolume_def copy_and_purge_def Let_def rpc_list_def rpc_purge_def rpc_def listEntries_def listRecursive_def
      rp_list_def degraded_def answer_failure_def fsPathOf_def)

subsection \<open>An example, and a lost answer\<close>

definition lab_sql :: sql_env where
  "lab_sql = \<lparr>se_fails = (\<lambda>_. None), se_missing_schema = (\<lambda>_. False), se_now = 5\<rparr>"

definition move_lab :: "(nat \<Rightarrow> hop) \<Rightarrow> mem_fs move_env" where
  "move_lab h = \<lparr>mv_dofs = mem_dofs, mv_sql = lab_sql, mv_hop = h\<rparr>"

definition lab_objects :: "mem_fs objects" where
  "lab_objects = \<lparr>ob_calls = 0, ob_volumes = (\<lambda>k.
     volume_with (if k = ''ann/tv'' then [(''/f'', Some ''x'')] else []))\<rparr>"


theorem renamed_volumes_keep_their_files_witness:
  "holds mem_dofs (ob_volumes (fst (moveVolumeDosForRename (move_lab (\<lambda>n. Answered)) [(''Ann/tv'', ''bob/tv'')] lab_objects)) ''bob/tv'')
     ''f'' ''x''"
proof -
  let ?env = "move_lab (\<lambda>n. Answered)" and ?moves = "[(''Ann/tv'', ''bob/tv'')]"
  have "snd (moveVolumeDosForRename ?env ?moves lab_objects) = Inr (1, 0)" by code_simp
  then have moved: "moveVolumeDosForRename ?env ?moves lab_objects = (fst (moveVolumeDosForRename ?env ?moves lab_objects), Inr (1, 0))"
    by (metis prod.collapse)
  have names: "volume_object ''Ann/tv'' = ''ann/tv''" "volume_object ''bob/tv'' = ''bob/tv''" by code_simp+
  have "move_list ?moves = ?moves" by (simp add: move_list_def)
  then have apart: "objects_apart ?moves" by (simp add: objects_apart_def names)
  have listed: "fs_listDir mem_dofs (vol_fs (ob_volumes lab_objects ''ann/tv'')) ''/'' True = Inr [''f'']" by code_simp
  have source: "holds mem_dofs (ob_volumes lab_objects ''ann/tv'') ''f'' ''x''" unfolding holds_def by code_simp
  have lab: "mv_dofs ?env = mem_dofs" by (simp add: move_lab_def)
  have "holds (mv_dofs ?env) (ob_volumes (fst (moveVolumeDosForRename ?env ?moves lab_objects)) (volume_object ''bob/tv'')) ''f'' ''x''"
    by (rule conjunct1 [OF renamed_volumes_keep_their_files [OF _ _ moved apart, where old = "''Ann/tv''"]])
      (use mem_files_apart mem_lists_files listed source in \<open>simp_all add: lab names move_list_def\<close>)
  then show ?thesis by (simp add: lab names)
qed

text \<open>
  The exception is real: when the old object was emptied but the answer of that call was lost, the
  compensation empties the new object too, and the volume is gone from both.
\<close>

lemma lost_purge_loses_the_volume:
  "case moveOneVolume (move_lab (\<lambda>n. if n = 3 then Lost_after else Answered)) ''ann/tv'' ''bob/tv'' lab_objects of
     (ob, r) \<Rightarrow> isl r \<and> vol_fs (ob_volumes ob ''ann/tv'') = [] \<and> vol_fs (ob_volumes ob ''bob/tv'') = []"
  by code_simp

end
