(* ===== verification/Front_Door.thy ===== *)
theory Front_Door
  imports Read_Cache Dav_Forward Dav_Auth Volume_Worker
begin

section \<open>The front door\<close>

text \<open>
  A WebDAV request on its way to a volume: \<open>apps/api/src/workers/routes/DavReadServing.ts\<close> (reads
  through the cache), \<open>DavRoutes.ts\<close> (authorization, forwarding, invalidation) and the
  session-authenticated plane of \<open>VolumeBrowserRoutes.ts\<close> and \<open>VolumeScopedRoute.ts\<close>. The state is
  what authorization keeps, the volume objects by their name, and the cache. The call of a volume
  object may be lost, before or after the object has run; the digest, the text decoder and the
  reading of a body are library functions.
\<close>

subsection \<open>Entries read back (\<open>DavReadServing.ts\<close>)\<close>

record file_entry =
  fy_etag :: string
  fy_contentType :: "string option"
  fy_bytes :: string

definition asPropfindEntry :: "json_doc option \<Rightarrow> (string \<times> string) option" where
  "asPropfindEntry raw =
     (case raw of
        Some (Json_object entries) \<Rightarrow>
          (case (field_text (map_of entries ''etag''), field_text (map_of entries ''body'')) of
             (Some etag, Some body) \<Rightarrow> if etag = [] then None else Some (etag, body)
           | _ \<Rightarrow> None)
      | _ \<Rightarrow> None)"

definition asFileEntry :: "raw_file option \<Rightarrow> file_entry option" where
  "asFileEntry raw =
     (case raw of None \<Rightarrow> None
      | Some entry \<Rightarrow>
          (case field_text (rf_etag entry) of None \<Rightarrow> None
           | Some etag \<Rightarrow>
               if etag = [] then None
               else (case rf_bytes entry of
                       Other_bytes \<Rightarrow> None
                     | Uint8_array b \<Rightarrow> Some \<lparr>fy_etag = etag, fy_contentType = field_text (rf_contentType entry), fy_bytes = b\<rparr>
                     | Array_buffer b \<Rightarrow> Some \<lparr>fy_etag = etag, fy_contentType = field_text (rf_contentType entry), fy_bytes = b\<rparr>)))"

definition not_modified_304 :: "cached_shape \<Rightarrow> string \<Rightarrow> response" where
  "not_modified_304 kind etag = respond_with 304 [(''ETag'', etag), (''Cache-Control'', cacheControlFor kind)] []"

definition respondFromCache :: "cached_shape \<Rightarrow> string \<Rightarrow> string option \<Rightarrow> string \<Rightarrow> request \<Rightarrow> bool \<Rightarrow> response" where
  "respondFromCache kind etag contentType body req headOnly =
     (if isFresh req etag then not_modified_304 kind etag
      else if kind = Propfind_shape
      then respond_with 207 [(''Content-Type'', ''application/xml; charset=utf-8''), (''ETag'', etag),
             (''Cache-Control'', cacheControlFor Propfind_shape)] body
      else respond_with 200
             [(''Content-Type'', case contentType of Some t \<Rightarrow> t | None \<Rightarrow> ''application/octet-stream''),
              (''Content-Length'', show_nat (length body)), (''ETag'', etag), (''Accept-Ranges'', ''bytes''),
              (''Cache-Control'', cacheControlFor File_shape)] (if headOnly then [] else body))"

definition respondFromBytes ::
    "cached_shape \<Rightarrow> nat \<Rightarrow> string \<Rightarrow> string \<Rightarrow> (string \<times> string) list \<Rightarrow> request \<Rightarrow> bool \<Rightarrow> response" where
  "respondFromBytes kind status body etag extra req headOnly =
     (if isFresh req etag then not_modified_304 kind etag
      else respond_with status
             (foldl (\<lambda>h e. set_header (fst e) (snd e) h)
                [(''Content-Type'', if kind = Propfind_shape then ''application/xml; charset=utf-8''
                                  else ''application/octet-stream''),
                 (''Content-Length'', show_nat (length body)), (''ETag'', etag),
                 (''Cache-Control'', cacheControlFor kind)] extra)
             (if headOnly then [] else body))"

subsection \<open>Reads through the cache\<close>

record reader =
  rd_digest :: "string \<Rightarrow> string"
  rd_text :: "string \<Rightarrow> string"
  rd_drain :: "response \<Rightarrow> string option"

text \<open>A stub answers a request and leaves a volume; \<open>Inl\<close> is a call that threw.\<close>

type_synonym 'v stub = "request \<Rightarrow> 'v \<Rightarrow> (string + response) \<times> 'v"

record serve_args =
  sg_auth :: dav_auth_result
  sg_base :: string
  sg_inner :: string
  sg_ttls :: content_ttls

definition davHeaders :: "request \<Rightarrow> dav_auth_result \<Rightarrow> string \<Rightarrow> string \<Rightarrow> header_map" where
  "davHeaders req auth base inner =
     applyDavForwardHeaders (r_header req)
       \<lparr>fo_base = base, fo_inner = inner, fo_hrefPrefixMode = da_hrefPrefixMode auth,
        fo_userEmail = da_userEmail auth, fo_destination = None, fo_pageParams = None\<rparr>"

definition forward_read :: "serve_args \<Rightarrow> request \<Rightarrow> string \<Rightarrow> string list option \<Rightarrow> request" where
  "forward_read a req method body = req\<lparr>r_method := method,
     r_header := davHeaders req (sg_auth a) (sg_base a) (sg_inner a), r_body := body\<rparr>"

text \<open>What the cache keeps of a volume's answer and what the client gets of it.\<close>

definition fill_file ::
    "'c kv_cache \<Rightarrow> reader \<Rightarrow> serve_args \<Rightarrow> request \<Rightarrow> response \<Rightarrow> 'c \<Rightarrow> response \<times> 'c" where
  "fill_file kv rd a req res c =
     (let contentType = (case response_header ''Content-Type'' res of Some t \<Rightarrow> t | None \<Rightarrow> ''application/octet-stream'')
      in case response_header ''ETag'' res of None \<Rightarrow> (res, c)
         | Some etag \<Rightarrow>
             if etag = [] \<or> contains_sub contentType ''text/html'' then (res, c)
             else (case rd_drain rd res of None \<Rightarrow> (res, c)
                   | Some buf \<Rightarrow>
                       (respondFromBytes File_shape 200 buf etag
                          [(''Content-Type'', contentType), (''Accept-Ranges'', ''bytes'')] req False,
                        if length buf \<le> max_cached_file_bytes
                        then putCachedFile kv c (da_owner (sg_auth a)) (da_volume (sg_auth a)) (sg_inner a) buf
                               contentType etag (ttl_file (sg_ttls a))
                        else c)))"

definition serveGet ::
    "'c kv_cache \<Rightarrow> reader \<Rightarrow> 'v stub \<Rightarrow> serve_args \<Rightarrow> request \<Rightarrow> bool \<Rightarrow> 'v \<times> 'c \<Rightarrow> (string + response) \<times> 'v \<times> 'c" where
  "serveGet kv rd stub a req headOnly = (\<lambda>(v, c).
     (let hasRange = (r_header req ''Range'' \<noteq> None);
          cached = (if hasRange then None
                    else asFileEntry (getCachedFile kv c (da_owner (sg_auth a)) (da_volume (sg_auth a)) (sg_inner a)))
      in case cached of
           Some e \<Rightarrow> (Inr (respondFromCache File_shape (fy_etag e) (fy_contentType e) (fy_bytes e) req headOnly), v, c)
         | None \<Rightarrow>
             (case stub (forward_read a req (if headOnly then ''HEAD'' else ''GET'') None) v of
                (Inl e, v') \<Rightarrow> (Inl e, v', c)
              | (Inr res, v') \<Rightarrow>
                  if headOnly \<or> hasRange \<or> rs_status res \<noteq> 200 then (Inr res, v', c)
                  else (case fill_file kv rd a req res c of (r, c') \<Rightarrow> (Inr r, v', c')))))"

definition fill_propfind ::
    "'c kv_cache \<Rightarrow> reader \<Rightarrow> serve_args \<Rightarrow> request \<Rightarrow> string \<Rightarrow> string \<Rightarrow> response \<Rightarrow> 'c \<Rightarrow> response \<times> 'c" where
  "fill_propfind kv rd a req depth bodyText res c =
     (case rd_drain rd res of None \<Rightarrow> (res, c)
      | Some raw \<Rightarrow>
          (let text = rd_text rd raw; auth = sg_auth a;
               etag = (case response_header ''ETag'' res of Some e \<Rightarrow> e
                       | None \<Rightarrow> etagForPropfind (rd_digest rd) (to_lower (da_owner auth @ ''/'' @ da_volume auth))
                           (sg_inner a) depth (rd_digest rd bodyText))
           in (respondFromBytes Propfind_shape 207 text etag [] req False,
               putCachedPropfind kv (rd_digest rd) c (da_owner auth) (da_volume auth) (sg_inner a) depth bodyText
                 text etag (ttl_prop (sg_ttls a)))))"

definition servePropfind ::
    "'c kv_cache \<Rightarrow> reader \<Rightarrow> 'v stub \<Rightarrow> serve_args \<Rightarrow> request \<Rightarrow> 'v \<times> 'c \<Rightarrow> (string + response) \<times> 'v \<times> 'c" where
  "servePropfind kv rd stub a req = (\<lambda>(v, c).
     (let depth = (case r_header req ''Depth'' of Some d \<Rightarrow> d | None \<Rightarrow> ''infinity'');
          cacheable = (depth = ''0'' \<or> depth = ''1'');
          bodyBytes = (case r_body req of Some chunks \<Rightarrow> concat chunks | None \<Rightarrow> []);
          bodyText = rd_text rd bodyBytes; auth = sg_auth a;
          cached = (if cacheable
                    then asPropfindEntry (getCachedPropfind kv (rd_digest rd) c (da_owner auth) (da_volume auth)
                           (sg_inner a) depth bodyText)
                    else None)
      in case cached of
           Some (etag, body) \<Rightarrow> (Inr (respondFromCache Propfind_shape etag None body req False), v, c)
         | None \<Rightarrow>
             (case stub (forward_read a req ''PROPFIND'' (if bodyBytes = [] then None else Some [bodyBytes])) v of
                (Inl e, v') \<Rightarrow> (Inl e, v', c)
              | (Inr res, v') \<Rightarrow>
                  if \<not> cacheable \<or> rs_status res \<noteq> 207 then (Inr res, v', c)
                  else (case fill_propfind kv rd a req depth bodyText res c of (r, c') \<Rightarrow> (Inr r, v', c')))))"

subsection \<open>The WebDAV plane (\<open>DavRoutes.ts\<close>)\<close>

record ('fs, 'c) front_env =
  fn_auth :: auth_env
  fn_platform :: "'fs platform"
  fn_hop :: hop
  fn_kv :: "'c kv_cache"
  fn_reader :: reader
  fn_siteUrl :: "string option"
  fn_cacheTtl :: "rat option"

record ('fs, 'c) front =
  fd_auth :: auth_world
  fd_volumes :: "string \<Rightarrow> 'fs volume"
  fd_cache :: 'c

definition volume_stub :: "hop \<Rightarrow> 'fs platform \<Rightarrow> 'fs volume stub" where
  "volume_stub h pf req v =
     (case h of
        No_binding \<Rightarrow> (Inl ''DAV_VOLUME binding is not configured'', v)
      | Lost_before \<Rightarrow> (Inl ''Network connection lost.'', v)
      | Lost_after \<Rightarrow> (Inl ''Network connection lost.'', snd (fetch pf req v))
      | Answered \<Rightarrow> (case fetch pf req v of (r, v') \<Rightarrow> (Inr r, v')))"

definition cors :: "('fs, 'c) front_env \<Rightarrow> request \<Rightarrow> response \<Rightarrow> response" where
  "cors env req res = applyCors (pf_url (fn_platform env)) res req (fn_siteUrl env)"

definition methodNotAllowed :: "('fs, 'c) front_env \<Rightarrow> request \<Rightarrow> response" where
  "methodNotAllowed env req = cors env req method_not_allowed"

text \<open>A thrown error is \<open>Inl\<close>; the worker's error handler answers it with 500.\<close>

type_synonym ('fs, 'c) front_result = "(string + response) \<times> ('fs, 'c) front"

definition on_volume :: "string \<Rightarrow> (string + response) \<times> 'fs volume \<times> 'c \<Rightarrow> ('fs, 'c) front \<Rightarrow> ('fs, 'c) front_result" where
  "on_volume key = (\<lambda>(r, v, c) w. (r, w\<lparr>fd_volumes := (fd_volumes w)(key := v), fd_cache := c\<rparr>))"

text \<open>Forward the request, then drop the volume's entries when its method can change content.\<close>

definition forward_write ::
    "('fs, 'c) front_env \<Rightarrow> string \<Rightarrow> string \<Rightarrow> request \<Rightarrow> 'fs volume \<times> 'c \<Rightarrow> (string + response) \<times> 'fs volume \<times> 'c" where
  "forward_write env owner volume forward = (\<lambda>(v, c).
     (case volume_stub (fn_hop env) (fn_platform env) forward v of
        (Inl e, v') \<Rightarrow> (Inl e, v', c)
      | (Inr res, v') \<Rightarrow>
          (Inr res, v', if invalidatesReadCache (r_method forward)
                        then invalidateVolumeCaches (fn_kv env) owner volume c else c)))"

definition dav_write ::
    "('fs, 'c) front_env \<Rightarrow> dav_auth_result \<Rightarrow> string \<Rightarrow> string \<Rightarrow> request \<Rightarrow> 'fs volume \<times> 'c \<Rightarrow> (string + response) \<times> 'fs volume \<times> 'c" where
  "dav_write env auth base inner req = (\<lambda>(v, c).
     (let method = r_method req; headers = davHeaders req auth base inner;
          body = (if allowsBody method then r_body req else None);
          forward = (\<lambda>h. forward_write env (da_owner auth) (da_volume auth) (req\<lparr>r_header := h, r_body := body\<rparr>) (v, c))
      in if method \<in> {''COPY'', ''MOVE''}
         then (case resolveDestination_front (pf_url (fn_platform env)) (r_header req ''Destination'') (r_url req) base
                      (da_hrefPrefixMode auth) of
                 Inl _ \<Rightarrow> (Inr (respond 400 ''Bad Request''), v, c)
               | Inr destination \<Rightarrow> forward (header_set ''Destination'' destination headers))
         else forward headers))"

definition dav_granted ::
    "('fs, 'c) front_env \<Rightarrow> dav_auth_result \<Rightarrow> string \<Rightarrow> request \<Rightarrow> 'fs volume \<times> 'c \<Rightarrow> (string + response) \<times> 'fs volume \<times> 'c" where
  "dav_granted env auth inner req vc =
     (let method = r_method req; base = ''/'' @ da_owner auth @ ''/'' @ da_volume auth;
          stub = volume_stub (fn_hop env) (fn_platform env);
          a = \<lparr>sg_auth = auth, sg_base = base, sg_inner = inner, sg_ttls = contentTtls (fn_cacheTtl env)\<rparr>
      in if method \<in> {''GET'', ''HEAD''} then serveGet (fn_kv env) (fn_reader env) stub a req (method = ''HEAD'') vc
         else if method = ''PROPFIND'' then servePropfind (fn_kv env) (fn_reader env) stub a req vc
         else dav_write env auth base inner req vc)"

definition handleDav ::
    "('fs, 'c) front_env \<Rightarrow> string \<Rightarrow> string \<Rightarrow> string \<Rightarrow> request \<Rightarrow> ('fs, 'c) front \<Rightarrow> ('fs, 'c) front_result" where
  "handleDav env owner volume inner req w =
     (if r_method req = ''OPTIONS'' then (Inr (cors env req options_response), w)
      else (case davAuthForVolume (fn_auth env) owner volume (r_header req ''Authorization'')
              (requiresWrite (r_method req)) (fd_auth w) of
         (aw, Refused r) \<Rightarrow> (Inr (cors env req r), w\<lparr>fd_auth := aw\<rparr>)
       | (aw, Granted auth) \<Rightarrow>
           if fn_hop env = No_binding then (Inl ''DAV_VOLUME binding is not configured'', w\<lparr>fd_auth := aw\<rparr>)
           else let key = normalizeVolumeKey (da_owner auth) (da_volume auth)
                in map_prod (map_sum (\<lambda>e. e) (cors env req)) (\<lambda>w. w)
                     (on_volume key (dav_granted env auth inner req (fd_volumes w key, fd_cache w)) (w\<lparr>fd_auth := aw\<rparr>))))"

text \<open>The routes below \<open>/:owner/:volume\<close>: the known methods, and 405 for the others.\<close>

definition dav_route ::
    "('fs, 'c) front_env \<Rightarrow> request \<Rightarrow> ('fs, 'c) front \<Rightarrow> ('fs, 'c) front_result" where
  "dav_route env req w =
     (case split_path (r_pathname req) of
        lead # owner # volume # rest \<Rightarrow>
          if r_method req \<in> set supportMethods
          then handleDav env (decode_or_raw owner) (decode_or_raw volume) (innerPathOf (r_pathname req)) req w
          else (Inr (methodNotAllowed env req), w)
      | _ \<Rightarrow> (Inr (respond 404 ''404 Not Found''), w))"

end
