(* ===== verification/Cache_Safety.thy ===== *)
theory Cache_Safety
  imports Front_Door Method_Safety
begin

section \<open>What the read cache may answer\<close>

text \<open>
  A \<open>GET\<close> answered from the cache is an answer of the volume. The cache is any store that never
  invents an entry (\<open>kv_lawful\<close>): it returns only what was put under the key, at whatever time, and
  may forget or keep anything, since a purge is bounded and the store eventually consistent. The
  volume is an interface (\<open>read_source\<close>) that the volume worker implements.
\<close>

subsection \<open>The cache\<close>

text \<open>
  \<open>jsons\<close> and \<open>bins\<close> are the entries a cache may still return. A put adds at most its entry, and a
  purge or a deletion adds none; whether they remove any is left open.
\<close>

type_synonym 'x cached = "(string \<times> string list \<times> 'x) set"

definition kv_lawful :: "'c kv_cache \<Rightarrow> ('c \<Rightarrow> json_doc cached) \<Rightarrow> ('c \<Rightarrow> raw_file cached) \<Rightarrow> bool" where
  "kv_lawful kv jsons bins \<longleftrightarrow>
     (\<forall>c d k x. kv_getJson kv c d k = Inr (Some x) \<longrightarrow> (d, k, x) \<in> jsons c)
   \<and> (\<forall>c d k x. kv_getBinary kv c d k = Inr (Some x) \<longrightarrow> (d, k, x) \<in> bins c)
   \<and> (\<forall>c d k x t. jsons (fst (kv_putJson kv c d k x t)) \<subseteq> insert (d, k, x) (jsons c)
        \<and> bins (fst (kv_putJson kv c d k x t)) \<subseteq> bins c)
   \<and> (\<forall>c d k x t. bins (fst (kv_putBinary kv c d k x t)) \<subseteq> insert (d, k, x) (bins c)
        \<and> jsons (fst (kv_putBinary kv c d k x t)) \<subseteq> jsons c)
   \<and> (\<forall>c d v. jsons (fst (kv_purgePrefix kv c d v)) \<subseteq> jsons c \<and> bins (fst (kv_purgePrefix kv c d v)) \<subseteq> bins c)"

lemma kv_lawfulD:
  assumes "kv_lawful kv jsons bins"
  shows "kv_getJson kv c d k = Inr (Some j) \<Longrightarrow> (d, k, j) \<in> jsons c"
    and "kv_getBinary kv c d k = Inr (Some x) \<Longrightarrow> (d, k, x) \<in> bins c"
    and "y \<in> jsons (fst (kv_putJson kv c d k j t)) \<Longrightarrow> y = (d, k, j) \<or> y \<in> jsons c"
    and "bins (fst (kv_putJson kv c d k j t)) \<subseteq> bins c"
    and "z \<in> bins (fst (kv_putBinary kv c d k x t)) \<Longrightarrow> z = (d, k, x) \<or> z \<in> bins c"
    and "jsons (fst (kv_putBinary kv c d k x t)) \<subseteq> jsons c"
    and "jsons (fst (kv_purgePrefix kv c d v)) \<subseteq> jsons c"
    and "bins (fst (kv_purgePrefix kv c d v)) \<subseteq> bins c"
proof -
  note L = assms [unfolded kv_lawful_def]
  show "kv_getJson kv c d k = Inr (Some j) \<Longrightarrow> (d, k, j) \<in> jsons c" using L by meson
  show "kv_getBinary kv c d k = Inr (Some x) \<Longrightarrow> (d, k, x) \<in> bins c" using L by meson
  have "jsons (fst (kv_putJson kv c d k j t)) \<subseteq> insert (d, k, j) (jsons c)" using L by meson
  then show "y \<in> jsons (fst (kv_putJson kv c d k j t)) \<Longrightarrow> y = (d, k, j) \<or> y \<in> jsons c" by blast
  show "bins (fst (kv_putJson kv c d k j t)) \<subseteq> bins c" using L by meson
  have "bins (fst (kv_putBinary kv c d k x t)) \<subseteq> insert (d, k, x) (bins c)" using L by meson
  then show "z \<in> bins (fst (kv_putBinary kv c d k x t)) \<Longrightarrow> z = (d, k, x) \<or> z \<in> bins c" by blast
  show "jsons (fst (kv_putBinary kv c d k x t)) \<subseteq> jsons c" using L by meson
  show "jsons (fst (kv_purgePrefix kv c d v)) \<subseteq> jsons c" using L by meson
  show "bins (fst (kv_purgePrefix kv c d v)) \<subseteq> bins c" using L by meson
qed

subsection \<open>Headers of the answers\<close>

lemma header_names:
  "to_lower ''ETag'' = ''etag''" "to_lower ''Content-Type'' = ''content-type''"
  "to_lower ''Content-Length'' = ''content-length''" "to_lower ''Cache-Control'' = ''cache-control''"
  "to_lower ''Accept-Ranges'' = ''accept-ranges''" "to_lower ''Last-Modified'' = ''last-modified''"
  "to_lower ''Content-Range'' = ''content-range''"
  by code_simp+

lemma not_fresh [simp]: "r_header req ''If-None-Match'' = None \<Longrightarrow> \<not> isFresh req etag"
  by (simp add: isFresh_def)

lemma bytes_answer:
  assumes "r_header req ''If-None-Match'' = None"
  shows "rs_status (respondFromBytes File_shape 200 b etag [(''Content-Type'', ct), (''Accept-Ranges'', ''bytes'')] req False) = 200"
    and "rs_body (respondFromBytes File_shape 200 b etag [(''Content-Type'', ct), (''Accept-Ranges'', ''bytes'')] req False) = b"
    and "response_header ''ETag'' (respondFromBytes File_shape 200 b etag [(''Content-Type'', ct), (''Accept-Ranges'', ''bytes'')] req False) = Some etag"
    and "response_header ''Content-Type'' (respondFromBytes File_shape 200 b etag [(''Content-Type'', ct), (''Accept-Ranges'', ''bytes'')] req False) = Some ct"
  using assms
  by (simp_all add: respondFromBytes_def response_header_def set_header_def header_names del: to_lower_Cons)

lemma cached_answer:
  assumes "r_header req ''If-None-Match'' = None"
  shows "rs_status (respondFromCache File_shape etag (Some ct) b req False) = 200"
    and "rs_body (respondFromCache File_shape etag (Some ct) b req False) = b"
    and "response_header ''ETag'' (respondFromCache File_shape etag (Some ct) b req False) = Some etag"
    and "response_header ''Content-Type'' (respondFromCache File_shape etag (Some ct) b req False) = Some ct"
  using assms
  by (simp_all add: respondFromCache_def response_header_def header_names del: to_lower_Cons)

text \<open>Two answers that a client cannot tell apart by status, body, tag or type.\<close>

definition answer_type :: "response \<Rightarrow> string" where
  "answer_type res = (case response_header ''Content-Type'' res of Some t \<Rightarrow> t | None \<Rightarrow> ''application/octet-stream'')"

definition same_answer :: "response \<Rightarrow> response \<Rightarrow> bool" where
  "same_answer a b \<longleftrightarrow> rs_status a = rs_status b \<and> rs_body a = rs_body b
     \<and> response_header ''ETag'' a = response_header ''ETag'' b \<and> answer_type a = answer_type b"

lemma same_answer_refl [simp]: "same_answer a a" by (simp add: same_answer_def)

subsection \<open>The volume as the cache sees it\<close>

text \<open>What makes an answer cacheable: a \<open>GET\<close> of the whole resource, answered 200 with a tag.\<close>

definition cacheable_answer :: "response \<Rightarrow> string \<Rightarrow> string \<Rightarrow> bool" where
  "cacheable_answer res ct etag \<longleftrightarrow> rs_status res = 200 \<and> response_header ''ETag'' res = Some etag \<and> etag \<noteq> []
     \<and> ct = answer_type res
     \<and> \<not> contains_sub ct ''text/html''"

definition plain_read :: "request \<Rightarrow> bool" where
  "plain_read req \<longleftrightarrow> r_method req = ''GET'' \<and> \<not> ends_with ''/'' (r_pathname req) \<and>
     (\<forall>k\<in>{''Range'', ''If'', ''If-Match'', ''If-None-Match'', ''If-Modified-Since'', ''If-Unmodified-Since''}.
        r_header req k = None)"

text \<open>
  \<open>shows_file v inner (bytes, type, tag)\<close>: the volume \<open>v\<close> holds that file at \<open>inner\<close>. A source that is
  asked for it answers with it; whatever it answers to a read, it holds, and a read changes nothing.
\<close>

lemma forward_read_headers:
  "r_method (forward_read a req m body) = m" "r_pathname (forward_read a req m body) = r_pathname req"
  "r_header (forward_read a req m body) ''X-Dav-Path'' = Some (sg_inner a)"
  "k \<in> {''Range'', ''If'', ''If-Match'', ''If-None-Match'', ''If-Modified-Since'', ''If-Unmodified-Since''} \<Longrightarrow>
     r_header (forward_read a req m body) k = r_header req k"
proof -
  have "to_lower ''Range'' = ''range''" "to_lower ''If'' = ''if''" "to_lower ''If-Match'' = ''if-match''"
    "to_lower ''If-None-Match'' = ''if-none-match''" "to_lower ''If-Modified-Since'' = ''if-modified-since''"
    "to_lower ''If-Unmodified-Since'' = ''if-unmodified-since''"
    by code_simp+
  note names = this forward_names
  show "r_method (forward_read a req m body) = m" "r_pathname (forward_read a req m body) = r_pathname req"
    by (simp_all add: forward_read_def)
  show "r_header (forward_read a req m body) ''X-Dav-Path'' = Some (sg_inner a)"
    by (simp add: forward_read_def davHeaders_def forwarded_header names Let_def del: to_lower_Cons)
  show "k \<in> {''Range'', ''If'', ''If-Match'', ''If-None-Match'', ''If-Modified-Since'', ''If-Unmodified-Since''} \<Longrightarrow>
     r_header (forward_read a req m body) k = r_header req k"
    by (elim insertE; simp add: forward_read_def davHeaders_def forwarded_header names Let_def del: to_lower_Cons)
qed

locale read_source =
  fixes source :: "'v stub \<Rightarrow> bool"
    and steady :: "'v stub \<Rightarrow> bool"
    and shows_file :: "'v \<Rightarrow> string \<Rightarrow> string \<times> string \<times> string \<Rightarrow> bool"
  assumes reads_keep: "\<lbrakk>source s; \<not> requiresWrite (r_method req)\<rbrakk> \<Longrightarrow> snd (s req v) = v"
    and answer_is_held: "\<lbrakk>source s; fst (s req v) = Inr res; r_method req = ''GET''; r_header req ''Range'' = None;
       r_header req ''X-Dav-Path'' = Some inner; cacheable_answer res ct etag\<rbrakk> \<Longrightarrow> shows_file v inner (rs_body res, ct, etag)"
    and held_is_answered: "\<lbrakk>steady s; shows_file v inner (bytes, ct, etag); plain_read req; r_header req ''X-Dav-Path'' = Some inner\<rbrakk>
       \<Longrightarrow> \<exists>res. fst (s req v) = Inr res \<and> rs_body res = bytes \<and> cacheable_answer res ct etag"
begin

text \<open>
  A cache is honest when every file it may return was held, at that path, by a state the volume has
  been in: \<open>past key\<close> are the states of the volume with that key so far.
\<close>

definition held_once :: "(string \<Rightarrow> 'v set) \<Rightarrow> string \<Rightarrow> string \<Rightarrow> string \<times> string \<times> string \<Rightarrow> bool" where
  "held_once past key inner f \<longleftrightarrow> (\<exists>v \<in> past key. shows_file v inner f)"

definition honest :: "('c \<Rightarrow> json_doc cached) \<Rightarrow> ('c \<Rightarrow> raw_file cached) \<Rightarrow> (string \<Rightarrow> 'v set) \<Rightarrow> 'c \<Rightarrow> bool" where
  "honest jsons bins past c \<longleftrightarrow>
     (\<forall>k j. (''asset'', k, j) \<notin> jsons c)
     \<and> (\<forall>k x. (''asset'', k, x) \<in> bins c \<longrightarrow>
          (\<exists>key inner bytes ct etag. k = fileCacheParts key inner
             \<and> x = \<lparr>rf_bytes = Uint8_array bytes, rf_contentType = Some (Json_str ct), rf_etag = Some (Json_str etag)\<rparr>
             \<and> held_once past key inner (bytes, ct, etag)))"

lemma honest_start: "\<lbrakk>jsons c = {}; bins c = {}\<rbrakk> \<Longrightarrow> honest jsons bins past c"
  by (simp add: honest_def)

lemma honest_shrinks:
  "\<lbrakk>honest jsons bins past c; jsons c' \<subseteq> jsons c \<union> {x. fst x \<noteq> ''asset''}; bins c' \<subseteq> bins c\<rbrakk> \<Longrightarrow> honest jsons bins past c'"
  unfolding honest_def by (fastforce dest: subsetD)

lemma honest_later: "honest jsons bins past c \<Longrightarrow> \<forall>key. past key \<subseteq> past' key \<Longrightarrow> honest jsons bins past' c"
  unfolding honest_def held_once_def by (meson subsetD)

text \<open>Dropping the entries of a volume does no harm, however many it leaves.\<close>

lemma honest_invalidated:
  assumes law: "kv_lawful kv jsons bins" and h: "honest jsons bins past c"
  shows "honest jsons bins past (invalidateVolumeCaches kv owner volume c)"
proof -
  define c1 where "c1 = fst (kv_purgePrefix kv c ''metadata'' [normalizeVolumeKey owner volume])"
  define c2 where "c2 = fst (kv_purgePrefix kv c1 ''asset'' [normalizeVolumeKey owner volume])"
  have c2: "invalidateVolumeCaches kv owner volume c = c2"
    by (simp add: invalidateVolumeCaches_def invalidateDavVolumeCaches_def dav_content_domains_def cacheKeyForVolume_def c1_def c2_def)
  have "jsons c2 \<subseteq> jsons c" "bins c2 \<subseteq> bins c"
    unfolding c1_def c2_def using kv_lawfulD(7,8) [OF law] by blast+
  then show ?thesis unfolding c2 by (intro honest_shrinks [OF h]) auto
qed

lemma honest_put:
  assumes law: "kv_lawful kv jsons bins" and h: "honest jsons bins past c"
    and shown: "held_once past (normalizeVolumeKey owner volume) inner (bytes, ct, etag)"
  shows "honest jsons bins past (putCachedFile kv c owner volume inner bytes ct etag ttl)"
proof -
  let ?x = "\<lparr>rf_bytes = Uint8_array bytes, rf_contentType = Some (Json_str ct), rf_etag = Some (Json_str etag)\<rparr>"
  let ?k = "fileCacheParts (normalizeVolumeKey owner volume) inner"
  let ?c = "fst (kv_putBinary kv c ''asset'' ?k ?x ttl)"
  have "honest jsons bins past ?c"
    unfolding honest_def
  proof (intro conjI allI impI)
    fix k j show "(''asset'', k, j) \<notin> jsons ?c"
      using h kv_lawfulD(6) [OF law] unfolding honest_def by blast
  next
    fix k x assume "(''asset'', k, x) \<in> bins ?c"
    then consider "k = ?k" "x = ?x" | "(''asset'', k, x) \<in> bins c"
      using kv_lawfulD(5) [OF law] by blast
    then show "\<exists>key inner bytes ct etag. k = fileCacheParts key inner
        \<and> x = \<lparr>rf_bytes = Uint8_array bytes, rf_contentType = Some (Json_str ct), rf_etag = Some (Json_str etag)\<rparr>
        \<and> held_once past key inner (bytes, ct, etag)"
    proof cases
      case 1 with shown show ?thesis by blast
    next
      case 2 with h show ?thesis unfolding honest_def by blast
    qed
  qed
  with h show ?thesis by (simp add: putCachedFile_def cacheKeyForVolume_def)
qed

lemma fill_file_honest:
  assumes law: "kv_lawful kv jsons bins" and h: "honest jsons bins past c"
    and ok: "rs_status res = 200" and drain: "rd_drain rd res = None \<or> rd_drain rd res = Some (rs_body res)"
    and shown: "\<And>ct etag. cacheable_answer res ct etag \<Longrightarrow>
      held_once past (normalizeVolumeKey (da_owner (sg_auth a)) (da_volume (sg_auth a))) (sg_inner a) (rs_body res, ct, etag)"
  shows "honest jsons bins past (snd (fill_file kv rd a req res c))"
proof (cases "response_header ''ETag'' res")
  case None with h show ?thesis by (simp add: fill_file_def)
next
  case (Some etag)
  show ?thesis
  proof (cases "etag = [] \<or> contains_sub (answer_type res) ''text/html'' \<or> rd_drain rd res = None
      \<or> \<not> length (rs_body res) \<le> max_cached_file_bytes")
    case True with Some h drain show ?thesis
      by (auto simp: fill_file_def Let_def answer_type_def [symmetric] split: option.splits)
  next
    case False
    with Some ok have "cacheable_answer res (answer_type res) etag" by (simp add: cacheable_answer_def)
    from honest_put [OF law h shown [OF this]] False Some drain show ?thesis
      by (auto simp: fill_file_def Let_def answer_type_def [symmetric])
  qed
qed

lemma fill_file_same:
  assumes "r_header req ''If-None-Match'' = None" and "rs_status res = 200"
    and "rd_drain rd res = None \<or> rd_drain rd res = Some (rs_body res)"
  shows "same_answer (fst (fill_file kv rd a req res c)) res"
  using assms
  by (auto simp: fill_file_def Let_def same_answer_def bytes_answer answer_type_def split: option.splits)

lemma cached_is_shown:
  assumes law: "kv_lawful kv jsons bins" and h: "honest jsons bins past c"
    and hit: "asFileEntry (getCachedFile kv c owner volume inner) = Some e"
  shows "\<exists>bytes ct etag. held_once past (normalizeVolumeKey owner volume) inner (bytes, ct, etag)
    \<and> e = \<lparr>fy_etag = etag, fy_contentType = Some ct, fy_bytes = bytes\<rparr>"
proof -
  let ?k = "fileCacheParts (normalizeVolumeKey owner volume) inner"
  have "kv_getJson kv c ''asset'' ?k \<noteq> Inr (Some j)" for j
    using kv_lawfulD(1) [OF law, of c "''asset''" ?k j] h by (auto simp: honest_def)
  then have "legacy_file (case kv_getJson kv c ''asset'' ?k of Inr l \<Rightarrow> l | Inl _ \<Rightarrow> None) = None"
    by (auto simp: legacy_file_def split: sum.split option.split)
  with hit obtain x where x: "kv_getBinary kv c ''asset'' ?k = Inr (Some x)" and e: "asFileEntry (Some x) = Some e"
    by (auto simp: getCachedFile_def cacheKeyForVolume_def asFileEntry_def Let_def split: if_splits sum.splits option.splits)
  from kv_lawfulD(2) [OF law x] h obtain key i bytes ct etag where k: "?k = fileCacheParts key i"
      and xx: "x = \<lparr>rf_bytes = Uint8_array bytes, rf_contentType = Some (Json_str ct), rf_etag = Some (Json_str etag)\<rparr>"
      and shown: "held_once past key i (bytes, ct, etag)"
    unfolding honest_def by blast
  from k have "key = normalizeVolumeKey owner volume" "i = inner" by (simp_all add: fileCacheParts_def)
  with shown e xx show ?thesis
    by (auto simp: asFileEntry_def field_text_def split: if_splits)
qed

lemma serving_keeps:
  assumes "source s"
  shows "fst (snd (serveGet kv rd s a req headOnly (v, c))) = v" and "fst (snd (servePropfind kv rd s a req (v, c))) = v"
proof -
  have "snd (s (forward_read a req m body) v) = v" if "m \<in> {''GET'', ''HEAD'', ''PROPFIND''}" for m body
    by (rule reads_keep [OF assms]) (use that in \<open>auto simp: forward_read_def requiresWrite_def\<close>)
  then have keep [simp]: "snd (s (forward_read a req ''GET'' body) v) = v" "snd (s (forward_read a req ''HEAD'' body) v) = v"
    "snd (s (forward_read a req ''PROPFIND'' body) v) = v" for body
    by simp_all
  show "fst (snd (serveGet kv rd s a req headOnly (v, c))) = v"
    unfolding serveGet_def Let_def prod.case split_beta by (simp split: option.split sum.split)
  show "fst (snd (servePropfind kv rd s a req (v, c))) = v"
    unfolding servePropfind_def Let_def prod.case split_beta by (simp split: option.split sum.split)
qed

lemma serveGet_honest:
  assumes src: "source s" and law: "kv_lawful kv jsons bins" and h: "honest jsons bins past c"
    and drain: "\<forall>res. rd_drain rd res = None \<or> rd_drain rd res = Some (rs_body res)"
    and v: "v \<in> past (normalizeVolumeKey (da_owner (sg_auth a)) (da_volume (sg_auth a)))"
    and out: "serveGet kv rd s a req headOnly (v, c) = (r, v', c')"
  shows "v' = v \<and> honest jsons bins past c'"
proof -
  let ?f = "forward_read a req (if headOnly then ''HEAD'' else ''GET'') None"
  have keep: "snd (s ?f v) = v" by (rule reads_keep [OF src]) (simp add: forward_read_def requiresWrite_def)
  have fill: "honest jsons bins past (snd (fill_file kv rd a req res c))"
    if "fst (s ?f v) = Inr res" "rs_status res = 200" "r_header req ''Range'' = None" "\<not> headOnly" for res
  proof (rule fill_file_honest [OF law h that(2)])
    show "rd_drain rd res = None \<or> rd_drain rd res = Some (rs_body res)" using drain by blast
    show "held_once past (normalizeVolumeKey (da_owner (sg_auth a)) (da_volume (sg_auth a))) (sg_inner a) (rs_body res, ct, etag)"
      if "cacheable_answer res ct etag" for ct etag
      using answer_is_held [OF src \<open>fst (s ?f v) = Inr res\<close> _ _ _ that] \<open>r_header req ''Range'' = None\<close> \<open>\<not> headOnly\<close> v
      by (auto simp: forward_read_headers held_once_def)
  qed
  show ?thesis
    using out h keep fill
    by (auto simp: serveGet_def Let_def split: option.splits prod.splits sum.splits if_splits)
qed

lemma servePropfind_honest:
  assumes src: "source s" and law: "kv_lawful kv jsons bins" and h: "honest jsons bins past c"
    and out: "servePropfind kv rd s a req (v, c) = (r, v', c')"
  shows "v' = v \<and> honest jsons bins past c'"
proof -
  have "snd (s (forward_read a req ''PROPFIND'' body) v) = v" for body
    by (rule reads_keep [OF src]) (simp add: forward_read_def requiresWrite_def)
  then have keep: "s (forward_read a req ''PROPFIND'' body) v = (x, v1) \<Longrightarrow> v1 = v" for body x v1
    by (metis snd_conv)
  have put: "honest jsons bins past (putCachedPropfind kv dg c o1 o2 i d b t e l)" for dg o1 o2 i d b t e l
  proof (cases "isCacheablePath i")
    case True
    show ?thesis
      unfolding putCachedPropfind_def using True
      by simp (rule honest_shrinks [OF h], use kv_lawfulD(3,4) [OF law] in \<open>fastforce+\<close>)
  qed (simp add: putCachedPropfind_def h)
  have fill: "honest jsons bins past (snd (fill_propfind kv rd a req d b res c))" for d b res
    using h put by (auto simp: fill_propfind_def Let_def split: option.split)
  then have fill': "fill_propfind kv rd a req d b res c = (x, c1) \<Longrightarrow> honest jsons bins past c1" for d b res x c1
    by (metis snd_conv)
  show ?thesis
    using out h
    unfolding servePropfind_def Let_def
    by (auto split: option.splits prod.splits sum.splits if_split_asm dest: keep fill')
qed

text \<open>
  A read through the cache is answered as the volume itself answers it in a state it has been in,
  which is the present one when the cache has nothing for the resource.
\<close>

lemma serveGet_as_asked:
  assumes "steady s" and law: "kv_lawful kv jsons bins" and h: "honest jsons bins past c"
    and drain: "\<forall>res. rd_drain rd res = None \<or> rd_drain rd res = Some (rs_body res)"
    and now: "v \<in> past (normalizeVolumeKey (da_owner (sg_auth a)) (da_volume (sg_auth a)))"
    and plain: "plain_read req" and asked: "\<forall>u. \<exists>res. fst (s (forward_read a req ''GET'' None) u) = Inr res"
  shows "\<exists>r u res. fst (serveGet kv rd s a req False (v, c)) = Inr r
    \<and> u \<in> past (normalizeVolumeKey (da_owner (sg_auth a)) (da_volume (sg_auth a)))
    \<and> (asFileEntry (getCachedFile kv c (da_owner (sg_auth a)) (da_volume (sg_auth a)) (sg_inner a)) = None \<longrightarrow> u = v)
    \<and> fst (s (forward_read a req ''GET'' None) u) = Inr res \<and> same_answer r res"
proof -
  have no_range: "r_header req ''Range'' = None" and no_match: "r_header req ''If-None-Match'' = None"
    using plain by (simp_all add: plain_read_def)
  show ?thesis
  proof (cases "asFileEntry (getCachedFile kv c (da_owner (sg_auth a)) (da_volume (sg_auth a)) (sg_inner a))")
    case None
    obtain res where res: "fst (s (forward_read a req ''GET'' None) v) = Inr res" using asked by blast
    have "\<exists>r. fst (serveGet kv rd s a req False (v, c)) = Inr r \<and> same_answer r res"
      using res None no_range fill_file_same [OF no_match, of res rd kv a c] drain
      by (auto simp: serveGet_def Let_def split: prod.splits)
    with res now show ?thesis by blast
  next
    case (Some e)
    obtain bytes ct etag u where u: "u \<in> past (normalizeVolumeKey (da_owner (sg_auth a)) (da_volume (sg_auth a)))"
      and shown: "shows_file u (sg_inner a) (bytes, ct, etag)"
      and e: "e = \<lparr>fy_etag = etag, fy_contentType = Some ct, fy_bytes = bytes\<rparr>"
      using cached_is_shown [OF law h Some] by (auto simp: held_once_def)
    obtain res where res: "fst (s (forward_read a req ''GET'' None) u) = Inr res" using asked by blast
    have "plain_read (forward_read a req ''GET'' None)" and "r_header (forward_read a req ''GET'' None) ''X-Dav-Path'' = Some (sg_inner a)"
      using plain by (simp_all add: forward_read_headers plain_read_def)
    from held_is_answered [OF assms(1) shown this] res
    have "rs_body res = bytes" "cacheable_answer res ct etag" by auto
    then have "\<exists>r. fst (serveGet kv rd s a req False (v, c)) = Inr r \<and> same_answer r res"
      using Some no_range cached_answer [OF no_match, of etag ct bytes]
      by (simp add: serveGet_def Let_def e same_answer_def answer_type_def cacheable_answer_def)
    with u res Some show ?thesis by (metis option.simps(3))
  qed
qed

end

end
