(* ===== verification/Front_Safety.thy ===== *)
theory Front_Safety
  imports Cache_Safety Auth_Safety
begin

section \<open>What the front door guarantees\<close>

text \<open>
  The volume worker as a source of cacheable reads, histories of the front door, and the
  properties of both planes: what a cached read answers, what a refused request touches, what the
  volume sees of a client's headers, and where a forwarded destination lies.
\<close>

subsection \<open>The volume worker answers from what it holds\<close>

definition file_at :: "'fs dofs \<Rightarrow> 'fs volume \<Rightarrow> string \<Rightarrow> string \<times> string \<times> string \<Rightarrow> bool" where
  "file_at dofs v inner = (\<lambda>(bytes, ct, etag).
     let p = decodeSegments (stripSlashes inner)
     in isValidInnerPath p \<and> p \<noteq> []
        \<and> (\<exists>st. fs_statOf dofs (vol_fs v) (fsPathOf p) = Inr st \<and> \<not> fs_isDirectory st)
        \<and> fs_readFile dofs (vol_fs v) (fsPathOf p) = Inr bytes
        \<and> (\<exists>row. lookup_row n_path p (st_nodes (vol_store v)) = Some row \<and> n_etag row = Some etag
             \<and> ct = (case n_contentType row of Some c \<Rightarrow> c | None \<Rightarrow> ''application/octet-stream''))
        \<and> etag \<noteq> [] \<and> \<not> contains_sub ct ''text/html'')"

definition volume_source :: "'fs dofs \<Rightarrow> 'fs volume stub \<Rightarrow> bool" where
  "volume_source dofs s \<longleftrightarrow> (\<exists>h pf. pf_dofs pf = dofs \<and> s = volume_stub h pf)"

definition steady_source :: "'fs dofs \<Rightarrow> 'fs volume stub \<Rightarrow> bool" where
  "steady_source dofs s \<longleftrightarrow>
     (\<exists>pf. pf_dofs pf = dofs \<and> (\<forall>op. se_fails (pf_sql pf) op = None) \<and> s = volume_stub Answered pf)"

lemma first_answer_in: "first_answer rs = Some r \<Longrightarrow> Some r \<in> set rs"
  by (induction rs rule: first_answer.induct) auto

lemma conditions_refuse: "check_conditions dp req st True = Some r \<Longrightarrow> rs_status r \<noteq> 200"
  by (auto dest!: first_answer_in simp: check_conditions_def check_if_match_def check_unmodified_def check_none_match_def
      check_if_etags_def check_modified_def preconditionFailed_def not_modified_def Let_def
      split: option.splits if_splits prod.splits)

lemma no_range: "parseRangeHeader None sz = full_body" by (simp add: parseRangeHeader_def)

lemma served_file_is_held:
  assumes "serve_file dofs env dp req p False st v = (Inr res, v')" and "rs_status res = 200"
    and "r_header req ''Range'' = None" and "response_header ''ETag'' res = Some etag"
  shows "fs_readFile dofs (vol_fs v) (fsPathOf p) = Inr (rs_body res)
    \<and> (\<exists>row. lookup_row n_path p (st_nodes (vol_store v)) = Some row \<and> n_etag row = Some etag
         \<and> answer_type res = (case n_contentType row of Some c \<Rightarrow> c | None \<Rightarrow> ''application/octet-stream''))"
proof -
  let ?meta = "readMeta env v p"
  from assms obtain b where read: "fs_readFile dofs (vol_fs v) (fsPathOf p) = Inr b"
    and res: "res = respond_with 200 (read_headers ?meta (si_size st) None) b"
    by (cases "fs_readFile dofs (vol_fs v) (fsPathOf p)")
       (auto simp: serve_file_def Let_def no_range full_body_def reply_def dest!: conditions_refuse
        split: option.splits sum.splits if_splits)
  from res assms(4) have etag: "m_etag ?meta = Some etag" 
    and ct: "answer_type res = (case m_contentType ?meta of Some c \<Rightarrow> c | None \<Rightarrow> ''application/octet-stream'')"
    by (auto simp: response_header_def answer_type_def read_headers_def header_names present_def simp del: to_lower_Cons
        split: option.splits if_splits)
  from etag obtain row where row: "lookup_row n_path p (st_nodes (vol_store v)) = Some row" "n_etag row = Some etag"
      "m_contentType ?meta = n_contentType row"
    by (auto simp: readMeta_def no_meta_def split: option.splits)
  with read res ct show ?thesis by simp
qed

lemma fetched_file_is_held:
  assumes ok: "cacheable_answer res ct etag" and get: "r_method req = ''GET''" and range: "r_header req ''Range'' = None"
    and path: "r_header req ''X-Dav-Path'' = Some inner" and out: "fst (fetch pf req v) = res"
  shows "file_at (pf_dofs pf) v inner (rs_body res, ct, etag)"
proof -
  let ?p = "decodeSegments (stripSlashes inner)"
  let ?bases = "resolveDavBases (case r_header req ''X-Dav-Base'' of Some b \<Rightarrow> b | None \<Rightarrow> [])
    (r_header req ''X-Dav-Href-Prefix-Mode'')"
  from ok have st: "rs_status res = 200" and tag: "response_header ''ETag'' res = Some etag" by (simp_all add: cacheable_answer_def)
  have valid: "isValidInnerPath ?p"
    and run: "fst (handleGet (pf_dofs pf) (pf_sql pf) (pf_date pf) req ?p ?bases False v) = Inr res"
    using out st path get
    by (auto simp: fetch_def dispatch_def resolveInnerPath_def run_method_def Let_def server_error_def reply_def
        split: prod.splits sum.splits if_splits)
  have no_html: "response_header ''ETag'' (respond_with 200 [html_type] b) = None" for b
    by (simp add: response_header_def html_type_def header_names del: to_lower_Cons)
  let ?st = "statInner (pf_dofs pf) (pf_sql pf) v ?p"
  have member: "?p \<noteq> []" "si_exists ?st" "\<not> si_isDirectory ?st"
    and served: "\<exists>v'. serve_file (pf_dofs pf) (pf_sql pf) (pf_date pf) req ?p False ?st v = (Inr res, v')"
    using run st tag no_html
    by (auto simp: handleGet_def Let_def reply_def surjective_pairing split: if_splits)
       (metis prod.collapse)
  then have "\<exists>s. fs_statOf (pf_dofs pf) (vol_fs v) (fsPathOf ?p) = Inr s \<and> \<not> fs_isDirectory s"
    by (auto simp: statInner_def rp_stat_def degraded_def answer_failure_def missing_stat_def split: sum.splits if_splits)
  moreover from served obtain v' where "serve_file (pf_dofs pf) (pf_sql pf) (pf_date pf) req ?p False ?st v = (Inr res, v')" by blast
  note served_file_is_held [OF this st range tag]
  ultimately show ?thesis using member(1) valid ok unfolding file_at_def cacheable_answer_def Let_def by auto
qed

lemma held_file_is_fetched:
  assumes calm: "\<forall>op. se_fails (pf_sql pf) op = None" and held: "file_at (pf_dofs pf) v inner (bytes, ct, etag)"
    and plain: "plain_read req" and path: "r_header req ''X-Dav-Path'' = Some inner"
  shows "rs_body (fst (fetch pf req v)) = bytes \<and> cacheable_answer (fst (fetch pf req v)) ct etag"
proof -
  let ?p = "decodeSegments (stripSlashes inner)"
  let ?meta = "readMeta (pf_sql pf) v ?p"
  let ?st = "statInner (pf_dofs pf) (pf_sql pf) v ?p"
  from held obtain st row where p: "isValidInnerPath ?p" "?p \<noteq> []"
      and st: "fs_statOf (pf_dofs pf) (vol_fs v) (fsPathOf ?p) = Inr st" "\<not> fs_isDirectory st"
      and read: "fs_readFile (pf_dofs pf) (vol_fs v) (fsPathOf ?p) = Inr bytes"
      and row: "lookup_row n_path ?p (st_nodes (vol_store v)) = Some row" "n_etag row = Some etag"
      and ct: "ct = (case n_contentType row of Some c \<Rightarrow> c | None \<Rightarrow> ''application/octet-stream'')"
      and etag: "etag \<noteq> []" "\<not> contains_sub ct ''text/html''"
    by (auto simp: file_at_def Let_def)
  have meta: "m_etag ?meta = Some etag" "m_contentType ?meta = n_contentType row"
    using calm row by (simp_all add: readMeta_def)
  have stat: "si_exists ?st" "\<not> si_isDirectory ?st" using st by (simp_all add: statInner_def rp_stat_def degraded_def)
  have none: "check_conditions dp req state True = None" for dp state
    using plain by (simp add: plain_read_def check_conditions_def check_if_match_def check_unmodified_def
        check_none_match_def check_if_etags_def check_modified_def getIfHeaderEtags_def parseIfHeader_def)
  let ?res = "respond_with 200 (read_headers ?meta (si_size ?st) None) bytes"
  have "fst (fetch pf req v) = ?res"
    using plain p stat read
    by (auto simp: fetch_def dispatch_def path resolveInnerPath_def run_method_def plain_read_def handleGet_def
        serve_file_def Let_def none no_range full_body_def)
  moreover have "cacheable_answer ?res ct etag"
    using etag by (simp add: cacheable_answer_def response_header_def answer_type_def read_headers_def header_names
        present_def meta ct del: to_lower_Cons)
  ultimately show ?thesis by simp
qed

interpretation vr: read_source "volume_source dofs" "steady_source dofs" "file_at dofs" for dofs :: "'fs dofs"
proof
  fix s :: "'fs volume stub" and req :: request and v
  assume "volume_source dofs s" "\<not> requiresWrite (r_method req)"
  then show "snd (s req v) = v"
    by (auto simp: volume_source_def volume_stub_def split_beta fetch_reads_keep split: hop.split)
next
  fix s :: "'fs volume stub" and req :: request and v res inner ct etag
  assume "volume_source dofs s" "fst (s req v) = Inr res" "r_method req = ''GET''" "r_header req ''Range'' = None"
    "r_header req ''X-Dav-Path'' = Some inner" "cacheable_answer res ct etag"
  then show "file_at dofs v inner (rs_body res, ct, etag)"
    by (auto simp: volume_source_def volume_stub_def split: hop.splits prod.splits intro: fetched_file_is_held)
next
  fix s :: "'fs volume stub" and v inner bytes ct etag and req :: request
  assume "steady_source dofs s" "file_at dofs v inner (bytes, ct, etag)" "plain_read req" "r_header req ''X-Dav-Path'' = Some inner"
  then show "\<exists>res. fst (s req v) = Inr res \<and> rs_body res = bytes \<and> cacheable_answer res ct etag"
    using held_file_is_fetched by (fastforce simp: steady_source_def volume_stub_def split: prod.splits)
qed

subsection \<open>Histories of the front door\<close>

definition reads_faithfully :: "reader \<Rightarrow> bool" where
  "reads_faithfully rd \<longleftrightarrow> (\<forall>res. rd_drain rd res = None \<or> rd_drain rd res = Some (rs_body res))"

text \<open>
  The histories of a front door that starts with an empty cache: requests of any kind, lost answers
  and failed purges among them; whatever happens to the volumes and the control database behind it;
  and a cache that forgets what it will. \<open>past key\<close> are the states that the volume with that key has
  been in, the present one included.
\<close>

abbreviation record_states :: "(string \<Rightarrow> 'v set) \<Rightarrow> (string \<Rightarrow> 'v) \<Rightarrow> string \<Rightarrow> 'v set" where
  "record_states past vols \<equiv> (\<lambda>key. insert (vols key) (past key))"

inductive front_history ::
    "'fs dofs \<Rightarrow> 'c kv_cache \<Rightarrow> ('c \<Rightarrow> json_doc cached) \<Rightarrow> ('c \<Rightarrow> raw_file cached) \<Rightarrow> (string \<Rightarrow> 'fs volume set) \<Rightarrow> ('fs, 'c) front \<Rightarrow> bool"
    for dofs kv jsons bins where
  start: "\<lbrakk>jsons (fd_cache w) = {}; bins (fd_cache w) = {}\<rbrakk>
     \<Longrightarrow> front_history dofs kv jsons bins (\<lambda>key. {fd_volumes w key}) w"
| request: "\<lbrakk>front_history dofs kv jsons bins past w; handleDav env owner volume inner req w = (r, w');
     pf_dofs (fn_platform env) = dofs; fn_kv env = kv; reads_faithfully (fn_reader env)\<rbrakk>
     \<Longrightarrow> front_history dofs kv jsons bins (record_states past (fd_volumes w')) w'"
| elsewhere: "front_history dofs kv jsons bins past w
     \<Longrightarrow> front_history dofs kv jsons bins (record_states past vols) (w\<lparr>fd_volumes := vols, fd_auth := auth\<rparr>)"
| forgotten: "\<lbrakk>front_history dofs kv jsons bins past w; jsons c \<subseteq> jsons (fd_cache w); bins c \<subseteq> bins (fd_cache w)\<rbrakk>
     \<Longrightarrow> front_history dofs kv jsons bins past (w\<lparr>fd_cache := c\<rparr>)"

lemma forward_write_honest:
  assumes law: "kv_lawful (fn_kv env) jsons bins" and h: "vr.honest dofs jsons bins past c"
    and out: "forward_write env owner volume forward (v, c) = (r, v', c')"
  shows "vr.honest dofs jsons bins past c'"
proof -
  have "c' = c \<or> c' = invalidateVolumeCaches (fn_kv env) owner volume c"
    using out by (auto simp: forward_write_def volume_stub_def split: prod.splits sum.splits hop.splits if_splits)
  with h vr.honest_invalidated [OF law h] show ?thesis by auto
qed

lemma dav_write_honest:
  assumes law: "kv_lawful (fn_kv env) jsons bins" and h: "vr.honest dofs jsons bins past c"
    and out: "dav_write env auth base inner req (v, c) = (r, v', c')"
  shows "vr.honest dofs jsons bins past c'"
proof -
  have "c' = c \<or>
      (\<exists>h b. forward_write env (da_owner auth) (da_volume auth) (req\<lparr>r_header := h, r_body := b\<rparr>) (v, c) = (r, v', c'))"
  proof (cases "r_method req \<in> {''COPY'', ''MOVE''}")
    case True
    with out show ?thesis by (auto simp only: dav_write_def Let_def if_True prod.case split: sum.splits)
  next
    case False
    with out show ?thesis by (auto simp only: dav_write_def Let_def if_False prod.case)
  qed
  with h forward_write_honest [OF law h] show ?thesis by blast
qed

text \<open>A request either leaves the volumes and the cache alone or has been granted.\<close>

lemma request_cases:
  assumes "handleDav env owner volume inner req w = (r, w')"
  obtains "fd_volumes w' = fd_volumes w" "fd_cache w' = fd_cache w"
  | aw auth r1 v' c' where "davAuthForVolume (fn_auth env) owner volume (r_header req ''Authorization'')
        (requiresWrite (r_method req)) (fd_auth w) = (aw, Granted auth)" "r_method req \<noteq> ''OPTIONS''"
      "dav_granted env auth inner req (fd_volumes w (normalizeVolumeKey (da_owner auth) (da_volume auth)), fd_cache w) = (r1, v', c')"
      "fd_volumes w' = (fd_volumes w)(normalizeVolumeKey (da_owner auth) (da_volume auth) := v')" "fd_cache w' = c'"
proof (cases "davAuthForVolume (fn_auth env) owner volume (r_header req ''Authorization'') (requiresWrite (r_method req)) (fd_auth w)")
  case (Pair aw answer)
  show thesis
  proof (cases "r_method req = ''OPTIONS'' \<or> fn_hop env = No_binding \<or> (\<exists>res. answer = Refused res)")
    case True
    with assms Pair have "fd_volumes w' = fd_volumes w" "fd_cache w' = fd_cache w"
      by (auto simp: handleDav_def Let_def split: if_splits auth_answer.splits)
    then show thesis by (rule that(1))
  next
    case False
    then obtain auth where auth: "answer = Granted auth" by (cases answer) auto
    let ?key = "normalizeVolumeKey (da_owner auth) (da_volume auth)"
    obtain r1 v' c' where out: "dav_granted env auth inner req (fd_volumes w ?key, fd_cache w) = (r1, v', c')"
      by (metis prod_cases3)
    with assms Pair False auth have "fd_volumes w' = (fd_volumes w)(?key := v')" "fd_cache w' = c'"
      by (auto simp: handleDav_def Let_def on_volume_def)
    with that(2) [OF _ _ out] Pair auth False show thesis by auto
  qed
qed

lemma request_honest:
  assumes law: "kv_lawful kv jsons bins" and h: "vr.honest dofs jsons bins past (fd_cache w)"
    and now: "\<forall>key. fd_volumes w key \<in> past key" and out: "handleDav env owner volume inner req w = (r, w')"
    and env: "pf_dofs (fn_platform env) = dofs" "fn_kv env = kv" "reads_faithfully (fn_reader env)"
  shows "vr.honest dofs jsons bins past (fd_cache w')"
  using out
proof (cases rule: request_cases)
  case 1 with h show ?thesis by simp
next
  case (2 aw auth r1 v' c')
  let ?key = "normalizeVolumeKey (da_owner auth) (da_volume auth)"
  let ?s = "volume_stub (fn_hop env) (fn_platform env)"
  let ?a = "\<lparr>sg_auth = auth, sg_base = ''/'' @ da_owner auth @ ''/'' @ da_volume auth, sg_inner = inner,
      sg_ttls = contentTtls (fn_cacheTtl env)\<rparr>"
  from env have src: "volume_source dofs ?s" by (auto simp: volume_source_def)
  from env law have law': "kv_lawful (fn_kv env) jsons bins" by simp
  from env have drain: "\<forall>res. rd_drain (fn_reader env) res = None \<or> rd_drain (fn_reader env) res = Some (rs_body res)"
    by (simp add: reads_faithfully_def)
  consider (reading) "r_method req \<in> {''GET'', ''HEAD''}" | (listing) "r_method req = ''PROPFIND''"
    | (writing) "r_method req \<notin> {''GET'', ''HEAD'', ''PROPFIND''}" by blast
  then show ?thesis
  proof cases
    case reading
    with 2(3) have g: "serveGet (fn_kv env) (fn_reader env) ?s ?a req (r_method req = ''HEAD'') (fd_volumes w ?key, fd_cache w) = (r1, v', c')"
      by (simp add: dav_granted_def Let_def)
    from vr.serveGet_honest [OF src law' h drain _ g] now 2 show ?thesis by simp
  next
    case listing
    with 2(3) have "servePropfind (fn_kv env) (fn_reader env) ?s ?a req (fd_volumes w ?key, fd_cache w) = (r1, v', c')"
      by (simp add: dav_granted_def Let_def)
    from vr.servePropfind_honest [OF src law' h this] 2 show ?thesis by simp
  next
    case writing
    with 2(3) have "dav_write env auth (''/'' @ da_owner auth @ ''/'' @ da_volume auth) inner req (fd_volumes w ?key, fd_cache w) = (r1, v', c')"
      by (auto simp: dav_granted_def Let_def)
    from dav_write_honest [OF law' h this] 2 show ?thesis by simp
  qed
qed

lemma honest_recorded: "vr.honest dofs jsons bins past c \<Longrightarrow> vr.honest dofs jsons bins (record_states past vols) c"
  by (erule vr.honest_later) blast

lemma front_honest:
  assumes "front_history dofs kv jsons bins past w" and "kv_lawful kv jsons bins"
  shows "vr.honest dofs jsons bins past (fd_cache w) \<and> (\<forall>key. fd_volumes w key \<in> past key)"
  using assms
proof (induction rule: front_history.induct)
  case (start w) then show ?case by (simp add: vr.honest_start)
next
  case (request past w env owner volume inner req r w')
  then have "vr.honest dofs jsons bins past (fd_cache w')" using request_honest by blast
  then show ?case using honest_recorded by simp
next
  case (elsewhere past w vols auth)
  then have "vr.honest dofs jsons bins past (fd_cache w)" by blast
  then show ?case by (simp add: honest_recorded)
next
  case (forgotten past w c)
  then have "vr.honest dofs jsons bins past (fd_cache w)" by blast
  from vr.honest_shrinks [OF this, of c] forgotten show ?case by auto
qed

subsection \<open>A small deployment\<close>

text \<open>A cache that keeps its entries in two association lists.\<close>

type_synonym list_cache = "((string \<times> string list) \<times> json_doc) list \<times> ((string \<times> string list) \<times> raw_file) list"

definition drop_volume :: "string \<Rightarrow> string list \<Rightarrow> ((string \<times> string list) \<times> 'x) list \<Rightarrow> ((string \<times> string list) \<times> 'x) list" where
  "drop_volume d ks = filter (\<lambda>e. \<not> (fst (fst e) = d \<and> take (length ks) (snd (fst e)) = ks))"

definition list_kv :: "list_cache kv_cache" where
  "list_kv = \<lparr>
     kv_getJson = (\<lambda>c d k. Inr (map_of (fst c) (d, k))),
     kv_getBinary = (\<lambda>c d k. Inr (map_of (snd c) (d, k))),
     kv_putJson = (\<lambda>c d k x t. ((((d, k), x) # fst c, snd c), None)),
     kv_putBinary = (\<lambda>c d k x t. ((fst c, ((d, k), x) # snd c), None)),
     kv_purgePrefix = (\<lambda>c d ks. ((drop_volume d ks (fst c), drop_volume d ks (snd c)), None)),
     kv_del = (\<lambda>c d k. ((filter (\<lambda>e. fst e \<noteq> (d, k)) (fst c), filter (\<lambda>e. fst e \<noteq> (d, k)) (snd c)), None))\<rparr>"

definition flat :: "((string \<times> string list) \<times> 'x) list \<Rightarrow> 'x cached" where
  "flat es = {(d, k, x). ((d, k), x) \<in> set es}"

lemma list_kv_lawful: "kv_lawful list_kv (\<lambda>c. flat (fst c)) (\<lambda>c. flat (snd c))"
  by (auto simp: kv_lawful_def list_kv_def flat_def drop_volume_def dest: map_of_SomeD)

definition front_auth :: auth_world where
  "front_auth = \<lparr>aw_memo = [], aw_shards = (\<lambda>i. new_cache 60), aw_db = \<lparr>db_volumes = [door_volume],
     db_credentials = [door_credential\<lparr>cr_readOnly := Some 0\<rparr>], db_namespaces = [], db_replications = [], db_conflicts = []\<rparr>\<rparr>"

definition plain_reader :: reader where
  "plain_reader = \<lparr>rd_digest = id, rd_text = id, rd_drain = (\<lambda>res. Some (rs_body res))\<rparr>"

definition sample_front :: "(mem_fs, list_cache) front" where
  "sample_front = \<lparr>fd_auth = front_auth, fd_volumes = (\<lambda>key. sample_volume), fd_cache = ([], [])\<rparr>"

definition sample_front_env :: "(mem_fs, list_cache) front_env" where
  "sample_front_env = \<lparr>fn_auth = door_env Answered, fn_platform = sample_platform, fn_hop = Answered, fn_kv = list_kv,
     fn_reader = plain_reader, fn_siteUrl = None, fn_cacheTtl = None\<rparr>"

definition emptied_volume :: "mem_fs volume" where
  "emptied_volume = sample_volume\<lparr>vol_store := (vol_store sample_volume)\<lparr>st_nodes := []\<rparr>\<rparr>"

definition front_request :: "string \<Rightarrow> string \<Rightarrow> request" where
  "front_request m p = \<lparr>r_method = m, r_url = ''https://host/ann/docs/'' @ p, r_pathname = ''/ann/docs/'' @ p,
     r_header = [''Authorization'' \<mapsto> the door_header], r_body = None\<rparr>"

subsection \<open>Properties\<close>



definition front_grant :: dav_auth_result where
  "front_grant = \<lparr>da_userEmail = Some ''a@b.c'', da_userId = Some ''u'', da_owner = ''Ann'', da_volume = ''docs'',
     da_hrefPrefixMode = Base_mode\<rparr>"

lemma front_admits: "\<exists>aw. davAuthForVolume (door_env Answered) ''ann'' ''docs'' door_header True front_auth = (aw, Granted front_grant)"
proof -
  have "auth_history door_lib id {} front_auth" unfolding front_auth_def by (rule deployed)
  then have "verifyCredential (door_env Answered) ''me'' ''pw'' (replicate 64 CHR ''a'') front_auth = (outcome, w1) \<Longrightarrow> vo_ok outcome" for outcome w1
    using verifyCredential_sound(4)[OF auth_history_sound, of "door_env Answered" "{}" front_auth "''me''" "''pw''"] door_verifies
    by (simp add: door_env_def race_def in_flight_def)
  moreover have "getByOwnerName (ae_db (door_env Answered)) ''ann'' ''docs'' (aw_db front_auth) = Inr (Some door_volume)"
    "getActiveByUsername (ae_db (door_env Answered)) ''me'' (aw_db front_auth)
      = Inr (Some (toMetadata (door_credential\<lparr>cr_readOnly := Some 0\<rparr>), replicate 64 CHR ''a''))"
    by code_simp+
  moreover have "cm_volumeId (toMetadata (door_credential\<lparr>cr_readOnly := Some 0\<rparr>)) = vr_id door_volume"
    "\<not> cm_readOnly (toMetadata (door_credential\<lparr>cr_readOnly := Some 0\<rparr>))"
    "ownerIdentity (door_env Answered) door_volume = (''a@b.c'', Some ''u'')" "readDavHrefPrefixMode (Some ''base'') = Base_mode"
    by code_simp+
  ultimately show ?thesis
    by (simp add: davAuthForVolume_def davAuthForVolumeInner_def door_header_reads grant_credential_def front_grant_def
        split: prod.split) (simp add: door_volume_def)
qed

text \<open>
  C8. The only way to a volume is a granted write: when a request changes what any volume object
  holds, the authorization of the front door has granted it for a write, and the object is the one
  of the volume the grant names.
\<close>

theorem only_a_granted_write_changes_a_volume:
  assumes "handleDav env owner volume inner req w = (r, w')" and "fd_volumes w' key \<noteq> fd_volumes w key"
  shows "requiresWrite (r_method req) \<and>
    (\<exists>aw auth. davAuthForVolume (fn_auth env) owner volume (r_header req ''Authorization'') True (fd_auth w) = (aw, Granted auth)
      \<and> key = normalizeVolumeKey (da_owner auth) (da_volume auth))"
  using assms(1)
proof (cases rule: request_cases)
  case 1 with assms(2) show ?thesis by simp
next
  case (2 aw auth r1 v' c')
  let ?key = "normalizeVolumeKey (da_owner auth) (da_volume auth)"
  have "volume_source (pf_dofs (fn_platform env)) (volume_stub (fn_hop env) (fn_platform env))"
    by (auto simp: volume_source_def)
  note keep = vr.serving_keeps [OF this]
  have "fst (snd (dav_granted env auth inner req (v, c))) = v" if "r_method req \<in> {''GET'', ''HEAD'', ''PROPFIND''}" for v c
    using that by (auto simp: dav_granted_def Let_def keep)
  then have "v' = fd_volumes w ?key" if "r_method req \<in> {''GET'', ''HEAD'', ''PROPFIND''}"
    using that 2(3) by (metis fst_conv snd_conv)
  with assms(2) 2 have "requiresWrite (r_method req)" and "key = ?key"
    by (auto simp: requiresWrite_def split: if_splits)
  with 2(1) show ?thesis by auto
qed


theorem only_a_granted_write_changes_a_volume_witness:
  "\<exists>aw auth. davAuthForVolume (door_env Answered) ''ann'' ''docs'' door_header True front_auth = (aw, Granted auth)
    \<and> ''ann/docs'' = normalizeVolumeKey (da_owner auth) (da_volume auth)"
proof -
  let ?req = "front_request ''DELETE'' ''ab''"
  define out where "out = handleDav sample_front_env ''ann'' ''docs'' ''ab'' ?req sample_front"
  obtain aw where g: "davAuthForVolume (door_env Answered) ''ann'' ''docs'' door_header True front_auth = (aw, Granted front_grant)"
    using front_admits by blast
  have door: "r_header ?req ''Authorization'' = door_header" "requiresWrite ''DELETE''" "fn_hop sample_front_env = Answered"
      "fd_volumes sample_front = (\<lambda>_. sample_volume)" "fd_cache sample_front = ([], [])" "fd_auth sample_front = front_auth"
      "fn_auth sample_front_env = door_env Answered" "r_method ?req = ''DELETE''"
    by (simp_all add: front_request_def door_header_def sample_front_def sample_front_env_def requiresWrite_def)
  have key: "normalizeVolumeKey (da_owner front_grant) (da_volume front_grant) = ''ann/docs''" by code_simp
  obtain r v' c' where granted: "dav_granted sample_front_env front_grant ''ab'' ?req (sample_volume, ([], [])) = (r, v', c')"
    by (metis prod_cases3)
  have "vol_fs (fst (snd (dav_granted sample_front_env front_grant ''ab'' ?req (sample_volume, ([], []))))) \<noteq> vol_fs sample_volume"
    by code_simp
  then have "v' \<noteq> sample_volume" using granted by auto
  moreover have "fd_volumes (snd out) ''ann/docs'' = v'"
    using g granted by (simp add: out_def handleDav_def door key on_volume_def)
  ultimately have "fd_volumes (snd out) ''ann/docs'' \<noteq> fd_volumes sample_front ''ann/docs''" by (simp add: sample_front_def)
  from only_a_granted_write_changes_a_volume [OF _ this, of sample_front_env "''ann''" "''docs''" "''ab''" ?req "fst out"]
  show ?thesis by (simp add: out_def door)
qed

subsection \<open>Where the cache is not the volume\<close>

text \<open>
  Where a past state shows. A write whose answer is lost after the volume
  has carried it out drops no entry of the cache; neither does a LOCK, whatever it has created.
\<close>

lemma lost_answer_keeps_the_cache:
  assumes "fn_hop env = Lost_after"
  shows "forward_write env owner volume forward (v, c) = (Inl ''Network connection lost.'', snd (fetch (fn_platform env) forward v), c)"
  using assms by (simp add: forward_write_def volume_stub_def)

lemma lock_keeps_the_cache:
  "r_method forward = ''LOCK'' \<Longrightarrow> snd (snd (forward_write env owner volume forward (v, c))) = c"
  by (auto simp: forward_write_def invalidatesReadCache_def content_invalidating_methods_def split: prod.split sum.split)

text \<open>
  An entry of the cache is answered whatever the other conditions of the request and the form of its
  path: \<open>If-Match\<close>, \<open>If-Unmodified-Since\<close> and \<open>If-Modified-Since\<close> are not evaluated, and a path with a
  trailing slash, which the volume refuses for a file, gets the file.
\<close>

lemma cached_answer_ignores_the_request:
  assumes "asFileEntry (getCachedFile kv c (da_owner (sg_auth a)) (da_volume (sg_auth a)) (sg_inner a)) = Some e"
    and "r_header req ''Range'' = None" and "r_header req ''If-None-Match'' = None"
  shows "\<exists>r. serveGet kv rd s a req False (v, c) = (Inr r, v, c) \<and> rs_status r = 200 \<and> rs_body r = fy_bytes e"
  using assms by (simp add: serveGet_def Let_def respondFromCache_def)

lemma volume_refuses_a_file_with_a_slash:
  assumes "ends_with ''/'' (r_pathname req)" and "p \<noteq> []" and "\<not> si_isDirectory (statInner dofs env v p)"
  shows "fst (handleGet dofs env dp req p bases False v) = Inr (respond 404 ''Not Found'')"
  using assms by (simp add: handleGet_def Let_def reply_def)

end
