(* ===== verification/Rename_Safety.thy ===== *)
theory Rename_Safety
  imports Move_Safety Front_Safety
begin

section \<open>Handles\<close>

text \<open>
  Correctness of \<open>User_Service\<close>: the handle derived from an address is always a valid one, the
  search for a free handle ends and says why, and a rename takes no name that another account
  holds. At the end, renames that strand the files of an account.
\<close>

subsection \<open>Derived handles\<close>

lemma handle_char_lower: "is_handle_char c \<Longrightarrow> lower_char c = c"
  by (auto simp: is_handle_char_def lower_char_def is_digit_def less_eq_char_def)

lemma handle_char_alnum: "is_handle_char c \<Longrightarrow> is_alnum_ascii c"
  using handle_char_lower [of c] by (auto simp: is_handle_char_def is_alnum_ascii_def)

lemma handle_chars_valid:
  assumes "\<forall>c\<in>set s. is_handle_char c" and "s \<noteq> []" and "length s \<le> username_max_length"
  shows "isValidUsername s"
proof -
  have alnum: "\<forall>c\<in>set s. is_alnum_ascii c" using assms(1) handle_char_alnum by blast
  obtain c t where s: "s = c # t" using assms(2) by (cases s) simp_all
  show ?thesis
  proof (cases t)
    case Nil with alnum show ?thesis by (simp add: s isValidUsername_def username_max_length_def)
  next
    case (Cons d u)
    then have "is_alnum_ascii (last t)" using alnum s by simp
    moreover have "list_all (\<lambda>x. is_alnum_ascii x \<or> x = CHR ''-'') (butlast t)"
      using alnum s by (auto simp: list_all_iff dest: in_set_butlastD)
    ultimately show ?thesis using alnum assms(3) Cons by (simp add: s isValidUsername_def username_max_length_def)
  qed
qed

lemma collapse_chars: "set (collapse_dashes s) \<subseteq> set s"
  by (induction s rule: collapse_dashes.induct) auto

lemma strip_chars: "set (strip_dashes s) \<subseteq> set s"
proof -
  have "set (dropWhile P t) \<subseteq> set t" for P and t :: string by (auto dest: set_dropWhileD)
  then show ?thesis unfolding strip_dashes_def set_rev by (metis set_rev subset_trans)
qed

lemma sanitized_or_cut:
  assumes "\<forall>c\<in>set s. c = CHR ''-'' \<or> is_handle_char c"
    and "h = (if isValidUsername s then s
              else if filter is_handle_char s \<noteq> [] then take username_max_length (filter is_handle_char s) else ''user'')"
  shows "isValidUsername h \<and> to_lower h = h"
proof -
  have dash: "lower_char CHR ''-'' = CHR ''-''" by code_simp
  have "lower_char c = c" if "c \<in> set s" for c
  proof -
    have "c = CHR ''-'' \<or> is_handle_char c" using assms(1) that by blast
    then show ?thesis using dash handle_char_lower by blast
  qed
  then have lower: "to_lower xs = xs" if "set xs \<subseteq> set s" for xs
    unfolding to_lower_def using that by (intro map_idI) blast
  have user: "isValidUsername ''user''" "to_lower ''user'' = ''user''" by code_simp+
  let ?a = "take username_max_length (filter is_handle_char s)"
  have cut: "isValidUsername ?a" if "filter is_handle_char s \<noteq> []"
  proof (rule handle_chars_valid)
    show "\<forall>c\<in>set ?a. is_handle_char c" by (auto dest: in_set_takeD)
  qed (use that in \<open>simp_all add: username_max_length_def\<close>)
  have "set ?a \<subseteq> set s" by (auto dest: in_set_takeD)
  with lower cut user assms(2) show ?thesis by simp
qed

text \<open>
  C39. The handle derived from any address is a valid username in lower case, so an account can always
  be given one.
\<close>

theorem derived_username_is_valid:
  "isValidUsername (deriveUsernameCandidate email)
   \<and> to_lower (deriveUsernameCandidate email) = deriveUsernameCandidate email"
proof (rule sanitized_or_cut)
  let ?s = "strip_dashes (collapse_dashes (map (\<lambda>c. if c = CHR ''-'' \<or> is_handle_char c then c else CHR ''-'')
    (to_lower (takeWhile (\<lambda>c. c \<noteq> CHR ''@'') email))))"
  show "\<forall>c\<in>set ?s. c = CHR ''-'' \<or> is_handle_char c"
  proof
    fix c assume c: "c \<in> set ?s"
    note subsetD [OF subset_trans [OF strip_chars collapse_chars] c]
    then show "c = CHR ''-'' \<or> is_handle_char c" by (simp only: set_map) (erule imageE, simp split: if_splits)
  qed
  show "deriveUsernameCandidate email = (if isValidUsername ?s then ?s
      else if filter is_handle_char ?s \<noteq> [] then take username_max_length (filter is_handle_char ?s) else ''user'')"
    by (simp only: deriveUsernameCandidate_def Let_def)
qed

subsection \<open>The search for a free handle\<close>

definition handle_candidate :: "string \<Rightarrow> nat \<Rightarrow> string" where
  "handle_candidate base n = (if n = 0 then base else base @ ''-'' @ show_nat n)"

lemma find_free_outcome:
  "(\<exists>i<k. find_free lib env base n k (handle_candidate base n) w = handle_candidate base (n + i)
       \<and> \<not> candidate_taken lib env (to_lower (handle_candidate base (n + i))) w
       \<and> (\<forall>j<i. candidate_taken lib env (to_lower (handle_candidate base (n + j))) w))
   \<or> (find_free lib env base n k (handle_candidate base n) w = base @ ''-'' @ ul_clock36 lib
       \<and> (\<forall>j<k. candidate_taken lib env (to_lower (handle_candidate base (n + j))) w))"
proof (induction k arbitrary: n)
  case (Suc k)
  show ?case
  proof (cases "candidate_taken lib env (to_lower (handle_candidate base n)) w")
    case True
    have unfold: "find_free lib env base n (Suc k) (handle_candidate base n) w
        = find_free lib env base (n + 1) k (handle_candidate base (n + 1)) w"
      using True by (simp add: handle_candidate_def)
    have all: "(\<forall>j<Suc i. candidate_taken lib env (to_lower (handle_candidate base (n + j))) w)
        \<longleftrightarrow> (\<forall>j<i. candidate_taken lib env (to_lower (handle_candidate base (n + 1 + j))) w)" for i
      using True by (auto simp: less_Suc_eq_0_disj)
    from Suc.IH [of "n + 1"] show ?thesis
    proof (elim disjE exE conjE)
      fix i assume "i < k" "find_free lib env base (n + 1) k (handle_candidate base (n + 1)) w = handle_candidate base (n + 1 + i)"
        "\<not> candidate_taken lib env (to_lower (handle_candidate base (n + 1 + i))) w"
        "\<forall>j<i. candidate_taken lib env (to_lower (handle_candidate base (n + 1 + j))) w"
      then show ?thesis unfolding unfold by (intro disjI1 exI [of _ "Suc i"]) (simp add: all)
    next
      assume "find_free lib env base (n + 1) k (handle_candidate base (n + 1)) w = base @ ''-'' @ ul_clock36 lib"
        "\<forall>j<k. candidate_taken lib env (to_lower (handle_candidate base (n + 1 + j))) w"
      then show ?thesis unfolding unfold by (intro disjI2) (simp add: all)
    qed
  next
    case False
    then show ?thesis by (intro disjI1 exI [of _ 0]) simp
  qed
qed simp

text \<open>
  The search ends within fifty candidates: it hands out the first candidate that nobody holds, or,
  when all fifty are taken, the one built from the clock.
\<close>

theorem search_for_a_handle_ends:
  "(\<exists>n<50. findFreeUsername lib env base w = handle_candidate base n
      \<and> \<not> candidate_taken lib env (to_lower (handle_candidate base n)) w
      \<and> (\<forall>j<n. candidate_taken lib env (to_lower (handle_candidate base j)) w))
   \<or> (findFreeUsername lib env base w = base @ ''-'' @ ul_clock36 lib
      \<and> (\<forall>j<50. candidate_taken lib env (to_lower (handle_candidate base j)) w))"
  using find_free_outcome [of 50 lib env base 0 w]
  by (simp add: findFreeUsername_def max_handle_attempts_def handle_candidate_def)

subsection \<open>A rename and the registry\<close>

lemma foreign_handle_is_taken:
  assumes "find (\<lambda>r. ns_usernameCi r = h) (db_namespaces (uw_db w)) = Some row" and "\<not> namespaceBelongsTo row account"
    and "\<forall>e. \<not> de_missing_schema env e"
  shows "isHandleTaken lib env h account w"
proof (cases "de_fails env (''NamespaceDAO.get'', [h])")
  case None
  with assms show ?thesis by (simp add: isHandleTaken_def get_namespace_def db_read_def)
next
  case (Some e)
  with assms(3) show ?thesis by (simp add: isHandleTaken_def get_namespace_def db_read_def)
qed

text \<open>
  C38. A name that the registry gives to another account is never taken from it: a rename to that name,
  in any case and with any white space around it, changes nothing and is refused, whatever the
  database answers, unless the account already carries the name itself.
\<close>

theorem rename_never_takes_anothers_name:
  assumes "ul_resolve lib (to_lower email) (uw_users w) = Inr (Some account)"
    and "find (\<lambda>r. ns_usernameCi r = to_lower (trim newUsername)) (db_namespaces (uw_db w)) = Some row"
    and "\<not> namespaceBelongsTo row account" and "\<forall>e. \<not> de_missing_schema env e"
  shows "fst (renameUsername lib env email newUsername w) = w
    \<and> (isl (snd (renameUsername lib env email newUsername w))
       \<or> map_option to_lower (ac_username account) = Some (to_lower (trim newUsername)))"
  using foreign_handle_is_taken [OF assms(2-4), of lib] assms(1)
  by (simp add: renameUsername_def Let_def getProfileByEmail_def split: sum.split)

subsection \<open>An example\<close>

definition lab_users :: "account user_lib" where
  "lab_users = \<lparr>ul_resolve = (\<lambda>_ u. Inr (Some u)), ul_register = (\<lambda>_ _ u. (u, Inr (Some u))),
     ul_ensureUsername = (\<lambda>_ h u. (u\<lparr>ac_username := Some h\<rparr>, None)),
     ul_setUsername = (\<lambda>_ h u. (u\<lparr>ac_username := Some h\<rparr>, None)),
     ul_byUsernameCi = (\<lambda>_ _. Inr None), ul_newAnchor = ''anchor'', ul_clock36 = ''k''\<rparr>"

definition lab_account :: account where
  "lab_account = \<lparr>ac_id = ''u'', ac_email = ''a@b.c'', ac_anchorEmail = ''a@b.c'', ac_username = Some ''ann''\<rparr>"

definition lab_control :: db_env where
  "lab_control = \<lparr>de_fails = (\<lambda>_. None), de_missing_schema = (\<lambda>_. False), de_now = 5\<rparr>"

definition foreign_name :: namespace_row where
  "foreign_name = \<lparr>ns_usernameCi = ''bob'', ns_kind = ''user'', ns_userEmail = None, ns_userId = Some ''other'', ns_createdAt = 1\<rparr>"

definition lab_accounts :: "namespace_row list \<Rightarrow> account user_world" where
  "lab_accounts names = \<lparr>uw_users = lab_account, uw_db = \<lparr>db_volumes = [door_volume], db_credentials = [],
     db_namespaces = names, db_replications = [], db_conflicts = []\<rparr>\<rparr>"

theorem rename_never_takes_anothers_name_witness:
  "fst (renameUsername lab_users lab_control ''a@b.c'' '' BOB '' (lab_accounts [foreign_name])) = lab_accounts [foreign_name]"
proof -
  have "to_lower (trim '' BOB '') = ''bob''" by code_simp
  then show ?thesis
    using rename_never_takes_anothers_name [of lab_users "''a@b.c''" "lab_accounts [foreign_name]" lab_account "'' BOB ''"
        foreign_name lab_control]
    by (simp add: lab_users_def lab_accounts_def foreign_name_def namespaceBelongsTo_def present_def lab_account_def lab_control_def)
qed

subsection \<open>Renames that strand files, and a handle that is no username\<close>

text \<open>
  The route names the new objects by the handle as it was typed, while the account and its volumes
  take the trimmed one: the files go to an object that no volume is served from.
\<close>

lemma untrimmed_rename_strands_the_files:
  "case handleRenameUsername (\<lambda>_. False) lab_users lab_control (move_lab (\<lambda>n. Answered)) list_kv ''a@b.c'' (Some ''u'')
     (Some (Json_str ''bob ''))
     \<lparr>rw_users = lab_accounts [], rw_objects = \<lparr>ob_calls = 0, ob_volumes = (\<lambda>k.
        volume_with (if k = ''ann/docs'' then [(''/f'', Some ''x'')] else []))\<rparr>, rw_cache = ([], [])\<rparr> of
   (w, answer) \<Rightarrow>
     (case answer of Renamed h \<Rightarrow> h = Some ''bob'' | Rename_error _ _ \<Rightarrow> False)
     \<and> map vr_ownerCi (db_volumes (uw_db (rw_users w))) = [''bob'']
     \<and> vol_fs (ob_volumes (rw_objects w) ''ann/docs'') = [] \<and> vol_fs (ob_volumes (rw_objects w) ''bob/docs'') = []
     \<and> vol_fs (ob_volumes (rw_objects w) ''bob /docs'') = [(''/f'', Some ''x'')]"
  by code_simp

text \<open>A taken handle of the full length is continued with a number and is then too long.\<close>

lemma numbered_handle_can_be_invalid:
  assumes "length base = username_max_length"
  shows "\<not> isValidUsername (handle_candidate base 1)"
  using assms by (simp add: handle_candidate_def isValidUsername_def)

end
