(* ===== verification/Http_Remote.thy ===== *)
theory Http_Remote
  imports Replica_Remote Api_Input Xml
begin

section \<open>Replication: a WebDAV server as the remote side\<close>

text \<open>
  \<open>apps/background/src/replication/remote\<close>: \<open>davHttpProtocol.ts\<close>, \<open>recursiveDelete.ts\<close> and
  \<open>DavHttpRemote.ts\<close>. The server is a function from a request and a state of its own to an answer
  (\<open>ht_send\<close>, \<open>Inl\<close> a call of \<open>fetch\<close> that threw); the egress policy (\<open>normalizeRemoteUrl\<close>,
  \<open>resolveRedirectUrl\<close>, \<open>MAX_REDIRECTS\<close> of \<open>@rexezuge/shared\<close>) and URL parsing are parameters. The
  workers of a recursive delete take the children in order, one after the other.
\<close>

subsection \<open>\<open>davHttpProtocol.ts\<close>\<close>

definition delete_fanout :: nat where "delete_fanout = 8"
definition max_remove_depth :: nat where "max_remove_depth = 64"

definition delete_success :: "nat list" where "delete_success = [200, 204, 404]"

definition joinUrl :: "string \<Rightarrow> string list \<Rightarrow> string" where
  "joinUrl base segments =
     (let encoded = map (\<lambda>s. join_path (map encodeURIComponent (split_path s)))
            (filter (\<lambda>s. s \<noteq> []) (map stripSlashes segments));
          path = join_path encoded;
          baseTrimmed = (if ends_with ''/'' base then base else base @ ''/'')
      in if path = [] then baseTrimmed else baseTrimmed @ path)"

text \<open>The inner path and the path it was read from.\<close>

definition toInnerEntry :: "string \<Rightarrow> string \<Rightarrow> (string \<times> string) option" where
  "toInnerEntry pathname rootPathname =
     (if \<not> starts_with rootPathname pathname then None
      else let remainder = stripSlashes (drop (length rootPathname) pathname)
           in if remainder = [] then None
              else if list_ex (\<lambda>s. s = ''..'' \<or> s = ''.'') (split_path remainder) then None
              else Some (remainder, pathname))"

definition propfindBody :: string where
  "propfindBody = ''<?xml version='' @ quote ''1.0'' @ '' encoding='' @ quote ''utf-8'' @ ''?>'' @ newline @
     ''<d:propfind xmlns:d='' @ quote ''DAV:'' @
     ''><d:prop><d:resourcetype/><d:getetag/><d:getlastmodified/><d:getcontentlength/><d:getcontenttype/></d:prop></d:propfind>''"

definition classifyStatus :: "nat \<Rightarrow> string \<Rightarrow> string \<Rightarrow> string" where
  "classifyStatus status method path = method @ '' '' @ path @ '' failed with '' @ show_nat status"

subsection \<open>\<open>recursiveDelete.ts\<close>\<close>

record 's tree_ops =
  tr_list :: "string \<Rightarrow> 's \<Rightarrow> 's \<times> (string + string list)"
  tr_delete :: "string \<Rightarrow> string option \<Rightarrow> 's \<Rightarrow> 's \<times> string option"

text \<open>
  \<open>levels\<close> is how much of the depth is left, \<open>max_remove_depth + 1 - depth\<close>. A worker whose child
  fails stops, the others go on; the first error is the one reported. The paths visited are kept
  beside the state.
\<close>

fun removeRecursive ::
    "'s tree_ops \<Rightarrow> string option \<Rightarrow> bool \<Rightarrow> nat \<Rightarrow> string \<Rightarrow> string list \<times> 's \<Rightarrow> (string list \<times> 's) \<times> string option"
  and remove_children ::
    "'s tree_ops \<Rightarrow> string option \<Rightarrow> nat \<Rightarrow> nat \<Rightarrow> string list \<Rightarrow> string list \<times> 's \<Rightarrow> (string list \<times> 's) \<times> string option" where
  "removeRecursive ops ifMatch recursive levels path (visited, s) =
     (if path \<in> set visited
      then ((visited, s), Some (''refusing to descend into '' @ path @ '' again; the target reported a cycle''))
      else case levels of
        0 \<Rightarrow> ((path # visited, s), Some (''recursive delete exceeded '' @ show_nat max_remove_depth @ '' levels at '' @ path))
      | Suc left \<Rightarrow>
          if \<not> recursive then (case tr_delete ops path ifMatch s of (s', e) \<Rightarrow> ((path # visited, s'), e))
          else (case tr_list ops path s of
                  (s1, Inl e) \<Rightarrow> ((path # visited, s1), Some e)
                | (s1, Inr children) \<Rightarrow>
                    (case remove_children ops ifMatch left (min delete_fanout (max 1 (length children))) children (path # visited, s1) of
                       (w, Some e) \<Rightarrow> (w, Some e)
                     | ((visited', s2), None) \<Rightarrow>
                         (case tr_delete ops path ifMatch s2 of (s3, e) \<Rightarrow> ((visited', s3), e)))))"
| "remove_children ops ifMatch left workers [] w = (w, None)"
| "remove_children ops ifMatch left workers (child # children) w =
     (if workers = 0 then (w, None)
      else (case removeRecursive ops ifMatch True left child w of
              (w', None) \<Rightarrow> remove_children ops ifMatch left workers children w'
            | (w', Some e) \<Rightarrow> (fst (remove_children ops ifMatch left (workers - 1) children w'), Some e)))"

declare removeRecursive.simps [simp del] remove_children.simps [simp del]

subsection \<open>\<open>DavHttpRemote.ts\<close>: one request\<close>

record out_request =
  oq_method :: string
  oq_url :: string
  oq_headers :: "(string \<times> string) list"
  oq_body :: "payload option"

datatype redirect_refusal = Policy_refusal string | Redirect_error string

record 's http_target =
  ht_base :: string
  ht_rootPathname :: string
  ht_rootInner :: string
  ht_auth :: auth_header
  ht_send :: "out_request \<Rightarrow> 's \<Rightarrow> 's \<times> (string + response)"
  ht_redirect :: "string \<Rightarrow> string \<Rightarrow> redirect_refusal + string"
  ht_maxRedirects :: nat
  ht_xml :: xml_lib
  ht_url :: url_parser
  ht_date :: "string \<Rightarrow> int option"

text \<open>The constructor: the base is normalised by the policy, the root read off the joined URL.\<close>

definition new_http_remote ::
    "(string \<Rightarrow> string + string) \<Rightarrow> url_parser \<Rightarrow> string \<Rightarrow> string option \<Rightarrow> (string \<Rightarrow> string \<Rightarrow> string \<Rightarrow> 's http_target) \<Rightarrow>
     string + 's http_target" where
  "new_http_remote normalizeRemoteUrl parse_url baseUrl remotePath target =
     (case normalizeRemoteUrl baseUrl of Inl e \<Rightarrow> Inl e
      | Inr base \<Rightarrow>
          (let rootInner = stripSlashes (case remotePath of Some p \<Rightarrow> p | None \<Rightarrow> [])
           in case parse_url (joinUrl base [rootInner]) None of
                None \<Rightarrow> Inl ''Invalid URL string.''
              | Some (origin, pathname) \<Rightarrow>
                  (case decodeURIComponent pathname of None \<Rightarrow> Inl ''URI malformed''
                   | Some rootPathname \<Rightarrow> Inr (target base rootPathname rootInner))))"

definition request_headers :: "auth_header \<Rightarrow> (string \<times> string) list \<Rightarrow> (string \<times> string) list" where
  "request_headers auth headers =
     (let h = set_header ''User-Agent'' ''durable-dav-replication/1.0'' headers
      in case auth of Auth_none \<Rightarrow> h
         | Auth_basic v \<Rightarrow> set_header ''Authorization'' (''Basic '' @ v) h
         | Auth_bearer t \<Rightarrow> set_header ''Authorization'' (''Bearer '' @ t) h)"

text \<open>\<open>budget\<close> is the number of redirects left. A stream cannot be sent a second time.\<close>

fun follow ::
    "'s http_target \<Rightarrow> string \<Rightarrow> out_request \<Rightarrow> nat \<Rightarrow> string list \<Rightarrow> 's \<Rightarrow> 's \<times> (string + response)" where
  "follow t path rq budget visited s =
     (case ht_send t rq s of
        (s', Inl e) \<Rightarrow> (s', Inl e)
      | (s', Inr res) \<Rightarrow>
          (case response_header ''Location'' res of
             None \<Rightarrow> (s', Inr res)
           | Some location \<Rightarrow>
               if location = [] \<or> rs_status res < 300 \<or> 400 \<le> rs_status res then (s', Inr res)
               else case budget of
                 0 \<Rightarrow> (s', Inl (''redirect budget of '' @ show_nat (ht_maxRedirects t) @ '' exhausted for '' @ oq_method rq @ '' '' @ path))
               | Suc left \<Rightarrow>
                   (case ht_redirect t (oq_url rq) location of
                      Inl (Policy_refusal m) \<Rightarrow>
                        (s', Inl (''redirect from '' @ oq_method rq @ '' '' @ path @ '' was refused by the egress policy: '' @ m))
                    | Inl (Redirect_error m) \<Rightarrow> (s', Inl m)
                    | Inr next \<Rightarrow>
                        if next \<in> set visited then (s', Inl (''redirect cycle detected for '' @ oq_method rq @ '' '' @ path))
                        else if (case oq_body rq of Some (Stream _) \<Rightarrow> True | _ \<Rightarrow> False)
                        then (s', Inl ''This ReadableStream is disturbed (has already been read from), and cannot be used as a body.'')
                        else follow t path (rq\<lparr>oq_url := next\<rparr>) left (next # visited) s')))"

declare follow.simps [simp del]

definition http_request ::
    "'s http_target \<Rightarrow> string \<Rightarrow> string \<Rightarrow> (string \<times> string) list \<Rightarrow> payload option \<Rightarrow> 's \<Rightarrow> 's \<times> (string + response)" where
  "http_request t path method headers body s =
     (let target = joinUrl (ht_base t) [ht_rootInner t, path]
      in follow t path \<lparr>oq_method = method, oq_url = target, oq_headers = request_headers (ht_auth t) headers, oq_body = body\<rparr>
           (ht_maxRedirects t) [target] s)"

text \<open>\<open>answered f (s, r)\<close>: go on with the response; an error of the transport passes through.\<close>

definition answered :: "(response \<Rightarrow> string + 'a) \<Rightarrow> 's \<times> (string + response) \<Rightarrow> 's \<times> (string + 'a)" where
  "answered f = (\<lambda>(s, r). (s, case r of Inl e \<Rightarrow> Inl e | Inr res \<Rightarrow> f res))"

subsection \<open>The operations\<close>

definition listing_of :: "'s http_target \<Rightarrow> remote_resource list \<Rightarrow> remote_listing" where
  "listing_of t resources =
     (let mapped = List.map_filter (\<lambda>r. map_option (\<lambda>m. (r, fst m)) (toInnerEntry (rr_pathname r) (ht_rootPathname t))) resources
      in \<lparr>ls_entries = map (\<lambda>(r, inner). \<lparr>ps_path = inner, ps_isCollection = rr_isCollection r, ps_etag = rr_etag r,
            ps_mtime = rr_lastModified r, ps_size = rr_size r, ps_contentType = rr_contentType r\<rparr>) mapped,
          ls_complete = list_all (\<lambda>(r, inner). rr_propsComplete r) mapped\<rparr>)"

definition propfind :: "'s http_target \<Rightarrow> string \<Rightarrow> 's \<Rightarrow> 's \<times> (string + remote_listing)" where
  "propfind t path s = answered (\<lambda>res.
       if rs_status res = 404 then Inr \<lparr>ls_entries = [], ls_complete = True\<rparr>
       else if rs_status res = 207
       then (case parseMultiStatus (ht_xml t) (ht_url t) (ht_date t) (rs_body res) (joinUrl (ht_base t) [ht_rootInner t, path]) of
               None \<Rightarrow> Inl (''PROPFIND '' @ path @ '' returned a body that is not a usable multistatus'')
             | Some resources \<Rightarrow> Inr (listing_of t resources))
       else Inl (classifyStatus (rs_status res) ''PROPFIND'' path))
     (http_request t path ''PROPFIND'' [(''Depth'', ''1''), (''Content-Type'', ''application/xml; charset=utf-8'')]
        (Some (Bytes propfindBody)) s)"

definition http_stat :: "'s http_target \<Rightarrow> string \<Rightarrow> 's \<Rightarrow> 's \<times> (string + plan_side option)" where
  "http_stat t path s =
     (let parent = (case last_index_of slash path of None \<Rightarrow> [] | Some i \<Rightarrow> take i path)
      in map_prod id (map_sum id (\<lambda>listing. find (\<lambda>e. ps_path e = path) (ls_entries listing))) (propfind t parent s))"

definition ok_status :: "nat \<Rightarrow> bool" where "ok_status n \<longleftrightarrow> 200 \<le> n \<and> n < 300"

text \<open>A response with one of these statuses has no body.\<close>

definition null_body_statuses :: "nat list" where "null_body_statuses = [101, 204, 205, 304]"

definition http_readFile :: "'s http_target \<Rightarrow> string \<Rightarrow> 's \<Rightarrow> 's \<times> (string + string option)" where
  "http_readFile t path s = answered (\<lambda>res.
       if rs_status res = 404 then Inr None
       else if \<not> ok_status (rs_status res) \<or> rs_status res \<in> set null_body_statuses
       then Inl (classifyStatus (rs_status res) ''GET'' path)
       else Inr (Some (rs_body res)))
     (http_request t path ''GET'' [] None s)"

definition http_writeFile ::
    "'s http_target \<Rightarrow> string \<Rightarrow> payload \<Rightarrow> string option \<Rightarrow> string option \<Rightarrow> 's \<Rightarrow> 's \<times> (string + string option)" where
  "http_writeFile t path body contentType ifMatch s = answered (\<lambda>res.
       if rs_status res = 412 then Inl (''PUT '' @ path @ '' was rejected by If-Match; the remote changed underneath the sync'')
       else if rs_status res \<noteq> 201 \<and> rs_status res \<noteq> 204 then Inl (classifyStatus (rs_status res) ''PUT'' path)
       else Inr (response_header ''ETag'' res))
     (http_request t path ''PUT''
        ((''Content-Type'', case contentType of Some c \<Rightarrow> c | None \<Rightarrow> ''application/octet-stream'')
           # (case ifMatch of Some m \<Rightarrow> [(''If-Match'', m)] | None \<Rightarrow> []))
        (Some body) s)"

definition http_makeCollection :: "'s http_target \<Rightarrow> string \<Rightarrow> 's \<Rightarrow> 's \<times> (string + unit)" where
  "http_makeCollection t path s = answered (\<lambda>res.
       if rs_status res = 201 \<or> rs_status res = 405 then Inr () else Inl (classifyStatus (rs_status res) ''MKCOL'' path))
     (http_request t path ''MKCOL'' [] None s)"

definition deleteOne :: "'s http_target \<Rightarrow> string \<Rightarrow> string option \<Rightarrow> 's \<Rightarrow> 's \<times> string option" where
  "deleteOne t target ifMatch s =
     (case answered (\<lambda>res. if rs_status res \<in> set delete_success then Inr ()
             else Inl (classifyStatus (rs_status res) ''DELETE'' target))
        (http_request t target ''DELETE'' (case ifMatch of Some m \<Rightarrow> [(''If-Match'', m)] | None \<Rightarrow> []) None s)
      of (s', Inl e) \<Rightarrow> (s', Some e) | (s', Inr _) \<Rightarrow> (s', None))"

definition http_tree :: "'s http_target \<Rightarrow> 's tree_ops" where
  "http_tree t = \<lparr>tr_list = (\<lambda>p s. map_prod id (map_sum id (\<lambda>l. map ps_path (ls_entries l))) (propfind t p s)),
     tr_delete = deleteOne t\<rparr>"

definition http_remove :: "'s http_target \<Rightarrow> string \<Rightarrow> string option \<Rightarrow> bool \<Rightarrow> 's \<Rightarrow> 's \<times> string option" where
  "http_remove t path ifMatch recursive s =
     (case removeRecursive (http_tree t) ifMatch recursive (max_remove_depth + 1) path ([], s) of ((_, s'), e) \<Rightarrow> (s', e))"

definition http_probe :: "'s http_target \<Rightarrow> 's \<Rightarrow> 's \<times> (string + string list)" where
  "http_probe t s = answered (\<lambda>res.
       if \<not> ok_status (rs_status res) then Inl (classifyStatus (rs_status res) ''OPTIONS'' ''/'')
       else (case response_header ''DAV'' res of
               None \<Rightarrow> Inl ''target answered OPTIONS without a DAV header; the URL does not appear to be a WebDAV server''
             | Some dav \<Rightarrow> Inr (filter (\<lambda>e. e \<noteq> []) (map trim (split_on CHR '','' dav)))))
     (http_request t [] ''OPTIONS'' [] None s)"

text \<open>
  As the remote side of a run. A read does not change what the server holds, as the methods it
  uses are safe ones.
\<close>

definition step_of :: "'s \<times> (string + 'a) \<Rightarrow> 's step" where
  "step_of = (\<lambda>(s, r). (s, case r of Inl e \<Rightarrow> Some e | Inr _ \<Rightarrow> None))"

definition http_remote :: "'s http_target \<Rightarrow> 's remote_volume" where
  "http_remote t = \<lparr>
     rv_list = (\<lambda>s p. snd (propfind t p s)),
     rv_stat = (\<lambda>s p. snd (http_stat t p s)),
     rv_readFile = (\<lambda>s p. snd (http_readFile t p s)),
     rv_writeFile = (\<lambda>p body contentType s. step_of (http_writeFile t p body contentType None s)),
     rv_makeCollection = (\<lambda>p s. step_of (http_makeCollection t p s)),
     rv_remove = (\<lambda>p recursive s. http_remove t p None recursive s),
     rv_probe = (\<lambda>s. snd (http_probe t s))\<rparr>"

end
