(* ===== verification/Remote_Safety.thy ===== *)
theory Remote_Safety
  imports Http_Remote
begin

section \<open>What a third-party server can make the replication do\<close>

text \<open>
  Correctness of \<open>Http_Remote\<close> against any server: a recursive delete ends whatever the server
  lists and deletes a collection only after everything it listed, and a request is sent only to the
  configured address or to one the egress policy let through. At the end, what happens on a server
  that lists a resource as its own child, as RFC 4918 asks. Calls are observed through a log.
\<close>

subsection \<open>A recursive delete, observed\<close>

datatype remove_call = Listed string "string list option" | Deleted string bool

definition logged :: "'s tree_ops \<Rightarrow> ('s \<times> remove_call list) tree_ops" where
  "logged ops = \<lparr>
     tr_list = (\<lambda>p (s, lg). case tr_list ops p s of
        (s', r) \<Rightarrow> ((s', lg @ [Listed p (case r of Inr cs \<Rightarrow> Some cs | Inl _ \<Rightarrow> None)]), r)),
     tr_delete = (\<lambda>p m (s, lg). case tr_delete ops p m s of (s', e) \<Rightarrow> ((s', lg @ [Deleted p (e = None)]), e))\<rparr>"

lemma logged_list:
  "tr_list (logged ops) p (s, lg) = ((s', lg'), r) \<longleftrightarrow>
     tr_list ops p s = (s', r) \<and> lg' = lg @ [Listed p (case r of Inr cs \<Rightarrow> Some cs | Inl _ \<Rightarrow> None)]"
  by (auto simp: logged_def split: prod.split)

lemma logged_delete:
  "tr_delete (logged ops) p m (s, lg) = ((s', lg'), e) \<longleftrightarrow>
     tr_delete ops p m s = (s', e) \<and> lg' = lg @ [Deleted p (e = None)]"
  by (auto simp: logged_def split: prod.split)

text \<open>The steps of one level, as the cases every proof below follows.\<close>

lemma remove_cases:
  assumes "removeRecursive ops m True levels path (visited, s) = ((visited', s'), e)"
  obtains (cycle) "path \<in> set visited" "visited' = visited" "s' = s" "e \<noteq> None"
    | (too_deep) "path \<notin> set visited" "levels = 0" "visited' = path # visited" "s' = s" "e \<noteq> None"
    | (unlisted) left d where "path \<notin> set visited" "levels = Suc left" "tr_list ops path s = (s', Inl d)"
        "visited' = path # visited" "e \<noteq> None"
    | (child_failed) left s1 cs where "path \<notin> set visited" "levels = Suc left" "tr_list ops path s = (s1, Inr cs)" "e \<noteq> None"
        "remove_children ops m left (min delete_fanout (max 1 (length cs))) cs (path # visited, s1) = ((visited', s'), e)"
    | (emptied) left s1 cs s2 where "path \<notin> set visited" "levels = Suc left" "tr_list ops path s = (s1, Inr cs)"
        "remove_children ops m left (min delete_fanout (max 1 (length cs))) cs (path # visited, s1) = ((visited', s2), None)"
        "tr_delete ops path m s2 = (s', e)"
  using assms by (auto simp: removeRecursive.simps [of ops m True levels path] split: if_splits nat.splits prod.splits sum.splits option.splits)

lemma children_cases:
  assumes "remove_children ops m left workers (c # cs) w = (w', e)"
  obtains (idle) "workers = 0" "w' = w" "e = None"
    | (gone) w1 where "0 < workers" "removeRecursive ops m True left c w = (w1, None)"
        "remove_children ops m left workers cs w1 = (w', e)"
    | (stopped) w1 e1 where "0 < workers" "removeRecursive ops m True left c w = (w1, Some e1)"
        "fst (remove_children ops m left (workers - 1) cs w1) = w'" "e = Some e1"
  using assms by (auto simp: remove_children.simps split: if_splits prod.splits option.splits)

lemma workers_positive: "0 < min delete_fanout (max 1 n)" by (simp add: delete_fanout_def)

subsection \<open>Collections last\<close>

definition emptied_first :: "remove_call list \<Rightarrow> bool" where
  "emptied_first lg \<longleftrightarrow> (\<forall>before p ok after. lg = before @ Deleted p ok # after \<longrightarrow>
     (\<exists>cs. Listed p (Some cs) \<in> set before \<and> (\<forall>c\<in>set cs. Deleted c True \<in> set before)))"

lemma snoc_split:
  "xs @ [x] = before @ y # after \<longleftrightarrow>
     (after = [] \<and> before = xs \<and> y = x) \<or> (\<exists>rest. after = rest @ [x] \<and> xs = before @ y # rest)"
  by (cases after rule: rev_cases) auto

lemma emptied_first_listed: "emptied_first lg \<Longrightarrow> emptied_first (lg @ [Listed p r])"
  unfolding emptied_first_def by (auto simp: snoc_split)

lemma emptied_first_deleted:
  assumes "emptied_first lg" and "Listed p (Some cs) \<in> set lg" and "\<forall>c\<in>set cs. Deleted c True \<in> set lg"
  shows "emptied_first (lg @ [Deleted p ok])"
  unfolding emptied_first_def
proof (intro allI impI)
  fix before q ok' after assume "lg @ [Deleted p ok] = before @ Deleted q ok' # after"
  then consider "before = lg" "q = p" | rest where "lg = before @ Deleted q ok' # rest"
    by (auto simp: snoc_split)
  then show "\<exists>cs. Listed q (Some cs) \<in> set before \<and> (\<forall>c\<in>set cs. Deleted c True \<in> set before)"
    using assms by cases (auto simp: emptied_first_def)
qed

definition reported :: "remove_call list \<Rightarrow> string set" where
  "reported lg = (\<Union>c\<in>set lg. case c of Listed p (Some cs) \<Rightarrow> set cs | _ \<Rightarrow> {})"

lemma reported_mono: "set lg \<subseteq> set lg' \<Longrightarrow> reported lg \<subseteq> reported lg'"
  unfolding reported_def by blast

lemma finite_reported: "finite (reported lg)"
  unfolding reported_def by (auto split: remove_call.split option.split)

text \<open>What a stretch of the delete does to the visited paths and to the log.\<close>

definition trace_ok :: "string list \<Rightarrow> remove_call list \<Rightarrow> string list \<Rightarrow> remove_call list \<Rightarrow> string list \<Rightarrow> bool \<Rightarrow> bool" where
  "trace_ok vis lg vis' lg' paths succeeded \<longleftrightarrow>
     (emptied_first lg \<longrightarrow> emptied_first lg') \<and> set lg \<subseteq> set lg'
     \<and> (succeeded \<longrightarrow> (\<forall>p\<in>set paths. Deleted p True \<in> set lg'))
     \<and> (distinct vis \<longrightarrow> distinct vis') \<and> set vis \<subseteq> set vis' \<and> set vis' \<subseteq> set vis \<union> set paths \<union> reported lg'
     \<and> length lg' + 2 * length vis \<le> length lg + 2 * length vis'"

lemma trace_okI:
  assumes "emptied_first l \<Longrightarrow> emptied_first l'" and "set l \<subseteq> set l'"
    and "\<And>p. \<lbrakk>b; p \<in> set ps\<rbrakk> \<Longrightarrow> Deleted p True \<in> set l'"
    and "distinct v \<Longrightarrow> distinct v'" and "set v \<subseteq> set v'" and "set v' \<subseteq> set v \<union> set ps \<union> reported l'"
    and "length l' + 2 * length v \<le> length l + 2 * length v'"
  shows "trace_ok v l v' l' ps b"
  using assms by (simp add: trace_ok_def)

lemma trace_okD:
  assumes "trace_ok v l v' l' ps b"
  shows "emptied_first l \<Longrightarrow> emptied_first l'" and "set l \<subseteq> set l'" and "\<lbrakk>b; p \<in> set ps\<rbrakk> \<Longrightarrow> Deleted p True \<in> set l'"
    and "distinct v \<Longrightarrow> distinct v'" and "set v \<subseteq> set v'" and "set v' \<subseteq> set v \<union> set ps \<union> reported l'"
    and "length l' + 2 * length v \<le> length l + 2 * length v'"
  using assms by (simp_all add: trace_ok_def)

lemma reportedI: "Listed p (Some cs) \<in> set lg \<Longrightarrow> set cs \<subseteq> reported lg"
  by (force simp: reported_def)

lemma trace_refl: "trace_ok v l v l ps False"
  by (rule trace_okI) auto

lemma trace_trans:
  assumes "trace_ok v l v1 l1 ps b1" and "trace_ok v1 l1 v2 l2 qs b2"
  shows "trace_ok v l v2 l2 (ps @ qs) (b1 \<and> b2)"
proof (rule trace_okI)
  note d1 = trace_okD [OF assms(1)] and d2 = trace_okD [OF assms(2)]
  have more: "reported l1 \<subseteq> reported l2" by (rule reported_mono [OF d2(2)])
  show "emptied_first l \<Longrightarrow> emptied_first l2" using d1(1) d2(1) by blast
  show "set l \<subseteq> set l2" using d1(2) d2(2) by blast
  show "Deleted p True \<in> set l2" if "b1 \<and> b2" "p \<in> set (ps @ qs)" for p
    using that d1(3) d2(2,3) by (metis Un_iff set_append subsetD)
  show "distinct v \<Longrightarrow> distinct v2" using d1(4) d2(4) by blast
  show "set v \<subseteq> set v2" using d1(5) d2(5) by blast
  show "set v2 \<subseteq> set v \<union> set (ps @ qs) \<union> reported l2" using d1(6) d2(6) more unfolding set_append by blast
  show "length l2 + 2 * length v \<le> length l + 2 * length v2" using d1(7) d2(7) by linarith
qed

text \<open>A collection whose listing was read: its path is visited, and its children are what was reported.\<close>

lemma trace_listed:
  assumes kids: "trace_ok (path # v) (l @ [Listed path (Some cs)]) v' l' cs b" and "path \<notin> set v"
  shows "trace_ok v l v' l' [path] False" and "Suc (length l' + 2 * length v) \<le> length l + 2 * length v'"
proof -
  note d = trace_okD [OF kids]
  have "set cs \<subseteq> reported l'" by (rule reportedI) (use d(2) in auto)
  with d assms(2) emptied_first_listed [of l path "Some cs"] show "trace_ok v l v' l' [path] False"
    by (intro trace_okI) auto
  show "Suc (length l' + 2 * length v) \<le> length l + 2 * length v'" using d(7) by simp
qed

lemma children_trace:
  assumes child: "\<And>c vis s lg vis' s' lg' e.
      removeRecursive (logged ops) m True left c (vis, s, lg) = ((vis', s', lg'), e) \<Longrightarrow> trace_ok vis lg vis' lg' [c] (e = None)"
  shows "remove_children (logged ops) m left workers cs (vis, s, lg) = ((vis', s', lg'), e)
     \<Longrightarrow> trace_ok vis lg vis' lg' cs (e = None \<and> 0 < workers)"
proof (induction cs arbitrary: workers vis s lg vis' s' lg' e)
  case Nil
  then show ?case by (simp add: remove_children.simps trace_ok_def)
next
  case (Cons c cs)
  from Cons.prems show ?case
  proof (cases rule: children_cases)
    case idle
    then show ?thesis by (simp add: trace_refl)
  next
    case (gone w1)
    obtain v1 s1 l1 where w1: "w1 = (v1, s1, l1)" by (cases w1) auto
    show ?thesis
      using trace_trans [OF child [OF gone(2) [unfolded w1]] Cons.IH [OF gone(3) [unfolded w1]]] gone(1) by simp
  next
    case (stopped w1 e1)
    obtain v1 s1 l1 where w1: "w1 = (v1, s1, l1)" by (cases w1) auto
    obtain e2 where "remove_children (logged ops) m left (workers - 1) cs (v1, s1, l1) = ((vis', s', lg'), e2)"
      using stopped(3) by (metis w1 prod.collapse)
    from trace_trans [OF child [OF stopped(2) [unfolded w1]] Cons.IH [OF this]] stopped(4) show ?thesis by simp
  qed
qed

lemma removal_trace:
  "removeRecursive (logged ops) m True levels path (vis, s, lg) = ((vis', s', lg'), e)
     \<Longrightarrow> trace_ok vis lg vis' lg' [path] (e = None)"
proof (induction levels arbitrary: path vis s lg vis' s' lg' e)
  case 0
  then show ?case by (cases rule: remove_cases) (auto simp: trace_ok_def)
next
  case (Suc levels)
  from Suc.prems show ?case
  proof (cases rule: remove_cases)
    case cycle
    then show ?thesis by (auto simp: trace_ok_def)
  next
    case too_deep
    then show ?thesis by simp
  next
    case (unlisted left d)
    then show ?thesis by (auto simp: logged_list trace_ok_def emptied_first_listed)
  next
    case (child_failed left s1 cs)
    then obtain t where s1: "s1 = (t, lg @ [Listed path (Some cs)])" by (cases s1) (simp add: logged_list)
    have "trace_ok (path # vis) (lg @ [Listed path (Some cs)]) vis' lg' cs (e = None \<and> 0 < min delete_fanout (max 1 (length cs)))"
      by (rule children_trace [OF _ child_failed(5) [unfolded s1]]) (use Suc.IH child_failed(2) in simp)
    with trace_listed(1) child_failed(1,4) have "trace_ok vis lg vis' lg' [path] False" by blast
    then show ?thesis using child_failed(4) by (auto simp: trace_ok_def)
  next
    case (emptied left s1 cs s2)
    then obtain t where s1: "s1 = (t, lg @ [Listed path (Some cs)])" by (cases s1) (simp add: logged_list)
    obtain u l2 where s2: "s2 = (u, l2)" by (cases s2)
    from emptied(5) s2 have lg': "lg' = l2 @ [Deleted path (e = None)]" by (simp add: logged_delete)
    have kids: "trace_ok (path # vis) (lg @ [Listed path (Some cs)]) vis' l2 cs
        ((None :: string option) = None \<and> 0 < min delete_fanout (max 1 (length cs)))"
      by (rule children_trace [OF _ emptied(4) [unfolded s1 s2]]) (use Suc.IH emptied(2) in simp)
    note d = trace_okD [OF kids] and l = trace_okD [OF trace_listed(1) [OF kids emptied(1)]]
    have deleted: "\<forall>c\<in>set cs. Deleted c True \<in> set l2" using d(3) workers_positive by blast
    have "Listed path (Some cs) \<in> set l2" using d(2) by auto
    then have first: "emptied_first lg'" if "emptied_first lg"
      unfolding lg' by (rule emptied_first_deleted [OF l(1) [OF that] _ deleted])
    have "reported l2 \<subseteq> reported lg'" unfolding lg' by (rule reported_mono) auto
    then show ?thesis
      using l first trace_listed(2) [OF kids emptied(1)] by (intro trace_okI) (auto simp: lg')
  qed
qed

text \<open>
  C24. A recursive delete never removes a collection before what is in it: every \<open>DELETE\<close> it sends is for
  a path whose listing it has read, and every child of that listing had been deleted by then.
\<close>

theorem collections_are_deleted_last:
  assumes "removeRecursive (logged ops) ifMatch True levels path ([], s, []) = ((visited, s', lg), e)"
    and "lg = before @ Deleted p ok # after"
  shows "\<exists>cs. Listed p (Some cs) \<in> set before \<and> (\<forall>c\<in>set cs. Deleted c True \<in> set before)"
  using removal_trace [OF assms(1)] assms(2) unfolding trace_ok_def
  by (simp add: emptied_first_def)

text \<open>
  C25. A recursive delete ends, whatever the server answers: with \<open>n\<close> the number of different paths it
  was given or told of, it makes at most \<open>2 n\<close> calls, visiting no path twice.
\<close>

theorem recursive_delete_ends:
  "case removeRecursive (logged ops) ifMatch True levels path ([], s, []) of
     ((visited, _, lg), _) \<Rightarrow> distinct visited \<and> length lg \<le> 2 * card (insert path (reported lg))"
proof -
  obtain visited s' lg e where run: "removeRecursive (logged ops) ifMatch True levels path ([], s, []) = ((visited, s', lg), e)"
    by (metis prod.collapse)
  have ok: "distinct visited" "set visited \<subseteq> insert path (reported lg)" "length lg \<le> 2 * length visited"
    using removal_trace [OF run] by (auto simp: trace_ok_def)
  have "length visited = card (set visited)" using ok(1) by (simp add: distinct_card)
  also have "\<dots> \<le> card (insert path (reported lg))" by (rule card_mono) (use ok(2) finite_reported in auto)
  finally show ?thesis using ok by (simp add: run)
qed

theorem collections_are_deleted_last_witness:
  "\<exists>cs. Listed ''d'' (Some cs) \<in> set [Listed ''d'' (Some [''d/f'']), Listed ''d/f'' (Some []), Deleted ''d/f'' True]
     \<and> (\<forall>c\<in>set cs. Deleted c True \<in> set [Listed ''d'' (Some [''d/f'']), Listed ''d/f'' (Some []), Deleted ''d/f'' True])"
proof -
  let ?ops = "\<lparr>tr_list = (\<lambda>p s. (s, Inr (if p = ''d'' then [''d/f''] else []))), tr_delete = (\<lambda>p m s. (s, None))\<rparr> :: unit tree_ops"
  have "removeRecursive (logged ?ops) None True 3 ''d'' ([], (), []) =
      (([''d/f'', ''d''], (), [Listed ''d'' (Some [''d/f'']), Listed ''d/f'' (Some []), Deleted ''d/f'' True, Deleted ''d'' True]), None)"
    by code_simp
  then show ?thesis
    by (rule collections_are_deleted_last [where after = "[]"]) simp
qed

subsection \<open>Where requests go\<close>

definition sends_logged :: "'s http_target \<Rightarrow> ('s \<times> out_request list) http_target" where
  "sends_logged t = \<lparr>ht_base = ht_base t, ht_rootPathname = ht_rootPathname t, ht_rootInner = ht_rootInner t, ht_auth = ht_auth t,
     ht_send = (\<lambda>rq (s, sent). case ht_send t rq s of (s', r) \<Rightarrow> ((s', sent @ [rq]), r)),
     ht_redirect = ht_redirect t, ht_maxRedirects = ht_maxRedirects t, ht_xml = ht_xml t, ht_url = ht_url t, ht_date = ht_date t\<rparr>"

lemma sends_logged_fields [simp]:
  "ht_base (sends_logged t) = ht_base t" "ht_rootInner (sends_logged t) = ht_rootInner t" "ht_auth (sends_logged t) = ht_auth t"
  "ht_redirect (sends_logged t) = ht_redirect t" "ht_maxRedirects (sends_logged t) = ht_maxRedirects t"
  "ht_send (sends_logged t) rq (s, sent) = ((fst (ht_send t rq s), sent @ [rq]), snd (ht_send t rq s))"
  by (simp_all add: sends_logged_def split: prod.split)

definition let_through :: "'s http_target \<Rightarrow> string \<Rightarrow> string \<Rightarrow> bool" where
  "let_through t url url' \<longleftrightarrow> (\<exists>location. ht_redirect t url location = Inr url')"

text \<open>The chain of requests that starts with \<open>rq\<close>, not counting it.\<close>

definition hops_ok :: "'s http_target \<Rightarrow> out_request \<Rightarrow> nat \<Rightarrow> string list \<Rightarrow> out_request list \<Rightarrow> bool" where
  "hops_ok t rq budget visited hops \<longleftrightarrow>
     length hops \<le> budget \<and> distinct (map oq_url hops) \<and> set (map oq_url hops) \<inter> set visited = {}
     \<and> successively (let_through t) (map oq_url (rq # hops)) \<and> (\<forall>h\<in>set hops. h = rq\<lparr>oq_url := oq_url h\<rparr>)"

lemma follow_hops:
  assumes "oq_url rq \<in> set visited"
  shows "\<exists>hops. snd (fst (follow (sends_logged t) path rq budget visited (s, sent))) = sent @ rq # hops
    \<and> hops_ok t rq budget visited hops"
  using assms
proof (induction budget arbitrary: rq visited s sent)
  case 0
  show ?case
    by (subst follow.simps) (simp add: hops_ok_def split: sum.split option.split)
next
  case (Suc budget)
  obtain s1 r where sent: "ht_send t rq s = (s1, r)" by (cases "ht_send t rq s")
  show ?case
  proof (cases "\<exists>next. snd (fst (follow (sends_logged t) path rq (Suc budget) visited (s, sent))) =
        snd (fst (follow (sends_logged t) path (rq\<lparr>oq_url := next\<rparr>) budget (next # visited) (s1, sent @ [rq])))
      \<and> let_through t (oq_url rq) next \<and> next \<notin> set visited")
    case False
    then have "snd (fst (follow (sends_logged t) path rq (Suc budget) visited (s, sent))) = sent @ [rq]"
      by (auto simp: sent let_through_def follow.simps [of "sends_logged t" path rq "Suc budget"]
        split: sum.splits option.splits redirect_refusal.splits if_splits)
    then show ?thesis by (intro exI [of _ "[]"]) (simp add: hops_ok_def)
  next
    case True
    then obtain u where u: "let_through t (oq_url rq) u" "u \<notin> set visited"
      and go_on: "snd (fst (follow (sends_logged t) path rq (Suc budget) visited (s, sent))) =
        snd (fst (follow (sends_logged t) path (rq\<lparr>oq_url := u\<rparr>) budget (u # visited) (s1, sent @ [rq])))" by blast
    obtain hops where hops: "snd (fst (follow (sends_logged t) path (rq\<lparr>oq_url := u\<rparr>) budget (u # visited) (s1, sent @ [rq])))
        = (sent @ [rq]) @ rq\<lparr>oq_url := u\<rparr> # hops" and ok: "hops_ok t (rq\<lparr>oq_url := u\<rparr>) budget (u # visited) hops"
      using Suc.IH [of "rq\<lparr>oq_url := u\<rparr>" "u # visited" s1 "sent @ [rq]"] by auto
    from ok u have "hops_ok t rq (Suc budget) visited (rq\<lparr>oq_url := u\<rparr> # hops)"
      by (auto simp: hops_ok_def)
    with go_on hops show ?thesis by (intro exI [of _ "rq\<lparr>oq_url := u\<rparr> # hops"]) simp
  qed
qed

text \<open>
  C26. Whatever a server answers, an operation on it sends its first request to the configured address
  and every further one to an address that the egress policy let through for the redirect before;
  it sends at most one more than the redirect budget, none twice to the same address, and always
  with the same method, headers and body.
\<close>

theorem requests_obey_the_egress_policy:
  "\<exists>rq hops. snd (fst (http_request (sends_logged t) path method headers body (s, []))) = rq # hops
     \<and> oq_url rq = joinUrl (ht_base t) [ht_rootInner t, path] \<and> oq_method rq = method \<and> oq_body rq = body
     \<and> length hops \<le> ht_maxRedirects t \<and> distinct (map oq_url (rq # hops))
     \<and> successively (let_through t) (map oq_url (rq # hops))
     \<and> hops = map (\<lambda>h. rq\<lparr>oq_url := oq_url h\<rparr>) hops"
proof -
  let ?url = "joinUrl (ht_base t) [ht_rootInner t, path]"
  let ?rq = "\<lparr>oq_method = method, oq_url = ?url, oq_headers = request_headers (ht_auth t) headers, oq_body = body\<rparr>"
  obtain hops where "snd (fst (follow (sends_logged t) path ?rq (ht_maxRedirects t) [?url] (s, []))) = ?rq # hops"
      "hops_ok t ?rq (ht_maxRedirects t) [?url] hops"
    using follow_hops [of ?rq "[?url]" t path "ht_maxRedirects t" s "[]"] by auto
  then show ?thesis
    by (intro exI [of _ ?rq] exI [of _ hops]) (auto simp: http_request_def Let_def hops_ok_def intro: map_idI [symmetric])
qed

subsection \<open>A server that lists a resource with itself\<close>

text \<open>
  RFC 4918 has a \<open>PROPFIND\<close> of depth 1 answer for the resource it names as well. \<open>toInnerEntry\<close> drops
  that answer only for the configured root: below it a path comes back as its own child, the
  delete takes it for a cycle, and nothing is ever deleted.
\<close>

lemma self_listed_children:
  assumes child: "\<And>c vis s lg vis' s' lg' e. removeRecursive (logged ops) m True left c (vis, s, lg) = ((vis', s', lg'), e)
      \<Longrightarrow> e \<noteq> None \<and> (\<forall>p ok. Deleted p ok \<in> set lg' \<longrightarrow> Deleted p ok \<in> set lg)"
  shows "remove_children (logged ops) m left workers cs (vis, s, lg) = ((vis', s', lg'), e)
    \<Longrightarrow> (cs \<noteq> [] \<and> 0 < workers \<longrightarrow> e \<noteq> None) \<and> (\<forall>p ok. Deleted p ok \<in> set lg' \<longrightarrow> Deleted p ok \<in> set lg)"
proof (induction cs arbitrary: workers vis s lg vis' s' lg' e)
  case (Cons c cs)
  from Cons.prems show ?case
  proof (cases rule: children_cases)
    case (gone w1)
    then show ?thesis using child by (cases w1) force
  next
    case (stopped w1 e1)
    obtain v1 s1 l1 where w1: "w1 = (v1, s1, l1)" by (cases w1) auto
    obtain e2 where "remove_children (logged ops) m left (workers - 1) cs (v1, s1, l1) = ((vis', s', lg'), e2)"
      using stopped(3) by (metis w1 prod.collapse)
    from Cons.IH [OF this] child [OF stopped(2) [unfolded w1]] stopped(4) show ?thesis by blast
  qed simp
qed (simp add: remove_children.simps)

lemma self_listing_server_keeps_everything:
  assumes "\<forall>p s s' cs. tr_list ops p s = (s', Inr cs) \<longrightarrow> p \<in> set cs"
  shows "removeRecursive (logged ops) m True levels path (vis, s, lg) = ((vis', s', lg'), e)
    \<Longrightarrow> e \<noteq> None \<and> (\<forall>p ok. Deleted p ok \<in> set lg' \<longrightarrow> Deleted p ok \<in> set lg)"
proof (induction levels arbitrary: path vis s lg vis' s' lg' e)
  case 0
  then show ?case by (cases rule: remove_cases) auto
next
  case (Suc levels)
  from Suc.prems show ?case
  proof (cases rule: remove_cases)
    case (child_failed left s1 cs)
    then obtain t where s1: "s1 = (t, lg @ [Listed path (Some cs)])" by (cases s1) (simp add: logged_list)
    have "(cs \<noteq> [] \<and> 0 < min delete_fanout (max 1 (length cs)) \<longrightarrow> e \<noteq> None)
        \<and> (\<forall>p ok. Deleted p ok \<in> set lg' \<longrightarrow> Deleted p ok \<in> set (lg @ [Listed path (Some cs)]))"
      by (rule self_listed_children [OF _ child_failed(5) [unfolded s1]]) (use Suc.IH child_failed(2) in simp)
    then show ?thesis using child_failed(4) by auto
  next
    case (emptied left s1 cs s2)
    then obtain t where s1: "s1 = (t, lg @ [Listed path (Some cs)])" and "tr_list ops path s = (t, Inr cs)"
      by (cases s1) (simp add: logged_list)
    with assms have "cs \<noteq> []" by force
    obtain u l2 where s2: "s2 = (u, l2)" by (cases s2)
    have "cs \<noteq> [] \<and> 0 < min delete_fanout (max 1 (length cs)) \<longrightarrow> (None :: string option) \<noteq> None"
      by (rule conjunct1 [OF self_listed_children [OF _ emptied(4) [unfolded s1 s2]]]) (use Suc.IH emptied(2) in simp)
    with \<open>cs \<noteq> []\<close> workers_positive show ?thesis by blast
  qed (auto simp: logged_list)
qed

text \<open>The same through HTTP, on a server that holds the file \<open>/a\<close>: the run reports a cycle.\<close>

definition element :: "string \<Rightarrow> dom list \<Rightarrow> dom" where "element name cs = Element (Some ''DAV:'') None (Some name) cs"

definition one_file_server :: "unit http_target" where
  "one_file_server = \<lparr>ht_base = ''h/'', ht_rootPathname = ''/'', ht_rootInner = [], ht_auth = Auth_none,
     ht_send = (\<lambda>rq s. (s, Inr (if oq_method rq = ''PROPFIND'' then respond 207 ''list'' else respond 204 []))),
     ht_redirect = (\<lambda>_ _. Inl (Policy_refusal [])), ht_maxRedirects = 5,
     ht_xml = \<lparr>parse_dom = (\<lambda>_. Some (element ''multistatus'' [element ''response'' [element ''href'' [Text ''/a'']]])), serialize = (\<lambda>_. [])\<rparr>,
     ht_url = (\<lambda>h b. Some (''h'', h)), ht_date = (\<lambda>_. None)\<rparr>"

lemma remote_file_cannot_be_deleted:
  "snd (http_remove one_file_server ''a'' None True ()) =
     Some ''refusing to descend into a again; the target reported a cycle''"
  by code_simp

text \<open>An escaped slash is no separator on the server, but it is one in the inner path.\<close>

lemma escaped_slash_becomes_a_separator:
  "toInnerEntry (decodePathname ''/dav/a%2Fb'') ''/dav'' = Some (''a/b'', ''/dav/a/b'')"
proof -
  have "decodePathname ''/dav/a%2Fb'' = ''/dav/a/b''" by code_simp
  moreover have "toInnerEntry ''/dav/a/b'' ''/dav'' = Some (''a/b'', ''/dav/a/b'')" by code_simp
  ultimately show ?thesis by simp
qed

end
