(* ===== verification/Configuration.thy ===== *)
theory Configuration
  imports User_Service
begin

section \<open>Configuration, the identity of a dashboard request, and its rate limits\<close>

text \<open>
  \<open>packages/backend-runtime/src/config\<close> (\<open>AppConfiguration.ts\<close> and its sections),
  \<open>packages/backend-services/src/auth/AccessAuthService.ts\<close>, \<open>apps/api/src/middleware/MiddlewareHandlers.ts\<close>
  and \<open>rateLimitConfig.ts\<close>. The parsers of environment variables (\<open>EnvParser\<close> of \<open>@rexezuge/runtime\<close>) and
  \<open>authenticateAccess\<close> of \<open>@rexezuge/http\<close> are parameters; an error it throws is told apart by its class.
\<close>

subsection \<open>The sections\<close>

text \<open>\<open>ev_raw k\<close> is the variable as it is set; each parser gets the raw value and the default.\<close>

record app_env =
  ev_raw :: "string \<Rightarrow> string option"
  ev_string :: "string option \<Rightarrow> string \<Rightarrow> string"
  ev_positiveInt :: "string option \<Rightarrow> string \<Rightarrow> nat"
  ev_boolean :: "string option \<Rightarrow> string \<Rightarrow> bool"
  ev_validPositiveInt :: "string option \<Rightarrow> bool"

definition env_text :: "app_env \<Rightarrow> string \<Rightarrow> string \<Rightarrow> string" where "env_text ev k d = ev_string ev (ev_raw ev k) d"
definition env_int :: "app_env \<Rightarrow> string \<Rightarrow> string \<Rightarrow> nat" where "env_int ev k d = ev_positiveInt ev (ev_raw ev k) d"
definition env_flag :: "app_env \<Rightarrow> string \<Rightarrow> string \<Rightarrow> bool" where "env_flag ev k d = ev_boolean ev (ev_raw ev k) d"

definition default_environment :: string where "default_environment = ''production''"

definition getEnvironment :: "app_env \<Rightarrow> string" where
  "getEnvironment ev =
     (let normalized = to_lower (trim (env_text ev ''ENVIRONMENT'' default_environment))
      in if normalized = [] then default_environment else normalized)"

definition isBypassAllowed :: "app_env \<Rightarrow> bool" where "isBypassAllowed ev \<longleftrightarrow> getEnvironment ev \<noteq> ''production''"

definition isDemoMode :: "app_env \<Rightarrow> bool" where "isDemoMode ev = env_flag ev ''DEMO_MODE'' ''false''"

definition set_text :: "app_env \<Rightarrow> string \<Rightarrow> string option" where
  "set_text ev k = (let value = env_text ev k [] in if value = [] then None else Some value)"

definition getDevAuthEmail :: "app_env \<Rightarrow> string option" where "getDevAuthEmail ev = set_text ev ''DEV_AUTH_EMAIL''"
definition getDemoUserEmail :: "app_env \<Rightarrow> string option" where "getDemoUserEmail ev = set_text ev ''DEMO_USER_EMAIL''"
definition getTeamDomain :: "app_env \<Rightarrow> string option" where "getTeamDomain ev = set_text ev ''TEAM_DOMAIN''"
definition getPolicyAud :: "app_env \<Rightarrow> string option" where "getPolicyAud ev = set_text ev ''POLICY_AUD''"

definition getDavCacheTtlSeconds :: "app_env \<Rightarrow> nat" where
  "getDavCacheTtlSeconds ev =
     (if ev_raw ev ''DAV_CACHE_TTL_SECONDS'' \<noteq> None then env_int ev ''DAV_CACHE_TTL_SECONDS'' ''300''
      else if ev_raw ev ''GIT_CACHE_TTL_SECONDS'' = None then env_int ev ''DAV_CACHE_TTL_SECONDS'' ''300''
      else env_int ev ''GIT_CACHE_TTL_SECONDS'' ''300'')"

definition getMaxFileBytes :: "app_env \<Rightarrow> nat" where "getMaxFileBytes ev = env_int ev ''MAX_FILE_BYTES'' ''52428800''"

definition getMaxVolumesPerUser :: "app_env \<Rightarrow> nat" where
  "getMaxVolumesPerUser ev = env_int ev ''MAX_VOLUMES_PER_USER'' ''100''"

definition getMaxCredentialsPerVolume :: "app_env \<Rightarrow> nat" where
  "getMaxCredentialsPerVolume ev = env_int ev ''MAX_CREDENTIALS_PER_VOLUME'' ''10''"

definition getDefaultCredentialExpiryDays :: "app_env \<Rightarrow> nat" where
  "getDefaultCredentialExpiryDays ev = env_int ev ''DEFAULT_CREDENTIAL_EXPIRY_DAYS'' ''365''"

definition getMaxCredentialExpiryDays :: "app_env \<Rightarrow> nat" where
  "getMaxCredentialExpiryDays ev = env_int ev ''MAX_CREDENTIAL_EXPIRY_DAYS'' ''365''"

definition getDoDeviceBytes :: "app_env \<Rightarrow> nat" where "getDoDeviceBytes ev = env_int ev ''DO_DEVICE_BYTES'' ''5368709120''"

definition getReplicationSweepLimit :: "app_env \<Rightarrow> nat" where
  "getReplicationSweepLimit ev = env_int ev ''REPLICATION_SWEEP_LIMIT'' ''10''"

definition getReplicationSlicePaths :: "app_env \<Rightarrow> nat" where
  "getReplicationSlicePaths ev = env_int ev ''REPLICATION_SLICE_PATHS'' ''200''"

definition getReplicationSliceBytes :: "app_env \<Rightarrow> nat" where
  "getReplicationSliceBytes ev = env_int ev ''REPLICATION_SLICE_BYTES'' ''33554432''"

definition getReplicationSliceMs :: "app_env \<Rightarrow> nat" where
  "getReplicationSliceMs ev = env_int ev ''REPLICATION_SLICE_MS'' ''20000''"

definition getReplicationPassMaxMs :: "app_env \<Rightarrow> nat" where
  "getReplicationPassMaxMs ev = env_int ev ''REPLICATION_PASS_MAX_MS'' ''600000''"

definition getMaxReplicationFailures :: "app_env \<Rightarrow> nat" where
  "getMaxReplicationFailures ev = env_int ev ''MAX_REPLICATION_FAILURES'' ''5''"

definition getMaxReplicationsPerVolume :: "app_env \<Rightarrow> nat" where
  "getMaxReplicationsPerVolume ev = env_int ev ''MAX_REPLICATIONS_PER_VOLUME'' ''10''"

definition getReplicationTimeoutMs :: "app_env \<Rightarrow> nat" where
  "getReplicationTimeoutMs ev = env_int ev ''REPLICATION_TIMEOUT_MS'' ''30000''"

definition getReplicationAllowedHosts :: "app_env \<Rightarrow> string" where
  "getReplicationAllowedHosts ev = env_text ev ''REPLICATION_ALLOWED_HOSTS'' []"

definition getReplicationAllowedHostList :: "app_env \<Rightarrow> string list" where
  "getReplicationAllowedHostList ev =
     filter (\<lambda>e. e \<noteq> []) (map trim (split_on CHR '','' (getReplicationAllowedHosts ev)))"

definition isReplicationHashOnAmbiguous :: "app_env \<Rightarrow> bool" where
  "isReplicationHashOnAmbiguous ev = env_flag ev ''REPLICATION_HASH_ON_AMBIGUOUS'' ''false''"

definition numeric_keys :: "string list" where
  "numeric_keys = [''MAX_VOLUMES_PER_USER'', ''MAX_CREDENTIALS_PER_VOLUME'', ''DEFAULT_CREDENTIAL_EXPIRY_DAYS'',
     ''MAX_CREDENTIAL_EXPIRY_DAYS'', ''MAX_FILE_BYTES'', ''DAV_CACHE_TTL_SECONDS'', ''DO_DEVICE_BYTES'',
     ''REPLICATION_SWEEP_LIMIT'', ''REPLICATION_SLICE_PATHS'', ''REPLICATION_SLICE_BYTES'', ''REPLICATION_SLICE_MS'',
     ''REPLICATION_PASS_MAX_MS'', ''MAX_REPLICATION_FAILURES'', ''MAX_REPLICATIONS_PER_VOLUME'', ''REPLICATION_TIMEOUT_MS'']"

datatype config_warning = Bad_number string | Bypass_in_production | Hosts_in_production | Plain_key_in_production

text \<open>\<open>stage\<close> is \<open>getEnvironment\<close> of the class this one extends.\<close>

definition validate :: "app_env \<Rightarrow> string \<Rightarrow> config_warning list" where
  "validate ev stage =
     map Bad_number (filter (\<lambda>k. \<not> ev_validPositiveInt ev (ev_raw ev k)) numeric_keys)
     @ (if stage = ''production'' \<and> (getDevAuthEmail ev \<noteq> None \<or> isDemoMode ev) then [Bypass_in_production] else [])
     @ (if stage = ''production'' \<and> trim (getReplicationAllowedHosts ev) \<noteq> [] then [Hosts_in_production] else [])
     @ (if stage = ''production'' \<and> env_text ev ''REPLICATION_ENCRYPTION_KEY'' [] \<noteq> [] then [Plain_key_in_production] else [])"

subsection \<open>\<open>AccessAuthService.ts\<close>\<close>

definition demo_user_email :: string where "demo_user_email = ''demo@example.com''"

text \<open>\<open>isValidEmailFormat\<close> of \<open>@rexezuge/shared\<close> is \<open>valid_format\<close>.\<close>

definition isValidAuthEmail :: "(string \<Rightarrow> bool) \<Rightarrow> string \<Rightarrow> bool" where
  "isValidAuthEmail valid_format raw \<longleftrightarrow> raw \<noteq> [] \<and> \<not> list_ex is_ws raw \<and> valid_format raw"

record access_options =
  ao_bypassAllowed :: bool
  ao_isDemoMode :: bool
  ao_demoUserEmail :: string
  ao_devAuthEmail :: "string option"
  ao_teamDomain :: "string option"
  ao_policyAud :: "string option"

datatype access_failure = Access_denied string | Access_broken string

type_synonym access_lib = "request \<Rightarrow> string option \<Rightarrow> access_options \<Rightarrow> access_failure + string"

definition access_options_of :: "(string \<Rightarrow> bool) \<Rightarrow> app_env \<Rightarrow> access_options" where
  "access_options_of valid_format ev =
     (let configured = (case getDemoUserEmail ev of Some e \<Rightarrow> trim e | None \<Rightarrow> [])
      in \<lparr>ao_bypassAllowed = isBypassAllowed ev, ao_isDemoMode = isDemoMode ev,
          ao_demoUserEmail = (if configured \<noteq> [] \<and> isValidAuthEmail valid_format configured then to_lower configured else demo_user_email),
          ao_devAuthEmail = getDevAuthEmail ev, ao_teamDomain = getTeamDomain ev, ao_policyAud = getPolicyAud ev\<rparr>)"

text \<open>\<open>binding\<close> is what the platform's identity answers for the request, if it has one.\<close>

definition getAuthenticatedUserEmail ::
    "(string \<Rightarrow> bool) \<Rightarrow> access_lib \<Rightarrow> app_env \<Rightarrow> request \<Rightarrow> string option \<Rightarrow> access_failure + string" where
  "getAuthenticatedUserEmail valid_format access ev req binding = access req binding (access_options_of valid_format ev)"

subsection \<open>\<open>MiddlewareHandlers.ts\<close>\<close>

record identity =
  id_email :: string
  id_userId :: "string option"

datatype auth_refusal = Auth_status nat string

definition authenticateUserIdentity ::
    "'u user_lib \<Rightarrow> db_env \<Rightarrow> (string \<Rightarrow> bool) \<Rightarrow> access_lib \<Rightarrow> app_env \<Rightarrow> request \<Rightarrow> string option \<Rightarrow>
     'u user_world \<Rightarrow> 'u user_world \<times> (auth_refusal + identity)" where
  "authenticateUserIdentity lib env valid_format access ev req binding w =
     (case getAuthenticatedUserEmail valid_format access ev req binding of
        Inl (Access_denied m) \<Rightarrow> (w, Inl (Auth_status 401 m))
      | Inl (Access_broken _) \<Rightarrow> (w, Inl (Auth_status 500 ''Internal Server Error.''))
      | Inr email \<Rightarrow>
          (case upsertUser lib env email w of
             (w', Inr account) \<Rightarrow> (w', Inr \<lparr>id_email = email, id_userId = Some (ac_id account)\<rparr>)
           | (w', Inl (Forbidden m)) \<Rightarrow> (w', Inl (Auth_status 403 m))
           | (w', Inl _) \<Rightarrow> (w', Inl (Auth_status 500 ''Internal Server Error.''))))"

subsection \<open>\<open>rateLimitConfig.ts\<close>\<close>

text \<open>
  The table of limits. Which pattern matches which path is the router's business: \<open>matches\<close> is a
  parameter. The predicate that narrows the last row reads the path of the URL as it was sent.
\<close>

record rate_limit_def =
  rl_path :: string
  rl_windowMs :: nat
  rl_max :: nat
  rl_keyPrefix :: string
  rl_excludesReserved :: bool

definition firstSegment :: "string \<Rightarrow> string" where
  "firstSegment pathname = to_lower (takeWhile (\<lambda>c. c \<noteq> slash) (dropWhile ((=) slash) pathname))"

definition rate_limit_defs :: "rate_limit_def list" where
  "rate_limit_defs =
     [\<lparr>rl_path = ''/user/volumes/*'', rl_windowMs = 60000, rl_max = 60, rl_keyPrefix = ''volumes'', rl_excludesReserved = False\<rparr>,
      \<lparr>rl_path = ''/user/me/username'', rl_windowMs = 60000, rl_max = 10, rl_keyPrefix = ''username-rename'', rl_excludesReserved = False\<rparr>,
      \<lparr>rl_path = ''/user/me'', rl_windowMs = 60000, rl_max = 120, rl_keyPrefix = ''user-me'', rl_excludesReserved = False\<rparr>,
      \<lparr>rl_path = ''/users/*'', rl_windowMs = 60000, rl_max = 120, rl_keyPrefix = ''public-users'', rl_excludesReserved = False\<rparr>,
      \<lparr>rl_path = ''/:owner/:volume/*'', rl_windowMs = 60000, rl_max = 600, rl_keyPrefix = ''webdav'', rl_excludesReserved = True\<rparr>]"

text \<open>The buckets a request is charged to, in the order of the registration.\<close>

definition charged_buckets :: "(string \<Rightarrow> bool) \<Rightarrow> string \<Rightarrow> rate_limit_def list" where
  "charged_buckets matches pathname =
     filter (\<lambda>d. matches (rl_path d)
               \<and> \<not> (rl_excludesReserved d \<and> firstSegment pathname \<in> set reserved_namespace_names)) rate_limit_defs"

subsection \<open>Production and the bypasses\<close>

text \<open>What \<open>authenticateAccess\<close> documents: with no bypass allowed, the bypass settings are not looked at.\<close>

definition honours_bypass_flag :: "access_lib \<Rightarrow> bool" where
  "honours_bypass_flag access \<longleftrightarrow>
     (\<forall>req binding opts demo email dev. \<not> ao_bypassAllowed opts \<longrightarrow>
        access req binding (opts\<lparr>ao_isDemoMode := demo, ao_demoUserEmail := email, ao_devAuthEmail := dev\<rparr>) = access req binding opts)"

text \<open>
  In production nobody is let in by a development setting: two deployments that agree on
  \<open>ENVIRONMENT\<close>, \<open>TEAM_DOMAIN\<close> and \<open>POLICY_AUD\<close>, the first of which is production or unset, give every
  request the same identity, whatever \<open>DEMO_MODE\<close>, \<open>DEMO_USER_EMAIL\<close> and \<open>DEV_AUTH_EMAIL\<close> say.
\<close>

theorem production_ignores_the_bypasses:
  assumes "honours_bypass_flag access" and "getEnvironment ev = ''production''"
    and "\<forall>k\<in>{''ENVIRONMENT'', ''TEAM_DOMAIN'', ''POLICY_AUD''}. raw' k = ev_raw ev k"
  shows "authenticateUserIdentity lib env valid_format access (ev\<lparr>ev_raw := raw'\<rparr>) req binding w
       = authenticateUserIdentity lib env valid_format access ev req binding w"
proof -
  let ?ev = "ev\<lparr>ev_raw := raw'\<rparr>"
  let ?o = "access_options_of valid_format ev" and ?o' = "access_options_of valid_format ?ev"
  have "getEnvironment ?ev = ''production''"
    using assms(2,3) by (simp add: getEnvironment_def env_text_def)
  then have "?o' = ?o\<lparr>ao_isDemoMode := ao_isDemoMode ?o', ao_demoUserEmail := ao_demoUserEmail ?o', ao_devAuthEmail := ao_devAuthEmail ?o'\<rparr>"
    using assms(2,3)
    by (simp add: access_options_of_def Let_def isBypassAllowed_def getTeamDomain_def getPolicyAud_def set_text_def env_text_def)
  moreover have "\<not> ao_bypassAllowed ?o" using assms(2) by (simp add: access_options_of_def Let_def isBypassAllowed_def)
  ultimately have "access req binding ?o' = access req binding ?o"
    using assms(1) unfolding honours_bypass_flag_def by metis
  then show ?thesis by (simp add: authenticateUserIdentity_def getAuthenticatedUserEmail_def)
qed

theorem production_ignores_the_bypasses_witness:
  "let access = (\<lambda>req binding opts. if ao_bypassAllowed opts \<and> ao_isDemoMode opts then Inr (ao_demoUserEmail opts)
          else case binding of Some e \<Rightarrow> Inr e | None \<Rightarrow> Inl (Access_denied ''no''));
       raw = (\<lambda>k. if k = ''DEMO_MODE'' then Some ''true'' else None);
       ev = \<lparr>ev_raw = (\<lambda>_. None), ev_string = (\<lambda>v d. case v of Some s \<Rightarrow> s | None \<Rightarrow> d), ev_positiveInt = (\<lambda>_ _. 1),
         ev_boolean = (\<lambda>v d. v = Some ''true''), ev_validPositiveInt = (\<lambda>_. True)\<rparr>
   in \<forall>lib env req w. authenticateUserIdentity lib env (\<lambda>_. True) access (ev\<lparr>ev_raw := raw\<rparr>) req None w
    = authenticateUserIdentity lib env (\<lambda>_. True) access ev req None w"
  unfolding Let_def
proof (intro allI, rule production_ignores_the_bypasses)
  show "getEnvironment \<lparr>ev_raw = (\<lambda>_. None), ev_string = (\<lambda>v d. case v of Some s \<Rightarrow> s | None \<Rightarrow> d), ev_positiveInt = (\<lambda>_ _. 1),
         ev_boolean = (\<lambda>v d. v = Some ''true''), ev_validPositiveInt = (\<lambda>_. True)\<rparr> = ''production''"
    by code_simp
qed (auto simp: honours_bypass_flag_def)

subsection \<open>The WebDAV bucket and reserved names\<close>

text \<open>
  The WebDAV bucket is not charged for a path that begins with a reserved name as it was sent. An
  escaped letter hides the name from the predicate, though not from a router that decodes the path.
\<close>

lemma reserved_paths_are_not_webdav:
  "firstSegment pathname \<in> set reserved_namespace_names \<Longrightarrow>
     ''webdav'' \<notin> rl_keyPrefix ` set (charged_buckets matches pathname)"
  by (auto simp: charged_buckets_def rate_limit_defs_def)

lemma escaped_name_is_charged_twice:
  "map rl_keyPrefix (charged_buckets (\<lambda>p. p \<in> {''/user/volumes/*'', ''/:owner/:volume/*''}) ''/%75ser/volumes'')
     = [''volumes'', ''webdav'']"
proof -
  have "firstSegment ''/%75ser/volumes'' \<notin> set reserved_namespace_names" by code_simp
  then show ?thesis by (simp add: charged_buckets_def rate_limit_defs_def)
qed

end
