(* ===== verification/Run_Now.thy ===== *)
theory Run_Now
  imports Replica_Runs Replication_Safety
begin

section \<open>Running a replication from the dashboard\<close>

text \<open>
  \<open>RunReplicationNow\<close> and \<open>runReplicaSliceNow\<close> of \<open>apps/api/src/workers/routes/ReplicationRoutes.ts\<close>,
  after the guard of \<open>VolumeScopedRoute\<close> has found the volume: the run of \<open>Replica_Runner\<close>, started by
  a request. Where the platform offers \<open>waitUntil\<close> the run goes on after the answer, and its failure is
  swallowed; \<open>background\<close> says whether it does.
\<close>

datatype sync_answer = Sync_started | Sync_done run_status "string option" | Sync_error api_error

definition runReplicaSliceNow ::
    "runner_env \<Rightarrow> (string \<Rightarrow> 'l replica_stub) \<Rightarrow> (replication_row \<Rightarrow> database \<Rightarrow> string + 'r remote_volume) \<Rightarrow> string \<Rightarrow>
     ('l, 'r) world \<Rightarrow> ('l, 'r) world \<times> (api_error + run_result)" where
  "runReplicaSliceNow env stubs build replicationId w =
     (case replication_by_id (re_db env) replicationId (w_db w) of
        Inl e \<Rightarrow> (w, Inl (Database e))
      | Inr None \<Rightarrow> (w, Inl (Not_found ''Replication not found''))
      | Inr (Some replication) \<Rightarrow>
          (case volume_by_id (re_db env) (rr_volumeId replication) (w_db w) of
             Inl e \<Rightarrow> (w, Inl (Database e))
           | Inr None \<Rightarrow> (w, Inl (Not_found ''Volume not found''))
           | Inr (Some row) \<Rightarrow>
               (let key = normalizeVolumeKey (vr_owner row) (vr_name row)
                in case runSlice env (stubs key) build key replication w of (w', result) \<Rightarrow> (w', Inr result))))"

definition RunReplicationNow ::
    "target_env \<Rightarrow> runner_env \<Rightarrow> (string \<Rightarrow> 'l replica_stub) \<Rightarrow> (replication_row \<Rightarrow> database \<Rightarrow> string + 'r remote_volume) \<Rightarrow>
     bool \<Rightarrow> string \<Rightarrow> volume_row \<Rightarrow> ('l, 'r) world \<Rightarrow> ('l, 'r) world \<times> sync_answer" where
  "RunReplicationNow service env stubs build background replicationId row w =
     (case requireReplication service (vr_id row) replicationId (w_db w) of
        (db, Inl e) \<Rightarrow> (w\<lparr>w_db := db\<rparr>, Sync_error e)
      | (db, Inr _) \<Rightarrow>
          (case runReplicaSliceNow env stubs build replicationId (w\<lparr>w_db := db\<rparr>) of
             (w', outcome) \<Rightarrow>
               (w', if background then Sync_started
                    else case outcome of Inl e \<Rightarrow> Sync_error e | Inr result \<Rightarrow> Sync_done (res_status result) (res_error result))))"

text \<open>The row that the guard of a replication lets through.\<close>

lemma required_row:
  assumes "requireReplication service v i db = (db', Inr row)"
  shows "db' = db \<and> replication_by_id (sv_db (te_env service)) i db = Inr (Some row) \<and> rr_volumeId row = v \<and> rr_id row = i"
proof -
  have same: "map_sum f id r = Inr x \<longleftrightarrow> r = Inr x" for f :: "string \<Rightarrow> api_error" and r and x :: "replication_row option"
    by (cases r) auto
  have read: "db' = db" "replication_by_id (sv_db (te_env service)) i db = Inr (Some row)" "rr_volumeId row = v"
    using assms
    by (auto simp: requireReplication_def svc_bind_def svc_read_def svc_fail_def svc_value_def same split: sum.splits option.splits if_splits)
  then have "find (\<lambda>r. rr_id r = i) (db_replications db) = Some row"
    by (auto simp: replication_by_id_def db_read_def split: option.splits)
  with read show ?thesis by (simp add: find_Some_iff) blast
qed

text \<open>
  C31. Running a replication now is the scheduled run of it: for a target of the volume, the world it
  leaves is the one the sweep task leaves when that target is due, and the status it answers is the
  one the sweep counts. Only where the row of the volume has gone do the two part: the sweep deletes
  the orphan, the request leaves everything as it was and says that the volume is not found.
\<close>

theorem sync_now_is_the_scheduled_run:
  assumes "snd (requireReplication service (vr_id row) replicationId (w_db w)) = Inr due" and "sv_db (te_env service) = re_db env"
  shows "(volume_by_id (re_db env) (vr_id row) (w_db w) = Inr (Some found)
      \<longrightarrow> fst (RunReplicationNow service env stubs build background replicationId row w)
            = fst (run_one env (Some stubs) build due w)
        \<and> (\<exists>result. snd (run_one env (Some stubs) build due w) = Inr result
            \<and> snd (RunReplicationNow service env stubs build False replicationId row w)
                = Sync_done (res_status result) (res_error result)))
    \<and> (volume_by_id (re_db env) (vr_id row) (w_db w) = Inr None
      \<longrightarrow> RunReplicationNow service env stubs build False replicationId row w = (w, Sync_error (Not_found ''Volume not found''))
        \<and> w_db (fst (run_one env (Some stubs) build due w)) = fst (delete_replication_row (re_db env) replicationId (w_db w)))"
proof -
  obtain db where "requireReplication service (vr_id row) replicationId (w_db w) = (db, Inr due)"
    using assms(1) by (metis prod.collapse)
  with required_row [OF this] have read: "requireReplication service (vr_id row) replicationId (w_db w) = (w_db w, Inr due)"
    and row: "replication_by_id (re_db env) replicationId (w_db w) = Inr (Some due)" and own: "rr_volumeId due = vr_id row"
    and name: "rr_id due = replicationId"
    using assms(2) by auto
  show ?thesis
    using row own name
    by (simp add: RunReplicationNow_def runReplicaSliceNow_def run_one_def read Let_def split: prod.split option.split)
qed

definition now_service :: target_env where
  "now_service = lab_env\<lparr>te_env := (te_env lab_env)\<lparr>sv_db := quiet_db\<rparr>\<rparr>"

definition now_world :: "(mem_fs volume, mem_fs volume) world" where
  "now_world = \<lparr>w_db = sample_db ''pull-only'', w_sides = (left_volume, right_volume), w_purged = []\<rparr>"

theorem sync_now_is_the_scheduled_run_witness:
  "fst (RunReplicationNow now_service sample_runner (\<lambda>_. mem_stub) (buildRemote quiet_db (\<lambda>_. Inr mem_stub) (\<lambda>_. Inl ''no http''))
      True ''R'' (sample_volume_row ''V'' ''v'') now_world)
   = fst (run_one sample_runner (Some (\<lambda>_. mem_stub)) (buildRemote quiet_db (\<lambda>_. Inr mem_stub) (\<lambda>_. Inl ''no http''))
      (sample_replication ''pull-only'') now_world)"
proof -
  have due: "snd (requireReplication now_service (vr_id (sample_volume_row ''V'' ''v'')) ''R'' (w_db now_world))
      = Inr (sample_replication ''pull-only'')" by code_simp
  have db: "sv_db (te_env now_service) = re_db sample_runner" by (simp add: now_service_def sample_runner_def)
  have volume: "volume_by_id (re_db sample_runner) (vr_id (sample_volume_row ''V'' ''v'')) (w_db now_world)
      = Inr (Some (sample_volume_row ''V'' ''v''))" by code_simp
  from sync_now_is_the_scheduled_run [OF due db] volume show ?thesis by blast
qed

end
