(* ===== verification/Dashboard_Routes.thy ===== *)
theory Dashboard_Routes
  imports Configuration Volume_Move Replication_Service Run_Now Front_Door
begin

section \<open>The routes of the dashboard\<close>

text \<open>
  \<open>apps/api/src/workers/routes\<close>: \<open>VolumeScopedRoute.ts\<close>, \<open>VolumeRoutes.ts\<close>, \<open>CredentialRoutes.ts\<close>,
  \<open>ReplicationRoutes.ts\<close> (what \<open>RunReplicationNow\<close> does once it is let through is in \<open>Run_Now\<close>),
  \<open>VolumeBrowserRoutes.ts\<close>, the projections, and the parts of \<open>apps/api/src/endpoints/IBaseRoute.ts\<close>
  they use. A body is parsed by a parameter; an answer is its status and its payload, the fields of
  each object in order. \<open>Api_error\<close> stands for the envelope \<open>{Exception: {Type, Message}}\<close>.
\<close>

subsection \<open>\<open>IBaseRoute.ts\<close>\<close>

type_synonym fields = "(string \<times> json) list"

datatype json_document = Doc_null | Doc_primitive | Doc_object "(string \<times> json) list"

datatype api_payload = Volumes json_doc | Object "(string \<times> json) list" | Credentials "(string \<times> json) list list"
  | Replications "(string \<times> json) list list" "int list" | Replication "(string \<times> json) list"
  | Replication_detail "(string \<times> json) list" nat | Conflicts "(string \<times> json) list list"

datatype api_response = Api_json nat api_payload | Api_error nat string | Api_dav response

datatype read_json = Oversized | Malformed | Body json_document

definition max_json_body_bytes :: int where "max_json_body_bytes = 1048576"

definition readJson :: "(string \<Rightarrow> json_document option) \<Rightarrow> request \<Rightarrow> read_json" where
  "readJson parse req =
     (let declared = Option.bind (r_header req ''content-length'') js_number
      in if (case declared of Some n \<Rightarrow> n > of_int max_json_body_bytes | None \<Rightarrow> False) then Oversized
         else (case readCappedBody req max_json_body_bytes of
                 None \<Rightarrow> Oversized
               | Some bytes \<Rightarrow>
                   if trim bytes = [] then Body (Doc_object [])
                   else (case parse bytes of None \<Rightarrow> Malformed | Some doc \<Rightarrow> Body doc)))"

record ('fs, 'c, 'h) dash_env =
  dh_services :: service_env
  dh_targets :: target_env
  dh_objects :: "'fs move_env"
  dh_platform :: "'fs platform"
  dh_hop :: hop
  dh_kv :: "'c kv_cache"
  dh_parse :: "string \<Rightarrow> json_document option"
  dh_retryable :: "string \<Rightarrow> bool"
  dh_internalError :: string
  dh_runner :: runner_env
  dh_http :: "replication_row \<Rightarrow> string + 'h remote_volume"
  dh_waitUntil :: bool

record ('fs, 'c, 'h) dash =
  dw_db :: database
  dw_objects :: "'fs objects"
  dw_cache :: 'c
  dw_http :: 'h

type_synonym ('fs, 'c, 'h) dash_step = "('fs, 'c, 'h) dash \<Rightarrow> ('fs, 'c, 'h) dash \<times> api_response"

definition toErrorResponse :: "('fs, 'c, 'h) dash_env \<Rightarrow> api_error \<Rightarrow> api_response" where
  "toErrorResponse env e = (case api_status (dh_retryable env) e of (status, message) \<Rightarrow> Api_error status message)"

text \<open>An error that is not one of the service's own, as a \<open>TypeError\<close>.\<close>

definition unhandled :: "('fs, 'c, 'h) dash_env \<Rightarrow> api_response" where
  "unhandled env = Api_error 500 (dh_internalError env)"

definition with_body ::
    "('fs, 'c, 'h) dash_env \<Rightarrow> request \<Rightarrow> (json_document \<Rightarrow> ('fs, 'c, 'h) dash_step) \<Rightarrow> ('fs, 'c, 'h) dash_step" where
  "with_body env req k w =
     (case readJson (dh_parse env) req of
        Oversized \<Rightarrow> (w, Api_error 413 ''Payload too large'')
      | Malformed \<Rightarrow> (w, Api_error 400 ''Invalid JSON body'')
      | Body doc \<Rightarrow> k doc w)"

text \<open>The fields of a body; reading one of \<open>null\<close> throws.\<close>

definition with_fields ::
    "('fs, 'c, 'h) dash_env \<Rightarrow> request \<Rightarrow> ((string \<Rightarrow> json option) \<Rightarrow> ('fs, 'c, 'h) dash_step) \<Rightarrow> ('fs, 'c, 'h) dash_step" where
  "with_fields env req k = with_body env req (\<lambda>doc w.
     case doc of Doc_null \<Rightarrow> (w, unhandled env) | Doc_primitive \<Rightarrow> k (\<lambda>_. None) w | Doc_object fs \<Rightarrow> k (map_of fs) w)"

definition truthy :: "json option \<Rightarrow> bool" where
  "truthy v = (case v of None \<Rightarrow> False | Some Json_null \<Rightarrow> False | Some (Json_bool b) \<Rightarrow> b | Some (Json_num n) \<Rightarrow> n \<noteq> 0
     | Some (Json_str s) \<Rightarrow> s \<noteq> [] | Some Json_other \<Rightarrow> True)"

text \<open>A service call: its error is the answer, its value goes on.\<close>

definition with_service ::
    "('fs, 'c, 'h) dash_env \<Rightarrow> 'a svc \<Rightarrow> ('a \<Rightarrow> ('fs, 'c, 'h) dash_step) \<Rightarrow> ('fs, 'c, 'h) dash_step" where
  "with_service env m k w =
     (case m (dw_db w) of
        (db, Inl e) \<Rightarrow> (w\<lparr>dw_db := db\<rparr>, toErrorResponse env e)
      | (db, Inr a) \<Rightarrow> k a (w\<lparr>dw_db := db\<rparr>))"

definition answer :: "nat \<Rightarrow> api_payload \<Rightarrow> ('fs, 'c, 'h) dash_step" where
  "answer status payload w = (w, Api_json status payload)"

subsection \<open>The projections\<close>

definition json_int :: "int \<Rightarrow> json" where "json_int n = Json_num (of_int n)"
definition or_null :: "('a \<Rightarrow> json) \<Rightarrow> 'a option \<Rightarrow> json" where "or_null f v = (case v of None \<Rightarrow> Json_null | Some a \<Rightarrow> f a)"

definition toVolumeJson :: "volume_row \<Rightarrow> fields" where
  "toVolumeJson r =
     [(''owner'', Json_str (vr_owner r)), (''name'', Json_str (vr_name r)),
      (''fullName'', Json_str (vr_owner r @ ''/'' @ vr_name r)), (''description'', or_null Json_str (vr_description r)),
      (''isPrivate'', Json_bool (vr_isPrivate r = 1)),
      (''hrefPrefixMode'', Json_str (mode_text (readDavHrefPrefixMode (Some (vr_hrefPrefixMode r))))),
      (''href'', Json_str (''/'' @ vr_owner r @ ''/'' @ vr_name r @ ''/''))]"

definition toCredentialJson :: "credential_metadata \<Rightarrow> fields" where
  "toCredentialJson m =
     [(''credentialId'', Json_str (cm_id m)), (''name'', Json_str (cm_name m)), (''username'', Json_str (cm_username m)),
      (''passwordPrefix'', Json_str (cm_passwordPrefix m)), (''passwordLastFour'', Json_str (cm_passwordLastFour m)),
      (''createdAt'', json_int (cm_createdAt m)), (''expiresAt'', json_int (cm_expiresAt m)),
      (''lastUsedAt'', or_null json_int (cm_lastUsedAt m)), (''readOnly'', Json_bool (cm_readOnly m))]"

definition toCreatedCredentialJson :: "credential_metadata \<Rightarrow> string \<Rightarrow> fields" where
  "toCreatedCredentialJson m password =
     [(''credentialId'', Json_str (cm_id m)), (''name'', Json_str (cm_name m)), (''username'', Json_str (cm_username m)),
      (''password'', Json_str password), (''passwordPrefix'', Json_str (cm_passwordPrefix m)),
      (''passwordLastFour'', Json_str (cm_passwordLastFour m)), (''expiresAt'', json_int (cm_expiresAt m)),
      (''readOnly'', Json_bool (cm_readOnly m))]"

definition toReplicationJson :: "replication_row \<Rightarrow> fields" where
  "toReplicationJson r =
     [(''replicationId'', Json_str (rr_id r)), (''targetKind'', Json_str (rr_targetKind r)), (''remoteUrl'', Json_str (rr_remoteUrl r)),
      (''remoteOwner'', Json_str (rr_remoteOwner r)), (''remoteVolume'', Json_str (rr_remoteVolume r)),
      (''remotePath'', Json_str (rr_remotePath r)), (''authKind'', Json_str (rr_authKind r)), (''mode'', Json_str (rr_mode r)),
      (''mirrorDeletions'', Json_bool (rr_mirrorDeletions r = 1)), (''intervalMinutes'', json_int (rr_intervalMinutes r)),
      (''enabled'', Json_bool (rr_enabled r = 1)), (''lastRunAt'', or_null json_int (rr_lastRunAt r)),
      (''lastStatus'', or_null Json_str (rr_lastStatus r)), (''lastError'', or_null Json_str (rr_lastError r)),
      (''consecutiveFailures'', json_int (rr_consecutiveFailures r)),
      (''passInFlight'', Json_bool (rr_passStartedAt r \<noteq> None)), (''createdAt'', json_int (rr_createdAt r)),
      (''updatedAt'', json_int (rr_updatedAt r))]"

definition winner_text :: "winner \<Rightarrow> string" where
  "winner_text v = (case v of Local \<Rightarrow> ''local'' | Remote \<Rightarrow> ''remote'')"

definition kind_text :: "conflict_kind \<Rightarrow> string" where
  "kind_text k = (case k of Conflict \<Rightarrow> ''conflict'' | Deletion \<Rightarrow> ''deletion'')"

definition toConflictJson :: "conflict_entry \<Rightarrow> fields" where
  "toConflictJson r =
     [(''conflictId'', Json_str (cf_id r)), (''path'', Json_str (cf_path r)), (''winner'', Json_str (winner_text (cf_winner r))),
      (''keptPath'', or_null Json_str (cf_keptPath r)), (''kind'', Json_str (kind_text (cf_kind r))),
      (''detectedAt'', json_int (cf_detectedAt r)), (''resolvedAt'', or_null json_int (cf_resolvedAt r))]"

subsection \<open>\<open>VolumeScopedRoute.ts\<close>\<close>

text \<open>\<open>who\<close> is what the authentication stored on the request.\<close>

definition requireUser :: "identity option \<Rightarrow> api_response + identity" where
  "requireUser who =
     (case who of None \<Rightarrow> Inl (Api_error 401 ''Unauthorized'')
      | Some me \<Rightarrow> if id_email me = [] then Inl (Api_error 401 ''Unauthorized'')
                   else Inr (me\<lparr>id_email := to_lower (id_email me)\<rparr>))"

definition viewer_of :: "identity \<Rightarrow> viewer" where
  "viewer_of me = \<lparr>vw_userId = id_userId me, vw_email = id_email me\<rparr>"

definition volume_scoped ::
    "('fs, 'c, 'h) dash_env \<Rightarrow> nat \<Rightarrow> identity option \<Rightarrow> string \<Rightarrow> string \<Rightarrow> (identity \<Rightarrow> volume_row \<Rightarrow> ('fs, 'c, 'h) dash_step) \<Rightarrow>
     ('fs, 'c, 'h) dash_step" where
  "volume_scoped env notOwnerStatus who owner volume run w =
     (case requireUser who of
        Inl r \<Rightarrow> (w, r)
      | Inr me \<Rightarrow>
          with_service env (getVolume (dh_services env) (trim owner) (trim volume)) (\<lambda>found w.
            case found of
              None \<Rightarrow> (w, Api_error 404 ''Volume not found'')
            | Some row \<Rightarrow>
                if \<not> isVolumeOwner (Some (viewer_of me)) row
                then (w, if notOwnerStatus = 404 then Api_error 404 ''Volume not found'' else Api_error 403 ''Forbidden'')
                else run me row w) w)"

definition cache_owner :: "identity \<Rightarrow> string" where
  "cache_owner me = (case id_userId me of Some u \<Rightarrow> u | None \<Rightarrow> id_email me)"

subsection \<open>\<open>VolumeRoutes.ts\<close>\<close>

definition max_volumes_per_user :: nat where "max_volumes_per_user = 100"

definition listOwnedVolumes :: "service_env \<Rightarrow> identity \<Rightarrow> volume_row list svc" where
  "listOwnedVolumes env me =
     (let by_email = svc_read (listByOwnerEmail (sv_db env) (id_email me) max_volumes_per_user)
      in if present (id_userId me)
         then svc_catch (svc_read (listByOwnerUserId (sv_db env) (the (id_userId me)) max_volumes_per_user)) (\<lambda>_. by_email)
         else by_email)"

definition handleListVolumes :: "('fs, 'c, 'h) dash_env \<Rightarrow> identity option \<Rightarrow> ('fs, 'c, 'h) dash_step" where
  "handleListVolumes env who w =
     (case requireUser who of
        Inl r \<Rightarrow> (w, r)
      | Inr me \<Rightarrow>
          (case getCachedVolumeList (dh_kv env) (dw_cache w) (cache_owner me) of
             Some cached \<Rightarrow> answer 200 (Volumes cached) w
           | None \<Rightarrow>
               with_service env (listOwnedVolumes (dh_services env) me) (\<lambda>rows w.
                 let volumes = Json_list (map toVolumeJson rows)
                 in answer 200 (Volumes volumes)
                      (w\<lparr>dw_cache := putCachedVolumeList (dh_kv env) (cache_owner me) volumes (dw_cache w)\<rparr>)) w))"

definition VolumeDetail :: "identity \<Rightarrow> volume_row \<Rightarrow> ('fs, 'c, 'h) dash_step" where
  "VolumeDetail me row = answer 200 (Object (toVolumeJson row))"

definition forget_list :: "('fs, 'c, 'h) dash_env \<Rightarrow> identity \<Rightarrow> ('fs, 'c, 'h) dash \<Rightarrow> ('fs, 'c, 'h) dash" where
  "forget_list env me w = w\<lparr>dw_cache := invalidateVolumeListCache (dh_kv env) (cache_owner me) (dw_cache w)\<rparr>"

definition forget_content :: "('fs, 'c, 'h) dash_env \<Rightarrow> volume_row \<Rightarrow> ('fs, 'c, 'h) dash \<Rightarrow> ('fs, 'c, 'h) dash" where
  "forget_content env row w = w\<lparr>dw_cache := invalidateVolumeCaches (dh_kv env) (vr_owner row) (vr_name row) (dw_cache w)\<rparr>"

definition volume_fields :: "(string \<Rightarrow> json option) \<Rightarrow> volume_patch_input" where
  "volume_fields body = \<lparr>vi_description = body ''description'', vi_isPrivate = body ''isPrivate'',
     vi_hrefPrefixMode = body ''hrefPrefixMode''\<rparr>"

text \<open>\<open>'description' in body\<close> throws on anything that is not an object.\<close>

definition UpdateVolume :: "('fs, 'c, 'h) dash_env \<Rightarrow> request \<Rightarrow> identity \<Rightarrow> volume_row \<Rightarrow> ('fs, 'c, 'h) dash_step" where
  "UpdateVolume env req me row = with_body env req (\<lambda>doc w.
     case doc of
       Doc_object fs \<Rightarrow>
         (let patch = volume_fields (map_of fs);
              mode_changed = (case vi_hrefPrefixMode patch of None \<Rightarrow> False
                 | Some v \<Rightarrow> v \<noteq> Json_str (mode_text (readDavHrefPrefixMode (Some (vr_hrefPrefixMode row)))))
          in with_service env (updateVolume (dh_services env) (vr_owner row) (vr_name row) (viewer_of me) patch) (\<lambda>updated w.
               let w1 = forget_list env me w
               in answer 200 (Object (toVolumeJson updated)) (if mode_changed then forget_content env row w1 else w1)) w)
     | _ \<Rightarrow> (w, unhandled env))"

definition row_object :: "volume_row \<Rightarrow> string" where
  "row_object row = normalizeVolumeKey (vr_owner row) (vr_name row)"

definition DeleteVolume :: "('fs, 'c, 'h) dash_env \<Rightarrow> identity \<Rightarrow> volume_row \<Rightarrow> ('fs, 'c, 'h) dash_step" where
  "DeleteVolume env me row =
     with_service env (deleteVolume_service (dh_services env) (vr_owner row) (vr_name row)) (\<lambda>_ w.
       case rpc_purge (dh_objects env) (row_object row) (dw_objects w) of
         (ob, r) \<Rightarrow>
           answer 200 (Object [(''ok'', Json_bool True), (''doCleanupFailed'', Json_bool (case r of Inl _ \<Rightarrow> True | Inr _ \<Rightarrow> False))])
             (forget_content env row (forget_list env me (w\<lparr>dw_objects := ob\<rparr>))))"

text \<open>A value that is no string passes the check for presence and throws where the service trims it.\<close>

definition handleCreateVolume :: "('fs, 'c, 'h) dash_env \<Rightarrow> request \<Rightarrow> identity option \<Rightarrow> ('fs, 'c, 'h) dash_step" where
  "handleCreateVolume env req who w =
     (case requireUser who of
        Inl r \<Rightarrow> (w, r)
      | Inr me \<Rightarrow> with_fields env req (\<lambda>body w.
          if \<not> truthy (body ''owner'') \<or> \<not> truthy (body ''name'') then (w, Api_error 400 ''owner and name are required'')
          else (case (body ''owner'', body ''name'') of
                  (Some (Json_str owner), Some (Json_str name)) \<Rightarrow>
                    with_service env (createVolume (dh_services env) owner name (volume_fields body) (id_email me)) (\<lambda>created w.
                      answer 201 (Object (toVolumeJson created)) (forget_list env me w)) w
                | _ \<Rightarrow> (case parseVolumePatch (volume_fields body) of
                         Inl e \<Rightarrow> (w, toErrorResponse env e) | Inr _ \<Rightarrow> (w, unhandled env)))) w)"

subsection \<open>\<open>CredentialRoutes.ts\<close>\<close>

definition ListCredentials :: "('fs, 'c, 'h) dash_env \<Rightarrow> identity \<Rightarrow> volume_row \<Rightarrow> ('fs, 'c, 'h) dash_step" where
  "ListCredentials env me row =
     with_service env (listCredentials (dh_services env) (vr_id row)) (\<lambda>cs. answer 200 (Credentials (map toCredentialJson cs)))"

definition CreateCredential :: "('fs, 'c, 'h) dash_env \<Rightarrow> request \<Rightarrow> identity \<Rightarrow> volume_row \<Rightarrow> ('fs, 'c, 'h) dash_step" where
  "CreateCredential env req me row = with_fields env req (\<lambda>body w.
     if \<not> truthy (body ''name'') then (w, Api_error 400 ''name is required'')
     else with_service env
            (createCredential (dh_services env) (vr_id row) (vr_name row) (body ''name'') (body ''expiresInDays'') (body ''readOnly''))
            (\<lambda>(password, metadata). answer 201 (Object (toCreatedCredentialJson metadata password))) w)"

definition UpdateCredential :: "('fs, 'c, 'h) dash_env \<Rightarrow> request \<Rightarrow> string \<Rightarrow> identity \<Rightarrow> volume_row \<Rightarrow> ('fs, 'c, 'h) dash_step" where
  "UpdateCredential env req credentialId me row = with_fields env req (\<lambda>body w.
     case body ''readOnly'' of
       Some (Json_bool b) \<Rightarrow>
         with_service env (setCredentialReadOnly (dh_services env) (vr_id row) credentialId (Some (Json_bool b)))
           (\<lambda>updated. answer 200 (Object (toCredentialJson updated))) w
     | _ \<Rightarrow> (w, Api_error 400 ''readOnly must be a boolean''))"

definition ok_payload :: api_payload where "ok_payload = Object [(''ok'', Json_bool True)]"

definition DeleteCredential :: "('fs, 'c, 'h) dash_env \<Rightarrow> string \<Rightarrow> identity \<Rightarrow> volume_row \<Rightarrow> ('fs, 'c, 'h) dash_step" where
  "DeleteCredential env credentialId me row =
     with_service env (deleteCredential (dh_services env) (vr_id row) credentialId) (\<lambda>_. answer 200 ok_payload)"

subsection \<open>\<open>ReplicationRoutes.ts\<close>\<close>

definition ListReplications :: "('fs, 'c, 'h) dash_env \<Rightarrow> identity \<Rightarrow> volume_row \<Rightarrow> ('fs, 'c, 'h) dash_step" where
  "ListReplications env me row =
     with_service env (listReplications (dh_targets env) (vr_id row))
       (\<lambda>rows. answer 200 (Replications (map toReplicationJson rows) replication_intervals))"

text \<open>A body that is no object is read as an empty one.\<close>

definition lenient_fields :: "json_document \<Rightarrow> string \<Rightarrow> json option" where
  "lenient_fields doc = (case doc of Doc_object fs \<Rightarrow> map_of fs | _ \<Rightarrow> (\<lambda>_. None))"

definition toCreateInput :: "json_document \<Rightarrow> replication_input" where
  "toCreateInput doc =
     (let f = lenient_fields doc
      in \<lparr>ri_targetKind = f ''targetKind'', ri_remoteUrl = f ''remoteUrl'', ri_remoteOwner = f ''remoteOwner'',
          ri_remoteVolume = f ''remoteVolume'', ri_remotePath = f ''remotePath'', ri_authKind = f ''authKind'',
          ri_username = f ''username'', ri_secret = f ''secret'', ri_mode = f ''mode'',
          ri_mirrorDeletions = f ''mirrorDeletions'', ri_intervalMinutes = f ''intervalMinutes'', ri_enabled = f ''enabled''\<rparr>)"

definition CreateReplication :: "('fs, 'c, 'h) dash_env \<Rightarrow> request \<Rightarrow> identity \<Rightarrow> volume_row \<Rightarrow> ('fs, 'c, 'h) dash_step" where
  "CreateReplication env req me row = with_body env req (\<lambda>doc.
     with_service env (createReplication (dh_targets env) (vr_id row) (row_object row) (toCreateInput doc) (id_email me))
       (\<lambda>created. answer 201 (Replication (toReplicationJson created))))"

definition GetReplication :: "('fs, 'c, 'h) dash_env \<Rightarrow> string \<Rightarrow> identity \<Rightarrow> volume_row \<Rightarrow> ('fs, 'c, 'h) dash_step" where
  "GetReplication env replicationId me row =
     with_service env (requireReplication (dh_targets env) (vr_id row) replicationId) (\<lambda>replication.
       with_service env (countUnresolvedConflicts (dh_targets env) (vr_id row) (rr_id replication))
         (\<lambda>open. answer 200 (Replication_detail (toReplicationJson replication) open)))"

definition UpdateReplication :: "('fs, 'c, 'h) dash_env \<Rightarrow> request \<Rightarrow> string \<Rightarrow> identity \<Rightarrow> volume_row \<Rightarrow> ('fs, 'c, 'h) dash_step" where
  "UpdateReplication env req replicationId me row = with_body env req (\<lambda>doc.
     let f = lenient_fields doc
     in with_service env (updateReplication (dh_targets env) (vr_id row) replicationId
            \<lparr>rp_mode = f ''mode'', rp_mirrorDeletions = f ''mirrorDeletions'', rp_intervalMinutes = f ''intervalMinutes'',
             rp_enabled = f ''enabled''\<rparr>)
          (\<lambda>updated. answer 200 (Replication (toReplicationJson updated))))"

definition RotateReplicationSecret ::
    "('fs, 'c, 'h) dash_env \<Rightarrow> request \<Rightarrow> string \<Rightarrow> identity \<Rightarrow> volume_row \<Rightarrow> ('fs, 'c, 'h) dash_step" where
  "RotateReplicationSecret env req replicationId me row = with_body env req (\<lambda>doc.
     let f = lenient_fields doc
     in with_service env (rotateSecret (dh_targets env) (vr_id row) replicationId (f ''authKind'') (f ''username'') (f ''secret''))
          (\<lambda>updated. answer 200 (Replication (toReplicationJson updated))))"

text \<open>The stub is looked up outside the part whose failure is swallowed.\<close>

definition forgetReplicaState ::
    "('fs, 'c, 'h) dash_env \<Rightarrow> volume_row \<Rightarrow> string \<Rightarrow> 'fs objects \<Rightarrow> ('fs objects) option" where
  "forgetReplicaState env row replicationId ob =
     (if mv_hop (dh_objects env) (ob_calls ob) = No_binding then None
      else Some (fst (rpc (dh_objects env) (row_object row)
             (\<lambda>v. case forgetState (mv_sql (dh_objects env)) replicationId v of (v', Some e) \<Rightarrow> (v', Inl e) | (v', None) \<Rightarrow> (v', Inr ())) ob)))"

definition DeleteReplication :: "('fs, 'c, 'h) dash_env \<Rightarrow> string \<Rightarrow> identity \<Rightarrow> volume_row \<Rightarrow> ('fs, 'c, 'h) dash_step" where
  "DeleteReplication env replicationId me row =
     with_service env (deleteReplication (dh_targets env) (vr_id row) replicationId) (\<lambda>_ w.
       case forgetReplicaState env row replicationId (dw_objects w) of
         None \<Rightarrow> (w, unhandled env) | Some ob \<Rightarrow> answer 200 ok_payload (w\<lparr>dw_objects := ob\<rparr>))"

definition ListReplicationConflicts ::
    "('fs, 'c, 'h) dash_env \<Rightarrow> search_params \<Rightarrow> string \<Rightarrow> identity \<Rightarrow> volume_row \<Rightarrow> ('fs, 'c, 'h) dash_step" where
  "ListReplicationConflicts env query replicationId me row =
     with_service env (listConflicts (dh_targets env) (vr_id row) replicationId (map_of query ''includeResolved'' = Some ''true''))
       (\<lambda>cs. answer 200 (Conflicts (map toConflictJson cs)))"

definition ResolveReplicationConflict ::
    "('fs, 'c, 'h) dash_env \<Rightarrow> string \<Rightarrow> string \<Rightarrow> identity \<Rightarrow> volume_row \<Rightarrow> ('fs, 'c, 'h) dash_step" where
  "ResolveReplicationConflict env replicationId conflictId me row =
     with_service env (resolveConflict (dh_targets env) (vr_id row) replicationId conflictId)
       (\<lambda>resolved. answer 200 (Object [(''resolved'', Json_bool resolved)]))"

text \<open>
  A run works on the object of the volume and on its other side: the object of the sibling volume,
  which \<open>resolveTarget\<close> has seen to be another one, or the server behind the HTTP transport. What the
  run writes goes back to where it was taken from, and the cached reads it purged are gone.
\<close>

definition sibling_object :: "('fs, 'c, 'h) dash_env \<Rightarrow> string \<Rightarrow> database \<Rightarrow> string option" where
  "sibling_object env replicationId db =
     (case replication_by_id (re_db (dh_runner env)) replicationId db of
        Inr (Some r) \<Rightarrow> siblingVolumeKey r | _ \<Rightarrow> None)"

definition sync_response :: "('fs, 'c, 'h) dash_env \<Rightarrow> sync_answer \<Rightarrow> api_response" where
  "sync_response env a =
     (case a of
        Sync_started \<Rightarrow> Api_json 202 (Object [(''sync'', Json_str ''started'')])
      | Sync_done status message \<Rightarrow> Api_json 200 (Object [(''sync'', Json_str ''done''), (''status'', Json_str (status_text status)),
          (''error'', or_null Json_str message)])
      | Sync_error e \<Rightarrow> toErrorResponse env e)"

definition after_run ::
    "('fs, 'c, 'h) dash_env \<Rightarrow> string \<Rightarrow> ('fs volume, 'r) world \<Rightarrow> ('fs, 'c, 'h) dash \<Rightarrow> ('fs, 'c, 'h) dash" where
  "after_run env key done_world w =
     w\<lparr>dw_db := w_db done_world,
       dw_objects := (dw_objects w)\<lparr>ob_volumes := (ob_volumes (dw_objects w))(key := fst (w_sides done_world))\<rparr>,
       dw_cache := foldl (\<lambda>c k. invalidateDavVolumeCaches (dh_kv env) k c) (dw_cache w) (w_purged done_world)\<rparr>"

definition RunNow :: "('fs, 'c, 'h) dash_env \<Rightarrow> string \<Rightarrow> identity \<Rightarrow> volume_row \<Rightarrow> ('fs, 'c, 'h) dash_step" where
  "RunNow env replicationId me row w =
     (let key = row_object row; ob = ob_volumes (dw_objects w); db = re_db (dh_runner env);
          local = Replica_Remote.volume_stub (pf_dofs (dh_platform env)) (pf_sql (dh_platform env))
      in case sibling_object env replicationId (dw_db w) of
           Some other \<Rightarrow>
             (case RunReplicationNow (dh_targets env) (dh_runner env) (\<lambda>_. local) (buildRemote db (\<lambda>_. Inr local) (\<lambda>_. Inl []))
                     (dh_waitUntil env) replicationId row \<lparr>w_db = dw_db w, w_sides = (ob key, ob other), w_purged = []\<rparr> of
                (w1, a) \<Rightarrow>
                  (let w2 = after_run env key w1 w
                   in (w2\<lparr>dw_objects := (dw_objects w2)\<lparr>ob_volumes := (ob_volumes (dw_objects w2))(other := snd (w_sides w1))\<rparr>\<rparr>,
                       sync_response env a)))
         | None \<Rightarrow>
             (case RunReplicationNow (dh_targets env) (dh_runner env) (\<lambda>_. local) (buildRemote db (\<lambda>_. Inl []) (dh_http env))
                     (dh_waitUntil env) replicationId row \<lparr>w_db = dw_db w, w_sides = (ob key, dw_http w), w_purged = []\<rparr> of
                (w1, a) \<Rightarrow> ((after_run env key w1 w)\<lparr>dw_http := snd (w_sides w1)\<rparr>, sync_response env a)))"

subsection \<open>\<open>VolumeBrowserRoutes.ts\<close>\<close>

definition bad_destination :: "destination_failure \<Rightarrow> api_response" where
  "bad_destination d = (if d = Cross_origin then Api_error 502 ''Cross-origin Destination'' else Api_error 400 ''Invalid Destination'')"

text \<open>The request the volume gets: rebuilt on the base of the volume, with the headers of the session.\<close>

definition browser_forward ::
    "('fs, 'c, 'h) dash_env \<Rightarrow> request \<Rightarrow> search_params \<Rightarrow> identity \<Rightarrow> volume_row \<Rightarrow> string \<Rightarrow> string option \<Rightarrow> request" where
  "browser_forward env req query me row origin destination =
     (let davBase = ''/'' @ vr_owner row @ ''/'' @ vr_name row; inner = innerFromPath (r_pathname req);
          url = origin @ davBase @ ''/'' @ inner
      in req\<lparr>r_url := url,
             r_pathname := (case pf_url (dh_platform env) url None of Some (_, p) \<Rightarrow> p | None \<Rightarrow> davBase @ ''/'' @ inner),
             r_header := applyDavForwardHeaders (r_header req)
               \<lparr>fo_base = davBase, fo_inner = inner, fo_hrefPrefixMode = readDavHrefPrefixMode (Some (vr_hrefPrefixMode row)),
                fo_userEmail = Some (id_email me), fo_destination = destination, fo_pageParams = readPageParams query\<rparr>,
             r_body := (if allowsBody (r_method req) then r_body req else None)\<rparr>)"

definition browser_fetch ::
    "('fs, 'c, 'h) dash_env \<Rightarrow> request \<Rightarrow> volume_row \<Rightarrow> ('fs, 'c, 'h) dash_step" where
  "browser_fetch env forward row w =
     (let key = row_object row; ob = dw_objects w
      in case Front_Door.volume_stub (dh_hop env) (dh_platform env) forward (ob_volumes ob key) of
           (r, v) \<Rightarrow>
             (let w1 = w\<lparr>dw_objects := ob\<lparr>ob_volumes := (ob_volumes ob)(key := v)\<rparr>\<rparr>
              in case r of
                   Inl _ \<Rightarrow> (w1, unhandled env)
                 | Inr res \<Rightarrow> (if invalidatesReadCache (r_method forward) then forget_content env row w1 else w1, Api_dav res)))"

definition BrowserVolumeRoute ::
    "('fs, 'c, 'h) dash_env \<Rightarrow> request \<Rightarrow> search_params \<Rightarrow> identity \<Rightarrow> volume_row \<Rightarrow> ('fs, 'c, 'h) dash_step" where
  "BrowserVolumeRoute env req query me row w =
     (let davBase = ''/'' @ vr_owner row @ ''/'' @ vr_name row; header = r_header req ''Destination'';
          destination = resolveDestination_front (pf_url (dh_platform env)) header (r_url req) davBase
            (readDavHrefPrefixMode (Some (vr_hrefPrefixMode row)))
      in if r_method req \<notin> set supportMethods then (w, Api_dav method_not_allowed)
         else if dh_hop env = No_binding then (w, unhandled env)
         else (case pf_url (dh_platform env) (r_url req) None of
                 None \<Rightarrow> (w, unhandled env)
               | Some (origin, _) \<Rightarrow>
                   (case destination of
                      Inl d \<Rightarrow> if header \<noteq> None then (w, bad_destination d)
                               else browser_fetch env (browser_forward env req query me row origin None) row w
                    | Inr target \<Rightarrow> browser_fetch env (browser_forward env req query me row origin (Some target)) row w)))"

subsection \<open>The registered routes\<close>

text \<open>
  What each \<open>register...Routes\<close> function registers below \<open>/user/volumes\<close>, by method and the decoded
  segments after it; \<open>None\<close> is a path without a route.
\<close>

definition credential_routes ::
    "('fs, 'c, 'h) dash_env \<Rightarrow> request \<Rightarrow> identity option \<Rightarrow> string \<Rightarrow> string \<Rightarrow> string list \<Rightarrow> ('fs, 'c, 'h) dash_step option" where
  "credential_routes env req who owner volume deeper =
     (let forbidden = (\<lambda>run. Some (volume_scoped env 403 who owner volume run)); method = r_method req
      in case deeper of
        [] \<Rightarrow> if method = ''GET'' then forbidden (ListCredentials env)
              else if method = ''POST'' then forbidden (CreateCredential env req) else None
      | [i] \<Rightarrow> if method = ''PATCH'' then forbidden (UpdateCredential env req i)
               else if method = ''DELETE'' then forbidden (DeleteCredential env i) else None
      | _ \<Rightarrow> None)"

definition replication_routes ::
    "('fs, 'c, 'h) dash_env \<Rightarrow> request \<Rightarrow> search_params \<Rightarrow> identity option \<Rightarrow> string \<Rightarrow> string \<Rightarrow> string list \<Rightarrow> ('fs, 'c, 'h) dash_step option" where
  "replication_routes env req query who owner volume deeper =
     (let hidden = (\<lambda>run. Some (volume_scoped env 404 who owner volume run)); method = r_method req
      in case deeper of
        [] \<Rightarrow> if method = ''GET'' then hidden (ListReplications env)
              else if method = ''POST'' then hidden (CreateReplication env req) else None
      | [i] \<Rightarrow> if method = ''GET'' then hidden (GetReplication env i)
               else if method = ''PATCH'' then hidden (UpdateReplication env req i)
               else if method = ''DELETE'' then hidden (DeleteReplication env i) else None
      | [i, what] \<Rightarrow> if method = ''POST'' \<and> what = ''credential'' then hidden (RotateReplicationSecret env req i)
               else if method = ''POST'' \<and> what = ''run'' then hidden (RunNow env i)
               else if method = ''GET'' \<and> what = ''conflicts'' then hidden (ListReplicationConflicts env query i) else None
      | [i, what, c, doing] \<Rightarrow> if method = ''POST'' \<and> what = ''conflicts'' \<and> doing = ''resolve''
               then hidden (ResolveReplicationConflict env i c) else None
      | _ \<Rightarrow> None)"

definition browser_routes ::
    "('fs, 'c, 'h) dash_env \<Rightarrow> request \<Rightarrow> search_params \<Rightarrow> identity option \<Rightarrow> string \<Rightarrow> string \<Rightarrow> ('fs, 'c, 'h) dash_step option" where
  "browser_routes env req query who owner volume =
     (if r_method req \<in> set supportMethods then Some (volume_scoped env 404 who owner volume (BrowserVolumeRoute env req query))
      else None)"

definition volume_routes ::
    "('fs, 'c, 'h) dash_env \<Rightarrow> request \<Rightarrow> search_params \<Rightarrow> identity option \<Rightarrow> string \<Rightarrow> string \<Rightarrow> string list \<Rightarrow> ('fs, 'c, 'h) dash_step option" where
  "volume_routes env req query who owner volume rest =
     (let forbidden = (\<lambda>run. Some (volume_scoped env 403 who owner volume run)); method = r_method req
      in case rest of
        [] \<Rightarrow> if method = ''GET'' then forbidden VolumeDetail
              else if method = ''PATCH'' then forbidden (UpdateVolume env req)
              else if method = ''DELETE'' then forbidden (DeleteVolume env) else None
      | part # deeper \<Rightarrow>
          if part = ''files'' then browser_routes env req query who owner volume
          else if part = ''credentials'' then credential_routes env req who owner volume deeper
          else if part = ''replications'' then replication_routes env req query who owner volume deeper
          else None)"

text \<open>The routes of the list of volumes, and those of one volume.\<close>

definition user_route ::
    "('fs, 'c, 'h) dash_env \<Rightarrow> request \<Rightarrow> search_params \<Rightarrow> identity option \<Rightarrow> string list \<Rightarrow> ('fs, 'c, 'h) dash_step option" where
  "user_route env req query who segments =
     (case segments of
        [] \<Rightarrow> if r_method req = ''GET'' then Some (handleListVolumes env who)
              else if r_method req = ''POST'' then Some (handleCreateVolume env req who) else None
      | owner # volume # rest \<Rightarrow> volume_routes env req query who owner volume rest
      | _ \<Rightarrow> None)"

end
