(* ===== verification/Dashboard_Safety.thy ===== *)
theory Dashboard_Safety
  imports Dashboard_Routes Replication_Safety Rename_Safety
begin

section \<open>What the dashboard lets a caller see and do\<close>

text \<open>
  Correctness of \<open>Dashboard_Routes\<close>: every route below a volume is guarded, so a stranger changes
  nothing and, on the planes that hide volumes, cannot tell a volume of another account from one
  that does not exist; and no listing depends on a stored secret.
\<close>

subsection \<open>The guard\<close>

lemma read_step: "with_service env (svc_read q) k w =
    (case q (dw_db w) of Inl e \<Rightarrow> (w, toErrorResponse env (Database e)) | Inr a \<Rightarrow> k a w)"
  by (simp add: with_service_def svc_read_def split: sum.split)

definition guarded ::
    "('fs, 'c, 'h) dash_env \<Rightarrow> identity option \<Rightarrow> string \<Rightarrow> string \<Rightarrow> string list \<Rightarrow> ('fs, 'c, 'h) dash_step \<Rightarrow> bool" where
  "guarded env who owner volume rest step \<longleftrightarrow>
     (\<exists>status run. step = volume_scoped env status who owner volume run \<and> status \<in> {403, 404}
        \<and> (status = 403 \<longrightarrow> rest = [] \<or> hd rest = ''credentials''))"

lemma guarded_403: "rest = [] \<or> hd rest = ''credentials'' \<Longrightarrow> guarded env who owner volume rest (volume_scoped env 403 who owner volume run)"
  unfolding guarded_def by blast

lemma guarded_404: "guarded env who owner volume rest (volume_scoped env 404 who owner volume run)"
  unfolding guarded_def by (intro exI [of _ 404] exI [of _ run]) simp

lemmas route_defs = volume_routes_def credential_routes_def replication_routes_def browser_routes_def Let_def

lemma guarded_route: "volume_routes env req query who owner volume rest = Some step \<Longrightarrow> guarded env who owner volume rest step"
  by (auto simp: route_defs guarded_403 guarded_404 split: list.splits if_splits)

definition owns :: "('fs, 'c, 'h) dash_env \<Rightarrow> identity option \<Rightarrow> string \<Rightarrow> string \<Rightarrow> ('fs, 'c, 'h) dash \<Rightarrow> bool" where
  "owns env who owner volume w \<longleftrightarrow>
     (\<exists>me row. requireUser who = Inr me \<and> isVolumeOwner (Some (viewer_of me)) row
        \<and> getByOwnerName (sv_db (dh_services env)) (trim owner) (trim volume) (dw_db w) = Inr (Some row))"

text \<open>
  C16. A caller who does not own a volume gets no further than the guard, on any route below it: nothing
  changes and the answer is an error. On the routes of the file browser and of replication a caller
  who is signed in gets the same 404 whether the volume belongs to someone else or does not exist.
\<close>

theorem strangers_get_no_further_than_the_guard:
  assumes "volume_routes env req query who owner volume rest = Some step" and "\<not> owns env who owner volume w"
  shows "fst (step w) = w \<and> (\<exists>status message. snd (step w) = Api_error status message \<and> 400 \<le> status)
    \<and> (rest \<noteq> [] \<and> hd rest \<noteq> ''credentials'' \<and> requireUser who = Inr me
       \<and> getByOwnerName (sv_db (dh_services env)) (trim owner) (trim volume) (dw_db w) = Inr found
       \<longrightarrow> snd (step w) = Api_error 404 ''Volume not found'')"
proof -
  obtain status run where step: "step = volume_scoped env status who owner volume run" "status \<in> {403, 404}"
    and hidden: "status = 403 \<longrightarrow> rest = [] \<or> hd rest = ''credentials''"
    using guarded_route [OF assms(1)] unfolding guarded_def by blast
  have status: "400 \<le> fst (api_status (dh_retryable env) e)" for e by (simp add: api_status_def split: api_error.split)
  show ?thesis
  proof (cases "requireUser who")
    case (Inl r)
    then have "\<exists>m. r = Api_error 401 m" by (auto simp: requireUser_def split: option.splits if_splits)
    with Inl show ?thesis by (auto simp: step volume_scoped_def)
  next
    case (Inr user)
    show ?thesis
    proof (cases "getByOwnerName (sv_db (dh_services env)) (trim owner) (trim volume) (dw_db w)")
      case (Inl e)
      then show ?thesis
        using Inr status [of "Database e"]
        by (simp add: step volume_scoped_def getVolume_def read_step toErrorResponse_def split_beta)
    next
      case found: (Inr row)
      have "\<not> isVolumeOwner (Some (viewer_of user)) r" if "row = Some r" for r
        using assms(2) Inr found that by (auto simp: owns_def)
      then show ?thesis
        using Inr found step(2) hidden
        by (auto simp: step(1) volume_scoped_def getVolume_def read_step split: option.split)
    qed
  qed
qed

subsection \<open>Secrets\<close>

definition without_secret :: "replication_row \<Rightarrow> replication_row" where
  "without_secret r = r\<lparr>rr_encryptedSecret := None, rr_secretIv := None\<rparr>"

definition without_hash :: "credential_row \<Rightarrow> credential_row" where
  "without_hash r = r\<lparr>cr_passwordHash := []\<rparr>"

definition without_secrets :: "database \<Rightarrow> database" where
  "without_secrets db = db\<lparr>db_credentials := map without_hash (db_credentials db),
     db_replications := map without_secret (db_replications db)\<rparr>"

lemma ins_by_map: "\<forall>a b. cmp (f a) (f b) = cmp a b \<Longrightarrow> ins_by cmp (f x) (map f xs) = map f (ins_by cmp x xs)"
  by (induction xs) auto

lemma sort_by_map: "\<forall>a b. cmp (f a) (f b) = cmp a b \<Longrightarrow> sort_by cmp (map f xs) = map f (sort_by cmp xs)"
  by (induction xs) (auto simp: ins_by_map)

lemma find_map: "find P (map f xs) = map_option f (find (\<lambda>x. P (f x)) xs)"
  by (induction xs) auto

lemma blind_fields [simp]:
  "toMetadata (without_hash c) = toMetadata c" "cr_volumeId (without_hash c) = cr_volumeId c" "cr_createdAt (without_hash c) = cr_createdAt c"
  "toReplicationJson (without_secret r) = toReplicationJson r" "rr_id (without_secret r) = rr_id r"
  "rr_volumeId (without_secret r) = rr_volumeId r" "rr_createdAt (without_secret r) = rr_createdAt r"
  by (simp_all add: without_hash_def without_secret_def toMetadata_def toReplicationJson_def)

lemma blind_reads [simp]:
  "getByOwnerName env owner name (without_secrets db) = getByOwnerName env owner name db"
  "listByOwnerUserId env u n (without_secrets db) = listByOwnerUserId env u n db"
  "listByOwnerEmail env e n (without_secrets db) = listByOwnerEmail env e n db"
  "listByReplication env i b n (without_secrets db) = listByReplication env i b n db"
  "countUnresolved env i (without_secrets db) = countUnresolved env i db"
  "credentials_of_volume env v (without_secrets db) = credentials_of_volume env v db"
  "replications_of_volume env v (without_secrets db) = map_sum id (map without_secret) (replications_of_volume env v db)"
  "replication_by_id env i (without_secrets db) = map_sum id (map_option without_secret) (replication_by_id env i db)"
  by (simp_all add: without_secrets_def getByOwnerName_def listByOwnerUserId_def listByOwnerEmail_def listByReplication_def
      countUnresolved_def credentials_of_volume_def replications_of_volume_def replication_by_id_def db_read_def
      filter_map comp_def sort_by_map descending_def ascending_def find_map split: option.split)

definition blind :: "('fs, 'c, 'h) dash \<Rightarrow> ('fs, 'c, 'h) dash" where
  "blind w = w\<lparr>dw_db := without_secrets (dw_db w)\<rparr>"

lemma blind_world [simp]:
  "dw_db (blind w) = without_secrets (dw_db w)" "dw_objects (blind w) = dw_objects w" "dw_cache (blind w) = dw_cache w"
  by (simp_all add: blind_def)

lemma scoped_blind:
  assumes "\<And>me row w. snd (run me row (blind w)) = snd (run me row w)"
  shows "snd (volume_scoped env status who owner volume run (blind w)) = snd (volume_scoped env status who owner volume run w)"
  using assms by (simp add: volume_scoped_def getVolume_def read_step split: sum.split option.split)

lemma requireReplication_read:
  "requireReplication env v i db = (db, case replication_by_id (sv_db (te_env env)) i db of
     Inl e \<Rightarrow> Inl (Database e) | Inr None \<Rightarrow> Inl (Not_found ''Replication not found'')
   | Inr (Some row) \<Rightarrow> if rr_volumeId row \<noteq> v then Inl (Not_found ''Replication not found'') else Inr row)"
  by (simp add: requireReplication_def svc_bind_def svc_read_def svc_fail_def svc_value_def split: sum.split option.split)

lemma requireReplication_blind [simp]:
  "requireReplication env v i (without_secrets db) =
     (without_secrets db, map_sum id without_secret (snd (requireReplication env v i db)))"
  by (simp add: requireReplication_read split: sum.split option.split)

lemma required_reads: "fst (requireReplication env v i db) = db"
  by (simp add: requireReplication_read)

lemma conflict_reads_blind:
  "snd (listConflicts env v i b (without_secrets db)) = snd (listConflicts env v i b db)"
  "snd (countUnresolvedConflicts env v i (without_secrets db)) = snd (countUnresolvedConflicts env v i db)"
  by (cases "snd (requireReplication env v i db)"; cases "requireReplication env v i db";
      use required_reads [of env v i db] in \<open>simp add: listConflicts_def countUnresolvedConflicts_def svc_bind_def svc_read_def\<close>)+

lemma answer_blind [simp]: "snd (answer n p w) = Api_json n p" by (simp add: answer_def)

lemma service_blind:
  assumes "snd (m (without_secrets (dw_db w))) = map_sum id f (snd (m (dw_db w)))"
    and "\<And>a v v'. snd (k (f a) v) = snd (k a v')"
  shows "snd (with_service env m k (blind w)) = snd (with_service env m k w)"
  using assms by (cases "m (without_secrets (dw_db w))"; cases "m (dw_db w)") (auto simp: with_service_def split: sum.splits)

lemma listings_blind:
  "snd (VolumeDetail me row (blind w)) = snd (VolumeDetail me row w)"
  "snd (ListCredentials env me row (blind w)) = snd (ListCredentials env me row w)"
  "snd (ListReplications env me row (blind w)) = snd (ListReplications env me row w)"
  "snd (ListReplicationConflicts env query i me row (blind w)) = snd (ListReplicationConflicts env query i me row w)"
  "snd (BrowserVolumeRoute env req query me row (blind w)) = snd (BrowserVolumeRoute env req query me row w)"
  "snd (handleListVolumes env who (blind w)) = snd (handleListVolumes env who w)"
proof -
  show "snd (VolumeDetail me row (blind w)) = snd (VolumeDetail me row w)" by (simp add: VolumeDetail_def)
  show "snd (ListCredentials env me row (blind w)) = snd (ListCredentials env me row w)"
    by (simp add: ListCredentials_def listCredentials_def read_step split: sum.split)
  show "snd (ListReplications env me row (blind w)) = snd (ListReplications env me row w)"
    by (simp add: ListReplications_def listReplications_def read_step comp_def split: sum.split)
  show "snd (ListReplicationConflicts env query i me row (blind w)) = snd (ListReplicationConflicts env query i me row w)"
    unfolding ListReplicationConflicts_def by (rule service_blind [where f = id]) (simp_all add: conflict_reads_blind sum.map_id)
  show "snd (BrowserVolumeRoute env req query me row (blind w)) = snd (BrowserVolumeRoute env req query me row w)"
    by (simp add: BrowserVolumeRoute_def browser_fetch_def Let_def split_beta split: option.split sum.split)
  show "snd (handleListVolumes env who (blind w)) = snd (handleListVolumes env who w)"
    by (simp add: handleListVolumes_def listOwnedVolumes_def Let_def with_service_def svc_catch_def svc_read_def
        split: sum.split option.split)
qed

lemma detail_blind: "snd (GetReplication env i me row (blind w)) = snd (GetReplication env i me row w)"
proof (cases "snd (requireReplication (dh_targets env) (vr_id row) i (dw_db w))")
  case (Inl e)
  then show ?thesis
    by (cases "requireReplication (dh_targets env) (vr_id row) i (dw_db w)") (simp add: GetReplication_def with_service_def)
next
  case (Inr r)
  have read: "requireReplication (dh_targets env) (vr_id row) i (dw_db w) = (dw_db w, Inr r)"
    using Inr required_reads by (intro prod_eqI) simp_all
  have "snd (with_service env (countUnresolvedConflicts (dh_targets env) (vr_id row) (rr_id r))
          (\<lambda>open. answer 200 (Replication_detail (toReplicationJson r) open)) (blind w))
      = snd (with_service env (countUnresolvedConflicts (dh_targets env) (vr_id row) (rr_id r))
          (\<lambda>open. answer 200 (Replication_detail (toReplicationJson r) open)) w)"
    by (rule service_blind [where f = id]) (simp_all add: conflict_reads_blind sum.map_id)
  then show ?thesis by (simp add: GetReplication_def with_service_def [of env "requireReplication _ _ _"] read blind_def)
qed

text \<open>
  C17. No secret can be read off the dashboard: whatever a \<open>GET\<close> shows a caller is the same for two
  databases that differ only in password hashes and in sealed replication credentials.
\<close>

theorem no_listing_shows_a_secret:
  assumes "user_route env req query who segments = Some step" and "r_method req = ''GET''"
    and "without_secrets (dw_db w) = without_secrets (dw_db w')" and "dw_objects w = dw_objects w'" and "dw_cache w = dw_cache w'"
    and "dw_http w = dw_http w'"
  shows "snd (step w) = snd (step w')"
proof -
  have "snd (step (blind v)) = snd (step v)" for v
    using assms(1,2)
    by (auto simp: user_route_def route_defs listings_blind detail_blind intro!: scoped_blind
        split: list.splits if_splits)
  moreover have "blind w = blind w'" using assms(3-6) by (simp add: blind_def)
  ultimately show ?thesis by metis
qed

subsection \<open>A small dashboard\<close>

definition dash_lab_env :: "(mem_fs, list_cache, unit) dash_env" where
  "dash_lab_env = \<lparr>dh_services = te_env lab_env, dh_targets = lab_env, dh_objects = move_lab (\<lambda>n. Answered),
     dh_platform = sample_platform, dh_hop = Answered, dh_kv = list_kv, dh_parse = (\<lambda>s. None), dh_retryable = (\<lambda>e. False),
     dh_internalError = ''Internal'',
     dh_runner = sample_runner, dh_http = (\<lambda>_. Inl ''no http''), dh_waitUntil = True\<rparr>"

definition dash_lab_credential :: "string \<Rightarrow> credential_row" where
  "dash_lab_credential hash = \<lparr>cr_id = ''c'', cr_volumeId = ''v1'', cr_username = ''me'', cr_passwordHash = hash,
     cr_name = ''phone'', cr_passwordPrefix = ''pw'', cr_passwordLastFour = ''pw'', cr_createdAt = 1, cr_expiresAt = 9,
     cr_lastUsedAt = None, cr_readOnly = Some 1\<rparr>"

definition dash_lab :: "string \<Rightarrow> string option \<Rightarrow> (mem_fs, list_cache, unit) dash" where
  "dash_lab hash secret = \<lparr>dw_db = lab_db\<lparr>db_credentials := [dash_lab_credential hash],
     db_replications := [lab_row\<lparr>rr_encryptedSecret := secret\<rparr>]\<rparr>, dw_objects = lab_objects, dw_cache = ([], []), dw_http = ()\<rparr>"

definition dash_request :: "string \<Rightarrow> request" where
  "dash_request m = \<lparr>r_method = m, r_url = ''https://host/user/volumes'', r_pathname = ''/user/volumes'', r_header = Map.empty,
     r_body = None\<rparr>"

definition dash_user :: "string \<Rightarrow> identity option" where
  "dash_user email = Some \<lparr>id_email = email, id_userId = None\<rparr>"

theorem strangers_get_no_further_than_the_guard_witness:
  "(case volume_routes dash_lab_env (dash_request ''POST'') [] (dash_user ''x'') ''me'' ''one'' [''replications'', ''r1'', ''run''] of
      None \<Rightarrow> False
    | Some step \<Rightarrow> fst (step (dash_lab ''h'' None)) = dash_lab ''h'' None
        \<and> snd (step (dash_lab ''h'' None)) = Api_error 404 ''Volume not found'')"
proof -
  let ?rest = "[''replications'', ''r1'', ''run'']"
  obtain step where step: "volume_routes dash_lab_env (dash_request ''POST'') [] (dash_user ''x'') ''me'' ''one'' ?rest = Some step"
    by (simp add: route_defs dash_request_def)
  have db: "getByOwnerName (sv_db (dh_services dash_lab_env)) (trim ''me'') (trim ''one'') (dw_db (dash_lab ''h'' None))
      = Inr (Some (lab_volume ''v1'' ''one''))" by code_simp
  have user: "requireUser (dash_user ''x'') = Inr \<lparr>id_email = ''x'', id_userId = None\<rparr>" by code_simp
  have "\<not> isVolumeOwner (Some (viewer_of \<lparr>id_email = ''x'', id_userId = None\<rparr>)) (lab_volume ''v1'' ''one'')" by code_simp
  then have "\<not> owns dash_lab_env (dash_user ''x'') ''me'' ''one'' (dash_lab ''h'' None)"
    by (simp add: owns_def db user)
  from strangers_get_no_further_than_the_guard [OF step this, of _ "Some (lab_volume ''v1'' ''one'')"] show ?thesis
    by (simp add: step db user)
qed

theorem no_listing_shows_a_secret_witness:
  "(case user_route dash_lab_env (dash_request ''GET'') [] (dash_user ''m'') [''me'', ''one'', ''credentials''] of
      None \<Rightarrow> False | Some step \<Rightarrow> snd (step (dash_lab ''h1'' None)) = snd (step (dash_lab ''h2'' (Some ''s''))))"
proof -
  let ?segments = "[''me'', ''one'', ''credentials'']"
  obtain step where step: "user_route dash_lab_env (dash_request ''GET'') [] (dash_user ''m'') ?segments = Some step"
    by (simp add: user_route_def route_defs dash_request_def)
  have "snd (step (dash_lab ''h1'' None)) = snd (step (dash_lab ''h2'' (Some ''s'')))"
    by (rule no_listing_shows_a_secret [OF step])
       (simp_all add: dash_request_def dash_lab_def without_secrets_def without_hash_def without_secret_def dash_lab_credential_def)
  then show ?thesis by (simp add: step)
qed

end
