(* ===== verification/Spec2Isabelle.thy ===== *)
theory Spec2Isabelle
  imports Replica_Safety Range_Paging Method_Findings Replica_Passes Replica_Transfers Volume_Safety Replication_Safety
    Forward_Safety Html_Choice Rename_Safety Remote_Safety Dashboard_Safety Run_Now
begin

text \<open>
  A verification of Durable-DAV, a WebDAV server that keeps each volume in a Durable Object of
  its own, and of its scheduled replication between volumes. All paths are relative to \<open>src/\<close>.

  The program has four parts. The volume worker (\<open>apps/background/src/DavVolumeWorker.ts\<close> and
  \<open>apps/background/src/dav/\<close>) answers the WebDAV methods over a filesystem (the package dofs) and
  a metadata store of four tables (\<open>packages/dav-store\<close>), with the protocol in
  \<open>packages/webdav\<close>. The replication engine lists two volumes in slices
  (\<open>apps/background/src/replication/collectSlice.ts\<close>), decides on a plan
  (\<open>packages/backend-services/src/replication\<close>), executes it (\<open>PlanExecutor.ts\<close>,
  \<open>planTransfers.ts\<close>) and records the outcome (\<open>ReplicationRunner.ts\<close>). The control database
  (\<open>packages/backend-data/src/dao\<close>) holds volumes, credentials and replication targets. In front of
  them the API worker (\<open>apps/api/src\<close>) authenticates WebDAV requests, serves reads from a cache and
  forwards the rest to the volume, and answers the dashboard, whose rules are the services of
  \<open>packages/backend-services/src\<close>.

  Conventions. A string is a list of bytes (UTF-8), or of code units where the source compares
  or cuts them; the two agree on ASCII. A call that may throw returns a sum, \<open>Inl\<close> the message,
  and hands back the state it left. Parameters stand for code that is not under \<open>src/\<close>: the
  filesystem (record \<open>dofs\<close> of Repository), URL parsing (\<open>url_parser\<close>), DOM parsing and
  serialising (\<open>xml_lib\<close>), \<open>Date.parse\<close>, JSON parsing, SHA-256 and PBKDF2 (\<open>hash_lib\<close>), random
  identifiers, the identity package (\<open>user_lib\<close>), the verification of a sign-in token
  (\<open>access_lib\<close>), the key-value cache (\<open>kv_cache\<close>), the egress policy and the server of an HTTP
  target (\<open>http_target\<close>), whether a call to a Durable Object is answered, lost before or lost after
  it was carried out (\<open>hop\<close>), which derivations are in flight at the verifier object
  (\<open>ae_inflight\<close>), the path matcher of the router (an argument of \<open>charged_buckets\<close>), and which
  statement of a database fails (\<open>sql_env\<close>, \<open>db_env\<close>). Awaits are otherwise not interleaved: each
  request of a Durable Object runs to its end, and the clock is a value of the environment.

  What is asked of the parameters is named in the property that needs it. Of dofs: that a written
  file reads back (\<open>reads_back\<close>), that files at different valid paths do not disturb each other
  (\<open>files_apart\<close>) and that a listing names the files there are (\<open>lists_files\<close>); a call that throws
  may leave anything behind. Of the key-value cache: only that it returns nothing that was not put
  (\<open>kv_lawful\<close>); purges may be incomplete and reads stale.

  The theories, in the order they build on each other.

  \<^item> Prelude: strings as JavaScript handles them, lists by index, sorting by a comparator
    (locale \<open>strict_comparator\<close>), tables as lists of rows with a key (\<open>upsert\<close>).
  \<^item> Dav_Path (\<open>path.ts\<close>, \<open>DavContext.ts\<close>, \<open>davHref.ts\<close>), Http (\<open>body.ts\<close>, \<open>etag.ts\<close>,
    \<open>constants.ts\<close>), Range_Paging (\<open>RangeParser.ts\<close>, \<open>listing.ts\<close>, \<open>PropfindPaging.ts\<close>),
    Dav_Conditions (\<open>locks.ts\<close>, \<open>DavConditionalGuard.ts\<close>) and Xml (\<open>xml.ts\<close>, \<open>multistatus.ts\<close>):
    the protocol, with round trips of hrefs, \<open>If\<close> headers and escaped text and the bounds of
    ranges, pages and bodies.
  \<^item> Store: the metadata tables of a volume (\<open>meta.ts\<close>, \<open>replication.ts\<close>) with their invariant
    (every table keyed) and the exactness of the cascades, stated by the segments of the paths.
  \<^item> Lock_Guard (\<open>DavLockGuard.ts\<close>, \<open>lockRows.ts\<close>), Repository (\<open>DavRepository.ts\<close>,
    \<open>davReadPolicy.ts\<close>, \<open>VolumeTransfer.ts\<close>), Write_Methods, Prop_Methods, Copy_Move_Methods,
    Lock_Methods and Volume_Worker: one theory per file of handlers, and the dispatch.
  \<^item> Memory_Fs: a filesystem in memory that discharges the laws asked of dofs. Method_Safety,
    Lock_Safety, Lock_History and Method_Findings: what the handlers guarantee, the history of
    locks as a step relation with its invariant, and behaviour that departs from the protocol.
  \<^item> Replica_Evidence and Replica_Plan (\<open>evidence.ts\<close>, \<open>buildReplicationPlan.ts\<close>): the three-way
    decision as a pure function; Replica_Safety: what may be deleted, written and deferred.
  \<^item> Replica_Sweep (\<open>collectSlice.ts\<close>, \<open>replicaListing.ts\<close>, \<open>replicaBase.ts\<close>, \<open>sweepWindow.ts\<close>):
    one slice of the sweep; Sweep_Coverage: over fixed listings the slices are consecutive
    pieces of one pre-order walk, which reaches every collection.
  \<^item> Replica_Volume (\<open>VolumeReplicationRpc.ts\<close>, \<open>replicaOperations.ts\<close>) and Replica_Remote
    (\<open>RemoteVolume.ts\<close>, \<open>DavVolumeRemote.ts\<close>): the two sides of a replication as records of
    functions on their states. Replica_Exec (\<open>planTransfers.ts\<close>, \<open>PlanExecutor.ts\<close>): actions on
    the pair of states.
  \<^item> Control_Db (\<open>DavVolumeDAO.ts\<close>, \<open>DavCredentialDAO.ts\<close>, \<open>NamespaceDAO.ts\<close>) and Replication_Db
    (\<open>DavReplicationDAO.ts\<close>, \<open>replicationPassSql.ts\<close>, \<open>DavReplicationConflictDAO.ts\<close>): rows,
    statements, constraints.
  \<^item> Replica_Runner (\<open>ReplicationRunner.ts\<close>, \<open>buildRemote.ts\<close>, \<open>ReplicationSyncTask.ts\<close>): a run
    from the row of a target to its recorded outcome. Replica_Run_Safety (locale
    \<open>kept_relation\<close>: what a run that issues no write to one side preserves of it), Replica_Base
    (the recorded base is exactly what both sides showed, where both answered), Replica_Runs (runs on two volumes in
    memory, and findings), Replica_Passes (status, cursor and failure counter over runs) and
    Replica_Transfers (batches and deliveries).
  \<^item> Base64, Credential_Hash (\<open>DavCredentialUtil.ts\<close>, \<open>CredentialShardUtil.ts\<close>), Verdict_Cache
    (\<open>credentialMemo.ts\<close>, \<open>CredentialVerifierDO.ts\<close>; locale \<open>verdict_cache\<close>) and Dav_Auth
    (\<open>DavAuth.ts\<close>, \<open>credentialVerifier.ts\<close>, \<open>volumeOwnership.ts\<close>): who may do what to a volume over
    WebDAV; Auth_Safety proves the decision sound along every history of requests and exact but
    for the races of a derivation in flight, which it keeps track of.
  \<^item> Api_Input (\<open>naming.ts\<close>, \<open>VolumeCreatePolicy.ts\<close>), Volume_Services (\<open>VolumeService.ts\<close>,
    \<open>VolumeCredentialService.ts\<close>), Replication_Service (\<open>VolumeReplicationService.ts\<close> and its
    inputs) and User_Service (\<open>UserService.ts\<close>, \<open>usernameRules.ts\<close>): the services, as functions from
    a database to a database and an error or a value. Service_Rules, Volume_Safety,
    Replication_Safety and Rename_Safety: what each leaves of the rows, and that configuration
    stays typed.
  \<^item> Read_Cache (\<open>DavReadCache.ts\<close>), Dav_Forward (\<open>davForwardHeaders.ts\<close>, \<open>davDestination.ts\<close>) and
    Front_Door (\<open>DavRoutes.ts\<close>, \<open>DavReadServing.ts\<close>): the WebDAV front door. Cache_Safety (locale
    over a volume stub and its source), Front_Safety (cached reads along histories of requests)
    and Forward_Safety (what the volume is told). Html_Choice (\<open>acceptsHtml.ts\<close>).
  \<^item> Volume_Move (\<open>VolumeMove.ts\<close>, the rename of \<open>UserRoutes.ts\<close>) and Move_Safety: the data of the
    volumes follows a rename, or stays where it was.
  \<^item> Http_Remote (\<open>DavHttpRemote.ts\<close>, \<open>davHttpProtocol.ts\<close>, \<open>recursiveDelete.ts\<close>) and Remote_Safety: a
    third-party server as the remote side, its redirects and its recursive delete.
  \<^item> Configuration (\<open>AppConfiguration.ts\<close> and its sections, \<open>AccessAuthService.ts\<close>,
    \<open>MiddlewareHandlers.ts\<close>, \<open>rateLimitConfig.ts\<close>), Dashboard_Routes (the routes below
    \<open>/user/volumes\<close>, the immediate run of a replication among them), Run_Now (what that run is) and
    Dashboard_Safety: the guard of
    the dashboard and what its answers depend on.

  Termination and bounds. The sweep (\<open>sweep_loop\<close>) terminates by the number of collections it may
  still visit, the budget the source passes in. The other loops are structural, on a list or on a
  bound of the source's own: fifty candidates for a username (\<open>max_handle_attempts\<close>), five draws of a
  credential's username, the redirect budget of a request, and 65 levels of a recursive delete
  (\<open>max_remove_depth\<close> and the root), all with the outcome the source has when the bound is reached.
  No definition uses fuel of its own.

  Not modelled: the web client, the maintenance scripts, the registration of routes and middleware
  and the wiring of dependencies, the profile handlers of \<open>UserRoutes.ts\<close>, the security headers, the
  cron worker and the pruning of expired credentials; localised messages are a parameter. Quotas
  and streams are what the filesystem parameter makes of them. The workers that delete the members
  of a remote collection eight at a time are taken in order.
\<close>

end
